(* ===== verification/Rust_Prelude.thy ===== *)
theory Rust_Prelude
  imports Main "HOL-Library.Word" "HOL-Library.Monad_Syntax"
begin

text \<open>
  The vocabulary every component shares. The decoder is written in Rust; its machine types,
  slices and panics are modelled here once:
  \<^item> \<open>u8\<close> .. \<open>u64\<close> are words of their width, so \<open>+\<close> and \<open>-\<close> wrap as they do in the
    release profile of the crate;
  \<^item> \<open>i32\<close> values are integers, and every operation that can leave the range is followed by
    \<open>i32\<close>, which wraps into \<open>-2^31 ..< 2^31\<close>;
  \<^item> \<open>usize\<close> values (64 bit) are natural numbers: they are lengths and offsets of slices;
  \<^item> a slice is a list, and every access goes through \<open>get\<close>, \<open>put\<close>, \<open>slice\<close> or
    \<open>overwrite\<close>, which are \<open>None\<close> where the Rust code panics. A computation that can
    panic has an \<open>option\<close> type and is composed by the library's \<open>do\<close> notation.
\<close>

unbundle bit_operations_syntax

type_synonym u8 = "8 word"
type_synonym u16 = "16 word"
type_synonym u32 = "32 word"
type_synonym u64 = "64 word"

text \<open>Facts that hold of a slice access that did not panic, and facts on bit sequences.\<close>

named_theorems slice_simps \<open>when a slice access succeeds and what it returns\<close>
named_theorems stream_laws \<open>how the operations of the bit reader act on the bit stream\<close>

subsection \<open>Integers\<close>

definition i32 :: "int \<Rightarrow> int" where
  "i32 x = (x + 2147483648) mod 4294967296 - 2147483648"

definition usize_of_i32 :: "int \<Rightarrow> nat" where
  "usize_of_i32 x = nat (x mod 18446744073709551616)"

text \<open>Arithmetic on \<open>usize\<close> wraps at \<open>2^64\<close>. An \<open>isize\<close> is cast like an \<open>i32\<close>.\<close>

definition wrap_usize :: "nat \<Rightarrow> nat" where
  "wrap_usize n = n mod 18446744073709551616"

definition usize_sub :: "nat \<Rightarrow> nat \<Rightarrow> nat" where
  "usize_sub a b = nat ((int a - int b) mod 18446744073709551616)"

abbreviation usize_of_isize :: "int \<Rightarrow> nat" where
  "usize_of_isize \<equiv> usize_of_i32"

text \<open>A shift of a \<open>u64\<close> and of a \<open>u32\<close>: the release profile masks the distance.\<close>

definition shr64 :: "u64 \<Rightarrow> u32 \<Rightarrow> u64" where
  "shr64 x n = drop_bit (unat (n AND 63)) x"

definition shl64 :: "u64 \<Rightarrow> u32 \<Rightarrow> u64" where
  "shl64 x n = push_bit (unat (n AND 63)) x"

definition shr32 :: "u32 \<Rightarrow> u32 \<Rightarrow> u32" where
  "shr32 x n = drop_bit (unat (n AND 31)) x"

definition shl32 :: "u32 \<Rightarrow> u32 \<Rightarrow> u32" where
  "shl32 x n = push_bit (unat (n AND 31)) x"

text \<open>A left shift of an \<open>i32\<close>, and the conversions of an \<open>i32\<close> to \<open>u8\<close>, \<open>u16\<close> and \<open>u32\<close>.\<close>

definition shl_i32 :: "int \<Rightarrow> int \<Rightarrow> int" where
  "shl_i32 x n = i32 (x * 2 ^ nat (n mod 32))"

abbreviation u32_of_i32 :: "int \<Rightarrow> u32" where
  "u32_of_i32 x \<equiv> word_of_int x"

lemma i32_id [simp]: "-2147483648 \<le> x \<Longrightarrow> x < 2147483648 \<Longrightarrow> i32 x = x"
  by (simp add: i32_def)

lemma i32_range: "-2147483648 \<le> i32 x \<and> i32 x < 2147483648"
proof -
  have "0 \<le> (x + 2147483648) mod 4294967296" "(x + 2147483648) mod 4294967296 < 4294967296"
    by simp_all
  then show ?thesis unfolding i32_def by linarith
qed

lemma usize_of_i32_nonneg [simp]: "0 \<le> x \<Longrightarrow> x < 2147483648 \<Longrightarrow> usize_of_i32 x = nat x"
  by (simp add: usize_of_i32_def)

lemma usize_sub_le [simp]: "b \<le> a \<Longrightarrow> a < 18446744073709551616 \<Longrightarrow> usize_sub a b = a - b"
  by (simp add: usize_sub_def flip: of_nat_diff)

lemma wrap_usize_less [simp]: "n < 18446744073709551616 \<Longrightarrow> wrap_usize n = n"
  by (simp add: wrap_usize_def)

lemma and_mask6 [simp]: "unat n < 64 \<Longrightarrow> unat ((n::u32) AND 63) = unat n"
proof -
  assume "unat n < 64"
  have "unat (n AND 63) = unat (take_bit 6 n)"
    by (simp add: take_bit_eq_mask mask_eq_exp_minus_1)
  also have "\<dots> = take_bit 6 (unat n)" by (simp add: unsigned_take_bit_eq)
  also have "\<dots> = unat n" using \<open>unat n < 64\<close> by (simp add: take_bit_nat_eq_self)
  finally show ?thesis .
qed

lemma and_mask5 [simp]: "unat n < 32 \<Longrightarrow> unat ((n::u32) AND 31) = unat n"
proof -
  assume "unat n < 32"
  have "unat (n AND 31) = unat (take_bit 5 n)"
    by (simp add: take_bit_eq_mask mask_eq_exp_minus_1)
  also have "\<dots> = take_bit 5 (unat n)" by (simp add: unsigned_take_bit_eq)
  also have "\<dots> = unat n" using \<open>unat n < 32\<close> by (simp add: take_bit_nat_eq_self)
  finally show ?thesis .
qed

lemma shr64_drop [simp]: "unat n < 64 \<Longrightarrow> shr64 x n = drop_bit (unat n) x"
  by (simp add: shr64_def)

lemma shl64_push [simp]: "unat n < 64 \<Longrightarrow> shl64 x n = push_bit (unat n) x"
  by (simp add: shl64_def)

lemma shr32_drop [simp]: "unat n < 32 \<Longrightarrow> shr32 x n = drop_bit (unat n) x"
  by (simp add: shr32_def)

lemma shl32_push [simp]: "unat n < 32 \<Longrightarrow> shl32 x n = push_bit (unat n) x"
  by (simp add: shl32_def)

lemma unat_ucast_u8: "unat (ucast (x :: u8) :: u32) = unat x"
proof -
  have "unat x < 2 ^ 32" by (rule order_less_trans [OF unsigned_less]) simp
  then show ?thesis by (simp add: unsigned_ucast_eq take_bit_nat_eq_self)
qed

lemma unat_ucast_u16: "unat (ucast (x :: u16) :: u32) = unat x"
proof -
  have "unat x < 2 ^ 32" by (rule order_less_trans [OF unsigned_less]) simp
  then show ?thesis by (simp add: unsigned_ucast_eq take_bit_nat_eq_self)
qed

subsection \<open>Slices\<close>

definition get :: "'a list \<Rightarrow> nat \<Rightarrow> 'a option" where
  "get xs i = (if i < length xs then Some (xs ! i) else None)"

definition put :: "'a list \<Rightarrow> nat \<Rightarrow> 'a \<Rightarrow> 'a list option" where
  "put xs i v = (if i < length xs then Some (xs[i := v]) else None)"

definition slice :: "'a list \<Rightarrow> nat \<Rightarrow> nat \<Rightarrow> 'a list option" where
  "slice xs a b = (if a \<le> b \<and> b \<le> length xs then Some (take (b - a) (drop a xs)) else None)"

definition slice_from :: "'a list \<Rightarrow> nat \<Rightarrow> 'a list option" where
  "slice_from xs a = (if a \<le> length xs then Some (drop a xs) else None)"

text \<open>
  Accesses at an index computed as \<open>isize\<close>. A negative one is, as \<open>usize\<close>, above the size of any
  slice, so the access panics.
\<close>

definition get_at :: "'a list \<Rightarrow> int \<Rightarrow> 'a option" where
  "get_at xs i = (if 0 \<le> i then get xs (nat i) else None)"

definition put_at :: "'a list \<Rightarrow> int \<Rightarrow> 'a \<Rightarrow> 'a list option" where
  "put_at xs i v = (if 0 \<le> i then put xs (nat i) v else None)"

text \<open>\<open>xs[a .. a + len].clone_from_slice(ys)\<close>, which needs \<open>len = length ys\<close>.\<close>

definition overwrite :: "'a list \<Rightarrow> nat \<Rightarrow> 'a list \<Rightarrow> 'a list option" where
  "overwrite xs a ys =
     (if a + length ys \<le> length xs then Some (take a xs @ ys @ drop (a + length ys) xs) else None)"

text \<open>\<open>assert!(b)\<close>.\<close>

definition rassert :: "bool \<Rightarrow> unit option" where
  "rassert b = (if b then Some () else None)"

lemma get_Some [slice_simps]: "i < length xs \<Longrightarrow> get xs i = Some (xs ! i)"
  by (simp add: get_def)

lemma get_eq_Some [slice_simps]: "get xs i = Some v \<longleftrightarrow> i < length xs \<and> v = xs ! i"
  by (auto simp: get_def)

lemma put_Some [slice_simps]: "i < length xs \<Longrightarrow> put xs i v = Some (xs[i := v])"
  by (simp add: put_def)

lemma put_eq_Some [slice_simps]: "put xs i v = Some ys \<longleftrightarrow> i < length xs \<and> ys = xs[i := v]"
  by (auto simp: put_def)

lemma get_at_Some [slice_simps]: "0 \<le> i \<Longrightarrow> nat i < length xs \<Longrightarrow> get_at xs i = Some (xs ! nat i)"
  by (simp add: get_at_def get_def)

lemma get_at_eq_Some [slice_simps]:
  "get_at xs i = Some v \<longleftrightarrow> 0 \<le> i \<and> nat i < length xs \<and> v = xs ! nat i"
  by (auto simp: get_at_def get_def)

lemma put_at_Some [slice_simps]:
  "0 \<le> i \<Longrightarrow> nat i < length xs \<Longrightarrow> put_at xs i v = Some (xs[nat i := v])"
  by (simp add: put_at_def put_def)

lemma put_at_eq_Some [slice_simps]:
  "put_at xs i v = Some ys \<longleftrightarrow> 0 \<le> i \<and> nat i < length xs \<and> ys = xs[nat i := v]"
  by (auto simp: put_at_def put_def)

lemma slice_Some [slice_simps]:
  "a \<le> b \<Longrightarrow> b \<le> length xs \<Longrightarrow> slice xs a b = Some (take (b - a) (drop a xs))"
  by (simp add: slice_def)

lemma slice_eq_Some [slice_simps]:
  "slice xs a b = Some ys \<longleftrightarrow> a \<le> b \<and> b \<le> length xs \<and> ys = take (b - a) (drop a xs)"
  by (auto simp: slice_def)

lemma slice_from_Some [slice_simps]: "a \<le> length xs \<Longrightarrow> slice_from xs a = Some (drop a xs)"
  by (simp add: slice_from_def)

lemma slice_from_append [slice_simps]: "slice_from (xs @ ys) (length xs) = Some ys"
  by (simp add: slice_from_def)

lemma overwrite_eq_Some [slice_simps]:
  "overwrite xs a ys = Some zs \<longleftrightarrow>
     a + length ys \<le> length xs \<and> zs = take a xs @ ys @ drop (a + length ys) xs"
  by (auto simp: overwrite_def)

lemma length_overwrite: "overwrite xs a ys = Some zs \<Longrightarrow> length zs = length xs"
  by (auto simp: overwrite_def split: if_splits)

lemma nth_overwrite:
  "overwrite xs a ys = Some zs \<Longrightarrow> i < length xs \<Longrightarrow>
     zs ! i = (if a \<le> i \<and> i < a + length ys then ys ! (i - a) else xs ! i)"
  by (auto simp: overwrite_def nth_append min_def split: if_splits)

lemma rassert_eq_Some [simp]: "rassert b = Some u \<longleftrightarrow> b"
  by (simp add: rassert_def)

lemma rassert_bind [simp]: "(rassert b \<bind> f) = (if b then f () else None)"
  by (simp add: rassert_def)

subsection \<open>Words as sequences of bits\<close>

text \<open>
  The value of the first \<open>n\<close> bits of a word, which is what the decoder's masks compute, as
  a number and as a list of bits, least significant first.
\<close>

definition bits_of_word :: "nat \<Rightarrow> 'a::len word \<Rightarrow> bool list" where
  "bits_of_word n w = map (bit w) [0..<n]"

definition word_of_bits :: "bool list \<Rightarrow> 'a::len word" where
  "word_of_bits bs = horner_sum of_bool 2 bs"

lemma length_bits_of_word [simp]: "length (bits_of_word n w) = n"
  by (simp add: bits_of_word_def)

lemma bit_word_of_bits:
  "bit (word_of_bits bs :: 'a::len word) i \<longleftrightarrow> i < LENGTH('a) \<and> i < length bs \<and> bs ! i"
  by (simp add: word_of_bits_def bit_horner_sum_bit_iff)

lemma word_of_bits_eq_iff:
  fixes w :: "'a::len word"
  assumes "length bs \<le> LENGTH('a)"
  shows "w = word_of_bits bs \<longleftrightarrow> (\<forall>i < LENGTH('a). bit w i = (i < length bs \<and> bs ! i))"
  using assms by (auto simp: bit_eq_iff bit_word_of_bits)

lemma word_of_bits_append:
  "(word_of_bits (xs @ ys) :: 'a::len word) = word_of_bits xs OR push_bit (length xs) (word_of_bits ys)"
  by (rule bit_eqI) (auto simp: bit_simps bit_word_of_bits nth_append not_less)

lemma word_of_bits_split:
  "(word_of_bits (take (m + n) bs) :: 'a::len word) =
     word_of_bits (take m bs) OR push_bit m (word_of_bits (take n (drop m bs)))"
proof (cases "m \<le> length bs")
  case True
  then show ?thesis by (simp add: take_add word_of_bits_append min_def)
next
  case False
  then show ?thesis by (simp add: word_of_bits_def)
qed

lemma unat_word_of_bits_less:
  assumes "length bs \<le> n" "n < LENGTH('a)"
  shows "unat (word_of_bits bs :: 'a::len word) < 2 ^ n"
proof -
  let ?w = "word_of_bits bs :: 'a word"
  have "take_bit n ?w = ?w"
    using assms by (auto simp: bit_eq_iff bit_word_of_bits bit_take_bit_iff)
  then have "unat ?w = take_bit n (unat ?w)" by (metis unsigned_take_bit_eq)
  then show ?thesis by (metis take_bit_nat_less_exp)
qed

end
