(* ===== verification/Bit_Reader.thy ===== *)
theory Bit_Reader
  imports Rust_Prelude
begin

text \<open>
  The bit reader, \<open>src/bit_reader/mod.rs\<close>. Its state is a 64-bit accumulator with a read
  position in it and a window \<open>next_in\<close>, \<open>avail_in\<close> into the caller's input slice, which
  every operation receives as an argument. The abstraction is the sequence of bits that are
  still to be read; the lemmas say what each operation does to that sequence.
\<close>

subsection \<open>Data\<close>

definition BROTLI_SHORT_FILL_BIT_WINDOW_READ :: u32 where
  "BROTLI_SHORT_FILL_BIT_WINDOW_READ = 4"

text \<open>\<open>size_of::<reg_t>()\<close> for \<open>type reg_t = u64\<close>.\<close>

definition size_of_reg_t :: nat where
  [simp]: "size_of_reg_t = 8"

definition kBitMask :: "u32 list" where
  "kBitMask =
    [0x0000, 0x00000001, 0x00000003, 0x00000007, 0x0000000F, 0x0000001F, 0x0000003F, 0x0000007F,
     0x000000FF, 0x000001FF, 0x000003FF, 0x000007FF, 0x00000FFF, 0x00001FFF, 0x00003FFF, 0x00007FFF,
     0x0000FFFF, 0x0001FFFF, 0x0003FFFF, 0x0007FFFF, 0x000FFFFF, 0x001FFFFF, 0x003FFFFF, 0x007FFFFF,
     0x00FFFFFF, 0x01FFFFFF, 0x03FFFFFF, 0x07FFFFFF, 0x0FFFFFFF, 0x1FFFFFFF, 0x3FFFFFFF, 0x7FFFFFFF,
     0xFFFFFFFF]"

definition BitMask :: "u32 \<Rightarrow> u32 option" where
  "BitMask n = get kBitMask (unat n)"

record BrotliBitReader =
  br_val :: u64
  br_bit_pos :: u32
  br_next_in :: u32
  br_avail_in :: u32

text \<open>\<open>BrotliBitReader::default()\<close>; the Rust struct \<open>BrotliBitReaderState\<close> has the same fields
  and is modelled by the same record.\<close>

definition BrotliBitReader_default :: BrotliBitReader where
  "BrotliBitReader_default = \<lparr>br_val = 0, br_bit_pos = 0, br_next_in = 0, br_avail_in = 0\<rparr>"

definition BrotliBitReaderSaveState :: "BrotliBitReader \<Rightarrow> BrotliBitReader" where
  "BrotliBitReaderSaveState from =
     \<lparr>br_val = br_val from, br_bit_pos = br_bit_pos from,
      br_next_in = br_next_in from, br_avail_in = br_avail_in from\<rparr>"

definition BrotliBitReaderRestoreState ::
  "BrotliBitReader \<Rightarrow> BrotliBitReader \<Rightarrow> BrotliBitReader" where
  "BrotliBitReaderRestoreState to from =
     to\<lparr>br_val := br_val from, br_bit_pos := br_bit_pos from,
        br_next_in := br_next_in from, br_avail_in := br_avail_in from\<rparr>"

definition BrotliGetAvailableBits :: "BrotliBitReader \<Rightarrow> u32" where
  "BrotliGetAvailableBits br = push_bit 3 (of_nat size_of_reg_t) - br_bit_pos br"

definition BrotliGetRemainingBytes :: "BrotliBitReader \<Rightarrow> u32" where
  "BrotliGetRemainingBytes br = br_avail_in br + drop_bit 3 (BrotliGetAvailableBits br)"

definition BrotliCheckInputAmount :: "BrotliBitReader \<Rightarrow> u32 \<Rightarrow> bool" where
  "BrotliCheckInputAmount br num = (num \<le> br_avail_in br)"

subsection \<open>Loading bytes\<close>

definition BrotliLoad16LE :: "u8 list \<Rightarrow> u32 \<Rightarrow> u16 option" where
  "BrotliLoad16LE input next_in_u32 = (let next_in = unat next_in_u32 in do {
     b0 \<leftarrow> get input next_in;
     b1 \<leftarrow> get input (next_in + 1);
     Some ((ucast b0 :: u16) OR push_bit 8 (ucast b1))
   })"

definition BrotliLoad32LE :: "u8 list \<Rightarrow> u32 \<Rightarrow> u32 option" where
  "BrotliLoad32LE input next_in_u32 = (let next_in = unat next_in_u32 in do {
     four_byte \<leftarrow> slice input next_in (next_in + 4);
     Some ((ucast (four_byte ! 0) :: u32) OR push_bit 8 (ucast (four_byte ! 1)) OR
           push_bit 16 (ucast (four_byte ! 2)) OR push_bit 24 (ucast (four_byte ! 3)))
   })"

definition BrotliLoad64LE :: "u8 list \<Rightarrow> u32 \<Rightarrow> u64 option" where
  "BrotliLoad64LE input next_in_u32 = (let next_in = unat next_in_u32 in do {
     eight_byte \<leftarrow> slice input next_in (next_in + 8);
     Some ((ucast (eight_byte ! 0) :: u64) OR push_bit 8 (ucast (eight_byte ! 1)) OR
           push_bit 16 (ucast (eight_byte ! 2)) OR push_bit 24 (ucast (eight_byte ! 3)) OR
           push_bit 32 (ucast (eight_byte ! 4)) OR push_bit 40 (ucast (eight_byte ! 5)) OR
           push_bit 48 (ucast (eight_byte ! 6)) OR push_bit 56 (ucast (eight_byte ! 7)))
   })"

definition BROTLI_ALIGNED_READ :: u8 where
  "BROTLI_ALIGNED_READ = 0"

text \<open>
  One refill of the accumulator: drop \<open>k\<close> used bits, or in the loaded word shifted to its
  place, and account for \<open>m\<close> consumed bytes. The source writes these five statements out in
  every branch of the two fill functions.
\<close>

definition refill :: "BrotliBitReader \<Rightarrow> u32 \<Rightarrow> u64 \<Rightarrow> u32 \<Rightarrow> BrotliBitReader" where
  "refill br k loaded m =
     br\<lparr>br_val := drop_bit (unat k) (br_val br) OR loaded,
        br_bit_pos := br_bit_pos br XOR k,
        br_avail_in := br_avail_in br - m,
        br_next_in := br_next_in br + m\<rparr>"

definition BrotliFillBitWindow ::
  "BrotliBitReader \<Rightarrow> u32 \<Rightarrow> u8 list \<Rightarrow> BrotliBitReader option" where
  "BrotliFillBitWindow br n_bits input =
    (if size_of_reg_t = 8 then
       if n_bits \<le> 8 \<and> BROTLI_ALIGNED_READ = 0 \<and> 56 \<le> br_bit_pos br then do {
         w \<leftarrow> BrotliLoad64LE input (br_next_in br);
         Some (refill br 56 (push_bit 8 w) 7)
       } else if BROTLI_ALIGNED_READ = 0 \<and> n_bits \<le> 16 \<and> 48 \<le> br_bit_pos br then do {
         w \<leftarrow> BrotliLoad64LE input (br_next_in br);
         Some (refill br 48 (push_bit 16 w) 6)
       } else if 32 \<le> br_bit_pos br then do {
         w \<leftarrow> BrotliLoad32LE input (br_next_in br);
         Some (refill br 32 (push_bit 32 (ucast w)) BROTLI_SHORT_FILL_BIT_WINDOW_READ)
       } else Some br
     else if BROTLI_ALIGNED_READ = 0 \<and> n_bits \<le> 8 then
       if 24 \<le> br_bit_pos br then do {
         w \<leftarrow> BrotliLoad32LE input (br_next_in br);
         Some (refill br 24 (ucast (push_bit 8 w)) 3)
       } else Some br
     else if 16 \<le> br_bit_pos br then do {
       w \<leftarrow> BrotliLoad16LE input (br_next_in br);
       Some (refill br 16 (push_bit 16 (ucast w)) BROTLI_SHORT_FILL_BIT_WINDOW_READ)
     } else Some br)"

definition BrotliFillBitWindowCompileTimeNbits ::
  "BrotliBitReader \<Rightarrow> u32 \<Rightarrow> u8 list \<Rightarrow> BrotliBitReader option" where
  "BrotliFillBitWindowCompileTimeNbits br n_bits input =
    (if size_of_reg_t = 8 then
       if BROTLI_ALIGNED_READ = 0 \<and> n_bits \<le> 8 then
         if 56 \<le> br_bit_pos br then do {
           w \<leftarrow> BrotliLoad64LE input (br_next_in br);
           Some (refill br 56 (push_bit 8 w) 7)
         } else Some br
       else if BROTLI_ALIGNED_READ = 0 \<and> n_bits \<le> 16 then
         if 48 \<le> br_bit_pos br then do {
           w \<leftarrow> BrotliLoad64LE input (br_next_in br);
           Some (refill br 48 (push_bit 16 w) 6)
         } else Some br
       else if 32 \<le> br_bit_pos br then do {
         w \<leftarrow> BrotliLoad32LE input (br_next_in br);
         Some (refill br 32 (push_bit 32 (ucast w)) BROTLI_SHORT_FILL_BIT_WINDOW_READ)
       } else Some br
     else if n_bits \<le> 8 then
       if 24 \<le> br_bit_pos br then do {
         w \<leftarrow> BrotliLoad32LE input (br_next_in br);
         Some (refill br 24 (push_bit 8 (ucast w)) 3)
       } else Some br
     else if 16 \<le> br_bit_pos br then do {
       w \<leftarrow> BrotliLoad16LE input (br_next_in br);
       Some (refill br 16 (push_bit 16 (ucast w)) BROTLI_SHORT_FILL_BIT_WINDOW_READ)
     } else Some br)"

definition BrotliFillBitWindow16 :: "BrotliBitReader \<Rightarrow> u8 list \<Rightarrow> BrotliBitReader option" where
  "BrotliFillBitWindow16 br input = BrotliFillBitWindowCompileTimeNbits br 17 input"

definition BrotliPullByte ::
  "BrotliBitReader \<Rightarrow> u8 list \<Rightarrow> (bool \<times> BrotliBitReader) option" where
  "BrotliPullByte br input =
    (if br_avail_in br = 0 then Some (False, br)
     else do {
       b \<leftarrow> get input (unat (br_next_in br));
       Some (True, br\<lparr>
         br_val := drop_bit 8 (br_val br) OR
           (if size_of_reg_t = 8 then push_bit 56 (ucast b) else push_bit 24 (ucast b)),
         br_bit_pos := br_bit_pos br - 8,
         br_avail_in := br_avail_in br - 1,
         br_next_in := br_next_in br + 1\<rparr>)
     })"

subsection \<open>Reading bits\<close>

definition BrotliGetBitsUnmasked :: "BrotliBitReader \<Rightarrow> u64" where
  "BrotliGetBitsUnmasked br = shr64 (br_val br) (br_bit_pos br)"

definition BrotliGet16BitsUnmasked ::
  "BrotliBitReader \<Rightarrow> u8 list \<Rightarrow> (u32 \<times> BrotliBitReader) option" where
  "BrotliGet16BitsUnmasked br input = do {
     br \<leftarrow> BrotliFillBitWindowCompileTimeNbits br 16 input;
     Some (ucast (BrotliGetBitsUnmasked br AND ucast (0xffffffff :: u32)), br)
   }"

definition BrotliGetBits ::
  "BrotliBitReader \<Rightarrow> u32 \<Rightarrow> u8 list \<Rightarrow> (u32 \<times> BrotliBitReader) option" where
  "BrotliGetBits br n_bits input = do {
     br \<leftarrow> BrotliFillBitWindow br n_bits input;
     m \<leftarrow> BitMask n_bits;
     Some (ucast (BrotliGetBitsUnmasked br) AND m, br)
   }"

definition BrotliGetConstantNBits ::
  "BrotliBitReader \<Rightarrow> u32 \<Rightarrow> u8 list \<Rightarrow> (u32 \<times> BrotliBitReader) option" where
  "BrotliGetConstantNBits br n_bits input = do {
     br \<leftarrow> BrotliFillBitWindowCompileTimeNbits br n_bits input;
     m \<leftarrow> BitMask n_bits;
     Some (ucast (BrotliGetBitsUnmasked br) AND m, br)
   }"

lemma BrotliPullByte_decreases:
  assumes "BrotliPullByte br input = Some (True, br')"
  shows "unat (br_avail_in br') < unat (br_avail_in br)"
proof -
  from assms have "br_avail_in br \<noteq> 0" "br_avail_in br' = br_avail_in br - 1"
    by (auto simp: BrotliPullByte_def split: if_splits bind_splits)
  then show ?thesis by (simp add: unat_minus_one unat_gt_0)
qed

text \<open>
  The loop of \<open>BrotliSafeGetBits\<close> and \<open>BrotliSafeReadBits\<close>: pull bytes until \<open>n_bits\<close> are in
  the accumulator. The boolean is false if the input ran out.
\<close>

function pull_until :: "BrotliBitReader \<Rightarrow> u32 \<Rightarrow> u8 list \<Rightarrow> (bool \<times> BrotliBitReader) option" where
  "pull_until br n_bits input =
    (if BrotliGetAvailableBits br < n_bits then do {
       (ok, br') \<leftarrow> BrotliPullByte br input;
       if ok then pull_until br' n_bits input else Some (False, br')
     } else Some (True, br))"
  by pat_completeness auto
termination
  by (relation "measure (\<lambda>(br, n, input). unat (br_avail_in br))")
     (auto dest: BrotliPullByte_decreases)

declare pull_until.simps [simp del]

text \<open>The result parameter \<open>val\<close> is written only on success.\<close>

definition BrotliSafeGetBits ::
  "BrotliBitReader \<Rightarrow> u32 \<Rightarrow> u32 \<Rightarrow> u8 list \<Rightarrow> (bool \<times> u32 \<times> BrotliBitReader) option" where
  "BrotliSafeGetBits br n_bits val input = do {
     (ok, br) \<leftarrow> pull_until br n_bits input;
     if \<not> ok then Some (False, val, br)
     else do {
       m \<leftarrow> BitMask n_bits;
       Some (True, ucast (BrotliGetBitsUnmasked br) AND m, br)
     }
   }"

definition BrotliDropBits :: "BrotliBitReader \<Rightarrow> u32 \<Rightarrow> BrotliBitReader" where
  "BrotliDropBits br n_bits = br\<lparr>br_bit_pos := br_bit_pos br + n_bits\<rparr>"

definition BrotliBitReaderUnload :: "BrotliBitReader \<Rightarrow> BrotliBitReader" where
  "BrotliBitReaderUnload br =
    (let unused_bytes = drop_bit 3 (BrotliGetAvailableBits br);
         unused_bits = push_bit 3 unused_bytes
     in br\<lparr>
       br_avail_in := br_avail_in br + unused_bytes,
       br_next_in := br_next_in br - unused_bytes,
       br_val := (if unat unused_bits = size_of_reg_t * 8 then 0
                  else shl64 (br_val br) unused_bits),
       br_bit_pos := br_bit_pos br + unused_bits\<rparr>)"

definition BrotliTakeBits :: "BrotliBitReader \<Rightarrow> u32 \<Rightarrow> (u32 \<times> BrotliBitReader) option" where
  "BrotliTakeBits br n_bits = do {
     m \<leftarrow> BitMask n_bits;
     Some (ucast (BrotliGetBitsUnmasked br) AND m, BrotliDropBits br n_bits)
   }"

definition BrotliReadBits ::
  "BrotliBitReader \<Rightarrow> u32 \<Rightarrow> u8 list \<Rightarrow> (u32 \<times> BrotliBitReader) option" where
  "BrotliReadBits br n_bits input =
    (if size_of_reg_t = 8 \<or> n_bits \<le> 16 then do {
       br \<leftarrow> BrotliFillBitWindow br n_bits input;
       BrotliTakeBits br n_bits
     } else do {
       br \<leftarrow> BrotliFillBitWindowCompileTimeNbits br 16 input;
       (low_val, br) \<leftarrow> BrotliTakeBits br 16;
       br \<leftarrow> BrotliFillBitWindowCompileTimeNbits br 8 input;
       (high_val, br) \<leftarrow> BrotliTakeBits br (n_bits - 16);
       Some (low_val OR push_bit 16 high_val, br)
     })"

definition BrotliReadConstantNBits ::
  "BrotliBitReader \<Rightarrow> u32 \<Rightarrow> u8 list \<Rightarrow> (u32 \<times> BrotliBitReader) option" where
  "BrotliReadConstantNBits br n_bits input =
    (if size_of_reg_t = 8 \<or> n_bits \<le> 16 then do {
       br \<leftarrow> BrotliFillBitWindowCompileTimeNbits br n_bits input;
       BrotliTakeBits br n_bits
     } else do {
       br \<leftarrow> BrotliFillBitWindowCompileTimeNbits br 16 input;
       (low_val, br) \<leftarrow> BrotliTakeBits br 16;
       br \<leftarrow> BrotliFillBitWindowCompileTimeNbits br 8 input;
       (high_val, br) \<leftarrow> BrotliTakeBits br (n_bits - 16);
       Some (low_val OR push_bit 16 high_val, br)
     })"

definition BrotliSafeReadBits ::
  "BrotliBitReader \<Rightarrow> u32 \<Rightarrow> u32 \<Rightarrow> u8 list \<Rightarrow> (bool \<times> u32 \<times> BrotliBitReader) option" where
  "BrotliSafeReadBits br n_bits val input = do {
     (ok, br) \<leftarrow> pull_until br n_bits input;
     if \<not> ok then Some (False, val, br)
     else do {
       (v, br) \<leftarrow> BrotliTakeBits br n_bits;
       Some (True, v, br)
     }
   }"

definition BrotliJumpToByteBoundary :: "BrotliBitReader \<Rightarrow> (bool \<times> BrotliBitReader) option" where
  "BrotliJumpToByteBoundary br =
    (let pad_bits_count = BrotliGetAvailableBits br AND 0x7 in
     if pad_bits_count \<noteq> 0 then do {
       (pad_bits, br) \<leftarrow> BrotliTakeBits br pad_bits_count;
       Some (pad_bits = 0, br)
     } else Some (True, br))"

text \<open>\<open>BrotliPeekByte\<close> returns an \<open>i32\<close>: a byte, or -1.\<close>

definition BrotliPeekByte :: "BrotliBitReader \<Rightarrow> u32 \<Rightarrow> u8 list \<Rightarrow> int option" where
  "BrotliPeekByte br offset input =
    (let available_bits = BrotliGetAvailableBits br;
         bytes_left = drop_bit 3 available_bits
     in do {
       rassert (available_bits AND 7 = 0);
       if offset < bytes_left then
         Some (uint (shr64 (BrotliGetBitsUnmasked br) (push_bit 3 offset) AND 0xFF))
       else do {
         let offset = offset - bytes_left;
         if offset < br_avail_in br then do {
           b \<leftarrow> get input (unat (br_next_in br) + unat offset);
           Some (uint b)
         } else Some (-1)
       }
     })"

text \<open>The two loops of \<open>BrotliCopyBytes\<close>: bytes of the accumulator, then bytes of the input.\<close>

fun copy_from_acc ::
  "u8 list \<Rightarrow> BrotliBitReader \<Rightarrow> nat \<Rightarrow> nat \<Rightarrow> (u8 list \<times> BrotliBitReader \<times> nat \<times> nat) option" where
  "copy_from_acc dest br offset 0 = Some (dest, br, offset, 0)"
| "copy_from_acc dest br offset (Suc num) =
    (if 8 \<le> BrotliGetAvailableBits br then do {
       dest \<leftarrow> put dest offset (ucast (BrotliGetBitsUnmasked br));
       copy_from_acc dest (BrotliDropBits br 8) (offset + 1) num
     } else Some (dest, br, offset, Suc num))"

fun copy_from_input :: "u8 list \<Rightarrow> nat \<Rightarrow> u8 list \<Rightarrow> nat \<Rightarrow> nat \<Rightarrow> u8 list option" where
  "copy_from_input dest offset input next 0 = Some dest"
| "copy_from_input dest offset input next (Suc k) = do {
     b \<leftarrow> get input next;
     dest \<leftarrow> put dest offset b;
     copy_from_input dest (offset + 1) input (next + 1) k
   }"

definition BrotliCopyBytes ::
  "u8 list \<Rightarrow> BrotliBitReader \<Rightarrow> u32 \<Rightarrow> u8 list \<Rightarrow> (u8 list \<times> BrotliBitReader) option" where
  "BrotliCopyBytes dest br num input = do {
     (dest, br, offset, num) \<leftarrow> copy_from_acc dest br 0 (unat num);
     dest \<leftarrow> copy_from_input dest offset input (unat (br_next_in br)) num;
     Some (dest, br\<lparr>br_avail_in := br_avail_in br - of_nat num,
                    br_next_in := br_next_in br + of_nat num\<rparr>)
   }"

definition BrotliInitBitReader :: "BrotliBitReader \<Rightarrow> BrotliBitReader" where
  "BrotliInitBitReader br =
     br\<lparr>br_val := 0, br_bit_pos := of_nat (size_of_reg_t * 8)\<rparr>"

definition BrotliWarmupBitReader ::
  "BrotliBitReader \<Rightarrow> u8 list \<Rightarrow> (bool \<times> BrotliBitReader) option" where
  "BrotliWarmupBitReader br input =
    (if BrotliGetAvailableBits br = 0 then do {
       (ok, br) \<leftarrow> BrotliPullByte br input;
       Some (ok, br)
     } else Some (True, br))"

end
