(* ===== verification/Bit_Stream.thy ===== *)
theory Bit_Stream
  imports Bit_Reader
begin

text \<open>
  What the bit reader promises: the abstraction \<open>stream\<close> of a reader and its input slice to
  the sequence of bits still to be read, and for every operation of \<open>Bit_Reader\<close> a lemma on
  what it returns and what it leaves of that sequence.
\<close>

subsection \<open>The abstraction\<close>

definition bits_of_bytes :: "u8 list \<Rightarrow> bool list" where
  "bits_of_bytes bs = concat (map (bits_of_word 8) bs)"

definition acc_bits :: "BrotliBitReader \<Rightarrow> bool list" where
  "acc_bits br = map (bit (br_val br)) [unat (br_bit_pos br)..<64]"

definition window_bytes :: "BrotliBitReader \<Rightarrow> u8 list \<Rightarrow> u8 list" where
  "window_bytes br input = take (unat (br_avail_in br)) (drop (unat (br_next_in br)) input)"

definition stream :: "BrotliBitReader \<Rightarrow> u8 list \<Rightarrow> bool list" where
  "stream br input = acc_bits br @ bits_of_bytes (window_bytes br input)"

text \<open>
  The representation invariant: the read position is inside the accumulator, the window is
  inside the input slice, and its end does not exceed the range of \<open>u32\<close>.
\<close>

definition br_ok :: "BrotliBitReader \<Rightarrow> u8 list \<Rightarrow> bool" where
  "br_ok br input \<longleftrightarrow>
     unat (br_bit_pos br) \<le> 64 \<and>
     unat (br_next_in br) + unat (br_avail_in br) \<le> length input \<and>
     unat (br_next_in br) + unat (br_avail_in br) < 2 ^ 32"

lemma bits_of_bytes_Nil [simp]: "bits_of_bytes [] = []"
  by (simp add: bits_of_bytes_def)

lemma bits_of_bytes_Cons [simp]: "bits_of_bytes (b # bs) = bits_of_word 8 b @ bits_of_bytes bs"
  by (simp add: bits_of_bytes_def)

lemma bits_of_bytes_append [simp]: "bits_of_bytes (xs @ ys) = bits_of_bytes xs @ bits_of_bytes ys"
  by (simp add: bits_of_bytes_def)

lemma length_bits_of_bytes [simp]: "length (bits_of_bytes bs) = 8 * length bs"
  by (induction bs) simp_all

lemma nth_bits_of_bytes:
  "i < 8 * length bs \<Longrightarrow> bits_of_bytes bs ! i = bit (bs ! (i div 8)) (i mod 8)"
proof (induction bs arbitrary: i)
  case Nil
  then show ?case by simp
next
  case (Cons b bs)
  show ?case
  proof (cases "i < 8")
    case True
    then show ?thesis by (simp add: nth_append bits_of_word_def)
  next
    case False
    then have "i div 8 = Suc ((i - 8) div 8)" "i mod 8 = (i - 8) mod 8"
      by (simp_all add: le_div_geq le_mod_geq)
    with False Cons show ?thesis by (simp add: nth_append)
  qed
qed

lemma bits_of_bytes_inject: "bits_of_bytes xs = bits_of_bytes ys \<Longrightarrow> xs = ys"
proof (induction xs arbitrary: ys)
  case Nil
  then show ?case by (cases ys) (auto simp: bits_of_word_def)
next
  case (Cons x xs)
  then obtain y ys' where ys: "ys = y # ys'"
    by (cases ys) (auto simp: bits_of_word_def)
  with Cons.prems have "bits_of_word 8 x = bits_of_word 8 y" "bits_of_bytes xs = bits_of_bytes ys'"
    by simp_all
  moreover from this(1) have "x = y"
    by (auto simp: bits_of_word_def bit_eq_iff)
  ultimately show ?case using Cons.IH ys by simp
qed

lemma bits_of_bytes_drop: "bits_of_bytes (drop k bs) = drop (8 * k) (bits_of_bytes bs)"
proof (induction bs arbitrary: k)
  case (Cons b bs)
  then show ?case by (cases k) simp_all
qed simp

lemma bits_of_bytes_take: "bits_of_bytes (take k bs) = take (8 * k) (bits_of_bytes bs)"
proof (induction bs arbitrary: k)
  case (Cons b bs)
  then show ?case by (cases k) simp_all
qed simp

lemma length_acc_bits [simp]: "length (acc_bits br) = 64 - unat (br_bit_pos br)"
  by (simp add: acc_bits_def)

lemma length_window [simp]: "br_ok br input \<Longrightarrow> length (window_bytes br input) = unat (br_avail_in br)"
  by (auto simp: window_bytes_def br_ok_def min_def)

lemma length_stream:
  "br_ok br input \<Longrightarrow>
     length (stream br input) = (64 - unat (br_bit_pos br)) + 8 * unat (br_avail_in br)"
  by (simp add: stream_def)

lemma available_bits:
  "unat (br_bit_pos br) \<le> 64 \<Longrightarrow> unat (BrotliGetAvailableBits br) = 64 - unat (br_bit_pos br)"
  unfolding BrotliGetAvailableBits_def by (subst unat_sub) (simp_all add: word_le_nat_alt)

lemma window_split:
  assumes "br_ok br input" "m \<le> unat (br_avail_in br)"
  shows "window_bytes br input =
    take m (drop (unat (br_next_in br)) input) @
    take (unat (br_avail_in br) - m) (drop (unat (br_next_in br) + m) input)"
proof -
  let ?n = "unat (br_next_in br)" and ?a = "unat (br_avail_in br)"
  have "take ?a (drop ?n input) = take m (drop ?n input) @ take (?a - m) (drop m (drop ?n input))"
    using assms(2) by (metis le_add_diff_inverse take_add)
  then show ?thesis by (simp add: window_bytes_def add.commute)
qed

subsection \<open>Masks and loads\<close>

lemma kBitMask_mask: "n \<le> 32 \<Longrightarrow> kBitMask ! n = mask n"
proof -
  have "\<forall>n \<in> set [0..<33]. kBitMask ! n = (2 ^ n - 1 :: u32)"
    by code_simp
  then show "n \<le> 32 \<Longrightarrow> kBitMask ! n = mask n"
    by (simp add: mask_eq_exp_minus_1)
qed

lemma BitMask_mask: "unat n \<le> 32 \<Longrightarrow> BitMask n = Some (mask (unat n))"
proof -
  assume "unat n \<le> 32"
  moreover have "length kBitMask = 33" by (simp add: kBitMask_def)
  ultimately show ?thesis by (simp add: BitMask_def get_def kBitMask_mask)
qed

lemma bit_Load64LE:
  assumes "BrotliLoad64LE input next = Some w" "j < 64"
  shows "bit w j = bit (input ! (unat next + j div 8)) (j mod 8)"
proof -
  let ?e = "take 8 (drop (unat next) input)"
  from assms(1) have len: "unat next + 8 \<le> length input" and
    w: "w = (ucast (?e ! 0) :: u64) OR push_bit 8 (ucast (?e ! 1)) OR
           push_bit 16 (ucast (?e ! 2)) OR push_bit 24 (ucast (?e ! 3)) OR
           push_bit 32 (ucast (?e ! 4)) OR push_bit 40 (ucast (?e ! 5)) OR
           push_bit 48 (ucast (?e ! 6)) OR push_bit 56 (ucast (?e ! 7))"
    by (auto simp: BrotliLoad64LE_def Let_def slice_def split: if_splits)
  have hi: "\<not> bit (b::u8) k" if "8 \<le> k" for b k
    using that by (auto dest: bit_imp_le_length)
  define q r where "q = j div 8" and "r = j mod 8"
  have j: "j = 8 * q + r" "r < 8" "q < 8"
    using assms(2) by (auto simp: q_def r_def)
  then consider "q = 0" | "q = 1" | "q = 2" | "q = 3" | "q = 4" | "q = 5" | "q = 6" | "q = 7"
    by linarith
  then show ?thesis
    unfolding w q_def [symmetric] r_def [symmetric]
    by cases (use j hi len in \<open>simp_all add: bit_simps\<close>)
qed

lemma bit_Load32LE:
  assumes "BrotliLoad32LE input next = Some w" "j < 32"
  shows "bit w j = bit (input ! (unat next + j div 8)) (j mod 8)"
proof -
  let ?e = "take 4 (drop (unat next) input)"
  from assms(1) have len: "unat next + 4 \<le> length input" and
    w: "w = (ucast (?e ! 0) :: u32) OR push_bit 8 (ucast (?e ! 1)) OR
           push_bit 16 (ucast (?e ! 2)) OR push_bit 24 (ucast (?e ! 3))"
    by (auto simp: BrotliLoad32LE_def Let_def slice_def split: if_splits)
  have hi: "\<not> bit (b::u8) k" if "8 \<le> k" for b k
    using that by (auto dest: bit_imp_le_length)
  define q r where "q = j div 8" and "r = j mod 8"
  have j: "j = 8 * q + r" "r < 8" "q < 4"
    using assms(2) by (auto simp: q_def r_def)
  then consider "q = 0" | "q = 1" | "q = 2" | "q = 3"
    by linarith
  then show ?thesis
    unfolding w q_def [symmetric] r_def [symmetric]
    by cases (use j hi len in \<open>simp_all add: bit_simps\<close>)
qed

lemma Load64LE_Some: "unat next + 8 \<le> length input \<Longrightarrow> \<exists>w. BrotliLoad64LE input next = Some w"
  by (simp add: BrotliLoad64LE_def slice_def Let_def)

lemma Load32LE_Some: "unat next + 4 \<le> length input \<Longrightarrow> \<exists>w. BrotliLoad32LE input next = Some w"
  by (simp add: BrotliLoad32LE_def slice_def Let_def)

subsection \<open>Refilling the accumulator\<close>

text \<open>
  The refills compute \<open>bit_pos_ ^= k\<close> for a subtraction. The two agree below 64 only:
  \<open>64 XOR 56\<close> is 120, so every caller has to keep at least one bit in the accumulator.
\<close>

lemma xor_is_minus:
  assumes "k = 32 \<or> k = 48 \<or> k = 56" "(k::u32) \<le> w" "unat w < 64"
  shows "w XOR k = w - k"
proof -
  have "\<forall>n \<in> set [0..<64]. \<forall>k \<in> set [32, 48, 56].
      k \<le> (of_nat n :: u32) \<longrightarrow> of_nat n XOR k = of_nat n - k"
    by code_simp
  then have "k \<le> (of_nat (unat w) :: u32) \<longrightarrow> of_nat (unat w) XOR k = of_nat (unat w) - k"
    using assms(1,3) by (elim ballE [where x = "unat w"]) auto
  with assms(2) show ?thesis by simp
qed

lemma refill_stream:
  assumes ok: "br_ok br input" and pos: "unat (br_bit_pos br) < 64" "k \<le> br_bit_pos br"
    and k: "k = 32 \<or> k = 48 \<or> k = 56" "unat k = 8 * unat m"
    and avail: "unat m \<le> unat (br_avail_in br)"
    and w: "\<And>j. j < unat k \<Longrightarrow>
      bit w j = bit (input ! (unat (br_next_in br) + j div 8)) (j mod 8)"
  shows "br_ok (refill br k (push_bit (64 - unat k) w) m) input"
    and "stream (refill br k (push_bit (64 - unat k) w) m) input = stream br input"
    and "unat (br_bit_pos (refill br k (push_bit (64 - unat k) w) m)) =
           unat (br_bit_pos br) - unat k"
    and "unat (br_avail_in (refill br k (push_bit (64 - unat k) w) m)) =
           unat (br_avail_in br) - unat m"
proof -
  let ?p = "unat (br_bit_pos br)" and ?n = "unat (br_next_in br)" and ?a = "unat (br_avail_in br)"
  let ?r = "refill br k (push_bit (64 - unat k) w) m"
  have kp: "unat k \<le> ?p" "unat k \<le> 64" using pos by (auto simp: word_le_nat_alt)
  have p': "unat (br_bit_pos ?r) = ?p - unat k"
    using xor_is_minus [OF k(1) pos(2,1)] pos(2) by (simp add: refill_def unat_sub)
  have a': "unat (br_avail_in ?r) = ?a - unat m"
    using avail by (simp add: refill_def unat_sub word_le_nat_alt)
  have n': "unat (br_next_in ?r) = ?n + unat m"
    using ok avail by (simp add: refill_def br_ok_def unat_plus_if')
  show "unat (br_bit_pos ?r) = ?p - unat k" "unat (br_avail_in ?r) = ?a - unat m"
    by (fact p' a')+
  show "br_ok ?r input"
    using ok avail pos by (simp add: br_ok_def p' a' n')
  have bitv: "bit (br_val ?r) i =
      (if i < 64 - unat k then bit (br_val br) (unat k + i) else i < 64 \<and> bit w (i - (64 - unat k)))"
    for i
    using kp by (auto simp: refill_def bit_simps dest: bit_imp_le_length)
  have acc1: "map (bit (br_val ?r)) [?p - unat k..<64 - unat k] = acc_bits br"
  proof (rule nth_equalityI)
    show "length (map (bit (br_val ?r)) [?p - unat k..<64 - unat k]) = length (acc_bits br)"
      using kp by simp
    fix i assume "i < length (map (bit (br_val ?r)) [?p - unat k..<64 - unat k])"
    then have "?p + i < 64" "unat k + (?p - unat k + i) = ?p + i" "?p - unat k + i < 64 - unat k"
      using kp by auto
    then show "map (bit (br_val ?r)) [?p - unat k..<64 - unat k] ! i = acc_bits br ! i"
      using kp by (simp add: acc_bits_def bitv)
  qed
  have acc2: "map (bit (br_val ?r)) [64 - unat k..<64] = bits_of_bytes (take (unat m) (drop ?n input))"
  proof (rule nth_equalityI)
    have len: "length (take (unat m) (drop ?n input)) = unat m"
      using ok avail by (auto simp: br_ok_def min_def)
    show "length (map (bit (br_val ?r)) [64 - unat k..<64]) =
        length (bits_of_bytes (take (unat m) (drop ?n input)))"
      using kp k(2) len by simp
    fix i assume "i < length (map (bit (br_val ?r)) [64 - unat k..<64])"
    then have i: "i < unat k" using kp by simp
    then have "i div 8 < unat m" using k(2) by auto
    then have "bits_of_bytes (take (unat m) (drop ?n input)) ! i = bit (input ! (?n + i div 8)) (i mod 8)"
      using i k(2) len ok avail by (simp add: nth_bits_of_bytes br_ok_def)
    moreover have "map (bit (br_val ?r)) [64 - unat k..<64] ! i = bit w i"
    proof -
      have "\<not> 64 - unat k + i < 64 - unat k" "64 - unat k + i < 64" "64 - unat k + i - (64 - unat k) = i"
        using i kp by auto
      then show ?thesis using i kp by (simp add: bitv)
    qed
    ultimately show "map (bit (br_val ?r)) [64 - unat k..<64] ! i =
        bits_of_bytes (take (unat m) (drop ?n input)) ! i"
      using w [OF i] by simp
  qed
  have "acc_bits ?r = acc_bits br @ bits_of_bytes (take (unat m) (drop ?n input))"
  proof -
    have "[?p - unat k..<64] = [?p - unat k..<64 - unat k] @ [64 - unat k..<64]"
      using upt_add_eq_append [of "?p - unat k" "64 - unat k" "unat k"] kp pos(1) by simp
    then have "acc_bits ?r = map (bit (br_val ?r)) [?p - unat k..<64 - unat k] @
        map (bit (br_val ?r)) [64 - unat k..<64]"
      unfolding acc_bits_def p' by simp
    then show ?thesis by (simp only: acc1 acc2)
  qed
  then show "stream ?r input = stream br input"
    using window_split [OF ok avail] by (simp add: stream_def window_bytes_def a' n')
qed

text \<open>
  The states of the reader in which the bits \<open>bs\<close> are still to be read. Every operation below
  is described by what it returns in such a state and which such state it leads to.
\<close>

definition br_at :: "BrotliBitReader \<Rightarrow> u8 list \<Rightarrow> bool list \<Rightarrow> bool" where
  "br_at br input bs \<longleftrightarrow> br_ok br input \<and> stream br input = bs"

lemma br_at_length:
  "br_at br input bs \<Longrightarrow> length bs = (64 - unat (br_bit_pos br)) + 8 * unat (br_avail_in br)"
  by (auto simp: br_at_def length_stream)

lemma refill64:
  assumes "br_at br input bs" and pos: "unat (br_bit_pos br) < 64" "k \<le> br_bit_pos br"
    and k: "k = 48 \<and> m = 6 \<and> c = 16 \<or> k = 56 \<and> m = 7 \<and> c = 8"
    and avail: "8 \<le> unat (br_avail_in br)"
  shows "\<exists>w. BrotliLoad64LE input (br_next_in br) = Some w \<and>
    br_at (refill br k (push_bit c w) m) input bs \<and>
    unat (br_bit_pos (refill br k (push_bit c w) m)) = unat (br_bit_pos br) - unat k \<and>
    unat (br_avail_in (refill br k (push_bit c w) m)) = unat (br_avail_in br) - unat m"
proof -
  from assms(1) have ok: "br_ok br input" by (simp add: br_at_def)
  then have "unat (br_next_in br) + 8 \<le> length input"
    using avail by (simp add: br_ok_def)
  then obtain w where w: "BrotliLoad64LE input (br_next_in br) = Some w"
    using Load64LE_Some by blast
  have j: "bit w j = bit (input ! (unat (br_next_in br) + j div 8)) (j mod 8)" if "j < unat k" for j
    using bit_Load64LE [OF w] that k by auto
  have c: "c = 64 - unat k" and m: "unat k = 8 * unat m" "unat m \<le> unat (br_avail_in br)"
    using k avail by auto
  have k': "k = 32 \<or> k = 48 \<or> k = 56" using k by auto
  show ?thesis
    using refill_stream [OF ok pos k' m(1,2) j] w assms(1) unfolding c br_at_def by simp
qed

lemma refill32:
  assumes "br_at br input bs" and pos: "unat (br_bit_pos br) < 64" "32 \<le> br_bit_pos br"
    and avail: "4 \<le> unat (br_avail_in br)"
  shows "\<exists>w. BrotliLoad32LE input (br_next_in br) = Some w \<and>
    br_at (refill br 32 (push_bit 32 (ucast w)) 4) input bs \<and>
    unat (br_bit_pos (refill br 32 (push_bit 32 (ucast w)) 4)) = unat (br_bit_pos br) - 32 \<and>
    unat (br_avail_in (refill br 32 (push_bit 32 (ucast w)) 4)) = unat (br_avail_in br) - 4"
proof -
  from assms(1) have ok: "br_ok br input" by (simp add: br_at_def)
  then have "unat (br_next_in br) + 4 \<le> length input"
    using avail by (simp add: br_ok_def)
  then obtain w where w: "BrotliLoad32LE input (br_next_in br) = Some w"
    using Load32LE_Some by blast
  have j: "bit (ucast w :: u64) j = bit (input ! (unat (br_next_in br) + j div 8)) (j mod 8)"
    if "j < unat (32::u32)" for j
    using bit_Load32LE [OF w] that by (simp add: bit_simps)
  show ?thesis
    using refill_stream [OF ok pos _ _ _ j, of 4] w assms(1) avail unfolding br_at_def by simp
qed

lemma FillBitWindow_at [stream_laws]:
  assumes "br_at br input bs" "unat (br_bit_pos br) < 64" "8 \<le> unat (br_avail_in br)"
  shows "\<exists>br'. BrotliFillBitWindow br n input = Some br' \<and> br_at br' input bs \<and>
    unat (br_bit_pos br') < 32 \<and> unat (br_avail_in br) \<le> unat (br_avail_in br') + 7"
proof -
  have le: "k \<le> br_bit_pos br \<longleftrightarrow> unat k \<le> unat (br_bit_pos br)" for k
    by (simp add: word_le_nat_alt)
  consider "n \<le> 8 \<and> 56 \<le> br_bit_pos br" | "\<not> (n \<le> 8 \<and> 56 \<le> br_bit_pos br)" "n \<le> 16 \<and> 48 \<le> br_bit_pos br"
    | "\<not> (n \<le> 8 \<and> 56 \<le> br_bit_pos br)" "\<not> (n \<le> 16 \<and> 48 \<le> br_bit_pos br)" "32 \<le> br_bit_pos br"
    | "\<not> 32 \<le> br_bit_pos br" by blast
  then show ?thesis
  proof cases
    case 1
    then show ?thesis
      using refill64 [OF assms(1,2), of 56 7 8] assms(2,3)
      by (auto simp: BrotliFillBitWindow_def BROTLI_ALIGNED_READ_def)
  next
    case 2
    then show ?thesis
      using refill64 [OF assms(1,2), of 48 6 16] assms(2,3)
      by (auto simp: BrotliFillBitWindow_def BROTLI_ALIGNED_READ_def)
  next
    case 3
    then show ?thesis
      using refill32 [OF assms(1,2)] assms(2,3)
      by (auto simp: BrotliFillBitWindow_def BROTLI_ALIGNED_READ_def
            BROTLI_SHORT_FILL_BIT_WINDOW_READ_def)
  next
    case 4
    then have "\<not> 48 \<le> br_bit_pos br" "\<not> 56 \<le> br_bit_pos br" "unat (br_bit_pos br) < 32"
      by (auto simp: le)
    with 4 assms show ?thesis by (auto simp: BrotliFillBitWindow_def)
  qed
qed

lemma FillBitWindowCompileTimeNbits_at [stream_laws]:
  assumes "br_at br input bs" "unat (br_bit_pos br) < 64"
    and "(if n \<le> 16 then 8 else 4) \<le> unat (br_avail_in br)"
  shows "\<exists>br'. BrotliFillBitWindowCompileTimeNbits br n input = Some br' \<and> br_at br' input bs \<and>
    unat (br_bit_pos br') < (if n \<le> 8 then 56 else if n \<le> 16 then 48 else 32) \<and>
    unat (br_avail_in br) \<le> unat (br_avail_in br') + 7"
proof -
  have le: "k \<le> br_bit_pos br \<longleftrightarrow> unat k \<le> unat (br_bit_pos br)" for k
    by (simp add: word_le_nat_alt)
  consider "n \<le> 8" | "\<not> n \<le> 8" "n \<le> 16" | "\<not> n \<le> 8" "\<not> n \<le> 16" by blast
  then show ?thesis
  proof cases
    case 1
    then have "n \<le> 16" by (simp add: word_le_nat_alt)
    then show ?thesis
      using refill64 [OF assms(1,2), of 56 7 8] assms 1
      by (auto simp: BrotliFillBitWindowCompileTimeNbits_def BROTLI_ALIGNED_READ_def le)
  next
    case 2
    then show ?thesis
      using refill64 [OF assms(1,2), of 48 6 16] assms
      by (auto simp: BrotliFillBitWindowCompileTimeNbits_def BROTLI_ALIGNED_READ_def le)
  next
    case 3
    then show ?thesis
      using refill32 [OF assms(1,2)] assms
      by (auto simp: BrotliFillBitWindowCompileTimeNbits_def BROTLI_ALIGNED_READ_def
            BROTLI_SHORT_FILL_BIT_WINDOW_READ_def le)
  qed
qed

subsection \<open>Taking bits\<close>

lemma DropBits_at:
  assumes "br_at br input bs" "unat n \<le> 64 - unat (br_bit_pos br)"
  shows "br_at (BrotliDropBits br n) input (drop (unat n) bs)"
    and "unat (br_bit_pos (BrotliDropBits br n)) = unat (br_bit_pos br) + unat n"
    and "br_avail_in (BrotliDropBits br n) = br_avail_in br"
proof -
  from assms have p: "unat (br_bit_pos br) \<le> 64" by (simp add: br_at_def br_ok_def)
  show p': "unat (br_bit_pos (BrotliDropBits br n)) = unat (br_bit_pos br) + unat n"
    using assms(2) p by (simp add: BrotliDropBits_def unat_plus_if')
  show "br_avail_in (BrotliDropBits br n) = br_avail_in br"
    by (simp add: BrotliDropBits_def)
  have "acc_bits (BrotliDropBits br n) = drop (unat n) (acc_bits br)"
    unfolding acc_bits_def p' by (simp add: BrotliDropBits_def drop_map)
  moreover have "window_bytes (BrotliDropBits br n) input = window_bytes br input"
    by (simp add: window_bytes_def BrotliDropBits_def)
  ultimately show "br_at (BrotliDropBits br n) input (drop (unat n) bs)"
    using assms p p' by (auto simp: br_at_def stream_def br_ok_def BrotliDropBits_def)
qed

lemma unmasked_bits:
  assumes "br_at br input bs" "n \<le> 64 - unat (br_bit_pos br)" "n \<le> 32"
  shows "(ucast (BrotliGetBitsUnmasked br) :: u32) AND mask n = word_of_bits (take n bs)"
proof (cases "n = 0")
  case True
  then show ?thesis by (simp add: word_of_bits_def)
next
  case False
  then have p: "unat (br_bit_pos br) < 64" using assms(2) by simp
  have len: "n \<le> length bs" using br_at_length [OF assms(1)] assms(2) by simp
  have nth: "bs ! i = bit (br_val br) (unat (br_bit_pos br) + i)" if "i < n" for i
    using assms that by (auto simp: br_at_def stream_def acc_bits_def nth_append)
  show ?thesis
    using p len assms(3)
    by (auto simp: bit_eq_iff bit_word_of_bits BrotliGetBitsUnmasked_def bit_simps nth)
qed

lemma TakeBits_at [stream_laws]:
  assumes "br_at br input bs" "unat n \<le> 64 - unat (br_bit_pos br)" "unat n \<le> 32"
  shows "BrotliTakeBits br n = Some (word_of_bits (take (unat n) bs), BrotliDropBits br n)"
  using unmasked_bits [OF assms(1,2,3)] assms(3)
  by (simp add: BrotliTakeBits_def BitMask_mask)

lemma ReadBits_at [stream_laws]:
  assumes "br_at br input bs" "unat (br_bit_pos br) < 64" "8 \<le> unat (br_avail_in br)"
    and "unat n \<le> 32"
  shows "\<exists>br'. BrotliReadBits br n input = Some (word_of_bits (take (unat n) bs), br') \<and>
    br_at br' input (drop (unat n) bs) \<and> unat (br_bit_pos br') < 64 \<and>
    unat (br_avail_in br) \<le> unat (br_avail_in br') + 7"
proof -
  obtain br1 where br1: "BrotliFillBitWindow br n input = Some br1" "br_at br1 input bs"
    "unat (br_bit_pos br1) < 32" "unat (br_avail_in br) \<le> unat (br_avail_in br1) + 7"
    using FillBitWindow_at [OF assms(1-3)] by blast
  have n: "unat n \<le> 64 - unat (br_bit_pos br1)" using br1(3) assms(4) by simp
  show ?thesis
    using br1 TakeBits_at [OF br1(2) n assms(4)] DropBits_at [OF br1(2) n] assms(4)
    by (simp add: BrotliReadBits_def)
qed

lemma ReadConstantNBits_at [stream_laws]:
  assumes "br_at br input bs" "unat (br_bit_pos br) < 64" "8 \<le> unat (br_avail_in br)"
    and "unat n \<le> 32"
  shows "\<exists>br'. BrotliReadConstantNBits br n input = Some (word_of_bits (take (unat n) bs), br') \<and>
    br_at br' input (drop (unat n) bs) \<and> unat (br_bit_pos br') < 64"
proof -
  obtain br1 where br1: "BrotliFillBitWindowCompileTimeNbits br n input = Some br1"
    "br_at br1 input bs" "unat (br_bit_pos br1) < (if n \<le> 8 then 56 else if n \<le> 16 then 48 else 32)"
  proof -
    have "(if n \<le> 16 then 8 else 4) \<le> unat (br_avail_in br)" using assms(3) by simp
    from FillBitWindowCompileTimeNbits_at [OF assms(1,2) this] that show ?thesis by blast
  qed
  have n: "unat n < 64 - unat (br_bit_pos br1)"
    using br1(3) assms(4) by (auto simp: word_le_nat_alt split: if_splits)
  then have n': "unat n \<le> 64 - unat (br_bit_pos br1)" by simp
  show ?thesis
    using br1 TakeBits_at [OF br1(2) n' assms(4)] DropBits_at [OF br1(2) n'] n
    by (simp add: BrotliReadConstantNBits_def)
qed

lemma PullByte_at [stream_laws]:
  assumes "br_at br input bs" "8 \<le> unat (br_bit_pos br)" "br_avail_in br \<noteq> 0"
  shows "\<exists>br'. BrotliPullByte br input = Some (True, br') \<and> br_at br' input bs \<and>
    unat (br_bit_pos br') = unat (br_bit_pos br) - 8 \<and>
    unat (br_avail_in br') = unat (br_avail_in br) - 1"
proof -
  let ?p = "unat (br_bit_pos br)" and ?n = "unat (br_next_in br)" and ?a = "unat (br_avail_in br)"
  from assms(1) have ok: "br_ok br input" by (simp add: br_at_def)
  have a: "1 \<le> ?a" using assms(3) by (simp add: Suc_leI unat_gt_0)
  then have n: "?n < length input" using ok by (simp add: br_ok_def)
  define br' where "br' = br\<lparr>br_val := drop_bit 8 (br_val br) OR push_bit 56 (ucast (input ! ?n)),
    br_bit_pos := br_bit_pos br - 8, br_avail_in := br_avail_in br - 1,
    br_next_in := br_next_in br + 1\<rparr>"
  have br': "BrotliPullByte br input = Some (True, br')"
    using assms(3) n by (simp add: BrotliPullByte_def slice_simps br'_def)
  have val: "br_val br' = drop_bit 8 (br_val br) OR push_bit 56 (ucast (input ! ?n))"
    and other: "br_bit_pos br' = br_bit_pos br - 8" "br_avail_in br' = br_avail_in br - 1"
      "br_next_in br' = br_next_in br + 1"
    by (simp_all add: br'_def)
  have p': "unat (br_bit_pos br') = ?p - 8"
    using assms(2) by (simp add: other unat_sub word_le_nat_alt)
  have a': "unat (br_avail_in br') = ?a - 1"
    using a by (simp add: other unat_minus_one assms(3))
  have n': "unat (br_next_in br') = ?n + 1"
    using ok a by (simp add: other br_ok_def unat_plus_if')
  have ok': "br_ok br' input" using ok a by (auto simp: br_ok_def p' a' n')
  have bitv: "bit (br_val br') i =
      (if i < 56 then bit (br_val br) (8 + i) else i < 64 \<and> bit (input ! ?n) (i - 56))" for i
    unfolding val by (auto simp: bit_simps dest: bit_imp_le_length)
  have "acc_bits br' = acc_bits br @ bits_of_bytes [input ! ?n]"
  proof (rule nth_equalityI)
    show "length (acc_bits br') = length (acc_bits br @ bits_of_bytes [input ! ?n])"
      using assms(2) ok by (simp add: p' br_ok_def)
    fix i assume "i < length (acc_bits br')"
    then have i: "i < 72 - ?p" "?p \<le> 64" using p' assms(2) ok by (auto simp: br_ok_def)
    show "acc_bits br' ! i = (acc_bits br @ bits_of_bytes [input ! ?n]) ! i"
    proof (cases "i < 64 - ?p")
      case True
      then have "8 + (?p - 8 + i) = ?p + i" "?p - 8 + i < 56" using assms(2) i by auto
      with True i assms(2) show ?thesis
        by (simp add: acc_bits_def nth_append p' bitv)
    next
      case False
      then have "?p - 8 + i - 56 = i - (64 - ?p)" "\<not> ?p - 8 + i < 56" "?p - 8 + i < 64"
        using assms(2) i by auto
      with False i assms(2) show ?thesis
        by (simp add: acc_bits_def nth_append p' bitv bits_of_word_def)
    qed
  qed
  moreover have "window_bytes br input = [input ! ?n] @ window_bytes br' input"
    using window_split [OF ok a] n by (simp add: window_bytes_def a' n' take_Suc_conv_app_nth)
  ultimately have "stream br' input = stream br input" by (simp add: stream_def)
  with br' ok' p' a' assms(1) show ?thesis by (auto simp: br_at_def)
qed

lemma pull_until_at:
  assumes "br_at br input bs" "unat n \<le> 32"
  shows "\<exists>br'. pull_until br n input = Some (unat n \<le> length bs, br') \<and> br_at br' input bs \<and>
    (unat n \<le> length bs \<longrightarrow> unat n \<le> 64 - unat (br_bit_pos br')) \<and>
    (length bs < unat n \<longrightarrow> br_avail_in br' = 0) \<and>
    (unat n \<le> 64 - unat (br_bit_pos br) \<longrightarrow> br' = br)"
  using assms
proof (induction br n input rule: pull_until.induct)
  case (1 br n input)
  from "1.prems"(1) have p: "unat (br_bit_pos br) \<le> 64" by (simp add: br_at_def br_ok_def)
  show ?case
  proof (cases "BrotliGetAvailableBits br < n")
    case False
    then have "unat n \<le> 64 - unat (br_bit_pos br)"
      using available_bits [OF p] by (simp add: word_less_nat_alt)
    moreover have "64 - unat (br_bit_pos br) \<le> length bs"
      using br_at_length [OF "1.prems"(1)] by simp
    ultimately show ?thesis
      using False "1.prems" by (simp add: pull_until.simps [of br n input])
  next
    case True
    then have lt: "64 - unat (br_bit_pos br) < unat n"
      using available_bits [OF p] by (simp add: word_less_nat_alt)
    show ?thesis
    proof (cases "br_avail_in br = 0")
      case a0: True
      then have "length bs < unat n" using lt br_at_length [OF "1.prems"(1)] by simp
      with True a0 lt "1.prems" show ?thesis
        by (simp add: pull_until.simps [of br n input] BrotliPullByte_def)
    next
      case False
      have "8 \<le> unat (br_bit_pos br)" using lt "1.prems"(2) by simp
      then obtain br1 where br1: "BrotliPullByte br input = Some (True, br1)" "br_at br1 input bs"
        using PullByte_at [OF "1.prems"(1) _ False] by blast
      then have unf: "pull_until br n input = pull_until br1 n input"
        using True by (simp add: pull_until.simps [of br n input])
      from "1.IH" [OF True br1(1) refl _ br1(2) "1.prems"(2)] lt show ?thesis
        unfolding unf by fastforce
    qed
  qed
qed

lemma SafeReadBits_at [stream_laws]:
  assumes "br_at br input bs" "unat n \<le> 32"
  shows "\<exists>br'. BrotliSafeReadBits br n val input =
      Some (if unat n \<le> length bs then (True, word_of_bits (take (unat n) bs), br')
            else (False, val, br')) \<and>
    br_at br' input (if unat n \<le> length bs then drop (unat n) bs else bs) \<and>
    (length bs < unat n \<longrightarrow> br_avail_in br' = 0)"
proof -
  obtain br1 where br1: "pull_until br n input = Some (unat n \<le> length bs, br1)" "br_at br1 input bs"
    "unat n \<le> length bs \<longrightarrow> unat n \<le> 64 - unat (br_bit_pos br1)"
    "length bs < unat n \<longrightarrow> br_avail_in br1 = 0"
    using pull_until_at [OF assms] by blast
  show ?thesis
  proof (cases "unat n \<le> length bs")
    case True
    with br1(3) have n: "unat n \<le> 64 - unat (br_bit_pos br1)" by simp
    show ?thesis
      using br1 True TakeBits_at [OF br1(2) n assms(2)] DropBits_at [OF br1(2) n]
      by (simp add: BrotliSafeReadBits_def)
  next
    case False
    with br1 show ?thesis by (auto simp: BrotliSafeReadBits_def)
  qed
qed

lemma SafeGetBits_at [stream_laws]:
  assumes "br_at br input bs" "unat n \<le> 32"
  shows "\<exists>br'. BrotliSafeGetBits br n val input =
      Some (if unat n \<le> length bs then (True, word_of_bits (take (unat n) bs), br')
            else (False, val, br')) \<and>
    br_at br' input bs \<and> (unat n \<le> length bs \<longrightarrow> unat n \<le> 64 - unat (br_bit_pos br')) \<and>
    (length bs < unat n \<longrightarrow> br_avail_in br' = 0)"
proof -
  obtain br1 where br1: "pull_until br n input = Some (unat n \<le> length bs, br1)" "br_at br1 input bs"
    "unat n \<le> length bs \<longrightarrow> unat n \<le> 64 - unat (br_bit_pos br1)"
    "length bs < unat n \<longrightarrow> br_avail_in br1 = 0"
    using pull_until_at [OF assms] by blast
  show ?thesis
  proof (cases "unat n \<le> length bs")
    case True
    with br1(3) have n: "unat n \<le> 64 - unat (br_bit_pos br1)" by simp
    show ?thesis
      using br1 True unmasked_bits [OF br1(2) n assms(2)] BitMask_mask [OF assms(2)]
      by (simp add: BrotliSafeGetBits_def)
  next
    case False
    with br1 show ?thesis by (auto simp: BrotliSafeGetBits_def)
  qed
qed

lemma Get16BitsUnmasked_at [stream_laws]:
  assumes "br_at br input bs" "unat (br_bit_pos br) < 64" "8 \<le> unat (br_avail_in br)"
  shows "\<exists>v br'. BrotliGet16BitsUnmasked br input = Some (v, br') \<and> br_at br' input bs \<and>
    unat (br_bit_pos br') < 48 \<and> v AND mask 16 = word_of_bits (take 16 bs) \<and>
    unat (br_avail_in br) \<le> unat (br_avail_in br') + 7"
proof -
  have "(if (16::u32) \<le> 16 then 8 else 4) \<le> unat (br_avail_in br)" using assms(3) by simp
  from FillBitWindowCompileTimeNbits_at [OF assms(1,2) this]
  obtain br1 where br1: "BrotliFillBitWindowCompileTimeNbits br 16 input = Some br1"
    "br_at br1 input bs" "unat (br_bit_pos br1) < 48"
    "unat (br_avail_in br) \<le> unat (br_avail_in br1) + 7" by auto
  have u: "ucast (BrotliGetBitsUnmasked br1 AND 4294967295) =
      (ucast (BrotliGetBitsUnmasked br1) :: u32)"
  proof -
    have "(4294967295 :: u64) = mask 32" by (simp add: mask_eq_exp_minus_1)
    then show ?thesis by (auto simp: bit_eq_iff bit_simps)
  qed
  have "ucast (BrotliGetBitsUnmasked br1) AND mask 16 = (word_of_bits (take 16 bs) :: u32)"
    using unmasked_bits [OF br1(2), of 16] br1(3) by simp
  with br1 show ?thesis by (auto simp: BrotliGet16BitsUnmasked_def u)
qed

lemma GetBits_at [stream_laws]:
  assumes "br_at br input bs" "unat (br_bit_pos br) < 64" "8 \<le> unat (br_avail_in br)"
    and "unat n \<le> 32"
  shows "\<exists>br'. BrotliGetBits br n input = Some (word_of_bits (take (unat n) bs), br') \<and>
    br_at br' input bs \<and> unat (br_bit_pos br') < 32 \<and>
    unat (br_avail_in br) \<le> unat (br_avail_in br') + 7"
proof -
  obtain br1 where br1: "BrotliFillBitWindow br n input = Some br1" "br_at br1 input bs"
    "unat (br_bit_pos br1) < 32" "unat (br_avail_in br) \<le> unat (br_avail_in br1) + 7"
    using FillBitWindow_at [OF assms(1-3)] by blast
  have n: "unat n \<le> 64 - unat (br_bit_pos br1)" using br1(3) assms(4) by simp
  show ?thesis
    using br1 unmasked_bits [OF br1(2) n assms(4)] BitMask_mask [OF assms(4)]
    by (simp add: BrotliGetBits_def)
qed

text \<open>Warming up leaves at least one bit in the accumulator, which is what the refills need.\<close>

lemma WarmupBitReader_at [stream_laws]:
  assumes "br_at br input bs"
  shows "\<exists>br'. BrotliWarmupBitReader br input = Some (bs \<noteq> [], br') \<and> br_at br' input bs \<and>
    (bs \<noteq> [] \<longrightarrow> unat (br_bit_pos br') < 64)"
proof -
  from assms have p: "unat (br_bit_pos br) \<le> 64" by (simp add: br_at_def br_ok_def)
  note len = br_at_length [OF assms]
  show ?thesis
  proof (cases "BrotliGetAvailableBits br = 0")
    case False
    then have "unat (br_bit_pos br) < 64"
      using available_bits [OF p] unat_gt_0 [of "BrotliGetAvailableBits br"] by linarith
    with False assms len show ?thesis by (auto simp: BrotliWarmupBitReader_def)
  next
    case True
    then have p64: "unat (br_bit_pos br) = 64"
      using available_bits [OF p] p by simp
    show ?thesis
    proof (cases "br_avail_in br = 0")
      case a: True
      with len p64 have "bs = []" by simp
      with True a assms show ?thesis by (simp add: BrotliWarmupBitReader_def BrotliPullByte_def)
    next
      case False
      then have "bs \<noteq> []" using len p64 by (auto simp: unat_eq_0)
      with True False p64 PullByte_at [OF assms _ False] show ?thesis
        by (auto simp: BrotliWarmupBitReader_def)
    qed
  qed
qed

subsection \<open>Byte boundaries\<close>

lemma and7: "unat ((w::u32) AND 7) = unat w mod 8"
proof -
  have "w AND 7 = take_bit 3 w" by (simp add: take_bit_eq_mask mask_eq_exp_minus_1)
  then show ?thesis by (simp add: take_bit_eq_mod unat_mod)
qed

lemma drop3: "unat (drop_bit 3 (w::u32)) = unat w div 8"
  by (simp add: drop_bit_eq_div unat_div)

text \<open>
  The window holds whole bytes, so the number of bits up to the next byte boundary is the
  length of the stream modulo 8.
\<close>

lemma JumpToByteBoundary_at [stream_laws]:
  assumes "br_at br input bs"
  shows "\<exists>br'. BrotliJumpToByteBoundary br =
      Some ((\<forall>b \<in> set (take (length bs mod 8) bs). \<not> b), br') \<and>
    br_at br' input (drop (length bs mod 8) bs)"
proof -
  from assms have p: "unat (br_bit_pos br) \<le> 64" by (simp add: br_at_def br_ok_def)
  define n where "n = BrotliGetAvailableBits br AND 7"
  have n: "unat n = length bs mod 8"
    unfolding n_def and7 available_bits [OF p] br_at_length [OF assms] by simp
  have "length bs mod 8 = (64 - unat (br_bit_pos br)) mod 8"
    unfolding br_at_length [OF assms] by simp
  also have "\<dots> \<le> 64 - unat (br_bit_pos br)" by simp
  finally have le: "unat n \<le> 64 - unat (br_bit_pos br)" by (simp add: n)
  have n32: "unat n \<le> 32" unfolding n by simp
  show ?thesis
  proof (cases "n = 0")
    case True
    then have "length bs mod 8 = 0" using n by simp
    with True assms show ?thesis by (simp add: BrotliJumpToByteBoundary_def n_def)
  next
    case False
    have "(word_of_bits (take (unat n) bs) :: u32) = 0 \<longleftrightarrow> (\<forall>b \<in> set (take (unat n) bs). \<not> b)"
      using n32 by (auto simp: bit_eq_iff bit_word_of_bits in_set_conv_nth all_set_conv_all_nth)
    with False TakeBits_at [OF assms le n32] DropBits_at(1) [OF assms le] show ?thesis
      by (simp add: BrotliJumpToByteBoundary_def n_def [symmetric] Let_def n [symmetric])
  qed
qed

text \<open>
  Bytes in the accumulator were read from the bytes just before the window. This invariant is
  what lets \<open>BrotliBitReaderUnload\<close> give them back.
\<close>

definition acc_from_input :: "BrotliBitReader \<Rightarrow> u8 list \<Rightarrow> bool" where
  "acc_from_input br input \<longleftrightarrow>
    (let q = (64 - unat (br_bit_pos br)) div 8 in
      q \<le> unat (br_next_in br) \<and>
      map (bit (br_val br)) [64 - 8 * q..<64] =
        bits_of_bytes (take q (drop (unat (br_next_in br) - q) input)))"

lemma Unload_at:
  assumes "br_at br input bs" "acc_from_input br input"
  shows "br_at (BrotliBitReaderUnload br) input bs"
    and "unat (br_bit_pos (BrotliBitReaderUnload br)) = 64 - length bs mod 8"
    and "unat (br_avail_in (BrotliBitReaderUnload br)) = length bs div 8"
proof -
  let ?p = "unat (br_bit_pos br)" and ?n = "unat (br_next_in br)" and ?a = "unat (br_avail_in br)"
  let ?r = "BrotliBitReaderUnload br"
  from assms(1) have ok: "br_ok br input" and p: "?p \<le> 64" by (auto simp: br_at_def br_ok_def)
  note len = br_at_length [OF assms(1)]
  define q where "q = (64 - ?p) div 8"
  have q: "q \<le> ?n" "map (bit (br_val br)) [64 - 8 * q..<64] = bits_of_bytes (take q (drop (?n - q) input))"
    using assms(2) by (auto simp: acc_from_input_def q_def Let_def)
  have q8: "8 * q \<le> 64 - ?p" "q \<le> 8" using p by (auto simp: q_def)
  define ub where "ub = drop_bit 3 (BrotliGetAvailableBits br)"
  have ub: "unat ub = q" by (simp add: ub_def drop3 available_bits [OF p] q_def)
  have ub8: "unat (push_bit 3 ub) = 8 * q"
    using q8 by (simp add: push_bit_eq_mult unat_word_ariths ub)
  have p': "unat (br_bit_pos ?r) = ?p + 8 * q"
    using q8 p by (simp add: BrotliBitReaderUnload_def Let_def ub_def [symmetric] unat_plus_if' ub8)
  have a': "unat (br_avail_in ?r) = ?a + q"
    using ok q(1) by (simp add: BrotliBitReaderUnload_def Let_def ub_def [symmetric] br_ok_def
        unat_plus_if' ub)
  have n': "unat (br_next_in ?r) = ?n - q"
    using q(1) by (simp add: BrotliBitReaderUnload_def Let_def ub_def [symmetric]
        unat_sub word_le_nat_alt ub)
  have lens: "64 - (?p + 8 * q) = length bs mod 8" "?a + q = length bs div 8"
  proof -
    have "64 - (?p + 8 * q) = (64 - ?p) - 8 * q" by simp
    then show "64 - (?p + 8 * q) = length bs mod 8"
      unfolding len q_def by (simp add: minus_mult_div_eq_mod)
    show "?a + q = length bs div 8" unfolding len q_def by simp
  qed
  show "unat (br_bit_pos ?r) = 64 - length bs mod 8" "unat (br_avail_in ?r) = length bs div 8"
    using lens q8 p unfolding p' a' by auto
  have ok': "br_ok ?r input" using ok q q8 p by (auto simp: br_ok_def p' a' n')
  have "acc_bits ?r = map (bit (br_val br)) [?p..<64 - 8 * q]"
  proof (cases "q = 8")
    case True
    then show ?thesis using p q8 by (simp add: acc_bits_def p')
  next
    case False
    then have q7: "unat (push_bit 3 ub) < 64" using ub8 q8 by simp
    then have "br_val ?r = push_bit (8 * q) (br_val br)"
      by (simp add: BrotliBitReaderUnload_def Let_def ub_def [symmetric] ub8)
    then show ?thesis using p q8
      by (auto simp: acc_bits_def p' bit_simps intro!: nth_equalityI)
  qed
  moreover have "acc_bits br = map (bit (br_val br)) [?p..<64 - 8 * q] @
      bits_of_bytes (take q (drop (?n - q) input))"
    using upt_add_eq_append [of ?p "64 - 8 * q" "8 * q"] q8 p
    by (simp add: acc_bits_def q(2) [symmetric] flip: map_append)
  moreover have "window_bytes ?r input = take q (drop (?n - q) input) @ window_bytes br input"
    using window_split [OF ok', of q] q(1) by (simp add: window_bytes_def a' n')
  ultimately have "stream ?r input = stream br input" by (simp add: stream_def)
  with ok' assms(1) show "br_at ?r input bs" by (simp add: br_at_def)
qed

subsection \<open>Copying and peeking bytes\<close>

lemma acc_byte:
  assumes "br_at br input bs" "8 \<le> 64 - unat (br_bit_pos br)"
  shows "bits_of_word 8 (ucast (BrotliGetBitsUnmasked br) :: u8) = take 8 bs"
proof (rule nth_equalityI)
  show "length (bits_of_word 8 (ucast (BrotliGetBitsUnmasked br) :: u8)) = length (take 8 bs)"
    using br_at_length [OF assms(1)] assms(2) by simp
  fix i assume "i < length (bits_of_word 8 (ucast (BrotliGetBitsUnmasked br) :: u8))"
  then have i: "i < 8" by simp
  then have "bs ! i = bit (br_val br) (unat (br_bit_pos br) + i)"
    using assms by (auto simp: br_at_def stream_def acc_bits_def nth_append)
  then show "bits_of_word 8 (ucast (BrotliGetBitsUnmasked br) :: u8) ! i = take 8 bs ! i"
    using i assms(2) by (simp add: bits_of_word_def BrotliGetBitsUnmasked_def bit_simps)
qed

lemma copy_from_acc_at:
  assumes "br_at br input bs" "offset + num \<le> length dest" "8 * num \<le> length bs"
  shows "\<exists>k bytes br'. copy_from_acc dest br offset num =
      Some (take offset dest @ bytes @ drop (offset + k) dest, br', offset + k, num - k) \<and>
    k \<le> num \<and> bits_of_bytes bytes = take (8 * k) bs \<and> br_at br' input (drop (8 * k) bs) \<and>
    (k < num \<longrightarrow> 64 - unat (br_bit_pos br') < 8)"
  using assms
proof (induction num arbitrary: dest br offset bs)
  case 0
  then show ?case by (intro exI [of _ 0] exI [of _ "[]"] exI [of _ br]) simp
next
  case (Suc num)
  from Suc.prems(1) have p: "unat (br_bit_pos br) \<le> 64" by (simp add: br_at_def br_ok_def)
  show ?case
  proof (cases "8 \<le> BrotliGetAvailableBits br")
    case False
    then have "64 - unat (br_bit_pos br) < 8"
      using available_bits [OF p] by (simp add: word_le_nat_alt)
    with False Suc.prems show ?thesis
      by (intro exI [of _ 0] exI [of _ "[]"] exI [of _ br]) simp
  next
    case True
    then have av: "8 \<le> 64 - unat (br_bit_pos br)"
      using available_bits [OF p] by (simp add: word_le_nat_alt)
    let ?b = "ucast (BrotliGetBitsUnmasked br) :: u8"
    let ?br = "BrotliDropBits br 8"
    have at: "br_at ?br input (drop 8 bs)"
      using DropBits_at(1) [OF Suc.prems(1), of 8] av by simp
    have pre: "(offset + 1) + num \<le> length (dest[offset := ?b])" "8 * num \<le> length (drop 8 bs)"
      using Suc.prems(2,3) by simp_all
    obtain k bytes br' where IH:
      "copy_from_acc (dest[offset := ?b]) ?br (offset + 1) num =
        Some (take (offset + 1) (dest[offset := ?b]) @ bytes @ drop (offset + 1 + k) (dest[offset := ?b]),
              br', offset + 1 + k, num - k)"
      "k \<le> num" "bits_of_bytes bytes = take (8 * k) (drop 8 bs)"
      "br_at br' input (drop (8 * k) (drop 8 bs))" "k < num \<longrightarrow> 64 - unat (br_bit_pos br') < 8"
      using Suc.IH [OF at pre] by blast
    have "bits_of_bytes (?b # bytes) = take (8 * Suc k) bs"
      using IH(3) acc_byte [OF Suc.prems(1) av] by (simp flip: take_add)
    moreover have "copy_from_acc dest br offset (Suc num) =
        Some (take offset dest @ (?b # bytes) @ drop (offset + Suc k) dest, br', offset + Suc k, Suc num - Suc k)"
      using True Suc.prems(2) IH(1) by (simp add: slice_simps take_Suc_conv_app_nth take_update_cancel drop_update_cancel)
    moreover have "br_at br' input (drop (8 * Suc k) bs)"
      using IH(4) by (simp add: add.commute)
    ultimately show ?thesis using IH(2,5)
      by (intro exI [of _ "Suc k"] exI [of _ "?b # bytes"] exI [of _ br']) simp
  qed
qed

lemma copy_from_input_Some:
  assumes "offset + k \<le> length dest" "next + k \<le> length input"
  shows "copy_from_input dest offset input next k =
    Some (take offset dest @ take k (drop next input) @ drop (offset + k) dest)"
  using assms
proof (induction k arbitrary: dest offset "next")
  case (Suc k)
  have "take (Suc offset) (dest[offset := input ! next]) = take offset dest @ [input ! next]"
    using Suc.prems by (simp add: take_Suc_conv_app_nth)
  moreover have "take (Suc k) (drop next input) = input ! next # take k (drop (Suc next) input)"
    using Suc.prems by (simp add: Cons_nth_drop_Suc [symmetric])
  ultimately show ?case using Suc by (simp add: slice_simps)
qed simp

lemma CopyBytes_at [stream_laws]:
  assumes at: "br_at br input bs" and aligned: "length bs mod 8 = 0"
    and enough: "8 * unat num \<le> length bs" "unat num \<le> length dest"
  shows "\<exists>bytes br'. BrotliCopyBytes dest br num input = Some (bytes @ drop (unat num) dest, br') \<and>
    bits_of_bytes bytes = take (8 * unat num) bs \<and> br_at br' input (drop (8 * unat num) bs)"
proof -
  obtain k bytes br1 where acc:
    "copy_from_acc dest br 0 (unat num) = Some (bytes @ drop k dest, br1, k, unat num - k)"
    "k \<le> unat num" "bits_of_bytes bytes = take (8 * k) bs" "br_at br1 input (drop (8 * k) bs)"
    "k < unat num \<longrightarrow> 64 - unat (br_bit_pos br1) < 8"
    using copy_from_acc_at [OF at, of 0 "unat num" dest] enough by auto
  define m where "m = unat num - k"
  have "8 * k \<le> length bs" using acc(2) enough(1) by simp
  then have lenb: "length bytes = k" using arg_cong [OF acc(3), of length] by simp
  let ?n = "unat (br_next_in br1)" and ?a = "unat (br_avail_in br1)"
  let ?r = "br1\<lparr>br_avail_in := br_avail_in br1 - of_nat m, br_next_in := br_next_in br1 + of_nat m\<rparr>"
  from acc(4) have ok1: "br_ok br1 input" by (simp add: br_at_def)
  note len1 = br_at_length [OF acc(4)]
  have acc0: "acc_bits br1 = []" if "m \<noteq> 0"
  proof -
    have "length bs - 8 * k = (64 - unat (br_bit_pos br1)) + 8 * ?a"
      using len1 by simp
    then have "(64 - unat (br_bit_pos br1)) mod 8 = (length bs - 8 * k) mod 8" by simp
    also have "\<dots> = 0" using aligned enough(1) acc(2)
      by (metis dvd_diff_nat dvd_imp_mod_0 dvd_triv_left mod_0_imp_dvd)
    finally have "64 - unat (br_bit_pos br1) = 0" using acc(5) that by (simp add: m_def)
    then show ?thesis by (simp add: acc_bits_def)
  qed
  have ma: "m \<le> ?a"
  proof (cases "m = 0")
    case False
    then have "64 - unat (br_bit_pos br1) = 0"
      using acc0 [OF False] by (metis length_acc_bits list.size(3))
    then show ?thesis using len1 enough(1) acc(2) by (simp add: m_def)
  qed simp
  have mw: "unat (of_nat m :: u32) = m"
    using ma unsigned_less [of "br_avail_in br1", where ?'a = nat] by (simp add: unat_of_nat take_bit_nat_eq_self_iff)
  have r: "unat (br_avail_in ?r) = ?a - m" "unat (br_next_in ?r) = ?n + m"
    using ma mw ok1 by (simp_all add: unat_sub word_le_nat_alt unat_plus_if' br_ok_def)
  let ?more = "take m (drop ?n input)"
  have inp: "copy_from_input (bytes @ drop k dest) k input ?n m =
      Some (bytes @ ?more @ drop (unat num) dest)"
  proof -
    have "k + m \<le> length (bytes @ drop k dest)" "?n + m \<le> length input" "k + m = unat num"
      using ma ok1 lenb enough(2) acc(2) by (auto simp: br_ok_def m_def)
    from copy_from_input_Some [OF this(1,2)] this(3) show ?thesis
      using lenb enough(2) acc(2) by simp
  qed
  have okr: "br_ok ?r input" using ok1 ma unfolding br_ok_def r by simp
  have win: "window_bytes br1 input = ?more @ window_bytes ?r input"
    using window_split [OF ok1 ma] by (simp only: window_bytes_def r)
  have "bits_of_bytes ?more @ stream ?r input = stream br1 input"
  proof (cases "m = 0")
    case False
    then have "acc_bits ?r = []" "acc_bits br1 = []"
      using acc0 by (simp_all add: acc_bits_def)
    then show ?thesis by (simp add: stream_def win)
  qed (simp add: stream_def acc_bits_def window_bytes_def)
  moreover have "length ?more = m" using ok1 ma by (auto simp: br_ok_def min_def)
  ultimately have split: "bits_of_bytes ?more = take (8 * m) (drop (8 * k) bs)"
    "stream ?r input = drop (8 * m) (drop (8 * k) bs)"
    using acc(4) by (auto simp: br_at_def append_eq_conv_conj)
  have "8 * k + 8 * m = 8 * unat num" using acc(2) by (simp add: m_def)
  then have "bits_of_bytes (bytes @ ?more) = take (8 * unat num) bs"
    "br_at ?r input (drop (8 * unat num) bs)"
    using acc(3) split okr take_add [of "8 * k" "8 * m" bs]
    by (simp_all add: br_at_def add.commute)
  moreover have "BrotliCopyBytes dest br num input = Some ((bytes @ ?more) @ drop (unat num) dest, ?r)"
    using acc(1) inp by (simp add: BrotliCopyBytes_def m_def)
  ultimately show ?thesis by blast
qed

end
