(* ===== verification/Bit_Contract.thy ===== *)
theory Bit_Contract
  imports Bit_Stream
begin

text \<open>
  The contract of the functions that read bits, as a locale with the reading functions of the
  bit reader as its interpretations; the runs of a reader over one input slice as a step relation
  with its invariant; and the properties of the bit reader.
\<close>

subsection \<open>The contract of a read\<close>

text \<open>
  Every function that takes bits from the stream keeps the same contract. \<open>ready br k\<close> says that
  \<open>k\<close> more bits may be taken; each read uses up its share. The values are composed and bounded
  the same way whichever function reads them.
\<close>

fun read_run ::
  "(BrotliBitReader \<Rightarrow> u32 \<Rightarrow> u8 list \<Rightarrow> (u32 \<times> BrotliBitReader) option) \<Rightarrow> u32 list \<Rightarrow>
     BrotliBitReader \<Rightarrow> u8 list \<Rightarrow> (u32 list \<times> BrotliBitReader) option" where
  "read_run read [] br input = Some ([], br)"
| "read_run read (n # ns) br input = do {
     (v, br) \<leftarrow> read br n input;
     (vs, br) \<leftarrow> read_run read ns br input;
     Some (v # vs, br)
   }"

text \<open>The numbers that reads of the given widths should return.\<close>

fun split_bits :: "u32 list \<Rightarrow> bool list \<Rightarrow> u32 list" where
  "split_bits [] bs = []"
| "split_bits (n # ns) bs = word_of_bits (take (unat n) bs) # split_bits ns (drop (unat n) bs)"

abbreviation width :: "u32 list \<Rightarrow> nat" where
  "width ns \<equiv> sum_list (map unat ns)"

locale bit_source =
  fixes read :: "BrotliBitReader \<Rightarrow> u32 \<Rightarrow> u8 list \<Rightarrow> (u32 \<times> BrotliBitReader) option"
    and ready :: "BrotliBitReader \<Rightarrow> u8 list \<Rightarrow> nat \<Rightarrow> bool"
  assumes read_at: "br_at br input bs \<Longrightarrow> ready br input (unat n + k) \<Longrightarrow> unat n \<le> 32 \<Longrightarrow>
      \<exists>br'. read br n input = Some (word_of_bits (take (unat n) bs), br') \<and>
        br_at br' input (drop (unat n) bs) \<and> ready br' input k"
begin

lemma read_bound:
  assumes "br_at br input bs" "ready br input (unat n)" "unat n < 32"
  shows "\<exists>v br'. read br n input = Some (v, br') \<and> unat v < 2 ^ unat n"
proof -
  from read_at [of br input bs n 0] assms obtain br' where
    "read br n input = Some (word_of_bits (take (unat n) bs), br')" by auto
  moreover have "unat (word_of_bits (take (unat n) bs) :: u32) < 2 ^ unat n"
    by (rule unat_word_of_bits_less) (use assms(3) in auto)
  ultimately show ?thesis by blast
qed

text \<open>Two reads in a row return the low and the high part of what one read would return.\<close>

lemma read_twice:
  assumes "br_at br input bs" "ready br input (unat m + unat n)" "unat m + unat n \<le> 32"
  shows "\<exists>v w br1 br2 br'. read br m input = Some (v, br1) \<and> read br1 n input = Some (w, br2) \<and>
    read br (m + n) input = Some (v OR push_bit (unat m) w, br') \<and>
    br_at br2 input (drop (unat m + unat n) bs) \<and> br_at br' input (drop (unat m + unat n) bs)"
proof -
  have mn: "unat (m + n) = unat m + unat n" using assms(3) by (simp add: unat_plus_if')
  from read_at [OF assms(1,2)] assms(3) obtain br1 where 1:
    "read br m input = Some (word_of_bits (take (unat m) bs), br1)"
    "br_at br1 input (drop (unat m) bs)" "ready br1 input (unat n)" by auto
  from read_at [OF 1(2), of n 0] 1(3) assms(3) obtain br2 where 2:
    "read br1 n input = Some (word_of_bits (take (unat n) (drop (unat m) bs)), br2)"
    "br_at br2 input (drop (unat m + unat n) bs)" by (auto simp: add.commute)
  from read_at [OF assms(1), of "m + n" 0] assms(2,3) mn obtain br' where 3:
    "read br (m + n) input = Some (word_of_bits (take (unat m + unat n) bs), br')"
    "br_at br' input (drop (unat m + unat n) bs)" by auto
  have "(word_of_bits (take (unat m + unat n) bs) :: u32) =
      word_of_bits (take (unat m) bs) OR push_bit (unat m) (word_of_bits (take (unat n) (drop (unat m) bs)))"
    by (rule word_of_bits_split)
  with 1 2 3 show ?thesis by metis
qed

lemma read_run_at:
  assumes "br_at br input bs" "ready br input (width ns + k)" "\<forall>n \<in> set ns. unat n \<le> 32"
  shows "\<exists>br'. read_run read ns br input = Some (split_bits ns bs, br') \<and>
    br_at br' input (drop (width ns) bs) \<and> ready br' input k"
  using assms
proof (induction ns arbitrary: br bs)
  case (Cons n ns)
  then have "ready br input (unat n + (width ns + k))" by (simp add: add.assoc)
  from read_at [OF Cons.prems(1) this] Cons.prems(3) obtain br1 where 1:
    "read br n input = Some (word_of_bits (take (unat n) bs), br1)"
    "br_at br1 input (drop (unat n) bs)" "ready br1 input (width ns + k)" by auto
  from Cons.IH [OF 1(2,3)] Cons.prems(3) 1(1) show ?case by (auto simp: add.commute)
qed simp

end

text \<open>Bits that are in the accumulator.\<close>

definition buffered :: "BrotliBitReader \<Rightarrow> u8 list \<Rightarrow> nat \<Rightarrow> bool" where
  "buffered br input k \<longleftrightarrow> k \<le> 64 - unat (br_bit_pos br)"

text \<open>
  The next fast read is possible if there is a bit in the accumulator and either the eight bytes
  that a refill loads are ahead or no refill is needed.
\<close>

definition next_read_ok :: "BrotliBitReader \<Rightarrow> bool" where
  "next_read_ok br \<longleftrightarrow> unat (br_bit_pos br) < 64 \<and> (8 \<le> unat (br_avail_in br) \<or> unat (br_bit_pos br) < 32)"

text \<open>
  A reader on the fast path: \<open>k\<close> bits can be taken and a further read is still possible. With 89 bits
  ahead there are eight bytes behind an accumulator that needs a refill.
\<close>

definition fast_ready :: "BrotliBitReader \<Rightarrow> u8 list \<Rightarrow> nat \<Rightarrow> bool" where
  "fast_ready br input k \<longleftrightarrow> unat (br_bit_pos br) < 64 \<and>
     k + 89 \<le> 64 - unat (br_bit_pos br) + 8 * unat (br_avail_in br)"

lemma fast_ready_next_read: "fast_ready br input k \<Longrightarrow> next_read_ok br"
  unfolding fast_ready_def next_read_ok_def by linarith

lemma fast_ready_next:
  assumes "br_at br input bs" "fast_ready br input (n + k)"
    and "br_at br' input (drop n bs)" "unat (br_bit_pos br') < 64"
  shows "fast_ready br' input k"
  using br_at_length [OF assms(1)] br_at_length [OF assms(3)] assms(2,4)
  unfolding fast_ready_def length_drop by linarith

text \<open>What \<open>BrotliCheckInputAmount(br, 28)\<close> buys the command loop.\<close>

lemma CheckInputAmount_fast_ready:
  assumes "BrotliCheckInputAmount br 28" "unat (br_bit_pos br) < 64"
  shows "fast_ready br input 136"
  using assms by (simp add: BrotliCheckInputAmount_def fast_ready_def word_le_nat_alt)

lemma fill_not_needed:
  assumes "unat (br_bit_pos br) < 32"
  shows "BrotliFillBitWindow br n input = Some br" "BrotliFillBitWindowCompileTimeNbits br n input = Some br"
  using assms
  by (simp_all add: BrotliFillBitWindow_def BrotliFillBitWindowCompileTimeNbits_def word_le_nat_alt)

lemma read_without_fill:
  assumes "br_at br input bs" "unat (br_bit_pos br) < 32" "unat n \<le> 32"
  shows "BrotliReadBits br n input = Some (word_of_bits (take (unat n) bs), BrotliDropBits br n)"
    and "BrotliReadConstantNBits br n input = Some (word_of_bits (take (unat n) bs), BrotliDropBits br n)"
    and "br_at (BrotliDropBits br n) input (drop (unat n) bs)" "unat (br_bit_pos (BrotliDropBits br n)) < 64"
proof -
  have n: "unat n \<le> 64 - unat (br_bit_pos br)" using assms(2,3) by linarith
  show "BrotliReadBits br n input = Some (word_of_bits (take (unat n) bs), BrotliDropBits br n)"
    "BrotliReadConstantNBits br n input = Some (word_of_bits (take (unat n) bs), BrotliDropBits br n)"
    using TakeBits_at [OF assms(1) n assms(3)] fill_not_needed [OF assms(2)]
    by (simp_all add: BrotliReadBits_def BrotliReadConstantNBits_def)
  show "br_at (BrotliDropBits br n) input (drop (unat n) bs)" by (rule DropBits_at(1) [OF assms(1) n])
  show "unat (br_bit_pos (BrotliDropBits br n)) < 64"
    using DropBits_at(2) [OF assms(1) n] assms(2,3) by linarith
qed

lemma ReadBits_next:
  assumes "br_at br input bs" "next_read_ok br" "unat n \<le> 32"
  shows "\<exists>br'. BrotliReadBits br n input = Some (word_of_bits (take (unat n) bs), br') \<and>
    br_at br' input (drop (unat n) bs) \<and> unat (br_bit_pos br') < 64"
  using assms read_without_fill [OF assms(1) _ assms(3)] ReadBits_at [OF assms(1) _ _ assms(3)]
  unfolding next_read_ok_def by blast

lemma ReadConstantNBits_next:
  assumes "br_at br input bs" "next_read_ok br" "unat n \<le> 32"
  shows "\<exists>br'. BrotliReadConstantNBits br n input = Some (word_of_bits (take (unat n) bs), br') \<and>
    br_at br' input (drop (unat n) bs) \<and> unat (br_bit_pos br') < 64"
  using assms read_without_fill [OF assms(1) _ assms(3)] ReadConstantNBits_at [OF assms(1) _ _ assms(3)]
  unfolding next_read_ok_def by blast

definition safe_ready :: "BrotliBitReader \<Rightarrow> u8 list \<Rightarrow> nat \<Rightarrow> bool" where
  "safe_ready br input k \<longleftrightarrow> k \<le> length (stream br input)"

definition safe_read :: "BrotliBitReader \<Rightarrow> u32 \<Rightarrow> u8 list \<Rightarrow> (u32 \<times> BrotliBitReader) option" where
  "safe_read br n input = do {
     (ok, v, br) \<leftarrow> BrotliSafeReadBits br n 0 input;
     if ok then Some (v, br) else None
   }"

interpretation take_bits: bit_source "\<lambda>br n input. BrotliTakeBits br n" buffered
proof (standard, goal_cases)
  case (1 br input bs n k)
  then have "unat n \<le> 64 - unat (br_bit_pos br)" by (simp add: buffered_def)
  from TakeBits_at [OF 1(1) this 1(3)] DropBits_at [OF 1(1) this] 1(2) show ?case
    by (auto simp: buffered_def)
qed

interpretation read_bits: bit_source BrotliReadBits fast_ready
proof (standard, goal_cases)
  case (1 br input bs n k)
  from ReadBits_next [OF 1(1) fast_ready_next_read [OF 1(2)] 1(3)] show ?case
    using fast_ready_next [OF 1(1,2)] by blast
qed

interpretation read_constant_bits: bit_source BrotliReadConstantNBits fast_ready
proof (standard, goal_cases)
  case (1 br input bs n k)
  from ReadConstantNBits_next [OF 1(1) fast_ready_next_read [OF 1(2)] 1(3)] show ?case
    using fast_ready_next [OF 1(1,2)] by blast
qed

interpretation safe_bits: bit_source safe_read safe_ready
proof (standard, goal_cases)
  case (1 br input bs n k)
  from SafeReadBits_at [OF 1(1,3), of 0] 1(1,2) show ?case
    by (auto simp: safe_read_def safe_ready_def br_at_def split: if_splits)
qed

text \<open>Runs of the three readers. The last read of a run has no further one to care for.\<close>

lemma read_run_append:
  "read_run read (ms @ ns) br input = do {
     (vs, br) \<leftarrow> read_run read ms br input;
     (ws, br) \<leftarrow> read_run read ns br input;
     Some (vs @ ws, br)
   }"
proof (induction ms arbitrary: br)
  case Nil
  then show ?case by (cases "read_run read ns br input") auto
next
  case (Cons m ms)
  then show ?case by (cases "read br m input") (auto simp: case_prod_beta)
qed

lemma split_bits_append: "split_bits (ms @ ns) bs = split_bits ms bs @ split_bits ns (drop (width ms) bs)"
  by (induction ms arbitrary: bs) (simp_all add: add.commute)

lemma fast_run:
  assumes src: "bit_source read fast_ready"
    and last: "\<And>br bs n. br_at br input bs \<Longrightarrow> next_read_ok br \<Longrightarrow> unat n \<le> 32 \<Longrightarrow>
      \<exists>br'. read br n input = Some (word_of_bits (take (unat n) bs), br') \<and>
        br_at br' input (drop (unat n) bs) \<and> unat (br_bit_pos br') < 64"
    and at: "br_at br input bs" and next_ok: "next_read_ok br" and ns: "\<forall>n \<in> set ns. unat n \<le> 32"
    and room: "length ns \<le> 1 \<or> width (butlast ns) + 89 \<le> length bs"
  shows "\<exists>br'. read_run read ns br input = Some (split_bits ns bs, br') \<and> br_at br' input (drop (width ns) bs)"
proof (cases ns rule: rev_cases)
  case Nil
  then show ?thesis using at by simp
next
  case (snoc ms n)
  have "\<exists>br1. read_run read ms br input = Some (split_bits ms bs, br1) \<and>
      br_at br1 input (drop (width ms) bs) \<and> next_read_ok br1"
  proof (cases "ms = []")
    case True
    then show ?thesis using at next_ok by simp
  next
    case False
    then have "width ms + 89 \<le> length bs" using room snoc by (cases ms) auto
    then have "fast_ready br input (width ms + 0)"
      using next_ok br_at_length [OF at] by (simp add: fast_ready_def next_read_ok_def)
    from bit_source.read_run_at [OF src at this] ns snoc show ?thesis
      by (auto intro: fast_ready_next_read)
  qed
  then obtain br1 where 1: "read_run read ms br input = Some (split_bits ms bs, br1)"
    "br_at br1 input (drop (width ms) bs)" "next_read_ok br1" by blast
  from last [OF 1(2,3), of n] ns snoc obtain br2 where
    "read br1 n input = Some (word_of_bits (take (unat n) (drop (width ms) bs)), br2)"
    "br_at br2 input (drop (width ms + unat n) bs)" by (auto simp: add.commute)
  with 1 show ?thesis unfolding snoc by (simp add: read_run_append split_bits_append)
qed

lemma safe_run:
  assumes at: "br_at br input bs" and next_ok: "next_read_ok br" and ns: "\<forall>n \<in> set ns. unat n \<le> 32"
    and room: "length ns \<le> 1 \<or> width (butlast ns) + 89 \<le> length bs"
  shows "\<exists>br'. read_run safe_read ns br input = Some (split_bits ns bs, br') \<and> br_at br' input (drop (width ns) bs)"
proof -
  have "width ns \<le> length bs"
  proof (cases ns rule: rev_cases)
    case (snoc ms n)
    have n: "unat n \<le> 32" using ns snoc by simp
    have "32 \<le> length bs" using next_ok br_at_length [OF at] unfolding next_read_ok_def by linarith
    then show ?thesis using room n snoc by (cases ms) auto
  qed simp
  then have "safe_ready br input (width ns + 0)" using at by (simp add: safe_ready_def br_at_def)
  from safe_bits.read_run_at [OF at this ns] show ?thesis by blast
qed

lemma fast_runs:
  assumes "br_at br input bs" "next_read_ok br" "\<forall>n \<in> set ns. unat n \<le> 32"
    and "length ns \<le> 1 \<or> width (butlast ns) + 89 \<le> length bs"
  shows "\<exists>br1 br2 br3. read_run BrotliReadBits ns br input = Some (split_bits ns bs, br1) \<and>
    read_run BrotliReadConstantNBits ns br input = Some (split_bits ns bs, br2) \<and>
    read_run safe_read ns br input = Some (split_bits ns bs, br3) \<and>
    br_at br1 input (drop (width ns) bs) \<and> br_at br2 input (drop (width ns) bs) \<and> br_at br3 input (drop (width ns) bs)"
  using fast_run [OF read_bits.bit_source_axioms ReadBits_next assms]
    fast_run [OF read_constant_bits.bit_source_axioms ReadConstantNBits_next assms] safe_run [OF assms] by blast

subsection \<open>Runs of a reader\<close>

lemma acc_from_input_nth:
  assumes "br_ok br input"
  shows "acc_from_input br input \<longleftrightarrow>
    (let q = (64 - unat (br_bit_pos br)) div 8; n = unat (br_next_in br) in
      q \<le> n \<and> (\<forall>j < 8 * q. bit (br_val br) (64 - 8 * q + j) = bit (input ! (n - q + j div 8)) (j mod 8)))"
proof -
  define q where "q = (64 - unat (br_bit_pos br)) div 8"
  let ?n = "unat (br_next_in br)"
  have q8: "8 * q \<le> 64" by (auto simp: q_def)
  have n: "?n \<le> length input" using assms by (simp add: br_ok_def)
  have "map (bit (br_val br)) [64 - 8 * q..<64] = bits_of_bytes (take q (drop (?n - q) input)) \<longleftrightarrow>
      (\<forall>j < 8 * q. bit (br_val br) (64 - 8 * q + j) = bit (input ! (?n - q + j div 8)) (j mod 8))"
    if "q \<le> ?n"
  proof -
    have len: "length (take q (drop (?n - q) input)) = q" using that n by simp
    have "bits_of_bytes (take q (drop (?n - q) input)) ! j = bit (input ! (?n - q + j div 8)) (j mod 8)"
      if "j < 8 * q" for j
      using that \<open>q \<le> ?n\<close> n len by (simp add: nth_bits_of_bytes less_mult_imp_div_less)
    then show ?thesis using len q8 by (auto simp: list_eq_iff_nth_eq)
  qed
  then show ?thesis by (auto simp: acc_from_input_def q_def [symmetric] Let_def)
qed

lemma acc_from_input_shift:
  assumes ok: "br_ok br input" "br_ok br' input" and acc: "acc_from_input br input"
    and pos: "8 * m \<le> unat (br_bit_pos br)" "unat (br_bit_pos br') = unat (br_bit_pos br) - 8 * m"
    and nxt: "unat (br_next_in br') = unat (br_next_in br) + m"
    and bits: "\<And>i. i < 64 \<Longrightarrow> bit (br_val br') i = (if i < 64 - 8 * m then bit (br_val br) (8 * m + i)
      else bit (input ! (unat (br_next_in br) + (i - (64 - 8 * m)) div 8)) ((i - (64 - 8 * m)) mod 8))"
  shows "acc_from_input br' input"
proof -
  let ?p = "unat (br_bit_pos br)" and ?n = "unat (br_next_in br)"
  define q where "q = (64 - ?p) div 8"
  have p: "?p \<le> 64" using ok(1) by (simp add: br_ok_def)
  have "64 - (?p - 8 * m) = 64 - ?p + 8 * m" using p pos(1) by simp
  then have q': "(64 - (?p - 8 * m)) div 8 = q + m" by (simp add: q_def)
  have q8: "8 * q + 8 * m \<le> 64" using p pos(1) by (auto simp: q_def)
  have q: "q \<le> ?n" and old: "\<And>j. j < 8 * q \<Longrightarrow>
      bit (br_val br) (64 - 8 * q + j) = bit (input ! (?n - q + j div 8)) (j mod 8)"
    using acc by (auto simp: acc_from_input_nth [OF ok(1)] q_def [symmetric] Let_def)
  have "bit (br_val br') (64 - 8 * (q + m) + j) =
      bit (input ! (?n + m - (q + m) + j div 8)) (j mod 8)" if j: "j < 8 * (q + m)" for j
  proof (cases "j < 8 * q")
    case True
    have i: "64 - 8 * (q + m) + j < 64 - 8 * m" "8 * m + (64 - 8 * (q + m) + j) = 64 - 8 * q + j"
      "64 - 8 * (q + m) + j < 64"
      using True q8 by auto
    have "bit (br_val br') (64 - 8 * (q + m) + j) = bit (br_val br) (64 - 8 * q + j)"
      by (simp only: bits [OF i(3)] i(1,2) if_True)
    then show ?thesis using True by (simp only: old) simp
  next
    case False
    then obtain t where t: "j = 8 * q + t" by (metis le_Suc_ex not_less)
    have i: "64 - 8 * (q + m) + j = 64 - 8 * m + t" "64 - 8 * m + t < 64"
      using j q8 by (auto simp: t)
    have "?n + m - (q + m) + j div 8 = ?n + t div 8" "j mod 8 = t mod 8"
      using q by (auto simp: t)
    then show ?thesis using i by (simp add: bits)
  qed
  then show ?thesis
    using q by (simp add: acc_from_input_nth [OF ok(2)] pos(2) nxt q' Let_def)
qed

lemma acc_from_input_DropBits:
  assumes ok: "br_ok br input" "br_ok (BrotliDropBits br n) input" and acc: "acc_from_input br input"
    and n: "unat n \<le> 64 - unat (br_bit_pos br)"
  shows "acc_from_input (BrotliDropBits br n) input"
proof -
  let ?p = "unat (br_bit_pos br)" and ?n = "unat (br_next_in br)"
  define q where "q = (64 - ?p) div 8"
  define q' where "q' = (64 - (?p + unat n)) div 8"
  have p: "?p \<le> 64" using ok(1) by (simp add: br_ok_def)
  have le: "q' \<le> q" unfolding q_def q'_def by (intro div_le_mono) simp
  have q8: "8 * q \<le> 64" by (auto simp: q_def)
  have p': "unat (br_bit_pos (BrotliDropBits br n)) = ?p + unat n"
    using n p by (simp add: BrotliDropBits_def unat_plus_if')
  have q: "q \<le> ?n" and old: "\<And>j. j < 8 * q \<Longrightarrow>
      bit (br_val br) (64 - 8 * q + j) = bit (input ! (?n - q + j div 8)) (j mod 8)"
    using acc by (auto simp: acc_from_input_nth [OF ok(1)] q_def [symmetric] Let_def)
  have "bit (br_val br) (64 - 8 * q' + j) = bit (input ! (?n - q' + j div 8)) (j mod 8)"
    if "j < 8 * q'" for j
  proof -
    have "64 - 8 * q + (8 * (q - q') + j) = 64 - 8 * q' + j"
      "?n - q + (8 * (q - q') + j) div 8 = ?n - q' + j div 8" using le q8 q by auto
    moreover have "8 * (q - q') + j < 8 * q" "(8 * (q - q') + j) mod 8 = j mod 8" using that le by auto
    ultimately show ?thesis using old [of "8 * (q - q') + j"] by (simp only:)
  qed
  then show ?thesis
    using q le unfolding acc_from_input_nth [OF ok(2)] p' q'_def [symmetric] Let_def
    by (simp add: BrotliDropBits_def)
qed

lemma refill_bits:
  assumes "unat k = 8 * m" "m \<le> 8" "i < 64"
    and w: "\<And>j. j < unat k \<Longrightarrow> bit w j = bit (input ! (n + j div 8)) (j mod 8)"
  shows "bit (br_val (refill br k (push_bit (64 - unat k) w) m')) i =
    (if i < 64 - 8 * m then bit (br_val br) (8 * m + i)
     else bit (input ! (n + (i - (64 - 8 * m)) div 8)) ((i - (64 - 8 * m)) mod 8))"
  using assms by (auto simp: refill_def bit_simps dest: bit_imp_le_length)

text \<open>The invariant of a reader.\<close>

definition reader_inv :: "u8 list \<Rightarrow> BrotliBitReader \<Rightarrow> bool" where
  "reader_inv input br \<longleftrightarrow> br_ok br input \<and> acc_from_input br input"

lemma reader_inv_refill:
  assumes inv: "reader_inv input br" and pos: "unat (br_bit_pos br) < 64" "k \<le> br_bit_pos br"
    and k: "k = 32 \<or> k = 48 \<or> k = 56" "unat k = 8 * unat m"
    and avail: "unat m \<le> unat (br_avail_in br)"
    and w: "\<And>j. j < unat k \<Longrightarrow>
      bit w j = bit (input ! (unat (br_next_in br) + j div 8)) (j mod 8)"
  shows "reader_inv input (refill br k (push_bit (64 - unat k) w) m)"
proof -
  let ?r = "refill br k (push_bit (64 - unat k) w) m"
  from inv have ok: "br_ok br input" and acc: "acc_from_input br input"
    by (simp_all add: reader_inv_def)
  note r = refill_stream [OF ok pos k avail w]
  have n': "unat (br_next_in ?r) = unat (br_next_in br) + unat m"
    using ok avail by (simp add: refill_def br_ok_def unat_plus_if')
  have m: "8 * unat m \<le> unat (br_bit_pos br)" using pos(2) k(2) by (simp add: word_le_nat_alt)
  have "acc_from_input ?r input"
    by (rule acc_from_input_shift [OF ok r(1) acc m _ n' refill_bits [OF k(2)]])
       (use m pos k r(3) w in auto)
  with r(1) show ?thesis by (simp add: reader_inv_def)
qed

lemma reader_inv_refill64:
  assumes "reader_inv input br" "unat (br_bit_pos br) < 64" "k \<le> br_bit_pos br"
    and k: "k = 48 \<and> m = 6 \<and> c = 16 \<or> k = 56 \<and> m = 7 \<and> c = 8"
    and avail: "8 \<le> unat (br_avail_in br)" and w: "BrotliLoad64LE input (br_next_in br) = Some w"
  shows "reader_inv input (refill br k (push_bit c w) m)"
proof -
  have j: "bit w j = bit (input ! (unat (br_next_in br) + j div 8)) (j mod 8)" if "j < unat k" for j
    using bit_Load64LE [OF w] that k by auto
  have c: "c = 64 - unat k" and m: "unat k = 8 * unat m" "unat m \<le> unat (br_avail_in br)"
    using k avail by auto
  have k': "k = 32 \<or> k = 48 \<or> k = 56" using k by auto
  show ?thesis using reader_inv_refill [OF assms(1-3) k' m(1,2) j] unfolding c .
qed

lemma reader_inv_refill32:
  assumes "reader_inv input br" "unat (br_bit_pos br) < 64" "32 \<le> br_bit_pos br"
    and avail: "4 \<le> unat (br_avail_in br)" and w: "BrotliLoad32LE input (br_next_in br) = Some w"
  shows "reader_inv input (refill br 32 (push_bit 32 (ucast w)) 4)"
proof -
  have "bit (ucast w :: u64) j = bit (input ! (unat (br_next_in br) + j div 8)) (j mod 8)"
    if "j < unat (32::u32)" for j
    using bit_Load32LE [OF w] that by (simp add: bit_simps)
  from reader_inv_refill [OF assms(1-3) _ _ _ this, of 4] avail show ?thesis by simp
qed

lemma reader_inv_FillBitWindow:
  assumes "reader_inv input br" "unat (br_bit_pos br) < 64" "8 \<le> unat (br_avail_in br)"
    and "BrotliFillBitWindow br n input = Some br'"
  shows "reader_inv input br'"
  using assms(4) reader_inv_refill64 [OF assms(1,2) _ _ assms(3)]
    reader_inv_refill32 [OF assms(1,2)] assms
  by (auto simp: BrotliFillBitWindow_def BROTLI_ALIGNED_READ_def
      BROTLI_SHORT_FILL_BIT_WINDOW_READ_def split: if_splits bind_splits)

lemma reader_inv_FillBitWindowCompileTimeNbits:
  assumes "reader_inv input br" "unat (br_bit_pos br) < 64" "8 \<le> unat (br_avail_in br)"
    and "BrotliFillBitWindowCompileTimeNbits br n input = Some br'"
  shows "reader_inv input br'"
  using assms(4) reader_inv_refill64 [OF assms(1,2) _ _ assms(3)]
    reader_inv_refill32 [OF assms(1,2)] assms
  by (auto simp: BrotliFillBitWindowCompileTimeNbits_def BROTLI_ALIGNED_READ_def
      BROTLI_SHORT_FILL_BIT_WINDOW_READ_def split: if_splits bind_splits)

lemma reader_inv_PullByte:
  assumes inv: "reader_inv input br" and pos: "8 \<le> unat (br_bit_pos br)"
    and pull: "BrotliPullByte br input = Some (True, br')"
  shows "reader_inv input br'"
proof -
  from inv have ok: "br_ok br input" and acc: "acc_from_input br input"
    by (simp_all add: reader_inv_def)
  have a: "br_avail_in br \<noteq> 0" using pull by (auto simp: BrotliPullByte_def)
  from PullByte_at [of br input "stream br input", OF _ pos a] ok pull
  have r: "br_ok br' input" "unat (br_bit_pos br') = unat (br_bit_pos br) - 8"
    by (auto simp: br_at_def)
  have n: "unat (br_next_in br') = unat (br_next_in br) + 1"
    and val: "br_val br' = drop_bit 8 (br_val br) OR push_bit 56 (ucast (input ! unat (br_next_in br)))"
  proof -
    have "unat (br_avail_in br) \<noteq> 0" using a by (simp add: unat_eq_0)
    then have "unat (br_next_in br + 1) = unat (br_next_in br) + 1"
      using ok by (simp add: br_ok_def unat_plus_if')
    then show "unat (br_next_in br') = unat (br_next_in br) + 1"
      "br_val br' = drop_bit 8 (br_val br) OR push_bit 56 (ucast (input ! unat (br_next_in br)))"
      using pull a by (auto simp: BrotliPullByte_def slice_simps split: bind_splits)
  qed
  have "acc_from_input br' input"
  proof (rule acc_from_input_shift [OF ok r(1) acc, of 1])
    fix i :: nat assume "i < 64"
    then show "bit (br_val br') i = (if i < 64 - 8 * 1 then bit (br_val br) (8 * 1 + i)
      else bit (input ! (unat (br_next_in br) + (i - (64 - 8 * 1)) div 8)) ((i - (64 - 8 * 1)) mod 8))"
      by (auto simp: val bit_simps dest: bit_imp_le_length)
  qed (use pos r n in auto)
  with r(1) show ?thesis by (simp add: reader_inv_def)
qed

lemma reader_inv_DropBits:
  assumes "reader_inv input br" "unat n \<le> 64 - unat (br_bit_pos br)"
  shows "reader_inv input (BrotliDropBits br n)"
  using assms DropBits_at(1) [of br input "stream br input" n] acc_from_input_DropBits
  by (auto simp: reader_inv_def br_at_def)

lemma reader_inv_Unload:
  assumes "reader_inv input br"
  shows "reader_inv input (BrotliBitReaderUnload br)"
proof -
  let ?bs = "stream br input"
  have at: "br_at br input ?bs" using assms by (simp add: reader_inv_def br_at_def)
  note r = Unload_at [OF at]
  from assms r have "br_ok (BrotliBitReaderUnload br) input"
    and pos: "unat (br_bit_pos (BrotliBitReaderUnload br)) = 64 - length ?bs mod 8"
    by (auto simp: reader_inv_def br_at_def)
  moreover have "(64 - (64 - length ?bs mod 8)) div 8 = 0" by simp
  ultimately show ?thesis
    using assms by (simp add: reader_inv_def acc_from_input_def)
qed

text \<open>
  The calls that refill a reader, take bits from it or give bytes back while it works on one input
  slice, each under the condition the decoder establishes before it. Copying bytes out and going back
  to a saved position are not among them.
\<close>

inductive reader_step :: "u8 list \<Rightarrow> BrotliBitReader \<Rightarrow> BrotliBitReader \<Rightarrow> bool" for input where
  fill: "unat (br_bit_pos br) < 64 \<Longrightarrow> 8 \<le> unat (br_avail_in br) \<Longrightarrow>
    BrotliFillBitWindow br n input = Some br' \<Longrightarrow> reader_step input br br'"
| fill_const: "unat (br_bit_pos br) < 64 \<Longrightarrow> 8 \<le> unat (br_avail_in br) \<Longrightarrow>
    BrotliFillBitWindowCompileTimeNbits br n input = Some br' \<Longrightarrow> reader_step input br br'"
| pull: "8 \<le> unat (br_bit_pos br) \<Longrightarrow> BrotliPullByte br input = Some (True, br') \<Longrightarrow>
    reader_step input br br'"
| drop: "unat n \<le> 64 - unat (br_bit_pos br) \<Longrightarrow> reader_step input br (BrotliDropBits br n)"
| unload: "reader_step input br (BrotliBitReaderUnload br)"

lemma reader_step_inv:
  assumes "reader_step input br br'" "reader_inv input br"
  shows "reader_inv input br' \<and> (\<exists>k. stream br' input = drop k (stream br input))"
proof -
  have at: "br_at br input (stream br input)" using assms(2) by (simp add: reader_inv_def br_at_def)
  from assms(1) show ?thesis
  proof cases
    case (fill n)
    then show ?thesis
      using reader_inv_FillBitWindow [OF assms(2) fill] FillBitWindow_at [OF at fill(1,2), of n]
      by (auto simp: br_at_def intro: exI [of _ 0])
  next
    case (fill_const n)
    then show ?thesis
      using reader_inv_FillBitWindowCompileTimeNbits [OF assms(2) fill_const]
        FillBitWindowCompileTimeNbits_at [OF at fill_const(1), of n]
      by (auto simp: br_at_def intro: exI [of _ 0] split: if_splits)
  next
    case pull
    then have "br_avail_in br \<noteq> 0" by (auto simp: BrotliPullByte_def)
    with pull show ?thesis
      using reader_inv_PullByte [OF assms(2) pull] PullByte_at [OF at pull(1)]
      by (auto simp: br_at_def intro: exI [of _ 0])
  next
    case (drop n)
    then show ?thesis
      using reader_inv_DropBits [OF assms(2), of n] DropBits_at(1) [OF at, of n]
      by (auto simp: br_at_def)
  next
    case unload
    then show ?thesis
      using reader_inv_Unload [OF assms(2)] Unload_at(1) [OF at] assms(2)
      by (auto simp: reader_inv_def br_at_def intro: exI [of _ 0])
  qed
qed

lemma reader_steps_inv:
  assumes "(reader_step input)\<^sup>*\<^sup>* br br'" "reader_inv input br"
  shows "reader_inv input br' \<and> (\<exists>k. stream br' input = drop k (stream br input))"
  using assms
proof (induction rule: rtranclp_induct)
  case base
  then show ?case by (auto intro: exI [of _ 0])
next
  case (step y z)
  then obtain k where "reader_inv input y" "stream y input = drop k (stream br input)" by blast
  with reader_step_inv [OF step.hyps(2)] show ?case by (metis drop_drop)
qed

lemma reader_inv_initial:
  assumes "unat (br_next_in br) + unat (br_avail_in br) \<le> length input"
    "unat (br_next_in br) + unat (br_avail_in br) < 2 ^ 32"
  shows "reader_inv input (BrotliInitBitReader br)"
  using assms by (simp add: reader_inv_def br_ok_def acc_from_input_def BrotliInitBitReader_def)

subsection \<open>Peeking at bytes\<close>

lemma aligned_acc:
  assumes "br_at br input (bits_of_bytes bytes)"
  shows "64 - unat (br_bit_pos br) = 8 * ((64 - unat (br_bit_pos br)) div 8)"
    "length bytes = (64 - unat (br_bit_pos br)) div 8 + unat (br_avail_in br)"
proof -
  have len: "8 * length bytes = (64 - unat (br_bit_pos br)) + 8 * unat (br_avail_in br)"
    using br_at_length [OF assms] by simp
  then have "8 dvd (64 - unat (br_bit_pos br)) + 8 * unat (br_avail_in br)" by (metis dvd_triv_left)
  then have "8 dvd 64 - unat (br_bit_pos br)" by (simp add: dvd_add_left_iff)
  then show *: "64 - unat (br_bit_pos br) = 8 * ((64 - unat (br_bit_pos br)) div 8)" by simp
  show "length bytes = (64 - unat (br_bit_pos br)) div 8 + unat (br_avail_in br)"
    using len * by linarith
qed

lemma bit_0xFF: "bit (0xFF :: u64) i \<longleftrightarrow> i < 8"
  using bit_mask_iff [where ?'a = u64, of 8 i] by (auto simp: mask_eq_exp_minus_1)

lemma peek_acc:
  assumes at: "br_at br input (bits_of_bytes bytes)"
    and o: "unat offset < (64 - unat (br_bit_pos br)) div 8"
  shows "shr64 (BrotliGetBitsUnmasked br) (push_bit 3 offset) AND 0xFF = ucast (bytes ! unat offset)"
proof (rule bit_word_eqI)
  let ?p = "unat (br_bit_pos br)"
  note q8 = aligned_acc [OF at]
  have q64: "8 * unat offset + 8 \<le> 64 - ?p" using o q8(1) by linarith
  have o8: "unat (push_bit 3 offset) = 8 * unat offset" "8 * unat offset < 64" "?p < 64"
    using q64 by (simp_all add: push_bit_eq_mult unat_word_ariths)
  fix i assume "i < LENGTH(64)"
  show "bit (shr64 (BrotliGetBitsUnmasked br) (push_bit 3 offset) AND 0xFF) i =
      bit (ucast (bytes ! unat offset) :: u64) i"
  proof (cases "i < 8")
    case True
    have idx: "8 * unat offset + i < 64 - ?p" using q64 True by simp
    moreover have "bits_of_bytes bytes = acc_bits br @ bits_of_bytes (window_bytes br input)"
      using at by (simp add: br_at_def stream_def)
    ultimately have "bits_of_bytes bytes ! (8 * unat offset + i) =
        bit (br_val br) (?p + (8 * unat offset + i))"
      by (simp add: nth_append acc_bits_def)
    moreover have "unat offset < length bytes" using o q8(2) by simp
    then have "bits_of_bytes bytes ! (8 * unat offset + i) = bit (bytes ! unat offset) i"
      using True by (simp add: nth_bits_of_bytes)
    moreover have "bit (0xFF :: u64) i" using True by (simp only: bit_0xFF)
    ultimately show ?thesis using True o8
      by (simp add: bit_and_iff bit_0xFF bit_ucast_iff bit_drop_bit_eq BrotliGetBitsUnmasked_def
          add.commute add.left_commute)
  next
    case False
    have "\<not> bit (0xFF :: u64) i" using False by (simp only: bit_0xFF not_False_eq_True)
    moreover have "\<not> bit (bytes ! unat offset) i" using False by (auto dest: bit_imp_le_length)
    ultimately show ?thesis by (simp add: bit_and_iff bit_ucast_iff)
  qed
qed

lemma window_of_bytes:
  assumes at: "br_at br input (bits_of_bytes bytes)"
  shows "window_bytes br input = drop ((64 - unat (br_bit_pos br)) div 8) bytes"
proof (rule bits_of_bytes_inject)
  have "bits_of_bytes bytes = acc_bits br @ bits_of_bytes (window_bytes br input)"
    using at by (simp add: br_at_def stream_def)
  then show "bits_of_bytes (window_bytes br input) =
      bits_of_bytes (drop ((64 - unat (br_bit_pos br)) div 8) bytes)"
    unfolding bits_of_bytes_drop aligned_acc(1) [OF at, symmetric] by simp
qed

lemma PeekByte_at [stream_laws]:
  assumes at: "br_at br input (bits_of_bytes bytes)"
  shows "BrotliPeekByte br offset input =
    Some (if unat offset < length bytes then uint (bytes ! unat offset) else -1)"
proof -
  let ?n = "unat (br_next_in br)" and ?a = "unat (br_avail_in br)"
  define q where "q = (64 - unat (br_bit_pos br)) div 8"
  from at have ok: "br_ok br input" and p: "unat (br_bit_pos br) \<le> 64" by (auto simp: br_at_def br_ok_def)
  note q8 = aligned_acc [OF at, folded q_def]
  have avail: "unat (BrotliGetAvailableBits br) = 8 * q" using available_bits [OF p] q8(1) by simp
  have aligned: "BrotliGetAvailableBits br AND 7 = 0"
    using and7 [of "BrotliGetAvailableBits br"] by (simp add: avail flip: unat_eq_0)
  define left where "left = drop_bit 3 (BrotliGetAvailableBits br)"
  have left: "unat left = q" by (simp add: left_def drop3 avail)
  consider "unat offset < q" | "q \<le> unat offset" "unat offset < length bytes"
    | "q \<le> unat offset" "length bytes \<le> unat offset" by linarith
  then show ?thesis
  proof cases
    case 1
    then have "offset < left" by (simp add: word_less_nat_alt left)
    moreover have "uint (ucast (bytes ! unat offset) :: u64) = uint (bytes ! unat offset)"
      by (simp add: unsigned_ucast_eq take_bit_int_eq_self order_less_trans [OF uint_lt2p])
    ultimately show ?thesis
      using peek_acc [OF at, folded q_def, OF 1] aligned 1 q8(2)
      by (simp add: BrotliPeekByte_def Let_def left_def [symmetric])
  next
    case 2
    then have "\<not> offset < left" and off: "unat (offset - left) = unat offset - q"
      by (simp_all add: word_less_nat_alt left unat_sub word_le_nat_alt)
    moreover have "offset - left < br_avail_in br" using 2 q8(2) by (simp add: word_less_nat_alt off)
    moreover have "window_bytes br input ! (unat offset - q) = bytes ! unat offset"
      using 2 q8(2) by (simp add: window_of_bytes [OF at, folded q_def])
    then have "input ! (?n + (unat offset - q)) = bytes ! unat offset" "?n + (unat offset - q) < length input"
      using 2 q8(2) ok unfolding window_bytes_def br_ok_def by (simp, linarith)
    ultimately show ?thesis using 2 aligned
      by (simp add: BrotliPeekByte_def Let_def left_def [symmetric] slice_simps)
  next
    case 3
    then have "\<not> offset < left" and off: "unat (offset - left) = unat offset - q"
      by (simp_all add: word_less_nat_alt left unat_sub word_le_nat_alt)
    moreover have "\<not> offset - left < br_avail_in br" using 3 q8(2) by (simp add: word_less_nat_alt off)
    ultimately show ?thesis using 3 aligned
      by (simp add: BrotliPeekByte_def Let_def left_def [symmetric])
  qed
qed

subsection \<open>Properties\<close>

text \<open>A reader that has pulled the first of twelve bytes.\<close>

definition sample_input :: "u8 list" where
  "sample_input = [0x8B, 0x01, 0x80, 0x48, 0x65, 0x6C, 0x6C, 0x6F, 0x03, 0xFF, 0x00, 0x5A]"

definition sample_reader :: BrotliBitReader where
  "sample_reader = \<lparr>br_val = 0x8B00000000000000, br_bit_pos = 56, br_next_in = 1, br_avail_in = 11\<rparr>"

lemma sample_reader_ok: "br_ok sample_reader sample_input"
  by (simp add: sample_reader_def sample_input_def br_ok_def)

lemma sample_reader_inv: "reader_inv sample_input sample_reader"
proof -
  have "map (bit (br_val sample_reader)) [56..<64] = bits_of_bytes (take 1 sample_input)"
    by code_simp
  then show ?thesis
    using sample_reader_ok by (simp add: reader_inv_def acc_from_input_def sample_reader_def)
qed

lemma sample_aligned: "stream sample_reader sample_input = bits_of_bytes sample_input"
  by code_simp

text \<open>C1: With a bit in the accumulator and eight bytes left in the input, \<open>BrotliReadBits\<close> does not
  panic, returns the next \<open>n\<close> bits of the stream as a number, least significant bit first, and
  removes exactly these bits from the stream, for every \<open>n\<close> up to 32, although a refill may load
  4 or 8 bytes over the accumulator in between.\<close>

theorem ReadBits_correct:
  assumes "br_ok br input" "unat (br_bit_pos br) < 64" "8 \<le> unat (br_avail_in br)" "unat n \<le> 32"
  shows "\<exists>br'. BrotliReadBits br n input = Some (word_of_bits (take (unat n) (stream br input)), br') \<and>
    br_ok br' input \<and> stream br' input = drop (unat n) (stream br input)"
  using ReadBits_at [of br input "stream br input" n] assms by (auto simp: br_at_def)

theorem ReadBits_correct_witness:
  "\<exists>br'. BrotliReadBits sample_reader 5 sample_input = Some (11, br') \<and>
    stream br' sample_input = drop 5 (stream sample_reader sample_input)"
proof -
  have "word_of_bits (take 5 (stream sample_reader sample_input)) = (11::u32)" by code_simp
  then show ?thesis
    using ReadBits_correct [OF sample_reader_ok, of 5] by (auto simp: sample_reader_def)
qed

text \<open>C2: \<open>BrotliSafeReadBits\<close> needs no room in the input. If the stream holds \<open>n\<close> bits it returns
  and removes them. Otherwise it reports failure, leaves the result variable alone, and no bit of the
  stream is lost: all of them are in the accumulator for the next call.\<close>

theorem SafeReadBits_correct:
  assumes "br_ok br input" "unat n \<le> 32"
  shows "\<exists>br'. br_ok br' input \<and>
    (if unat n \<le> length (stream br input)
     then BrotliSafeReadBits br n val input =
            Some (True, word_of_bits (take (unat n) (stream br input)), br') \<and>
          stream br' input = drop (unat n) (stream br input)
     else BrotliSafeReadBits br n val input = Some (False, val, br') \<and>
          stream br' input = stream br input \<and> br_avail_in br' = 0)"
  using SafeReadBits_at [of br input "stream br input" n val] assms
  by (auto simp: br_at_def split: if_splits)

theorem SafeReadBits_correct_witness:
  "\<exists>br'. BrotliSafeReadBits (sample_reader\<lparr>br_avail_in := 1\<rparr>) 17 99 sample_input = Some (False, 99, br') \<and>
    stream br' sample_input = stream (sample_reader\<lparr>br_avail_in := 1\<rparr>) sample_input"
proof -
  let ?br = "sample_reader\<lparr>br_avail_in := 1\<rparr>"
  have "br_ok ?br sample_input" by (simp add: sample_reader_def sample_input_def br_ok_def)
  moreover from this have "length (stream ?br sample_input) = 16"
    by (simp add: length_stream) (simp add: sample_reader_def)
  ultimately show ?thesis using SafeReadBits_correct [of ?br sample_input 17 99] by auto
qed

text \<open>C3: From every reader whose next fast read is possible, a run of reads of any widths up to 32 bits
  returns the same numbers and leaves the same rest of the stream whether it is made with
  \<open>BrotliReadBits\<close>, \<open>BrotliReadConstantNBits\<close> or \<open>BrotliSafeReadBits\<close>. A run of several reads needs 89
  bits ahead of its last one. Behind the check for 28 bytes that is a last read after up to 136 bits,
  which covers an iteration of the command loop: a command, a block switch and a distance.\<close>

theorem readers_agree:
  assumes "br_ok br input" "next_read_ok br" "\<forall>n \<in> set ns. unat n \<le> 32"
    and "length ns \<le> 1 \<or> width (butlast ns) + 89 \<le> length (stream br input)"
  shows "\<exists>vs br1 br2 br3. read_run BrotliReadBits ns br input = Some (vs, br1) \<and>
    read_run BrotliReadConstantNBits ns br input = Some (vs, br2) \<and>
    read_run safe_read ns br input = Some (vs, br3) \<and> vs = split_bits ns (stream br input) \<and>
    stream br1 input = drop (width ns) (stream br input) \<and>
    stream br2 input = stream br1 input \<and> stream br3 input = stream br1 input"
proof -
  let ?bs = "stream br input"
  have at: "br_at br input ?bs" using assms(1) by (simp add: br_at_def)
  show ?thesis using fast_runs [OF at assms(2,3,4)] by (auto simp: br_at_def)
qed

theorem readers_agree_witness:
  "\<exists>br1 br2. BrotliCheckInputAmount (sample_reader\<lparr>br_avail_in := 28\<rparr>) 28 \<and>
    read_run BrotliReadBits [5, 20, 8] (sample_reader\<lparr>br_avail_in := 28\<rparr>) (sample_input @ sample_input @ sample_input) =
      Some ([11, 262156, 164], br1) \<and>
    read_run safe_read [5, 20, 8] (sample_reader\<lparr>br_avail_in := 28\<rparr>) (sample_input @ sample_input @ sample_input) =
      Some ([11, 262156, 164], br2)"
proof -
  let ?br = "sample_reader\<lparr>br_avail_in := 28\<rparr>" and ?i = "sample_input @ sample_input @ sample_input"
  have ok: "br_ok ?br ?i" "next_read_ok ?br" "BrotliCheckInputAmount ?br 28"
    by (simp_all add: sample_reader_def sample_input_def br_ok_def next_read_ok_def BrotliCheckInputAmount_def)
  have "length (stream ?br ?i) = 232" using length_stream [OF ok(1)] by (simp add: sample_reader_def)
  then obtain vs br1 br2 where r: "read_run BrotliReadBits [5, 20, 8] ?br ?i = Some (vs, br1)"
    "read_run safe_read [5, 20, 8] ?br ?i = Some (vs, br2)"
    using readers_agree [OF ok(1,2), of "[5, 20, 8]"] by auto
  have "map_option fst (read_run BrotliReadBits [5, 20, 8] ?br ?i) = Some [11, 262156, 164]" by code_simp
  then have "vs = [11, 262156, 164]" by (simp only: r(1) option.map fst_conv option.inject)
  with r ok(3) show ?thesis by blast
qed

text \<open>C4: \<open>BrotliFillBitWindow\<close> makes at least 32 bits available in the accumulator whatever \<open>n\<close> it is
  called with, and no bit of the stream is changed, lost or repeated. This covers the three widths of
  the load and the trick of the code that replaces the subtraction of 32, 48 or 56 from the bit
  position by an exclusive or.\<close>

theorem FillBitWindow_correct:
  assumes "br_ok br input" "unat (br_bit_pos br) < 64" "8 \<le> unat (br_avail_in br)"
  shows "\<exists>br'. BrotliFillBitWindow br n input = Some br' \<and> br_ok br' input \<and>
    stream br' input = stream br input \<and> 32 < unat (BrotliGetAvailableBits br')"
proof -
  obtain br' where br': "BrotliFillBitWindow br n input = Some br'" "br_at br' input (stream br input)"
    "unat (br_bit_pos br') < 32"
    using FillBitWindow_at [of br input "stream br input" n] assms by (auto simp: br_at_def)
  then show ?thesis using available_bits [of br'] by (auto simp: br_at_def)
qed

theorem FillBitWindow_correct_witness:
  "\<exists>br'. BrotliFillBitWindow sample_reader 16 sample_input = Some br' \<and>
    stream br' sample_input = bits_of_bytes sample_input"
  using FillBitWindow_correct [OF sample_reader_ok, of 16] sample_aligned
  by (auto simp: sample_reader_def)

text \<open>C5: Over a whole run of a reader on one input slice, from its initialisation through any
  sequence of refills, pulled bytes, dropped bits and unloads, the reader stays well formed, the bytes
  in its accumulator are those just before its window, and what it still delivers is a suffix of the
  bytes of the window it was given.\<close>

theorem reader_run_invariant:
  assumes "unat (br_next_in br) + unat (br_avail_in br) \<le> length input"
    and "unat (br_next_in br) + unat (br_avail_in br) < 2 ^ 32"
    and "(reader_step input)\<^sup>*\<^sup>* (BrotliInitBitReader br) br'"
  shows "reader_inv input br' \<and> (\<exists>k. stream br' input = drop k (bits_of_bytes (window_bytes br input)))"
proof -
  have "stream (BrotliInitBitReader br) input = bits_of_bytes (window_bytes br input)"
    by (simp add: stream_def acc_bits_def window_bytes_def BrotliInitBitReader_def)
  then show ?thesis using reader_steps_inv [OF assms(3) reader_inv_initial [OF assms(1,2)]] by simp
qed

theorem reader_run_invariant_witness:
  "\<exists>br' k. BrotliPullByte (BrotliInitBitReader (sample_reader\<lparr>br_next_in := 0\<rparr>)) sample_input =
      Some (True, br') \<and>
    reader_inv sample_input (BrotliDropBits br' 3) \<and>
    stream (BrotliDropBits br' 3) sample_input = drop k (bits_of_bytes (take 11 sample_input))"
proof -
  let ?br = "sample_reader\<lparr>br_next_in := 0\<rparr>"
  obtain br' where br': "BrotliPullByte (BrotliInitBitReader ?br) sample_input = Some (True, br')"
    "br_bit_pos br' = 56"
    by (simp add: BrotliPullByte_def BrotliInitBitReader_def sample_reader_def sample_input_def slice_simps)
  have "reader_step sample_input (BrotliInitBitReader ?br) br'"
    by (rule reader_step.pull [OF _ br'(1)]) (simp add: BrotliInitBitReader_def)
  moreover have "reader_step sample_input br' (BrotliDropBits br' 3)"
    by (rule reader_step.drop) (simp add: br'(2))
  ultimately have run: "(reader_step sample_input)\<^sup>*\<^sup>* (BrotliInitBitReader ?br) (BrotliDropBits br' 3)"
    by (rule converse_rtranclp_into_rtranclp [OF _ r_into_rtranclp])
  have "window_bytes ?br sample_input = take 11 sample_input"
    by (simp add: window_bytes_def sample_reader_def)
  with reader_run_invariant [OF _ _ run] br'(1) show ?thesis
    by (auto simp: sample_reader_def sample_input_def)
qed

text \<open>C6: \<open>BrotliBitReaderUnload\<close> gives every whole unused byte of the accumulator back to the input
  window: the stream is unchanged, fewer than eight bits stay in the accumulator, and \<open>avail_in\<close>
  counts all whole bytes that were not consumed, which is what the caller is told.\<close>

theorem Unload_correct:
  assumes "reader_inv input br"
  shows "reader_inv input (BrotliBitReaderUnload br) \<and>
    stream (BrotliBitReaderUnload br) input = stream br input \<and>
    unat (BrotliGetAvailableBits (BrotliBitReaderUnload br)) = length (stream br input) mod 8 \<and>
    unat (br_avail_in (BrotliBitReaderUnload br)) = length (stream br input) div 8"
proof -
  have at: "br_at br input (stream br input)" and acc: "acc_from_input br input"
    using assms by (simp_all add: reader_inv_def br_at_def)
  note u = Unload_at [OF at acc]
  have "unat (BrotliGetAvailableBits (BrotliBitReaderUnload br)) = length (stream br input) mod 8"
    using available_bits [of "BrotliBitReaderUnload br"] u(2)
    by (simp add: less_imp_le [OF order_less_le_trans [OF mod_less_divisor]])
  then show ?thesis using u reader_inv_Unload [OF assms] by (simp add: br_at_def)
qed

theorem Unload_correct_witness:
  "unat (br_avail_in (BrotliBitReaderUnload (BrotliDropBits sample_reader 0))) = 12 \<and>
    BrotliGetAvailableBits (BrotliBitReaderUnload (BrotliDropBits sample_reader 0)) = 0"
proof -
  have same: "BrotliDropBits sample_reader 0 = sample_reader"
    by (simp add: BrotliDropBits_def sample_reader_def)
  have "length (bits_of_bytes sample_input) = 96" by (simp add: sample_input_def)
  then have "length (stream sample_reader sample_input) = 96" by (simp add: sample_aligned)
  then show ?thesis
    using Unload_correct [OF sample_reader_inv] by (simp add: same unat_eq_0)
qed

text \<open>C7: \<open>BrotliJumpToByteBoundary\<close> skips exactly the bits up to the next byte boundary and
  succeeds if and only if all of them are zero.\<close>

theorem JumpToByteBoundary_correct:
  assumes "br_ok br input"
  shows "\<exists>br' ok. BrotliJumpToByteBoundary br = Some (ok, br') \<and> br_ok br' input \<and>
    stream br' input = drop (length (stream br input) mod 8) (stream br input) \<and>
    8 dvd length (stream br' input) \<and>
    (ok \<longleftrightarrow> True \<notin> set (take (length (stream br input) mod 8) (stream br input)))"
proof -
  let ?bs = "stream br input"
  have "br_at br input ?bs" using assms by (simp add: br_at_def)
  from JumpToByteBoundary_at [OF this] obtain br' where br':
    "BrotliJumpToByteBoundary br = Some ((\<forall>b \<in> set (take (length ?bs mod 8) ?bs). \<not> b), br')"
    "br_at br' input (drop (length ?bs mod 8) ?bs)" by blast
  have "8 dvd length ?bs - length ?bs mod 8" by (rule dvd_minus_mod)
  moreover have "(\<forall>b \<in> set (take (length ?bs mod 8) ?bs). \<not> b) \<longleftrightarrow>
      True \<notin> set (take (length ?bs mod 8) ?bs)" by (metis (full_types))
  ultimately show ?thesis using br' by (auto simp: br_at_def)
qed

theorem JumpToByteBoundary_correct_witness:
  "\<exists>br'. BrotliJumpToByteBoundary (BrotliDropBits sample_reader 4) = Some (False, br') \<and>
    stream br' sample_input = bits_of_bytes (tl sample_input)"
proof -
  let ?br = "BrotliDropBits sample_reader 4"
  have ok: "br_ok ?br sample_input"
    by (simp add: br_ok_def BrotliDropBits_def sample_reader_def sample_input_def)
  have s: "stream ?br sample_input = [False, False, False, True] @ bits_of_bytes (tl sample_input)"
    by code_simp
  have "length (bits_of_bytes (tl sample_input)) = 88" by (simp add: sample_input_def)
  with JumpToByteBoundary_correct [OF ok] show ?thesis by (auto simp: s)
qed

text \<open>C8: At a byte boundary \<open>BrotliCopyBytes\<close> copies the next \<open>num\<close> bytes of the stream to the start
  of the destination, first those of the accumulator and then those of the input, leaves the rest of
  the destination as it was and consumes exactly these bytes.\<close>

theorem CopyBytes_correct:
  assumes "br_ok br input" "stream br input = bits_of_bytes bytes"
    and "unat num \<le> length bytes" "unat num \<le> length dest"
  shows "\<exists>br'. BrotliCopyBytes dest br num input =
      Some (take (unat num) bytes @ drop (unat num) dest, br') \<and>
    br_ok br' input \<and> stream br' input = bits_of_bytes (drop (unat num) bytes)"
proof -
  have "br_at br input (bits_of_bytes bytes)" using assms(1,2) by (simp add: br_at_def)
  from CopyBytes_at [OF this, of num dest] assms(3,4) obtain copied br' where c:
    "BrotliCopyBytes dest br num input = Some (copied @ drop (unat num) dest, br')"
    "bits_of_bytes copied = take (8 * unat num) (bits_of_bytes bytes)"
    "br_at br' input (drop (8 * unat num) (bits_of_bytes bytes))" by auto
  from c(2) have "copied = take (unat num) bytes"
    by (intro bits_of_bytes_inject) (simp add: bits_of_bytes_take)
  with c(1,3) show ?thesis by (simp add: br_at_def bits_of_bytes_drop)
qed

theorem CopyBytes_correct_witness:
  "\<exists>br'. BrotliCopyBytes [0, 0, 0, 7] sample_reader 3 sample_input = Some ([0x8B, 0x01, 0x80, 7], br') \<and>
    stream br' sample_input = bits_of_bytes (drop 3 sample_input)"
proof -
  have "take 3 sample_input = [0x8B, 0x01, 0x80]" by (simp add: sample_input_def)
  then show ?thesis
    using CopyBytes_correct [OF sample_reader_ok sample_aligned, of 3 "[0, 0, 0, 7]"]
    by (auto simp: sample_input_def)
qed

text \<open>C9: At a byte boundary \<open>BrotliPeekByte\<close> returns the byte at the given offset of the stream
  without consuming it, wherever that byte is, and \<open>-1\<close> exactly if the stream is too short.\<close>

theorem PeekByte_correct:
  assumes "br_ok br input" "stream br input = bits_of_bytes bytes"
  shows "BrotliPeekByte br offset input =
    Some (if unat offset < length bytes then uint (bytes ! unat offset) else -1)"
  using PeekByte_at [of br input bytes offset] assms by (simp add: br_at_def)

theorem PeekByte_correct_witness:
  "BrotliPeekByte sample_reader 9 sample_input = Some 255 \<and>
    BrotliPeekByte sample_reader 12 sample_input = Some (-1)"
  using PeekByte_correct [OF sample_reader_ok sample_aligned, of 9]
    PeekByte_correct [OF sample_reader_ok sample_aligned, of 12]
  by (simp add: sample_input_def)

end
