(* ===== verification/Huffman.thy ===== *)
theory Huffman
  imports Rust_Prelude
begin

text \<open>
  The Huffman tables of \<open>src/huffman/mod.rs\<close>: the table entry, the groups of trees that share one
  block of memory, and the three functions that build a lookup table: for the code lengths of
  a code (one level of 32 entries), for a general code (a root table of \<open>2 ^ root_bits\<close> entries
  and second-level tables), and for a simple code of up to four symbols. The correctness
  proofs are in \<open>Huffman_Codes\<close> and \<open>Huffman_Tables\<close>.
\<close>

subsection \<open>Constants and table entries\<close>

definition BROTLI_HUFFMAN_MAX_CODE_LENGTH :: int where
  [simp]: "BROTLI_HUFFMAN_MAX_CODE_LENGTH = 15"

definition BROTLI_HUFFMAN_MAX_CODE_LENGTHS_SIZE :: nat where
  [simp]: "BROTLI_HUFFMAN_MAX_CODE_LENGTHS_SIZE = 704"

definition BROTLI_HUFFMAN_MAX_TABLE_SIZE :: nat where
  [simp]: "BROTLI_HUFFMAN_MAX_TABLE_SIZE = 1080"

definition BROTLI_HUFFMAN_MAX_CODE_LENGTH_CODE_LENGTH :: int where
  [simp]: "BROTLI_HUFFMAN_MAX_CODE_LENGTH_CODE_LENGTH = 5"

record HuffmanCode =
  hc_value :: u16
  hc_bits :: u8

definition HuffmanCode_default :: HuffmanCode where
  "HuffmanCode_default = \<lparr>hc_value = 0, hc_bits = 0\<rparr>"

definition HuffmanCode_eq :: "HuffmanCode \<Rightarrow> HuffmanCode \<Rightarrow> bool" where
  "HuffmanCode_eq self other \<longleftrightarrow> hc_value self = hc_value other \<and> hc_bits self = hc_bits other"

subsection \<open>Groups of trees\<close>

text \<open>
  The allocators are a parameter of the crate. A function that allocates receives them as
  functions from the number of elements to the fresh memory.
\<close>

record HuffmanTreeGroup =
  hg_htrees :: "u32 list"
  hg_codes :: "HuffmanCode list"
  hg_alphabet_size :: u16
  hg_max_symbol :: u16
  hg_num_htrees :: u16

definition HuffmanTreeGroup_default :: HuffmanTreeGroup where
  "HuffmanTreeGroup_default =
     \<lparr>hg_htrees = [], hg_codes = [], hg_alphabet_size = 0, hg_max_symbol = 0, hg_num_htrees = 0\<rparr>"

definition HuffmanTreeGroup_reset :: "HuffmanTreeGroup \<Rightarrow> HuffmanTreeGroup" where
  "HuffmanTreeGroup_reset self = self\<lparr>hg_htrees := [], hg_codes := []\<rparr>"

definition HuffmanTreeGroup_init ::
  "HuffmanTreeGroup \<Rightarrow> (nat \<Rightarrow> u32 list) \<Rightarrow> (nat \<Rightarrow> HuffmanCode list) \<Rightarrow> u16 \<Rightarrow> u16 \<Rightarrow> u16 \<Rightarrow> HuffmanTreeGroup"
  where
  "HuffmanTreeGroup_init self alloc_u32 alloc_hc alphabet_size max_symbol ntrees =
    (let self = HuffmanTreeGroup_reset self;
         nt = unat ntrees
     in self\<lparr>hg_alphabet_size := alphabet_size, hg_max_symbol := max_symbol, hg_num_htrees := ntrees,
             hg_htrees := alloc_u32 nt, hg_codes := alloc_hc (nt * BROTLI_HUFFMAN_MAX_TABLE_SIZE)\<rparr>)"

definition get_tree :: "HuffmanTreeGroup \<Rightarrow> u32 \<Rightarrow> HuffmanCode list option" where
  "get_tree self index = do {
     start \<leftarrow> get (hg_htrees self) (unat index);
     slice_from (hg_codes self) (unat start)
   }"

text \<open>\<open>build_hgroup_cache\<close>: an array of 256 slices, the first ones those of the trees.\<close>

fun fill_hgroup_cache ::
  "HuffmanCode list \<Rightarrow> HuffmanCode list list \<Rightarrow> nat \<Rightarrow> u32 list \<Rightarrow> HuffmanCode list list option" where
  "fill_hgroup_cache codes ret index [] = Some ret"
| "fill_hgroup_cache codes ret index (htree # htrees) = do {
     tree \<leftarrow> slice_from codes (unat htree);
     ret \<leftarrow> put ret index tree;
     fill_hgroup_cache codes ret (index + 1) htrees
   }"

definition build_hgroup_cache :: "HuffmanTreeGroup \<Rightarrow> HuffmanCode list list option" where
  "build_hgroup_cache self = fill_hgroup_cache (hg_codes self) (replicate 256 []) 0 (hg_htrees self)"

subsection \<open>Bit reversal and replication\<close>

definition kReverseBits :: "u8 list" where
  "kReverseBits = [
     0x00, 0x80, 0x40, 0xC0, 0x20, 0xA0, 0x60, 0xE0, 0x10, 0x90, 0x50, 0xD0, 0x30, 0xB0, 0x70, 0xF0,
     0x08, 0x88, 0x48, 0xC8, 0x28, 0xA8, 0x68, 0xE8, 0x18, 0x98, 0x58, 0xD8, 0x38, 0xB8, 0x78, 0xF8,
     0x04, 0x84, 0x44, 0xC4, 0x24, 0xA4, 0x64, 0xE4, 0x14, 0x94, 0x54, 0xD4, 0x34, 0xB4, 0x74, 0xF4,
     0x0C, 0x8C, 0x4C, 0xCC, 0x2C, 0xAC, 0x6C, 0xEC, 0x1C, 0x9C, 0x5C, 0xDC, 0x3C, 0xBC, 0x7C, 0xFC,
     0x02, 0x82, 0x42, 0xC2, 0x22, 0xA2, 0x62, 0xE2, 0x12, 0x92, 0x52, 0xD2, 0x32, 0xB2, 0x72, 0xF2,
     0x0A, 0x8A, 0x4A, 0xCA, 0x2A, 0xAA, 0x6A, 0xEA, 0x1A, 0x9A, 0x5A, 0xDA, 0x3A, 0xBA, 0x7A, 0xFA,
     0x06, 0x86, 0x46, 0xC6, 0x26, 0xA6, 0x66, 0xE6, 0x16, 0x96, 0x56, 0xD6, 0x36, 0xB6, 0x76, 0xF6,
     0x0E, 0x8E, 0x4E, 0xCE, 0x2E, 0xAE, 0x6E, 0xEE, 0x1E, 0x9E, 0x5E, 0xDE, 0x3E, 0xBE, 0x7E, 0xFE,
     0x01, 0x81, 0x41, 0xC1, 0x21, 0xA1, 0x61, 0xE1, 0x11, 0x91, 0x51, 0xD1, 0x31, 0xB1, 0x71, 0xF1,
     0x09, 0x89, 0x49, 0xC9, 0x29, 0xA9, 0x69, 0xE9, 0x19, 0x99, 0x59, 0xD9, 0x39, 0xB9, 0x79, 0xF9,
     0x05, 0x85, 0x45, 0xC5, 0x25, 0xA5, 0x65, 0xE5, 0x15, 0x95, 0x55, 0xD5, 0x35, 0xB5, 0x75, 0xF5,
     0x0D, 0x8D, 0x4D, 0xCD, 0x2D, 0xAD, 0x6D, 0xED, 0x1D, 0x9D, 0x5D, 0xDD, 0x3D, 0xBD, 0x7D, 0xFD,
     0x03, 0x83, 0x43, 0xC3, 0x23, 0xA3, 0x63, 0xE3, 0x13, 0x93, 0x53, 0xD3, 0x33, 0xB3, 0x73, 0xF3,
     0x0B, 0x8B, 0x4B, 0xCB, 0x2B, 0xAB, 0x6B, 0xEB, 0x1B, 0x9B, 0x5B, 0xDB, 0x3B, 0xBB, 0x7B, 0xFB,
     0x07, 0x87, 0x47, 0xC7, 0x27, 0xA7, 0x67, 0xE7, 0x17, 0x97, 0x57, 0xD7, 0x37, 0xB7, 0x77, 0xF7,
     0x0F, 0x8F, 0x4F, 0xCF, 0x2F, 0xAF, 0x6F, 0xEF, 0x1F, 0x9F, 0x5F, 0xDF, 0x3F, 0xBF, 0x7F, 0xFF]"

definition BROTLI_REVERSE_BITS_MAX :: int where
  [simp]: "BROTLI_REVERSE_BITS_MAX = 8"

text \<open>\<open>1 << (8 - 1 + 0)\<close>.\<close>

definition BROTLI_REVERSE_BITS_LOWEST :: u32 where
  [simp]: "BROTLI_REVERSE_BITS_LOWEST = 128"

definition BrotliReverseBits :: "u32 \<Rightarrow> u32 option" where
  "BrotliReverseBits num = map_option ucast (get kReverseBits (unat num))"

text \<open>
  \<open>loop { end -= step; table[offset + end] = code; if end <= 0 { break } }\<close>. With a step that is
  not positive the loop need not end; then the value is \<open>None\<close>, as for a panic.
\<close>

partial_function (option) ReplicateValue ::
  "HuffmanCode list \<Rightarrow> u32 \<Rightarrow> int \<Rightarrow> int \<Rightarrow> HuffmanCode \<Rightarrow> HuffmanCode list option" where
  "ReplicateValue table offset step end' code =
    (let end' = i32 (end' - step) in do {
       table \<leftarrow> put table (unat offset + usize_of_i32 end') code;
       if end' \<le> 0 then Some table else ReplicateValue table offset step end' code
     })"

declare ReplicateValue.simps [code]

function next_table_bit_size :: "u16 list \<Rightarrow> int \<Rightarrow> int \<Rightarrow> int option" where
  "next_table_bit_size count len left =
    (if len < BROTLI_HUFFMAN_MAX_CODE_LENGTH then do {
       c \<leftarrow> get_at count len;
       let left = i32 (left - uint c);
       if left \<le> 0 then Some len else next_table_bit_size count (len + 1) (shl_i32 left 1)
     } else Some len)"
  by pat_completeness auto
termination
  by (relation "measure (\<lambda>(count, len, left). nat (15 - len))") auto

declare next_table_bit_size.simps [simp del]

definition NextTableBitSize :: "u16 list \<Rightarrow> int \<Rightarrow> int \<Rightarrow> int option" where
  "NextTableBitSize count len root_bits = do {
     len \<leftarrow> next_table_bit_size count len (shl_i32 1 (len - root_bits));
     Some (len - root_bits)
   }"

subsection \<open>The table of the code length code\<close>

text \<open>The offsets of the symbols of each length in the sorted list: \<open>for _ in 0..5\<close>.\<close>

fun code_length_offsets :: "u16 list \<Rightarrow> nat \<Rightarrow> int \<Rightarrow> nat \<Rightarrow> int list \<Rightarrow> int list option" where
  "code_length_offsets count 0 symbol bits offset = Some offset"
| "code_length_offsets count (Suc n) symbol bits offset = do {
     c \<leftarrow> get count bits;
     let symbol = symbol + uint c;
     offset \<leftarrow> put offset bits symbol;
     code_length_offsets count n symbol (bits + 1) offset
   }"

text \<open>
  The two nested loops that sort the symbols count \<open>symbol\<close> down from 18 to 0, three times six
  steps.
\<close>

fun sort_code_lengths :: "u8 list \<Rightarrow> int list \<Rightarrow> int list \<Rightarrow> nat \<Rightarrow> (int list \<times> int list) option" where
  "sort_code_lengths code_lengths offset sorted_list 0 = Some (offset, sorted_list)"
| "sort_code_lengths code_lengths offset sorted_list (Suc symbol) = do {
     l \<leftarrow> get code_lengths symbol;
     index \<leftarrow> get offset (unat l);
     offset \<leftarrow> put offset (unat l) (index - 1);
     sorted_list \<leftarrow> put_at sorted_list index (int symbol);
     sort_code_lengths code_lengths offset sorted_list symbol
   }"

text \<open>One code length of the table: \<open>while bits_count != 0\<close>, then the loop over the lengths.\<close>

fun fill_sorted ::
  "HuffmanCode list \<Rightarrow> int list \<Rightarrow> int \<Rightarrow> u32 \<Rightarrow> u32 \<Rightarrow> int \<Rightarrow> int \<Rightarrow> int \<Rightarrow> nat \<Rightarrow>
     (HuffmanCode list \<times> int \<times> u32) option" where
  "fill_sorted table sorted_list symbol key key_step step table_size bits 0 = Some (table, symbol, key)"
| "fill_sorted table sorted_list symbol key key_step step table_size bits (Suc bits_count) = do {
     s \<leftarrow> get_at sorted_list symbol;
     offset \<leftarrow> BrotliReverseBits key;
     table \<leftarrow> ReplicateValue table offset step table_size \<lparr>hc_value = word_of_int s, hc_bits = word_of_int bits\<rparr>;
     fill_sorted table sorted_list (symbol + 1) (key + key_step) key_step step table_size bits bits_count
   }"

function fill_code_lengths ::
  "HuffmanCode list \<Rightarrow> int list \<Rightarrow> u16 list \<Rightarrow> int \<Rightarrow> u32 \<Rightarrow> u32 \<Rightarrow> int \<Rightarrow> int \<Rightarrow> int \<Rightarrow> HuffmanCode list option"
  where
  "fill_code_lengths table sorted_list count symbol key key_step step table_size bits = do {
     bits_count \<leftarrow> get_at count bits;
     (table, symbol, key) \<leftarrow>
       fill_sorted table sorted_list symbol key key_step step table_size bits (unat bits_count);
     let step = shl_i32 step 1;
     let key_step = drop_bit 1 key_step;
     let bits = bits + 1;
     if bits \<le> BROTLI_HUFFMAN_MAX_CODE_LENGTH_CODE_LENGTH
     then fill_code_lengths table sorted_list count symbol key key_step step table_size bits
     else Some table
   }"
  by pat_completeness auto
termination
  by (relation "measure (\<lambda>(table, sorted_list, count, symbol, key, key_step, step, table_size, bits).
        nat (6 - bits))") auto

declare fill_code_lengths.simps [simp del]

definition BrotliBuildCodeLengthsHuffmanTable ::
  "HuffmanCode list \<Rightarrow> u8 list \<Rightarrow> u16 list \<Rightarrow> HuffmanCode list option" where
  "BrotliBuildCodeLengthsHuffmanTable table code_lengths count = do {
     rassert (BROTLI_HUFFMAN_MAX_CODE_LENGTH_CODE_LENGTH \<le> BROTLI_REVERSE_BITS_MAX);
     offset \<leftarrow> code_length_offsets count 5 (-1) 1 (replicate 6 0);
     offset \<leftarrow> put offset 0 17;
     (offset, sorted_list) \<leftarrow> sort_code_lengths code_lengths offset (replicate 18 0) 18;
     let table_size = shl_i32 1 BROTLI_HUFFMAN_MAX_CODE_LENGTH_CODE_LENGTH;
     o0 \<leftarrow> get offset 0;
     if o0 = 0 then do {
       s0 \<leftarrow> get sorted_list 0;
       overwrite table 0 (replicate (nat table_size) \<lparr>hc_value = word_of_int s0, hc_bits = 0\<rparr>)
     } else fill_code_lengths table sorted_list count 0 0 BROTLI_REVERSE_BITS_LOWEST 2 table_size 1
   }"


subsection \<open>The two-level table of a general code\<close>

text \<open>
  The symbols of each length form a list inside \<open>symbol_lists\<close>: the entry at \<open>bits - 16\<close>, relative to
  \<open>symbol_lists_offset\<close>, is the first symbol of length \<open>bits\<close>, and the entry at a symbol is the next one.
  The first loop finds the longest length that occurs.
\<close>

function find_max_length :: "u16 list \<Rightarrow> nat \<Rightarrow> int \<Rightarrow> int option" where
  "find_max_length symbol_lists symbol_lists_offset max_length = do {
     s \<leftarrow> get_at symbol_lists (int symbol_lists_offset + max_length);
     if s = 0xFFFF then find_max_length symbol_lists symbol_lists_offset (max_length - 1)
     else Some max_length
   }"
  by pat_completeness auto
termination
  by (relation "measure (\<lambda>(symbol_lists, off, max_length). nat (int off + max_length + 1))")
     (auto simp: slice_simps)

declare find_max_length.simps [simp del]

text \<open>The symbols of one length: \<open>while bits_count != 0\<close> of the root table.\<close>

fun fill_symbol_list ::
  "HuffmanCode list \<Rightarrow> u16 list \<Rightarrow> nat \<Rightarrow> int \<Rightarrow> u32 \<Rightarrow> u32 \<Rightarrow> u32 \<Rightarrow> int \<Rightarrow> int \<Rightarrow> int \<Rightarrow> nat \<Rightarrow>
     (HuffmanCode list \<times> u32) option" where
  "fill_symbol_list table syms off symbol free key key_step step table_size bits 0 = Some (table, key)"
| "fill_symbol_list table syms off symbol free key key_step step table_size bits (Suc bits_count) = do {
     s \<leftarrow> get_at syms (int off + symbol);
     r \<leftarrow> BrotliReverseBits key;
     table \<leftarrow> ReplicateValue table (free + r) step table_size \<lparr>hc_value = s, hc_bits = word_of_int bits\<rparr>;
     fill_symbol_list table syms off (uint s) free (key + key_step) key_step step table_size bits bits_count
   }"

function fill_root_table ::
  "HuffmanCode list \<Rightarrow> u16 list \<Rightarrow> nat \<Rightarrow> u16 list \<Rightarrow> u32 \<Rightarrow> u32 \<Rightarrow> u32 \<Rightarrow> int \<Rightarrow> int \<Rightarrow> int \<Rightarrow> int \<Rightarrow>
     (HuffmanCode list \<times> u32) option" where
  "fill_root_table table syms off count free key key_step step table_size table_bits bits = do {
     bits_count \<leftarrow> get_at count bits;
     (table, key) \<leftarrow>
       fill_symbol_list table syms off (bits - (BROTLI_HUFFMAN_MAX_CODE_LENGTH + 1))
         free key key_step step table_size bits (unat bits_count);
     let step = shl_i32 step 1;
     let key_step = drop_bit 1 key_step;
     let bits = bits + 1;
     if bits \<le> table_bits
     then fill_root_table table syms off count free key key_step step table_size table_bits bits
     else Some (table, key)
   }"
  by pat_completeness auto
termination
  by (relation "measure (\<lambda>(table, syms, off, count, free, key, key_step, step, table_size, table_bits, bits).
        nat (table_bits + 1 - bits))") auto

declare fill_root_table.simps [simp del]

text \<open>
  The table is filled up by doubling: \<open>n\<close> entries from \<open>free\<close> are copied behind themselves until
  the size is reached. A size that is not a power of two times the first one is never reached.
\<close>

fun copy_entries :: "HuffmanCode list \<Rightarrow> nat \<Rightarrow> nat \<Rightarrow> nat \<Rightarrow> nat \<Rightarrow> HuffmanCode list option" where
  "copy_entries table free sz index 0 = Some table"
| "copy_entries table free sz index (Suc n) = do {
     c \<leftarrow> get table (free + index);
     table \<leftarrow> put table (free + sz + index) c;
     copy_entries table free sz (index + 1) n
   }"

partial_function (option) double_table ::
  "HuffmanCode list \<Rightarrow> nat \<Rightarrow> int \<Rightarrow> int \<Rightarrow> (HuffmanCode list \<times> int) option" where
  "double_table table free total_size table_size =
    (if total_size \<noteq> table_size then do {
       table \<leftarrow> copy_entries table free (nat table_size) 0 (nat table_size);
       double_table table free total_size (shl_i32 table_size 1)
     } else Some (table, table_size))"

declare double_table.simps [code]

text \<open>
  The variables of the second-level loops: the table, the histogram, which counts down, and the
  positions in the root table and in the current second-level table.
\<close>

record SecondLevel =
  sl_root_table :: "HuffmanCode list"
  sl_count :: "u16 list"
  sl_table_free_offset :: u32
  sl_table_bits :: int
  sl_table_size :: int
  sl_total_size :: int
  sl_key :: u32
  sl_sub_key :: u32

text \<open>A new second-level table: its size, and the pointer to it in the root table.\<close>

definition open_second_level :: "SecondLevel \<Rightarrow> u32 \<Rightarrow> int \<Rightarrow> int \<Rightarrow> SecondLevel option" where
  "open_second_level s key_step len root_bits =
     (let free = sl_table_free_offset s + u32_of_i32 (sl_table_size s) in do {
        table_bits \<leftarrow> NextTableBitSize (sl_count s) len root_bits;
        let table_size = shl_i32 1 table_bits;
        sub_key \<leftarrow> BrotliReverseBits (sl_key s);
        root_table \<leftarrow> put (sl_root_table s) (unat sub_key)
          \<lparr>hc_value = ucast free - ucast sub_key, hc_bits = word_of_int (table_bits + root_bits)\<rparr>;
        Some (s\<lparr>sl_root_table := root_table,
                sl_table_free_offset := free,
                sl_table_bits := table_bits,
                sl_table_size := table_size,
                sl_total_size := i32 (sl_total_size s + table_size),
                sl_key := sl_key s + key_step,
                sl_sub_key := 0\<rparr>)
      })"

text \<open>\<open>while count[len] != 0\<close>.\<close>

function fill_second_level ::
  "SecondLevel \<Rightarrow> u16 list \<Rightarrow> nat \<Rightarrow> u32 \<Rightarrow> u32 \<Rightarrow> int \<Rightarrow> int \<Rightarrow> int \<Rightarrow> int \<Rightarrow> SecondLevel option" where
  "fill_second_level s syms off key_step sub_key_step step len root_bits symbol = do {
     c \<leftarrow> get_at (sl_count s) len;
     if c \<noteq> 0 then do {
       s' \<leftarrow> (if sl_sub_key s = push_bit 1 BROTLI_REVERSE_BITS_LOWEST
              then open_second_level s key_step len root_bits else Some s);
       sym \<leftarrow> get_at syms (int off + symbol);
       r \<leftarrow> BrotliReverseBits (sl_sub_key s');
       root_table \<leftarrow> ReplicateValue (sl_root_table s') (sl_table_free_offset s' + r) step (sl_table_size s')
         \<lparr>hc_value = sym, hc_bits = word_of_int (len - root_bits)\<rparr>;
       count \<leftarrow> put_at (sl_count s) len (c - 1);
       fill_second_level
         (s'\<lparr>sl_root_table := root_table, sl_sub_key := sl_sub_key s' + sub_key_step, sl_count := count\<rparr>)
         syms off key_step sub_key_step step len root_bits (uint sym)
     } else Some s
   }"
  by pat_completeness auto
termination
  by (relation "measure (\<lambda>(s, syms, off, key_step, sub_key_step, step, len, root_bits, symbol).
        unat (sl_count s ! nat len))")
     (auto simp: slice_simps unat_minus_one unat_gt_0)

declare fill_second_level.simps [simp del]

text \<open>\<open>while len <= max_length\<close>.\<close>

function second_levels ::
  "SecondLevel \<Rightarrow> u16 list \<Rightarrow> nat \<Rightarrow> u32 \<Rightarrow> u32 \<Rightarrow> int \<Rightarrow> int \<Rightarrow> int \<Rightarrow> int \<Rightarrow> SecondLevel option" where
  "second_levels s syms off key_step sub_key_step step len max_length root_bits =
    (if len \<le> max_length then do {
       s \<leftarrow> fill_second_level s syms off key_step sub_key_step step len root_bits
         (len - (BROTLI_HUFFMAN_MAX_CODE_LENGTH + 1));
       second_levels s syms off key_step (drop_bit 1 sub_key_step) (shl_i32 step 1) (len + 1) max_length root_bits
     } else Some s)"
  by pat_completeness auto
termination
  by (relation "measure (\<lambda>(s, syms, off, key_step, sub_key_step, step, len, max_length, root_bits).
        nat (max_length + 1 - len))") auto

declare second_levels.simps [simp del]

definition BrotliBuildHuffmanTable ::
  "HuffmanCode list \<Rightarrow> int \<Rightarrow> u16 list \<Rightarrow> nat \<Rightarrow> u16 list \<Rightarrow> (HuffmanCode list \<times> u16 list \<times> u32) option"
  where
  "BrotliBuildHuffmanTable root_table root_bits symbol_lists symbol_lists_offset count = do {
     rassert (root_bits \<le> BROTLI_REVERSE_BITS_MAX);
     rassert (BROTLI_HUFFMAN_MAX_CODE_LENGTH - root_bits \<le> BROTLI_REVERSE_BITS_MAX);
     max_length \<leftarrow> find_max_length symbol_lists symbol_lists_offset (-1);
     let max_length = max_length + (BROTLI_HUFFMAN_MAX_CODE_LENGTH + 1);
     let table_bits = root_bits;
     let total_size = shl_i32 1 table_bits;
     let table_bits = (if table_bits > max_length then max_length else table_bits);
     let table_size = shl_i32 1 table_bits;
     (root_table, key) \<leftarrow>
       fill_root_table root_table symbol_lists symbol_lists_offset count 0 0
         BROTLI_REVERSE_BITS_LOWEST 2 table_size table_bits 1;
     (root_table, table_size) \<leftarrow> double_table root_table 0 total_size table_size;
     s \<leftarrow> second_levels
       \<lparr>sl_root_table = root_table, sl_count = count, sl_table_free_offset = 0, sl_table_bits = table_bits,
        sl_table_size = table_size, sl_total_size = total_size, sl_key = key,
        sl_sub_key = push_bit 1 BROTLI_REVERSE_BITS_LOWEST\<rparr>
       symbol_lists symbol_lists_offset (shr32 BROTLI_REVERSE_BITS_LOWEST (u32_of_i32 (root_bits - 1)))
       BROTLI_REVERSE_BITS_LOWEST 2 (root_bits + 1) max_length root_bits;
     Some (sl_root_table s, sl_count s, u32_of_i32 (sl_total_size s))
   }"

subsection \<open>The table of a simple code\<close>

definition set_bits :: "HuffmanCode list \<Rightarrow> nat \<Rightarrow> u8 \<Rightarrow> HuffmanCode list option" where
  "set_bits table i b = do { c \<leftarrow> get table i; put table i (c\<lparr>hc_bits := b\<rparr>) }"

definition set_value :: "HuffmanCode list \<Rightarrow> nat \<Rightarrow> u16 \<Rightarrow> HuffmanCode list option" where
  "set_value table i v = do { c \<leftarrow> get table i; put table i (c\<lparr>hc_value := v\<rparr>) }"

definition swap_if_less :: "u16 list \<Rightarrow> nat \<times> nat \<Rightarrow> u16 list" where
  "swap_if_less mval = (\<lambda>(i, k).
     if mval ! k < mval ! i then mval[k := mval ! i, i := mval ! k] else mval)"

text \<open>\<open>for i in 0..7\<close> of the last case.\<close>

fun fill_seven :: "HuffmanCode list \<Rightarrow> u16 \<Rightarrow> nat \<Rightarrow> nat \<Rightarrow> HuffmanCode list option" where
  "fill_seven table v i 0 = Some table"
| "fill_seven table v i (Suc n) = do {
     table \<leftarrow> set_value table i v;
     table \<leftarrow> set_bits table i (of_nat (1 + i mod 2));
     fill_seven table v (i + 1) n
   }"

partial_function (option) double_simple_table ::
  "HuffmanCode list \<Rightarrow> u32 \<Rightarrow> u32 \<Rightarrow> HuffmanCode list option" where
  "double_simple_table table table_size goal_size =
    (if table_size \<noteq> goal_size then do {
       table \<leftarrow> copy_entries table 0 (unat table_size) 0 (unat table_size);
       double_simple_table table (push_bit 1 table_size) goal_size
     } else Some table)"

declare double_simple_table.simps [code]

definition simple_table ::
  "HuffmanCode list \<Rightarrow> u16 list \<Rightarrow> u32 \<Rightarrow> (HuffmanCode list \<times> u32) option" where
  "simple_table table val num_symbols =
    (if num_symbols = 0 then do {
       table \<leftarrow> set_bits table 0 0;
       v0 \<leftarrow> get val 0;
       table \<leftarrow> set_value table 0 v0;
       Some (table, 1)
     } else if num_symbols = 1 then do {
       table \<leftarrow> set_bits table 0 1;
       table \<leftarrow> set_bits table 1 1;
       v0 \<leftarrow> get val 0;
       v1 \<leftarrow> get val 1;
       table \<leftarrow> set_value table 0 (if v1 > v0 then v0 else v1);
       table \<leftarrow> set_value table 1 (if v1 > v0 then v1 else v0);
       Some (table, 2)
     } else if num_symbols = 2 then do {
       v0 \<leftarrow> get val 0;
       v1 \<leftarrow> get val 1;
       v2 \<leftarrow> get val 2;
       table \<leftarrow> set_bits table 0 1;
       table \<leftarrow> set_value table 0 v0;
       table \<leftarrow> set_bits table 2 1;
       table \<leftarrow> set_value table 2 v0;
       table \<leftarrow> set_value table 1 (if v2 > v1 then v1 else v2);
       table \<leftarrow> set_value table 3 (if v2 > v1 then v2 else v1);
       table \<leftarrow> set_bits table 1 2;
       table \<leftarrow> set_bits table 3 2;
       Some (table, 4)
     } else if num_symbols = 3 then do {
       last \<leftarrow> (if length val > 3 then get val 3 else Some 65535);
       v0 \<leftarrow> get val 0;
       v1 \<leftarrow> get val 1;
       v2 \<leftarrow> get val 2;
       let mval = foldl swap_if_less [v0, v1, v2, last] [(0, 1), (0, 2), (0, 3), (1, 2), (1, 3), (2, 3)];
       table \<leftarrow> set_bits table 0 2;
       table \<leftarrow> set_bits table 1 2;
       table \<leftarrow> set_bits table 2 2;
       table \<leftarrow> set_bits table 3 2;
       table \<leftarrow> set_value table 0 (mval ! 0);
       table \<leftarrow> set_value table 2 (mval ! 1);
       table \<leftarrow> set_value table 1 (mval ! 2);
       table \<leftarrow> set_value table 3 (mval ! 3);
       Some (table, 4)
     } else if num_symbols = 4 then do {
       v0 \<leftarrow> get val 0;
       v1 \<leftarrow> get val 1;
       v2 \<leftarrow> get val 2;
       v3 \<leftarrow> get val 3;
       let mval = swap_if_less [v0, v1, v2, v3] (2, 3);
       table \<leftarrow> fill_seven table (mval ! 0) 0 7;
       table \<leftarrow> set_value table 1 (mval ! 1);
       table \<leftarrow> set_value table 3 (mval ! 2);
       table \<leftarrow> set_value table 5 (mval ! 1);
       table \<leftarrow> set_value table 7 (mval ! 3);
       table \<leftarrow> set_bits table 3 3;
       table \<leftarrow> set_bits table 7 3;
       Some (table, 8)
     } else None)"

definition BrotliBuildSimpleHuffmanTable ::
  "HuffmanCode list \<Rightarrow> int \<Rightarrow> u16 list \<Rightarrow> u32 \<Rightarrow> (HuffmanCode list \<times> u32) option" where
  "BrotliBuildSimpleHuffmanTable table root_bits val num_symbols =
    (let goal_size = shl32 1 (u32_of_i32 root_bits) in do {
       rassert (num_symbols \<le> 4);
       (table, table_size) \<leftarrow> simple_table table val num_symbols;
       table \<leftarrow> double_simple_table table table_size goal_size;
       Some (table, goal_size)
     })"

end
