(* ===== verification/Context_Table.thy ===== *)
theory Context_Table
  imports Rust_Prelude
begin

text \<open>
  The context lookup table of \<open>src/context.rs\<close>: one table of 512 bytes per context mode, copied
  entry by entry, and the context of the next literal, which the decoder computes from the
  last two bytes by two lookups. The lemmas state the formula of each of the four modes.
\<close>

subsection \<open>The tables\<close>

datatype ContextType = CONTEXT_LSB6 | CONTEXT_MSB6 | CONTEXT_UTF8 | CONTEXT_SIGNED

definition kContextLookup_LSB6 :: "u8 list" where
  "kContextLookup_LSB6 = [
     0, 1, 2, 3, 4, 5, 6, 7, 8, 9, 10, 11, 12, 13, 14, 15,
     16, 17, 18, 19, 20, 21, 22, 23, 24, 25, 26, 27, 28, 29, 30, 31,
     32, 33, 34, 35, 36, 37, 38, 39, 40, 41, 42, 43, 44, 45, 46, 47,
     48, 49, 50, 51, 52, 53, 54, 55, 56, 57, 58, 59, 60, 61, 62, 63,
     0, 1, 2, 3, 4, 5, 6, 7, 8, 9, 10, 11, 12, 13, 14, 15,
     16, 17, 18, 19, 20, 21, 22, 23, 24, 25, 26, 27, 28, 29, 30, 31,
     32, 33, 34, 35, 36, 37, 38, 39, 40, 41, 42, 43, 44, 45, 46, 47,
     48, 49, 50, 51, 52, 53, 54, 55, 56, 57, 58, 59, 60, 61, 62, 63,
     0, 1, 2, 3, 4, 5, 6, 7, 8, 9, 10, 11, 12, 13, 14, 15,
     16, 17, 18, 19, 20, 21, 22, 23, 24, 25, 26, 27, 28, 29, 30, 31,
     32, 33, 34, 35, 36, 37, 38, 39, 40, 41, 42, 43, 44, 45, 46, 47,
     48, 49, 50, 51, 52, 53, 54, 55, 56, 57, 58, 59, 60, 61, 62, 63,
     0, 1, 2, 3, 4, 5, 6, 7, 8, 9, 10, 11, 12, 13, 14, 15,
     16, 17, 18, 19, 20, 21, 22, 23, 24, 25, 26, 27, 28, 29, 30, 31,
     32, 33, 34, 35, 36, 37, 38, 39, 40, 41, 42, 43, 44, 45, 46, 47,
     48, 49, 50, 51, 52, 53, 54, 55, 56, 57, 58, 59, 60, 61, 62, 63,
     0, 0, 0, 0, 0, 0, 0, 0, 0, 0, 0, 0, 0, 0, 0, 0,
     0, 0, 0, 0, 0, 0, 0, 0, 0, 0, 0, 0, 0, 0, 0, 0,
     0, 0, 0, 0, 0, 0, 0, 0, 0, 0, 0, 0, 0, 0, 0, 0,
     0, 0, 0, 0, 0, 0, 0, 0, 0, 0, 0, 0, 0, 0, 0, 0,
     0, 0, 0, 0, 0, 0, 0, 0, 0, 0, 0, 0, 0, 0, 0, 0,
     0, 0, 0, 0, 0, 0, 0, 0, 0, 0, 0, 0, 0, 0, 0, 0,
     0, 0, 0, 0, 0, 0, 0, 0, 0, 0, 0, 0, 0, 0, 0, 0,
     0, 0, 0, 0, 0, 0, 0, 0, 0, 0, 0, 0, 0, 0, 0, 0,
     0, 0, 0, 0, 0, 0, 0, 0, 0, 0, 0, 0, 0, 0, 0, 0,
     0, 0, 0, 0, 0, 0, 0, 0, 0, 0, 0, 0, 0, 0, 0, 0,
     0, 0, 0, 0, 0, 0, 0, 0, 0, 0, 0, 0, 0, 0, 0, 0,
     0, 0, 0, 0, 0, 0, 0, 0, 0, 0, 0, 0, 0, 0, 0, 0,
     0, 0, 0, 0, 0, 0, 0, 0, 0, 0, 0, 0, 0, 0, 0, 0,
     0, 0, 0, 0, 0, 0, 0, 0, 0, 0, 0, 0, 0, 0, 0, 0,
     0, 0, 0, 0, 0, 0, 0, 0, 0, 0, 0, 0, 0, 0, 0, 0,
     0, 0, 0, 0, 0, 0, 0, 0, 0, 0, 0, 0, 0, 0, 0, 0]"

definition kContextLookup_MSB6 :: "u8 list" where
  "kContextLookup_MSB6 = [
     0, 0, 0, 0, 1, 1, 1, 1, 2, 2, 2, 2, 3, 3, 3, 3,
     4, 4, 4, 4, 5, 5, 5, 5, 6, 6, 6, 6, 7, 7, 7, 7,
     8, 8, 8, 8, 9, 9, 9, 9, 10, 10, 10, 10, 11, 11, 11, 11,
     12, 12, 12, 12, 13, 13, 13, 13, 14, 14, 14, 14, 15, 15, 15, 15,
     16, 16, 16, 16, 17, 17, 17, 17, 18, 18, 18, 18, 19, 19, 19, 19,
     20, 20, 20, 20, 21, 21, 21, 21, 22, 22, 22, 22, 23, 23, 23, 23,
     24, 24, 24, 24, 25, 25, 25, 25, 26, 26, 26, 26, 27, 27, 27, 27,
     28, 28, 28, 28, 29, 29, 29, 29, 30, 30, 30, 30, 31, 31, 31, 31,
     32, 32, 32, 32, 33, 33, 33, 33, 34, 34, 34, 34, 35, 35, 35, 35,
     36, 36, 36, 36, 37, 37, 37, 37, 38, 38, 38, 38, 39, 39, 39, 39,
     40, 40, 40, 40, 41, 41, 41, 41, 42, 42, 42, 42, 43, 43, 43, 43,
     44, 44, 44, 44, 45, 45, 45, 45, 46, 46, 46, 46, 47, 47, 47, 47,
     48, 48, 48, 48, 49, 49, 49, 49, 50, 50, 50, 50, 51, 51, 51, 51,
     52, 52, 52, 52, 53, 53, 53, 53, 54, 54, 54, 54, 55, 55, 55, 55,
     56, 56, 56, 56, 57, 57, 57, 57, 58, 58, 58, 58, 59, 59, 59, 59,
     60, 60, 60, 60, 61, 61, 61, 61, 62, 62, 62, 62, 63, 63, 63, 63,
     0, 0, 0, 0, 0, 0, 0, 0, 0, 0, 0, 0, 0, 0, 0, 0,
     0, 0, 0, 0, 0, 0, 0, 0, 0, 0, 0, 0, 0, 0, 0, 0,
     0, 0, 0, 0, 0, 0, 0, 0, 0, 0, 0, 0, 0, 0, 0, 0,
     0, 0, 0, 0, 0, 0, 0, 0, 0, 0, 0, 0, 0, 0, 0, 0,
     0, 0, 0, 0, 0, 0, 0, 0, 0, 0, 0, 0, 0, 0, 0, 0,
     0, 0, 0, 0, 0, 0, 0, 0, 0, 0, 0, 0, 0, 0, 0, 0,
     0, 0, 0, 0, 0, 0, 0, 0, 0, 0, 0, 0, 0, 0, 0, 0,
     0, 0, 0, 0, 0, 0, 0, 0, 0, 0, 0, 0, 0, 0, 0, 0,
     0, 0, 0, 0, 0, 0, 0, 0, 0, 0, 0, 0, 0, 0, 0, 0,
     0, 0, 0, 0, 0, 0, 0, 0, 0, 0, 0, 0, 0, 0, 0, 0,
     0, 0, 0, 0, 0, 0, 0, 0, 0, 0, 0, 0, 0, 0, 0, 0,
     0, 0, 0, 0, 0, 0, 0, 0, 0, 0, 0, 0, 0, 0, 0, 0,
     0, 0, 0, 0, 0, 0, 0, 0, 0, 0, 0, 0, 0, 0, 0, 0,
     0, 0, 0, 0, 0, 0, 0, 0, 0, 0, 0, 0, 0, 0, 0, 0,
     0, 0, 0, 0, 0, 0, 0, 0, 0, 0, 0, 0, 0, 0, 0, 0,
     0, 0, 0, 0, 0, 0, 0, 0, 0, 0, 0, 0, 0, 0, 0, 0]"

definition kContextLookup_UTF8 :: "u8 list" where
  "kContextLookup_UTF8 = [
     0, 0, 0, 0, 0, 0, 0, 0, 0, 4, 4, 0, 0, 4, 0, 0,
     0, 0, 0, 0, 0, 0, 0, 0, 0, 0, 0, 0, 0, 0, 0, 0,
     8, 12, 16, 12, 12, 20, 12, 16, 24, 28, 12, 12, 32, 12, 36, 12,
     44, 44, 44, 44, 44, 44, 44, 44, 44, 44, 32, 32, 24, 40, 28, 12,
     12, 48, 52, 52, 52, 48, 52, 52, 52, 48, 52, 52, 52, 52, 52, 48,
     52, 52, 52, 52, 52, 48, 52, 52, 52, 52, 52, 24, 12, 28, 12, 12,
     12, 56, 60, 60, 60, 56, 60, 60, 60, 56, 60, 60, 60, 60, 60, 56,
     60, 60, 60, 60, 60, 56, 60, 60, 60, 60, 60, 24, 12, 28, 12, 0,
     0, 1, 0, 1, 0, 1, 0, 1, 0, 1, 0, 1, 0, 1, 0, 1,
     0, 1, 0, 1, 0, 1, 0, 1, 0, 1, 0, 1, 0, 1, 0, 1,
     0, 1, 0, 1, 0, 1, 0, 1, 0, 1, 0, 1, 0, 1, 0, 1,
     0, 1, 0, 1, 0, 1, 0, 1, 0, 1, 0, 1, 0, 1, 0, 1,
     2, 3, 2, 3, 2, 3, 2, 3, 2, 3, 2, 3, 2, 3, 2, 3,
     2, 3, 2, 3, 2, 3, 2, 3, 2, 3, 2, 3, 2, 3, 2, 3,
     2, 3, 2, 3, 2, 3, 2, 3, 2, 3, 2, 3, 2, 3, 2, 3,
     2, 3, 2, 3, 2, 3, 2, 3, 2, 3, 2, 3, 2, 3, 2, 3,
     0, 0, 0, 0, 0, 0, 0, 0, 0, 0, 0, 0, 0, 0, 0, 0,
     0, 0, 0, 0, 0, 0, 0, 0, 0, 0, 0, 0, 0, 0, 0, 0,
     0, 1, 1, 1, 1, 1, 1, 1, 1, 1, 1, 1, 1, 1, 1, 1,
     2, 2, 2, 2, 2, 2, 2, 2, 2, 2, 1, 1, 1, 1, 1, 1,
     1, 2, 2, 2, 2, 2, 2, 2, 2, 2, 2, 2, 2, 2, 2, 2,
     2, 2, 2, 2, 2, 2, 2, 2, 2, 2, 2, 1, 1, 1, 1, 1,
     1, 3, 3, 3, 3, 3, 3, 3, 3, 3, 3, 3, 3, 3, 3, 3,
     3, 3, 3, 3, 3, 3, 3, 3, 3, 3, 3, 1, 1, 1, 1, 0,
     0, 0, 0, 0, 0, 0, 0, 0, 0, 0, 0, 0, 0, 0, 0, 0,
     0, 0, 0, 0, 0, 0, 0, 0, 0, 0, 0, 0, 0, 0, 0, 0,
     0, 0, 0, 0, 0, 0, 0, 0, 0, 0, 0, 0, 0, 0, 0, 0,
     0, 0, 0, 0, 0, 0, 0, 0, 0, 0, 0, 0, 0, 0, 0, 0,
     0, 0, 0, 0, 0, 0, 0, 0, 0, 0, 0, 0, 0, 0, 0, 0,
     0, 0, 0, 0, 0, 0, 0, 0, 0, 0, 0, 0, 0, 0, 0, 0,
     2, 2, 2, 2, 2, 2, 2, 2, 2, 2, 2, 2, 2, 2, 2, 2,
     2, 2, 2, 2, 2, 2, 2, 2, 2, 2, 2, 2, 2, 2, 2, 2]"

definition kContextLookup_SIGNED :: "u8 list" where
  "kContextLookup_SIGNED = [
     0, 8, 8, 8, 8, 8, 8, 8, 8, 8, 8, 8, 8, 8, 8, 8,
     16, 16, 16, 16, 16, 16, 16, 16, 16, 16, 16, 16, 16, 16, 16, 16,
     16, 16, 16, 16, 16, 16, 16, 16, 16, 16, 16, 16, 16, 16, 16, 16,
     16, 16, 16, 16, 16, 16, 16, 16, 16, 16, 16, 16, 16, 16, 16, 16,
     24, 24, 24, 24, 24, 24, 24, 24, 24, 24, 24, 24, 24, 24, 24, 24,
     24, 24, 24, 24, 24, 24, 24, 24, 24, 24, 24, 24, 24, 24, 24, 24,
     24, 24, 24, 24, 24, 24, 24, 24, 24, 24, 24, 24, 24, 24, 24, 24,
     24, 24, 24, 24, 24, 24, 24, 24, 24, 24, 24, 24, 24, 24, 24, 24,
     32, 32, 32, 32, 32, 32, 32, 32, 32, 32, 32, 32, 32, 32, 32, 32,
     32, 32, 32, 32, 32, 32, 32, 32, 32, 32, 32, 32, 32, 32, 32, 32,
     32, 32, 32, 32, 32, 32, 32, 32, 32, 32, 32, 32, 32, 32, 32, 32,
     32, 32, 32, 32, 32, 32, 32, 32, 32, 32, 32, 32, 32, 32, 32, 32,
     40, 40, 40, 40, 40, 40, 40, 40, 40, 40, 40, 40, 40, 40, 40, 40,
     40, 40, 40, 40, 40, 40, 40, 40, 40, 40, 40, 40, 40, 40, 40, 40,
     40, 40, 40, 40, 40, 40, 40, 40, 40, 40, 40, 40, 40, 40, 40, 40,
     48, 48, 48, 48, 48, 48, 48, 48, 48, 48, 48, 48, 48, 48, 48, 56,
     0, 1, 1, 1, 1, 1, 1, 1, 1, 1, 1, 1, 1, 1, 1, 1,
     2, 2, 2, 2, 2, 2, 2, 2, 2, 2, 2, 2, 2, 2, 2, 2,
     2, 2, 2, 2, 2, 2, 2, 2, 2, 2, 2, 2, 2, 2, 2, 2,
     2, 2, 2, 2, 2, 2, 2, 2, 2, 2, 2, 2, 2, 2, 2, 2,
     3, 3, 3, 3, 3, 3, 3, 3, 3, 3, 3, 3, 3, 3, 3, 3,
     3, 3, 3, 3, 3, 3, 3, 3, 3, 3, 3, 3, 3, 3, 3, 3,
     3, 3, 3, 3, 3, 3, 3, 3, 3, 3, 3, 3, 3, 3, 3, 3,
     3, 3, 3, 3, 3, 3, 3, 3, 3, 3, 3, 3, 3, 3, 3, 3,
     4, 4, 4, 4, 4, 4, 4, 4, 4, 4, 4, 4, 4, 4, 4, 4,
     4, 4, 4, 4, 4, 4, 4, 4, 4, 4, 4, 4, 4, 4, 4, 4,
     4, 4, 4, 4, 4, 4, 4, 4, 4, 4, 4, 4, 4, 4, 4, 4,
     4, 4, 4, 4, 4, 4, 4, 4, 4, 4, 4, 4, 4, 4, 4, 4,
     5, 5, 5, 5, 5, 5, 5, 5, 5, 5, 5, 5, 5, 5, 5, 5,
     5, 5, 5, 5, 5, 5, 5, 5, 5, 5, 5, 5, 5, 5, 5, 5,
     5, 5, 5, 5, 5, 5, 5, 5, 5, 5, 5, 5, 5, 5, 5, 5,
     6, 6, 6, 6, 6, 6, 6, 6, 6, 6, 6, 6, 6, 6, 6, 7]"

definition kContextLookup :: "u8 list list" where
  "kContextLookup =
     [kContextLookup_LSB6, kContextLookup_MSB6, kContextLookup_UTF8, kContextLookup_SIGNED]"

text \<open>The number of a mode is the discriminant of the source's enum.\<close>

fun context_mode_index :: "ContextType \<Rightarrow> nat" where
  "context_mode_index CONTEXT_LSB6 = 0"
| "context_mode_index CONTEXT_MSB6 = 1"
| "context_mode_index CONTEXT_UTF8 = 2"
| "context_mode_index CONTEXT_SIGNED = 3"

text \<open>The two lookups of the literal loop, with \<open>p1\<close> the last byte and \<open>p2\<close> the one before.\<close>

definition literal_context :: "u8 list \<Rightarrow> u8 \<Rightarrow> u8 \<Rightarrow> u8 option" where
  "literal_context context_lookup p1 p2 = do {
     a \<leftarrow> get context_lookup (unat p1);
     b \<leftarrow> get context_lookup (unat p2 OR 256);
     Some (a OR b)
   }"

subsection \<open>The formulas of the four modes\<close>

text \<open>The formulas are over the values of the bytes as integers.\<close>

definition signed_class :: "int \<Rightarrow> int" where
  "signed_class b =
     (if b = 0 then 0 else if b < 16 then 1 else if b < 64 then 2 else if b < 128 then 3
      else if b < 192 then 4 else if b < 240 then 5 else if b < 255 then 6 else 7)"

text \<open>The classes of ASCII characters of the UTF8 mode, in the order of the table's comment.\<close>

definition utf8_class1 :: "int \<Rightarrow> int" where
  "utf8_class1 b =
     (if b = 9 \<or> b = 10 \<or> b = 13 then 1
      else if b < 32 \<or> b = 127 then 0
      else if b = 32 then 2
      else if b = 34 \<or> b = 39 then 4
      else if b = 37 then 5
      else if b = 40 \<or> b = 60 \<or> b = 91 \<or> b = 123 then 6
      else if b = 41 \<or> b = 62 \<or> b = 93 \<or> b = 125 then 7
      else if b = 44 \<or> b = 58 \<or> b = 59 then 8
      else if b = 46 then 9
      else if b = 61 then 10
      else if 48 \<le> b \<and> b \<le> 57 then 11
      else if b = 65 \<or> b = 69 \<or> b = 73 \<or> b = 79 \<or> b = 85 then 12
      else if 65 \<le> b \<and> b \<le> 90 then 13
      else if b = 97 \<or> b = 101 \<or> b = 105 \<or> b = 111 \<or> b = 117 then 14
      else if 97 \<le> b \<and> b \<le> 122 then 15
      else 3)"

definition utf8_class2 :: "int \<Rightarrow> int" where
  "utf8_class2 b =
     (if b \<le> 32 \<or> b = 127 then 0
      else if 48 \<le> b \<and> b \<le> 57 \<or> 65 \<le> b \<and> b \<le> 90 then 2
      else if 97 \<le> b \<and> b \<le> 122 then 3
      else 1)"

text \<open>
  The whole UTF8 mode: the part of the last byte and the part of the byte before it. A byte before the
  last that is not ASCII counts 0 below 224 and 2 from 224 on. This is what the table holds; the comment
  in \<open>src/context.rs\<close> puts that border at 208.
\<close>

definition utf8_last :: "int \<Rightarrow> int" where
  "utf8_last b =
     (if b < 128 then 4 * utf8_class1 b else if b < 192 then b mod 2 else 2 + b mod 2)"

definition utf8_second_last :: "int \<Rightarrow> int" where
  "utf8_second_last b = (if b < 128 then utf8_class2 b else if b < 224 then 0 else 2)"

fun context_last :: "ContextType \<Rightarrow> int \<Rightarrow> int" where
  "context_last CONTEXT_LSB6 b = b mod 64"
| "context_last CONTEXT_MSB6 b = b div 4"
| "context_last CONTEXT_UTF8 b = utf8_last b"
| "context_last CONTEXT_SIGNED b = 8 * signed_class b"

fun context_second_last :: "ContextType \<Rightarrow> int \<Rightarrow> int" where
  "context_second_last CONTEXT_LSB6 b = 0"
| "context_second_last CONTEXT_MSB6 b = 0"
| "context_second_last CONTEXT_UTF8 b = utf8_second_last b"
| "context_second_last CONTEXT_SIGNED b = signed_class b"

text \<open>A table of 512 entries as two functions of a byte.\<close>

definition two_tables :: "(int \<Rightarrow> int) \<Rightarrow> (int \<Rightarrow> int) \<Rightarrow> u8 list" where
  "two_tables f g =
     map (\<lambda>i. word_of_int (f i)) [0..255] @ map (\<lambda>i. word_of_int (g i)) [0..255]"

lemma byte_or_256: "unat (p::u8) OR 256 = unat p + 256"
proof -
  have "unat p AND 256 = 0"
  proof (rule bit_eqI)
    fix n
    have "bit (256 :: nat) n \<longleftrightarrow> n = 8"
      using bit_exp_iff [of 8 n, where ?'a = nat] by auto
    then show "bit (unat p AND 256) n = bit (0 :: nat) n"
      by (auto simp: bit_simps dest: bit_imp_le_length)
  qed
  then show ?thesis by (simp add: disjunctive_add_eq_or)
qed

lemma unat_byte_less [simp]: "unat (p::u8) < 256"
  using unsigned_less [of p, where ?'a = nat] by simp

lemma uint_byte_less [simp]: "uint (p::u8) < 256" "uint (p::u8) \<le> 255"
proof -
  have "int (unat p) < 256" using unat_byte_less [of p] by linarith
  then show "uint p < 256" "uint p \<le> 255" by simp_all
qed

lemma literal_context_two_tables:
  "literal_context (two_tables f g) p1 p2 =
     Some (word_of_int (f (uint p1)) OR word_of_int (g (uint p2)))"
proof -
  have "unat p1 < 512" using unat_byte_less [of p1] by linarith
  then show ?thesis
    unfolding literal_context_def byte_or_256
    by (simp add: two_tables_def get_def nth_append nth_upto)
qed

lemma kContextLookup_LSB6_eq:
  "kContextLookup_LSB6 = two_tables (context_last CONTEXT_LSB6) (context_second_last CONTEXT_LSB6)"
  by code_simp

lemma kContextLookup_MSB6_eq:
  "kContextLookup_MSB6 = two_tables (context_last CONTEXT_MSB6) (context_second_last CONTEXT_MSB6)"
  by code_simp

lemma kContextLookup_UTF8_eq:
  "kContextLookup_UTF8 = two_tables (context_last CONTEXT_UTF8) (context_second_last CONTEXT_UTF8)"
  by code_simp

lemma kContextLookup_SIGNED_eq:
  "kContextLookup_SIGNED =
     two_tables (context_last CONTEXT_SIGNED) (context_second_last CONTEXT_SIGNED)"
  by code_simp

lemma kContextLookup_mode:
  "kContextLookup ! context_mode_index m = two_tables (context_last m) (context_second_last m)"
  by (cases m) (simp_all add: kContextLookup_def kContextLookup_LSB6_eq kContextLookup_MSB6_eq
      kContextLookup_UTF8_eq kContextLookup_SIGNED_eq numeral_2_eq_2 numeral_3_eq_3)






lemma literal_context_mode:
  "literal_context (kContextLookup ! context_mode_index m) p1 p2 =
     Some (word_of_int (context_last m (uint p1)) OR word_of_int (context_second_last m (uint p2)))"
  by (simp only: kContextLookup_mode literal_context_two_tables)


subsection \<open>Properties\<close>

lemma utf8_border:
  "literal_context (kContextLookup ! context_mode_index CONTEXT_UTF8) 128 208 = Some 0"
  "literal_context (kContextLookup ! context_mode_index CONTEXT_UTF8) 128 223 = Some 0"
  "literal_context (kContextLookup ! context_mode_index CONTEXT_UTF8) 128 224 = Some 2"
  by (simp_all only: literal_context_mode context_last.simps context_second_last.simps)
    (simp_all add: utf8_last_def utf8_second_last_def)


end
