(* ===== verification/State.thy ===== *)
theory State
  imports Bit_Reader Huffman Context_Table
begin

text \<open>
  The state of the decoder, \<open>src/state.rs\<close>: the error codes, the states of the main loop and of the
  resumable functions, the record of all variables, and the operations that create a state and
  reset it around a metablock. The fields of the records carry a prefix, \<open>s_\<close> for the decoder and
  \<open>bt_\<close> for its block types.
\<close>

subsection \<open>Enumerations\<close>

datatype WhichTreeGroup = LITERAL | INSERT_COPY | DISTANCE

datatype BrotliDecoderErrorCode =
    BROTLI_DECODER_NO_ERROR
  | BROTLI_DECODER_SUCCESS
  | BROTLI_DECODER_NEEDS_MORE_INPUT
  | BROTLI_DECODER_NEEDS_MORE_OUTPUT
  | BROTLI_DECODER_ERROR_FORMAT_EXUBERANT_NIBBLE
  | BROTLI_DECODER_ERROR_FORMAT_RESERVED
  | BROTLI_DECODER_ERROR_FORMAT_EXUBERANT_META_NIBBLE
  | BROTLI_DECODER_ERROR_FORMAT_SIMPLE_HUFFMAN_ALPHABET
  | BROTLI_DECODER_ERROR_FORMAT_SIMPLE_HUFFMAN_SAME
  | BROTLI_DECODER_ERROR_FORMAT_CL_SPACE
  | BROTLI_DECODER_ERROR_FORMAT_HUFFMAN_SPACE
  | BROTLI_DECODER_ERROR_FORMAT_CONTEXT_MAP_REPEAT
  | BROTLI_DECODER_ERROR_FORMAT_BLOCK_LENGTH_1
  | BROTLI_DECODER_ERROR_FORMAT_BLOCK_LENGTH_2
  | BROTLI_DECODER_ERROR_FORMAT_TRANSFORM
  | BROTLI_DECODER_ERROR_FORMAT_DICTIONARY
  | BROTLI_DECODER_ERROR_FORMAT_WINDOW_BITS
  | BROTLI_DECODER_ERROR_FORMAT_PADDING_1
  | BROTLI_DECODER_ERROR_FORMAT_PADDING_2
  | BROTLI_DECODER_ERROR_FORMAT_DISTANCE
  | BROTLI_DECODER_ERROR_DICTIONARY_NOT_SET
  | BROTLI_DECODER_ERROR_INVALID_ARGUMENTS
  | BROTLI_DECODER_ERROR_ALLOC_CONTEXT_MODES
  | BROTLI_DECODER_ERROR_ALLOC_TREE_GROUPS
  | BROTLI_DECODER_ERROR_ALLOC_CONTEXT_MAP
  | BROTLI_DECODER_ERROR_ALLOC_RING_BUFFER_1
  | BROTLI_DECODER_ERROR_ALLOC_RING_BUFFER_2
  | BROTLI_DECODER_ERROR_ALLOC_BLOCK_TYPE_TREES
  | BROTLI_DECODER_ERROR_UNREACHABLE

text \<open>The discriminants, which are what \<open>e as i64\<close> yields.\<close>

fun error_code_value :: "BrotliDecoderErrorCode \<Rightarrow> int" where
  "error_code_value BROTLI_DECODER_NO_ERROR = 0"
| "error_code_value BROTLI_DECODER_SUCCESS = 1"
| "error_code_value BROTLI_DECODER_NEEDS_MORE_INPUT = 2"
| "error_code_value BROTLI_DECODER_NEEDS_MORE_OUTPUT = 3"
| "error_code_value BROTLI_DECODER_ERROR_FORMAT_EXUBERANT_NIBBLE = -1"
| "error_code_value BROTLI_DECODER_ERROR_FORMAT_RESERVED = -2"
| "error_code_value BROTLI_DECODER_ERROR_FORMAT_EXUBERANT_META_NIBBLE = -3"
| "error_code_value BROTLI_DECODER_ERROR_FORMAT_SIMPLE_HUFFMAN_ALPHABET = -4"
| "error_code_value BROTLI_DECODER_ERROR_FORMAT_SIMPLE_HUFFMAN_SAME = -5"
| "error_code_value BROTLI_DECODER_ERROR_FORMAT_CL_SPACE = -6"
| "error_code_value BROTLI_DECODER_ERROR_FORMAT_HUFFMAN_SPACE = -7"
| "error_code_value BROTLI_DECODER_ERROR_FORMAT_CONTEXT_MAP_REPEAT = -8"
| "error_code_value BROTLI_DECODER_ERROR_FORMAT_BLOCK_LENGTH_1 = -9"
| "error_code_value BROTLI_DECODER_ERROR_FORMAT_BLOCK_LENGTH_2 = -10"
| "error_code_value BROTLI_DECODER_ERROR_FORMAT_TRANSFORM = -11"
| "error_code_value BROTLI_DECODER_ERROR_FORMAT_DICTIONARY = -12"
| "error_code_value BROTLI_DECODER_ERROR_FORMAT_WINDOW_BITS = -13"
| "error_code_value BROTLI_DECODER_ERROR_FORMAT_PADDING_1 = -14"
| "error_code_value BROTLI_DECODER_ERROR_FORMAT_PADDING_2 = -15"
| "error_code_value BROTLI_DECODER_ERROR_FORMAT_DISTANCE = -16"
| "error_code_value BROTLI_DECODER_ERROR_DICTIONARY_NOT_SET = -19"
| "error_code_value BROTLI_DECODER_ERROR_INVALID_ARGUMENTS = -20"
| "error_code_value BROTLI_DECODER_ERROR_ALLOC_CONTEXT_MODES = -21"
| "error_code_value BROTLI_DECODER_ERROR_ALLOC_TREE_GROUPS = -22"
| "error_code_value BROTLI_DECODER_ERROR_ALLOC_CONTEXT_MAP = -25"
| "error_code_value BROTLI_DECODER_ERROR_ALLOC_RING_BUFFER_1 = -26"
| "error_code_value BROTLI_DECODER_ERROR_ALLOC_RING_BUFFER_2 = -27"
| "error_code_value BROTLI_DECODER_ERROR_ALLOC_BLOCK_TYPE_TREES = -30"
| "error_code_value BROTLI_DECODER_ERROR_UNREACHABLE = -31"

datatype BrotliRunningState =
    BROTLI_STATE_UNINITED
  | BROTLI_STATE_LARGE_WINDOW_BITS
  | BROTLI_STATE_INITIALIZE
  | BROTLI_STATE_METABLOCK_BEGIN
  | BROTLI_STATE_METABLOCK_HEADER
  | BROTLI_STATE_METABLOCK_HEADER_2
  | BROTLI_STATE_CONTEXT_MODES
  | BROTLI_STATE_COMMAND_BEGIN
  | BROTLI_STATE_COMMAND_INNER
  | BROTLI_STATE_COMMAND_POST_DECODE_LITERALS
  | BROTLI_STATE_COMMAND_POST_WRAP_COPY
  | BROTLI_STATE_UNCOMPRESSED
  | BROTLI_STATE_METADATA
  | BROTLI_STATE_COMMAND_INNER_WRITE
  | BROTLI_STATE_METABLOCK_DONE
  | BROTLI_STATE_COMMAND_POST_WRITE_1
  | BROTLI_STATE_COMMAND_POST_WRITE_2
  | BROTLI_STATE_HUFFMAN_CODE_0
  | BROTLI_STATE_HUFFMAN_CODE_1
  | BROTLI_STATE_HUFFMAN_CODE_2
  | BROTLI_STATE_HUFFMAN_CODE_3
  | BROTLI_STATE_CONTEXT_MAP_1
  | BROTLI_STATE_CONTEXT_MAP_2
  | BROTLI_STATE_TREE_GROUP
  | BROTLI_STATE_DONE

datatype BrotliRunningMetablockHeaderState =
    BROTLI_STATE_METABLOCK_HEADER_NONE
  | BROTLI_STATE_METABLOCK_HEADER_EMPTY
  | BROTLI_STATE_METABLOCK_HEADER_NIBBLES
  | BROTLI_STATE_METABLOCK_HEADER_SIZE
  | BROTLI_STATE_METABLOCK_HEADER_UNCOMPRESSED
  | BROTLI_STATE_METABLOCK_HEADER_RESERVED
  | BROTLI_STATE_METABLOCK_HEADER_BYTES
  | BROTLI_STATE_METABLOCK_HEADER_METADATA

datatype BrotliRunningUncompressedState =
    BROTLI_STATE_UNCOMPRESSED_NONE
  | BROTLI_STATE_UNCOMPRESSED_WRITE

datatype BrotliRunningTreeGroupState =
    BROTLI_STATE_TREE_GROUP_NONE
  | BROTLI_STATE_TREE_GROUP_LOOP

datatype BrotliRunningContextMapState =
    BROTLI_STATE_CONTEXT_MAP_NONE
  | BROTLI_STATE_CONTEXT_MAP_READ_PREFIX
  | BROTLI_STATE_CONTEXT_MAP_HUFFMAN
  | BROTLI_STATE_CONTEXT_MAP_DECODE
  | BROTLI_STATE_CONTEXT_MAP_TRANSFORM

datatype BrotliRunningHuffmanState =
    BROTLI_STATE_HUFFMAN_NONE
  | BROTLI_STATE_HUFFMAN_SIMPLE_SIZE
  | BROTLI_STATE_HUFFMAN_SIMPLE_READ
  | BROTLI_STATE_HUFFMAN_SIMPLE_BUILD
  | BROTLI_STATE_HUFFMAN_COMPLEX
  | BROTLI_STATE_HUFFMAN_LENGTH_SYMBOLS

datatype BrotliRunningDecodeUint8State =
    BROTLI_STATE_DECODE_UINT8_NONE
  | BROTLI_STATE_DECODE_UINT8_SHORT
  | BROTLI_STATE_DECODE_UINT8_LONG

datatype BrotliRunningReadBlockLengthState =
    BROTLI_STATE_READ_BLOCK_LENGTH_NONE
  | BROTLI_STATE_READ_BLOCK_LENGTH_SUFFIX

fun BrotliDecoderErrorStr :: "BrotliDecoderErrorCode \<Rightarrow> string" where
  "BrotliDecoderErrorStr BROTLI_DECODER_NO_ERROR = ''NO_ERROR'' @ [CHR 0x00]"
| "BrotliDecoderErrorStr BROTLI_DECODER_SUCCESS = ''SUCCESS'' @ [CHR 0x00]"
| "BrotliDecoderErrorStr BROTLI_DECODER_NEEDS_MORE_INPUT = ''NEEDS_MORE_INPUT'' @ [CHR 0x00]"
| "BrotliDecoderErrorStr BROTLI_DECODER_NEEDS_MORE_OUTPUT = ''NEEDS_MORE_OUTPUT'' @ [CHR 0x00]"
| "BrotliDecoderErrorStr BROTLI_DECODER_ERROR_FORMAT_EXUBERANT_NIBBLE = ''ERROR_FORMAT_EXUBERANT_NIBBLE'' @ [CHR 0x00]"
| "BrotliDecoderErrorStr BROTLI_DECODER_ERROR_FORMAT_RESERVED = ''ERROR_FORMAT_RESERVED'' @ [CHR 0x00]"
| "BrotliDecoderErrorStr BROTLI_DECODER_ERROR_FORMAT_EXUBERANT_META_NIBBLE = ''ERROR_FORMAT_EXUBERANT_META_NIBBLE'' @ [CHR 0x00]"
| "BrotliDecoderErrorStr BROTLI_DECODER_ERROR_FORMAT_SIMPLE_HUFFMAN_ALPHABET = ''ERROR_FORMAT_SIMPLE_HUFFMAN_ALPHABET'' @ [CHR 0x00]"
| "BrotliDecoderErrorStr BROTLI_DECODER_ERROR_FORMAT_SIMPLE_HUFFMAN_SAME = ''ERROR_FORMAT_SIMPLE_HUFFMAN_SAME'' @ [CHR 0x00]"
| "BrotliDecoderErrorStr BROTLI_DECODER_ERROR_FORMAT_CL_SPACE = ''ERROR_FORMAT_FL_SPACE'' @ [CHR 0x00]"
| "BrotliDecoderErrorStr BROTLI_DECODER_ERROR_FORMAT_HUFFMAN_SPACE = ''ERROR_FORMAT_HUFFMAN_SPACE'' @ [CHR 0x00]"
| "BrotliDecoderErrorStr BROTLI_DECODER_ERROR_FORMAT_CONTEXT_MAP_REPEAT = ''ERROR_FORMAT_CONTEXT_MAP_REPEAT'' @ [CHR 0x00]"
| "BrotliDecoderErrorStr BROTLI_DECODER_ERROR_FORMAT_BLOCK_LENGTH_1 = ''ERROR_FORMAT_BLOCK_LENGTH_1'' @ [CHR 0x00]"
| "BrotliDecoderErrorStr BROTLI_DECODER_ERROR_FORMAT_BLOCK_LENGTH_2 = ''ERROR_FORMAT_BLOCK_LENGTH_2'' @ [CHR 0x00]"
| "BrotliDecoderErrorStr BROTLI_DECODER_ERROR_FORMAT_TRANSFORM = ''ERROR_FORMAT_TRANSFORM'' @ [CHR 0x00]"
| "BrotliDecoderErrorStr BROTLI_DECODER_ERROR_FORMAT_DICTIONARY = ''ERROR_FORMAT_DICTIONARY'' @ [CHR 0x00]"
| "BrotliDecoderErrorStr BROTLI_DECODER_ERROR_FORMAT_WINDOW_BITS = ''ERROR_FORMAT_WINDOW_BITS'' @ [CHR 0x00]"
| "BrotliDecoderErrorStr BROTLI_DECODER_ERROR_FORMAT_PADDING_1 = ''ERROR_FORMAT_PADDING_1'' @ [CHR 0x00]"
| "BrotliDecoderErrorStr BROTLI_DECODER_ERROR_FORMAT_PADDING_2 = ''ERROR_FORMAT_PADDING_2'' @ [CHR 0x00]"
| "BrotliDecoderErrorStr BROTLI_DECODER_ERROR_FORMAT_DISTANCE = ''ERROR_FORMAT_DISTANCE'' @ [CHR 0x00]"
| "BrotliDecoderErrorStr BROTLI_DECODER_ERROR_DICTIONARY_NOT_SET = ''ERROR_DICTIONARY_NOT_SET'' @ [CHR 0x00]"
| "BrotliDecoderErrorStr BROTLI_DECODER_ERROR_INVALID_ARGUMENTS = ''ERROR_INVALID_ARGUMENTS'' @ [CHR 0x00]"
| "BrotliDecoderErrorStr BROTLI_DECODER_ERROR_ALLOC_CONTEXT_MODES = ''ERROR_ALLOC_CONTEXT_MODES'' @ [CHR 0x00]"
| "BrotliDecoderErrorStr BROTLI_DECODER_ERROR_ALLOC_TREE_GROUPS = ''ERROR_ALLOC_TREE_GROUPS'' @ [CHR 0x00]"
| "BrotliDecoderErrorStr BROTLI_DECODER_ERROR_ALLOC_CONTEXT_MAP = ''ERROR_ALLOC_CONTEXT_MAP'' @ [CHR 0x00]"
| "BrotliDecoderErrorStr BROTLI_DECODER_ERROR_ALLOC_RING_BUFFER_1 = ''ERROR_ALLOC_RING_BUFFER_1'' @ [CHR 0x00]"
| "BrotliDecoderErrorStr BROTLI_DECODER_ERROR_ALLOC_RING_BUFFER_2 = ''ERROR_ALLOC_RING_BUFFER_2'' @ [CHR 0x00]"
| "BrotliDecoderErrorStr BROTLI_DECODER_ERROR_ALLOC_BLOCK_TYPE_TREES = ''ERROR_ALLOC_BLOCK_TYPE_TREES'' @ [CHR 0x00]"
| "BrotliDecoderErrorStr BROTLI_DECODER_ERROR_UNREACHABLE = ''ERROR_UNREACHABLE'' @ [CHR 0x00]"

datatype BrotliResult = ResultSuccess | NeedsMoreInput | NeedsMoreOutput | ResultFailure

text \<open>Rust's \<open>Result\<close>.\<close>

datatype ('a, 'e) Result = Ok 'a | Err 'e

subsection \<open>The state\<close>

record BlockTypeAndLengthState =
  bt_substate_read_block_length :: BrotliRunningReadBlockLengthState
  bt_num_block_types :: "u32 list"
  bt_block_length_index :: u32
  bt_block_length :: "u32 list"
  bt_block_type_trees :: "HuffmanCode list"
  bt_block_len_trees :: "HuffmanCode list"
  bt_block_type_rb :: "u32 list"

text \<open>
  The allocators are functions from a length to fresh memory. \<open>context_lookup\<close> is a reference to
  one of the four tables of \<open>kContextLookup\<close>.
\<close>

record BrotliState =
  s_state :: BrotliRunningState
  s_loop_counter :: int
  s_br :: BrotliBitReader
  s_alloc_u8 :: "nat \<Rightarrow> u8 list"
  s_alloc_u32 :: "nat \<Rightarrow> u32 list"
  s_alloc_hc :: "nat \<Rightarrow> HuffmanCode list"
  s_buffer :: "u8 list"
  s_buffer_length :: u32
  s_pos :: int
  s_max_backward_distance :: int
  s_max_backward_distance_minus_custom_dict_size :: int
  s_max_distance :: int
  s_ringbuffer_size :: int
  s_ringbuffer_mask :: int
  s_dist_rb_idx :: int
  s_dist_rb :: "int list"
  s_ringbuffer :: "u8 list"
  s_htree_command_index :: u16
  s_context_lookup :: "u8 list"
  s_context_map_slice_index :: nat
  s_dist_context_map_slice_index :: nat
  s_sub_loop_counter :: u32
  s_literal_hgroup :: HuffmanTreeGroup
  s_insert_copy_hgroup :: HuffmanTreeGroup
  s_distance_hgroup :: HuffmanTreeGroup
  s_trivial_literal_context :: int
  s_distance_context :: int
  s_meta_block_remaining_len :: int
  s_block_type_length_state :: BlockTypeAndLengthState
  s_distance_postfix_bits :: u32
  s_num_direct_distance_codes :: u32
  s_distance_postfix_mask :: int
  s_num_dist_htrees :: u32
  s_dist_context_map :: "u8 list"
  s_literal_htree_index :: u8
  s_dist_htree_index :: u8
  s_large_window :: bool
  s_canny_ringbuffer_allocation :: bool
  s_should_wrap_ringbuffer :: bool
  s_error_code :: BrotliDecoderErrorCode
  s_repeat_code_len :: u32
  s_prev_code_len :: u32
  s_copy_length :: int
  s_distance_code :: int
  s_rb_roundtrips :: nat
  s_partial_pos_out :: nat
  s_symbol :: u32
  s_repeat :: u32
  s_space :: u32
  s_table :: "HuffmanCode list"
  s_symbol_lists_index :: nat
  s_symbols_lists_array :: "u16 list"
  s_next_symbol :: "int list"
  s_code_length_code_lengths :: "u8 list"
  s_code_length_histo :: "u16 list"
  s_htree_index :: int
  s_htree_next_offset :: u32
  s_context_index :: u32
  s_max_run_length_prefix :: u32
  s_code :: u32
  s_context_map_table :: "HuffmanCode list"
  s_mtf_upper_bound :: u32
  s_mtf_or_error_string :: "(u8 list, u8 list) Result"
  s_custom_dict :: "u8 list"
  s_custom_dict_size :: int
  s_custom_dict_avoid_context_seed :: bool
  s_substate_metablock_header :: BrotliRunningMetablockHeaderState
  s_substate_tree_group :: BrotliRunningTreeGroupState
  s_substate_context_map :: BrotliRunningContextMapState
  s_substate_uncompressed :: BrotliRunningUncompressedState
  s_substate_huffman :: BrotliRunningHuffmanState
  s_substate_decode_uint8 :: BrotliRunningDecodeUint8State
  s_is_last_metablock :: u8
  s_is_uncompressed :: u8
  s_is_metadata :: u8
  s_size_nibbles :: u8
  s_window_bits :: u32
  s_num_literal_htrees :: u32
  s_context_map :: "u8 list"
  s_context_modes :: "u8 list"
  s_trivial_literal_contexts :: "u32 list"

subsection \<open>Creating a state\<close>

definition make_brotli_state ::
  "(nat \<Rightarrow> u8 list) \<Rightarrow> (nat \<Rightarrow> u32 list) \<Rightarrow> (nat \<Rightarrow> HuffmanCode list) \<Rightarrow> u8 list \<Rightarrow> nat \<Rightarrow> BrotliState" where
  "make_brotli_state alloc_u8 alloc_u32 alloc_hc custom_dict custom_dict_len = \<lparr>
    s_state = BROTLI_STATE_UNINITED,
    s_loop_counter = 0,
    s_br = BrotliBitReader_default,
    s_alloc_u8 = alloc_u8,
    s_alloc_u32 = alloc_u32,
    s_alloc_hc = alloc_hc,
    s_buffer = replicate 8 0,
    s_buffer_length = 0,
    s_pos = 0,
    s_max_backward_distance = 0,
    s_max_backward_distance_minus_custom_dict_size = 0,
    s_max_distance = 0,
    s_ringbuffer_size = 0,
    s_ringbuffer_mask = 0,
    s_dist_rb_idx = 0,
    s_dist_rb = [16, 15, 11, 4],
    s_ringbuffer = [],
    s_htree_command_index = 0,
    s_context_lookup = kContextLookup ! 0,
    s_context_map_slice_index = 0,
    s_dist_context_map_slice_index = 0,
    s_sub_loop_counter = 0,
    s_literal_hgroup = HuffmanTreeGroup_default,
    s_insert_copy_hgroup = HuffmanTreeGroup_default,
    s_distance_hgroup = HuffmanTreeGroup_default,
    s_trivial_literal_context = 0,
    s_distance_context = 0,
    s_meta_block_remaining_len = 0,
    s_block_type_length_state = \<lparr>bt_substate_read_block_length = BROTLI_STATE_READ_BLOCK_LENGTH_NONE,
       bt_num_block_types = replicate 3 0, bt_block_length_index = 0, bt_block_length = replicate 3 0,
       bt_block_type_trees = [], bt_block_len_trees = [], bt_block_type_rb = replicate 6 0\<rparr>,
    s_distance_postfix_bits = 0,
    s_num_direct_distance_codes = 0,
    s_distance_postfix_mask = 0,
    s_num_dist_htrees = 0,
    s_dist_context_map = [],
    s_literal_htree_index = 0,
    s_dist_htree_index = 0,
    s_large_window = False,
    s_canny_ringbuffer_allocation = True,
    s_should_wrap_ringbuffer = False,
    s_error_code = BROTLI_DECODER_SUCCESS,
    s_repeat_code_len = 0,
    s_prev_code_len = 0,
    s_copy_length = 0,
    s_distance_code = 0,
    s_rb_roundtrips = 0,
    s_partial_pos_out = 0,
    s_symbol = 0,
    s_repeat = 0,
    s_space = 0,
    s_table = replicate 32 HuffmanCode_default,
    s_symbol_lists_index = nat (BROTLI_HUFFMAN_MAX_CODE_LENGTH + 1),
    s_symbols_lists_array = replicate (nat (BROTLI_HUFFMAN_MAX_CODE_LENGTH + 1) + BROTLI_HUFFMAN_MAX_CODE_LENGTHS_SIZE) 0,
    s_next_symbol = replicate 32 0,
    s_code_length_code_lengths = replicate 18 0,
    s_code_length_histo = replicate 16 0,
    s_htree_index = 0,
    s_htree_next_offset = 0,
    s_context_index = 0,
    s_max_run_length_prefix = 0,
    s_code = 0,
    s_context_map_table = [],
    s_mtf_upper_bound = 255,
    s_mtf_or_error_string = Ok (replicate 256 0),
    s_custom_dict = custom_dict,
    s_custom_dict_size = int custom_dict_len,
    s_custom_dict_avoid_context_seed = (custom_dict_len \<noteq> 0),
    s_substate_metablock_header = BROTLI_STATE_METABLOCK_HEADER_NONE,
    s_substate_tree_group = BROTLI_STATE_TREE_GROUP_NONE,
    s_substate_context_map = BROTLI_STATE_CONTEXT_MAP_NONE,
    s_substate_uncompressed = BROTLI_STATE_UNCOMPRESSED_NONE,
    s_substate_huffman = BROTLI_STATE_HUFFMAN_NONE,
    s_substate_decode_uint8 = BROTLI_STATE_DECODE_UINT8_NONE,
    s_is_last_metablock = 0,
    s_is_uncompressed = 0,
    s_is_metadata = 0,
    s_size_nibbles = 0,
    s_window_bits = 0,
    s_num_literal_htrees = 0,
    s_context_map = [],
    s_context_modes = [],
    s_trivial_literal_contexts = replicate 8 0\<rparr>"

text \<open>The three constructors differ in the custom dictionary and in \<open>large_window\<close>.\<close>

definition BrotliState_new ::
  "(nat \<Rightarrow> u8 list) \<Rightarrow> (nat \<Rightarrow> u32 list) \<Rightarrow> (nat \<Rightarrow> HuffmanCode list) \<Rightarrow> BrotliState" where
  "BrotliState_new alloc_u8 alloc_u32 alloc_hc =
    (let retval = make_brotli_state alloc_u8 alloc_u32 alloc_hc [] 0;
         retval = retval\<lparr>s_large_window := True\<rparr>;
         retval = retval\<lparr>s_context_map_table := s_alloc_hc retval BROTLI_HUFFMAN_MAX_TABLE_SIZE\<rparr>
     in retval\<lparr>s_br := BrotliInitBitReader (s_br retval)\<rparr>)"

definition BrotliState_new_with_custom_dictionary ::
  "(nat \<Rightarrow> u8 list) \<Rightarrow> (nat \<Rightarrow> u32 list) \<Rightarrow> (nat \<Rightarrow> HuffmanCode list) \<Rightarrow> u8 list \<Rightarrow> BrotliState" where
  "BrotliState_new_with_custom_dictionary alloc_u8 alloc_u32 alloc_hc custom_dict =
    (let custom_dict_len = length custom_dict;
         retval = make_brotli_state alloc_u8 alloc_u32 alloc_hc custom_dict custom_dict_len;
         retval = retval\<lparr>s_context_map_table := s_alloc_hc retval BROTLI_HUFFMAN_MAX_TABLE_SIZE\<rparr>;
         retval = retval\<lparr>s_large_window := True\<rparr>
     in retval\<lparr>s_br := BrotliInitBitReader (s_br retval)\<rparr>)"

definition BrotliState_new_strict ::
  "(nat \<Rightarrow> u8 list) \<Rightarrow> (nat \<Rightarrow> u32 list) \<Rightarrow> (nat \<Rightarrow> HuffmanCode list) \<Rightarrow> BrotliState" where
  "BrotliState_new_strict alloc_u8 alloc_u32 alloc_hc =
    (let retval = make_brotli_state alloc_u8 alloc_u32 alloc_hc [] 0;
         retval = retval\<lparr>s_context_map_table := s_alloc_hc retval BROTLI_HUFFMAN_MAX_TABLE_SIZE\<rparr>;
         retval = retval\<lparr>s_large_window := False\<rparr>
     in retval\<lparr>s_br := BrotliInitBitReader (s_br retval)\<rparr>)"

subsection \<open>Metablocks and cleanup\<close>

text \<open>
  The arrays written here are Rust arrays of fixed size, \<open>[u32; 3]\<close> and \<open>[u32; 6]\<close>, all of whose
  entries are assigned.
\<close>

definition BrotliStateMetablockBegin :: "BrotliState \<Rightarrow> BrotliState" where
  "BrotliStateMetablockBegin self =
     self\<lparr>s_meta_block_remaining_len := 0,
          s_block_type_length_state := (s_block_type_length_state self)\<lparr>
            bt_block_length := [push_bit 24 1, push_bit 24 1, push_bit 24 1],
            bt_num_block_types := [1, 1, 1],
            bt_block_type_rb := [1, 0, 1, 0, 1, 0]\<rparr>,
          s_context_map := [],
          s_context_modes := [],
          s_dist_context_map := [],
          s_context_map_slice_index := 0,
          s_literal_htree_index := 0,
          s_dist_context_map_slice_index := 0,
          s_dist_htree_index := 0,
          s_context_lookup := kContextLookup ! 0,
          s_literal_hgroup := HuffmanTreeGroup_reset (s_literal_hgroup self),
          s_insert_copy_hgroup := HuffmanTreeGroup_reset (s_insert_copy_hgroup self),
          s_distance_hgroup := HuffmanTreeGroup_reset (s_distance_hgroup self)\<rparr>"

definition BrotliStateCleanupAfterMetablock :: "BrotliState \<Rightarrow> BrotliState" where
  "BrotliStateCleanupAfterMetablock self =
     self\<lparr>s_context_map := [],
          s_context_modes := [],
          s_dist_context_map := [],
          s_literal_hgroup := HuffmanTreeGroup_reset (s_literal_hgroup self),
          s_insert_copy_hgroup := HuffmanTreeGroup_reset (s_insert_copy_hgroup self),
          s_distance_hgroup := HuffmanTreeGroup_reset (s_distance_hgroup self)\<rparr>"

text \<open>Also the body of \<open>drop\<close>.\<close>

definition BrotliStateCleanup :: "BrotliState \<Rightarrow> BrotliState" where
  "BrotliStateCleanup self =
    (let self = BrotliStateCleanupAfterMetablock self
     in self\<lparr>s_ringbuffer := [],
             s_block_type_length_state := (s_block_type_length_state self)\<lparr>
               bt_block_type_trees := [], bt_block_len_trees := []\<rparr>,
             s_context_map_table := [],
             s_custom_dict := []\<rparr>)"

definition BrotliStateIsStreamStart :: "BrotliState \<Rightarrow> bool" where
  "BrotliStateIsStreamStart self =
    (case s_state self of
       BROTLI_STATE_UNINITED \<Rightarrow> BrotliGetAvailableBits (s_br self) = 0
     | _ \<Rightarrow> False)"

definition BrotliStateIsStreamEnd :: "BrotliState \<Rightarrow> bool" where
  "BrotliStateIsStreamEnd self = (case s_state self of BROTLI_STATE_DONE \<Rightarrow> True | _ \<Rightarrow> False)"

fun BrotliHuffmanTreeGroupInit :: "BrotliState \<Rightarrow> WhichTreeGroup \<Rightarrow> u16 \<Rightarrow> u16 \<Rightarrow> u16 \<Rightarrow> BrotliState" where
  "BrotliHuffmanTreeGroupInit self LITERAL alphabet_size max_symbol ntrees =
     self\<lparr>s_literal_hgroup := HuffmanTreeGroup_init (s_literal_hgroup self) (s_alloc_u32 self)
            (s_alloc_hc self) alphabet_size max_symbol ntrees\<rparr>"
| "BrotliHuffmanTreeGroupInit self INSERT_COPY alphabet_size max_symbol ntrees =
     self\<lparr>s_insert_copy_hgroup := HuffmanTreeGroup_init (s_insert_copy_hgroup self) (s_alloc_u32 self)
            (s_alloc_hc self) alphabet_size max_symbol ntrees\<rparr>"
| "BrotliHuffmanTreeGroupInit self DISTANCE alphabet_size max_symbol ntrees =
     self\<lparr>s_distance_hgroup := HuffmanTreeGroup_init (s_distance_hgroup self) (s_alloc_u32 self)
            (s_alloc_hc self) alphabet_size max_symbol ntrees\<rparr>"

fun BrotliHuffmanTreeGroupRelease :: "BrotliState \<Rightarrow> WhichTreeGroup \<Rightarrow> BrotliState" where
  "BrotliHuffmanTreeGroupRelease self LITERAL =
     self\<lparr>s_literal_hgroup := HuffmanTreeGroup_reset (s_literal_hgroup self)\<rparr>"
| "BrotliHuffmanTreeGroupRelease self INSERT_COPY =
     self\<lparr>s_insert_copy_hgroup := HuffmanTreeGroup_reset (s_insert_copy_hgroup self)\<rparr>"
| "BrotliHuffmanTreeGroupRelease self DISTANCE =
     self\<lparr>s_distance_hgroup := HuffmanTreeGroup_reset (s_distance_hgroup self)\<rparr>"

subsection \<open>Error codes and results\<close>

text \<open>From \<open>src/decode.rs\<close>: \<open>is_fatal\<close>, and the macros that record an error code in the state.\<close>

definition is_fatal :: "BrotliDecoderErrorCode \<Rightarrow> bool" where
  "is_fatal e \<longleftrightarrow> error_code_value e < 0"

fun result_of_error_code :: "BrotliDecoderErrorCode \<Rightarrow> BrotliResult" where
  "result_of_error_code BROTLI_DECODER_SUCCESS = ResultSuccess"
| "result_of_error_code BROTLI_DECODER_NEEDS_MORE_INPUT = NeedsMoreInput"
| "result_of_error_code BROTLI_DECODER_NEEDS_MORE_OUTPUT = NeedsMoreOutput"
| "result_of_error_code _ = ResultFailure"

definition SaveErrorCode :: "BrotliState \<Rightarrow> BrotliDecoderErrorCode \<Rightarrow> BrotliResult \<times> BrotliState" where
  "SaveErrorCode state e = (result_of_error_code e, state\<lparr>s_error_code := e\<rparr>)"

end
