(* ===== verification/Header.thy ===== *)
theory Header
  imports State
begin

text \<open>
  Decoding of the stream header and of the metablock headers, from \<open>src/decode.rs\<close>. A function that
  can run out of input keeps its position in a substate and is called again with more input; its
  loop over the substates is a recursive function here, which ends because every step leads to a
  later substate. The result is the error code and the changed variables.
\<close>

subsection \<open>Constants\<close>

definition kBrotliWindowGap :: u32 where
  [simp]: "kBrotliWindowGap = 16"

definition kBrotliLargeMinWbits :: u32 where
  [simp]: "kBrotliLargeMinWbits = 10"

definition kBrotliLargeMaxWbits :: u32 where
  [simp]: "kBrotliLargeMaxWbits = 30"

definition NUM_DISTANCE_SHORT_CODES :: u32 where
  [simp]: "NUM_DISTANCE_SHORT_CODES = 16"

definition BROTLI_MAX_DISTANCE_BITS :: u32 where
  [simp]: "BROTLI_MAX_DISTANCE_BITS = 24"

definition BROTLI_LARGE_MAX_DISTANCE_BITS :: u32 where
  [simp]: "BROTLI_LARGE_MAX_DISTANCE_BITS = 62"

definition BROTLI_DISTANCE_ALPHABET_SIZE :: "u32 \<Rightarrow> u32 \<Rightarrow> u32 \<Rightarrow> u32" where
  "BROTLI_DISTANCE_ALPHABET_SIZE NPOSTFIX NDIRECT MAXNBITS =
     NUM_DISTANCE_SHORT_CODES + NDIRECT + shl32 MAXNBITS (NPOSTFIX + 1)"

subsection \<open>Window bits\<close>

definition DecodeWindowBits ::
  "bool \<Rightarrow> u32 \<Rightarrow> BrotliBitReader \<Rightarrow> (BrotliDecoderErrorCode \<times> bool \<times> u32 \<times> BrotliBitReader) option" where
  "DecodeWindowBits large_window window_bits br = do {
     (n, br) \<leftarrow> BrotliTakeBits br 1;
     if n = 0 then Some (BROTLI_DECODER_SUCCESS, False, 16, br)
     else do {
       (n, br) \<leftarrow> BrotliTakeBits br 3;
       if n \<noteq> 0 then Some (BROTLI_DECODER_SUCCESS, False, 17 + n, br)
       else do {
         (n, br) \<leftarrow> BrotliTakeBits br 3;
         if n = 1 then
           if large_window then do {
             (n, br) \<leftarrow> BrotliTakeBits br 1;
             if n = 1 then Some (BROTLI_DECODER_ERROR_FORMAT_WINDOW_BITS, False, window_bits, br)
             else Some (BROTLI_DECODER_SUCCESS, True, window_bits, br)
           } else Some (BROTLI_DECODER_ERROR_FORMAT_WINDOW_BITS, False, window_bits, br)
         else if n \<noteq> 0 then Some (BROTLI_DECODER_SUCCESS, False, 8 + n, br)
         else Some (BROTLI_DECODER_SUCCESS, False, 17, br)
       }
     }
   }"

subsection \<open>Numbers of variable length\<close>

text \<open>
  \<open>DecodeVarLenUint8\<close> uses the output variable as temporary storage between two calls, so it is
  an argument and a result.
\<close>

function DecodeVarLenUint8 ::
  "BrotliRunningDecodeUint8State \<Rightarrow> BrotliBitReader \<Rightarrow> u32 \<Rightarrow> u8 list \<Rightarrow>
     (BrotliDecoderErrorCode \<times> BrotliRunningDecodeUint8State \<times> BrotliBitReader \<times> u32) option" where
  "DecodeVarLenUint8 BROTLI_STATE_DECODE_UINT8_NONE br value input = do {
     (ok, bits, br) \<leftarrow> BrotliSafeReadBits br 1 0 input;
     if \<not> ok then Some (BROTLI_DECODER_NEEDS_MORE_INPUT, BROTLI_STATE_DECODE_UINT8_NONE, br, value)
     else if bits = 0 then Some (BROTLI_DECODER_SUCCESS, BROTLI_STATE_DECODE_UINT8_NONE, br, 0)
     else DecodeVarLenUint8 BROTLI_STATE_DECODE_UINT8_SHORT br value input
   }"
| "DecodeVarLenUint8 BROTLI_STATE_DECODE_UINT8_SHORT br value input = do {
     (ok, bits, br) \<leftarrow> BrotliSafeReadBits br 3 0 input;
     if \<not> ok then Some (BROTLI_DECODER_NEEDS_MORE_INPUT, BROTLI_STATE_DECODE_UINT8_SHORT, br, value)
     else if bits = 0 then Some (BROTLI_DECODER_SUCCESS, BROTLI_STATE_DECODE_UINT8_NONE, br, 1)
     else DecodeVarLenUint8 BROTLI_STATE_DECODE_UINT8_LONG br bits input
   }"
| "DecodeVarLenUint8 BROTLI_STATE_DECODE_UINT8_LONG br value input = do {
     (ok, bits, br) \<leftarrow> BrotliSafeReadBits br value 0 input;
     if \<not> ok then Some (BROTLI_DECODER_NEEDS_MORE_INPUT, BROTLI_STATE_DECODE_UINT8_LONG, br, value)
     else Some (BROTLI_DECODER_SUCCESS, BROTLI_STATE_DECODE_UINT8_NONE, br, shl32 1 value + bits)
   }"
  by pat_completeness auto
termination
  by (relation "measure (\<lambda>(st, br, value, input). case st of
        BROTLI_STATE_DECODE_UINT8_NONE \<Rightarrow> 2
      | BROTLI_STATE_DECODE_UINT8_SHORT \<Rightarrow> 1
      | BROTLI_STATE_DECODE_UINT8_LONG \<Rightarrow> 0)") auto

subsection \<open>The metablock header\<close>

text \<open>\<open>BrotliSafeReadBits(&mut s.br, n_bits, &mut bits, input)\<close> with a fresh variable \<open>bits\<close>.\<close>

definition read_bits :: "BrotliState \<Rightarrow> u32 \<Rightarrow> u8 list \<Rightarrow> (bool \<times> u32 \<times> BrotliState) option" where
  "read_bits s n_bits input = do {
     (ok, bits, br) \<leftarrow> BrotliSafeReadBits (s_br s) n_bits 0 input;
     Some (ok, bits, s\<lparr>s_br := br\<rparr>)
   }"

text \<open>
  The two loops that read the length of a metablock in nibbles and the length of metadata in
  bytes. They return an error code, or none if the loop ended.
\<close>

function read_size_nibbles ::
  "BrotliState \<Rightarrow> int \<Rightarrow> u8 list \<Rightarrow> (BrotliDecoderErrorCode option \<times> BrotliState) option" where
  "read_size_nibbles s i input =
    (if i < uint (s_size_nibbles s) then do {
       (ok, bits, s') \<leftarrow> read_bits s 4 input;
       if \<not> ok then Some (Some BROTLI_DECODER_NEEDS_MORE_INPUT, s'\<lparr>s_loop_counter := i\<rparr>)
       else if i + 1 = uint (s_size_nibbles s) \<and> s_size_nibbles s > 4 \<and> bits = 0
       then Some (Some BROTLI_DECODER_ERROR_FORMAT_EXUBERANT_NIBBLE, s')
       else read_size_nibbles
         (s'\<lparr>s_meta_block_remaining_len :=
               s_meta_block_remaining_len s' OR sint (shl32 bits (u32_of_i32 (i * 4)))\<rparr>) (i + 1) input
     } else Some (None, s))"
  by pat_completeness auto
termination
  by (relation "measure (\<lambda>(s, i, input). nat (uint (s_size_nibbles s) - i))")
     (auto simp: read_bits_def split: bind_splits)

function read_metadata_size ::
  "BrotliState \<Rightarrow> int \<Rightarrow> u8 list \<Rightarrow> (BrotliDecoderErrorCode option \<times> BrotliState) option" where
  "read_metadata_size s i input =
    (if i < uint (s_size_nibbles s) then do {
       (ok, bits, s') \<leftarrow> read_bits s 8 input;
       if \<not> ok then Some (Some BROTLI_DECODER_NEEDS_MORE_INPUT, s'\<lparr>s_loop_counter := i\<rparr>)
       else if i + 1 = uint (s_size_nibbles s) \<and> s_size_nibbles s > 1 \<and> bits = 0
       then Some (Some BROTLI_DECODER_ERROR_FORMAT_EXUBERANT_META_NIBBLE, s')
       else read_metadata_size
         (s'\<lparr>s_meta_block_remaining_len :=
               s_meta_block_remaining_len s' OR sint (shl32 bits (u32_of_i32 (i * 8)))\<rparr>) (i + 1) input
     } else Some (None, s))"
  by pat_completeness auto
termination
  by (relation "measure (\<lambda>(s, i, input). nat (uint (s_size_nibbles s) - i))")
     (auto simp: read_bits_def split: bind_splits)

declare read_size_nibbles.simps [simp del] read_metadata_size.simps [simp del]

fun metablock_header_rank :: "BrotliRunningMetablockHeaderState \<Rightarrow> nat" where
  "metablock_header_rank BROTLI_STATE_METABLOCK_HEADER_NONE = 7"
| "metablock_header_rank BROTLI_STATE_METABLOCK_HEADER_EMPTY = 6"
| "metablock_header_rank BROTLI_STATE_METABLOCK_HEADER_NIBBLES = 5"
| "metablock_header_rank BROTLI_STATE_METABLOCK_HEADER_RESERVED = 4"
| "metablock_header_rank BROTLI_STATE_METABLOCK_HEADER_BYTES = 3"
| "metablock_header_rank BROTLI_STATE_METABLOCK_HEADER_METADATA = 2"
| "metablock_header_rank BROTLI_STATE_METABLOCK_HEADER_SIZE = 1"
| "metablock_header_rank BROTLI_STATE_METABLOCK_HEADER_UNCOMPRESSED = 0"

function DecodeMetaBlockLength ::
  "BrotliState \<Rightarrow> u8 list \<Rightarrow> (BrotliDecoderErrorCode \<times> BrotliState) option" where
  "DecodeMetaBlockLength s input = (case s_substate_metablock_header s of
     BROTLI_STATE_METABLOCK_HEADER_NONE \<Rightarrow> do {
       (ok, bits, s) \<leftarrow> read_bits s 1 input;
       if \<not> ok then Some (BROTLI_DECODER_NEEDS_MORE_INPUT, s)
       else do {
         let s = s\<lparr>s_is_last_metablock := ucast bits, s_meta_block_remaining_len := 0,
                   s_is_uncompressed := 0, s_is_metadata := 0\<rparr>;
         if s_is_last_metablock s = 0
         then DecodeMetaBlockLength
           (s\<lparr>s_substate_metablock_header := BROTLI_STATE_METABLOCK_HEADER_NIBBLES\<rparr>) input
         else DecodeMetaBlockLength
           (s\<lparr>s_substate_metablock_header := BROTLI_STATE_METABLOCK_HEADER_EMPTY\<rparr>) input
       }
     }
   | BROTLI_STATE_METABLOCK_HEADER_EMPTY \<Rightarrow> do {
       (ok, bits, s) \<leftarrow> read_bits s 1 input;
       if \<not> ok then Some (BROTLI_DECODER_NEEDS_MORE_INPUT, s)
       else if bits \<noteq> 0
       then Some (BROTLI_DECODER_SUCCESS,
                  s\<lparr>s_substate_metablock_header := BROTLI_STATE_METABLOCK_HEADER_NONE\<rparr>)
       else DecodeMetaBlockLength
         (s\<lparr>s_substate_metablock_header := BROTLI_STATE_METABLOCK_HEADER_NIBBLES\<rparr>) input
     }
   | BROTLI_STATE_METABLOCK_HEADER_NIBBLES \<Rightarrow> do {
       (ok, bits, s) \<leftarrow> read_bits s 2 input;
       if \<not> ok then Some (BROTLI_DECODER_NEEDS_MORE_INPUT, s)
       else do {
         let s = s\<lparr>s_size_nibbles := ucast (bits + 4), s_loop_counter := 0\<rparr>;
         if bits = 3
         then DecodeMetaBlockLength
           (s\<lparr>s_is_metadata := 1,
              s_substate_metablock_header := BROTLI_STATE_METABLOCK_HEADER_RESERVED\<rparr>) input
         else DecodeMetaBlockLength
           (s\<lparr>s_substate_metablock_header := BROTLI_STATE_METABLOCK_HEADER_SIZE\<rparr>) input
       }
     }
   | BROTLI_STATE_METABLOCK_HEADER_SIZE \<Rightarrow> do {
       (err, s) \<leftarrow> read_size_nibbles s (s_loop_counter s) input;
       case err of
         Some e \<Rightarrow> Some (e, s)
       | None \<Rightarrow> DecodeMetaBlockLength
           (s\<lparr>s_substate_metablock_header := BROTLI_STATE_METABLOCK_HEADER_UNCOMPRESSED\<rparr>) input
     }
   | BROTLI_STATE_METABLOCK_HEADER_UNCOMPRESSED \<Rightarrow> do {
       (err, s) \<leftarrow>
         (if s_is_last_metablock s = 0 \<and> s_is_metadata s = 0 then do {
            (ok, bits, s) \<leftarrow> read_bits s 1 input;
            if \<not> ok then Some (True, s) else Some (False, s\<lparr>s_is_uncompressed := ucast bits\<rparr>)
          } else Some (False, s));
       if err then Some (BROTLI_DECODER_NEEDS_MORE_INPUT, s)
       else Some (BROTLI_DECODER_SUCCESS,
                  s\<lparr>s_meta_block_remaining_len := i32 (s_meta_block_remaining_len s + 1),
                    s_substate_metablock_header := BROTLI_STATE_METABLOCK_HEADER_NONE\<rparr>)
     }
   | BROTLI_STATE_METABLOCK_HEADER_RESERVED \<Rightarrow> do {
       (ok, bits, s) \<leftarrow> read_bits s 1 input;
       if \<not> ok then Some (BROTLI_DECODER_NEEDS_MORE_INPUT, s)
       else if bits \<noteq> 0 then Some (BROTLI_DECODER_ERROR_FORMAT_RESERVED, s)
       else DecodeMetaBlockLength
         (s\<lparr>s_substate_metablock_header := BROTLI_STATE_METABLOCK_HEADER_BYTES\<rparr>) input
     }
   | BROTLI_STATE_METABLOCK_HEADER_BYTES \<Rightarrow> do {
       (ok, bits, s) \<leftarrow> read_bits s 2 input;
       if \<not> ok then Some (BROTLI_DECODER_NEEDS_MORE_INPUT, s)
       else if bits = 0
       then Some (BROTLI_DECODER_SUCCESS,
                  s\<lparr>s_substate_metablock_header := BROTLI_STATE_METABLOCK_HEADER_NONE\<rparr>)
       else DecodeMetaBlockLength
         (s\<lparr>s_size_nibbles := ucast bits,
            s_substate_metablock_header := BROTLI_STATE_METABLOCK_HEADER_METADATA\<rparr>) input
     }
   | BROTLI_STATE_METABLOCK_HEADER_METADATA \<Rightarrow> do {
       (err, s) \<leftarrow> read_metadata_size s (s_loop_counter s) input;
       case err of
         Some e \<Rightarrow> Some (e, s)
       | None \<Rightarrow> DecodeMetaBlockLength
           (s\<lparr>s_substate_metablock_header := BROTLI_STATE_METABLOCK_HEADER_UNCOMPRESSED\<rparr>) input
     })"
  by pat_completeness auto
termination
  by (relation "measure (\<lambda>(s, input). metablock_header_rank (s_substate_metablock_header s))") auto

declare DecodeMetaBlockLength.simps [simp del]

end
