(* ===== verification/Symbol_Decoder.thy ===== *)
theory Symbol_Decoder
  imports Header
begin

text \<open>
  Decoding one symbol with a lookup table, from \<open>src/decode.rs\<close>. \<open>DecodeSymbol\<close> works on bits that
  were peeked before; \<open>ReadSymbol\<close> peeks them itself and needs input to be available;
  \<open>SafeReadSymbol\<close> works at the end of the input and fails if the symbol is not complete;
  \<open>ReadPreloadedSymbol\<close> is \<open>ReadSymbol\<close> with the first lookup done ahead.
\<close>

definition HUFFMAN_TABLE_BITS :: u32 where
  [simp]: "HUFFMAN_TABLE_BITS = 8"

definition HUFFMAN_TABLE_MASK :: u32 where
  [simp]: "HUFFMAN_TABLE_MASK = 0xff"

definition DecodeSymbol ::
  "u32 \<Rightarrow> HuffmanCode list \<Rightarrow> BrotliBitReader \<Rightarrow> (u32 \<times> BrotliBitReader) option" where
  "DecodeSymbol bits table br = do {
     let table_index = bits AND HUFFMAN_TABLE_MASK;
     table_element \<leftarrow> get table (unat table_index);
     if hc_bits table_element > ucast HUFFMAN_TABLE_BITS then do {
       let nbits = hc_bits table_element - ucast HUFFMAN_TABLE_BITS;
       let br = BrotliDropBits br HUFFMAN_TABLE_BITS;
       let table_index = table_index + ucast (hc_value table_element);
       mask \<leftarrow> BitMask (ucast nbits);
       table_element \<leftarrow> get table (unat (table_index + (shr32 bits HUFFMAN_TABLE_BITS AND mask)));
       Some (ucast (hc_value table_element), BrotliDropBits br (ucast (hc_bits table_element)))
     } else
       Some (ucast (hc_value table_element), BrotliDropBits br (ucast (hc_bits table_element)))
   }"

definition ReadSymbol ::
  "HuffmanCode list \<Rightarrow> BrotliBitReader \<Rightarrow> u8 list \<Rightarrow> (u32 \<times> BrotliBitReader) option" where
  "ReadSymbol table br input = do {
     (bits, br) \<leftarrow> BrotliGet16BitsUnmasked br input;
     DecodeSymbol bits table br
   }"

text \<open>The result parameter is written only on success.\<close>

definition SafeDecodeSymbol ::
  "HuffmanCode list \<Rightarrow> BrotliBitReader \<Rightarrow> u32 \<Rightarrow> (bool \<times> BrotliBitReader \<times> u32) option" where
  "SafeDecodeSymbol table br result =
    (let available_bits = BrotliGetAvailableBits br in
     if available_bits = 0 then do {
       e \<leftarrow> get table 0;
       if hc_bits e = 0 then Some (True, br, ucast (hc_value e)) else Some (False, br, result)
     } else do {
       let val = (ucast (BrotliGetBitsUnmasked br) :: u32);
       let table_index = unat (val AND HUFFMAN_TABLE_MASK);
       table_element \<leftarrow> get table table_index;
       if hc_bits table_element \<le> ucast HUFFMAN_TABLE_BITS then
         if ucast (hc_bits table_element) \<le> available_bits
         then Some (True, BrotliDropBits br (ucast (hc_bits table_element)), ucast (hc_value table_element))
         else Some (False, br, result)
       else if available_bits \<le> HUFFMAN_TABLE_BITS then Some (False, br, result)
       else do {
         mask \<leftarrow> BitMask (ucast (hc_bits table_element));
         let val = shr32 (val AND mask) HUFFMAN_TABLE_BITS;
         let available_bits = available_bits - HUFFMAN_TABLE_BITS;
         table_sub_element \<leftarrow> get table (table_index + unat (hc_value table_element) + unat val);
         if available_bits < ucast (hc_bits table_sub_element) then Some (False, br, result)
         else Some (True, BrotliDropBits br (HUFFMAN_TABLE_BITS + ucast (hc_bits table_sub_element)),
                    ucast (hc_value table_sub_element))
       }
     })"

definition SafeReadSymbol ::
  "HuffmanCode list \<Rightarrow> BrotliBitReader \<Rightarrow> u32 \<Rightarrow> u8 list \<Rightarrow> (bool \<times> BrotliBitReader \<times> u32) option" where
  "SafeReadSymbol table br result input = do {
     (ok, val, br) \<leftarrow> BrotliSafeGetBits br 15 0 input;
     if ok then do {
       (result, br) \<leftarrow> DecodeSymbol val table br;
       Some (True, br, result)
     } else SafeDecodeSymbol table br result
   }"

definition PreloadSymbol ::
  "bool \<Rightarrow> HuffmanCode list \<Rightarrow> BrotliBitReader \<Rightarrow> u32 \<Rightarrow> u32 \<Rightarrow> u8 list \<Rightarrow>
     (BrotliBitReader \<times> u32 \<times> u32) option" where
  "PreloadSymbol safe table br bits value input =
    (if safe then Some (br, bits, value)
     else do {
       (i, br) \<leftarrow> BrotliGetBits br HUFFMAN_TABLE_BITS input;
       table_element \<leftarrow> get table (unat i);
       Some (br, ucast (hc_bits table_element), ucast (hc_value table_element))
     })"

definition ReadPreloadedSymbol ::
  "HuffmanCode list \<Rightarrow> BrotliBitReader \<Rightarrow> u32 \<Rightarrow> u32 \<Rightarrow> u8 list \<Rightarrow>
     (u32 \<times> BrotliBitReader \<times> u32 \<times> u32) option" where
  "ReadPreloadedSymbol table br bits value input = do {
     (result, br) \<leftarrow>
       (if bits > HUFFMAN_TABLE_BITS then do {
          (val, br) \<leftarrow> BrotliGet16BitsUnmasked br input;
          let ext_index = (val AND HUFFMAN_TABLE_MASK) + value;
          mask \<leftarrow> BitMask (bits - HUFFMAN_TABLE_BITS);
          let br = BrotliDropBits br HUFFMAN_TABLE_BITS;
          let ext_index = ext_index + (shr32 val HUFFMAN_TABLE_BITS AND mask);
          ext \<leftarrow> get table (unat ext_index);
          Some (ucast (hc_value ext), BrotliDropBits br (ucast (hc_bits ext)))
        } else Some (value, BrotliDropBits br bits));
     (br, bits, value) \<leftarrow> PreloadSymbol False table br bits value input;
     Some (result, br, bits, value)
   }"

end
