(* ===== verification/Huffman_Codes.thy ===== *)
theory Huffman_Codes
  imports Huffman
begin

text \<open>
  Bit reversal, the loop that replicates a table entry, and canonical prefix codes: decoding by adjacent
  intervals of code words, and the loop that places the codes of a sorted list in a table.
\<close>

subsection \<open>Bit reversal\<close>

definition rev_bits :: "nat \<Rightarrow> nat \<Rightarrow> nat" where
  "rev_bits w n = horner_sum of_bool 2 (map (bit n) (rev [0..<w]))"

lemma bit_rev_bits: "bit (rev_bits w n) i \<longleftrightarrow> i < w \<and> bit n (w - 1 - i)"
  by (auto simp: rev_bits_def bit_horner_sum_bit_iff rev_nth)

lemma rev_bits_less: "rev_bits w n < 2 ^ w"
proof -
  have "take_bit w (rev_bits w n) = rev_bits w n"
    by (rule bit_eqI) (auto simp: bit_take_bit_iff bit_rev_bits)
  then show ?thesis by (metis take_bit_nat_less_exp)
qed

lemma bit_nat_less: "(n :: nat) < 2 ^ w \<Longrightarrow> bit n i \<Longrightarrow> i < w"
  by (metis bit_take_bit_iff take_bit_nat_eq_self)

lemma rev_bits_rev_bits: "n < 2 ^ w \<Longrightarrow> rev_bits w (rev_bits w n) = n"
  by (rule bit_eqI) (auto simp: bit_rev_bits dest: bit_nat_less)

text \<open>
  A number is in the interval of length \<open>2 ^ (w - l)\<close> above a multiple \<open>k\<close> of its length exactly if
  its reversal is congruent to the reversal of \<open>k\<close> modulo \<open>2 ^ l\<close>.
\<close>

lemma interval_drop_bit:
  assumes "2 ^ d dvd (k :: nat)"
  shows "k \<le> m \<and> m < k + 2 ^ d \<longleftrightarrow> drop_bit d m = drop_bit d k"
proof -
  from assms obtain q where q: "k = 2 ^ d * q" by blast
  have "q * 2 ^ d \<le> m \<and> m < Suc q * 2 ^ d \<longleftrightarrow> m div 2 ^ d = q"
    by (metis div_nat_eqI dividend_less_times_div div_times_less_eq_dividend mult.commute mult_Suc_right
        add.commute zero_less_numeral zero_less_power)
  then show ?thesis by (auto simp: q drop_bit_eq_div algebra_simps)
qed

lemma rev_bits_interval:
  assumes k: "2 ^ (w - l) dvd k" "k < 2 ^ w" and l: "l \<le> w" and i: "i < 2 ^ w"
  shows "i mod 2 ^ l = rev_bits w k \<longleftrightarrow> k \<le> rev_bits w i \<and> rev_bits w i < k + 2 ^ (w - l)"
proof -
  have zero: "\<not> bit k j" if "j < w - l" for j
    using k(1) that by (metis bit_push_bit_iff dvd_def mult.commute not_le push_bit_eq_mult)
  have "take_bit l i = rev_bits w k \<longleftrightarrow> drop_bit (w - l) (rev_bits w i) = drop_bit (w - l) k"
  proof
    assume a: "take_bit l i = rev_bits w k"
    show "drop_bit (w - l) (rev_bits w i) = drop_bit (w - l) k"
    proof (rule bit_eqI)
      fix j
      have "bit (take_bit l i) (l - 1 - j) = bit (rev_bits w k) (l - 1 - j)" by (simp add: a)
      then show "bit (drop_bit (w - l) (rev_bits w i)) j = bit (drop_bit (w - l) k) j"
        using l bit_nat_less [OF k(2), of "w - l + j"]
        by (cases "j < l") (auto simp: bit_drop_bit_eq bit_rev_bits bit_take_bit_iff)
    qed
  next
    assume a: "drop_bit (w - l) (rev_bits w i) = drop_bit (w - l) k"
    show "take_bit l i = rev_bits w k"
    proof (rule bit_eqI)
      fix j
      have "bit (drop_bit (w - l) (rev_bits w i)) (l - 1 - j) = bit (drop_bit (w - l) k) (l - 1 - j)"
        by (simp add: a)
      then show "bit (take_bit l i) j = bit (rev_bits w k) j"
        using l zero [of "w - 1 - j"]
        by (cases "j < l") (auto simp: bit_drop_bit_eq bit_rev_bits bit_take_bit_iff)
    qed
  qed
  then show ?thesis using interval_drop_bit [OF k(1)] by (simp add: take_bit_eq_mod)
qed

lemma rev_bits_less_power:
  assumes "2 ^ (w - l) dvd k" "l \<le> w"
  shows "rev_bits w k < 2 ^ l"
proof -
  have zero: "\<not> bit k j" if "j < w - l" for j
    using assms(1) that by (metis bit_push_bit_iff dvd_def mult.commute not_le push_bit_eq_mult)
  have "take_bit l (rev_bits w k) = rev_bits w k"
  proof (rule bit_eqI)
    fix j
    show "bit (take_bit l (rev_bits w k)) j = bit (rev_bits w k) j"
      using assms(2) zero [of "w - 1 - j"] by (cases "j < l") (auto simp: bit_take_bit_iff bit_rev_bits)
  qed
  then show ?thesis by (metis take_bit_nat_less_exp)
qed

definition rev8_int :: "int \<Rightarrow> int" where
  "rev8_int n = horner_sum of_bool 2 (map (bit n) [7, 6, 5, 4, 3, 2, 1, 0])"

lemma kReverseBits_rev8_int: "kReverseBits = map (\<lambda>n. word_of_int (rev8_int n)) [0..255]"
  by code_simp

lemma rev_bits_int: "int (rev_bits 8 n) = rev8_int (int n)"
proof -
  have "int (horner_sum of_bool 2 bs) = horner_sum of_bool 2 bs" for bs
    by (induction bs) simp_all
  moreover have "rev [0..<8] = [7, 6, 5, 4, 3, 2, 1, 0 :: nat]" by (simp add: upt_rec)
  ultimately show ?thesis
    by (simp only: rev_bits_def rev8_int_def list.map bit_of_nat_iff_bit)
qed

lemma kReverseBits_nth:
  assumes "n < 256"
  shows "kReverseBits ! n = of_nat (rev_bits 8 n)"
proof -
  have "kReverseBits ! n = word_of_int (rev8_int (int n))"
    using assms by (simp add: kReverseBits_rev8_int)
  also have "\<dots> = of_nat (rev_bits 8 n)" by (simp flip: rev_bits_int)
  finally show ?thesis .
qed

lemma length_kReverseBits: "length kReverseBits = 256"
  by (simp add: kReverseBits_rev8_int)

lemma BrotliReverseBits_rev_bits:
  assumes "unat k < 256"
  shows "BrotliReverseBits k = Some (of_nat (rev_bits 8 (unat k)))"
proof -
  have "rev_bits 8 (unat k) < 2 ^ 8" by (rule rev_bits_less)
  then have "(ucast (of_nat (rev_bits 8 (unat k)) :: u8) :: u32) = of_nat (rev_bits 8 (unat k))"
    by (simp add: unsigned_of_nat take_bit_nat_eq_self)
  then show ?thesis
    using assms by (simp add: BrotliReverseBits_def kReverseBits_nth length_kReverseBits slice_simps)
qed

subsection \<open>Replication\<close>

lemma ReplicateValue_at:
  assumes "0 < m" "0 < step" "int m * step < 2 ^ 31"
    and "unat off + (m - 1) * nat step < length table"
  shows "\<exists>table'. ReplicateValue table off step (int m * step) code = Some table' \<and>
    length table' = length table \<and>
    (\<forall>i < length table. table' ! i =
      (if unat off \<le> i \<and> i < unat off + m * nat step \<and> nat step dvd i - unat off then code
       else table ! i))"
  using assms
proof (induction m arbitrary: table)
  case (Suc m)
  have bounds: "0 \<le> int m * step" "int m * step < 2147483648"
    using Suc.prems(2,3) by (auto simp: algebra_simps)
  then have e: "i32 (int (Suc m) * step - step) = int m * step"
    by (simp add: algebra_simps)
  have u: "usize_of_i32 (int m * step) = m * nat step"
    using bounds Suc.prems(2) by (simp add: nat_mult_distrib)
  let ?t = "table[unat off + m * nat step := code]"
  have put: "put table (unat off + m * nat step) code = Some ?t"
    using Suc.prems(4) by (simp add: slice_simps)
  have ix: "i < unat off + Suc m * nat step \<and> nat step dvd i - unat off \<longleftrightarrow>
      i = unat off + m * nat step \<or> i < unat off + m * nat step \<and> nat step dvd i - unat off"
    if "unat off \<le> i" for i
  proof -
    from that obtain d where i: "i = unat off + d" using le_Suc_ex by blast
    have "d = m * nat step" if "d < Suc m * nat step" "nat step dvd d" "\<not> d < m * nat step"
    proof -
      from \<open>nat step dvd d\<close> obtain q where q: "d = nat step * q" by blast
      have "q * nat step < Suc m * nat step" using that(1) by (simp only: q mult.commute)
      then have "q < Suc m" by (metis mult_less_cancel2)
      moreover have "\<not> q < m" using that(3) Suc.prems(2) by (auto simp: q mult.commute)
      ultimately have "q = m" by simp
      then show ?thesis by (simp add: q)
    qed
    moreover have "0 < nat step" using Suc.prems(2) by simp
    ultimately show ?thesis by (auto simp: i)
  qed
  show ?case
  proof (cases "m = 0")
    case True
    then have "ReplicateValue table off step (int (Suc m) * step) code = Some ?t"
      using put u by (subst ReplicateValue.simps) simp
    moreover have "\<forall>i < length table. ?t ! i =
      (if unat off \<le> i \<and> i < unat off + Suc m * nat step \<and> nat step dvd i - unat off then code
       else table ! i)"
    proof (intro allI impI)
      fix i assume "i < length table"
      with ix [of i] Suc.prems(2) show "?t ! i =
        (if unat off \<le> i \<and> i < unat off + Suc m * nat step \<and> nat step dvd i - unat off then code
         else table ! i)"
        by (cases "i = unat off") (auto simp: nth_list_update True)
    qed
    ultimately show ?thesis by simp
  next
    case False
    have pos: "\<not> int m * step \<le> 0" using False Suc.prems(2) by (simp add: mult_le_0_iff)
    have "(m - 1) * nat step \<le> m * nat step" by simp
    then have room: "unat off + (m - 1) * nat step < length ?t"
      using Suc.prems(4) unfolding length_list_update diff_Suc_1 by linarith
    have b31: "int m * step < 2 ^ 31" using bounds by simp
    from Suc.IH [OF _ Suc.prems(2) b31 room] False
    obtain t' where t': "ReplicateValue ?t off step (int m * step) code = Some t'"
      "length t' = length table"
      "\<forall>i < length table. t' ! i =
        (if unat off \<le> i \<and> i < unat off + m * nat step \<and> nat step dvd i - unat off then code
         else ?t ! i)"
      by auto
    have "ReplicateValue table off step (int (Suc m) * step) code = Some t'"
      using put u pos t'(1) e by (subst ReplicateValue.simps) (simp add: Let_def)
    moreover have "\<forall>i < length table. t' ! i =
      (if unat off \<le> i \<and> i < unat off + Suc m * nat step \<and> nat step dvd i - unat off then code
       else table ! i)"
    proof (intro allI impI)
      fix i assume "i < length table"
      with t'(3) ix [of i] show "t' ! i =
        (if unat off \<le> i \<and> i < unat off + Suc m * nat step \<and> nat step dvd i - unat off then code
         else table ! i)"
        by (cases "i = unat off + m * nat step") (auto simp: nth_list_update)
    qed
    ultimately show ?thesis using t'(2) by blast
  qed
qed simp

lemma unat_of_nat_u32: "n < 2 ^ 32 \<Longrightarrow> unat (of_nat n :: u32) = n"
  by (simp add: unsigned_of_nat take_bit_nat_eq_self)

subsection \<open>Canonical prefix codes\<close>

text \<open>
  A code is the list of its symbols with their lengths, in the order of the code words. \<open>kraft w\<close>
  counts the words of \<open>w\<close> bits that begin with a code word, and \<open>canonical w\<close> decodes the word
  with the value \<open>y\<close>, its first bit the highest: the code words take up adjacent intervals.
\<close>

type_synonym code = "(u16 \<times> nat) list"

definition kraft :: "nat \<Rightarrow> code \<Rightarrow> nat" where
  "kraft w cs = (\<Sum>(s, l) \<leftarrow> cs. 2 ^ (w - l))"

fun canonical :: "nat \<Rightarrow> code \<Rightarrow> nat \<Rightarrow> u16 \<times> nat" where
  "canonical w [] y = (0, 0)"
| "canonical w ((s, l) # cs) y = (if y < 2 ^ (w - l) then (s, l) else canonical w cs (y - 2 ^ (w - l)))"

lemma kraft_Nil [simp]: "kraft w [] = 0"
  by (simp add: kraft_def)

lemma kraft_Cons [simp]: "kraft w ((s, l) # cs) = 2 ^ (w - l) + kraft w cs"
  by (simp add: kraft_def)

lemma kraft_append [simp]: "kraft w (xs @ ys) = kraft w xs + kraft w ys"
  by (simp add: kraft_def)

lemma canonical_append:
  "canonical w (xs @ ys) y =
    (if y < kraft w xs then canonical w xs y else canonical w ys (y - kraft w xs))"
  by (induction w xs y rule: canonical.induct) (auto simp: less_diff_conv2 not_less)

lemma canonical_in: "y < kraft w cs \<Longrightarrow> canonical w cs y \<in> set cs"
  by (induction w cs y rule: canonical.induct) (auto simp: not_less)

abbreviation sorted_code :: "code \<Rightarrow> bool" where
  "sorted_code cs \<equiv> sorted (map snd cs)"

subsection \<open>Filling a table\<close>

definition entry :: "u16 \<times> nat \<Rightarrow> HuffmanCode" where
  "entry c = \<lparr>hc_value = fst c, hc_bits = of_nat (snd c)\<rparr>"

lemma place_at:
  assumes l: "l \<le> t" "t \<le> 8" and key: "2 ^ (8 - l) dvd key" "key < 256"
    and off: "unat off = free + rev_bits 8 key" and room: "free + 2 ^ t \<le> length table"
  shows "\<exists>table'. ReplicateValue table off (2 ^ l) (2 ^ t) code = Some table' \<and>
    length table' = length table \<and>
    (\<forall>i < 2 ^ t. table' ! (free + i) =
      (if key \<le> rev_bits 8 i \<and> rev_bits 8 i < key + 2 ^ (8 - l) then code else table ! (free + i))) \<and>
    (\<forall>i < length table. i < free \<or> free + 2 ^ t \<le> i \<longrightarrow> table' ! i = table ! i)"
proof -
  define r where "r = rev_bits 8 key"
  define m :: nat where "m = 2 ^ (t - l)"
  have t: "m * 2 ^ l = 2 ^ t" using l by (simp add: m_def flip: power_add)
  have m: "0 < m" by (simp add: m_def)
  have r: "r < 2 ^ l" unfolding r_def using l key by (intro rev_bits_less_power) auto
  have t256: "(2::nat) ^ t \<le> 256" using power_increasing [OF l(2), of "2::nat"] by simp
  have mt: "int m * 2 ^ l = 2 ^ t" using t by (metis of_nat_mult of_nat_numeral of_nat_power)
  have "int m * 2 ^ l < 2 ^ 31"
    unfolding mt using power_strict_increasing [of t 31 "2::int"] l(2) by simp
  moreover have "unat off + (m - 1) * nat (2 ^ l) < length table"
  proof -
    have "(m - 1) * 2 ^ l + 2 ^ l = 2 ^ t" unfolding t [symmetric] using m by (cases m) auto
    then show ?thesis using off r room by (simp add: r_def nat_power_eq)
  qed
  ultimately obtain t' where t': "ReplicateValue table off (2 ^ l) (2 ^ t) code = Some t'"
    "length t' = length table"
    "\<forall>i < length table. t' ! i = (if free + r \<le> i \<and> i < free + r + 2 ^ t \<and> 2 ^ l dvd i - (free + r)
      then code else table ! i)"
    using ReplicateValue_at [OF m, of "2 ^ l" off table code] by (auto simp: mt t off r_def nat_power_eq)
  have ix: "r \<le> d \<and> d < r + 2 ^ t \<and> 2 ^ l dvd d - r \<longleftrightarrow> d < 2 ^ t \<and> d mod 2 ^ l = r" for d
  proof
    assume a: "r \<le> d \<and> d < r + 2 ^ t \<and> 2 ^ l dvd d - r"
    then obtain q where q: "d - r = 2 ^ l * q" by blast
    then have d: "d = r + 2 ^ l * q" using a by linarith
    then have "2 ^ l * q < m * 2 ^ l" using a t by simp
    then have "q < m" by (simp add: mult.commute)
    then have "2 ^ l * q + 2 ^ l \<le> m * 2 ^ l"
      by (metis Suc_leI add.commute mult.commute mult_Suc mult_le_mono1)
    then show "d < 2 ^ t \<and> d mod 2 ^ l = r" using r t by (simp add: d)
  next
    assume a: "d < 2 ^ t \<and> d mod 2 ^ l = r"
    then have "r \<le> d" by (metis mod_less_eq_dividend)
    with a show "r \<le> d \<and> d < r + 2 ^ t \<and> 2 ^ l dvd d - r" by (auto simp: mod_eq_dvd_iff_nat)
  qed
  have iv: "i mod 2 ^ l = r \<longleftrightarrow> key \<le> rev_bits 8 i \<and> rev_bits 8 i < key + 2 ^ (8 - l)" if "i < 2 ^ t" for i
    unfolding r_def using that l key t256 by (intro rev_bits_interval) auto
  have "t' ! (free + i) =
      (if key \<le> rev_bits 8 i \<and> rev_bits 8 i < key + 2 ^ (8 - l) then code else table ! (free + i))"
    if "i < 2 ^ t" for i
    using t'(3) room that ix [of i] iv [of i] by auto
  moreover have "t' ! i = table ! i" if "i < length table" "i < free \<or> free + 2 ^ t \<le> i" for i
  proof -
    have "\<not> (free + r \<le> i \<and> i < free + r + 2 ^ t \<and> 2 ^ l dvd i - (free + r))"
      using that(2) ix [of "i - free"] by auto
    then show ?thesis unfolding t'(3) [rule_format, OF that(1)] by (rule if_not_P)
  qed
  ultimately show ?thesis using t'(1,2) by blast
qed

fun place_all ::
  "HuffmanCode list \<Rightarrow> u32 \<Rightarrow> nat \<Rightarrow> u32 \<Rightarrow> code \<Rightarrow> (HuffmanCode list \<times> u32) option" where
  "place_all table free t key [] = Some (table, key)"
| "place_all table free t key ((s, l) # cs) = do {
     r \<leftarrow> BrotliReverseBits key;
     table \<leftarrow> ReplicateValue table (free + r) (2 ^ l) (2 ^ t) (entry (s, l));
     place_all table free t (key + 2 ^ (8 - l)) cs
   }"

lemma place_all_append:
  "place_all table free t key (xs @ ys) =
    place_all table free t key xs \<bind> (\<lambda>(table, key). place_all table free t key ys)"
  by (induction table free t key xs rule: place_all.induct) (auto split: bind_splits)

lemma place_all_at:
  assumes "sorted_code cs" "\<forall>(s, l) \<in> set cs. l \<le> t \<and> 2 ^ (8 - l) dvd unat key" "t \<le> 8"
    and "unat key + kraft 8 cs \<le> 256" "unat free + 2 ^ t \<le> length table" "unat free + 256 < 2 ^ 32"
  shows "\<exists>table'. place_all table free t key cs = Some (table', key + of_nat (kraft 8 cs)) \<and>
    length table' = length table \<and>
    (\<forall>i < 2 ^ t. table' ! (unat free + i) =
      (if unat key \<le> rev_bits 8 i \<and> rev_bits 8 i < unat key + kraft 8 cs
       then entry (canonical 8 cs (rev_bits 8 i - unat key)) else table ! (unat free + i))) \<and>
    (\<forall>i < length table. i < unat free \<or> unat free + 2 ^ t \<le> i \<longrightarrow> table' ! i = table ! i)"
  using assms
proof (induction cs arbitrary: table key)
  case (Cons c cs)
  obtain s l where c: "c = (s, l)" by fastforce
  have l: "l \<le> t" "2 ^ (8 - l) dvd unat key" using Cons.prems(2) by (auto simp: c)
  have key: "unat key + 2 ^ (8 - l) + kraft 8 cs \<le> 256" using Cons.prems(4) by (simp add: c)
  moreover have "0 < (2 :: nat) ^ (8 - l)" by simp
  ultimately have k: "unat key < 256" by linarith
  let ?r = "rev_bits 8 (unat key)"
  have r: "?r < 256" using rev_bits_less [of 8 "unat key"] by simp
  then have off: "unat (free + of_nat ?r) = unat free + ?r"
    using Cons.prems(6) by (simp add: unat_plus_if' unat_of_nat take_bit_nat_eq_self)
  have p: "unat (2 ^ (8 - l) :: u32) = 2 ^ (8 - l)"
  proof -
    have "(2::nat) ^ (8 - l) < 2 ^ 32" by (rule power_strict_increasing) auto
    from unat_of_nat_u32 [OF this] show ?thesis by simp
  qed
  have key': "unat (key + 2 ^ (8 - l)) = unat key + 2 ^ (8 - l)"
    using key by (simp add: unat_plus_if' p)
  from place_at [OF l(1) Cons.prems(3) l(2) k off Cons.prems(5)]
  obtain t1 where t1: "ReplicateValue table (free + of_nat ?r) (2 ^ l) (2 ^ t) (entry (s, l)) = Some t1"
    "length t1 = length table"
    "\<forall>i < 2 ^ t. t1 ! (unat free + i) = (if unat key \<le> rev_bits 8 i \<and> rev_bits 8 i < unat key + 2 ^ (8 - l)
      then entry (s, l) else table ! (unat free + i))"
    "\<forall>i < length table. i < unat free \<or> unat free + 2 ^ t \<le> i \<longrightarrow> t1 ! i = table ! i" by blast
  have "2 ^ (8 - l') dvd unat (key + 2 ^ (8 - l))" if "(s', l') \<in> set cs" for s' l'
  proof -
    have "l \<le> l'" using Cons.prems(1) that by (auto simp: c)
    then have "(2::nat) ^ (8 - l') dvd 2 ^ (8 - l)" by (intro le_imp_power_dvd) simp
    then show ?thesis unfolding key' using l(2) by (meson dvd_add dvd_trans dvd_refl)
  qed
  then have all: "\<forall>(s', l') \<in> set cs. l' \<le> t \<and> 2 ^ (8 - l') dvd unat (key + 2 ^ (8 - l))"
    using Cons.prems(2) by (auto simp: c)
  have "sorted_code cs" using Cons.prems(1) by simp
  from Cons.IH [OF this all Cons.prems(3) _ _ Cons.prems(6), of t1] key Cons.prems(5)
  obtain t2 where t2:
    "place_all t1 free t (key + 2 ^ (8 - l)) cs = Some (t2, key + 2 ^ (8 - l) + of_nat (kraft 8 cs))"
    "length t2 = length table"
    "\<forall>i < 2 ^ t. t2 ! (unat free + i) =
      (if unat key + 2 ^ (8 - l) \<le> rev_bits 8 i \<and> rev_bits 8 i < unat key + 2 ^ (8 - l) + kraft 8 cs
       then entry (canonical 8 cs (rev_bits 8 i - (unat key + 2 ^ (8 - l)))) else t1 ! (unat free + i))"
    "\<forall>i < length table. i < unat free \<or> unat free + 2 ^ t \<le> i \<longrightarrow> t2 ! i = t1 ! i"
    unfolding t1(2) key' by blast
  have "place_all table free t key (c # cs) = Some (t2, key + of_nat (kraft 8 (c # cs)))"
    using t1(1) t2(1) by (simp add: c BrotliReverseBits_rev_bits [OF k] add.assoc)
  moreover have "\<forall>i < 2 ^ t. t2 ! (unat free + i) =
      (if unat key \<le> rev_bits 8 i \<and> rev_bits 8 i < unat key + kraft 8 (c # cs)
       then entry (canonical 8 (c # cs) (rev_bits 8 i - unat key)) else table ! (unat free + i))"
  proof (intro allI impI)
    fix i :: nat assume i: "i < 2 ^ t"
    show "t2 ! (unat free + i) =
      (if unat key \<le> rev_bits 8 i \<and> rev_bits 8 i < unat key + kraft 8 (c # cs)
       then entry (canonical 8 (c # cs) (rev_bits 8 i - unat key)) else table ! (unat free + i))"
      using t1(3) [rule_format, OF i] t2(3) [rule_format, OF i]
      by (cases "unat key \<le> rev_bits 8 i"; cases "rev_bits 8 i < unat key + 2 ^ (8 - l)")
         (simp_all add: c)
  qed
  moreover have "\<forall>i < length table. i < unat free \<or> unat free + 2 ^ t \<le> i \<longrightarrow> t2 ! i = table ! i"
    using t1(2,4) t2(4) by simp
  ultimately show ?case using t2(2) by blast
qed auto

end
