(* ===== verification/Huffman_Tables.thy ===== *)
theory Huffman_Tables
  imports Huffman_Codes
begin

text \<open>
The correctness of \<open>BrotliBuildHuffmanTable\<close>: for a complete code, the two-level table decodes every bit string to the
  symbol and length the canonical code assigns, whatever was in the memory before, and takes exactly the
  entries that \<open>table_entries\<close> counts. The loops of the code are first shown to be one loop over the list
  of the codes; the second-level tables are then filled group by group.
\<close>

lemma sub_mult_div:
  assumes "0 < (d :: nat)"
  shows "(y - q * d) div d = y div d - q"
proof (cases "q * d \<le> y")
  case True
  then obtain r where "y = q * d + r" using le_Suc_ex by blast
  then show ?thesis using assms by simp
next
  case False
  then have "y div d < q" using assms by (simp add: div_less_iff_less_mult)
  then show ?thesis using False by simp
qed

lemma canonical_div:
  assumes "\<forall>(s, l) \<in> set cs. l \<le> v" "v \<le> w"
  shows "canonical w cs y = canonical v cs (y div 2 ^ (w - v))"
  using assms(1)
proof (induction cs arbitrary: y)
  case (Cons c cs)
  obtain s l where c: "c = (s, l)" by fastforce
  have "(2::nat) ^ (w - l) = 2 ^ (v - l) * 2 ^ (w - v)"
    using Cons.prems assms(2) by (simp add: c flip: power_add)
  then have "y < 2 ^ (w - l) \<longleftrightarrow> y div 2 ^ (w - v) < 2 ^ (v - l)"
    "(y - 2 ^ (w - l)) div 2 ^ (w - v) = y div 2 ^ (w - v) - 2 ^ (v - l)"
    by (simp_all add: div_less_iff_less_mult sub_mult_div)
  then show ?case using Cons by (simp add: c)
qed simp

lemma kraft_scale:
  assumes "\<forall>(s, l) \<in> set cs. l \<le> v" "v \<le> w"
  shows "kraft w cs = kraft v cs * 2 ^ (w - v)"
  using assms(1)
proof (induction cs)
  case (Cons c cs)
  obtain s l where c: "c = (s, l)" by fastforce
  have "(2::nat) ^ (w - l) = 2 ^ (v - l) * 2 ^ (w - v)"
    using Cons.prems assms(2) by (simp add: c flip: power_add)
  then show ?case using Cons by (simp add: c add_mult_distrib)
qed simp

subsection \<open>The code of a histogram and its symbol lists\<close>

fun chain :: "u16 list \<Rightarrow> nat \<Rightarrow> int \<Rightarrow> nat \<Rightarrow> u16 list" where
  "chain syms off symbol 0 = []"
| "chain syms off symbol (Suc n) =
    (let s = syms ! nat (int off + symbol) in s # chain syms off (uint s) n)"

fun chain_ok :: "u16 list \<Rightarrow> nat \<Rightarrow> int \<Rightarrow> nat \<Rightarrow> bool" where
  "chain_ok syms off symbol 0 \<longleftrightarrow> True"
| "chain_ok syms off symbol (Suc n) \<longleftrightarrow> 0 \<le> int off + symbol \<and> nat (int off + symbol) < length syms \<and>
    chain_ok syms off (uint (syms ! nat (int off + symbol))) n"

definition codes_of_length :: "u16 list \<Rightarrow> nat \<Rightarrow> u16 list \<Rightarrow> nat \<Rightarrow> code" where
  "codes_of_length syms off count l =
    map (\<lambda>s. (s, l)) (chain syms off (int l - 16) (unat (count ! l)))"

definition codes_from :: "u16 list \<Rightarrow> nat \<Rightarrow> u16 list \<Rightarrow> nat \<Rightarrow> nat \<Rightarrow> code" where
  "codes_from syms off count a b = concat (map (codes_of_length syms off count) [a..<b])"

text \<open>
  The data \<open>ReadHuffmanCode\<close> passes: a list for each length from 1 to 15, with as many symbols as
  the histogram says, and the mark 0xFFFF where there is none.
\<close>

definition histogram_ok :: "u16 list \<Rightarrow> nat \<Rightarrow> u16 list \<Rightarrow> bool" where
  "histogram_ok syms off count \<longleftrightarrow> length count = 16 \<and> 15 \<le> off \<and> off \<le> length syms \<and>
    (\<forall>l \<in> {1..<16}. chain_ok syms off (int l - 16) (unat (count ! l)) \<and>
      (syms ! (off + l - 16) = 0xFFFF \<longleftrightarrow> count ! l = 0))"

lemma codes_of_length_set: "(s, l') \<in> set (codes_of_length syms off count l) \<Longrightarrow> l' = l"
  by (auto simp: codes_of_length_def)

lemma codes_from_set: "(s, l) \<in> set (codes_from syms off count a b) \<Longrightarrow> a \<le> l \<and> l < b"
  by (auto simp: codes_from_def dest: codes_of_length_set)

lemma sorted_codes_from: "sorted_code (codes_from syms off count a b)"
proof (induction b)
  case (Suc b)
  show ?case
  proof (cases "a \<le> b")
    case True
    have "sorted_code (codes_of_length syms off count b)"
      by (simp add: codes_of_length_def comp_def sorted_wrt_map)
    moreover have "codes_from syms off count a (Suc b) =
        codes_from syms off count a b @ codes_of_length syms off count b"
      using True by (simp add: codes_from_def)
    moreover have "x \<le> y" if "x \<in> set (map snd (codes_from syms off count a b))"
        "y \<in> set (map snd (codes_of_length syms off count b))" for x y
      using that by (auto dest!: codes_from_set codes_of_length_set)
    ultimately show ?thesis using Suc by (simp only: map_append sorted_append) blast
  qed (simp add: codes_from_def)
qed (simp add: codes_from_def)

lemma codes_from_split:
  "a \<le> b \<Longrightarrow> b \<le> c \<Longrightarrow> codes_from syms off count a c = codes_from syms off count a b @ codes_from syms off count b c"
  using upt_add_eq_append [of a b "c - b"] by (simp add: codes_from_def)

lemma codes_from_Cons:
  "a < b \<Longrightarrow> codes_from syms off count a b =
    codes_of_length syms off count a @ codes_from syms off count (Suc a) b"
  by (simp add: codes_from_def upt_conv_Cons)

subsection \<open>The root table\<close>

lemma i32_power: "n < 31 \<Longrightarrow> i32 (2 ^ n) = 2 ^ n"
proof -
  assume "n < 31"
  then have "(2::int) ^ n < 2147483648" using power_strict_increasing [of n 31 "2::int"] by simp
  moreover have "0 \<le> (2::int) ^ n" by simp
  ultimately show ?thesis by (intro i32_id) linarith+
qed

lemma shl_i32_power: "n < 30 \<Longrightarrow> shl_i32 (2 ^ n) 1 = 2 ^ Suc n"
  using i32_power [of "Suc n"] by (simp add: shl_i32_def mult.commute)

lemma shl_i32_1: "0 \<le> n \<Longrightarrow> n < 31 \<Longrightarrow> shl_i32 1 n = 2 ^ nat n"
  using i32_power [of "nat n"] by (simp add: shl_i32_def)

lemma half_power:
  assumes "l < 8"
  shows "drop_bit (Suc 0) (2 ^ (8 - l) :: u32) = 2 ^ (7 - l)"
proof -
  from assms have "l = 0 \<or> l = 1 \<or> l = 2 \<or> l = 3 \<or> l = 4 \<or> l = 5 \<or> l = 6 \<or> l = 7" by arith
  then show ?thesis by (elim disjE) simp_all
qed

lemma fill_symbol_list_place:
  assumes "chain_ok syms off symbol n"
  shows "fill_symbol_list table syms off symbol free key (2 ^ (8 - l)) (2 ^ l) (2 ^ t) (int l) n =
    place_all table free t key (map (\<lambda>s. (s, l)) (chain syms off symbol n))"
  using assms
  by (induction n arbitrary: table symbol key) (auto simp: slice_simps Let_def entry_def)

lemma fill_root_table_place:
  assumes "histogram_ok syms off count" "1 \<le> l" "l \<le> tb" "tb \<le> 8"
  shows "fill_root_table table syms off count free key (2 ^ (8 - l)) (2 ^ l) (2 ^ t) (int tb) (int l) =
    place_all table free t key (codes_from syms off count l (Suc tb))"
  using assms(2,3)
proof (induction "tb - l" arbitrary: table key l)
  case 0
  then have l: "l = tb" by simp
  have c: "get_at count (int l) = Some (count ! l)" "chain_ok syms off (int l - 16) (unat (count ! l))"
    using assms(1,4) 0(2,3) by (auto simp: histogram_ok_def slice_simps)
  show ?case
    by (subst fill_root_table.simps)
       (simp add: c fill_symbol_list_place codes_from_def codes_of_length_def l [symmetric] split: bind_splits)
next
  case (Suc d)
  then have l: "l < tb" by simp
  have c: "get_at count (int l) = Some (count ! l)" "chain_ok syms off (int l - 16) (unat (count ! l))"
    using assms(1,4) Suc(3,4) by (auto simp: histogram_ok_def slice_simps)
  have step: "shl_i32 (2 ^ l) 1 = 2 ^ Suc l" using l assms(4) by (intro shl_i32_power) simp
  have IH: "fill_root_table table syms off count free key (2 ^ (7 - l)) (2 ^ Suc l) (2 ^ t) (int tb) (int l + 1) =
    place_all table free t key (codes_from syms off count (Suc l) (Suc tb))" for table key
    using Suc(1) [of "Suc l" table key] Suc(2) l by (simp add: add.commute)
  have split: "codes_from syms off count l (Suc tb) =
      codes_of_length syms off count l @ codes_from syms off count (Suc l) (Suc tb)"
    using l by (intro codes_from_Cons) simp
  show ?case
    using l assms(4)
    by (subst fill_root_table.simps)
       (simp add: c fill_symbol_list_place split place_all_append step half_power Let_def
          codes_of_length_def [symmetric] IH del: power_Suc)
qed

lemma copy_entries_at:
  assumes "free + sz + k + n \<le> length table" "k + n \<le> sz"
  shows "\<exists>table'. copy_entries table free sz k n = Some table' \<and> length table' = length table \<and>
    (\<forall>i < length table. table' ! i =
      (if free + sz + k \<le> i \<and> i < free + sz + k + n then table ! (i - sz) else table ! i))"
  using assms
proof (induction n arbitrary: table k)
  case (Suc n)
  let ?t = "table[free + sz + k := table ! (free + k)]"
  from Suc.IH [of k' ?t for k', of "Suc k"] Suc.prems obtain t' where
    t': "copy_entries ?t free sz (Suc k) n = Some t'" "length t' = length table"
    "\<forall>i < length table. t' ! i =
      (if free + sz + Suc k \<le> i \<and> i < free + sz + Suc k + n then ?t ! (i - sz) else ?t ! i)"
    by auto
  have "copy_entries table free sz k (Suc n) = Some t'"
    using Suc.prems t'(1) by (simp add: slice_simps)
  moreover have "t' ! i =
      (if free + sz + k \<le> i \<and> i < free + sz + k + Suc n then table ! (i - sz) else table ! i)"
    if "i < length table" for i
    using t'(3) [rule_format, OF that] Suc.prems that
    by (cases "i = free + sz + k") (auto simp: nth_list_update)
  ultimately show ?case using t'(2) by blast
qed auto

lemma copy_entries_double:
  assumes "0 < n" "2 * n \<le> length table"
  shows "\<exists>table'. copy_entries table 0 n 0 n = Some table' \<and> length table' = length table \<and>
    (\<forall>i. table' ! (i mod (2 * n)) = table ! (i mod n)) \<and>
    (\<forall>i < length table. 2 * n \<le> i \<longrightarrow> table' ! i = table ! i)"
proof -
  from copy_entries_at [of 0 n 0 n table] assms obtain t1 where
    t1: "copy_entries table 0 n 0 n = Some t1" "length t1 = length table"
    "\<forall>i < length table. t1 ! i = (if n \<le> i \<and> i < n + n then table ! (i - n) else table ! i)" by auto
  have "t1 ! (i mod (2 * n)) = table ! (i mod n)" for i
  proof -
    let ?j = "i mod (2 * n)"
    have j: "?j < 2 * n" using assms(1) by simp
    have "i mod n = ?j mod n" by (simp add: mod_mod_cancel)
    then have "i mod n = (if n \<le> ?j then ?j - n else ?j)" using j by (auto simp: le_mod_geq)
    then show ?thesis using t1(3) j assms(2) by simp
  qed
  with t1 show ?thesis by auto
qed

lemma double_table_at:
  assumes "tb \<le> 8" "256 \<le> length table"
  shows "\<exists>table'. double_table table 0 256 (2 ^ tb) = Some (table', 256) \<and>
    length table' = length table \<and> (\<forall>i < 256. table' ! i = table ! (i mod 2 ^ tb)) \<and>
    (\<forall>i < length table. 256 \<le> i \<longrightarrow> table' ! i = table ! i)"
  using assms
proof (induction "8 - tb" arbitrary: table tb)
  case 0
  then have "tb = 8" by simp
  then show ?case by (subst double_table.simps) simp
next
  case (Suc d)
  then have tb: "tb < 8" by simp
  have p: "2 * (2::nat) ^ tb \<le> 256" using power_increasing [of "Suc tb" 8 "2::nat"] tb by simp
  from copy_entries_double [of "2 ^ tb" table] p Suc.prems obtain t1 where
    t1: "copy_entries table 0 (2 ^ tb) 0 (2 ^ tb) = Some t1" "length t1 = length table"
    "\<forall>i. t1 ! (i mod 2 ^ Suc tb) = table ! (i mod 2 ^ tb)"
    "\<forall>i < length table. 2 * 2 ^ tb \<le> i \<longrightarrow> t1 ! i = table ! i" by auto
  have "(2::int) ^ tb \<noteq> 256"
    using tb power_strict_increasing [of tb 8 "2::int"] by simp
  then have step: "double_table table 0 256 (2 ^ tb) = double_table t1 0 256 (2 ^ Suc tb)"
    using t1(1) tb by (subst double_table.simps) (simp add: nat_power_eq shl_i32_power del: power_Suc)
  have "d = 8 - Suc tb" using Suc(2) by simp
  from Suc(1) [OF this, of t1] Suc.prems tb t1(2) obtain t2 where
    t2: "double_table t1 0 256 (2 ^ Suc tb) = Some (t2, 256)" "length t2 = length table"
    "\<forall>i < 256. t2 ! i = t1 ! (i mod 2 ^ Suc tb)"
    "\<forall>i < length table. 256 \<le> i \<longrightarrow> t2 ! i = t1 ! i" by auto
  have "\<forall>i < 256. t2 ! i = table ! (i mod 2 ^ tb)" using t2(3) t1(3) by simp
  moreover have "\<forall>i < length table. 256 \<le> i \<longrightarrow> t2 ! i = table ! i" using t2(4) t1(4) p by simp
  ultimately show ?case using step t2(1,2) by auto
qed

lemma find_max_length_at:
  assumes h: "histogram_ok syms off count" and m: "1 \<le> m" "m \<le> L" "L \<le> 15"
    and some: "count ! m \<noteq> 0" and none: "\<forall>l. m < l \<and> l \<le> L \<longrightarrow> count ! l = 0"
  shows "find_max_length syms off (int L - 16) = Some (int m - 16)"
  using m(2,3) none
proof (induction "L - m" arbitrary: L)
  case 0
  then have L: "L = m" by simp
  have "get_at syms (int off + (int m - 16)) = Some (syms ! (off + m - 16))"
    using h m(1) 0 by (auto simp: histogram_ok_def slice_simps nat_add_distrib nat_diff_distrib' intro!: arg_cong [of _ _ "(!) syms"])
  moreover have "syms ! (off + m - 16) \<noteq> 0xFFFF" using h m(1) 0 some by (auto simp: histogram_ok_def)
  ultimately show ?case by (subst find_max_length.simps) (simp add: L)
next
  case (Suc d)
  then have L: "m < L" by simp
  have "get_at syms (int off + (int L - 16)) = Some (syms ! (off + L - 16))"
    using h m(1) Suc(2-) by (auto simp: histogram_ok_def slice_simps intro!: arg_cong [of _ _ "(!) syms"])
  moreover have "syms ! (off + L - 16) = 0xFFFF"
    using h m(1) L Suc(4,5) by (auto simp: histogram_ok_def)
  moreover have "find_max_length syms off (int L - 16 - 1) = Some (int m - 16)"
  proof -
    have d: "d = L - 1 - m" "int L - 16 - 1 = int (L - 1) - 16" "m \<le> L - 1" "L - 1 \<le> 15"
      "\<forall>l. m < l \<and> l \<le> L - 1 \<longrightarrow> count ! l = 0" using Suc(2,4,5) L by auto
    show ?thesis unfolding d(2) by (rule Suc(1) [OF d(1,3-5)])
  qed
  ultimately show ?case by (subst find_max_length.simps) simp
qed

subsection \<open>Second-level tables\<close>

text \<open>The codes of one second-level table, eight bits shorter.\<close>

definition shorten :: "code \<Rightarrow> code" where
  "shorten cs = map (\<lambda>(s, l). (s, l - 8)) cs"

lemma shorten_simps [simp]:
  "shorten [] = []" "shorten ((s, l) # cs) = (s, l - 8) # shorten cs"
  by (simp_all add: shorten_def)

lemma kraft_shorten:
  "\<forall>(s, l) \<in> set cs. 8 < l \<and> l \<le> 15 \<Longrightarrow> kraft 8 (shorten cs) = 2 * kraft 15 cs"
proof (induction cs)
  case (Cons c cs)
  obtain s l where c: "c = (s, l)" by fastforce
  have "8 - (l - 8) = Suc (15 - l)" using Cons.prems by (auto simp: c)
  then show ?case using Cons by (simp add: c)
qed simp

lemma canonical_shorten:
  assumes "\<forall>(s, l) \<in> set cs. 8 < l \<and> l \<le> 15" "z < kraft 15 cs"
  shows "canonical 15 cs z = (fst (canonical 8 (shorten cs) (2 * z)), 8 + snd (canonical 8 (shorten cs) (2 * z)))"
  using assms
proof (induction cs arbitrary: z)
  case (Cons c cs)
  obtain s l where c: "c = (s, l)" by fastforce
  have "8 - (l - 8) = Suc (15 - l)" using Cons.prems(1) by (auto simp: c)
  then have p: "(2::nat) ^ (8 - (l - 8)) = 2 * 2 ^ (15 - l)" by simp
  have l: "8 \<le> l" using Cons.prems(1) by (auto simp: c)
  show ?case
  proof (cases "z < 2 ^ (15 - l)")
    case True
    then show ?thesis using l by (simp add: c p del: diff_diff_eq diff_diff_left diff_diff_right)
  next
    case False
    then have "2 * z - 2 * 2 ^ (15 - l) = 2 * (z - 2 ^ (15 - l))" by simp
    moreover have "z - 2 ^ (15 - l) < kraft 15 cs" using Cons.prems(2) False by (simp add: c)
    ultimately show ?thesis using Cons False unfolding c shorten_simps canonical.simps p by simp
  qed
qed simp

text \<open>The loop over one length, and the loop over the lengths, as one loop over the codes.\<close>

fun subtables :: "SecondLevel \<Rightarrow> code \<Rightarrow> SecondLevel option" where
  "subtables s [] = Some s"
| "subtables s ((v, l) # cs) = do {
     c \<leftarrow> get (sl_count s) l;
     s' \<leftarrow> (if sl_sub_key s = 256 then open_second_level s 1 (int l) 8 else Some s);
     r \<leftarrow> BrotliReverseBits (sl_sub_key s');
     root_table \<leftarrow> ReplicateValue (sl_root_table s') (sl_table_free_offset s' + r) (2 ^ (l - 8)) (sl_table_size s')
       (entry (v, l - 8));
     subtables (s'\<lparr>sl_root_table := root_table, sl_sub_key := sl_sub_key s' + 2 ^ (16 - l),
                   sl_count := (sl_count s)[l := c - 1]\<rparr>) cs
   }"

lemma subtables_append: "subtables s (xs @ ys) = subtables s xs \<bind> (\<lambda>s. subtables s ys)"
  by (induction s xs rule: subtables.induct) (auto split: bind_splits)

lemma subtables_count:
  "subtables s cs = Some s' \<Longrightarrow> length (sl_count s') = length (sl_count s) \<and>
    (\<forall>l. l \<notin> snd ` set cs \<longrightarrow> sl_count s' ! l = sl_count s ! l)"
  by (induction s cs rule: subtables.induct) (auto split: bind_splits)

lemma fill_second_level_subtables:
  assumes "length (sl_count s) = 16" "9 \<le> l" "l < 16"
    and "chain_ok syms off symbol (unat (sl_count s ! l))"
  shows "fill_second_level s syms off 1 (2 ^ (16 - l)) (2 ^ (l - 8)) (int l) 8 symbol =
    subtables s (map (\<lambda>s. (s, l)) (chain syms off symbol (unat (sl_count s ! l))))"
  using assms(1,4)
proof (induction "unat (sl_count s ! l)" arbitrary: s symbol)
  case 0
  then have "sl_count s ! l = 0" by (simp add: unat_eq_0)
  then show ?case using 0 assms(3) by (subst fill_second_level.simps) (simp add: slice_simps)
next
  case (Suc n)
  let ?c = "sl_count s ! l"
  have c: "?c \<noteq> 0" using Suc(2) by auto
  then have n: "unat (?c - 1) = n" using Suc(2) by (simp add: unat_minus_one)
  let ?sym = "syms ! nat (int off + symbol)"
  have ok: "get_at syms (int off + symbol) = Some ?sym" "chain_ok syms off (uint ?sym) n"
    using Suc(4) unfolding Suc(2) [symmetric] by (auto simp: slice_simps)
  have IH: "fill_second_level s' syms off 1 (2 ^ (16 - l)) (2 ^ (l - 8)) (int l) 8 (uint ?sym) =
      subtables s' (map (\<lambda>s. (s, l)) (chain syms off (uint ?sym) n))"
    if "sl_count s' = (sl_count s)[l := ?c - 1]" for s'
  proof -
    have n': "n = unat (sl_count s' ! l)" using that n Suc(3) assms(3) by simp
    have "length (sl_count s') = 16" using that Suc(3) by simp
    from Suc(1) [OF n' this, of "uint ?sym"] ok(2) show ?thesis unfolding n' [symmetric] by simp
  qed
  have e: "entry (?sym, l - 8) = \<lparr>hc_value = ?sym, hc_bits = of_nat l - 8\<rparr>"
    using assms(2) by (simp add: entry_def of_nat_diff)
  have g: "get_at (sl_count s) (int l) = Some ?c" "get (sl_count s) l = Some ?c"
      "put_at (sl_count s) (int l) (?c - 1) = Some ((sl_count s)[l := ?c - 1])"
    using Suc(3) assms(3) by (simp_all add: slice_simps)
  have "fill_second_level s syms off 1 (2 ^ (16 - l)) (2 ^ (l - 8)) (int l) 8 symbol =
      subtables s ((?sym, l) # map (\<lambda>s. (s, l)) (chain syms off (uint ?sym) n))"
    by (subst fill_second_level.simps) (simp add: c g ok(1) e IH Let_def)
  then show ?case unfolding Suc(2) [symmetric] by (simp add: Let_def)
qed

lemma second_levels_subtables:
  assumes "length (sl_count s) = 16" "9 \<le> l" "m < 16" "l \<le> Suc m"
    and "\<And>j. l \<le> j \<Longrightarrow> j \<le> m \<Longrightarrow> chain_ok syms off (int j - 16) (unat (sl_count s ! j))"
  shows "second_levels s syms off 1 (2 ^ (16 - l)) (2 ^ (l - 8)) (int l) (int m) 8 =
    subtables s (codes_from syms off (sl_count s) l (Suc m))"
  using assms
proof (induction "Suc m - l" arbitrary: s l)
  case 0
  then have "l = Suc m" by simp
  then show ?case by (subst second_levels.simps) (simp add: codes_from_def)
next
  case (Suc d)
  then have l: "l \<le> m" "d = Suc m - Suc l" by auto
  let ?cs = "codes_of_length syms off (sl_count s) l"
  have f: "fill_second_level s syms off 1 (2 ^ (16 - l)) (2 ^ (l - 8)) (int l) 8 (int l - 16) = subtables s ?cs"
    using fill_second_level_subtables [OF Suc(3,4)] Suc(7) [of l] l Suc(5)
    by (simp add: codes_of_length_def)
  have half: "drop_bit (Suc 0) (2 ^ (16 - l) :: u32) = 2 ^ (15 - l)"
  proof -
    have "8 - (l - 8) = 16 - l" "7 - (l - 8) = 15 - l" "l - 8 < 8" using Suc(4,5) l(1) by auto
    with half_power [of "l - 8"] show ?thesis by (simp only:)
  qed
  have "shl_i32 (2 ^ (l - 8)) 1 = 2 ^ Suc (l - 8)" using Suc(5) l(1) by (intro shl_i32_power) simp
  moreover have "Suc (l - 8) = l - 7" using Suc(4) by simp
  ultimately have step: "shl_i32 (2 ^ (l - 8)) 1 = 2 ^ (l - 7)" by (simp only:)
  have IH: "second_levels s' syms off 1 (2 ^ (15 - l)) (2 ^ (l - 7)) (int l + 1) (int m) 8 =
      subtables s' (codes_from syms off (sl_count s) (Suc l) (Suc m))" if "subtables s ?cs = Some s'" for s'
  proof -
    have len: "length (sl_count s') = 16" and same: "\<And>j. j \<noteq> l \<Longrightarrow> sl_count s' ! j = sl_count s ! j"
      using subtables_count [OF that] Suc(3) by (auto simp: codes_of_length_def)
    have "codes_from syms off (sl_count s') (Suc l) (Suc m) = codes_from syms off (sl_count s) (Suc l) (Suc m)"
      unfolding codes_from_def codes_of_length_def
      by (intro arg_cong [of _ _ concat] map_cong) (auto simp: same)
    moreover have "chain_ok syms off (int j - 16) (unat (sl_count s' ! j))" if "Suc l \<le> j" "j \<le> m" for j
      using Suc(7) [of j] that same [of j] by simp
    moreover have "16 - Suc l = 15 - l" "Suc l - 8 = l - 7" "int (Suc l) = int l + 1" by auto
    ultimately show ?thesis
      using Suc(1) [OF l(2) len] Suc(4,5) l(1) by (simp only:)
  qed
  have split: "codes_from syms off (sl_count s) l (Suc m) =
      ?cs @ codes_from syms off (sl_count s) (Suc l) (Suc m)"
    using l(1) by (intro codes_from_Cons) simp
  show ?case
    using l(1) by (subst second_levels.simps)
      (cases "subtables s ?cs"; simp add: f split subtables_append half step IH del: power_Suc)
qed

text \<open>The codes shorter than a length, and how many there are of a length.\<close>

definition below :: "nat \<Rightarrow> code \<Rightarrow> code" where
  "below m cs = filter (\<lambda>(s, l). l < m) cs"

definition cnt :: "code \<Rightarrow> nat \<Rightarrow> nat" where
  "cnt cs m = length (filter (\<lambda>(s, l). l = m) cs)"

lemma kraft_below_Suc: "kraft m (below (Suc m) cs) = kraft m (below m cs) + cnt cs m"
proof (induction cs)
  case (Cons c cs)
  then show ?case by (cases c) (auto simp: below_def cnt_def)
qed (simp add: below_def cnt_def)

lemma kraft_Suc_below: "kraft (Suc m) (below (Suc m) cs) = 2 * kraft m (below (Suc m) cs)"
  using kraft_scale [of "below (Suc m) cs" m "Suc m"] by (auto simp: below_def)

lemma next_table_bit_size_at:
  assumes count: "length count = 16" "\<And>j. L \<le> j \<Longrightarrow> j < 16 \<Longrightarrow> unat (count ! j) = cnt cs j"
    and L: "8 < L" "L < 16" and left: "left = 2 ^ (L - 8) - int (kraft L (below L cs))" "0 < left"
  shows "\<exists>R. next_table_bit_size count (int L) left = Some (int R) \<and> L \<le> R \<and> R < 16 \<and>
    (R = 15 \<or> 2 ^ (R - 8) \<le> kraft R (below (Suc R) cs)) \<and>
    (\<forall>j. L \<le> j \<and> j < R \<longrightarrow> kraft j (below (Suc j) cs) < 2 ^ (j - 8))"
  using count(2) L left
proof (induction "15 - L" arbitrary: L left)
  case 0
  then have "L = 15" by simp
  then show ?case by (intro exI [of _ 15]) (subst next_table_bit_size.simps, simp)
next
  case (Suc d)
  have L: "8 < L" "L < 15" "d = 15 - Suc L" using Suc(2,4) by auto
  have c: "get_at count (int L) = Some (count ! L)" using count(1) L by (simp add: slice_simps)
  have p: "(2::int) ^ (L - 8) \<le> 128" using power_increasing [of "L - 8" 7 "2::int"] L by simp
  define left' where "left' = left - uint (count ! L)"
  have u: "uint (count ! L) = int (cnt cs L)" using Suc(3) [of L] L by (metis of_nat_unat order_refl less_trans numeral_less_iff semiring_norm(76,78,80) num.inject(1) order_less_imp_le le_less_trans Suc(5))
  have left': "left' = 2 ^ (L - 8) - int (kraft L (below (Suc L) cs))"
    by (simp add: left'_def u Suc(6) kraft_below_Suc)
  have range: "-2147483648 \<le> left'" "left' \<le> 128"
  proof -
    have "uint (count ! L) < 65536" using uint_lt2p [of "count ! L"] by simp
    then show "-2147483648 \<le> left'" using Suc(7) by (simp add: left'_def)
    have "left' \<le> 2 ^ (L - 8)" by (simp add: left')
    with p show "left' \<le> 128" by linarith
  qed
  show ?case
  proof (cases "left' \<le> 0")
    case True
    then have "2 ^ (L - 8) \<le> kraft L (below (Suc L) cs)" unfolding left' by (simp flip: of_nat_le_iff)
    moreover have "next_table_bit_size count (int L) left = Some (int L)"
      using True range L c by (subst next_table_bit_size.simps) (simp add: left'_def Let_def)
    ultimately show ?thesis using L by (intro exI [of _ L]) auto
  next
    case False
    have shl: "shl_i32 left' 1 = 2 * left'" using range False by (simp add: shl_i32_def)
    have "(2::int) ^ (Suc L - 8) = 2 * 2 ^ (L - 8)" using L(1) by (simp add: Suc_diff_le del: diff_Suc_Suc flip: power_Suc)
    then have eq: "2 * left' = 2 ^ (Suc L - 8) - int (kraft (Suc L) (below (Suc L) cs))"
      by (simp only: left' kraft_Suc_below) simp
    from Suc(1) [OF L(3) _ _ _ eq] Suc(3) L False obtain R where
      R: "next_table_bit_size count (int (Suc L)) (2 * left') = Some (int R)" "Suc L \<le> R" "R < 16"
      "R = 15 \<or> 2 ^ (R - 8) \<le> kraft R (below (Suc R) cs)"
      "\<forall>j. Suc L \<le> j \<and> j < R \<longrightarrow> kraft j (below (Suc j) cs) < 2 ^ (j - 8)" by auto
    have "next_table_bit_size count (int L) left = Some (int R)"
      using False range L c R(1)
      by (subst next_table_bit_size.simps) (simp add: left'_def [symmetric] Let_def shl add.commute)
    moreover have "kraft L (below (Suc L) cs) < 2 ^ (L - 8)"
      using False unfolding left' by (simp flip: of_nat_less_iff)
    then have "kraft j (below (Suc j) cs) < 2 ^ (j - 8)" if "L \<le> j" "j < R" for j
      using R(5) that by (cases "j = L") auto
    ultimately show ?thesis using R(2-4) by (intro exI [of _ R]) auto
  qed
qed

text \<open>The codes of the next second-level table, and the memory the second level takes.\<close>

fun split_group :: "nat \<Rightarrow> code \<Rightarrow> code \<times> code" where
  "split_group a [] = ([], [])"
| "split_group a (c # cs) =
    (if 128 \<le> a then ([], c # cs)
     else let (g, rest) = split_group (a + 2 ^ (15 - snd c)) cs in (c # g, rest))"

lemma split_group_append: "split_group a cs = (g, rest) \<Longrightarrow> cs = g @ rest"
  by (induction a cs arbitrary: g rest rule: split_group.induct) (auto split: if_splits prod.splits)

lemma split_group_Cons:
  "split_group 0 (c # cs) = (g, rest) \<Longrightarrow> \<exists>g'. g = c # g' \<and> cs = g' @ rest"
  by (auto split: prod.splits dest!: split_group_append)

function second_level_size :: "code \<Rightarrow> nat" where
  "second_level_size [] = 0"
| "second_level_size (c # cs) =
    (let (g, rest) = split_group 0 (c # cs) in 2 ^ (snd (last g) - 8) + second_level_size rest)"
  by pat_completeness auto
termination
  by (relation "measure length") (auto dest!: split_group_Cons [OF sym] simp del: split_group.simps)

lemma split_group_kraft:
  assumes "sorted_code cs" "\<forall>(s, l) \<in> set cs. 8 \<le> l \<and> l \<le> 15 \<and> 2 ^ (15 - l) dvd a"
    and "a \<le> 128" "128 \<le> a + kraft 15 cs" "split_group a cs = (g, rest)"
  shows "a + kraft 15 g = 128"
  using assms
proof (induction cs arbitrary: a g)
  case (Cons c cs)
  obtain s l where c: "c = (s, l)" by fastforce
  show ?case
  proof (cases "128 \<le> a")
    case True
    then show ?thesis using Cons.prems(3,5) by (auto simp: c)
  next
    case False
    obtain g' where g: "split_group (a + 2 ^ (15 - l)) cs = (g', rest)" "g = c # g'"
      using Cons.prems(5) False by (auto simp: c split: prod.splits)
    have l: "8 \<le> l" "l \<le> 15" "2 ^ (15 - l) dvd a" using Cons.prems(2) by (auto simp: c)
    have "(2::nat) ^ (15 - l) dvd 128" using le_imp_power_dvd [of "15 - l" 7 "2::nat"] l by simp
    then have "2 ^ (15 - l) dvd 128 - a" using l(3) by (simp add: dvd_diff_nat)
    then have "2 ^ (15 - l) \<le> 128 - a" using False by (intro dvd_imp_le) auto
    then have le: "a + 2 ^ (15 - l) \<le> 128" using False by simp
    have "2 ^ (15 - l') dvd a + 2 ^ (15 - l)" if "(s', l') \<in> set cs" for s' l'
    proof -
      have "l \<le> l'" using Cons.prems(1) that by (auto simp: c)
      then have "(2::nat) ^ (15 - l') dvd 2 ^ (15 - l)" by (intro le_imp_power_dvd) simp
      then show ?thesis using l(3) by (meson dvd_add dvd_trans dvd_refl)
    qed
    then have "\<forall>(s', l') \<in> set cs. 8 \<le> l' \<and> l' \<le> 15 \<and> 2 ^ (15 - l') dvd a + 2 ^ (15 - l)"
      using Cons.prems(2) by auto
    from Cons.IH [OF _ this le _ g(1)] Cons.prems(1,4) show ?thesis by (simp add: c g(2))
  qed
qed simp

lemma kraft_below_15: "j \<le> 15 \<Longrightarrow> kraft 15 (below (Suc j) cs) = kraft j (below (Suc j) cs) * 2 ^ (15 - j)"
  by (rule kraft_scale) (auto simp: below_def)

lemma power_128: "8 \<le> j \<Longrightarrow> j \<le> 15 \<Longrightarrow> (2::nat) ^ (j - 8) * 2 ^ (15 - j) = 128"
proof -
  assume "8 \<le> j" "j \<le> 15"
  then have "j - 8 + (15 - j) = 7" by simp
  then have "(2::nat) ^ (j - 8) * 2 ^ (15 - j) = 2 ^ 7" by (metis power_add)
  then show ?thesis by simp
qed

lemma kraft_sublist: "kraft w (filter P cs) \<le> kraft w cs"
  by (induction cs) auto

lemma below_append [simp]: "below m (xs @ ys) = below m xs @ below m ys"
  by (simp add: below_def)

lemma NextTableBitSize_at:
  assumes count: "length count = 16" "\<And>j. 9 \<le> j \<Longrightarrow> j < 16 \<Longrightarrow> unat (count ! j) = cnt (c # cs) j"
    and sorted: "sorted_code (c # cs)" and len: "\<forall>(s, l) \<in> set (c # cs). 8 < l \<and> l \<le> 15"
    and split: "split_group 0 (c # cs) = (g, rest)" and k: "128 \<le> kraft 15 (c # cs)"
  shows "NextTableBitSize count (int (snd c)) 8 = Some (int (snd (last g)) - 8)"
proof -
  let ?cs = "c # cs" and ?L = "snd (last g)"
  have app: "?cs = g @ rest" by (rule split_group_append [OF split])
  obtain g' where g': "g = c # g'" using split_group_Cons [OF split] by blast
  have kg: "kraft 15 g = 128"
  proof -
    have "\<forall>(s, l) \<in> set ?cs. 8 \<le> l \<and> l \<le> 15 \<and> 2 ^ (15 - l) dvd (0::nat)" using len by fastforce
    from split_group_kraft [OF sorted this _ _ split] k show ?thesis by simp
  qed
  have sg: "sorted_code g" and sr: "\<And>x y. x \<in> set g \<Longrightarrow> y \<in> set rest \<Longrightarrow> snd x \<le> snd y"
    using sorted unfolding app by (auto simp: sorted_append)
  have gl: "g = butlast g @ [last g]" using g' by simp
  have le: "snd x \<le> ?L" if "x \<in> set g" for x
  proof -
    have "sorted_code (butlast g @ [last g])" using sg gl by simp
    then have "\<forall>x \<in> set (butlast g). snd x \<le> ?L" by (auto simp: sorted_append)
    moreover have "x \<in> set (butlast g @ [last g])" using that gl by simp
    ultimately show ?thesis by auto
  qed
  have last: "last g \<in> set ?cs" using app g' by (metis Un_iff last_in_set list.distinct(1) set_append)
  then have L: "8 < ?L" "?L \<le> 15" using len by (auto simp: case_prod_beta)
  have cL: "snd c \<le> ?L" using le g' by simp
  have c: "8 < snd c" "snd c < 16" using len by auto
  have "below (snd c) ?cs = []" using sorted by (auto simp: below_def filter_empty_conv)
  then have left: "shl_i32 1 (int (snd c) - 8) = 2 ^ (snd c - 8) - int (kraft (snd c) (below (snd c) ?cs))"
    "0 < shl_i32 1 (int (snd c) - 8)" using c by (simp_all add: shl_i32_1 nat_diff_distrib)
  obtain R where R: "next_table_bit_size count (int (snd c)) (shl_i32 1 (int (snd c) - 8)) = Some (int R)"
      "snd c \<le> R" "R < 16" "R = 15 \<or> 2 ^ (R - 8) \<le> kraft R (below (Suc R) ?cs)"
      "\<forall>j. snd c \<le> j \<and> j < R \<longrightarrow> kraft j (below (Suc j) ?cs) < 2 ^ (j - 8)"
  proof -
    have "unat (count ! j) = cnt ?cs j" if "snd c \<le> j" "j < 16" for j
      using count(2) [of j] that c by simp
    from next_table_bit_size_at [OF count(1) this c left] that show thesis by blast
  qed
  have "?L \<le> R"
  proof (rule ccontr)
    assume n: "\<not> ?L \<le> R"
    then have "2 ^ (R - 8) * 2 ^ (15 - R) \<le> kraft R (below (Suc R) ?cs) * 2 ^ (15 - R)"
      using R(4) L by (intro mult_right_mono) auto
    then have "128 \<le> kraft 15 (below (Suc R) ?cs)"
      using power_128 [of R] R(2,3) c kraft_below_15 [of R ?cs] by simp
    moreover have "below (Suc R) rest = []"
    proof -
      have "last g \<in> set g" by (rule last_in_set) (simp add: g')
      from sr [OF this] n show ?thesis by (fastforce simp: below_def filter_empty_conv simp del: last.simps)
    qed
    moreover have "below (Suc R) [last g] = []" using n by (auto simp: below_def filter_empty_conv case_prod_beta)
    then have "below (Suc R) g = below (Suc R) (butlast g)" using gl by (metis append_Nil2 below_append)
    ultimately have "128 \<le> kraft 15 (butlast g)"
      using kraft_sublist [of 15 "\<lambda>(s, l). l < Suc R" "butlast g"] unfolding app by (simp add: below_def)
    moreover have "kraft 15 g = kraft 15 (butlast g) + 2 ^ (15 - ?L)"
      using gl by (metis kraft_append kraft_Cons kraft_Nil add_0_right prod.collapse)
    moreover have "0 < (2 :: nat) ^ (15 - ?L)" by simp
    ultimately show False using kg by linarith
  qed
  moreover have "R \<le> ?L"
  proof (rule ccontr)
    assume "\<not> R \<le> ?L"
    then have "kraft ?L (below (Suc ?L) ?cs) < 2 ^ (?L - 8)" using R(5) cL by simp
    then have "kraft ?L (below (Suc ?L) ?cs) * 2 ^ (15 - ?L) < 2 ^ (?L - 8) * 2 ^ (15 - ?L)" by simp
    then have "kraft 15 (below (Suc ?L) ?cs) < 128"
      using power_128 [of ?L] L kraft_below_15 [of ?L ?cs] by simp
    moreover have "below (Suc ?L) g = g" using le by (fastforce simp: below_def filter_id_conv)
    ultimately show False using kg unfolding app by simp
  qed
  ultimately have "R = ?L" by simp
  then show ?thesis using R(1) by (simp add: NextTableBitSize_def)
qed

text \<open>Filling one second-level table.\<close>

definition counted :: "u16 list \<Rightarrow> code \<Rightarrow> u16 list" where
  "counted = foldl (\<lambda>count (v, l). count[l := count ! l - 1])"

lemma counted_simps [simp]:
  "counted count [] = count" "counted count ((v, l) # cs) = counted (count[l := count ! l - 1]) cs"
  by (simp_all add: counted_def)

lemma counted_cnt:
  assumes "length count = 16" "\<forall>j. 9 \<le> j \<and> j < 16 \<longrightarrow> unat (count ! j) = cnt (g @ rest) j"
  shows "length (counted count g) = 16 \<and>
    (\<forall>j. 9 \<le> j \<and> j < 16 \<longrightarrow> unat (counted count g ! j) = cnt rest j)"
  using assms
proof (induction g arbitrary: count)
  case (Cons c g)
  obtain v l where c: "c = (v, l)" by fastforce
  have "unat (count[l := count ! l - 1] ! j) = cnt (g @ rest) j" if "9 \<le> j" "j < 16" for j
  proof (cases "j = l")
    case True
    then have "unat (count ! l) = Suc (cnt (g @ rest) j)" using Cons.prems(2) that by (simp add: c cnt_def)
    then have "unat (count ! l - 1) = cnt (g @ rest) j"
      by (metis diff_Suc_1 unat_minus_one unat_0 nat.distinct(1))
    then show ?thesis using True that Cons.prems(1) by simp
  next
    case False
    then show ?thesis using Cons.prems(2) that by (simp add: c cnt_def)
  qed
  with Cons.IH [of "count[l := count ! l - 1]"] Cons.prems(1) show ?case by (simp add: c)
qed simp

lemma subtables_place:
  assumes "length (sl_count s) = 16" "\<forall>(v, l) \<in> set h. 8 < l \<and> l < 16"
    and "unat (sl_sub_key s) + kraft 8 (shorten h) \<le> 256" "sl_table_size s = 2 ^ t"
    and "place_all (sl_root_table s) (sl_table_free_offset s) t (sl_sub_key s) (shorten h) = Some (table, k)"
  shows "subtables s (h @ rest) =
    subtables (s\<lparr>sl_root_table := table, sl_sub_key := k, sl_count := counted (sl_count s) h\<rparr>) rest"
  using assms
proof (induction h arbitrary: s)
  case (Cons c h)
  obtain v l where c: "c = (v, l)" by fastforce
  have l: "8 < l" "l < 16" using Cons.prems(2) by (auto simp: c)
  have p: "(2::u32) ^ (8 - (l - 8)) = 2 ^ (16 - l)" "(2::nat) ^ (8 - (l - 8)) = 2 ^ (16 - l)" using l by simp_all
  have k: "unat (sl_sub_key s) + 2 ^ (16 - l) + kraft 8 (shorten h) \<le> 256"
    using Cons.prems(3) p(2) by (simp add: c)
  then have "unat (sl_sub_key s) < 256" using zero_less_power [of "2::nat" "16 - l"] by linarith
  then have n: "sl_sub_key s \<noteq> 256" by auto
  have "unat (2 ^ (16 - l) :: u32) = 2 ^ (16 - l)"
  proof -
    have "(2::nat) ^ (16 - l) < 2 ^ 32" by (rule power_strict_increasing) auto
    from unat_of_nat_u32 [OF this] show ?thesis by simp
  qed
  then have k': "unat (sl_sub_key s + 2 ^ (16 - l)) = unat (sl_sub_key s) + 2 ^ (16 - l)"
    using k by (simp add: unat_plus_if')
  obtain r t1 where 1: "BrotliReverseBits (sl_sub_key s) = Some r"
      "ReplicateValue (sl_root_table s) (sl_table_free_offset s + r) (2 ^ (l - 8)) (2 ^ t) (entry (v, l - 8)) = Some t1"
      "place_all t1 (sl_table_free_offset s) t (sl_sub_key s + 2 ^ (16 - l)) (shorten h) = Some (table, k)"
    using Cons.prems(5) p by (auto simp: c split: bind_splits)
  define s1 where "s1 = s\<lparr>sl_root_table := t1, sl_sub_key := sl_sub_key s + 2 ^ (16 - l),
      sl_count := (sl_count s)[l := sl_count s ! l - 1]\<rparr>"
  have "subtables s (c # h @ rest) = subtables s1 (h @ rest)"
    using Cons.prems(1,4) l n 1(1,2) by (simp add: c slice_simps s1_def)
  also have "\<dots> = subtables (s1\<lparr>sl_root_table := table, sl_sub_key := k, sl_count := counted (sl_count s1) h\<rparr>) rest"
    using Cons.prems 1(3) k k' by (intro Cons.IH) (auto simp: s1_def)
  finally show ?case by (simp add: s1_def c)
next
  case Nil
  then show ?case by (cases s) auto
qed

subsection \<open>Lookup\<close>

text \<open>
  The symbol and code length a two-level table has for the bits of a number, lowest first.
\<close>

definition lookup_bits :: "HuffmanCode list \<Rightarrow> nat \<Rightarrow> u16 \<times> nat" where
  "lookup_bits table n =
    (let i = n mod 256; e = table ! i
     in if hc_bits e \<le> 8 then (hc_value e, unat (hc_bits e))
        else let e2 = table ! (i + unat (hc_value e) + n div 256 mod 2 ^ (unat (hc_bits e) - 8))
             in (hc_value e2, 8 + unat (hc_bits e2)))"

lemma rev15_low: "rev_bits 15 y mod 256 = rev_bits 8 (y div 128)"
proof -
  have "take_bit 8 (rev_bits 15 y) = rev_bits 8 (drop_bit 7 y)"
    by (rule bit_eqI) (auto simp: bit_take_bit_iff bit_rev_bits bit_drop_bit_eq)
  then show ?thesis by (simp add: take_bit_eq_mod drop_bit_eq_div)
qed

lemma rev15_high: "rev_bits 8 (rev_bits 15 y div 256) = 2 * (y mod 128)"
proof -
  have "rev_bits 8 (drop_bit 8 (rev_bits 15 y)) = 2 * take_bit 7 y"
    by (rule bit_eqI) (auto simp: bit_take_bit_iff bit_rev_bits bit_drop_bit_eq bit_double_iff)
  then show ?thesis by (simp add: take_bit_eq_mod drop_bit_eq_div)
qed

lemma rev_bits_mod:
  assumes "t \<le> w"
  shows "rev_bits w (m mod 2 ^ t) div 2 ^ (w - t) = rev_bits w m div 2 ^ (w - t)"
proof -
  have "drop_bit (w - t) (rev_bits w (take_bit t m)) = drop_bit (w - t) (rev_bits w m)"
    using assms by (intro bit_eqI) (auto simp: bit_take_bit_iff bit_rev_bits bit_drop_bit_eq)
  then show ?thesis by (simp add: take_bit_eq_mod drop_bit_eq_div)
qed

lemmas rev8_mod = rev_bits_mod [of _ 8]

lemma root_lookup:
  assumes "table ! rev_bits 8 (y div 128) = entry c" "snd c \<le> 8"
  shows "lookup_bits table (rev_bits 15 y) = c"
  using assms by (cases c) (simp add: lookup_bits_def rev15_low entry_def word_le_nat_alt unsigned_of_nat take_bit_nat_eq_self)

lemma group_lookup:
  assumes t: "t \<le> 7" and g: "\<forall>(s, l) \<in> set g. 8 < l \<and> l \<le> 8 + t" "kraft 15 g = 128"
    and free: "256 \<le> free" "free < 65536" and k: "k < 256"
    and pointer: "table ! rev_bits 8 k = \<lparr>hc_value = of_nat (free - rev_bits 8 k), hc_bits = of_nat (8 + t)\<rparr>"
    and sub: "\<forall>i < 2 ^ t. table ! (free + i) = entry (canonical 8 (shorten g) (rev_bits 8 i))"
    and z: "z < 128" and t0: "0 < t"
  shows "lookup_bits table (rev_bits 15 (k * 128 + z)) = canonical 15 g z"
proof -
  let ?y = "k * 128 + z"
  define i where "i = rev_bits 15 ?y div 256 mod 2 ^ t"
  have r: "rev_bits 8 k < 256" using rev_bits_less [of 8 k] by simp
  have idx: "rev_bits 8 k + unat (of_nat (free - rev_bits 8 k) :: u16) = free"
  proof -
    define d where "d = free - rev_bits 8 k"
    have "unat (of_nat d :: u16) = d" using free by (simp add: d_def unsigned_of_nat take_bit_nat_eq_self del: of_nat_diff)
    then show ?thesis using free r by (simp add: d_def [symmetric]) (simp add: d_def)
  qed
  have bits: "unat (of_nat (8 + t) :: u8) = 8 + t"
    using t by (simp add: unsigned_of_nat take_bit_nat_eq_self del: of_nat_add)
  have big: "\<not> (of_nat (8 + t) :: u8) \<le> 8" unfolding word_le_nat_alt bits using t0 by simp
  have i: "i < 2 ^ t" by (simp add: i_def)
  have lens: "\<forall>(s, l) \<in> set (shorten g). l \<le> t" using g(1) by (force simp: shorten_def)
  have "canonical 8 (shorten g) (rev_bits 8 i) = canonical 8 (shorten g) (rev_bits 8 (rev_bits 15 ?y div 256))"
    using canonical_div [OF lens, of 8] t rev8_mod [of t "rev_bits 15 ?y div 256"] by (simp add: i_def)
  also have "\<dots> = canonical 8 (shorten g) (2 * z)" unfolding rev15_high using z by simp
  finally have e2: "table ! (free + i) = entry (canonical 8 (shorten g) (2 * z))" using sub i by simp
  have g15: "\<forall>(s, l) \<in> set g. 8 < l \<and> l \<le> 15" using g(1) t by fastforce
  have "canonical 8 (shorten g) (2 * z) \<in> set (shorten g)"
    using z g(2) kraft_shorten [OF g15] by (intro canonical_in) simp
  then have "snd (canonical 8 (shorten g) (2 * z)) \<le> 7" using lens t by fastforce
  then have "unat (of_nat (snd (canonical 8 (shorten g) (2 * z))) :: u8) = snd (canonical 8 (shorten g) (2 * z))"
    by (simp add: unsigned_of_nat take_bit_nat_eq_self)
  moreover have "rev_bits 15 ?y mod 256 = rev_bits 8 k" unfolding rev15_low using z by simp
  ultimately show ?thesis
    using canonical_shorten [OF g15, of z] z g(2) e2 big bits
    by (simp add: lookup_bits_def Let_def pointer idx i_def entry_def)
qed

text \<open>
  An entry of the root table that points to a second-level table: the table lies below \<open>n\<close> and its
  entries have a length that its width covers.
\<close>

definition pointer_ok :: "HuffmanCode list \<Rightarrow> nat \<Rightarrow> nat \<Rightarrow> bool" where
  "pointer_ok table n i \<longleftrightarrow>
    (let e = table ! i; v = i + unat (hc_value e); t = unat (hc_bits e) - 8
     in 8 < hc_bits e \<and> hc_bits e \<le> 15 \<and> v + 2 ^ t \<le> n \<and>
        (\<forall>j < 2 ^ t. hc_bits (table ! (v + j)) \<noteq> 0 \<and> unat (hc_bits (table ! (v + j))) \<le> t))"

lemma group_pointer_ok:
  assumes t: "0 < t" "t \<le> 7" and g: "\<forall>(s, l) \<in> set g. 8 < l \<and> l \<le> 8 + t" "kraft 15 g = 128"
    and free: "256 \<le> free" "free < 65536" "free + 2 ^ t \<le> n" and i: "i < 256"
    and pointer: "table ! i = \<lparr>hc_value = of_nat (free - i), hc_bits = of_nat (8 + t)\<rparr>"
    and sub: "\<forall>j < 2 ^ t. table ! (free + j) = entry (canonical 8 (shorten g) (rev_bits 8 j))"
  shows "pointer_ok table n i"
proof -
  have idx: "i + unat (of_nat (free - i) :: u16) = free"
  proof -
    define d where "d = free - i"
    have "unat (of_nat d :: u16) = d" using free by (simp add: d_def unsigned_of_nat take_bit_nat_eq_self del: of_nat_diff)
    then show ?thesis using free i by (simp add: d_def [symmetric]) (simp add: d_def)
  qed
  have bits: "unat (of_nat (8 + t) :: u8) = 8 + t"
    using t by (simp add: unsigned_of_nat take_bit_nat_eq_self del: of_nat_add)
  have g15: "\<forall>(s, l) \<in> set g. 8 < l \<and> l \<le> 15" using g(1) t by fastforce
  have "hc_bits (table ! (free + j)) \<noteq> 0 \<and> unat (hc_bits (table ! (free + j))) \<le> t" if "j < 2 ^ t" for j
  proof -
    let ?c = "canonical 8 (shorten g) (rev_bits 8 j)"
    have "?c \<in> set (shorten g)"
      using rev_bits_less [of 8 j] g(2) kraft_shorten [OF g15] by (intro canonical_in) simp
    then have c: "0 < snd ?c" "snd ?c \<le> t" using g(1) by (force simp: shorten_def)+
    then have "unat (of_nat (snd ?c) :: u8) = snd ?c"
      using t by (simp add: unsigned_of_nat take_bit_nat_eq_self)
    with c sub that show ?thesis by (auto simp: entry_def unat_eq_0 [symmetric])
  qed
  moreover have "8 < (of_nat (8 + t) :: u8)" "(of_nat (8 + t) :: u8) \<le> 15"
    unfolding word_less_nat_alt word_le_nat_alt bits using t by simp_all
  ultimately show ?thesis
    using free(3) bits unfolding pointer_ok_def pointer Let_def HuffmanCode.simps idx by simp
qed

subsection \<open>All second-level tables\<close>

definition second_level_ok :: "SecondLevel \<Rightarrow> code \<Rightarrow> nat \<Rightarrow> bool" where
  "second_level_ok s cs n \<longleftrightarrow>
    length (sl_count s) = 16 \<and> (\<forall>j. 9 \<le> j \<and> j < 16 \<longrightarrow> unat (sl_count s ! j) = cnt cs j) \<and>
    sl_sub_key s = 256 \<and> sl_table_free_offset s + u32_of_i32 (sl_table_size s) = of_nat n \<and>
    sl_total_size s = int n \<and> 256 \<le> n \<and> n \<le> 256 + 128 * unat (sl_key s) \<and>
    unat (sl_key s) * 128 + kraft 15 cs = 2 ^ 15"

lemma open_second_level_at:
  assumes ok: "second_level_ok s cs n" and key: "unat (sl_key s) < 256"
    and bits: "NextTableBitSize (sl_count s) len 8 = Some (int t)" "t \<le> 7"
    and room: "n < length (sl_root_table s)"
  shows "open_second_level s 1 len 8 = Some (s\<lparr>
      sl_root_table := (sl_root_table s)[rev_bits 8 (unat (sl_key s)) :=
        \<lparr>hc_value = of_nat (n - rev_bits 8 (unat (sl_key s))), hc_bits = of_nat (8 + t)\<rparr>],
      sl_table_free_offset := of_nat n, sl_table_bits := int t, sl_table_size := 2 ^ t,
      sl_total_size := int n + 2 ^ t, sl_key := sl_key s + 1, sl_sub_key := 0\<rparr>)"
proof -
  let ?r = "rev_bits 8 (unat (sl_key s))"
  have r: "?r < 256" using rev_bits_less [of 8 "unat (sl_key s)"] by simp
  have n: "256 \<le> n" "n \<le> 33024" using ok key by (auto simp: second_level_ok_def)
  have "(ucast (of_nat n :: u32) :: u16) = of_nat n" "(ucast (of_nat ?r :: u32) :: u16) = of_nat ?r"
    using n r by (simp_all add: unsigned_of_nat take_bit_nat_eq_self)
  then have pointer: "(ucast (of_nat n :: u32) :: u16) - ucast (of_nat ?r :: u32) = of_nat (n - ?r)"
    using n r by (simp add: of_nat_diff)
  have t: "(2::int) ^ t \<le> 128" using power_increasing [OF bits(2), of "2::int"] by simp
  have total: "i32 (sl_total_size s + 2 ^ t) = int n + 2 ^ t"
  proof -
    have "sl_total_size s = int n" using ok by (simp add: second_level_ok_def)
    moreover have "0 \<le> int n + 2 ^ t" "int n + 2 ^ t < 2147483648" using n t by simp_all
    then have "i32 (int n + 2 ^ t) = int n + 2 ^ t" by (intro i32_id) linarith+
    ultimately show ?thesis by (simp only:)
  qed
  have "unat (of_nat ?r :: u32) = ?r" using r by (intro unat_of_nat_u32) simp
  then have put: "put (sl_root_table s) (unat (of_nat ?r :: u32)) e = Some ((sl_root_table s)[?r := e])" for e
    using r n room by (simp add: slice_simps)
  have "shl_i32 1 (int t) = 2 ^ t" using bits(2) by (simp add: shl_i32_1)
  then show ?thesis
    using ok bits(1) BrotliReverseBits_rev_bits [OF key] put pointer total
    by (simp add: open_second_level_def second_level_ok_def Let_def add.commute)
qed

lemma subtables_open:
  assumes "sl_sub_key s = 256" "open_second_level s 1 (int (snd c)) 8 = Some s1"
    and "sl_count s1 = sl_count s" "sl_sub_key s1 = 0"
  shows "subtables s (c # cs) = subtables s1 (c # cs)"
  using assms by (cases c) simp

text \<open>The codes of the first second-level table: they take up one entry of the root table.\<close>

lemma first_group:
  assumes split: "split_group 0 cs = (g, rest)" and ne: "cs \<noteq> []" and sorted: "sorted_code cs"
    and len: "\<forall>(s, l) \<in> set cs. 8 < l \<and> l \<le> 15" and k: "128 \<le> kraft 15 cs"
  shows "cs = g @ rest" "g \<noteq> []" "kraft 15 g = 128" "sorted_code g" "sorted_code rest"
    "8 < snd (last g)" "snd (last g) \<le> 15" "\<forall>(s, l) \<in> set g. 8 < l \<and> l \<le> snd (last g)"
proof -
  show app: "cs = g @ rest" by (rule split_group_append [OF split])
  from ne split show g: "g \<noteq> []" by (cases cs) (auto dest!: split_group_Cons simp del: split_group.simps)
  have "\<forall>(s, l) \<in> set cs. 8 \<le> l \<and> l \<le> 15 \<and> 2 ^ (15 - l) dvd (0::nat)" using len by fastforce
  from split_group_kraft [OF sorted this _ _ split] k show "kraft 15 g = 128" by simp
  show sg: "sorted_code g" and "sorted_code rest" using sorted unfolding app by (simp_all add: sorted_append)
  have "last g \<in> set cs" using g app by simp
  then show "8 < snd (last g)" "snd (last g) \<le> 15" using len by (auto simp: case_prod_beta)
  have gl: "g = butlast g @ [last g]" using g by simp
  then have "sorted_code (butlast g @ [last g])" using sg by simp
  then have "\<forall>x \<in> set (butlast g). snd x \<le> snd (last g)" by (auto simp: sorted_append)
  then have "\<forall>x \<in> set (butlast g @ [last g]). snd x \<le> snd (last g)" by auto
  then show "\<forall>(s, l) \<in> set g. 8 < l \<and> l \<le> snd (last g)" using len app g by auto
qed

lemma sorted_shorten: "sorted_code g \<Longrightarrow> sorted_code (shorten g)"
proof -
  have "map snd (shorten g) = map (\<lambda>l. l - 8) (map snd g)"
    by (simp add: shorten_def case_prod_beta)
  moreover have "sorted xs \<Longrightarrow> sorted (map (\<lambda>l. l - 8) xs)" for xs :: "nat list"
    by (induction xs) auto
  ultimately show "sorted_code g \<Longrightarrow> sorted_code (shorten g)" by (simp only:)
qed

lemma place_group:
  assumes g: "sorted_code g" "kraft 15 g = 128" "\<forall>(s, l) \<in> set g. 8 < l \<and> l \<le> 8 + t" and t: "t \<le> 7"
    and n: "n \<le> 33024" "n + 2 ^ t \<le> length table"
  shows "\<exists>table'. place_all table (of_nat n) t 0 (shorten g) = Some (table', 256) \<and>
    length table' = length table \<and>
    (\<forall>i < 2 ^ t. table' ! (n + i) = entry (canonical 8 (shorten g) (rev_bits 8 i))) \<and>
    (\<forall>i < length table. i < n \<or> n + 2 ^ t \<le> i \<longrightarrow> table' ! i = table ! i)"
proof -
  have n32: "unat (of_nat n :: u32) = n" using n(1) by (intro unat_of_nat_u32) simp
  have "\<forall>(s, l) \<in> set g. 8 < l \<and> l \<le> 15" using g(3) t by fastforce
  then have ks: "kraft 8 (shorten g) = 256" using kraft_shorten g(2) by simp
  have "\<forall>(s, l) \<in> set (shorten g). l \<le> t \<and> 2 ^ (8 - l) dvd unat (0 :: u32)"
    using g(3) by (force simp: shorten_def)
  from place_all_at [OF sorted_shorten [OF g(1)] this, of "of_nat n" table, unfolded n32 ks] t n
  obtain table' where t': "place_all table (of_nat n) t 0 (shorten g) = Some (table', 256)"
    "length table' = length table"
    "\<forall>i < 2 ^ t. table' ! (n + i) = (if 0 \<le> rev_bits 8 i \<and> rev_bits 8 i < 256
       then entry (canonical 8 (shorten g) (rev_bits 8 i)) else table ! (n + i))"
    "\<forall>i < length table. i < n \<or> n + 2 ^ t \<le> i \<longrightarrow> table' ! i = table ! i" by auto
  moreover have "rev_bits 8 i < 256" for i using rev_bits_less [of 8 i] by simp
  ultimately show ?thesis by auto
qed

lemma subtables_group:
  assumes ok: "second_level_ok s cs n" and sorted: "sorted_code cs"
    and len: "\<forall>(s, l) \<in> set cs. 8 < l \<and> l \<le> 15" and cs: "cs = c # cs'"
    and split: "split_group 0 cs = (g, rest)" and t: "snd (last g) = 8 + t"
    and room: "n + 2 ^ t \<le> length (sl_root_table s)"
    and key: "unat (sl_key s) < 256" and k: "128 \<le> kraft 15 cs"
  shows "\<exists>s2. subtables s cs = subtables s2 rest \<and> second_level_ok s2 rest (n + 2 ^ t) \<and>
    unat (sl_key s2) = unat (sl_key s) + 1 \<and> length (sl_root_table s2) = length (sl_root_table s) \<and>
    sl_root_table s2 ! rev_bits 8 (unat (sl_key s)) =
      \<lparr>hc_value = of_nat (n - rev_bits 8 (unat (sl_key s))), hc_bits = of_nat (8 + t)\<rparr> \<and>
    (\<forall>i < 2 ^ t. sl_root_table s2 ! (n + i) = entry (canonical 8 (shorten g) (rev_bits 8 i))) \<and>
    (\<forall>i < length (sl_root_table s). i \<noteq> rev_bits 8 (unat (sl_key s)) \<and> (i < n \<or> n + 2 ^ t \<le> i) \<longrightarrow>
      sl_root_table s2 ! i = sl_root_table s ! i)"
proof -
  have "cs \<noteq> []" using cs by simp
  note f = first_group [OF split this sorted len k, unfolded t]
  have g: "cs = g @ rest" "kraft 15 g = 128" "sorted_code g" "\<forall>(s, l) \<in> set g. 8 < l \<and> l \<le> 8 + t" "t \<le> 7"
    using f by simp_all
  have ok': "unat (sl_key s) * 128 + kraft 15 cs = 2 ^ 15" "256 \<le> n" "n \<le> 256 + 128 * unat (sl_key s)"
    "sl_sub_key s = 256" "length (sl_count s) = 16" "\<forall>j. 9 \<le> j \<and> j < 16 \<longrightarrow> unat (sl_count s ! j) = cnt cs j"
    using ok by (simp_all add: second_level_ok_def)
  let ?key = "unat (sl_key s)" and ?root = "sl_root_table s"
  let ?r = "rev_bits 8 ?key"
  let ?p = "\<lparr>hc_value = of_nat (n - ?r), hc_bits = of_nat (8 + t)\<rparr> :: HuffmanCode"
  have r: "?r < n" using rev_bits_less [of 8 ?key] ok'(2) by simp
  have n: "n \<le> 33024" "n < length ?root" using ok'(3) key room zero_less_power [of "2::nat" t] by linarith+
  have bits: "NextTableBitSize (sl_count s) (int (snd c)) 8 = Some (int t)"
    using NextTableBitSize_at [OF ok'(5) _ sorted [unfolded cs] len [unfolded cs] split [unfolded cs] k [unfolded cs]]
      ok'(6) t cs by simp
  define s1 where "s1 = s\<lparr>
      sl_root_table := ?root[?r := ?p], sl_table_free_offset := of_nat n, sl_table_bits := int t,
      sl_table_size := 2 ^ t, sl_total_size := int n + 2 ^ t, sl_key := sl_key s + 1, sl_sub_key := 0\<rparr>"
  have opened: "open_second_level s 1 (int (snd c)) 8 = Some s1"
    unfolding s1_def by (rule open_second_level_at [OF ok key bits g(5) n(2)])
  obtain t2 where t2: "place_all (?root[?r := ?p]) (of_nat n) t 0 (shorten g) = Some (t2, 256)"
    "length t2 = length ?root"
    "\<forall>i < 2 ^ t. t2 ! (n + i) = entry (canonical 8 (shorten g) (rev_bits 8 i))"
    "\<forall>i < length ?root. i < n \<or> n + 2 ^ t \<le> i \<longrightarrow> t2 ! i = ?root[?r := ?p] ! i"
    using place_group [OF g(3,2,4,5) n(1), of "?root[?r := ?p]"] room by auto
  define s2 where "s2 = s1\<lparr>sl_root_table := t2, sl_sub_key := 256, sl_count := counted (sl_count s) g\<rparr>"
  have "sl_count s1 = sl_count s" "sl_sub_key s1 = 0" by (simp_all add: s1_def)
  then have "subtables s cs = subtables s1 (g @ rest)"
    unfolding g(1) [symmetric] cs by (rule subtables_open [OF ok'(4) opened])
  also have "\<dots> = subtables s2 rest"
  proof -
    have g15: "\<forall>(s, l) \<in> set g. 8 < l \<and> l \<le> 15" using g(4,5) by fastforce
    have "subtables s1 (g @ rest) =
        subtables (s1\<lparr>sl_root_table := t2, sl_sub_key := 256, sl_count := counted (sl_count s1) g\<rparr>) rest"
    proof (rule subtables_place)
      show "place_all (sl_root_table s1) (sl_table_free_offset s1) t (sl_sub_key s1) (shorten g) = Some (t2, 256)"
        using t2(1) by (simp add: s1_def)
    qed (use ok'(5) g15 kraft_shorten [OF g15] g(2) in \<open>auto simp: s1_def\<close>)
    then show ?thesis by (simp add: s2_def s1_def)
  qed
  finally have step: "subtables s cs = subtables s2 rest" .
  have t128: "(2::nat) ^ t \<le> 128" using power_increasing [OF g(5), of "2::nat"] by simp
  have key1: "unat (sl_key s2) = ?key + 1" using key by (simp add: s2_def s1_def unat_plus_if')
  have "length (counted (sl_count s) g) = 16 \<and>
      (\<forall>j. 9 \<le> j \<and> j < 16 \<longrightarrow> unat (counted (sl_count s) g ! j) = cnt rest j)"
    using counted_cnt [of "sl_count s" g rest] ok'(5,6) unfolding g(1) by blast
  then have "second_level_ok s2 rest (n + 2 ^ t)"
    using ok'(1-3) g(2) t128 key1 unfolding g(1) by (simp add: second_level_ok_def s2_def s1_def)
  moreover have "t2 ! ?r = ?p" using t2(4) r n by simp
  ultimately show ?thesis using step key1 t2(2-4) by (intro exI [of _ s2]) (auto simp: s2_def)
qed

lemma subtables_at:
  assumes "second_level_ok s cs n" "sorted_code cs" "\<forall>(s, l) \<in> set cs. 8 < l \<and> l \<le> 15"
    and "n + second_level_size cs \<le> length (sl_root_table s)"
  shows "\<exists>s'. subtables s cs = Some s' \<and> sl_total_size s' = int (n + second_level_size cs) \<and>
    length (sl_root_table s') = length (sl_root_table s) \<and>
    (\<forall>k < unat (sl_key s). sl_root_table s' ! rev_bits 8 k = sl_root_table s ! rev_bits 8 k) \<and>
    (\<forall>i < length (sl_root_table s). 256 \<le> i \<and> i < n \<or> n + second_level_size cs \<le> i \<longrightarrow>
      sl_root_table s' ! i = sl_root_table s ! i) \<and>
    (\<forall>y. unat (sl_key s) * 128 \<le> y \<and> y < 2 ^ 15 \<longrightarrow>
      lookup_bits (sl_root_table s') (rev_bits 15 y) = canonical 15 cs (y - unat (sl_key s) * 128)) \<and>
    (\<forall>k. unat (sl_key s) \<le> k \<and> k < 256 \<longrightarrow>
      pointer_ok (sl_root_table s') (n + second_level_size cs) (rev_bits 8 k))"
  using assms
proof (induction cs arbitrary: s n rule: second_level_size.induct)
  case 1
  then show ?case by (auto simp: second_level_ok_def)
next
  case (2 c cs)
  let ?cs = "c # cs" and ?key = "unat (sl_key s)" and ?root = "sl_root_table s"
  obtain g rest where split: "split_group 0 ?cs = (g, rest)" by fastforce
  have ok: "?key * 128 + kraft 15 ?cs = 32768" "256 \<le> n" "n \<le> 256 + 128 * ?key"
    using "2.prems"(1) by (simp_all add: second_level_ok_def)
  have "0 < kraft 15 ?cs" by (cases c) simp
  then have key: "?key < 256" using ok(1) by simp
  then have "?key \<le> 255" by simp
  then have k: "128 \<le> kraft 15 ?cs" using ok(1) by linarith
  define t where "t = snd (last g) - 8"
  note f = first_group [OF split list.distinct(2) "2.prems"(2,3) k]
  have t: "0 < t" "t \<le> 7" "snd (last g) = 8 + t" using f(6,7) by (simp_all add: t_def)
  have g: "?cs = g @ rest" "kraft 15 g = 128" "sorted_code rest" "\<forall>(s, l) \<in> set g. 8 < l \<and> l \<le> 8 + t"
    using f t(3) by simp_all
  have size: "second_level_size ?cs = 2 ^ t + second_level_size rest"
    unfolding second_level_size.simps split by (simp add: t_def)
  have room: "n + 2 ^ t + second_level_size rest \<le> length ?root" using "2.prems"(4) size by simp
  then have "n + 2 ^ t \<le> length ?root" by simp
  from subtables_group [OF "2.prems"(1-3) refl split t(3) this key k]
  obtain s2 where s2: "subtables s ?cs = subtables s2 rest" "second_level_ok s2 rest (n + 2 ^ t)"
    "unat (sl_key s2) = ?key + 1" "length (sl_root_table s2) = length ?root"
    "sl_root_table s2 ! rev_bits 8 ?key =
      \<lparr>hc_value = of_nat (n - rev_bits 8 ?key), hc_bits = of_nat (8 + t)\<rparr>"
    "\<forall>i < 2 ^ t. sl_root_table s2 ! (n + i) = entry (canonical 8 (shorten g) (rev_bits 8 i))"
    "\<forall>i < length ?root. i \<noteq> rev_bits 8 ?key \<and> (i < n \<or> n + 2 ^ t \<le> i) \<longrightarrow> sl_root_table s2 ! i = ?root ! i"
    by blast
  have rest15: "\<forall>(s, l) \<in> set rest. 8 < l \<and> l \<le> 15" using "2.prems"(3) unfolding g(1) by simp
  from "2.IH" [OF split [symmetric] refl s2(2) g(3) rest15] room s2(4)
  obtain s' where s': "subtables s2 rest = Some s'" "sl_total_size s' = int (n + 2 ^ t + second_level_size rest)"
    "length (sl_root_table s') = length ?root"
    "\<forall>k < ?key + 1. sl_root_table s' ! rev_bits 8 k = sl_root_table s2 ! rev_bits 8 k"
    "\<forall>i < length ?root. 256 \<le> i \<and> i < n + 2 ^ t \<or> n + 2 ^ t + second_level_size rest \<le> i \<longrightarrow>
      sl_root_table s' ! i = sl_root_table s2 ! i"
    "\<forall>y. (?key + 1) * 128 \<le> y \<and> y < 2 ^ 15 \<longrightarrow>
      lookup_bits (sl_root_table s') (rev_bits 15 y) = canonical 15 rest (y - (?key + 1) * 128)"
    "\<forall>k. ?key + 1 \<le> k \<and> k < 256 \<longrightarrow>
      pointer_ok (sl_root_table s') (n + 2 ^ t + second_level_size rest) (rev_bits 8 k)"
    unfolding s2(3,4) by auto
  have r_less: "rev_bits 8 k < n" for k using rev_bits_less [of 8 k] ok(2) by simp
  have A: "sl_root_table s' ! rev_bits 8 k = ?root ! rev_bits 8 k" if "k < ?key" for k
  proof -
    have "rev_bits 8 k \<noteq> rev_bits 8 ?key" using that key rev_bits_rev_bits [of k 8] rev_bits_rev_bits [of ?key 8] by auto
    then show ?thesis using s'(4) s2(7) that r_less [of k] room by simp
  qed
  have B: "sl_root_table s' ! i = ?root ! i"
    if "i < length ?root" "256 \<le> i \<and> i < n \<or> n + second_level_size ?cs \<le> i" for i
  proof -
    have "i \<noteq> rev_bits 8 ?key" using that(2) rev_bits_less [of 8 ?key] ok(2) by auto
    then show ?thesis using s'(5) s2(7) that size by auto
  qed
  have p: "sl_root_table s' ! rev_bits 8 ?key =
        \<lparr>hc_value = of_nat (n - rev_bits 8 ?key), hc_bits = of_nat (8 + t)\<rparr>"
    using s'(4) s2(5) by simp
  have q: "\<forall>i < 2 ^ t. sl_root_table s' ! (n + i) = entry (canonical 8 (shorten g) (rev_bits 8 i))"
    using s'(5) s2(6) ok(2) room by simp
  have n: "n < 65536" using ok(3) key by simp
  have C: "lookup_bits (sl_root_table s') (rev_bits 15 y) = canonical 15 ?cs (y - ?key * 128)"
    if "?key * 128 \<le> y" "y < 2 ^ 15" for y
  proof (cases "y < (?key + 1) * 128")
    case True
    define z where "z = y - ?key * 128"
    have z: "y = ?key * 128 + z" "z < 128" using that(1) True by (simp_all add: z_def)
    have "lookup_bits (sl_root_table s') (rev_bits 15 (?key * 128 + z)) = canonical 15 g z"
      by (rule group_lookup [OF t(2) g(4,2) ok(2) n key p q z(2) t(1)])
    then show ?thesis using z g(2) unfolding g(1) by (simp add: canonical_append)
  next
    case False
    then have "(?key + 1) * 128 \<le> y" by simp
    then have "lookup_bits (sl_root_table s') (rev_bits 15 y) = canonical 15 rest (y - (?key + 1) * 128)"
      using s'(6) that(2) by simp
    moreover have "y - (?key + 1) * 128 = y - ?key * 128 - 128" "\<not> y - ?key * 128 < 128" using False by auto
    ultimately show ?thesis using g(2) unfolding g(1) by (simp add: canonical_append)
  qed
  have D: "pointer_ok (sl_root_table s') (n + second_level_size ?cs) (rev_bits 8 k)"
    if "?key \<le> k" "k < 256" for k
  proof (cases "k = ?key")
    case True
    have "n + 2 ^ t \<le> n + second_level_size ?cs" using size by simp
    from group_pointer_ok [OF t(1,2) g(4,2) ok(2) n this _ p q] show ?thesis
      using rev_bits_less [of 8 ?key] True by simp
  next
    case False
    then show ?thesis using s'(7) that size by (simp add: add.assoc)
  qed
  from s2(1) s'(1-3) size A B C D show ?case by (intro exI [of _ s']) (simp add: add.assoc)
qed

subsection \<open>The whole table\<close>

lemma cnt_append: "cnt (xs @ ys) m = cnt xs m + cnt ys m"
  by (simp add: cnt_def)

lemma length_chain [simp]: "length (chain syms off symbol n) = n"
  by (induction syms off symbol n rule: chain.induct) (auto simp: Let_def)

lemma cnt_codes_of_length:
  "cnt (codes_of_length syms off count l) m = (if m = l then unat (count ! l) else 0)"
  by (auto simp: cnt_def codes_of_length_def filter_map comp_def)

lemma cnt_codes_from:
  "cnt (codes_from syms off count a b) m = (if a \<le> m \<and> m < b then unat (count ! m) else 0)"
proof (induction b)
  case (Suc b)
  show ?case
  proof (cases "a \<le> b")
    case True
    then have "codes_from syms off count a (Suc b) = codes_from syms off count a b @ codes_of_length syms off count b"
      by (simp add: codes_from_def)
    then show ?thesis using Suc True by (auto simp: cnt_append cnt_codes_of_length)
  qed (simp add: codes_from_def cnt_def)
qed (simp add: codes_from_def cnt_def)

lemma codes_from_none:
  "(\<And>j. a \<le> j \<Longrightarrow> j < b \<Longrightarrow> count ! j = 0) \<Longrightarrow> codes_from syms off count a b = []"
  by (simp add: codes_from_def codes_of_length_def)

text \<open>The entries a table takes: the root table and the second-level tables.\<close>

definition table_entries :: "code \<Rightarrow> nat" where
  "table_entries cs = 256 + second_level_size (filter (\<lambda>(s, l). 8 < l) cs)"

lemma root_table_at:
  assumes h: "histogram_ok syms off count" and m: "tb \<le> 8" "1 \<le> tb" and room: "256 \<le> length table"
    and k: "kraft 8 (codes_from syms off count 1 (Suc tb)) \<le> 256"
    and full: "tb = 8 \<or> kraft 8 (codes_from syms off count 1 (Suc tb)) = 256"
  shows "\<exists>t1 t2. fill_root_table table syms off count 0 0 128 2 (2 ^ tb) (int tb) 1 =
      Some (t1, of_nat (kraft 8 (codes_from syms off count 1 (Suc tb)))) \<and>
    double_table t1 0 256 (2 ^ tb) = Some (t2, 256) \<and> length t2 = length table \<and>
    (\<forall>i < length table. 256 \<le> i \<longrightarrow> t2 ! i = table ! i) \<and>
    (\<forall>k < kraft 8 (codes_from syms off count 1 (Suc tb)).
      t2 ! rev_bits 8 k = entry (canonical 8 (codes_from syms off count 1 (Suc tb)) k))"
proof -
  let ?A = "codes_from syms off count 1 (Suc tb)"
  have p: "(2::nat) ^ tb \<le> 256" using power_increasing [OF m(1), of "2::nat"] by simp
  have lens: "\<forall>(s, l) \<in> set ?A. l \<le> tb" using codes_from_set [of _ _ syms off count 1 "Suc tb"] by fastforce
  then have "\<forall>(s, l) \<in> set ?A. l \<le> tb \<and> 2 ^ (8 - l) dvd unat (0 :: u32)" by simp
  from place_all_at [OF sorted_codes_from this m(1), of 0 table] p room k
  obtain t1 where t1: "place_all table 0 tb 0 ?A = Some (t1, of_nat (kraft 8 ?A))" "length t1 = length table"
    "\<forall>i < 2 ^ tb. t1 ! i = (if rev_bits 8 i < kraft 8 ?A then entry (canonical 8 ?A (rev_bits 8 i)) else table ! i)"
    "\<forall>i < length table. 2 ^ tb \<le> i \<longrightarrow> t1 ! i = table ! i" by auto
  have fill: "fill_root_table table syms off count 0 0 128 2 (2 ^ tb) (int tb) 1 = place_all table 0 tb 0 ?A"
    using fill_root_table_place [OF h order_refl m(2,1), of table 0 0 tb] by simp
  obtain t2 where t2: "double_table t1 0 256 (2 ^ tb) = Some (t2, 256)" "length t2 = length table"
    "\<forall>i < 256. t2 ! i = t1 ! (i mod 2 ^ tb)" "\<forall>i < length table. 256 \<le> i \<longrightarrow> t2 ! i = t1 ! i"
    using double_table_at [OF m(1), of t1] room t1(2) by auto
  have "t2 ! rev_bits 8 k = entry (canonical 8 ?A k)" if "k < kraft 8 ?A" for k
  proof -
    let ?i = "rev_bits 8 k"
    have i: "?i < 256" "rev_bits 8 (?i mod 2 ^ tb) < 256"
      using rev_bits_less [of 8] by simp_all
    have rr: "rev_bits 8 ?i = k" using that k by (intro rev_bits_rev_bits) simp
    have "rev_bits 8 (?i mod 2 ^ tb) < kraft 8 ?A"
      using full i that rr by auto
    moreover have "canonical 8 ?A (rev_bits 8 (?i mod 2 ^ tb)) = canonical 8 ?A k"
      using canonical_div [OF lens m(1)] rev8_mod [OF m(1), of ?i] rr by simp
    ultimately show ?thesis using t2(3) t1(3) i(1) by simp
  qed
  moreover have "t2 ! i = table ! i" if "i < length table" "256 \<le> i" for i
    using t2(4) t1(4) that p by simp
  ultimately show ?thesis using fill t1(1) t2(1,2) by auto
qed

lemma second_levels_at:
  assumes h: "histogram_ok syms off count" and m: "m < 16" "\<And>j. m < j \<Longrightarrow> j < 16 \<Longrightarrow> count ! j = 0"
    and s: "sl_count s = count"
  shows "second_levels s syms off 1 128 2 9 (int m) 8 = subtables s (codes_from syms off count 9 16)"
proof (cases "m < 8")
  case True
  then have "codes_from syms off count 9 16 = []" using m(2) by (intro codes_from_none) simp
  then show ?thesis using True by (subst second_levels.simps) simp
next
  case False
  have "codes_from syms off count 9 16 = codes_from syms off count 9 (Suc m) @ codes_from syms off count (Suc m) 16"
    using False m(1) by (intro codes_from_split) auto
  moreover have "codes_from syms off count (Suc m) 16 = []" using m(2) by (intro codes_from_none) simp
  ultimately show ?thesis
    using second_levels_subtables [of s 9 m syms off] h m(1) False s by (simp add: histogram_ok_def)
qed

lemma longest_code:
  assumes "codes_from syms off count 1 16 \<noteq> []"
  shows "\<exists>m. 1 \<le> m \<and> m < 16 \<and> count ! m \<noteq> 0 \<and> (\<forall>j. m < j \<and> j < 16 \<longrightarrow> count ! j = 0)"
proof -
  let ?S = "{j. 1 \<le> j \<and> j < 16 \<and> count ! j \<noteq> 0}"
  have "?S \<noteq> {}" using assms codes_from_none [of 1 16 count syms off] by auto
  moreover have fin: "finite ?S" by simp
  ultimately have "Max ?S \<in> ?S" by (rule Max_in [rotated])
  moreover have "j \<le> Max ?S" if "j \<in> ?S" for j using that fin by (rule Max_ge [rotated])
  ultimately obtain m where m: "m \<in> ?S" "\<And>j. j \<in> ?S \<Longrightarrow> j \<le> m" by blast
  have "count ! j = 0" if "m < j" "j < 16" for j
  proof (rule ccontr)
    assume "count ! j \<noteq> 0"
    with that m(1) have "j \<in> ?S" by simp
    from m(2) [OF this] that show False by simp
  qed
  with m(1) show ?thesis by auto
qed

lemma BuildHuffmanTable_at:
  assumes h: "histogram_ok syms off count" and k: "kraft 15 (codes_from syms off count 1 16) = 2 ^ 15"
    and room: "table_entries (codes_from syms off count 1 16) \<le> length table"
  shows "\<exists>table' count'. BrotliBuildHuffmanTable table 8 syms off count =
      Some (table', count', of_nat (table_entries (codes_from syms off count 1 16))) \<and>
    length table' = length table \<and>
    (\<forall>i < length table. table_entries (codes_from syms off count 1 16) \<le> i \<longrightarrow> table' ! i = table ! i) \<and>
    (\<forall>y < 2 ^ 15. lookup_bits table' (rev_bits 15 y) = canonical 15 (codes_from syms off count 1 16) y) \<and>
    (\<forall>i < 256. hc_bits (table' ! i) \<le> 8 \<or>
      pointer_ok table' (table_entries (codes_from syms off count 1 16)) i)"
proof -
  let ?code = "codes_from syms off count 1 16"
  let ?A = "codes_from syms off count 1 9" and ?B = "codes_from syms off count 9 16"
  have code: "?code = ?A @ ?B" by (rule codes_from_split) simp_all
  have A8: "\<forall>(s, l) \<in> set ?A. l \<le> 8" using codes_from_set [of _ _ syms off count 1 9] by fastforce
  have B15: "\<forall>(s, l) \<in> set ?B. 8 < l \<and> l \<le> 15" using codes_from_set [of _ _ syms off count 9 16] by fastforce
  have kA: "kraft 15 ?A = kraft 8 ?A * 128" using kraft_scale [OF A8, of 15] by simp
  have kAB: "kraft 8 ?A * 128 + kraft 15 ?B = 32768" using k kA unfolding code by simp
  then have kA256: "kraft 8 ?A \<le> 256" by linarith
  have entries: "table_entries ?code = 256 + second_level_size ?B"
  proof -
    have "filter (\<lambda>(s, l). 8 < l) ?A = []" "filter (\<lambda>(s, l). 8 < l) ?B = ?B"
      using A8 B15 by (auto simp: filter_empty_conv filter_id_conv)
    then show ?thesis unfolding code table_entries_def by simp
  qed
  obtain m where m: "1 \<le> m" "m < 16" "count ! m \<noteq> 0" "\<And>j. m < j \<Longrightarrow> j < 16 \<Longrightarrow> count ! j = 0"
    using longest_code [of syms off count] k by force
  define tb where "tb = min 8 m"
  have tb: "tb \<le> 8" "1 \<le> tb" using m(1) by (auto simp: tb_def)
  have Atb: "codes_from syms off count 1 (Suc tb) = ?A"
  proof -
    have "codes_from syms off count 1 9 = codes_from syms off count 1 (Suc tb) @ codes_from syms off count (Suc tb) 9"
      using tb by (intro codes_from_split) auto
    moreover have "codes_from syms off count (Suc tb) 9 = []"
      using m(2,4) by (intro codes_from_none) (auto simp: tb_def)
    ultimately show ?thesis by simp
  qed
  have "tb = 8 \<or> kraft 8 ?A = 256"
  proof (cases "m < 8")
    case True
    then have "?B = []" using m(4) by (intro codes_from_none) simp
    then show ?thesis using kAB by simp
  qed (simp add: tb_def)
  then obtain t1 t2 where t: "fill_root_table table syms off count 0 0 128 2 (2 ^ tb) (int tb) 1 =
        Some (t1, of_nat (kraft 8 ?A))"
      "double_table t1 0 256 (2 ^ tb) = Some (t2, 256)" "length t2 = length table"
      "\<forall>i < length table. 256 \<le> i \<longrightarrow> t2 ! i = table ! i"
      "\<forall>k < kraft 8 ?A. t2 ! rev_bits 8 k = entry (canonical 8 ?A k)"
    using root_table_at [OF h tb, of table] room kA256 entries unfolding Atb by auto
  define s where "s = \<lparr>sl_root_table = t2, sl_count = count, sl_table_free_offset = 0, sl_table_bits = int tb,
    sl_table_size = 256, sl_total_size = 256, sl_key = of_nat (kraft 8 ?A), sl_sub_key = 256\<rparr>"
  have key: "unat (sl_key s) = kraft 8 ?A" using kA256 by (simp add: s_def unat_of_nat_u32)
  have "second_level_ok s ?B 256"
    using h kAB key by (simp add: second_level_ok_def histogram_ok_def cnt_codes_from s_def)
  then obtain s' where s': "subtables s ?B = Some s'" "sl_total_size s' = int (table_entries ?code)"
    "length (sl_root_table s') = length table"
    "\<forall>k < kraft 8 ?A. sl_root_table s' ! rev_bits 8 k = t2 ! rev_bits 8 k"
    "\<forall>i < length table. table_entries ?code \<le> i \<longrightarrow> sl_root_table s' ! i = t2 ! i"
    "\<forall>y. kraft 8 ?A * 128 \<le> y \<and> y < 2 ^ 15 \<longrightarrow>
      lookup_bits (sl_root_table s') (rev_bits 15 y) = canonical 15 ?B (y - kraft 8 ?A * 128)"
    "\<forall>k. kraft 8 ?A \<le> k \<and> k < 256 \<longrightarrow>
      pointer_ok (sl_root_table s') (table_entries ?code) (rev_bits 8 k)"
    using subtables_at [OF _ sorted_codes_from B15, of s 256] room t(3) unfolding entries key
    by (auto simp: s_def)
  have max: "find_max_length syms off (-1) = Some (int m - 16)"
    using find_max_length_at [OF h m(1) _ _ m(3), of 15] m(2,4) by simp
  have "BrotliBuildHuffmanTable table 8 syms off count =
      Some (sl_root_table s', sl_count s', of_nat (table_entries ?code))"
  proof -
    have "second_levels s syms off 1 128 2 9 (int m) 8 = Some s'"
      using second_levels_at [OF h m(2,4)] s'(1) by (simp add: s_def)
    moreover have "shl_i32 1 8 = 256" "shl_i32 1 (int tb) = 2 ^ tb" using tb by (simp_all add: shl_i32_1)
    moreover have "shr32 128 7 = 1" using shr32_drop [of 7 128] by simp
    moreover have "m < 8 \<and> tb = m \<or> \<not> m < 8 \<and> tb = 8" by (auto simp: tb_def)
    ultimately show ?thesis
      using max t(1,2) s'(2) unfolding BrotliBuildHuffmanTable_def
      by (elim disjE) (simp_all add: s_def Let_def)
  qed
  moreover have "lookup_bits (sl_root_table s') (rev_bits 15 y) = canonical 15 ?code y" if "y < 2 ^ 15" for y
  proof (cases "y < kraft 15 ?A")
    case True
    then have y: "y div 128 < kraft 8 ?A" using kA by (simp add: less_mult_imp_div_less)
    then have "canonical 8 ?A (y div 128) \<in> set ?A" by (rule canonical_in)
    then have "snd (canonical 8 ?A (y div 128)) \<le> 8" using A8 by fastforce
    then have "lookup_bits (sl_root_table s') (rev_bits 15 y) = canonical 8 ?A (y div 128)"
      using s'(4) t(5) y by (intro root_lookup) auto
    also have "\<dots> = canonical 15 ?A y" using canonical_div [OF A8, of 15 y] by simp
    finally show ?thesis using True unfolding code by (simp add: canonical_append)
  next
    case False
    then show ?thesis using s'(6) that kA unfolding code by (simp add: canonical_append)
  qed
  moreover have "hc_bits (sl_root_table s' ! i) \<le> 8 \<or> pointer_ok (sl_root_table s') (table_entries ?code) i"
    if "i < 256" for i
  proof -
    have i: "rev_bits 8 (rev_bits 8 i) = i" "rev_bits 8 i < 256"
      using that rev_bits_rev_bits [of i 8] rev_bits_less [of 8 i] by simp_all
    show ?thesis
    proof (cases "rev_bits 8 i < kraft 8 ?A")
      case True
      then have "canonical 8 ?A (rev_bits 8 i) \<in> set ?A" by (rule canonical_in)
      then have "snd (canonical 8 ?A (rev_bits 8 i)) \<le> 8" using A8 by fastforce
      moreover have "sl_root_table s' ! i = entry (canonical 8 ?A (rev_bits 8 i))"
        using s'(4) t(5) True i by metis
      ultimately show ?thesis
        by (simp add: entry_def word_le_nat_alt unsigned_of_nat take_bit_nat_eq_self)
    next
      case False
      then show ?thesis using s'(7) [rule_format, of "rev_bits 8 i"] i by simp
    qed
  qed
  ultimately show ?thesis using s'(3,5) t(4) entries by (intro exI [of _ "sl_root_table s'"]) auto
qed

end
