(* ===== verification/Symbol_Spec.thy ===== *)
theory Symbol_Spec
  imports Symbol_Decoder Bit_Contract Huffman_Tables "HOL-Library.Multiset"
begin

text \<open>
  What the symbol decoder returns. A locale states what it needs of a table: that the lookups stay in
  bounds and depend on the bits of the code word only. In it the fast, the safe and the preloaded reader
  are shown to return the same symbol. The tables of \<open>BrotliBuildHuffmanTable\<close> and
  \<open>BrotliBuildSimpleHuffmanTable\<close> satisfy the locale, and reading a symbol inverts its code word.
\<close>

subsection \<open>Tables as prefix codes\<close>

text \<open>
  The entry a two-level table has for the bits \<open>x\<close> and the number of bits it takes.
\<close>

definition lookup :: "HuffmanCode list \<Rightarrow> u32 \<Rightarrow> u16 \<times> nat" where
  "lookup table x =
    (let i = unat (take_bit 8 x); e = table ! i
     in if hc_bits e \<le> 8 then (hc_value e, unat (hc_bits e))
        else let e2 = table ! (i + unat (hc_value e) +
                unat (take_bit (unat (hc_bits e) - 8) (drop_bit 8 x)))
             in (hc_value e2, 8 + unat (hc_bits e2)))"

text \<open>The symbol a bit string starts with; a string that ends early is padded with zeros.\<close>

definition symbol_at :: "HuffmanCode list \<Rightarrow> bool list \<Rightarrow> u16 \<times> nat" where
  "symbol_at table bs = lookup table (word_of_bits (take 15 bs))"

text \<open>The entry of the root table that the next eight bits select.\<close>

definition root_entry :: "HuffmanCode list \<Rightarrow> bool list \<Rightarrow> HuffmanCode" where
  "root_entry table bs = table ! unat (word_of_bits (take 8 bs) :: u32)"

text \<open>
  What the symbol decoder needs of a table: every index it computes is in bounds, no code is longer
  than 15 bits, and the symbol is determined by the bits of its code.
\<close>

locale huffman_table =
  fixes table :: "HuffmanCode list"
  assumes root: "256 \<le> length table"
    and root_bits: "i < 256 \<Longrightarrow> hc_bits (table ! i) \<le> 15"
    and second: "i < 256 \<Longrightarrow> 8 < hc_bits (table ! i) \<Longrightarrow> j < 2 ^ (unat (hc_bits (table ! i)) - 8) \<Longrightarrow>
      i + unat (hc_value (table ! i)) + j < length table \<and>
      8 + unat (hc_bits (table ! (i + unat (hc_value (table ! i)) + j))) \<le> unat (hc_bits (table ! i))"
    and second_bits: "i < 256 \<Longrightarrow> 8 < hc_bits (table ! i) \<Longrightarrow> j < 2 ^ (unat (hc_bits (table ! i)) - 8) \<Longrightarrow>
      hc_bits (table ! (i + unat (hc_value (table ! i)) + j)) \<noteq> 0"
    and prefix_code: "take_bit (snd (lookup table x)) y = take_bit (snd (lookup table x)) x \<Longrightarrow>
      lookup table y = lookup table x"
begin

lemma low8: "unat (take_bit 8 (x :: u32)) < 256"
  using take_bit_nat_less_exp [of 8 "unat x"] by (simp add: unsigned_take_bit_eq)

lemma code_length: "snd (lookup table x) \<le> 15"
proof -
  let ?i = "unat (take_bit 8 x)"
  have i: "?i < 256" by (rule low8)
  have b: "unat (hc_bits (table ! ?i)) \<le> 15" using root_bits [OF i] by (simp add: word_le_nat_alt)
  show ?thesis
  proof (cases "hc_bits (table ! ?i) \<le> 8")
    case True
    with b show ?thesis by (simp add: lookup_def Let_def)
  next
    case False
    define j where "j = unat (take_bit (unat (hc_bits (table ! ?i)) - 8) (drop_bit 8 x))"
    have "j < 2 ^ (unat (hc_bits (table ! ?i)) - 8)"
      unfolding j_def unsigned_take_bit_eq by (rule take_bit_nat_less_exp)
    from second [OF i _ this] False b show ?thesis
      by (simp add: lookup_def Let_def j_def [symmetric] not_le)
  qed
qed

lemma DecodeSymbol_lookup:
  "DecodeSymbol x table br =
    Some (ucast (fst (lookup table x)), BrotliDropBits br (of_nat (snd (lookup table x))))"
proof -
  let ?i = "unat (take_bit 8 x)"
  let ?e = "table ! ?i"
  have i: "?i < 256" by (rule low8)
  have xi: "x AND 255 = take_bit 8 x" by (simp add: take_bit_eq_mask mask_eq_exp_minus_1)
  have e: "get table (unat (x AND 255)) = Some ?e" using i root by (simp add: xi slice_simps)
  have b: "unat (hc_bits ?e) \<le> 15" using root_bits [OF i] by (simp add: word_le_nat_alt)
  show ?thesis
  proof (cases "hc_bits ?e \<le> 8")
    case True
    then have "\<not> 8 < hc_bits ?e" by (simp add: not_less)
    with True e show ?thesis
      by (simp add: DecodeSymbol_def lookup_def Let_def xi)
  next
    case False
    define k where "k = unat (hc_bits ?e) - 8"
    define j where "j = unat (take_bit k (drop_bit 8 x))"
    have j: "j < 2 ^ k" unfolding j_def unsigned_take_bit_eq by (rule take_bit_nat_less_exp)
    have k: "k \<le> 7" using b by (simp add: k_def)
    have nb: "unat (ucast (hc_bits ?e - 8) :: u32) = k"
      using False by (simp add: k_def unat_ucast_u8 unat_sub word_le_nat_alt)
    then have mask: "BitMask (ucast (hc_bits ?e - 8)) = Some (mask k)"
      using k by (simp add: BitMask_mask)
    have sub: "drop_bit 8 x AND mask k = take_bit k (drop_bit 8 x)"
      by (simp add: take_bit_eq_mask)
    have j7: "j < 128"
      using j power_increasing [OF k, of "2::nat"] by simp
    have "unat (take_bit 8 x + ucast (hc_value ?e)) = ?i + unat (hc_value ?e)"
    proof -
      have v: "unat (ucast (hc_value ?e) :: u32) = unat (hc_value ?e)" "unat (hc_value ?e) < 65536"
        using unsigned_less [of "hc_value ?e", where ?'a = nat] by (simp_all add: unat_ucast_u16)
      then show ?thesis using i by (simp add: unat_plus_if')
    qed
    moreover have "unat (hc_value ?e) < 65536"
      using unsigned_less [of "hc_value ?e", where ?'a = nat] by simp
    ultimately have idx: "unat (take_bit 8 x + ucast (hc_value ?e) + take_bit k (drop_bit 8 x)) =
        ?i + unat (hc_value ?e) + j"
      using i j7 by (simp add: unat_plus_if' j_def [symmetric])
    have in_table: "?i + unat (hc_value ?e) + j < length table"
      using second [OF i, of j] False j by (simp add: k_def not_le)
    have drop: "BrotliDropBits (BrotliDropBits br 8) (ucast c) = BrotliDropBits br (of_nat (8 + unat c))"
      for c :: u8
      by (simp add: BrotliDropBits_def add.assoc)
    have "8 < hc_bits ?e" using False by (simp add: not_le)
    then have "DecodeSymbol x table br =
        Some (ucast (hc_value (table ! (?i + unat (hc_value ?e) + j))),
              BrotliDropBits (BrotliDropBits br 8) (ucast (hc_bits (table ! (?i + unat (hc_value ?e) + j)))))"
      using e mask in_table by (simp add: DecodeSymbol_def Let_def xi sub idx slice_simps)
    then show ?thesis
      using False unfolding drop by (simp add: lookup_def Let_def k_def [symmetric] j_def [symmetric])
  qed
qed

lemma lookup_take15: "lookup table (take_bit 15 x) = lookup table x"
  by (rule prefix_code) (simp add: take_bit_take_bit min_absorb1 code_length)

lemma lookup_mask:
  assumes "x AND mask n = word_of_bits (take n bs)" "15 \<le> n"
  shows "lookup table x = lookup table (word_of_bits (take 15 bs))"
proof -
  have "take_bit 15 x = take_bit 15 (x AND mask n)"
    using assms(2) by (auto simp: bit_eq_iff bit_simps)
  also have "\<dots> = take_bit 15 (word_of_bits (take 15 bs))"
    unfolding assms(1) using assms(2) by (auto simp: bit_eq_iff bit_simps bit_word_of_bits)
  finally show ?thesis by (metis lookup_take15)
qed

lemma symbol_at_mask:
  assumes "x AND mask n = word_of_bits (take n bs)" "15 \<le> n"
  shows "lookup table x = symbol_at table bs"
  using lookup_mask [OF assms] by (simp add: symbol_at_def)

lemma unat_of_nat_code: "unat (of_nat (snd (symbol_at table bs)) :: u32) = snd (symbol_at table bs)"
  using code_length [of "word_of_bits (take 15 bs)"]
  by (simp add: symbol_at_def unat_of_nat take_bit_nat_eq_self)

lemma ReadSymbol_at:
  assumes at: "br_at br input bs" "unat (br_bit_pos br) < 64" "8 \<le> unat (br_avail_in br)"
  shows "\<exists>br'. ReadSymbol table br input = Some (ucast (fst (symbol_at table bs)), br') \<and>
    br_at br' input (drop (snd (symbol_at table bs)) bs) \<and> unat (br_bit_pos br') < 64 \<and>
    unat (br_avail_in br) \<le> unat (br_avail_in br') + 7"
proof -
  obtain v br1 where 1: "BrotliGet16BitsUnmasked br input = Some (v, br1)" "br_at br1 input bs"
    "unat (br_bit_pos br1) < 48" "v AND mask 16 = word_of_bits (take 16 bs)"
    "unat (br_avail_in br) \<le> unat (br_avail_in br1) + 7"
    using Get16BitsUnmasked_at [OF at] by blast
  have l: "lookup table v = symbol_at table bs" by (rule symbol_at_mask [OF 1(4)]) simp
  have le: "snd (symbol_at table bs) \<le> 15" unfolding symbol_at_def by (rule code_length)
  have n: "unat (of_nat (snd (symbol_at table bs)) :: u32) \<le> 64 - unat (br_bit_pos br1)"
    unfolding unat_of_nat_code using le 1(3) by simp
  note d = DropBits_at [OF 1(2) n, unfolded unat_of_nat_code]
  show ?thesis using 1 d le by (simp add: ReadSymbol_def DecodeSymbol_lookup l)
qed

lemma SafeDecodeSymbol_at:
  assumes at: "br_at br input bs" and empty: "br_avail_in br = 0" and short: "length bs < 15"
  shows "SafeDecodeSymbol table br result =
    Some (if snd (symbol_at table bs) \<le> length bs
          then (True, BrotliDropBits br (of_nat (snd (symbol_at table bs))), ucast (fst (symbol_at table bs)))
          else (False, br, result))"
proof -
  have len: "length bs = 64 - unat (br_bit_pos br)" using br_at_length [OF at] empty by simp
  have ok: "unat (br_bit_pos br) \<le> 64" using at by (simp add: br_at_def br_ok_def)
  have av: "unat (BrotliGetAvailableBits br) = length bs" using available_bits [OF ok] len by simp
  let ?x = "word_of_bits bs :: u32"
  have sym: "symbol_at table bs = lookup table ?x" using short by (simp add: symbol_at_def)
  show ?thesis
  proof (cases "bs = []")
    case True
    then have a0: "BrotliGetAvailableBits br = 0" using av by (simp add: unat_eq_0)
    have x0: "?x = 0" using True by (simp add: word_of_bits_def)
    have g: "get table 0 = Some (table ! 0)" by (rule get_Some) (use root in auto)
    show ?thesis
      unfolding SafeDecodeSymbol_def sym x0 a0 using True
      by (auto simp: g lookup_def Let_def unat_eq_0 BrotliDropBits_def)
  next
    case False
    then have a0: "BrotliGetAvailableBits br \<noteq> 0" using av by (auto simp: unat_eq_0)
    let ?i = "unat (take_bit 8 ?x)"
    let ?e = "table ! ?i"
    have i: "?i < 256" by (rule low8)
    have xi: "?x AND 255 = take_bit 8 ?x" by (simp add: take_bit_eq_mask mask_eq_exp_minus_1)
    have e: "get table ?i = Some ?e" using i root by (simp add: slice_simps)
    have b: "unat (hc_bits ?e) \<le> 15" using root_bits [OF i] by (simp add: word_le_nat_alt)
    have val: "(ucast (BrotliGetBitsUnmasked br) :: u32) = ?x"
    proof -
      have pos: "unat (br_bit_pos br) < 64" using len False by (cases "unat (br_bit_pos br) < 64") auto
      have "(ucast (BrotliGetBitsUnmasked br) :: u32) AND mask (length bs) = ?x"
        using unmasked_bits [OF at, of "length bs"] len short by simp
      moreover have "(ucast (BrotliGetBitsUnmasked br) :: u32) AND mask (length bs) =
          ucast (BrotliGetBitsUnmasked br)"
      proof (rule bit_word_eqI)
        fix n assume "n < LENGTH(32)"
        show "bit ((ucast (BrotliGetBitsUnmasked br) :: u32) AND mask (length bs)) n =
            bit (ucast (BrotliGetBitsUnmasked br) :: u32) n"
          using pos len by (auto simp: BrotliGetBitsUnmasked_def bit_simps dest: bit_imp_le_length)
      qed
      ultimately show ?thesis by simp
    qed
    have le: "c \<le> BrotliGetAvailableBits br \<longleftrightarrow> unat c \<le> length bs" for c
      by (simp add: word_le_nat_alt av)
    show ?thesis
    proof (cases "hc_bits ?e \<le> 8")
      case True
      then show ?thesis
        using a0 e by (simp add: SafeDecodeSymbol_def sym lookup_def Let_def val xi le unat_ucast_u8)
    next
      case False
      define k where "k = unat (hc_bits ?e) - 8"
      define j where "j = unat (take_bit k (drop_bit 8 ?x))"
      let ?f = "table ! (?i + unat (hc_value ?e) + j)"
      have j: "j < 2 ^ k" unfolding j_def unsigned_take_bit_eq by (rule take_bit_nat_less_exp)
      have "8 < hc_bits ?e" using False by (simp add: not_le)
      with second [OF i, of j] second_bits [OF i, of j] j
      have f: "get table (?i + unat (hc_value ?e) + j) = Some ?f" "hc_bits ?f \<noteq> 0"
          "8 + unat (hc_bits ?f) \<le> unat (hc_bits ?e)"
        by (simp_all add: k_def slice_simps)
      have len_f: "snd (symbol_at table bs) = 8 + unat (hc_bits ?f)"
        "fst (symbol_at table bs) = hc_value ?f"
        using False by (simp_all add: sym lookup_def Let_def k_def j_def)
      have pos: "unat (hc_bits ?f) \<noteq> 0" using f(2) by (simp add: unat_eq_0)
      show ?thesis
      proof (cases "BrotliGetAvailableBits br \<le> 8")
        case True
        then have "length bs \<le> 8" by (simp add: word_le_nat_alt av)
        then show ?thesis
          using a0 e False True pos
          by (simp add: SafeDecodeSymbol_def Let_def val xi len_f)
      next
        case less: False
        have mask: "BitMask (ucast (hc_bits ?e)) = Some (mask (8 + k))"
          using b False by (simp add: BitMask_mask unat_ucast_u8 k_def word_le_nat_alt)
        have sub: "unat (drop_bit 8 (?x AND mask (8 + k))) = j"
        proof -
          have "drop_bit 8 (?x AND mask (8 + k)) = take_bit k (drop_bit 8 ?x)"
            using b by (intro bit_word_eqI) (auto simp: bit_simps k_def)
          then show ?thesis by (simp add: j_def)
        qed
        have av8: "unat (BrotliGetAvailableBits br - 8) = length bs - 8"
          using less by (simp add: unat_sub word_le_nat_alt av)
        have enough: "BrotliGetAvailableBits br - 8 < ucast (hc_bits ?f) \<longleftrightarrow>
            \<not> 8 + unat (hc_bits ?f) \<le> length bs"
          using less pos by (auto simp: word_less_nat_alt word_le_nat_alt av8 av unat_ucast_u8)
        show ?thesis
          using a0 e False less f(1) sub
          by (simp add: SafeDecodeSymbol_def Let_def val xi len_f mask enough)
      qed
    qed
  qed
qed

lemma SafeReadSymbol_at:
  assumes at: "br_at br input bs"
  shows "\<exists>br'. SafeReadSymbol table br result input =
      Some (if snd (symbol_at table bs) \<le> length bs then (True, br', ucast (fst (symbol_at table bs)))
            else (False, br', result)) \<and>
    br_at br' input (if snd (symbol_at table bs) \<le> length bs then drop (snd (symbol_at table bs)) bs else bs) \<and>
    (length bs < snd (symbol_at table bs) \<longrightarrow> br_avail_in br' = 0)"
proof -
  let ?l = "snd (symbol_at table bs)"
  have le: "?l \<le> 15" unfolding symbol_at_def by (rule code_length)
  obtain br1 where 1: "BrotliSafeGetBits br 15 0 input =
        Some (if 15 \<le> length bs then (True, word_of_bits (take 15 bs), br1) else (False, 0, br1))"
      "br_at br1 input bs" "15 \<le> length bs \<longrightarrow> 15 \<le> 64 - unat (br_bit_pos br1)"
      "length bs < 15 \<longrightarrow> br_avail_in br1 = 0"
    using SafeGetBits_at [OF at, of 15 0] by auto
  show ?thesis
  proof (cases "15 \<le> length bs")
    case True
    have n: "unat (of_nat ?l :: u32) \<le> 64 - unat (br_bit_pos br1)"
      unfolding unat_of_nat_code using le 1(3) True by simp
    from DropBits_at(1) [OF 1(2) n, unfolded unat_of_nat_code] True 1(1) le show ?thesis
      by (simp add: SafeReadSymbol_def DecodeSymbol_lookup symbol_at_def [symmetric])
  next
    case False
    have short: "length bs < 15" and empty: "br_avail_in br1 = 0" using False 1(4) by auto
    have len: "length bs = 64 - unat (br_bit_pos br1)" using br_at_length [OF 1(2)] empty by simp
    note d = SafeDecodeSymbol_at [OF 1(2) empty short, of result]
    show ?thesis
    proof (cases "?l \<le> length bs")
      case True
      then have n: "unat (of_nat ?l :: u32) \<le> 64 - unat (br_bit_pos br1)"
        unfolding unat_of_nat_code using len by simp
      from DropBits_at(1) [OF 1(2) n, unfolded unat_of_nat_code] True 1(1) False d show ?thesis
        by (simp add: SafeReadSymbol_def)
    next
      case less: False
      then show ?thesis using 1(1,2) False d empty by (auto simp: SafeReadSymbol_def)
    qed
  qed
qed

lemma PreloadSymbol_at:
  assumes at: "br_at br input bs" "unat (br_bit_pos br) < 64" "8 \<le> unat (br_avail_in br)"
  shows "\<exists>br'. PreloadSymbol False table br b v input =
      Some (br', ucast (hc_bits (root_entry table bs)), ucast (hc_value (root_entry table bs))) \<and>
    br_at br' input bs \<and> unat (br_bit_pos br') < 32 \<and>
    unat (br_avail_in br) \<le> unat (br_avail_in br') + 7"
proof -
  have "unat (word_of_bits (take 8 bs) :: u32) < 2 ^ 8" by (rule unat_word_of_bits_less) auto
  then have "get table (unat (word_of_bits (take 8 bs) :: u32)) = Some (root_entry table bs)"
    using root by (simp add: root_entry_def slice_simps)
  with GetBits_at [OF at, of 8] show ?thesis by (auto simp: PreloadSymbol_def)
qed

lemma ReadPreloadedSymbol_at:
  assumes at: "br_at br input bs" "unat (br_bit_pos br) < 32" "15 \<le> unat (br_avail_in br)"
  shows "\<exists>br'. ReadPreloadedSymbol table br (ucast (hc_bits (root_entry table bs)))
        (ucast (hc_value (root_entry table bs))) input =
      Some (ucast (fst (symbol_at table bs)), br',
        ucast (hc_bits (root_entry table (drop (snd (symbol_at table bs)) bs))),
        ucast (hc_value (root_entry table (drop (snd (symbol_at table bs)) bs)))) \<and>
    br_at br' input (drop (snd (symbol_at table bs)) bs) \<and> unat (br_bit_pos br') < 32"
proof -
  let ?l = "snd (symbol_at table bs)"
  let ?e = "root_entry table bs"
  have low: "take_bit 8 (word_of_bits (take n bs) :: u32) = word_of_bits (take 8 bs)" if "8 \<le> n" for n
    using that by (auto simp: bit_eq_iff bit_simps bit_word_of_bits)
  have "unat (word_of_bits (take 8 bs) :: u32) < 2 ^ 8" by (rule unat_word_of_bits_less) auto
  then have e: "get table (unat (word_of_bits (take 8 bs) :: u32)) = Some ?e"
    using root by (simp add: root_entry_def slice_simps)
  have le: "?l \<le> 15" unfolding symbol_at_def by (rule code_length)
  have "\<exists>br1. (if ucast (hc_bits ?e) > HUFFMAN_TABLE_BITS then do {
          (val, br) \<leftarrow> BrotliGet16BitsUnmasked br input;
          let ext_index = (val AND HUFFMAN_TABLE_MASK) + ucast (hc_value ?e);
          mask \<leftarrow> BitMask (ucast (hc_bits ?e) - HUFFMAN_TABLE_BITS);
          let br = BrotliDropBits br HUFFMAN_TABLE_BITS;
          let ext_index = ext_index + (shr32 val HUFFMAN_TABLE_BITS AND mask);
          ext \<leftarrow> get table (unat ext_index);
          Some (ucast (hc_value ext), BrotliDropBits br (ucast (hc_bits ext)))
        } else Some (ucast (hc_value ?e), BrotliDropBits br (ucast (hc_bits ?e)))) =
      Some (ucast (fst (symbol_at table bs)) :: u32, br1) \<and> br_at br1 input (drop ?l bs) \<and>
      unat (br_bit_pos br1) < 64 \<and> 8 \<le> unat (br_avail_in br1)" (is "\<exists>br1. ?read = _ \<and> _ br1")
  proof (cases "hc_bits ?e \<le> 8")
    case True
    have sym: "symbol_at table bs = (hc_value ?e, unat (hc_bits ?e))"
      using True by (simp add: symbol_at_def lookup_def Let_def low root_entry_def)
    have b: "unat (ucast (hc_bits ?e) :: u32) \<le> 8" using True by (simp add: unat_ucast_u8 word_le_nat_alt)
    then have n: "\<not> (8 :: u32) < ucast (hc_bits ?e)" by (simp add: word_less_nat_alt)
    have "unat (ucast (hc_bits ?e) :: u32) \<le> 64 - unat (br_bit_pos br)" using b at(2) by simp
    note d = DropBits_at [OF at(1) this]
    show ?thesis using d n at(2,3) b by (simp add: sym unat_ucast_u8)
  next
    case False
    obtain v br1 where 1: "BrotliGet16BitsUnmasked br input = Some (v, br1)" "br_at br1 input bs"
      "unat (br_bit_pos br1) < 48" "v AND mask 16 = word_of_bits (take 16 bs)"
      "unat (br_avail_in br) \<le> unat (br_avail_in br1) + 7"
      using Get16BitsUnmasked_at [OF at(1)] at(2,3) by auto
    have "v AND 255 = take_bit 8 v" by (simp add: take_bit_eq_mask mask_eq_exp_minus_1)
    also have "\<dots> = take_bit 8 (v AND mask 16)" by (auto simp: bit_eq_iff bit_simps)
    finally have v: "v AND 255 = word_of_bits (take 8 bs)" using low [of 16] by (simp add: 1(4))
    have big: "(8 :: u32) < ucast (hc_bits ?e)" "8 < hc_bits ?e"
      using False by (simp_all add: word_less_nat_alt word_le_nat_alt unat_ucast_u8)
    have sub: "ucast (hc_bits ?e) - 8 = (ucast (hc_bits ?e - 8) :: u32)"
      using big by (subst word_unat_eq_iff) (simp add: unat_ucast_u8 unat_sub word_less_nat_alt word_le_nat_alt)
    have "?read = DecodeSymbol v table br1"
      using big 1(1) e by (simp add: DecodeSymbol_def v sub)
    also have "\<dots> = Some (ucast (fst (symbol_at table bs)), BrotliDropBits br1 (of_nat ?l))"
      by (simp add: DecodeSymbol_lookup symbol_at_mask [OF 1(4)])
    finally have r: "?read = \<dots>" .
    have n: "unat (of_nat ?l :: u32) \<le> 64 - unat (br_bit_pos br1)"
      unfolding unat_of_nat_code using le 1(3) by simp
    from DropBits_at [OF 1(2) n, unfolded unat_of_nat_code] r le 1(3,5) at(3) show ?thesis by simp
  qed
  then obtain br1 where 2: "?read = Some (ucast (fst (symbol_at table bs)), br1)"
    "br_at br1 input (drop ?l bs)" "unat (br_bit_pos br1) < 64" "8 \<le> unat (br_avail_in br1)" by blast
  from PreloadSymbol_at [OF 2(2-4), of "ucast (hc_bits ?e)" "ucast (hc_value ?e)"] show ?thesis
    unfolding ReadPreloadedSymbol_def 2(1) by auto
qed

end

subsection \<open>Tables that decode a canonical code\<close>

text \<open>The value of the first \<open>w\<close> bits of a string, the first bit the highest; missing bits are 0.\<close>

definition code_value :: "nat \<Rightarrow> bool list \<Rightarrow> nat" where
  "code_value w bs = rev_bits w (unat (word_of_bits (take w bs) :: u32))"

text \<open>
  The table decodes the complete canonical code, and its pointers stay inside it.
\<close>

definition decodes :: "HuffmanCode list \<Rightarrow> code \<Rightarrow> bool" where
  "decodes table code \<longleftrightarrow> 256 \<le> length table \<and>
    sorted_code code \<and> (\<forall>(s, l) \<in> set code. l \<le> 15) \<and> kraft 15 code = 2 ^ 15 \<and>
    (\<forall>i < 256. hc_bits (table ! i) \<le> 8 \<or> pointer_ok table (length table) i) \<and>
    (\<forall>y < 2 ^ 15. lookup_bits table (rev_bits 15 y) = canonical 15 code y)"

lemma lookup_eq_lookup_bits: "lookup table x = lookup_bits table (unat x)"
proof -
  have "unat (take_bit 8 x) = unat x mod 256"
    by (subst unsigned_take_bit_eq) (simp add: take_bit_eq_mod)
  moreover have "unat (take_bit k (drop_bit 8 x)) = unat x div 256 mod 2 ^ k" for k
    by (subst unsigned_take_bit_eq) (simp add: unat_drop_bit_eq take_bit_eq_mod drop_bit_eq_div [where ?'a = nat])
  ultimately show ?thesis by (simp add: lookup_def lookup_bits_def Let_def)
qed

lemma lookup_bits_mod:
  assumes "decodes table code"
  shows "lookup_bits table (n mod 2 ^ 15) = lookup_bits table n"
proof -
  have low: "n mod 2 ^ 15 mod 256 = n mod 256" using mod_mod_cancel [of 256 "2 ^ 15" n] by simp
  have high: "n mod 2 ^ 15 div 256 mod 2 ^ t = n div 256 mod 2 ^ t" if "t \<le> 7" for t
  proof -
    have "take_bit t (drop_bit 8 (take_bit 15 n)) = take_bit t (drop_bit 8 n)"
      using that by (intro bit_eqI) (auto simp: bit_take_bit_iff bit_drop_bit_eq)
    then show ?thesis by (simp add: take_bit_eq_mod drop_bit_eq_div)
  qed
  have "\<forall>i < 256. hc_bits (table ! i) \<le> 8 \<or> pointer_ok table (length table) i"
    using assms by (simp add: decodes_def)
  then have "hc_bits (table ! (n mod 256)) \<le> 8 \<or> pointer_ok table (length table) (n mod 256)" by simp
  then have "hc_bits (table ! (n mod 256)) \<le> 8 \<or> hc_bits (table ! (n mod 256)) \<le> 15"
    by (auto simp: pointer_ok_def Let_def)
  then have "unat (hc_bits (table ! (n mod 256))) - 8 \<le> 7"
    by (auto simp: word_le_nat_alt)
  from high [OF this] low show ?thesis by (simp add: lookup_bits_def Let_def)
qed

lemma decodes_lookup:
  assumes "decodes table code"
  shows "lookup table x = canonical 15 code (rev_bits 15 (unat x))"
proof -
  let ?n = "unat x mod 2 ^ 15"
  have "lookup table x = lookup_bits table (rev_bits 15 (rev_bits 15 ?n))"
    using lookup_bits_mod [OF assms, of "unat x"] by (simp add: lookup_eq_lookup_bits rev_bits_rev_bits)
  also have "\<dots> = canonical 15 code (rev_bits 15 ?n)"
    using assms rev_bits_less [of 15 ?n] by (simp add: decodes_def)
  also have "rev_bits 15 ?n = rev_bits 15 (unat x)" using rev_bits_mod [of 15 15 "unat x"] by simp
  finally show ?thesis .
qed

lemma symbol_at_decodes:
  "decodes table code \<Longrightarrow> symbol_at table bs = canonical 15 code (code_value 15 bs)"
  by (simp add: symbol_at_def decodes_lookup code_value_def)

text \<open>A word that begins with the same code word has the same symbol.\<close>

lemma canonical_prefix:
  assumes "sorted_code cs" "\<forall>(s, l) \<in> set cs. l \<le> w" "y < kraft w cs" "canonical w cs y = (s, l)"
    and "y' div 2 ^ (w - l) = y div 2 ^ (w - l)"
  shows "canonical w cs y' = (s, l)"
  using assms
proof (induction cs arbitrary: y y')
  case (Cons c cs)
  obtain s0 l0 where c: "c = (s0, l0)" by fastforce
  show ?case
  proof (cases "y < 2 ^ (w - l0)")
    case True
    then have "l = l0" "s = s0" using Cons.prems(4) by (simp_all add: c)
    moreover have "y' div 2 ^ (w - l0) = 0" using True Cons.prems(5) \<open>l = l0\<close> by simp
    then have "y' < 2 ^ (w - l0)" by (simp add: div_eq_0_iff)
    ultimately show ?thesis by (simp add: c)
  next
    case False
    have rest: "canonical w cs (y - 2 ^ (w - l0)) = (s, l)" "y - 2 ^ (w - l0) < kraft w cs"
      using Cons.prems(3,4) False by (auto simp: c)
    then have "(s, l) \<in> set cs" by (metis canonical_in)
    then have l: "l0 \<le> l" "l \<le> w" using Cons.prems(1,2) by (auto simp: c)
    then have p: "(2::nat) ^ (w - l0) = 2 ^ (l - l0) * 2 ^ (w - l)" by (simp flip: power_add)
    have "\<not> y' < 2 ^ (w - l0)"
    proof
      assume "y' < 2 ^ (w - l0)"
      then have "y div 2 ^ (w - l) < 2 ^ (l - l0)"
        using Cons.prems(5) unfolding p by (metis less_mult_imp_div_less)
      then show False using False unfolding p by (simp add: div_less_iff_less_mult)
    qed
    moreover have "(y' - 2 ^ (w - l0)) div 2 ^ (w - l) = (y - 2 ^ (w - l0)) div 2 ^ (w - l)"
      unfolding p using Cons.prems(5) by (simp add: sub_mult_div)
    ultimately show ?thesis
      using Cons.IH [OF _ _ rest(2,1)] Cons.prems(1,2) by (simp add: c)
  qed
qed simp

lemma decodes_huffman_table:
  assumes d: "decodes table code"
  shows "huffman_table table"
proof
  have shape: "hc_bits (table ! i) \<le> 8 \<or> pointer_ok table (length table) i" if "i < 256" for i
    using d that by (simp add: decodes_def)
  show "256 \<le> length table" using d by (simp add: decodes_def)
  show "hc_bits (table ! i) \<le> 15" if "i < 256" for i
    using shape [OF that] by (auto simp: pointer_ok_def Let_def word_le_nat_alt)
  fix i j :: nat assume i: "i < 256" "8 < hc_bits (table ! i)" and j: "j < 2 ^ (unat (hc_bits (table ! i)) - 8)"
  from shape [OF i(1)] i(2) have p: "pointer_ok table (length table) i" by (auto simp: not_le)
  have "8 + (unat (hc_bits (table ! i)) - 8) = unat (hc_bits (table ! i))"
    using i(2) by (simp add: word_less_nat_alt)
  with p j show "i + unat (hc_value (table ! i)) + j < length table \<and>
      8 + unat (hc_bits (table ! (i + unat (hc_value (table ! i)) + j))) \<le> unat (hc_bits (table ! i))"
    "hc_bits (table ! (i + unat (hc_value (table ! i)) + j)) \<noteq> 0"
    by (auto simp: pointer_ok_def Let_def)
next
  fix x y assume eq: "take_bit (snd (lookup table x)) y = take_bit (snd (lookup table x)) x"
  obtain s l where sl: "lookup table x = (s, l)" by fastforce
  have wf: "sorted_code code" "\<forall>(s, l) \<in> set code. l \<le> 15" and k: "kraft 15 code = 2 ^ 15"
    using d by (simp_all add: decodes_def)
  have less: "rev_bits 15 n < kraft 15 code" for n unfolding k by (rule rev_bits_less)
  have c: "canonical 15 code (rev_bits 15 (unat x)) = (s, l)" using sl decodes_lookup [OF d, of x] by simp
  then have "(s, l) \<in> set code" using canonical_in [OF less] by metis
  then have l: "l \<le> 15" using wf(2) by fastforce
  have "take_bit l (unat y) = take_bit l (unat x)" using eq sl by (metis snd_conv unsigned_take_bit_eq)
  then have "rev_bits 15 (unat y) div 2 ^ (15 - l) = rev_bits 15 (unat x) div 2 ^ (15 - l)"
    using rev_bits_mod [OF l] by (metis take_bit_eq_mod)
  from canonical_prefix [OF wf less c this] show "lookup table y = lookup table x"
    using sl decodes_lookup [OF d, of y] by simp
qed

subsection \<open>Simple codes\<close>

text \<open>
  The code of one to four symbols. The lengths are fixed by the number of symbols and symbols of
  the same length are in increasing order; for four symbols there is a balanced and a skewed shape.
\<close>

definition simple_code :: "u16 list \<Rightarrow> u32 \<Rightarrow> code" where
  "simple_code val num_symbols =
    (if num_symbols = 0 then [(val ! 0, 0)]
     else if num_symbols = 1 then [(min (val ! 0) (val ! 1), 1), (max (val ! 0) (val ! 1), 1)]
     else if num_symbols = 2 then [(val ! 0, 1), (min (val ! 1) (val ! 2), 2), (max (val ! 1) (val ! 2), 2)]
     else if num_symbols = 3 then map (\<lambda>v. (v, 2)) (sort (take 4 val))
     else [(val ! 0, 1), (val ! 1, 2), (min (val ! 2) (val ! 3), 3), (max (val ! 2) (val ! 3), 3)])"

lemma double_simple_table_at:
  assumes "j \<le> 8" "256 \<le> length table"
  shows "\<exists>table'. double_simple_table table (2 ^ j) 256 = Some table' \<and> length table' = length table \<and>
    (\<forall>i < 256. table' ! i = table ! (i mod 2 ^ j)) \<and>
    (\<forall>i < length table. 256 \<le> i \<longrightarrow> table' ! i = table ! i)"
  using assms
proof (induction "8 - j" arbitrary: table j)
  case 0
  then have "j = 8" by simp
  then show ?case by (subst double_simple_table.simps) simp
next
  case (Suc d)
  then have j: "j < 8" by simp
  have p: "2 * (2::nat) ^ j \<le> 256" using power_increasing [of "Suc j" 8 "2::nat"] j by simp
  have u: "unat (2 ^ j :: u32) = 2 ^ j"
  proof -
    have "(2::nat) ^ j < 2 ^ 32" using j by (intro power_strict_increasing) auto
    from unat_of_nat_u32 [OF this] show ?thesis by simp
  qed
  from copy_entries_double [of "2 ^ j" table] p Suc.prems obtain t1 where
    t1: "copy_entries table 0 (2 ^ j) 0 (2 ^ j) = Some t1" "length t1 = length table"
    "\<forall>i. t1 ! (i mod 2 ^ Suc j) = table ! (i mod 2 ^ j)"
    "\<forall>i < length table. 2 * 2 ^ j \<le> i \<longrightarrow> t1 ! i = table ! i" by auto
  have "(2::nat) ^ j \<noteq> 256" using j power_strict_increasing [of j 8 "2::nat"] by simp
  then have "(2::u32) ^ j \<noteq> 256" using u by auto
  then have step: "double_simple_table table (2 ^ j) 256 = double_simple_table t1 (2 ^ Suc j) 256"
    using t1(1) by (subst double_simple_table.simps) (simp add: u push_bit_eq_mult mult.commute)
  have "d = 8 - Suc j" using Suc(2) by simp
  from Suc(1) [OF this, of t1] Suc.prems j t1(2) obtain t2 where
    t2: "double_simple_table t1 (2 ^ Suc j) 256 = Some t2" "length t2 = length table"
    "\<forall>i < 256. t2 ! i = t1 ! (i mod 2 ^ Suc j)"
    "\<forall>i < length table. 256 \<le> i \<longrightarrow> t2 ! i = t1 ! i" by auto
  have "\<forall>i < 256. t2 ! i = table ! (i mod 2 ^ j)" using t2(3) t1(3) by simp
  moreover have "\<forall>i < length table. 256 \<le> i \<longrightarrow> t2 ! i = table ! i" using t2(4) t1(4) p by simp
  ultimately show ?case using step t2(1,2) by auto
qed

lemma rev15_mod8: "rev_bits 15 y mod 8 = rev_bits 3 (y div 4096)"
proof -
  have "take_bit 3 (rev_bits 15 y) = rev_bits 3 (drop_bit 12 y)"
    by (rule bit_eqI) (auto simp: bit_take_bit_iff bit_rev_bits bit_drop_bit_eq)
  then show ?thesis by (simp add: take_bit_eq_mod drop_bit_eq_div)
qed

lemma rev_bits_3:
  "rev_bits 3 0 = 0" "rev_bits 3 (Suc 0) = 4" "rev_bits 3 2 = 2" "rev_bits 3 3 = 6"
  "rev_bits 3 4 = 1" "rev_bits 3 5 = 5" "rev_bits 3 6 = 3" "rev_bits 3 7 = 7"
  by (simp_all add: rev_bits_def upt_rec bit_iff_odd)

text \<open>A table that repeats a small one decodes the code if the small one does.\<close>

lemma small_table_decodes:
  assumes table: "256 \<le> length table" "\<forall>i < 256. table ! i = small ! (i mod m)" "m dvd 8"
    and code: "sorted_code code" "\<forall>(s, l) \<in> set code. l \<le> 3" "kraft 3 code = 8"
    and small: "\<forall>z \<in> {0, 1, 2, 3, 4, 5, 6, 7}. small ! (rev_bits 3 z mod m) = entry (canonical 3 code z)"
  shows "decodes table code"
proof -
  have all: "small ! (rev_bits 3 z mod m) = entry (canonical 3 code z)" if "z < 8" for z
    using small that by (auto simp: numeral_eq_Suc less_Suc_eq)
  have e: "table ! i = entry (canonical 3 code (rev_bits 3 (i mod 8)))" if "i < 256" for i
  proof -
    have "rev_bits 3 (rev_bits 3 (i mod 8)) = i mod 8" by (rule rev_bits_rev_bits) simp
    then show ?thesis
      using table(2) that all [of "rev_bits 3 (i mod 8)"] rev_bits_less [of 3 "i mod 8"] table(3)
      by (simp add: mod_mod_cancel)
  qed
  have bits: "snd (canonical 3 code z) \<le> 3" if "z < 8" for z
    using canonical_in [of z 3 code] that code(2,3) by fastforce
  have le8: "hc_bits (entry c) \<le> 8" "unat (of_nat (snd c) :: u8) = snd c" if "snd c \<le> 3" for c
    using that by (simp_all add: entry_def word_le_nat_alt unsigned_of_nat take_bit_nat_eq_self)
  have "lookup_bits table (rev_bits 15 y) = canonical 15 code y" if "y < 2 ^ 15" for y
  proof -
    have z: "y div 4096 < 8" using that by simp
    let ?c = "canonical 3 code (y div 4096)"
    have "table ! (rev_bits 15 y mod 256) = entry ?c"
      using e [of "rev_bits 15 y mod 256"] z
      by (simp add: mod_mod_cancel rev15_mod8 rev_bits_rev_bits)
    then have "lookup_bits table (rev_bits 15 y) = ?c"
      using le8 [OF bits [OF z]] by (simp add: lookup_bits_def Let_def entry_def)
    then show ?thesis using canonical_div [OF code(2), of 15 y] by simp
  qed
  moreover have "hc_bits (table ! i) \<le> 8" if "i < 256" for i
    using e [OF that] le8(1) [OF bits] rev_bits_less [of 3 "i mod 8"] by simp
  moreover have "kraft 15 code = 2 ^ 15" using kraft_scale [OF code(2), of 15] code(3) by simp
  ultimately show ?thesis using table(1) code by (auto simp: decodes_def)
qed

lemma swap_if_less_four:
  "swap_if_less [a, b, c, d] (0, 1) = [min a b, max a b, c, d]"
  "swap_if_less [a, b, c, d] (0, 2) = [min a c, b, max a c, d]"
  "swap_if_less [a, b, c, d] (0, 3) = [min a d, b, c, max a d]"
  "swap_if_less [a, b, c, d] (1, 2) = [a, min b c, max b c, d]"
  "swap_if_less [a, b, c, d] (1, 3) = [a, min b d, c, max b d]"
  "swap_if_less [a, b, c, d] (2, 3) = [a, b, min c d, max c d]"
  by (auto simp: swap_if_less_def min_def max_def not_less)

lemma mset_min_max: "add_mset (min a b) (add_mset (max a b) m) = add_mset a (add_mset b m)" for a b :: "'a::linorder"
  by (simp add: min_def max_def add_mset_commute)

lemma swap_network:
  "foldl swap_if_less [a, b, c, d] [(0, 1), (0, 2), (0, 3), (1, 2), (1, 3), (2, 3)] = sort [a, b, c, d]"
proof -
  define a1 b1 where 1: "a1 = min a b" "b1 = max a b"
  define a2 c1 where 2: "a2 = min a1 c" "c1 = max a1 c"
  define a3 d1 where 3: "a3 = min a2 d" "d1 = max a2 d"
  define b2 c2 where 4: "b2 = min b1 c1" "c2 = max b1 c1"
  define b3 d2 where 5: "b3 = min b2 d1" "d2 = max b2 d1"
  define c3 d3 where 6: "c3 = min c2 d2" "d3 = max c2 d2"
  have net: "foldl swap_if_less [a, b, c, d] [(0, 1), (0, 2), (0, 3), (1, 2), (1, 3), (2, 3)] = [a3, b3, c3, d3]"
    by (simp only: foldl.simps swap_if_less_four 1 [symmetric] 2 [symmetric] 3 [symmetric] 4 [symmetric]
        5 [symmetric] 6 [symmetric])
  have "{#a3, b3, c3, d3#} = {#a3, b3, c2, d2#}" by (simp only: 6 mset_min_max)
  also have "\<dots> = {#b3, d2, a3, c2#}" by (simp add: add_mset_commute)
  also have "\<dots> = {#b2, d1, a3, c2#}" by (simp only: 5 mset_min_max)
  also have "\<dots> = {#b2, c2, a3, d1#}" by (simp add: add_mset_commute)
  also have "\<dots> = {#b1, c1, a3, d1#}" by (simp only: 4 mset_min_max)
  also have "\<dots> = {#a3, d1, b1, c1#}" by (simp add: add_mset_commute)
  also have "\<dots> = {#a2, d, b1, c1#}" by (simp only: 3 mset_min_max)
  also have "\<dots> = {#a2, c1, b1, d#}" by (simp add: add_mset_commute)
  also have "\<dots> = {#a1, c, b1, d#}" by (simp only: 2 mset_min_max)
  also have "\<dots> = {#a1, b1, c, d#}" by (simp add: add_mset_commute)
  also have "\<dots> = {#a, b, c, d#}" by (simp only: 1 mset_min_max)
  finally have m: "mset [a3, b3, c3, d3] = mset [a, b, c, d]" by simp
  have x: "a3 \<le> a2" "a2 \<le> a1" "a1 \<le> b1" "a2 \<le> c1" "a3 \<le> d1"
    unfolding 3 2 1 by (auto simp: min_le_iff_disj le_max_iff_disj)
  have "a3 \<le> b1" "a3 \<le> c1" using x by order+
  then have "a3 \<le> b2" by (simp add: 4)
  with x(5) have "a3 \<le> b3" by (simp add: 5)
  moreover have "b3 \<le> c3" unfolding 6 5 4 by (auto simp: min_le_iff_disj le_max_iff_disj)
  moreover have "c3 \<le> d3" unfolding 6 by (auto simp: min_le_iff_disj le_max_iff_disj)
  ultimately have "sorted [a3, b3, c3, d3]" by auto
  with m have "sort [a, b, c, d] = [a3, b3, c3, d3]" by (rule properties_for_sort)
  then show ?thesis using net by simp
qed

text \<open>Updates of a table that is written out.\<close>

lemma set_bits_Cons [simp]:
  "set_bits (c # table) i b =
    (if i = 0 then Some (c\<lparr>hc_bits := b\<rparr> # table) else map_option ((#) c) (set_bits table (i - 1) b))"
  by (cases i) (simp_all add: set_bits_def get_def put_def)

lemma set_value_Cons [simp]:
  "set_value (c # table) i v =
    (if i = 0 then Some (c\<lparr>hc_value := v\<rparr> # table) else map_option ((#) c) (set_value table (i - 1) v))"
  by (cases i) (simp_all add: set_value_def get_def put_def)

lemma set_both [simp]: "c\<lparr>hc_value := v, hc_bits := b\<rparr> = \<lparr>hc_value = v, hc_bits = b\<rparr>" for c :: HuffmanCode
  by (cases c) simp

lemma set_both': "c\<lparr>hc_bits := b, hc_value := v\<rparr> = \<lparr>hc_value = v, hc_bits = b\<rparr>" for c :: HuffmanCode
  by (cases c) simp

lemma take_four: "4 \<le> length val \<Longrightarrow> take 4 val = [val ! 0, val ! 1, val ! 2, val ! 3]"
  by (rule nth_equalityI) (auto simp: less_Suc_eq numeral_eq_Suc)

lemma simple_table_at:
  assumes "4 \<le> length val"
  shows "simple_table (a # table) val 0 = Some (\<lparr>hc_value = val ! 0, hc_bits = 0\<rparr> # table, 1)"
    and "simple_table (a # b # table) val 1 =
      Some (\<lparr>hc_value = min (val ! 0) (val ! 1), hc_bits = 1\<rparr> # \<lparr>hc_value = max (val ! 0) (val ! 1), hc_bits = 1\<rparr> # table, 2)"
    and "simple_table (a # b # c # d # table) val 2 =
      Some (\<lparr>hc_value = val ! 0, hc_bits = 1\<rparr> # \<lparr>hc_value = min (val ! 1) (val ! 2), hc_bits = 2\<rparr> #
        \<lparr>hc_value = val ! 0, hc_bits = 1\<rparr> # \<lparr>hc_value = max (val ! 1) (val ! 2), hc_bits = 2\<rparr> # table, 4)"
    and "simple_table (a # b # c # d # table) val 3 =
      Some (\<lparr>hc_value = sort (take 4 val) ! 0, hc_bits = 2\<rparr> # \<lparr>hc_value = sort (take 4 val) ! 2, hc_bits = 2\<rparr> #
        \<lparr>hc_value = sort (take 4 val) ! 1, hc_bits = 2\<rparr> # \<lparr>hc_value = sort (take 4 val) ! 3, hc_bits = 2\<rparr> # table, 4)"
proof -
  have g: "get val 0 = Some (val ! 0)" "get val 1 = Some (val ! 1)" "get val 2 = Some (val ! 2)"
    "get val 3 = Some (val ! 3)" "get val (Suc 0) = Some (val ! 1)" using assms by (auto simp: get_def)
  show "simple_table (a # table) val 0 = Some (\<lparr>hc_value = val ! 0, hc_bits = 0\<rparr> # table, 1)"
    by (simp add: simple_table_def g)
  show "simple_table (a # b # table) val 1 =
      Some (\<lparr>hc_value = min (val ! 0) (val ! 1), hc_bits = 1\<rparr> # \<lparr>hc_value = max (val ! 0) (val ! 1), hc_bits = 1\<rparr> # table, 2)"
    by (auto simp: simple_table_def g min_def max_def)
  show "simple_table (a # b # c # d # table) val 2 =
      Some (\<lparr>hc_value = val ! 0, hc_bits = 1\<rparr> # \<lparr>hc_value = min (val ! 1) (val ! 2), hc_bits = 2\<rparr> #
        \<lparr>hc_value = val ! 0, hc_bits = 1\<rparr> # \<lparr>hc_value = max (val ! 1) (val ! 2), hc_bits = 2\<rparr> # table, 4)"
    by (auto simp: simple_table_def g min_def max_def)
  show "simple_table (a # b # c # d # table) val 3 =
      Some (\<lparr>hc_value = sort (take 4 val) ! 0, hc_bits = 2\<rparr> # \<lparr>hc_value = sort (take 4 val) ! 2, hc_bits = 2\<rparr> #
        \<lparr>hc_value = sort (take 4 val) ! 1, hc_bits = 2\<rparr> # \<lparr>hc_value = sort (take 4 val) ! 3, hc_bits = 2\<rparr> # table, 4)"
    using assms by (simp add: simple_table_def g swap_network [unfolded foldl.simps One_nat_def] take_four set_both' Let_def del: sort_key_simps)
qed

lemma fill_seven_at:
  "fill_seven (c0 # c1 # c2 # c3 # c4 # c5 # c6 # table) v 0 7 =
    Some (\<lparr>hc_value = v, hc_bits = 1\<rparr> # \<lparr>hc_value = v, hc_bits = 2\<rparr> # \<lparr>hc_value = v, hc_bits = 1\<rparr> #
      \<lparr>hc_value = v, hc_bits = 2\<rparr> # \<lparr>hc_value = v, hc_bits = 1\<rparr> # \<lparr>hc_value = v, hc_bits = 2\<rparr> #
      \<lparr>hc_value = v, hc_bits = 1\<rparr> # table)"
  by (simp add: numeral_eq_Suc mod_Suc)

lemma simple_table_4:
  assumes "4 \<le> length val"
  shows "simple_table (c0 # c1 # c2 # c3 # c4 # c5 # c6 # c7 # table) val 4 =
    Some (\<lparr>hc_value = val ! 0, hc_bits = 1\<rparr> # \<lparr>hc_value = val ! 1, hc_bits = 2\<rparr> #
      \<lparr>hc_value = val ! 0, hc_bits = 1\<rparr> # \<lparr>hc_value = min (val ! 2) (val ! 3), hc_bits = 3\<rparr> #
      \<lparr>hc_value = val ! 0, hc_bits = 1\<rparr> # \<lparr>hc_value = val ! 1, hc_bits = 2\<rparr> #
      \<lparr>hc_value = val ! 0, hc_bits = 1\<rparr> # \<lparr>hc_value = max (val ! 2) (val ! 3), hc_bits = 3\<rparr> # table, 8)"
proof -
  have g: "get val 0 = Some (val ! 0)" "get val (Suc 0) = Some (val ! 1)" "get val 2 = Some (val ! 2)"
    "get val 3 = Some (val ! 3)" using assms by (auto simp: get_def)
  show ?thesis by (simp add: simple_table_def g swap_if_less_four fill_seven_at set_both' Let_def)
qed

lemma list_of_eight:
  assumes "8 \<le> length (xs :: 'a list)"
  obtains a b c d e f g h ys where "xs = a # b # c # d # e # f # g # h # ys"
proof -
  have "\<exists>y ys. xs = y # ys \<and> n \<le> length ys" if "Suc n \<le> length xs" for n and xs :: "'a list"
    using that by (cases xs) auto
  then show thesis using assms that unfolding numeral_eq_Suc pred_numeral_simps BitM.simps by (metis numeral_One One_nat_def)
qed

text \<open>The smallest table a simple code needs, and that it decodes the code.\<close>

lemma simple_table_small:
  assumes "8 \<le> length table" "4 \<le> length val" "num_symbols \<le> 4"
  shows "\<exists>small j. simple_table table val num_symbols = Some (small, 2 ^ j) \<and> j \<le> 3 \<and>
    length small = length table \<and> drop 8 small = drop 8 table \<and>
    (\<forall>z \<in> {0, 1, 2, 3, 4, 5, 6, 7}. small ! (rev_bits 3 z mod 2 ^ j) =
      entry (canonical 3 (simple_code val num_symbols) z))"
proof -
  obtain a b c d e f g h tl where t: "table = a # b # c # d # e # f # g # h # tl"
    using assms(1) by (rule list_of_eight)
  have "unat num_symbols \<le> 4" using assms(3) by (simp add: word_le_nat_alt)
  then have "unat num_symbols \<in> {0, 1, 2, 3, 4}" by auto
  then have "num_symbols \<in> {0, 1, 2, 3, 4}" by (simp add: word_unat_eq_iff)
  then consider "num_symbols = 0" | "num_symbols = 1" | "num_symbols = 2" | "num_symbols = 3" | "num_symbols = 4"
    by auto
  then show ?thesis
  proof cases
    case 1
    show ?thesis unfolding 1 t simple_table_at(1) [OF assms(2)]
      by (simp, intro exI [of _ 0]) (simp add: simple_code_def entry_def rev_bits_3)
  next
    case 2
    show ?thesis unfolding 2 t simple_table_at(2) [OF assms(2)]
      by (simp, intro exI [of _ 1]) (simp add: simple_code_def entry_def rev_bits_3)
  next
    case 3
    show ?thesis unfolding 3 t simple_table_at(3) [OF assms(2)]
      by (simp, intro exI [of _ 2]) (simp add: simple_code_def entry_def rev_bits_3)
  next
    case 4
    have "length (sort (take 4 val)) = 4" using assms(2) by simp
    then obtain m0 m1 m2 m3 where m: "sort (take 4 val) = [m0, m1, m2, m3]"
      by (auto simp: length_Suc_conv numeral_eq_Suc simp del: length_sort)
    show ?thesis unfolding 4 t simple_table_at(4) [OF assms(2)]
      by (simp, intro exI [of _ 2]) (simp add: simple_code_def entry_def rev_bits_3 m)
  next
    case 5
    show ?thesis unfolding 5 t simple_table_4 [OF assms(2)]
      by (simp, intro exI [of _ 3]) (simp add: simple_code_def entry_def rev_bits_3)
  qed
qed

lemma simple_code_ok:
  assumes "4 \<le> length val" "num_symbols \<le> 4"
  shows "sorted_code (simple_code val num_symbols)" "\<forall>(s, l) \<in> set (simple_code val num_symbols). l \<le> 3"
    "kraft 3 (simple_code val num_symbols) = 8"
proof -
  have "length (sort (take 4 val)) = 4" using assms(1) by simp
  then obtain m0 m1 m2 m3 where "sort (take 4 val) = [m0, m1, m2, m3]"
    by (auto simp: length_Suc_conv numeral_eq_Suc simp del: length_sort)
  then show "sorted_code (simple_code val num_symbols)" "\<forall>(s, l) \<in> set (simple_code val num_symbols). l \<le> 3"
    "kraft 3 (simple_code val num_symbols) = 8" by (simp_all add: simple_code_def)
qed

lemma BuildSimpleHuffmanTable_at:
  assumes "256 \<le> length table" "4 \<le> length val" "num_symbols \<le> 4"
  shows "\<exists>table'. BrotliBuildSimpleHuffmanTable table 8 val num_symbols = Some (table', 256) \<and>
    length table' = length table \<and> (\<forall>i < length table. 256 \<le> i \<longrightarrow> table' ! i = table ! i) \<and>
    decodes table' (simple_code val num_symbols)"
proof -
  obtain small j where s: "simple_table table val num_symbols = Some (small, 2 ^ j)" "j \<le> 3"
    "length small = length table" "drop 8 small = drop 8 table"
    "\<forall>z \<in> {0, 1, 2, 3, 4, 5, 6, 7}. small ! (rev_bits 3 z mod 2 ^ j) = entry (canonical 3 (simple_code val num_symbols) z)"
  proof -
    have "8 \<le> length table" using assms(1) by simp
    from simple_table_small [OF this assms(2,3)] that show thesis by blast
  qed
  obtain table' where t: "double_simple_table small (2 ^ j) 256 = Some table'" "length table' = length small"
    "\<forall>i < 256. table' ! i = small ! (i mod 2 ^ j)" "\<forall>i < length small. 256 \<le> i \<longrightarrow> table' ! i = small ! i"
    using double_simple_table_at [of j small] s(2,3) assms(1) by auto
  have j8: "(2::nat) ^ j dvd 8" using le_imp_power_dvd [OF s(2), of "2::nat"] by simp
  have "decodes table' (simple_code val num_symbols)"
  proof (rule small_table_decodes [OF _ t(3) j8 simple_code_ok [OF assms(2,3)] s(5)])
    show "256 \<le> length table'" using t(2) s(3) assms(1) by simp
  qed
  moreover have "table' ! i = table ! i" if "i < length table" "256 \<le> i" for i
  proof -
    have "drop 8 small ! (i - 8) = drop 8 table ! (i - 8)" by (simp only: s(4))
    then have "small ! i = table ! i" using that s(3) by simp
    moreover have "table' ! i = small ! i" using t(4) that s(3) by simp
    ultimately show ?thesis by simp
  qed
  moreover have "BrotliBuildSimpleHuffmanTable table 8 val num_symbols = Some (table', 256)"
  proof -
    have "shl32 1 (u32_of_i32 8) = 256" using shl32_push [of 8 1] by (simp add: push_bit_eq_mult)
    then show ?thesis using s(1) t(1) assms(3) by (simp add: BrotliBuildSimpleHuffmanTable_def Let_def)
  qed
  ultimately show ?thesis using t(2) s(3) by (intro exI [of _ table']) simp
qed

subsection \<open>The tables of the builders\<close>

lemma codes_from_all:
  "sorted_code (codes_from syms off hist 1 16)" "\<forall>(s, l) \<in> set (codes_from syms off hist 1 16). 1 \<le> l \<and> l \<le> 15"
  using sorted_codes_from codes_from_set [of _ _ syms off hist 1 16] by fastforce+

lemma pointer_ok_mono: "pointer_ok table n i \<Longrightarrow> n \<le> m \<Longrightarrow> pointer_ok table m i"
  by (auto simp: pointer_ok_def Let_def)

lemma BuildHuffmanTable_decodes:
  assumes h: "histogram_ok syms off hist" and k: "kraft 15 (codes_from syms off hist 1 16) = 2 ^ 15"
    and room: "table_entries (codes_from syms off hist 1 16) \<le> length table"
  shows "\<exists>table' hist'. BrotliBuildHuffmanTable table 8 syms off hist =
      Some (table', hist', of_nat (table_entries (codes_from syms off hist 1 16))) \<and>
    length table' = length table \<and>
    drop (table_entries (codes_from syms off hist 1 16)) table' =
      drop (table_entries (codes_from syms off hist 1 16)) table \<and>
    decodes table' (codes_from syms off hist 1 16)"
proof -
  let ?n = "table_entries (codes_from syms off hist 1 16)"
  obtain table' hist' where t: "BrotliBuildHuffmanTable table 8 syms off hist = Some (table', hist', of_nat ?n)"
    "length table' = length table" "\<forall>i < length table. ?n \<le> i \<longrightarrow> table' ! i = table ! i"
    "\<forall>y < 2 ^ 15. lookup_bits table' (rev_bits 15 y) = canonical 15 (codes_from syms off hist 1 16) y"
    "\<forall>i < 256. hc_bits (table' ! i) \<le> 8 \<or> pointer_ok table' ?n i"
    using BuildHuffmanTable_at [OF assms] by blast
  have "256 \<le> length table" using room by (simp add: table_entries_def)
  moreover have "\<forall>i < 256. hc_bits (table' ! i) \<le> 8 \<or> pointer_ok table' (length table') i"
    using t(2,5) room pointer_ok_mono by metis
  moreover have "\<forall>(s, l) \<in> set (codes_from syms off hist 1 16). l \<le> 15"
    using codes_from_all(2) [of syms off hist] by fastforce
  ultimately have "decodes table' (codes_from syms off hist 1 16)"
    using t(2,4) k codes_from_all(1) by (simp add: decodes_def)
  moreover have "drop ?n table' = drop ?n table"
    using t(2,3) by (intro nth_equalityI) auto
  ultimately show ?thesis using t(1,2) by blast
qed

text \<open>The tables \<open>ReadHuffmanCode\<close> builds for simple codes, in memory of the size of one tree.\<close>

definition simple_huffman_table :: "u32 \<Rightarrow> u16 \<Rightarrow> u16 \<Rightarrow> u16 \<Rightarrow> u16 \<Rightarrow> HuffmanCode list" where
  "simple_huffman_table num_symbols v0 v1 v2 v3 =
    (case BrotliBuildSimpleHuffmanTable (replicate BROTLI_HUFFMAN_MAX_TABLE_SIZE HuffmanCode_default) 8
       [v0, v1, v2, v3] num_symbols of
       Some (table, _) \<Rightarrow> table
     | None \<Rightarrow> [])"

lemma simple_huffman_table_decodes:
  assumes "num_symbols \<le> 4"
  shows "decodes (simple_huffman_table num_symbols v0 v1 v2 v3) (simple_code [v0, v1, v2, v3] num_symbols)"
  using BuildSimpleHuffmanTable_at [of "replicate BROTLI_HUFFMAN_MAX_TABLE_SIZE HuffmanCode_default"
      "[v0, v1, v2, v3]" num_symbols] assms
  by (auto simp: simple_huffman_table_def)

interpretation one_symbol: huffman_table "simple_huffman_table 0 v0 v1 v2 v3" for v0 v1 v2 v3
  by (rule decodes_huffman_table [OF simple_huffman_table_decodes]) simp

interpretation two_symbols: huffman_table "simple_huffman_table 1 v0 v1 v2 v3" for v0 v1 v2 v3
  by (rule decodes_huffman_table [OF simple_huffman_table_decodes]) (simp add: word_le_nat_alt)

interpretation three_symbols: huffman_table "simple_huffman_table 2 v0 v1 v2 v3" for v0 v1 v2 v3
  by (rule decodes_huffman_table [OF simple_huffman_table_decodes]) (simp add: word_le_nat_alt)

interpretation four_symbols: huffman_table "simple_huffman_table 3 v0 v1 v2 v3" for v0 v1 v2 v3
  by (rule decodes_huffman_table [OF simple_huffman_table_decodes]) (simp add: word_le_nat_alt)

interpretation four_symbols_skewed: huffman_table "simple_huffman_table 4 v0 v1 v2 v3" for v0 v1 v2 v3
  by (rule decodes_huffman_table [OF simple_huffman_table_decodes]) simp

subsection \<open>Code words\<close>

text \<open>The bits of the code word of the \<open>k\<close>-th symbol of a code, in the order of the stream.\<close>

definition codeword :: "code \<Rightarrow> nat \<Rightarrow> bool list" where
  "codeword code k = map (\<lambda>i. bit (kraft 15 (take k code)) (14 - i)) [0..<snd (code ! k)]"

lemma length_codeword [simp]: "length (codeword code k) = snd (code ! k)"
  by (simp add: codeword_def)

lemma kraft_take_less: "k < length code \<Longrightarrow> kraft w (take k code) < kraft w code"
proof -
  assume k: "k < length code"
  then have "kraft w code = kraft w (take k code) + kraft w (drop k code)"
    by (metis append_take_drop_id kraft_append)
  moreover have "0 < kraft w (drop k code)"
    using k by (cases "drop k code") auto
  ultimately show ?thesis by simp
qed

lemma bit_code_value: "bit (code_value 15 bs) i \<longleftrightarrow> i < 15 \<and> 14 - i < length bs \<and> bs ! (14 - i)"
  by (auto simp: code_value_def bit_rev_bits bit_unsigned_iff bit_word_of_bits)

lemma code_value_codeword:
  assumes "snd (code ! k) \<le> 15" "kraft 15 (take k code) < 2 ^ 15"
  shows "code_value 15 (codeword code k @ rest) div 2 ^ (15 - snd (code ! k)) =
    kraft 15 (take k code) div 2 ^ (15 - snd (code ! k))"
proof -
  define l where "l = snd (code ! k)"
  define w where "w = codeword code k @ rest"
  define start where "start = kraft 15 (take k code)"
  have w: "length w = l + length rest" "\<And>j. j < l \<Longrightarrow> w ! j = bit start (14 - j)"
    by (simp_all add: w_def l_def start_def codeword_def nth_append)
  have "drop_bit (15 - l) (code_value 15 w) = drop_bit (15 - l) start"
  proof (rule bit_eqI)
    fix i
    show "bit (drop_bit (15 - l) (code_value 15 w)) i = bit (drop_bit (15 - l) start) i"
    proof (cases "i < l")
      case True
      then have j: "14 - (15 - l + i) < l" "14 - (14 - (15 - l + i)) = 15 - l + i" "15 - l + i < 15"
        using assms(1) by (auto simp: l_def)
      then show ?thesis using w by (simp add: bit_drop_bit_eq bit_code_value)
    next
      case False
      then have "\<not> 15 - l + i < 15" by simp
      moreover have "\<not> bit start (15 - l + i)"
        using bit_nat_less [of start 15] assms(2) calculation by (auto simp: start_def)
      ultimately show ?thesis by (simp add: bit_drop_bit_eq bit_code_value)
    qed
  qed
  then show ?thesis by (simp add: drop_bit_eq_div w_def l_def start_def)
qed

lemma canonical_start:
  assumes "k < length code"
  shows "canonical 15 code (kraft 15 (take k code)) = code ! k"
proof -
  obtain s l where c: "code ! k = (s, l)" by fastforce
  have "canonical 15 (take k code @ (code ! k) # drop (Suc k) code) (kraft 15 (take k code)) = code ! k"
    by (simp only: canonical_append) (simp add: c)
  then show ?thesis by (simp only: id_take_nth_drop [OF assms, symmetric])
qed

lemma canonical_codeword:
  assumes "k < length code" "sorted_code code" "\<forall>(s, l) \<in> set code. l \<le> 15" "kraft 15 code = 2 ^ 15"
  shows "canonical 15 code (code_value 15 (codeword code k @ rest)) = code ! k"
proof -
  have less: "kraft 15 (take k code) < kraft 15 code" by (rule kraft_take_less [OF assms(1)])
  have l: "snd (code ! k) \<le> 15" using nth_mem [OF assms(1)] assms(3) by (auto simp: case_prod_beta)
  have "canonical 15 code (kraft 15 (take k code)) = (fst (code ! k), snd (code ! k))"
    using canonical_start [OF assms(1)] by simp
  from canonical_prefix [OF assms(2,3) less this code_value_codeword [OF l less [unfolded assms(4)]]]
  show ?thesis by simp
qed

subsection \<open>Properties\<close>

text \<open>C14: For a histogram and symbol lists that describe a complete prefix code of at most 15 bits,
  \<open>BrotliBuildHuffmanTable\<close> does not panic in a table of \<open>table_entries\<close> entries, reports
  that number, leaves the memory behind it alone, and the two-level table it writes decodes every bit
  string to the symbol and the length that the canonical code assigns, whatever the memory held.\<close>

theorem BrotliBuildHuffmanTable_correct:
  assumes "histogram_ok syms off hist" "kraft 15 (codes_from syms off hist 1 16) = 2 ^ 15"
    and "table_entries (codes_from syms off hist 1 16) \<le> length table"
  shows "\<exists>table' hist'. BrotliBuildHuffmanTable table 8 syms off hist =
      Some (table', hist', of_nat (table_entries (codes_from syms off hist 1 16))) \<and>
    length table' = length table \<and>
    drop (table_entries (codes_from syms off hist 1 16)) table' =
      drop (table_entries (codes_from syms off hist 1 16)) table \<and>
    decodes table' (codes_from syms off hist 1 16)"
  using BuildHuffmanTable_decodes [OF assms] .

text \<open>A code of ten symbols with the lengths 1 to 9 and again 9, which needs a second-level table.\<close>

definition sample_symbols :: "u16 list" where
  "sample_symbols = [0xFFFF, 0, 1, 2, 3, 4, 5, 6, 7, 8, 0xFFFF, 0xFFFF, 0xFFFF, 0xFFFF, 0xFFFF, 0xFFFF,
    0, 0, 0, 0, 0, 0, 0, 0, 9, 0]"

definition sample_histogram :: "u16 list" where
  "sample_histogram = [0, 1, 1, 1, 1, 1, 1, 1, 1, 2, 0, 0, 0, 0, 0, 0]"

definition sample_code :: code where
  "sample_code = [(0, 1), (1, 2), (2, 3), (3, 4), (4, 5), (5, 6), (6, 7), (7, 8), (8, 9), (9, 9)]"

lemma sample_histogram_ok: "histogram_ok sample_symbols 16 sample_histogram"
  by code_simp

lemma sample_codes: "codes_from sample_symbols 16 sample_histogram 1 16 = sample_code"
  by code_simp

lemma sample_entries: "table_entries sample_code = 258"
  by code_simp

theorem BrotliBuildHuffmanTable_correct_witness:
  "\<exists>table hist. BrotliBuildHuffmanTable (replicate 300 HuffmanCode_default) 8 sample_symbols 16 sample_histogram =
      Some (table, hist, 258) \<and> decodes table sample_code"
proof -
  have "kraft 15 sample_code = 2 ^ 15" by (simp add: sample_code_def)
  with BrotliBuildHuffmanTable_correct [OF sample_histogram_ok, of "replicate 300 HuffmanCode_default",
      unfolded sample_codes sample_entries]
  show ?thesis by auto
qed

text \<open>C16: A simple code of one to four symbols, given in any order, gets the table that decodes the
  canonical code with the lengths of its shape, in any memory of at least 256 entries, of which only
  the first 256 change.\<close>

theorem BrotliBuildSimpleHuffmanTable_correct:
  assumes "256 \<le> length table" "4 \<le> length val" "num_symbols \<le> 4"
  shows "\<exists>table'. BrotliBuildSimpleHuffmanTable table 8 val num_symbols = Some (table', 256) \<and>
    drop 256 table' = drop 256 table \<and> decodes table' (simple_code val num_symbols)"
proof -
  obtain table' where t: "BrotliBuildSimpleHuffmanTable table 8 val num_symbols = Some (table', 256)"
    "length table' = length table" "\<forall>i < length table. 256 \<le> i \<longrightarrow> table' ! i = table ! i"
    "decodes table' (simple_code val num_symbols)"
    using BuildSimpleHuffmanTable_at [OF assms] by blast
  have "drop 256 table' = drop 256 table" using t(2,3) by (intro nth_equalityI) auto
  with t show ?thesis by blast
qed

theorem BrotliBuildSimpleHuffmanTable_correct_witness:
  "\<exists>table. BrotliBuildSimpleHuffmanTable (replicate 256 HuffmanCode_default) 8 [65, 66, 90, 80] 4 = Some (table, 256) \<and>
    decodes table [(65, 1), (66, 2), (80, 3), (90, 3)]"
proof -
  have "simple_code [65, 66, 90, 80] 4 = [(65, 1), (66, 2), (80, 3), (90, 3)]"
    by (simp add: simple_code_def min_def max_def)
  with BrotliBuildSimpleHuffmanTable_correct [of "replicate 256 HuffmanCode_default" "[65, 66, 90, 80]" 4]
  show ?thesis by auto
qed

text \<open>C15: With a table that decodes a code, the symbol reader inverts the code: where the stream begins
  with the code word of a symbol, \<open>SafeReadSymbol\<close> returns that symbol and removes exactly the code
  word, whatever follows it, also at the very end of the input.\<close>

theorem symbol_roundtrip:
  assumes "decodes table code" "k < length code" "br_at br input (codeword code k @ rest)"
  shows "\<exists>br'. SafeReadSymbol table br result input = Some (True, br', ucast (fst (code ! k))) \<and>
    br_at br' input rest"
proof -
  have h: "huffman_table table" using assms(1) by (rule decodes_huffman_table)
  have "symbol_at table (codeword code k @ rest) = code ! k"
    using assms(1,2) symbol_at_decodes [OF assms(1)] canonical_codeword [of k code rest]
    by (simp add: decodes_def)
  with huffman_table.SafeReadSymbol_at [OF h assms(3), of result] show ?thesis by auto
qed

theorem symbol_roundtrip_witness:
  "\<exists>br'. SafeReadSymbol (simple_huffman_table 4 65 66 90 80) sample_reader 0 sample_input = Some (True, br', 80) \<and>
    br_at br' sample_input (drop 3 (bits_of_bytes sample_input))"
proof -
  let ?code = "simple_code [65, 66, 90, 80] 4"
  have c: "?code = [(65, 1), (66, 2), (80, 3), (90, 3)]" by (simp add: simple_code_def min_def max_def)
  have w: "codeword ?code 2 = [True, True, False]"
    unfolding c by (simp add: codeword_def upt_rec bit_iff_odd)
  have "bits_of_bytes sample_input = [True, True, False] @ drop 3 (bits_of_bytes sample_input)" by code_simp
  then have "br_at sample_reader sample_input (codeword ?code 2 @ drop 3 (bits_of_bytes sample_input))"
    using sample_reader_ok sample_aligned unfolding w by (simp only: br_at_def)
  from symbol_roundtrip [OF simple_huffman_table_decodes _ this, of 0] show ?thesis by (simp add: c)
qed

text \<open>C17: While \<open>BrotliCheckInputAmount\<close> guarantees 28 bytes ahead, the fast reader, the safe reader and
  the reader that looked its first table entry up in advance return the same symbol and leave readers
  that stand for the same rest of the stream.\<close>

theorem symbol_readers_agree:
  assumes "huffman_table table" "br_ok br input" "BrotliCheckInputAmount br 28" "unat (br_bit_pos br) < 64"
  shows "\<exists>v br1 br2 br3 br4 bits val p. ReadSymbol table br input = Some (v, br1) \<and>
    SafeReadSymbol table br result input = Some (True, br2, v) \<and>
    PreloadSymbol False table br 0 0 input = Some (br3, bits, val) \<and>
    ReadPreloadedSymbol table br3 bits val input = Some (v, br4, p) \<and>
    stream br1 input = stream br2 input \<and> stream br2 input = stream br4 input"
proof -
  let ?bs = "stream br input"
  let ?l = "snd (symbol_at table ?bs)"
  have at: "br_at br input ?bs" using assms(2) by (simp add: br_at_def)
  have avail: "28 \<le> unat (br_avail_in br)"
    using assms(3) by (simp add: BrotliCheckInputAmount_def word_le_nat_alt)
  then have av8: "8 \<le> unat (br_avail_in br)" by simp
  note h = assms(1)
  have l: "?l \<le> length ?bs"
    using huffman_table.code_length [OF h] br_at_length [OF at] avail
    by (simp add: symbol_at_def le_trans [of _ 15])
  obtain br3 where p: "PreloadSymbol False table br 0 0 input =
      Some (br3, ucast (hc_bits (root_entry table ?bs)), ucast (hc_value (root_entry table ?bs)))"
    "br_at br3 input ?bs" "unat (br_bit_pos br3) < 32" "unat (br_avail_in br) \<le> unat (br_avail_in br3) + 7"
    using huffman_table.PreloadSymbol_at [OF h at assms(4) av8] by blast
  have "15 \<le> unat (br_avail_in br3)" using p(4) avail by simp
  from huffman_table.ReadPreloadedSymbol_at [OF h p(2,3) this] p(1)
    huffman_table.ReadSymbol_at [OF h at assms(4) av8] huffman_table.SafeReadSymbol_at [OF h at, of result] l
  show ?thesis by (auto simp: br_at_def)
qed

theorem symbol_readers_agree_witness:
  "let br = sample_reader\<lparr>br_avail_in := 35\<rparr>; input = sample_input @ sample_input @ sample_input;
       table = simple_huffman_table 4 65 66 90 80
   in BrotliCheckInputAmount br 28 \<and>
      (\<exists>v br1 br2. ReadSymbol table br input = Some (v, br1) \<and>
         SafeReadSymbol table br 0 input = Some (True, br2, v) \<and> stream br1 input = stream br2 input)"
proof -
  let ?br = "sample_reader\<lparr>br_avail_in := 35\<rparr>" and ?input = "sample_input @ sample_input @ sample_input"
  have "br_ok ?br ?input" "BrotliCheckInputAmount ?br 28" "unat (br_bit_pos ?br) < 64"
    by (simp_all add: sample_reader_def sample_input_def br_ok_def BrotliCheckInputAmount_def)
  with symbol_readers_agree [OF four_symbols_skewed.huffman_table_axioms this, of 65 66 90 80 0] show ?thesis
    by (auto simp: Let_def)
qed

text \<open>The reader at the beginning of the next input slice, when the slice before is used up.\<close>

abbreviation next_slice :: "BrotliBitReader \<Rightarrow> u8 list \<Rightarrow> BrotliBitReader" where
  "next_slice br input \<equiv> br\<lparr>br_next_in := 0, br_avail_in := of_nat (length input)\<rparr>"

lemma next_slice_at:
  assumes "br_at br input bs" "br_avail_in br = 0" "length next_input < 2 ^ 32"
  shows "br_at (next_slice br next_input) next_input (bs @ bits_of_bytes next_input)"
proof -
  have "acc_bits br = bs" using assms(1,2) by (simp add: br_at_def stream_def window_bytes_def)
  then show ?thesis using assms unat_of_nat_u32 [OF assms(3)]
    by (simp add: br_at_def br_ok_def stream_def acc_bits_def window_bytes_def)
qed

text \<open>C18: A symbol may be split between two input slices anywhere. If the first slice ends inside a
  code word, \<open>SafeReadSymbol\<close> fails, leaves its result alone and consumes the slice without losing a
  bit; called again on the next slice it returns the symbol at the front of the joined stream, or
  fails once more if that is still too short.\<close>

theorem SafeReadSymbol_resumes:
  assumes "huffman_table table" "br_ok br input"
    and "SafeReadSymbol table br result input = Some (False, br', result')" "length next_input < 2 ^ 32"
  shows "result' = result \<and> br_avail_in br' = 0 \<and>
    (\<exists>br''. SafeReadSymbol table (next_slice br' next_input) result next_input =
      (let bs = stream br input @ bits_of_bytes next_input; (v, l) = symbol_at table bs
       in if l \<le> length bs then Some (True, br'', ucast v) else Some (False, br'', result)))"
proof -
  let ?bs = "stream br input" and ?br = "next_slice br' next_input"
  note h = assms(1)
  have at: "br_at br input ?bs" using assms(2) by (simp add: br_at_def)
  from huffman_table.SafeReadSymbol_at [OF h at, of result] assms(3)
  have 1: "result' = result" "br_at br' input ?bs" "br_avail_in br' = 0"
    by (auto split: if_splits)
  note next_slice_at [OF 1(2,3) assms(4)]
  from huffman_table.SafeReadSymbol_at [OF h this, of result] 1 show ?thesis
    by (auto simp: Let_def split: prod.splits if_splits)
qed

theorem SafeReadSymbol_resumes_witness:
  "\<exists>br' br''. SafeReadSymbol (simple_huffman_table 4 65 66 90 80)
      \<lparr>br_val = 0xC000000000000000, br_bit_pos = 62, br_next_in = 0, br_avail_in = 0\<rparr> 7 [] = Some (False, br', 7) \<and>
    SafeReadSymbol (simple_huffman_table 4 65 66 90 80) (br'\<lparr>br_next_in := 0, br_avail_in := 1\<rparr>) 7 [0] =
      Some (True, br'', 80)"
proof -
  let ?br = "\<lparr>br_val = 0xC000000000000000, br_bit_pos = 62, br_next_in = 0, br_avail_in = 0\<rparr> :: BrotliBitReader"
  let ?table = "simple_huffman_table 4 65 66 90 80"
  have ok: "br_ok ?br []" by (simp add: br_ok_def)
  have bs: "stream ?br [] = [True, True]" by code_simp
  have c: "simple_code [65, 66, 90, 80] 4 = [(65, 1), (66, 2), (80, 3), (90, 3)]"
    by (simp add: simple_code_def min_def max_def)
  have d: "decodes ?table [(65, 1), (66, 2), (80, 3), (90, 3)]"
    using simple_huffman_table_decodes [of 4 65 66 90 80] unfolding c by simp
  have "word_of_bits [True, True] = (3 :: u32)"
    "word_of_bits [True, True, False, False, False, False, False, False, False, False] = (3 :: u32)" by code_simp+
  moreover have "rev_bits 15 3 = 24576" by (simp add: rev_bits_def upt_rec bit_iff_odd)
  ultimately have sym: "symbol_at ?table [True, True] = (80, 3)"
    "symbol_at ?table [True, True, False, False, False, False, False, False, False, False] = (80, 3)"
    by (simp_all add: symbol_at_decodes [OF d] code_value_def)
  have byte: "bits_of_word 8 (0 :: u8) = [False, False, False, False, False, False, False, False]" by code_simp
  obtain br' where br': "SafeReadSymbol ?table ?br 7 [] = Some (False, br', 7)"
    using four_symbols_skewed.SafeReadSymbol_at [of ?br "[]" "[True, True]" 65 66 90 80 7] ok bs sym(1)
    by (auto simp: br_at_def)
  from SafeReadSymbol_resumes [OF four_symbols_skewed.huffman_table_axioms ok br', of "[0]"] br'
  show ?thesis by (auto simp: bs byte sym(2))
qed

end
