(* ===== verification/Code_Reader.thy ===== *)
theory Code_Reader
  imports Symbol_Decoder
begin

text \<open>
  Reading the description of a Huffman code, from \<open>src/decode.rs\<close>. A simple code lists up to four
  symbols. A complex code is a list of code lengths, itself Huffman coded: the lengths of that
  code are read first (\<open>ReadCodeLengthCodeLengths\<close>), then the code lengths of the symbols, which are
  chained by length as they arrive (\<open>ProcessSingleCodeLength\<close>, \<open>ProcessRepeatedCodeLength\<close>).
\<close>

subsection \<open>Constants\<close>

definition kDefaultCodeLength :: u32 where
  [simp]: "kDefaultCodeLength = 8"

definition kCodeLengthRepeatCode :: u32 where
  [simp]: "kCodeLengthRepeatCode = 16"

definition CODE_LENGTH_CODES :: nat where
  [simp]: "CODE_LENGTH_CODES = 18"

definition kCodeLengthCodeOrder :: "u8 list" where
  "kCodeLengthCodeOrder = [1, 2, 3, 4, 0, 5, 17, 6, 16, 7, 8, 9, 10, 11, 12, 13, 14, 15]"

definition kCodeLengthPrefixLength :: "u8 list" where
  "kCodeLengthPrefixLength = [2, 2, 2, 3, 2, 2, 2, 4, 2, 2, 2, 3, 2, 2, 2, 4]"

definition kCodeLengthPrefixValue :: "u8 list" where
  "kCodeLengthPrefixValue = [0, 4, 3, 2, 0, 4, 3, 1, 0, 4, 3, 2, 0, 4, 3, 5]"

subsection \<open>Simple codes\<close>

function log2_floor_loop :: "u32 \<Rightarrow> u32 \<Rightarrow> u32" where
  "log2_floor_loop x result =
    (if x \<noteq> 0 then log2_floor_loop (drop_bit 1 x) (result + 1) else result)"
  by pat_completeness auto
termination
proof (relation "measure (\<lambda>(x, result). unat x)")
  fix x result :: u32
  assume "x \<noteq> 0"
  then have "unat x \<noteq> 0" by (simp add: unat_eq_0)
  then show "((drop_bit 1 x, result + 1), (x, result)) \<in> measure (\<lambda>(x, result). unat x)"
    by (simp add: drop_bit_eq_div unat_div)
qed simp

declare log2_floor_loop.simps [simp del]

definition Log2Floor :: "u32 \<Rightarrow> u32" where
  "Log2Floor x = log2_floor_loop x 0"

text \<open>The loop that reads the symbols \<open>i\<close> to \<open>num_symbols\<close>, \<open>n\<close> of them.\<close>

fun read_simple_symbols ::
  "u32 \<Rightarrow> u32 \<Rightarrow> BrotliState \<Rightarrow> u32 \<Rightarrow> nat \<Rightarrow> u8 list \<Rightarrow>
     (BrotliDecoderErrorCode option \<times> BrotliState) option" where
  "read_simple_symbols max_bits max_symbol s i 0 input = Some (None, s)"
| "read_simple_symbols max_bits max_symbol s i (Suc n) input = do {
     (ok, v, s) \<leftarrow> read_bits s max_bits input;
     if \<not> ok
     then Some (Some BROTLI_DECODER_NEEDS_MORE_INPUT,
                s\<lparr>s_sub_loop_counter := i, s_substate_huffman := BROTLI_STATE_HUFFMAN_SIMPLE_READ\<rparr>)
     else if v \<ge> max_symbol
     then Some (Some BROTLI_DECODER_ERROR_FORMAT_SIMPLE_HUFFMAN_ALPHABET, s)
     else do {
       syms \<leftarrow> put (s_symbols_lists_array s) (unat i) (ucast v);
       read_simple_symbols max_bits max_symbol (s\<lparr>s_symbols_lists_array := syms\<rparr>) (i + 1) n input
     }
   }"

text \<open>The two nested loops that look for equal symbols.\<close>

definition has_duplicate :: "u16 list \<Rightarrow> nat \<Rightarrow> bool" where
  "has_duplicate syms num_symbols =
     list_ex (\<lambda>i. list_ex (\<lambda>j. syms ! i = syms ! j) [i + 1..<num_symbols + 1]) [0..<num_symbols]"

definition ReadSimpleHuffmanSymbols ::
  "u32 \<Rightarrow> u32 \<Rightarrow> BrotliState \<Rightarrow> u8 list \<Rightarrow> (BrotliDecoderErrorCode \<times> BrotliState) option" where
  "ReadSimpleHuffmanSymbols alphabet_size max_symbol s input = do {
     let max_bits = Log2Floor (alphabet_size - 1);
     let i = s_sub_loop_counter s;
     let num_symbols = s_symbol s;
     items \<leftarrow> slice (s_symbols_lists_array s) (unat i) (unat num_symbols + 1);
     (err, s) \<leftarrow> read_simple_symbols max_bits max_symbol s i (length items) input;
     case err of
       Some e \<Rightarrow> Some (e, s)
     | None \<Rightarrow>
         if has_duplicate (s_symbols_lists_array s) (unat num_symbols)
         then Some (BROTLI_DECODER_ERROR_FORMAT_SIMPLE_HUFFMAN_SAME, s)
         else Some (BROTLI_DECODER_SUCCESS, s)
   }"

subsection \<open>Chaining symbols by code length\<close>

text \<open>
  The variables that the two \<open>Process\<close> functions receive by mutable reference. The first five are
  local variables of \<open>ReadSymbolCodeLengths\<close> and fields of the state in the safe version.
\<close>

record CodeLengths =
  ch_symbol :: u32
  ch_repeat :: u32
  ch_space :: u32
  ch_prev_code_len :: u32
  ch_repeat_code_len :: u32
  ch_symbol_lists :: "u16 list"
  ch_code_length_histo :: "u16 list"
  ch_next_symbol :: "int list"

definition ProcessSingleCodeLength :: "u32 \<Rightarrow> nat \<Rightarrow> CodeLengths \<Rightarrow> CodeLengths option" where
  "ProcessSingleCodeLength code_len symbol_list_index_offset c = do {
     let c = c\<lparr>ch_repeat := 0\<rparr>;
     c \<leftarrow>
       (if code_len \<noteq> 0 then do {
          n \<leftarrow> get (ch_next_symbol c) (unat code_len);
          syms \<leftarrow> put_at (ch_symbol_lists c) (i32 (int symbol_list_index_offset + n)) (ucast (ch_symbol c));
          next_symbol \<leftarrow> put (ch_next_symbol c) (unat code_len) (sint (ch_symbol c));
          h \<leftarrow> get (ch_code_length_histo c) (unat code_len);
          histo \<leftarrow> put (ch_code_length_histo c) (unat code_len) (h + 1);
          Some (c\<lparr>ch_symbol_lists := syms, ch_next_symbol := next_symbol,
                  ch_prev_code_len := code_len,
                  ch_space := ch_space c - shr32 32768 code_len,
                  ch_code_length_histo := histo\<rparr>)
        } else Some c);
     Some (c\<lparr>ch_symbol := ch_symbol c + 1\<rparr>)
   }"

text \<open>The loop that appends the symbols from \<open>symbol\<close> up to \<open>last\<close> to one chain.\<close>

function repeat_chain ::
  "u16 list \<Rightarrow> nat \<Rightarrow> int \<Rightarrow> u32 \<Rightarrow> u32 \<Rightarrow> (u16 list \<times> int \<times> u32) option" where
  "repeat_chain syms off n symbol last_symbol = do {
     syms \<leftarrow> put_at syms (i32 (int off + n)) (ucast symbol);
     let n = sint symbol;
     let symbol = symbol + 1;
     if symbol = last_symbol then Some (syms, n, symbol)
     else repeat_chain syms off n symbol last_symbol
   }"
  by pat_completeness auto
termination
proof (relation "measure (\<lambda>(syms, off, n, symbol, last_symbol). unat (last_symbol - symbol - 1))")
  fix syms x xa off n and symbol last_symbol xb :: u32
  assume x: "xb = symbol + 1" "xb \<noteq> last_symbol"
  define w where "w = last_symbol - symbol - 1"
  have "w \<noteq> 0" using x by (auto simp: w_def algebra_simps)
  then have "unat (w - 1) < unat w" by (simp add: unat_minus_one unat_gt_0)
  moreover have "last_symbol - xb - 1 = w - 1" by (simp add: x w_def)
  ultimately have "unat (last_symbol - xb - 1) < unat (last_symbol - symbol - 1)"
    unfolding w_def by (simp only:)
  then show "((x, off, xa, xb, last_symbol), (syms, off, n, symbol, last_symbol)) \<in>
      measure (\<lambda>(syms, off, n, symbol, last_symbol). unat (last_symbol - symbol - 1))"
    by (simp only: in_measure prod.case)
qed simp

declare repeat_chain.simps [simp del]

definition ProcessRepeatedCodeLength ::
  "u32 \<Rightarrow> u32 \<Rightarrow> u32 \<Rightarrow> nat \<Rightarrow> CodeLengths \<Rightarrow> CodeLengths option" where
  "ProcessRepeatedCodeLength code_len repeat_delta alphabet_size symbol_lists_index c =
    (let (extra_bits, new_len) =
           (if code_len = kCodeLengthRepeatCode then (2, ch_prev_code_len c) else (3, 0));
         c = (if ch_repeat_code_len c \<noteq> new_len
              then c\<lparr>ch_repeat := 0, ch_repeat_code_len := new_len\<rparr> else c);
         old_repeat = ch_repeat c;
         c = (if ch_repeat c > 0 then c\<lparr>ch_repeat := shl32 (ch_repeat c - 2) extra_bits\<rparr> else c);
         c = c\<lparr>ch_repeat := ch_repeat c + (repeat_delta + 3)\<rparr>;
         repeat_delta = ch_repeat c - old_repeat
     in if ch_symbol c + repeat_delta > alphabet_size
        then Some (c\<lparr>ch_symbol := alphabet_size, ch_space := 0xFFFFF\<rparr>)
        else if ch_repeat_code_len c \<noteq> 0 then do {
          let len = unat (ch_repeat_code_len c);
          n \<leftarrow> get (ch_next_symbol c) len;
          (syms, n, symbol) \<leftarrow>
            repeat_chain (ch_symbol_lists c) symbol_lists_index n (ch_symbol c) (ch_symbol c + repeat_delta);
          next_symbol \<leftarrow> put (ch_next_symbol c) len n;
          h \<leftarrow> get (ch_code_length_histo c) len;
          histo \<leftarrow> put (ch_code_length_histo c) len (ucast (ucast h + repeat_delta));
          Some (c\<lparr>ch_symbol_lists := syms, ch_symbol := symbol, ch_next_symbol := next_symbol,
                  ch_space := ch_space c - shl32 repeat_delta (15 - ch_repeat_code_len c),
                  ch_code_length_histo := histo\<rparr>)
        } else Some (c\<lparr>ch_symbol := ch_symbol c + repeat_delta\<rparr>))"

subsection \<open>Reading the code lengths of the symbols\<close>

definition load_code_lengths :: "BrotliState \<Rightarrow> CodeLengths" where
  "load_code_lengths s =
     \<lparr>ch_symbol = s_symbol s, ch_repeat = s_repeat s, ch_space = s_space s,
      ch_prev_code_len = s_prev_code_len s, ch_repeat_code_len = s_repeat_code_len s,
      ch_symbol_lists = s_symbols_lists_array s, ch_code_length_histo = s_code_length_histo s,
      ch_next_symbol = s_next_symbol s\<rparr>"

text \<open>The arrays are always those of the state; the scalars are written back separately.\<close>

definition store_chains :: "CodeLengths \<Rightarrow> BrotliState \<Rightarrow> BrotliState" where
  "store_chains c s =
     s\<lparr>s_symbols_lists_array := ch_symbol_lists c, s_code_length_histo := ch_code_length_histo c,
       s_next_symbol := ch_next_symbol c\<rparr>"

definition store_code_lengths :: "CodeLengths \<Rightarrow> BrotliState \<Rightarrow> BrotliState" where
  "store_code_lengths c s =
     (store_chains c s)\<lparr>s_symbol := ch_symbol c, s_repeat := ch_repeat c, s_space := ch_space c,
       s_prev_code_len := ch_prev_code_len c, s_repeat_code_len := ch_repeat_code_len c\<rparr>"

text \<open>
  The loop of the fast version. Whether it ends depends on the table; a loop that does not has
  the value \<open>None\<close>.
\<close>

partial_function (option) read_code_lengths_loop ::
  "u32 \<Rightarrow> BrotliState \<Rightarrow> CodeLengths \<Rightarrow> u8 list \<Rightarrow> (BrotliDecoderErrorCode \<times> BrotliState) option" where
  "read_code_lengths_loop alphabet_size s c input =
    (if ch_symbol c < alphabet_size \<and> ch_space c > 0 then
       if \<not> BrotliCheckInputAmount (s_br s) BROTLI_SHORT_FILL_BIT_WINDOW_READ
       then Some (BROTLI_DECODER_NEEDS_MORE_INPUT, store_code_lengths c s)
       else do {
         br \<leftarrow> BrotliFillBitWindow16 (s_br s) input;
         mask \<leftarrow> BitMask (u32_of_i32 BROTLI_HUFFMAN_MAX_CODE_LENGTH_CODE_LENGTH);
         p \<leftarrow> get (s_table s) (unat (BrotliGetBitsUnmasked br AND ucast mask));
         let br = BrotliDropBits br (ucast (hc_bits p));
         let code_len = (ucast (hc_value p) :: u32);
         if code_len < kCodeLengthRepeatCode then do {
           c \<leftarrow> ProcessSingleCodeLength code_len (s_symbol_lists_index s) c;
           read_code_lengths_loop alphabet_size (s\<lparr>s_br := br\<rparr>) c input
         } else do {
           let extra_bits = (if code_len = kCodeLengthRepeatCode then 2 else 3);
           mask \<leftarrow> BitMask extra_bits;
           let repeat_delta = ucast (BrotliGetBitsUnmasked br) AND mask;
           let br = BrotliDropBits br extra_bits;
           c \<leftarrow> ProcessRepeatedCodeLength code_len repeat_delta alphabet_size (s_symbol_lists_index s) c;
           read_code_lengths_loop alphabet_size (s\<lparr>s_br := br\<rparr>) c input
         }
       }
     else Some (BROTLI_DECODER_SUCCESS, (store_chains c s)\<lparr>s_space := ch_space c\<rparr>))"

declare read_code_lengths_loop.simps [code]

definition ReadSymbolCodeLengths ::
  "u32 \<Rightarrow> BrotliState \<Rightarrow> u8 list \<Rightarrow> (BrotliDecoderErrorCode \<times> BrotliState) option" where
  "ReadSymbolCodeLengths alphabet_size s input = do {
     (ok, br) \<leftarrow> BrotliWarmupBitReader (s_br s) input;
     let s = s\<lparr>s_br := br\<rparr>;
     if \<not> ok then Some (BROTLI_DECODER_NEEDS_MORE_INPUT, s)
     else read_code_lengths_loop alphabet_size s (load_code_lengths s) input
   }"

partial_function (option) SafeReadSymbolCodeLengths ::
  "u32 \<Rightarrow> BrotliState \<Rightarrow> u8 list \<Rightarrow> (BrotliDecoderErrorCode \<times> BrotliState) option" where
  "SafeReadSymbolCodeLengths alphabet_size s input =
    (if s_symbol s < alphabet_size \<and> s_space s > 0 then do {
       let available_bits = BrotliGetAvailableBits (s_br s);
       let bits = (if available_bits \<noteq> 0 then ucast (BrotliGetBitsUnmasked (s_br s)) else 0);
       mask \<leftarrow> BitMask (u32_of_i32 BROTLI_HUFFMAN_MAX_CODE_LENGTH_CODE_LENGTH);
       p \<leftarrow> get (s_table s) (unat (bits AND mask));
       if ucast (hc_bits p) > available_bits then do {
         (ok, br) \<leftarrow> BrotliPullByte (s_br s) input;
         let s = s\<lparr>s_br := br\<rparr>;
         if \<not> ok then Some (BROTLI_DECODER_NEEDS_MORE_INPUT, s)
         else SafeReadSymbolCodeLengths alphabet_size s input
       } else do {
         let code_len = (ucast (hc_value p) :: u32);
         if code_len < kCodeLengthRepeatCode then do {
           let s = s\<lparr>s_br := BrotliDropBits (s_br s) (ucast (hc_bits p))\<rparr>;
           c \<leftarrow> ProcessSingleCodeLength code_len (s_symbol_lists_index s) (load_code_lengths s);
           SafeReadSymbolCodeLengths alphabet_size (store_code_lengths c s) input
         } else do {
           let extra_bits = code_len - 14;
           mask \<leftarrow> BitMask extra_bits;
           let repeat_delta = shr32 bits (ucast (hc_bits p)) AND mask;
           if available_bits < ucast (hc_bits p) + extra_bits then do {
             (ok, br) \<leftarrow> BrotliPullByte (s_br s) input;
             let s = s\<lparr>s_br := br\<rparr>;
             if \<not> ok then Some (BROTLI_DECODER_NEEDS_MORE_INPUT, s)
             else SafeReadSymbolCodeLengths alphabet_size s input
           } else do {
             let s = s\<lparr>s_br := BrotliDropBits (s_br s) (ucast (hc_bits p) + extra_bits)\<rparr>;
             c \<leftarrow> ProcessRepeatedCodeLength code_len repeat_delta alphabet_size
               (s_symbol_lists_index s) (load_code_lengths s);
             SafeReadSymbolCodeLengths alphabet_size (store_code_lengths c s) input
           }
         }
       }
     } else Some (BROTLI_DECODER_SUCCESS, s))"

declare SafeReadSymbolCodeLengths.simps [code]

subsection \<open>The lengths of the code length code\<close>

text \<open>
  The loop over the rest of \<open>kCodeLengthCodeOrder\<close> with its variables \<open>num_codes\<close>, \<open>space\<close> and \<open>i\<close>.
  Four bits are peeked; near the end of the input fewer may do, since the codes have two to four bits.
\<close>

fun read_code_length_code_lengths ::
  "u8 list \<Rightarrow> u32 \<Rightarrow> u32 \<Rightarrow> u32 \<Rightarrow> BrotliState \<Rightarrow> u8 list \<Rightarrow>
     (BrotliDecoderErrorCode option \<times> u32 \<times> u32 \<times> BrotliState) option" where
  "read_code_length_code_lengths [] num_codes space i s input = Some (None, num_codes, space, s)"
| "read_code_length_code_lengths (code_len_idx # order) num_codes space i s input = do {
     (ok, ix, br) \<leftarrow> BrotliSafeGetBits (s_br s) 4 0 input;
     let s = s\<lparr>s_br := br\<rparr>;
     (short, ix) \<leftarrow>
       (if \<not> ok then do {
          let available_bits = BrotliGetAvailableBits (s_br s);
          let ix = (if available_bits \<noteq> 0 then ucast (BrotliGetBitsUnmasked (s_br s)) AND 0xF else 0);
          l \<leftarrow> get kCodeLengthPrefixLength (unat ix);
          Some (ucast l > available_bits, ix)
        } else Some (False, ix));
     if short
     then Some (Some BROTLI_DECODER_NEEDS_MORE_INPUT, num_codes, space,
                s\<lparr>s_sub_loop_counter := i, s_repeat := num_codes, s_space := space,
                  s_substate_huffman := BROTLI_STATE_HUFFMAN_COMPLEX\<rparr>)
     else do {
       v \<leftarrow> get kCodeLengthPrefixValue (unat ix);
       l \<leftarrow> get kCodeLengthPrefixLength (unat ix);
       lengths \<leftarrow> put (s_code_length_code_lengths s) (unat code_len_idx) v;
       let s = s\<lparr>s_br := BrotliDropBits (s_br s) (ucast l), s_code_length_code_lengths := lengths\<rparr>;
       if v \<noteq> 0 then do {
         let space = space - shr32 32 (ucast v);
         let num_codes = num_codes + 1;
         h \<leftarrow> get (s_code_length_histo s) (unat v);
         histo \<leftarrow> put (s_code_length_histo s) (unat v) (h + 1);
         let s = s\<lparr>s_code_length_histo := histo\<rparr>;
         if space - 1 \<ge> 32 then Some (None, num_codes, space, s)
         else read_code_length_code_lengths order num_codes space (i + 1) s input
       } else read_code_length_code_lengths order num_codes space (i + 1) s input
     }
   }"

definition ReadCodeLengthCodeLengths ::
  "BrotliState \<Rightarrow> u8 list \<Rightarrow> (BrotliDecoderErrorCode \<times> BrotliState) option" where
  "ReadCodeLengthCodeLengths s input = do {
     order \<leftarrow> slice kCodeLengthCodeOrder (unat (s_sub_loop_counter s)) CODE_LENGTH_CODES;
     (err, num_codes, space, s) \<leftarrow>
       read_code_length_code_lengths order (s_repeat s) (s_space s) (s_sub_loop_counter s) s input;
     case err of
       Some e \<Rightarrow> Some (e, s)
     | None \<Rightarrow>
         if \<not> (num_codes = 1 \<or> space = 0) then Some (BROTLI_DECODER_ERROR_FORMAT_CL_SPACE, s)
         else Some (BROTLI_DECODER_SUCCESS, s)
   }"

subsection \<open>Reading a Huffman code\<close>

text \<open>The chains start empty: the tails point at the heads, and the heads hold the end marker.\<close>

fun init_chains :: "nat \<Rightarrow> nat \<Rightarrow> nat \<Rightarrow> int list \<Rightarrow> u16 list \<Rightarrow> (int list \<times> u16 list) option" where
  "init_chains index i 0 next_symbol syms = Some (next_symbol, syms)"
| "init_chains index i (Suc n) next_symbol syms = do {
     next_symbol \<leftarrow> put next_symbol i (int i - 16);
     syms \<leftarrow> put_at syms (int index + int i - 16) 0xFFFF;
     init_chains index (i + 1) n next_symbol syms
   }"

fun huffman_rank :: "BrotliRunningHuffmanState \<Rightarrow> nat" where
  "huffman_rank BROTLI_STATE_HUFFMAN_NONE = 4"
| "huffman_rank BROTLI_STATE_HUFFMAN_SIMPLE_SIZE = 3"
| "huffman_rank BROTLI_STATE_HUFFMAN_SIMPLE_READ = 2"
| "huffman_rank BROTLI_STATE_HUFFMAN_SIMPLE_BUILD = 1"
| "huffman_rank BROTLI_STATE_HUFFMAN_COMPLEX = 1"
| "huffman_rank BROTLI_STATE_HUFFMAN_LENGTH_SYMBOLS = 0"

text \<open>
  The loop over the substates, after \<open>alphabet_size\<close> is masked. The result has the error code, the
  memory that holds the table, the size written to \<open>opt_table_size\<close> if it was written, and the state.
\<close>

function read_huffman_code ::
  "u32 \<Rightarrow> u32 \<Rightarrow> HuffmanCode list \<Rightarrow> nat \<Rightarrow> BrotliState \<Rightarrow> u8 list \<Rightarrow>
     (BrotliDecoderErrorCode \<times> HuffmanCode list \<times> u32 option \<times> BrotliState) option" where
  "read_huffman_code alphabet_size max_symbol table offset s input = (case s_substate_huffman s of
     BROTLI_STATE_HUFFMAN_NONE \<Rightarrow> do {
       (ok, bits, br) \<leftarrow> BrotliSafeReadBits (s_br s) 2 (s_sub_loop_counter s) input;
       let s = s\<lparr>s_br := br, s_sub_loop_counter := bits\<rparr>;
       if \<not> ok then Some (BROTLI_DECODER_NEEDS_MORE_INPUT, table, None, s)
       else if s_sub_loop_counter s \<noteq> 1 then do {
         histo \<leftarrow> overwrite (s_code_length_histo s) 0
           (replicate (nat BROTLI_HUFFMAN_MAX_CODE_LENGTH_CODE_LENGTH + 1) 0);
         read_huffman_code alphabet_size max_symbol table offset
           (s\<lparr>s_space := 32, s_repeat := 0, s_code_length_histo := histo,
              s_code_length_code_lengths := replicate (length (s_code_length_code_lengths s)) 0,
              s_substate_huffman := BROTLI_STATE_HUFFMAN_COMPLEX\<rparr>) input
       } else read_huffman_code alphabet_size max_symbol table offset
           (s\<lparr>s_substate_huffman := BROTLI_STATE_HUFFMAN_SIMPLE_SIZE\<rparr>) input
     }
   | BROTLI_STATE_HUFFMAN_SIMPLE_SIZE \<Rightarrow> do {
       (ok, bits, br) \<leftarrow> BrotliSafeReadBits (s_br s) 2 (s_symbol s) input;
       let s = s\<lparr>s_br := br, s_symbol := bits\<rparr>;
       if \<not> ok
       then Some (BROTLI_DECODER_NEEDS_MORE_INPUT, table, None,
                  s\<lparr>s_substate_huffman := BROTLI_STATE_HUFFMAN_SIMPLE_SIZE\<rparr>)
       else read_huffman_code alphabet_size max_symbol table offset
         (s\<lparr>s_sub_loop_counter := 0, s_substate_huffman := BROTLI_STATE_HUFFMAN_SIMPLE_READ\<rparr>) input
     }
   | BROTLI_STATE_HUFFMAN_SIMPLE_READ \<Rightarrow> do {
       (result, s) \<leftarrow> ReadSimpleHuffmanSymbols alphabet_size max_symbol s input;
       if result \<noteq> BROTLI_DECODER_SUCCESS then Some (result, table, None, s)
       else read_huffman_code alphabet_size max_symbol table offset
         (s\<lparr>s_substate_huffman := BROTLI_STATE_HUFFMAN_SIMPLE_BUILD\<rparr>) input
     }
   | BROTLI_STATE_HUFFMAN_SIMPLE_BUILD \<Rightarrow> do {
       (ok, s) \<leftarrow>
         (if s_symbol s = 3 then do {
            (ok, bits, s) \<leftarrow> read_bits s 1 input;
            if \<not> ok
            then Some (False, s\<lparr>s_substate_huffman := BROTLI_STATE_HUFFMAN_SIMPLE_BUILD\<rparr>)
            else Some (True, s\<lparr>s_symbol := s_symbol s + bits\<rparr>)
          } else Some (True, s));
       if \<not> ok then Some (BROTLI_DECODER_NEEDS_MORE_INPUT, table, None, s)
       else do {
         t \<leftarrow> slice_from table offset;
         (t, table_size) \<leftarrow> BrotliBuildSimpleHuffmanTable t (uint HUFFMAN_TABLE_BITS)
           (s_symbols_lists_array s) (s_symbol s);
         Some (BROTLI_DECODER_SUCCESS, take offset table @ t, Some table_size,
               s\<lparr>s_substate_huffman := BROTLI_STATE_HUFFMAN_NONE\<rparr>)
       }
     }
   | BROTLI_STATE_HUFFMAN_COMPLEX \<Rightarrow> do {
       (result, s) \<leftarrow> ReadCodeLengthCodeLengths s input;
       if result \<noteq> BROTLI_DECODER_SUCCESS then Some (result, table, None, s)
       else do {
         s_tab \<leftarrow> BrotliBuildCodeLengthsHuffmanTable (s_table s) (s_code_length_code_lengths s)
           (s_code_length_histo s);
         heads \<leftarrow> slice (s_next_symbol s) 0 16;
         (next_symbol, syms) \<leftarrow>
           init_chains (s_symbol_lists_index s) 0 16 (s_next_symbol s) (s_symbols_lists_array s);
         read_huffman_code alphabet_size max_symbol table offset
           (s\<lparr>s_table := s_tab,
              s_code_length_histo := replicate (length (s_code_length_histo s)) 0,
              s_next_symbol := next_symbol, s_symbols_lists_array := syms,
              s_symbol := 0, s_prev_code_len := kDefaultCodeLength, s_repeat := 0,
              s_repeat_code_len := 0, s_space := 32768,
              s_substate_huffman := BROTLI_STATE_HUFFMAN_LENGTH_SYMBOLS\<rparr>) input
       }
     }
   | BROTLI_STATE_HUFFMAN_LENGTH_SYMBOLS \<Rightarrow> do {
       (result, s) \<leftarrow> ReadSymbolCodeLengths max_symbol s input;
       (result, s) \<leftarrow>
         (if result = BROTLI_DECODER_NEEDS_MORE_INPUT
          then SafeReadSymbolCodeLengths max_symbol s input else Some (result, s));
       if result \<noteq> BROTLI_DECODER_SUCCESS then Some (result, table, None, s)
       else if s_space s \<noteq> 0 then Some (BROTLI_DECODER_ERROR_FORMAT_HUFFMAN_SPACE, table, None, s)
       else do {
         t \<leftarrow> slice_from table offset;
         (t, histo, table_size) \<leftarrow> BrotliBuildHuffmanTable t (uint HUFFMAN_TABLE_BITS)
           (s_symbols_lists_array s) (s_symbol_lists_index s) (s_code_length_histo s);
         Some (BROTLI_DECODER_SUCCESS, take offset table @ t, Some table_size,
               s\<lparr>s_code_length_histo := histo, s_substate_huffman := BROTLI_STATE_HUFFMAN_NONE\<rparr>)
       }
     })"
  by pat_completeness auto
termination
  by (relation "measure (\<lambda>(a, m, t, off, s, input). huffman_rank (s_substate_huffman s))") auto

declare read_huffman_code.simps [simp del]

definition ReadHuffmanCode ::
  "u32 \<Rightarrow> u32 \<Rightarrow> HuffmanCode list \<Rightarrow> nat \<Rightarrow> BrotliState \<Rightarrow> u8 list \<Rightarrow>
     (BrotliDecoderErrorCode \<times> HuffmanCode list \<times> u32 option \<times> BrotliState) option" where
  "ReadHuffmanCode alphabet_size max_symbol table offset s input =
     read_huffman_code (alphabet_size AND 0x7ff) max_symbol table offset s input"

end
