(* ===== verification/Context_Map.thy ===== *)
theory Context_Map
  imports Code_Reader
begin

text \<open>
  Context maps and tree groups, from \<open>src/decode.rs\<close>: the inverse move-to-front transform, the
  decoding of a context map with its run-length coded zeros, and the decoding of a group of
  Huffman trees into one block of memory.
\<close>

subsection \<open>The inverse move-to-front transform\<close>

text \<open>\<open>loop { index -= 1; mtf[index + 1] = mtf[index]; if index <= 0 { break } }\<close>.\<close>

fun mtf_shift :: "u8 list \<Rightarrow> nat \<Rightarrow> u8 list option" where
  "mtf_shift mtf 0 = Some mtf"
| "mtf_shift mtf (Suc index) = do {
     m \<leftarrow> get mtf index;
     mtf \<leftarrow> put mtf (index + 1) m;
     mtf_shift mtf index
   }"

text \<open>The loop over the input, which is replaced by the output.\<close>

fun inverse_mtf_loop :: "u8 list \<Rightarrow> u8 list \<Rightarrow> u32 \<Rightarrow> (u8 list \<times> u8 list \<times> u32) option" where
  "inverse_mtf_loop [] mtf upper_bound = Some ([], mtf, upper_bound)"
| "inverse_mtf_loop (v # vs) mtf upper_bound = do {
     value \<leftarrow> get mtf (unat v);
     let upper_bound = upper_bound OR ucast v;
     mtf \<leftarrow> (if unat v \<le> 0 then put mtf 0 0 else mtf_shift mtf (unat v));
     mtf \<leftarrow> put mtf 0 value;
     (vs, mtf, upper_bound) \<leftarrow> inverse_mtf_loop vs mtf upper_bound;
     Some (value # vs, mtf, upper_bound)
   }"

definition InverseMoveToFrontTransform ::
  "u8 list \<Rightarrow> u32 \<Rightarrow> u8 list \<Rightarrow> u32 \<Rightarrow> (u8 list \<times> u8 list \<times> u32) option" where
  "InverseMoveToFrontTransform v v_len mtf mtf_upper_bound = do {
     let n = unat mtf_upper_bound + 1;
     stale \<leftarrow> slice mtf 0 n;
     let mtf = map of_nat [0..<length stale] @ drop n mtf;
     items \<leftarrow> slice v 0 (unat v_len);
     (items, mtf, upper_bound) \<leftarrow> inverse_mtf_loop items mtf 0;
     Some (items @ drop (unat v_len) v, mtf, upper_bound)
   }"

subsection \<open>Groups of Huffman trees\<close>

text \<open>The loop over the trees of a group, from index \<open>i\<close>, \<open>n\<close> of them.\<close>

fun decode_trees ::
  "u16 \<Rightarrow> u16 \<Rightarrow> HuffmanCode list \<Rightarrow> u32 list \<Rightarrow> nat \<Rightarrow> nat \<Rightarrow> BrotliState \<Rightarrow> u8 list \<Rightarrow>
     (BrotliDecoderErrorCode \<times> HuffmanCode list \<times> u32 list \<times> BrotliState) option" where
  "decode_trees alphabet_size max_symbol hcodes htrees i 0 s input =
     Some (BROTLI_DECODER_SUCCESS, hcodes, htrees, s)"
| "decode_trees alphabet_size max_symbol hcodes htrees i (Suc n) s input = do {
     (result, hcodes, table_size, s) \<leftarrow>
       ReadHuffmanCode (ucast alphabet_size) (ucast max_symbol) hcodes (unat (s_htree_next_offset s)) s input;
     if result \<noteq> BROTLI_DECODER_SUCCESS then Some (result, hcodes, htrees, s)
     else do {
       htrees \<leftarrow> put htrees i (s_htree_next_offset s);
       let table_size = (case table_size of None \<Rightarrow> 0 | Some z \<Rightarrow> z);
       decode_trees alphabet_size max_symbol hcodes htrees (i + 1) n
         (s\<lparr>s_htree_next_offset := s_htree_next_offset s + table_size,
            s_htree_index := i32 (s_htree_index s + 1)\<rparr>) input
     }
   }"

text \<open>Group 0, 1 and 2 is the literal, insert-and-copy and distance group.\<close>

definition group_of_index :: "int \<Rightarrow> BrotliState \<Rightarrow> HuffmanTreeGroup" where
  "group_of_index group_index s =
    (if group_index = 0 then s_literal_hgroup s
     else if group_index = 1 then s_insert_copy_hgroup s else s_distance_hgroup s)"

definition set_group :: "int \<Rightarrow> HuffmanTreeGroup \<Rightarrow> BrotliState \<Rightarrow> BrotliState" where
  "set_group group_index g s =
    (if group_index = 0 then s\<lparr>s_literal_hgroup := g\<rparr>
     else if group_index = 1 then s\<lparr>s_insert_copy_hgroup := g\<rparr> else s\<lparr>s_distance_hgroup := g\<rparr>)"

definition HuffmanTreeGroupDecode ::
  "int \<Rightarrow> BrotliState \<Rightarrow> u8 list \<Rightarrow> (BrotliDecoderErrorCode \<times> BrotliState) option" where
  "HuffmanTreeGroupDecode group_index s input =
    (if group_index \<noteq> 0 \<and> group_index \<noteq> 1 \<and> group_index \<noteq> 2
     then Some (BROTLI_DECODER_ERROR_UNREACHABLE, snd (SaveErrorCode s BROTLI_DECODER_ERROR_UNREACHABLE))
     else do {
       let g = group_of_index group_index s;
       let s = set_group group_index (g\<lparr>hg_codes := [], hg_htrees := []\<rparr>) s;
       let s = (case s_substate_tree_group s of
           BROTLI_STATE_TREE_GROUP_NONE \<Rightarrow>
             s\<lparr>s_htree_next_offset := 0, s_htree_index := 0,
               s_substate_tree_group := BROTLI_STATE_TREE_GROUP_LOOP\<rparr>
         | BROTLI_STATE_TREE_GROUP_LOOP \<Rightarrow> s);
       let start = usize_of_i32 (s_htree_index s);
       todo \<leftarrow> slice (hg_htrees g) start (unat (hg_num_htrees g));
       (result, hcodes, htrees, s) \<leftarrow>
         decode_trees (hg_alphabet_size g) (hg_max_symbol g) (hg_codes g) (hg_htrees g) start (length todo) s input;
       let s = set_group group_index ((group_of_index group_index s)\<lparr>hg_codes := hcodes, hg_htrees := htrees\<rparr>) s;
       Some (result,
             if result = BROTLI_DECODER_SUCCESS
             then s\<lparr>s_substate_tree_group := BROTLI_STATE_TREE_GROUP_NONE\<rparr> else s)
     })"

subsection \<open>The window size of a stream header\<close>

text \<open>The value is the window size and the number of bits of the header.\<close>

definition lg_window_size :: "u8 \<Rightarrow> u8 \<Rightarrow> (u8 \<times> u8, unit) Result" where
  "lg_window_size first_byte second_byte =
    (if first_byte AND 1 = 0 then Ok (16, 1)
     else if first_byte AND 15 = 0x3 then Ok (18, 4)
     else if first_byte AND 15 = 0x5 then Ok (19, 4)
     else if first_byte AND 15 = 0x7 then Ok (20, 4)
     else if first_byte AND 15 = 0x9 then Ok (21, 4)
     else if first_byte AND 15 = 0xb then Ok (22, 4)
     else if first_byte AND 15 = 0xd then Ok (23, 4)
     else if first_byte AND 15 = 0xf then Ok (24, 4)
     else if first_byte AND 127 = 0x71 then Ok (15, 7)
     else if first_byte AND 127 = 0x61 then Ok (14, 7)
     else if first_byte AND 127 = 0x51 then Ok (13, 7)
     else if first_byte AND 127 = 0x41 then Ok (12, 7)
     else if first_byte AND 127 = 0x31 then Ok (11, 7)
     else if first_byte AND 127 = 0x21 then Ok (10, 7)
     else if first_byte AND 127 = 0x1 then Ok (17, 7)
     else if first_byte AND 0x80 \<noteq> 0 then Err ()
     else let ret = second_byte AND 0x3f in
       if ret < 10 \<or> ret > 30 then Err () else Ok (ret, 14))"

subsection \<open>Context maps\<close>

text \<open>The run of zeros: \<open>loop { context_map[context_index] = 0; ...; if reps == 0 { break } }\<close>.\<close>

function zero_run :: "u8 list \<Rightarrow> u32 \<Rightarrow> u32 \<Rightarrow> (u8 list \<times> u32) option" where
  "zero_run context_map context_index reps = do {
     context_map \<leftarrow> put context_map (unat context_index) 0;
     let context_index = context_index + 1;
     let reps = reps - 1;
     if reps = 0 then Some (context_map, context_index) else zero_run context_map context_index reps
   }"
  by pat_completeness auto
termination
proof (relation "measure (\<lambda>(m, i, reps). unat (reps - 1))")
  fix context_map x :: "u8 list" and context_index xa reps xb :: u32
  assume "xb = reps - 1" "xb \<noteq> 0"
  then have "reps - 1 \<noteq> 0" by blast
  then have "unat (reps - 1 - 1) < unat (reps - 1)"
    using unat_minus_one [of "reps - 1"] unat_gt_0 [of "reps - 1"] by linarith
  with \<open>xb = reps - 1\<close> show "((x, xa, xb), (context_map, context_index, reps)) \<in> measure (\<lambda>(m, i, reps). unat (reps - 1))"
    by (simp only: in_measure prod.case)
qed simp

declare zero_run.simps [simp del]

text \<open>
  The loop over the items. \<open>rle\<close> is the flag \<open>rleCodeGoto\<close>: the code of a run was read before the
  input ended. The result is the error code, or none at the end of the loop, and the variables.
\<close>

partial_function (option) context_map_loop ::
  "u32 \<Rightarrow> u8 list \<Rightarrow> u32 \<Rightarrow> u32 \<Rightarrow> bool \<Rightarrow> BrotliState \<Rightarrow> u8 list \<Rightarrow>
     (BrotliDecoderErrorCode option \<times> u8 list \<times> BrotliState) option" where
  "context_map_loop context_map_size context_map context_index code rle s input =
    (if \<not> (rle \<or> context_index < context_map_size) then Some (None, context_map, s)
     else do {
       (ok, br, code) \<leftarrow>
         (if rle then Some (True, s_br s, code)
          else SafeReadSymbol (s_context_map_table s) (s_br s) code input);
       let s = s\<lparr>s_br := br\<rparr>;
       if \<not> ok
       then Some (Some BROTLI_DECODER_NEEDS_MORE_INPUT, context_map,
                  s\<lparr>s_code := 0xFFFF, s_context_index := context_index\<rparr>)
       else if \<not> rle \<and> code = 0 then do {
         context_map \<leftarrow> put context_map (unat context_index) 0;
         context_map_loop context_map_size context_map (context_index + 1) code False s input
       } else if \<not> rle \<and> code > s_max_run_length_prefix s then do {
         context_map \<leftarrow> put context_map (unat context_index) (ucast (code - s_max_run_length_prefix s));
         context_map_loop context_map_size context_map (context_index + 1) code False s input
       } else do {
         (ok, reps, s) \<leftarrow> read_bits s code input;
         if \<not> ok
         then Some (Some BROTLI_DECODER_NEEDS_MORE_INPUT, context_map,
                    s\<lparr>s_code := code, s_context_index := context_index\<rparr>)
         else do {
           let reps = reps + shl32 1 code;
           if context_index + reps > context_map_size
           then Some (Some BROTLI_DECODER_ERROR_FORMAT_CONTEXT_MAP_REPEAT, context_map, s)
           else do {
             (context_map, context_index) \<leftarrow> zero_run context_map context_index reps;
             context_map_loop context_map_size context_map context_index code False s input
           }
         }
       }
     })"

declare context_map_loop.simps [code]

fun context_map_rank :: "BrotliRunningContextMapState \<Rightarrow> nat" where
  "context_map_rank BROTLI_STATE_CONTEXT_MAP_NONE = 4"
| "context_map_rank BROTLI_STATE_CONTEXT_MAP_READ_PREFIX = 3"
| "context_map_rank BROTLI_STATE_CONTEXT_MAP_HUFFMAN = 2"
| "context_map_rank BROTLI_STATE_CONTEXT_MAP_DECODE = 1"
| "context_map_rank BROTLI_STATE_CONTEXT_MAP_TRANSFORM = 0"

function DecodeContextMapInner ::
  "u32 \<Rightarrow> u32 \<Rightarrow> u8 list \<Rightarrow> BrotliState \<Rightarrow> u8 list \<Rightarrow>
     (BrotliDecoderErrorCode \<times> u32 \<times> u8 list \<times> BrotliState) option" where
  "DecodeContextMapInner context_map_size num_htrees context_map_arg s input =
    (case s_substate_context_map s of
     BROTLI_STATE_CONTEXT_MAP_NONE \<Rightarrow> do {
       (result, st, br, num_htrees) \<leftarrow>
         DecodeVarLenUint8 (s_substate_decode_uint8 s) (s_br s) num_htrees input;
       let s = s\<lparr>s_substate_decode_uint8 := st, s_br := br\<rparr>;
       if result \<noteq> BROTLI_DECODER_SUCCESS then Some (result, num_htrees, context_map_arg, s)
       else do {
         let num_htrees = num_htrees + 1;
         let s = s\<lparr>s_context_index := 0\<rparr>;
         let context_map_arg = s_alloc_u8 s (unat context_map_size);
         if length context_map_arg < unat context_map_size
         then Some (BROTLI_DECODER_ERROR_ALLOC_CONTEXT_MAP, num_htrees, context_map_arg, s)
         else if num_htrees \<le> 1
         then Some (BROTLI_DECODER_SUCCESS, num_htrees, replicate (length context_map_arg) 0, s)
         else DecodeContextMapInner context_map_size num_htrees context_map_arg
           (s\<lparr>s_substate_context_map := BROTLI_STATE_CONTEXT_MAP_READ_PREFIX\<rparr>) input
       }
     }
   | BROTLI_STATE_CONTEXT_MAP_READ_PREFIX \<Rightarrow> do {
       (ok, bits, br) \<leftarrow> BrotliSafeGetBits (s_br s) 5 0 input;
       let s = s\<lparr>s_br := br\<rparr>;
       if \<not> ok then Some (BROTLI_DECODER_NEEDS_MORE_INPUT, num_htrees, context_map_arg, s)
       else do {
         let s = (if bits AND 1 \<noteq> 0
                  then s\<lparr>s_max_run_length_prefix := drop_bit 1 bits + 1, s_br := BrotliDropBits (s_br s) 5\<rparr>
                  else s\<lparr>s_max_run_length_prefix := 0, s_br := BrotliDropBits (s_br s) 1\<rparr>);
         DecodeContextMapInner context_map_size num_htrees context_map_arg
           (s\<lparr>s_substate_context_map := BROTLI_STATE_CONTEXT_MAP_HUFFMAN\<rparr>) input
       }
     }
   | BROTLI_STATE_CONTEXT_MAP_HUFFMAN \<Rightarrow> do {
       let table = s_context_map_table s;
       let alphabet_size = num_htrees + s_max_run_length_prefix s;
       (result, table, table_size, s) \<leftarrow>
         ReadHuffmanCode alphabet_size alphabet_size table 0 (s\<lparr>s_context_map_table := []\<rparr>) input;
       let s = s\<lparr>s_context_map_table := table\<rparr>;
       if result \<noteq> BROTLI_DECODER_SUCCESS then Some (result, num_htrees, context_map_arg, s)
       else DecodeContextMapInner context_map_size num_htrees context_map_arg
         (s\<lparr>s_code := 0xFFFF, s_substate_context_map := BROTLI_STATE_CONTEXT_MAP_DECODE\<rparr>) input
     }
   | BROTLI_STATE_CONTEXT_MAP_DECODE \<Rightarrow> do {
       (err, context_map_arg, s) \<leftarrow>
         context_map_loop context_map_size context_map_arg (s_context_index s) (s_code s)
           (s_code s \<noteq> 0xFFFF) s input;
       case err of
         Some e \<Rightarrow> Some (e, num_htrees, context_map_arg, s)
       | None \<Rightarrow> DecodeContextMapInner context_map_size num_htrees context_map_arg
           (s\<lparr>s_substate_context_map := BROTLI_STATE_CONTEXT_MAP_TRANSFORM\<rparr>) input
     }
   | BROTLI_STATE_CONTEXT_MAP_TRANSFORM \<Rightarrow> do {
       (ok, bits, s) \<leftarrow> read_bits s 1 input;
       if \<not> ok
       then Some (BROTLI_DECODER_NEEDS_MORE_INPUT, num_htrees, context_map_arg,
                  s\<lparr>s_substate_context_map := BROTLI_STATE_CONTEXT_MAP_TRANSFORM\<rparr>)
       else if bits \<noteq> 0 then
         (case s_mtf_or_error_string s of
            Ok mtf \<Rightarrow> do {
              (context_map_arg, mtf, upper_bound) \<leftarrow>
                InverseMoveToFrontTransform context_map_arg context_map_size mtf (s_mtf_upper_bound s);
              Some (BROTLI_DECODER_SUCCESS, num_htrees, context_map_arg,
                    s\<lparr>s_mtf_or_error_string := Ok mtf, s_mtf_upper_bound := upper_bound,
                      s_substate_context_map := BROTLI_STATE_CONTEXT_MAP_NONE\<rparr>)
            }
          | Err e \<Rightarrow> Some (BROTLI_DECODER_ERROR_UNREACHABLE, num_htrees, context_map_arg, s))
       else Some (BROTLI_DECODER_SUCCESS, num_htrees, context_map_arg,
                  s\<lparr>s_substate_context_map := BROTLI_STATE_CONTEXT_MAP_NONE\<rparr>)
     })"
  by pat_completeness auto
termination
  by (relation "measure (\<lambda>(size, n, m, s, input). context_map_rank (s_substate_context_map s))") auto

declare DecodeContextMapInner.simps [simp del]

text \<open>The assertions and \<open>unreachable!()\<close> on the main state panic.\<close>

definition DecodeContextMap ::
  "nat \<Rightarrow> bool \<Rightarrow> BrotliState \<Rightarrow> u8 list \<Rightarrow> (BrotliDecoderErrorCode \<times> BrotliState) option" where
  "DecodeContextMap context_map_size is_dist_context_map s input = do {
     (case s_state s of
        BROTLI_STATE_CONTEXT_MAP_1 \<Rightarrow> rassert (is_dist_context_map = False)
      | BROTLI_STATE_CONTEXT_MAP_2 \<Rightarrow> rassert (is_dist_context_map = True)
      | _ \<Rightarrow> None);
     let (num_htrees, context_map_arg, s) =
       (if is_dist_context_map then (s_num_dist_htrees s, s_dist_context_map s, s\<lparr>s_dist_context_map := []\<rparr>)
        else (s_num_literal_htrees s, s_context_map s, s\<lparr>s_context_map := []\<rparr>));
     (retval, num_htrees, context_map_arg, s) \<leftarrow>
       DecodeContextMapInner (of_nat context_map_size) num_htrees context_map_arg s input;
     Some (retval,
           if is_dist_context_map
           then s\<lparr>s_num_dist_htrees := num_htrees, s_dist_context_map := context_map_arg\<rparr>
           else s\<lparr>s_num_literal_htrees := num_htrees, s_context_map := context_map_arg\<rparr>)
   }"

end
