(* ===== verification/Header_Spec.thy ===== *)
theory Header_Spec
  imports Context_Map Bit_Contract
begin

text \<open>
  What the functions that read the headers promise: the two decoders of the window size agree, a
  number of variable length survives its code whole or cut in two, and so does the header of a
  metablock.
\<close>

subsection \<open>The window size\<close>

text \<open>The bits \<open>i ..< i + k\<close> of a byte.\<close>

definition byte_field :: "u8 \<Rightarrow> nat \<Rightarrow> nat \<Rightarrow> u32" where
  "byte_field b i k = drop_bit i (ucast b) AND mask k"

lemma word_of_bits_byte:
  assumes "i + k \<le> 8"
  shows "word_of_bits (take k (drop i (bits_of_word 8 b @ bs))) = byte_field b i k"
proof (rule bit_word_eqI)
  fix j assume "j < LENGTH(32)"
  show "bit (word_of_bits (take k (drop i (bits_of_word 8 b @ bs))) :: u32) j = bit (byte_field b i k) j"
    using assms by (auto simp: bit_word_of_bits byte_field_def bit_simps nth_append bits_of_word_def)
qed

definition window_of_byte :: "bool \<Rightarrow> u32 \<Rightarrow> u8 \<Rightarrow> BrotliDecoderErrorCode \<times> bool \<times> u32 \<times> nat" where
  "window_of_byte large w b =
    (if byte_field b 0 1 = 0 then (BROTLI_DECODER_SUCCESS, False, 16, 1)
     else if byte_field b 1 3 \<noteq> 0 then (BROTLI_DECODER_SUCCESS, False, 17 + byte_field b 1 3, 4)
     else if byte_field b 4 3 = 1 then
       if large then
         if byte_field b 7 1 = 1 then (BROTLI_DECODER_ERROR_FORMAT_WINDOW_BITS, False, w, 8)
         else (BROTLI_DECODER_SUCCESS, True, w, 8)
       else (BROTLI_DECODER_ERROR_FORMAT_WINDOW_BITS, False, w, 7)
     else if byte_field b 4 3 \<noteq> 0 then (BROTLI_DECODER_SUCCESS, False, 8 + byte_field b 4 3, 7)
     else (BROTLI_DECODER_SUCCESS, False, 17, 7))"

lemma DecodeWindowBits_at:
  assumes at: "br_at br input (bits_of_word 8 b @ bs)" and avail: "unat (br_bit_pos br) \<le> 56"
  shows "\<exists>br'. DecodeWindowBits large w br =
      (case window_of_byte large w b of (e, l, wb, n) \<Rightarrow> Some (e, l, wb, br')) \<and>
    br_at br' input (drop (snd (snd (snd (window_of_byte large w b)))) (bits_of_word 8 b @ bs))"
proof -
  let ?s = "bits_of_word 8 b @ bs"
  have "buffered br input (unat (1::u32) + 7)" using avail by (simp add: buffered_def)
  from take_bits.read_at [OF at this] obtain br1 where 1:
    "BrotliTakeBits br 1 = Some (byte_field b 0 1, br1)" "br_at br1 input (drop 1 ?s)" "buffered br1 input 7"
    using word_of_bits_byte [of 0 1 b bs] by auto
  from take_bits.read_at [OF 1(2), of 3 4] 1(3) obtain br2 where 2:
    "BrotliTakeBits br1 3 = Some (byte_field b 1 3, br2)" "br_at br2 input (drop 4 ?s)" "buffered br2 input 4"
    using word_of_bits_byte [of 1 3 b bs] by auto
  from take_bits.read_at [OF 2(2), of 3 1] 2(3) obtain br3 where 3:
    "BrotliTakeBits br2 3 = Some (byte_field b 4 3, br3)" "br_at br3 input (drop 7 ?s)" "buffered br3 input 1"
    using word_of_bits_byte [of 4 3 b bs] by auto
  from take_bits.read_at [OF 3(2), of 1 0] 3(3) obtain br4 where 4:
    "BrotliTakeBits br3 1 = Some (byte_field b 7 1, br4)" "br_at br4 input (drop 8 ?s)"
    using word_of_bits_byte [of 7 1 b bs] by auto
  show ?thesis
    unfolding DecodeWindowBits_def window_of_byte_def
    using 1 2 3 4 by simp
qed

lemma lg_window_size_first:
  "lg_window_size b b1 =
    (if lg_window_size b 10 = Ok (10, 14)
     then if b1 AND 0x3f < 10 \<or> b1 AND 0x3f > 30 then Err () else Ok (b1 AND 0x3f, 14)
     else lg_window_size b 10)"
  by (simp add: lg_window_size_def Let_def)

text \<open>All 256 first bytes.\<close>

definition window_byte_agrees :: "u8 \<Rightarrow> bool" where
  "window_byte_agrees b =
    (let (e, l, wb, n) = window_of_byte True 0 b
     in if e = BROTLI_DECODER_SUCCESS then
          if l then lg_window_size b 10 = Ok (10, 14) \<and> n = 8
          else lg_window_size b 10 = Ok (ucast wb, of_nat n) \<and> n < 8 \<and> ucast (ucast wb :: u8) = wb
        else lg_window_size b 10 = Err ())"

lemma all_bytes: "(\<forall>i \<in> set [0..255]. P (word_of_int i :: u8)) \<Longrightarrow> P b"
proof -
  assume *: "\<forall>i \<in> set [0..255]. P (word_of_int i :: u8)"
  have "uint b \<in> set [0..255]" using uint_lt2p [of b] by simp
  with * have "P (word_of_int (uint b))" by blast
  then show "P b" by simp
qed

lemma window_byte_agrees: "window_byte_agrees b"
proof (rule all_bytes)
  show "\<forall>i \<in> set [0..255]. window_byte_agrees (word_of_int i)" by code_simp
qed

lemma window_of_byte_w:
  "window_of_byte True w b = (case window_of_byte True 0 b of (e, l, wb, n) \<Rightarrow>
     (e, l, if e = BROTLI_DECODER_SUCCESS \<and> \<not> l then wb else w, n))"
  by (simp add: window_of_byte_def)

lemma window_of_byte_error:
  "fst (window_of_byte True w b) = BROTLI_DECODER_SUCCESS \<or>
   (\<exists>n. window_of_byte True w b = (BROTLI_DECODER_ERROR_FORMAT_WINDOW_BITS, False, w, n))"
  by (simp add: window_of_byte_def)

text \<open>Without large windows, and the error case in general.\<close>

lemma window_of_byte_strict:
  "window_of_byte False w b = (case window_of_byte True w b of (e, l, wb, n) \<Rightarrow>
     if e = BROTLI_DECODER_SUCCESS \<and> \<not> l then (e, l, wb, n)
     else (BROTLI_DECODER_ERROR_FORMAT_WINDOW_BITS, False, w, 7))"
  by (simp add: window_of_byte_def)

text \<open>
  The codes of the window sizes 10 to 24. The seven bits that are none of them open the header of a
  large window, whose size follows in six bits.
\<close>

definition window_code :: "nat \<Rightarrow> bool list" where
  "window_code lg =
    (if lg = 16 then [False]
     else if lg = 17 then [True, False, False, False, False, False, False]
     else if 18 \<le> lg then True # map (bit (lg - 17)) [0, 1, 2]
     else [True, False, False, False] @ map (bit (lg - 8)) [0, 1, 2])"

definition large_window_prefix :: "bool list" where
  "large_window_prefix = [True, False, False, False, True, False, False]"

definition window_code_agrees :: "u8 \<Rightarrow> bool" where
  "window_code_agrees b =
    (let (e, l, wb, n) = window_of_byte True 0 b; bits = bits_of_word 8 b
     in if e = BROTLI_DECODER_SUCCESS \<and> \<not> l
        then 10 \<le> wb \<and> wb \<le> 24 \<and> n \<le> 7 \<and> take n bits = window_code (unat wb)
        else n = 8 \<and> take 7 bits = large_window_prefix \<and> (e = BROTLI_DECODER_SUCCESS \<longleftrightarrow> \<not> bits ! 7))"

lemma window_code_agrees: "window_code_agrees b"
proof (rule all_bytes)
  show "\<forall>i \<in> set [0..255]. window_code_agrees (word_of_int i)" by code_simp
qed

lemma window_header_large:
  assumes "br_ok br input" "stream br input = bits_of_bytes (b0 # b1 # rest)"
    and "8 \<le> unat (BrotliGetAvailableBits br)"
  shows "case lg_window_size b0 b1 of
      Ok (lg, n) \<Rightarrow> \<exists>l wb br1. DecodeWindowBits True w br = Some (BROTLI_DECODER_SUCCESS, l, wb, br1) \<and>
        (if l then wb = w \<and> (\<exists>br2. BrotliSafeReadBits br1 6 w input = Some (True, ucast lg, br2) \<and>
             stream br2 input = drop (unat n) (stream br input) \<and> 10 \<le> lg \<and> lg \<le> 30)
         else wb = ucast lg \<and> stream br1 input = drop (unat n) (stream br input))
    | Err _ \<Rightarrow>
        (\<exists>br1. DecodeWindowBits True w br = Some (BROTLI_DECODER_ERROR_FORMAT_WINDOW_BITS, False, w, br1)) \<or>
        (\<exists>br1 v br2. DecodeWindowBits True w br = Some (BROTLI_DECODER_SUCCESS, True, w, br1) \<and>
           BrotliSafeReadBits br1 6 w input = Some (True, v, br2) \<and>
           (v < kBrotliLargeMinWbits \<or> v > kBrotliLargeMaxWbits))"
proof -
  let ?s = "bits_of_word 8 b0 @ bits_of_bytes (b1 # rest)"
  have at: "br_at br input ?s" using assms(1,2) by (simp add: br_at_def)
  have pos: "unat (br_bit_pos br) \<le> 56"
    using assms(1,3) available_bits [of br] by (simp add: br_ok_def)
  obtain e l wb n where d: "window_of_byte True 0 b0 = (e, l, wb, n)" by (metis prod_cases4)
  define wb' where "wb' = (if e = BROTLI_DECODER_SUCCESS \<and> \<not> l then wb else w)"
  have dw: "window_of_byte True w b0 = (e, l, wb', n)"
    using window_of_byte_w [of w b0] by (simp add: d wb'_def)
  from DecodeWindowBits_at [OF at pos, of True w] dw obtain br1 where br1:
    "DecodeWindowBits True w br = Some (e, l, wb', br1)" "br_at br1 input (drop n ?s)" by auto
  have agree: "if e = BROTLI_DECODER_SUCCESS then
          if l then lg_window_size b0 10 = Ok (10, 14) \<and> n = 8
          else lg_window_size b0 10 = Ok (ucast wb, of_nat n) \<and> n < 8 \<and> ucast (ucast wb :: u8) = wb
        else lg_window_size b0 10 = Err ()"
    using window_byte_agrees [of b0] by (simp only: window_byte_agrees_def d Let_def prod.case)
  consider "e \<noteq> BROTLI_DECODER_SUCCESS" | "e = BROTLI_DECODER_SUCCESS" "\<not> l" | "e = BROTLI_DECODER_SUCCESS" l
    by blast
  then show ?thesis
  proof cases
    case 1
    then have "lg_window_size b0 b1 = Err ()" using agree lg_window_size_first [of b0 b1] by simp
    moreover have "e = BROTLI_DECODER_ERROR_FORMAT_WINDOW_BITS" "\<not> l" "wb' = w"
      using window_of_byte_error [of w b0] 1 by (auto simp: dw)
    ultimately show ?thesis using br1(1) by simp
  next
    case 2
    then have n8: "n < 8" and lg10: "lg_window_size b0 10 = Ok (ucast wb, of_nat n)"
      and wb: "ucast (ucast wb :: u8) = wb" using agree by auto
    have un: "unat (of_nat n :: u8) = n" using n8 by (simp add: unat_of_nat)
    then have "(of_nat n :: u8) \<noteq> 14" using n8 by auto
    then have "lg_window_size b0 b1 = Ok (ucast wb, of_nat n)"
      using lg10 lg_window_size_first [of b0 b1] by auto
    note lg = this n8 wb
    note un
    moreover have "stream br1 input = drop n (stream br input)" using br1(2) assms(2) by (simp add: br_at_def)
    ultimately show ?thesis using 2 lg br1(1) by (auto simp: wb'_def)
  next
    case 3
    define v where "v = byte_field b1 0 6"
    have n: "n = 8" using 3 agree by simp
    have six: "b1 AND 0x3f = take_bit 6 b1" by (simp add: take_bit_eq_mask mask_eq_exp_minus_1)
    have v: "v = ucast (b1 AND 0x3f)"
      unfolding v_def byte_field_def six
      by (rule bit_word_eqI) (auto simp: bit_simps)
    have at1: "br_at br1 input (bits_of_word 8 b1 @ bits_of_bytes rest)" using br1(2) by (simp add: n)
    from SafeReadBits_at [OF at1, of 6 w] obtain br2 where br2:
      "BrotliSafeReadBits br1 6 w input = Some (True, v, br2)"
      "br_at br2 input (drop 6 (bits_of_word 8 b1 @ bits_of_bytes rest))"
      using word_of_bits_byte [of 0 6 b1] by (auto simp: v_def)
    have lg: "lg_window_size b0 b1 =
        (if b1 AND 0x3f < 10 \<or> b1 AND 0x3f > 30 then Err () else Ok (b1 AND 0x3f, 14))"
      using 3 agree lg_window_size_first [of b0 b1] by simp
    have range: "v < 10 \<longleftrightarrow> b1 AND 0x3f < 10" "v > 30 \<longleftrightarrow> b1 AND 0x3f > 30"
      by (simp_all add: v word_less_nat_alt unat_ucast_u8)
    have st: "stream br2 input = drop 14 (stream br input)"
      using br2(2) assms(2) by (simp add: br_at_def)
    show ?thesis
    proof (cases "b1 AND 0x3f < 10 \<or> b1 AND 0x3f > 30")
      case True
      then show ?thesis using 3 lg br1(1) br2(1) range by (auto simp: wb'_def)
    next
      case False
      then show ?thesis using 3 lg br1(1) br2(1) st by (auto simp: wb'_def v not_less)
    qed
  qed
qed

lemma window_header_strict:
  assumes "br_ok br input" "stream br input = bits_of_bytes (b0 # b1 # rest)"
    and "8 \<le> unat (BrotliGetAvailableBits br)"
  shows "case lg_window_size b0 b1 of
      Ok (lg, n) \<Rightarrow> if n = 14 then \<exists>br1. DecodeWindowBits False w br = Some (BROTLI_DECODER_ERROR_FORMAT_WINDOW_BITS, False, w, br1)
        else \<exists>br1. DecodeWindowBits False w br = Some (BROTLI_DECODER_SUCCESS, False, ucast lg, br1) \<and>
          stream br1 input = drop (unat n) (stream br input)
    | Err _ \<Rightarrow> \<exists>br1. DecodeWindowBits False w br = Some (BROTLI_DECODER_ERROR_FORMAT_WINDOW_BITS, False, w, br1)"
proof -
  let ?s = "bits_of_word 8 b0 @ bits_of_bytes (b1 # rest)"
  have at: "br_at br input ?s" using assms(1,2) by (simp add: br_at_def)
  have pos: "unat (br_bit_pos br) \<le> 56"
    using assms(1,3) available_bits [of br] by (simp add: br_ok_def)
  obtain e l wb n where d: "window_of_byte True 0 b0 = (e, l, wb, n)" by (metis prod_cases4)
  have agree: "if e = BROTLI_DECODER_SUCCESS then
          if l then lg_window_size b0 10 = Ok (10, 14) \<and> n = 8
          else lg_window_size b0 10 = Ok (ucast wb, of_nat n) \<and> n < 8 \<and> ucast (ucast wb :: u8) = wb
        else lg_window_size b0 10 = Err ()"
    using window_byte_agrees [of b0] by (simp only: window_byte_agrees_def d Let_def prod.case)
  have dw: "window_of_byte False w b0 =
      (if e = BROTLI_DECODER_SUCCESS \<and> \<not> l then (e, l, wb, n) else (BROTLI_DECODER_ERROR_FORMAT_WINDOW_BITS, False, w, 7))"
    using window_of_byte_strict [of w b0] window_of_byte_w [of w b0] by (simp add: d)
  from DecodeWindowBits_at [OF at pos, of False w] obtain br1 where br1:
    "DecodeWindowBits False w br = (case window_of_byte False w b0 of (e, l, wb, n) \<Rightarrow> Some (e, l, wb, br1))"
    "br_at br1 input (drop (snd (snd (snd (window_of_byte False w b0)))) ?s)" by blast
  show ?thesis
  proof (cases "e = BROTLI_DECODER_SUCCESS \<and> \<not> l")
    case True
    then have lg: "lg_window_size b0 10 = Ok (ucast wb, of_nat n)" "n < 8" "ucast (ucast wb :: u8) = wb"
      using agree by simp_all
    have n: "unat (of_nat n :: u8) = n" using lg(2) by (simp add: unat_of_nat take_bit_nat_eq_self)
    have n14: "(of_nat n :: u8) \<noteq> 14"
    proof
      assume "(of_nat n :: u8) = 14"
      then have "n = unat (14 :: u8)" using n by simp
      then show False using lg(2) by simp
    qed
    then have "lg_window_size b0 b1 = Ok (ucast wb, of_nat n)" using lg(1) lg_window_size_first [of b0 b1] by auto
    then show ?thesis using br1 lg True n14 n assms(2) by (auto simp: dw br_at_def)
  next
    case False
    then have "DecodeWindowBits False w br = Some (BROTLI_DECODER_ERROR_FORMAT_WINDOW_BITS, False, w, br1)"
      using br1(1) dw by (simp only: if_False prod.case)
    moreover have "case lg_window_size b0 b1 of Ok (lg, n) \<Rightarrow> n = 14 | Err _ \<Rightarrow> True"
      using agree False lg_window_size_first [of b0 b1] by (auto split: if_splits)
    ultimately show ?thesis by (auto split: Result.splits)
  qed
qed

text \<open>C10: The two decoders of the window size agree. For every stream that starts with the bytes
  \<open>b0\<close>, \<open>b1\<close>: if large windows are allowed, \<open>lg_window_size b0 b1\<close> returns a size and a number of
  bits if and only if \<open>DecodeWindowBits\<close>, followed for a large window by the read of six bits that the
  main loop does, accepts the header with the same size and consumes that many bits; otherwise it is
  rejected by \<open>DecodeWindowBits\<close> or by the range check from 10 to 30. If they are not allowed,
  \<open>DecodeWindowBits\<close> accepts the same headers with the same sizes but for those of 14 bits, which it
  rejects with the error for the window bits.\<close>

theorem window_header_agrees:
  assumes "br_ok br input" "stream br input = bits_of_bytes (b0 # b1 # rest)"
    and "8 \<le> unat (BrotliGetAvailableBits br)"
  shows "case lg_window_size b0 b1 of
      Ok (lg, n) \<Rightarrow>
        (\<exists>l wb br1. DecodeWindowBits True w br = Some (BROTLI_DECODER_SUCCESS, l, wb, br1) \<and>
          (if l then wb = w \<and> (\<exists>br2. BrotliSafeReadBits br1 6 w input = Some (True, ucast lg, br2) \<and>
               stream br2 input = drop (unat n) (stream br input) \<and> 10 \<le> lg \<and> lg \<le> 30)
           else wb = ucast lg \<and> stream br1 input = drop (unat n) (stream br input))) \<and>
        (if n = 14 then \<exists>br1. DecodeWindowBits False w br = Some (BROTLI_DECODER_ERROR_FORMAT_WINDOW_BITS, False, w, br1)
         else \<exists>br1. DecodeWindowBits False w br = Some (BROTLI_DECODER_SUCCESS, False, ucast lg, br1) \<and>
           stream br1 input = drop (unat n) (stream br input))
    | Err _ \<Rightarrow>
        ((\<exists>br1. DecodeWindowBits True w br = Some (BROTLI_DECODER_ERROR_FORMAT_WINDOW_BITS, False, w, br1)) \<or>
         (\<exists>br1 v br2. DecodeWindowBits True w br = Some (BROTLI_DECODER_SUCCESS, True, w, br1) \<and>
            BrotliSafeReadBits br1 6 w input = Some (True, v, br2) \<and>
            (v < kBrotliLargeMinWbits \<or> v > kBrotliLargeMaxWbits))) \<and>
        (\<exists>br1. DecodeWindowBits False w br = Some (BROTLI_DECODER_ERROR_FORMAT_WINDOW_BITS, False, w, br1))"
proof (cases "lg_window_size b0 b1")
  case (Ok r)
  obtain lg n where "r = (lg, n)" by fastforce
  with Ok window_header_large [OF assms, of w] window_header_strict [OF assms, of w]
  show ?thesis by (simp only: Result.case prod.case simp_thms)
next
  case (Err e)
  with window_header_large [OF assms, of w] window_header_strict [OF assms, of w]
  show ?thesis by (simp only: Result.case simp_thms)
qed

theorem window_header_agrees_witness:
  "\<exists>br1 br2. lg_window_size 0x11 0x96 = Ok (22, 14) \<and>
    DecodeWindowBits True 0 \<lparr>br_val = 0x1100000000000000, br_bit_pos = 56, br_next_in = 1, br_avail_in = 1\<rparr> =
      Some (BROTLI_DECODER_SUCCESS, True, 0, br1) \<and>
    BrotliSafeReadBits br1 6 0 [0x11, 0x96] = Some (True, 22, br2)"
proof -
  let ?br = "\<lparr>br_val = 0x1100000000000000, br_bit_pos = 56, br_next_in = 1, br_avail_in = 1\<rparr>"
  have "br_ok ?br [0x11, 0x96]" by (simp add: br_ok_def)
  moreover have "stream ?br [0x11, 0x96] = bits_of_bytes (0x11 # 0x96 # [])" by code_simp
  moreover have "8 \<le> unat (BrotliGetAvailableBits ?br)" by code_simp
  moreover have "lg_window_size 0x11 0x96 = Ok (22, 14)" by code_simp
  moreover have "map_option (fst \<circ> snd) (DecodeWindowBits True 0 ?br) = Some True" by code_simp
  ultimately show ?thesis
    using window_header_agrees [of ?br "[0x11, 0x96]" "0x11" "0x96" "[]" 0]
    by (auto split: if_splits)
qed

text \<open>C11: On every reader with eight bits in its accumulator \<open>DecodeWindowBits\<close> either finds the code of
  a window size from 10 to 24 in the stream, returns that size and consumes exactly the code; or the
  stream opens with the seven bits of a large window. Then it consumes a zero bit behind them and
  announces a large window if that is allowed, and in every other case it returns the error for the
  window bits. The flag for a large window is cleared unless one was announced, and the size is
  written only when it is known.\<close>

theorem DecodeWindowBits_correct:
  assumes "br_ok br input" "8 \<le> unat (BrotliGetAvailableBits br)"
  shows "\<exists>br1. br_ok br1 input \<and>
    ((\<exists>lg. 10 \<le> lg \<and> lg \<le> 24 \<and> DecodeWindowBits large w br = Some (BROTLI_DECODER_SUCCESS, False, of_nat lg, br1) \<and>
        stream br input = window_code lg @ stream br1 input)
     \<or> (\<exists>b rest. stream br input = large_window_prefix @ b # rest \<and>
        (if large \<and> \<not> b
         then DecodeWindowBits large w br = Some (BROTLI_DECODER_SUCCESS, True, w, br1) \<and> stream br1 input = rest
         else DecodeWindowBits large w br = Some (BROTLI_DECODER_ERROR_FORMAT_WINDOW_BITS, False, w, br1))))"
proof -
  let ?bs = "stream br input"
  define b :: u8 where "b = word_of_bits (take 8 ?bs)"
  have pos: "unat (br_bit_pos br) \<le> 56"
    using assms available_bits [of br] by (simp add: br_ok_def)
  then have len: "8 \<le> length ?bs" using assms(1) by (simp add: length_stream)
  have bits: "bits_of_word 8 b = take 8 ?bs"
    using len by (intro nth_equalityI) (auto simp: bits_of_word_def b_def bit_word_of_bits)
  then have at: "br_at br input (bits_of_word 8 b @ drop 8 ?bs)" using assms(1) by (simp add: br_at_def)
  obtain e l wb n where d: "window_of_byte True 0 b = (e, l, wb, n)" by (metis prod_cases4)
  have agree: "if e = BROTLI_DECODER_SUCCESS \<and> \<not> l
        then 10 \<le> wb \<and> wb \<le> 24 \<and> n \<le> 7 \<and> take n (take 8 ?bs) = window_code (unat wb)
        else n = 8 \<and> take 7 (take 8 ?bs) = large_window_prefix \<and> (e = BROTLI_DECODER_SUCCESS \<longleftrightarrow> \<not> take 8 ?bs ! 7)"
    using window_code_agrees [of b] by (simp only: window_code_agrees_def d Let_def prod.case bits)
  have dw: "window_of_byte large w b =
      (if e = BROTLI_DECODER_SUCCESS \<and> \<not> l then (e, l, wb, n)
       else if large \<and> e = BROTLI_DECODER_SUCCESS then (e, l, w, n)
       else (BROTLI_DECODER_ERROR_FORMAT_WINDOW_BITS, False, w, if large then n else 7))"
    using window_of_byte_strict [of w b] window_of_byte_w [of w b] window_of_byte_error [of w b]
    by (cases large) (auto simp: d)
  from DecodeWindowBits_at [OF at pos, of large w] obtain br1 where br1:
    "DecodeWindowBits large w br = (case window_of_byte large w b of (e, l, wb, n) \<Rightarrow> Some (e, l, wb, br1))"
    "br_at br1 input (drop (snd (snd (snd (window_of_byte large w b)))) ?bs)" using bits by auto
  show ?thesis
  proof (cases "e = BROTLI_DECODER_SUCCESS \<and> \<not> l")
    case True
    then have ag: "10 \<le> wb" "wb \<le> 24" "n \<le> 7" "take n (take 8 ?bs) = window_code (unat wb)"
      using agree by (simp_all only: simp_thms if_True)
    have "take n (take 8 ?bs) = take n ?bs" using ag(3) by (simp only: take_take) (simp add: min_def)
    with ag have a: "10 \<le> wb" "wb \<le> 24" "n \<le> 7" "take n ?bs = window_code (unat wb)" by simp_all
    have "?bs = window_code (unat wb) @ drop n ?bs" using a(4) by (metis append_take_drop_id)
    moreover have "10 \<le> unat wb" "unat wb \<le> 24" using a(1,2) by (simp_all add: word_le_nat_alt)
    moreover have "DecodeWindowBits large w br = Some (BROTLI_DECODER_SUCCESS, False, of_nat (unat wb), br1)"
      "br_ok br1 input" "stream br1 input = drop n ?bs"
      using br1 True by (simp_all add: dw br_at_def)
    ultimately show ?thesis
      by (intro exI [of _ br1] conjI disjI1 exI [of _ "unat wb"]) simp_all
  next
    case False
    then have a: "n = 8" "take 7 ?bs = large_window_prefix" "e = BROTLI_DECODER_SUCCESS \<longleftrightarrow> \<not> ?bs ! 7"
    proof -
      have "n = 8 \<and> take 7 (take 8 ?bs) = large_window_prefix \<and> (e = BROTLI_DECODER_SUCCESS \<longleftrightarrow> \<not> take 8 ?bs ! 7)"
        using agree by (simp only: False if_False)
      then show "n = 8" "take 7 ?bs = large_window_prefix" "e = BROTLI_DECODER_SUCCESS \<longleftrightarrow> \<not> ?bs ! 7" by simp_all
    qed
    have "?bs = take 7 ?bs @ ?bs ! 7 # drop 8 ?bs" using len id_take_nth_drop [of 7 ?bs] by simp
    then have s: "?bs = large_window_prefix @ ?bs ! 7 # drop 8 ?bs" by (simp only: a(2))
    then show ?thesis using br1 False a
      by (intro exI [of _ br1] conjI disjI2 exI [of _ "?bs ! 7"] exI [of _ "drop 8 ?bs"])
        (auto simp: dw br_at_def)
  qed
qed

theorem DecodeWindowBits_correct_witness:
  "\<exists>br1 rest. DecodeWindowBits True 0 \<lparr>br_val = 0x2100000000000000, br_bit_pos = 56, br_next_in = 0, br_avail_in = 0\<rparr> =
      Some (BROTLI_DECODER_SUCCESS, False, 10, br1) \<and>
    stream \<lparr>br_val = 0x2100000000000000, br_bit_pos = 56, br_next_in = 0, br_avail_in = 0\<rparr> [] =
      window_code 10 @ rest \<and> stream br1 [] = rest"
proof -
  let ?br = "\<lparr>br_val = 0x2100000000000000, br_bit_pos = 56, br_next_in = 0, br_avail_in = 0\<rparr> :: BrotliBitReader"
  have "br_ok ?br []" by (simp add: br_ok_def)
  moreover have "8 \<le> unat (BrotliGetAvailableBits ?br)" by code_simp
  moreover have v: "map_option (fst \<circ> snd \<circ> snd) (DecodeWindowBits True 0 ?br) = Some 10" by code_simp
  moreover have "stream ?br [] = [True, False, False, False, False, True, False, False]" by code_simp
  moreover have "lg = 10" if "lg \<le> 24" "of_nat lg = (10 :: u32)" for lg
  proof -
    have "unat (of_nat lg :: u32) = lg" using that(1) by (simp add: unat_of_nat take_bit_nat_eq_self)
    then show ?thesis using that(2) by simp
  qed
  ultimately show ?thesis
    using DecodeWindowBits_correct [of ?br "[]" True 0] by (fastforce simp: large_window_prefix_def)
qed


subsection \<open>Numbers of variable length\<close>

text \<open>
  The code of the format for a number below 256: a zero bit for 0, otherwise a one bit, three bits
  for the logarithm and the remaining bits. Numbers are stored least significant bit first.
\<close>

definition bits_of_nat :: "nat \<Rightarrow> nat \<Rightarrow> bool list" where
  "bits_of_nat k n = map (bit n) [0..<k]"

fun log2_floor :: "nat \<Rightarrow> nat" where
  "log2_floor n = (if n < 2 then 0 else Suc (log2_floor (n div 2)))"

declare log2_floor.simps [simp del]

definition var_len_code :: "nat \<Rightarrow> bool list" where
  "var_len_code v =
    (if v = 0 then [False]
     else True # bits_of_nat 3 (log2_floor v) @ bits_of_nat (log2_floor v) (v - 2 ^ log2_floor v))"

text \<open>What remains to be read in each state of the resumable function.\<close>

fun var_len_parse :: "BrotliRunningDecodeUint8State \<Rightarrow> u32 \<Rightarrow> bool list \<Rightarrow> (u32 \<times> bool list) option" where
  "var_len_parse BROTLI_STATE_DECODE_UINT8_LONG x bs =
    (if unat x \<le> length bs
     then Some (push_bit (unat x) 1 + word_of_bits (take (unat x) bs), drop (unat x) bs) else None)"
| "var_len_parse BROTLI_STATE_DECODE_UINT8_SHORT x bs =
    (if 3 \<le> length bs then
       if (word_of_bits (take 3 bs) :: u32) = 0 then Some (1, drop 3 bs)
       else var_len_parse BROTLI_STATE_DECODE_UINT8_LONG (word_of_bits (take 3 bs)) (drop 3 bs)
     else None)"
| "var_len_parse BROTLI_STATE_DECODE_UINT8_NONE x bs =
    (if 1 \<le> length bs then
       if (word_of_bits (take 1 bs) :: u32) = 0 then Some (0, drop 1 bs)
       else var_len_parse BROTLI_STATE_DECODE_UINT8_SHORT x (drop 1 bs)
     else None)"

definition var_len_value_ok :: "BrotliRunningDecodeUint8State \<Rightarrow> u32 \<Rightarrow> bool" where
  "var_len_value_ok st x \<longleftrightarrow> (st = BROTLI_STATE_DECODE_UINT8_LONG \<longrightarrow> unat x < 8)"

definition var_len_result ::
  "BrotliRunningDecodeUint8State \<Rightarrow> BrotliBitReader \<Rightarrow> u32 \<Rightarrow> u8 list \<Rightarrow> bool list \<Rightarrow> bool" where
  "var_len_result st br x input bs \<longleftrightarrow> (case var_len_parse st x bs of
     Some (v, rest) \<Rightarrow> \<exists>br'. DecodeVarLenUint8 st br x input =
       Some (BROTLI_DECODER_SUCCESS, BROTLI_STATE_DECODE_UINT8_NONE, br', v) \<and> br_at br' input rest
   | None \<Rightarrow> \<exists>st' br' x' bs'. DecodeVarLenUint8 st br x input =
       Some (BROTLI_DECODER_NEEDS_MORE_INPUT, st', br', x') \<and> br_at br' input bs' \<and>
       var_len_value_ok st' x' \<and>
       (\<forall>later. var_len_parse st x (bs @ later) = var_len_parse st' x' (bs' @ later)))"

text \<open>A call stops, ends, or goes on in another state with the same work left.\<close>

lemma var_len_stop:
  assumes "DecodeVarLenUint8 st br x input = Some (BROTLI_DECODER_NEEDS_MORE_INPUT, st, br', x)"
    and "br_at br' input bs" "var_len_value_ok st x" "var_len_parse st x bs = None"
  shows "var_len_result st br x input bs"
  using assms unfolding var_len_result_def by auto

lemma var_len_end:
  assumes "DecodeVarLenUint8 st br x input =
      Some (BROTLI_DECODER_SUCCESS, BROTLI_STATE_DECODE_UINT8_NONE, br', v)"
    and "br_at br' input rest" "var_len_parse st x bs = Some (v, rest)"
  shows "var_len_result st br x input bs"
  using assms unfolding var_len_result_def by auto

lemma var_len_go:
  assumes "DecodeVarLenUint8 st br x input = DecodeVarLenUint8 st2 br2 x2 input"
    and "\<And>later. var_len_parse st x (bs @ later) = var_len_parse st2 x2 (bs2 @ later)"
    and "var_len_result st2 br2 x2 input bs2"
  shows "var_len_result st br x input bs"
  using assms(3) unfolding var_len_result_def assms(1,2) assms(2) [of "[]", simplified] .

lemma var_len_long:
  assumes "br_at br input bs" "unat x < 8"
  shows "var_len_result BROTLI_STATE_DECODE_UINT8_LONG br x input bs"
proof -
  from SafeReadBits_at [OF assms(1), of x 0] assms(2) obtain br' where br':
    "BrotliSafeReadBits br x 0 input = Some (if unat x \<le> length bs
       then (True, word_of_bits (take (unat x) bs), br') else (False, 0, br'))"
    "br_at br' input (if unat x \<le> length bs then drop (unat x) bs else bs)" by auto
  show ?thesis
  proof (cases "unat x \<le> length bs")
    case True
    with br' assms(2) show ?thesis by (intro var_len_end) auto
  next
    case False
    with br' assms(2) show ?thesis by (intro var_len_stop) (auto simp: var_len_value_ok_def)
  qed
qed

lemma unat_3: "unat (3 :: u32) = 3" by simp

lemma three_bits: "unat (word_of_bits (take 3 bs) :: u32) < 8"
  using unat_word_of_bits_less [of "take 3 bs" 3, where ?'a = 32] by simp

lemma var_len_short:
  assumes "br_at br input bs"
  shows "var_len_result BROTLI_STATE_DECODE_UINT8_SHORT br x input bs"
proof -
  obtain br' where br': "BrotliSafeReadBits br 3 0 input =
      Some (if 3 \<le> length bs then (True, word_of_bits (take 3 bs), br') else (False, 0, br'))"
    "br_at br' input (if 3 \<le> length bs then drop 3 bs else bs)"
    using SafeReadBits_at [OF assms, of 3 0, unfolded unat_3] by auto
  consider "\<not> 3 \<le> length bs" | "3 \<le> length bs" "(word_of_bits (take 3 bs) :: u32) = 0"
    | "3 \<le> length bs" "(word_of_bits (take 3 bs) :: u32) \<noteq> 0" by blast
  then show ?thesis
  proof cases
    case 1
    with br' show ?thesis by (intro var_len_stop) (auto simp: var_len_value_ok_def)
  next
    case 2
    with br' show ?thesis by (intro var_len_end) auto
  next
    case 3
    with br' have "br_at br' input (drop 3 bs)" by simp
    note long = var_len_long [OF this three_bits [of bs]]
    show ?thesis
    proof (rule var_len_go [OF _ _ long])
      show "DecodeVarLenUint8 BROTLI_STATE_DECODE_UINT8_SHORT br x input =
          DecodeVarLenUint8 BROTLI_STATE_DECODE_UINT8_LONG br' (word_of_bits (take 3 bs)) input"
        using 3 br'(1) by (simp only: DecodeVarLenUint8.simps(2)) simp
    qed (use 3 in \<open>simp only: var_len_parse.simps(2), simp\<close>)
  qed
qed

lemma var_len_none:
  assumes "br_at br input bs"
  shows "var_len_result BROTLI_STATE_DECODE_UINT8_NONE br x input bs"
proof -
  obtain br' where br': "BrotliSafeReadBits br 1 0 input =
      Some (if 1 \<le> length bs then (True, word_of_bits (take 1 bs), br') else (False, 0, br'))"
    "br_at br' input (if 1 \<le> length bs then drop 1 bs else bs)"
    using SafeReadBits_at [OF assms, of 1 0, unfolded unat_1] by auto
  consider "\<not> 1 \<le> length bs" | "1 \<le> length bs" "(word_of_bits (take 1 bs) :: u32) = 0"
    | "1 \<le> length bs" "(word_of_bits (take 1 bs) :: u32) \<noteq> 0" by blast
  then show ?thesis
  proof cases
    case 1
    with br' show ?thesis by (intro var_len_stop) (auto simp: var_len_value_ok_def)
  next
    case 2
    with br' show ?thesis by (intro var_len_end) auto
  next
    case 3
    with br' have "br_at br' input (drop 1 bs)" by simp
    note short = var_len_short [OF this, of x]
    show ?thesis
    proof (rule var_len_go [OF _ _ short])
      show "DecodeVarLenUint8 BROTLI_STATE_DECODE_UINT8_NONE br x input =
          DecodeVarLenUint8 BROTLI_STATE_DECODE_UINT8_SHORT br' x input"
        using 3 br'(1) by (simp only: DecodeVarLenUint8.simps(1)) simp
    qed (use 3 in \<open>simp only: var_len_parse.simps(3), simp\<close>)
  qed
qed

lemma var_len_any:
  assumes "br_at br input bs" "var_len_value_ok st x"
  shows "var_len_result st br x input bs"
  using assms by (cases st) (auto simp: var_len_value_ok_def var_len_none var_len_short var_len_long)

lemma var_len_parse_value:
  assumes "var_len_parse st x bs = Some (v, rest)" "var_len_value_ok st x"
  shows "unat v < 256"
proof -
  have "unat (push_bit (unat w) 1 + word_of_bits (take (unat w) xs) :: u32) < 256"
    if "unat w < 8" for w :: u32 and xs
  proof -
    have p: "unat (2 ^ k :: u32) = 2 ^ k" if "k < 8" for k :: nat
    proof -
      have "(2::nat) ^ k < 2 ^ 32" by (rule power_strict_increasing) (use that in auto)
      then show ?thesis using unat_of_nat [of "2 ^ k", where ?'a = 32] by (simp add: take_bit_nat_eq_self)
    qed
    have "unat (word_of_bits (take (unat w) xs) :: u32) < 2 ^ unat w"
      by (rule unat_word_of_bits_less) (use that in auto)
    moreover have "unat (push_bit (unat w) 1 :: u32) = 2 ^ unat w"
      using that by (simp add: push_bit_eq_mult p)
    moreover have "(2::nat) ^ unat w \<le> 2 ^ 7" by (rule power_increasing) (use that in auto)
    ultimately show ?thesis by (simp add: unat_word_ariths order_le_less_trans [OF mod_less_eq_dividend])
  qed
  with assms three_bits show ?thesis
    by (cases st) (auto simp: var_len_value_ok_def split: if_splits)
qed

lemma var_len_parse_append:
  "var_len_parse st x bs = Some (v, r) \<Longrightarrow> var_len_parse st x (bs @ later) = Some (v, r @ later)"
  by (induction st x bs rule: var_len_parse.induct) (auto split: if_splits)

lemma log2_floor_bounds: "0 < n \<Longrightarrow> 2 ^ log2_floor n \<le> n \<and> n < 2 * 2 ^ log2_floor n"
proof (induction n rule: log2_floor.induct)
  case (1 n)
  show ?case
  proof (cases "n < 2")
    case True
    with 1 show ?thesis by (simp add: log2_floor.simps [of n])
  next
    case False
    with 1 have "2 ^ log2_floor (n div 2) \<le> n div 2" "n div 2 < 2 * 2 ^ log2_floor (n div 2)" by auto
    then have "2 * 2 ^ log2_floor (n div 2) \<le> n" "n < 2 * (2 * 2 ^ log2_floor (n div 2))"
      by linarith+
    with False show ?thesis by (simp add: log2_floor.simps [of n])
  qed
qed

lemma length_bits_of_nat [simp]: "length (bits_of_nat k n) = k"
  by (simp add: bits_of_nat_def)

lemma word_of_bits_of_nat:
  assumes "n < 2 ^ k" "k \<le> 32"
  shows "word_of_bits (bits_of_nat k n) = (of_nat n :: u32)"
proof -
  have "n = take_bit k n" using assms(1) by (simp add: take_bit_nat_eq_self)
  then have "bit n i \<Longrightarrow> i < k" for i by (metis bit_take_bit_iff)
  then show ?thesis using assms(2)
    by (intro bit_word_eqI) (auto simp: bit_word_of_bits bits_of_nat_def bit_of_nat_iff)
qed

lemma log2_floor_byte:
  assumes "0 < v" "v < 256"
  shows "log2_floor v < 8"
proof (rule ccontr)
  assume "\<not> log2_floor v < 8"
  then have "(2::nat) ^ 8 \<le> 2 ^ log2_floor v" by (intro power_increasing) auto
  with log2_floor_bounds [OF assms(1)] assms(2) show False by simp
qed

lemma var_len_parse_code:
  assumes "v < 256"
  shows "var_len_parse BROTLI_STATE_DECODE_UINT8_NONE x (var_len_code v @ rest) = Some (of_nat v, rest)"
proof (cases "v = 0")
  case True
  then show ?thesis by (simp add: var_len_code_def word_of_bits_def)
next
  case False
  define k where "k = log2_floor v"
  have b: "2 ^ k \<le> v" "v < 2 * 2 ^ k" using log2_floor_bounds [of v] False by (auto simp: k_def)
  have k8: "k < 8" using log2_floor_byte [of v] False assms by (simp add: k_def)
  have one: "(word_of_bits [True] :: u32) = 1" by (simp add: word_of_bits_def)
  have three: "word_of_bits (bits_of_nat 3 k) = (of_nat k :: u32)"
    using word_of_bits_of_nat [of k 3] k8 by simp
  have ek: "unat (of_nat k :: u32) = k" using k8 by (simp add: unat_of_nat)
  have "push_bit k 1 + of_nat (v - 2 ^ k) = (of_nat v :: u32)"
    using b(1) by (simp add: push_bit_eq_mult of_nat_diff)
  moreover have "word_of_bits (bits_of_nat k (v - 2 ^ k)) = (of_nat (v - 2 ^ k) :: u32)"
    using word_of_bits_of_nat [of "v - 2 ^ k" k] b k8 by simp
  ultimately have long: "var_len_parse BROTLI_STATE_DECODE_UINT8_LONG (of_nat k)
      (bits_of_nat k (v - 2 ^ k) @ rest) = Some (of_nat v, rest)"
    by (simp add: ek)
  show ?thesis
  proof (cases "k = 0")
    case True
    then have "v = 1" using b by simp
    have "var_len_code v = True # bits_of_nat 3 0"
      using False True by (simp add: var_len_code_def k_def [symmetric]) (simp add: bits_of_nat_def)
    with True three \<open>v = 1\<close> show ?thesis by (simp add: one)
  next
    case f: False
    then have "(of_nat k :: u32) \<noteq> 0" using ek by (metis unat_0)
    with False three long show ?thesis
      by (simp add: var_len_code_def k_def [symmetric] one del: var_len_parse.simps(1))
  qed
qed

lemma var_len_parse_prefix:
  assumes "v < 256" "bs @ later = var_len_code v @ rest" "length bs < length (var_len_code v)"
  shows "var_len_parse BROTLI_STATE_DECODE_UINT8_NONE x bs = None"
proof (rule ccontr)
  assume "var_len_parse BROTLI_STATE_DECODE_UINT8_NONE x bs \<noteq> None"
  then obtain w r where "var_len_parse BROTLI_STATE_DECODE_UINT8_NONE x bs = Some (w, r)" by auto
  from var_len_parse_append [OF this, of later] var_len_parse_code [OF assms(1), of x rest]
  have "length r + length later = length rest" by (simp only: assms(2)) auto
  moreover have "length bs + length later = length (var_len_code v) + length rest"
    using arg_cong [OF assms(2), of length] by (simp only: length_append)
  ultimately show False using assms(3) by linarith
qed

text \<open>C12: \<open>DecodeVarLenUint8\<close> decodes every number below 256 from its code in the format, and
  it can be interrupted anywhere. If the stream ends inside the code, the function asks for more
  input, and calling it again with the state, the variable and the bits it left, followed by the rest of
  the code in any later input slice, returns the number and stops right behind the code.\<close>

theorem DecodeVarLenUint8_roundtrip:
  assumes "br_ok br input" "v < 256" "stream br input @ later = var_len_code v @ rest"
  shows "if length (var_len_code v) \<le> length (stream br input)
    then \<exists>br'. DecodeVarLenUint8 BROTLI_STATE_DECODE_UINT8_NONE br x input =
        Some (BROTLI_DECODER_SUCCESS, BROTLI_STATE_DECODE_UINT8_NONE, br', of_nat v) \<and>
      stream br' input = drop (length (var_len_code v)) (stream br input)
    else \<exists>st' br' x'. DecodeVarLenUint8 BROTLI_STATE_DECODE_UINT8_NONE br x input =
        Some (BROTLI_DECODER_NEEDS_MORE_INPUT, st', br', x') \<and>
      (\<forall>br2 input2. br_ok br2 input2 \<longrightarrow> stream br2 input2 = stream br' input @ later \<longrightarrow>
        (\<exists>br3. DecodeVarLenUint8 st' br2 x' input2 =
            Some (BROTLI_DECODER_SUCCESS, BROTLI_STATE_DECODE_UINT8_NONE, br3, of_nat v) \<and>
          stream br3 input2 = rest))"
proof -
  let ?s = "stream br input" and ?n = "BROTLI_STATE_DECODE_UINT8_NONE"
  have at: "br_at br input ?s" using assms(1) by (simp add: br_at_def)
  note r = var_len_none [OF at, of x, unfolded var_len_result_def]
  show ?thesis
  proof (cases "length (var_len_code v) \<le> length ?s")
    case True
    then have "?s = var_len_code v @ drop (length (var_len_code v)) ?s"
      using assms(3) by (metis append_eq_append_conv_if append_take_drop_id)
    then have "var_len_parse ?n x ?s = Some (of_nat v, drop (length (var_len_code v)) ?s)"
      using var_len_parse_code [OF assms(2), of x "drop (length (var_len_code v)) ?s"] by simp
    with r True show ?thesis by (auto simp: br_at_def)
  next
    case False
    then have "var_len_parse ?n x ?s = None"
      using var_len_parse_prefix [OF assms(2,3)] by simp
    with r obtain st' br' x' bs' where n: "DecodeVarLenUint8 ?n br x input =
        Some (BROTLI_DECODER_NEEDS_MORE_INPUT, st', br', x')" "br_at br' input bs'" "var_len_value_ok st' x'"
      "\<And>later. var_len_parse ?n x (?s @ later) = var_len_parse st' x' (bs' @ later)"
      by (simp del: var_len_parse.simps) metis
    have parse: "var_len_parse st' x' (bs' @ later) = Some (of_nat v, rest)"
      using n(4) [of later] var_len_parse_code [OF assms(2), of x rest] assms(3) by simp
    have "\<exists>br3. DecodeVarLenUint8 st' br2 x' input2 =
        Some (BROTLI_DECODER_SUCCESS, ?n, br3, of_nat v) \<and> stream br3 input2 = rest"
      if "br_ok br2 input2" "stream br2 input2 = stream br' input @ later" for br2 input2
    proof -
      have "br_at br2 input2 (bs' @ later)" using that n(2) by (simp add: br_at_def)
      from var_len_any [OF this n(3), unfolded var_len_result_def parse] show ?thesis
        by (auto simp: br_at_def)
    qed
    with n(1) False show ?thesis by auto
  qed
qed

theorem DecodeVarLenUint8_roundtrip_witness:
  "\<exists>br1 st2 br2 x2. DecodeVarLenUint8 BROTLI_STATE_DECODE_UINT8_NONE
      \<lparr>br_val = 0x1700000000000000, br_bit_pos = 56, br_next_in = 1, br_avail_in = 0\<rparr> 5 [0x17] =
      Some (BROTLI_DECODER_SUCCESS, BROTLI_STATE_DECODE_UINT8_NONE, br1, 9) \<and>
    stream br1 [0x17] = [False] \<and>
    DecodeVarLenUint8 BROTLI_STATE_DECODE_UINT8_NONE
      \<lparr>br_val = 0x7000000000000000, br_bit_pos = 60, br_next_in = 1, br_avail_in = 0\<rparr> 5 [0x17] =
      Some (BROTLI_DECODER_NEEDS_MORE_INPUT, st2, br2, x2)"
proof -
  let ?a = "\<lparr>br_val = 0x1700000000000000, br_bit_pos = 56, br_next_in = 1, br_avail_in = 0\<rparr>"
  let ?b = "\<lparr>br_val = 0x7000000000000000, br_bit_pos = 60, br_next_in = 1, br_avail_in = 0\<rparr>"
  have "log2_floor 9 = 3" by (simp add: log2_floor.simps)
  then have code: "var_len_code 9 = [True, True, True, False, True, False, False]"
    by (simp add: var_len_code_def bits_of_nat_def upt_rec bit_iff_odd)
  have a: "br_ok ?a [0x17]" by (simp add: br_ok_def)
  have b: "br_ok ?b [0x17]" by (simp add: br_ok_def)
  have s: "stream ?a [0x17] = [True, True, True, False, True, False, False, False]"
    "stream ?b [0x17] = [True, True, True, False]" by code_simp+
  from DecodeVarLenUint8_roundtrip [OF a, of 9 "[]" "[False]" 5]
    DecodeVarLenUint8_roundtrip [OF b, of 9 "[True, False, False]" "[]" 5]
  show ?thesis by (auto simp: s code)
qed

subsection \<open>The length of a metablock\<close>

lemma read_bits_at:
  assumes "br_at (s_br s) input (bits_of_nat k n @ bs)" "unat w = k" "k \<le> 32"
  shows "\<exists>br'. read_bits s w input = Some (True, word_of_bits (bits_of_nat k n), s\<lparr>s_br := br'\<rparr>) \<and>
    br_at br' input bs"
proof -
  have w: "unat w \<le> 32" using assms by simp
  from SafeReadBits_at [OF assms(1) w, of 0] show ?thesis
    by (auto simp: read_bits_def assms(2))
qed

lemma bits_of_nat_0 [simp]: "bits_of_nat 0 n = []"
  by (simp add: bits_of_nat_def)

lemma bits_of_nat_split:
  "bits_of_nat (k + l) n = bits_of_nat k n @ bits_of_nat l (drop_bit k n)"
  by (rule nth_equalityI) (auto simp: bits_of_nat_def nth_append bit_simps)

lemma word_of_bits_take_bit:
  "k \<le> 32 \<Longrightarrow> word_of_bits (bits_of_nat k n) = (of_nat (take_bit k n) :: u32)"
proof -
  assume "k \<le> 32"
  moreover have "bits_of_nat k (take_bit k n) = bits_of_nat k n"
    by (simp add: bits_of_nat_def bit_simps)
  ultimately show ?thesis using word_of_bits_of_nat [of "take_bit k n" k] by simp
qed

lemma take_bit_add_OR:
  "(take_bit (i + k) m :: nat) = take_bit i m OR push_bit i (take_bit k (drop_bit i m))"
  by (rule bit_eqI) (auto simp: bit_simps not_less)

text \<open>The value of the part at position \<open>i\<close>, shifted to its place as the code does.\<close>

lemma sint_shifted:
  assumes "v < 2 ^ k" "i + k \<le> 31"
  shows "sint (shl32 (of_nat v) (word_of_int (int i))) = int (push_bit i v)"
proof -
  have i: "unat (word_of_int (int i) :: u32) = i" using assms(2) by (simp add: unat_of_nat take_bit_nat_eq_self)
  have "v * 2 ^ i < 2 ^ k * 2 ^ i" using assms(1) by simp
  also have "(2::nat) ^ k * 2 ^ i = 2 ^ (i + k)" by (simp add: power_add)
  also have "\<dots> \<le> 2 ^ 31" by (rule power_increasing) (use assms(2) in auto)
  finally have lt: "v * 2 ^ i < 2 ^ 31" .
  have "shl32 (of_nat v) (word_of_int (int i)) = of_nat (v * 2 ^ i)"
    using i assms(2) by (simp add: push_bit_eq_mult)
  moreover have "sint (of_nat n :: u32) = int n" if "n < 2 ^ 31" for n
    using that by (simp add: signed_of_nat signed_take_bit_int_eq_self)
  ultimately show ?thesis using lt by (simp only: push_bit_eq_mult)
qed

text \<open>A loop over \<open>n\<close> parts of \<open>k\<close> bits collects the number \<open>m\<close>.\<close>

lemma read_size_nibbles_at:
  assumes "br_at (s_br s) input (bits_of_nat (4 * (n - i)) (drop_bit (4 * i) m) @ bs)"
    and "i \<le> n" "unat (s_size_nibbles s) = n" "n \<le> 6"
    and "s_meta_block_remaining_len s = int (take_bit (4 * i) m)" "m < 2 ^ (4 * n)"
    and "4 < n \<Longrightarrow> 2 ^ (4 * (n - 1)) \<le> m"
  shows "\<exists>br'. read_size_nibbles s (int i) input =
      Some (None, s\<lparr>s_br := br', s_meta_block_remaining_len := int m\<rparr>) \<and> br_at br' input bs"
  using assms
proof (induction "n - i" arbitrary: i s)
  case 0
  have n: "int n = uint (s_size_nibbles s)" using 0(4) by (metis of_nat_unat)
  have "take_bit (4 * n) m = m" using 0 by (simp add: take_bit_nat_eq_self)
  with 0 n show ?case
    by (subst read_size_nibbles.simps) (auto intro!: exI [of _ "s_br s"])
next
  case (Suc d)
  then have i: "i < n" by simp
  have u: "uint (s_size_nibbles s) = int n" using Suc.prems(3) by (metis of_nat_unat)
  define v where "v = take_bit 4 (drop_bit (4 * i) m)"
  have v16: "v < 2 ^ 4" unfolding v_def by (rule take_bit_nat_less_exp)
  have nb: "4 * (n - i) = 4 + 4 * (n - Suc i)" using i by simp
  have "br_at (s_br s) input (bits_of_nat 4 (drop_bit (4 * i) m) @
      (bits_of_nat (4 * (n - Suc i)) (drop_bit (4 * Suc i) m) @ bs))"
    using Suc.prems(1) unfolding nb bits_of_nat_split by (simp add: add.commute)
  from read_bits_at [OF this, of 4] obtain br1 where br1:
    "read_bits s 4 input = Some (True, of_nat v, s\<lparr>s_br := br1\<rparr>)"
    "br_at br1 input (bits_of_nat (4 * (n - Suc i)) (drop_bit (4 * Suc i) m) @ bs)"
    by (auto simp: word_of_bits_take_bit v_def)
  define s1 where "s1 = s\<lparr>s_br := br1,
    s_meta_block_remaining_len := s_meta_block_remaining_len s OR sint (shl32 (of_nat v) (u32_of_i32 (int i * 4)))\<rparr>"
  have len: "s_meta_block_remaining_len s1 = int (take_bit (4 * Suc i) m)"
  proof -
    have "sint (shl32 (of_nat v) (u32_of_i32 (int i * 4))) = int (push_bit (4 * i) v)"
      using sint_shifted [OF v16, of "4 * i"] i Suc.prems(4) by (simp add: mult.commute)
    then show ?thesis
      using take_bit_add_OR [of "4 * i" 4 m] Suc.prems(5)
      by (simp add: s1_def v_def add.commute flip: of_nat_or_eq)
  qed
  have last: "\<not> (int i + 1 = uint (s_size_nibbles s) \<and> s_size_nibbles s > 4 \<and> (of_nat v :: u32) = 0)"
  proof (rule notI, elim conjE)
    assume a: "int i + 1 = uint (s_size_nibbles s)" "s_size_nibbles s > 4" "(of_nat v :: u32) = 0"
    have n: "n = Suc i" using a(1) unfolding u by linarith
    have "4 < n" using a(2) Suc.prems(3) by (simp add: word_less_nat_alt)
    then have "2 ^ (4 * i) \<le> m" using Suc.prems(7) n by simp
    moreover have "v = m div 2 ^ (4 * i)"
    proof -
      have "m div 2 ^ (4 * i) < 2 ^ 4"
        using Suc.prems(6) n by (simp add: less_mult_imp_div_less power_add)
      then show ?thesis by (simp add: v_def drop_bit_eq_div take_bit_nat_eq_self)
    qed
    ultimately have "v \<noteq> 0" by (simp add: div_eq_0_iff)
    moreover have "unat (of_nat v :: u32) = v" using v16 by (simp add: unat_of_nat take_bit_nat_eq_self)
    ultimately show False using a(3) by (metis unat_0)
  qed
  have i': "int i < uint (s_size_nibbles s)" using i unfolding u by simp
  have step: "read_size_nibbles s (int i) input = read_size_nibbles s1 (int (Suc i)) input"
    by (subst read_size_nibbles.simps) (use i' br1(1) last in \<open>auto simp: s1_def add.commute [of "int i" 1]\<close>)
  have "d = n - Suc i" using Suc.hyps(2) by simp
  from Suc.hyps(1) [OF this, of s1] br1(2) i Suc.prems len
  show ?case unfolding step by (auto simp: s1_def)
qed

text \<open>
  The header of a metablock with content: the flag of the last metablock with the flag of an empty
  one, the number of nibbles of the length minus one, that length, and for all but the last metablock
  the flag of uncompressed data.
\<close>

definition metablock_code :: "bool \<Rightarrow> nat \<Rightarrow> nat \<Rightarrow> bool \<Rightarrow> bool list" where
  "metablock_code is_last nibbles len uncompressed =
     (if is_last then [True, False] else [False]) @ bits_of_nat 2 (nibbles - 4) @
     bits_of_nat (4 * nibbles) (len - 1) @ (if is_last then [] else [uncompressed])"

text \<open>The lengths that a number of nibbles may code: the last nibble of five or six is not zero.\<close>

definition nibbles_for :: "nat \<Rightarrow> nat \<Rightarrow> bool" where
  "nibbles_for nibbles len \<longleftrightarrow> 4 \<le> nibbles \<and> nibbles \<le> 6 \<and> 1 \<le> len \<and> len \<le> 2 ^ (4 * nibbles) \<and>
     (4 < nibbles \<longrightarrow> 2 ^ (4 * (nibbles - 1)) < len)"

lemma bits_of_nat_1: "bits_of_nat (Suc 0) n = [odd n]"
  by (simp add: bits_of_nat_def bit_0)

text \<open>The end of the header, from the number of nibbles on.\<close>

lemma metablock_nibbles:
  assumes "s_substate_metablock_header s = BROTLI_STATE_METABLOCK_HEADER_NIBBLES"
    and "br_at (s_br s) input (bits_of_nat 2 (nibbles - 4) @ bits_of_nat (4 * nibbles) (len - 1) @
      (if s_is_last_metablock s \<noteq> 0 then [] else [uncompressed]) @ rest)"
    and "nibbles_for nibbles len" "s_meta_block_remaining_len s = 0" "s_is_metadata s = 0"
    and "s_is_uncompressed s = 0"
  shows "\<exists>s'. DecodeMetaBlockLength s input = Some (BROTLI_DECODER_SUCCESS, s') \<and>
    br_at (s_br s') input rest \<and> s_meta_block_remaining_len s' = int len \<and>
    s_is_last_metablock s' = s_is_last_metablock s \<and> s_is_metadata s' = 0 \<and>
    s_is_uncompressed s' = (if s_is_last_metablock s = 0 \<and> uncompressed then 1 else 0) \<and>
    s_substate_metablock_header s' = BROTLI_STATE_METABLOCK_HEADER_NONE"
proof -
  from assms(3) have nib: "4 \<le> nibbles" "nibbles \<le> 6" and len: "1 \<le> len" "len \<le> 2 ^ (4 * nibbles)"
    and big: "4 < nibbles \<Longrightarrow> 2 ^ (4 * (nibbles - 1)) \<le> len - 1"
    by (auto simp: nibbles_for_def)
  have len24: "len \<le> 2 ^ 24"
    using len(2) power_increasing [of "4 * nibbles" 24 "2::nat"] nib by simp
  from read_bits_at [OF assms(2), of 2] obtain br1 where br1:
    "read_bits s 2 input = Some (True, of_nat (nibbles - 4), s\<lparr>s_br := br1\<rparr>)"
    "br_at br1 input (bits_of_nat (4 * nibbles) (len - 1) @
      (if s_is_last_metablock s \<noteq> 0 then [] else [uncompressed]) @ rest)"
    using nib by (auto simp: word_of_bits_take_bit take_bit_nat_eq_self)
  have b3: "(of_nat (nibbles - 4) :: u32) \<noteq> 3"
  proof
    assume "(of_nat (nibbles - 4) :: u32) = 3"
    then have "unat (of_nat (nibbles - 4) :: u32) = 3" by (simp only: unat_3)
    moreover have "unat (of_nat (nibbles - 4) :: u32) = nibbles - 4"
      unfolding unat_of_nat by (rule mod_less) (use nib in simp)
    ultimately show False using nib by simp
  qed
  have b: "of_nat (nibbles - 4) + 4 = (of_nat nibbles :: u32)" using nib by (simp add: of_nat_diff)
  have nw: "unat (ucast (of_nat nibbles :: u32) :: u8) = nibbles"
    using nib by (simp add: unsigned_ucast_eq unat_of_nat take_bit_nat_eq_self)
  define s1 where "s1 = s\<lparr>s_br := br1, s_size_nibbles := ucast (of_nat nibbles :: u32), s_loop_counter := 0,
    s_substate_metablock_header := BROTLI_STATE_METABLOCK_HEADER_SIZE\<rparr>"
  have step1: "DecodeMetaBlockLength s input = DecodeMetaBlockLength s1 input"
    by (subst DecodeMetaBlockLength.simps) (use assms(1) br1(1) b3 b in \<open>simp add: s1_def\<close>)
  have "br_at (s_br s1) input (bits_of_nat (4 * (nibbles - 0)) (drop_bit (4 * 0) (len - 1)) @
      (if s_is_last_metablock s \<noteq> 0 then [] else [uncompressed]) @ rest)"
    using br1(2) by (simp add: s1_def)
  moreover have "len - 1 < 2 ^ (4 * nibbles)" using len by linarith
  moreover have "unat (s_size_nibbles s1) = nibbles" "s_meta_block_remaining_len s1 = 0"
    using nw assms(4) by (simp_all add: s1_def)
  ultimately obtain br2 where br2:
    "read_size_nibbles s1 0 input =
      Some (None, s1\<lparr>s_br := br2, s_meta_block_remaining_len := int (len - 1)\<rparr>)"
    "br_at br2 input ((if s_is_last_metablock s \<noteq> 0 then [] else [uncompressed]) @ rest)"
    using read_size_nibbles_at [of s1 input nibbles 0 "len - 1"] nib(2) big by auto
  define s2 where "s2 = s1\<lparr>s_br := br2, s_meta_block_remaining_len := int (len - 1),
    s_substate_metablock_header := BROTLI_STATE_METABLOCK_HEADER_UNCOMPRESSED\<rparr>"
  have step2: "DecodeMetaBlockLength s1 input = DecodeMetaBlockLength s2 input"
    by (subst DecodeMetaBlockLength.simps) (use br2(1) in \<open>simp add: s1_def s2_def\<close>)
  have i: "i32 (int (len - 1) + 1) = int len" using len len24 by simp
  show ?thesis
  proof (cases "s_is_last_metablock s = 0")
    case False
    then have "DecodeMetaBlockLength s2 input = Some (BROTLI_DECODER_SUCCESS,
        s2\<lparr>s_meta_block_remaining_len := int len,
           s_substate_metablock_header := BROTLI_STATE_METABLOCK_HEADER_NONE\<rparr>)"
      by (subst DecodeMetaBlockLength.simps) (use i in \<open>simp add: s1_def s2_def\<close>)
    with False br2(2) assms step1 step2 show ?thesis by (simp add: s1_def s2_def)
  next
    case True
    then have "br_at (s_br s2) input (bits_of_nat 1 (of_bool uncompressed) @ rest)"
      using br2(2) by (simp add: s2_def bits_of_nat_1)
    from read_bits_at [OF this, of 1] obtain br3 where br3:
      "read_bits s2 1 input = Some (True, of_bool uncompressed, s2\<lparr>s_br := br3\<rparr>)" "br_at br3 input rest"
      by (auto simp: word_of_bits_take_bit)
    have "DecodeMetaBlockLength s2 input = Some (BROTLI_DECODER_SUCCESS,
        s2\<lparr>s_br := br3, s_is_uncompressed := ucast (of_bool uncompressed :: u32),
           s_meta_block_remaining_len := int len,
           s_substate_metablock_header := BROTLI_STATE_METABLOCK_HEADER_NONE\<rparr>)"
      by (subst DecodeMetaBlockLength.simps) (use True i assms(5) br3(1) in \<open>simp add: s1_def s2_def\<close>)
    with True br3(2) assms step1 step2 show ?thesis by (simp add: s1_def s2_def)
  qed
qed

text \<open>C13: Every metablock header with content survives its code. For each length from 1 to \<open>2^24\<close>
  in the number of nibbles the format allows for it, last or not, compressed or not, decoding the header
  in one call gives back the length and the flags, leaves the stream right behind the header and
  the decoder ready for the next header; the header of an empty last metablock gives length 0.\<close>

theorem DecodeMetaBlockLength_roundtrip:
  assumes "br_ok (s_br s) input" "s_substate_metablock_header s = BROTLI_STATE_METABLOCK_HEADER_NONE"
    and "nibbles_for nibbles len"
    and "stream (s_br s) input = (if len_is_zero then [True, True]
           else metablock_code is_last nibbles len uncompressed) @ rest"
  shows "\<exists>s'. DecodeMetaBlockLength s input = Some (BROTLI_DECODER_SUCCESS, s') \<and>
    br_ok (s_br s') input \<and> stream (s_br s') input = rest \<and>
    s_meta_block_remaining_len s' = (if len_is_zero then 0 else int len) \<and>
    s_is_last_metablock s' = of_bool (len_is_zero \<or> is_last) \<and>
    s_is_uncompressed s' = of_bool (\<not> len_is_zero \<and> \<not> is_last \<and> uncompressed) \<and>
    s_is_metadata s' = 0 \<and> s_substate_metablock_header s' = BROTLI_STATE_METABLOCK_HEADER_NONE"
proof -
  define last where "last \<longleftrightarrow> len_is_zero \<or> is_last"
  define tail where "tail = bits_of_nat 2 (nibbles - 4) @ bits_of_nat (4 * nibbles) (len - 1) @
      (if is_last then [] else [uncompressed]) @ rest"
  have st: "stream (s_br s) input = bits_of_nat 1 (of_bool last) @
      (if len_is_zero then True # rest else if is_last then False # tail else tail)"
    using assms(4) by (auto simp: metablock_code_def last_def bits_of_nat_1 tail_def)
  then have "br_at (s_br s) input (bits_of_nat 1 (of_bool last) @
      (if len_is_zero then True # rest else if is_last then False # tail else tail))"
    using assms(1) by (simp add: br_at_def)
  from read_bits_at [OF this, of 1] obtain br1 where br1:
    "read_bits s 1 input = Some (True, of_bool last, s\<lparr>s_br := br1\<rparr>)"
    "br_at br1 input (if len_is_zero then True # rest else if is_last then False # tail else tail)"
    by (auto simp: word_of_bits_take_bit)
  define s1 where "s1 = s\<lparr>s_br := br1, s_is_last_metablock := of_bool last, s_meta_block_remaining_len := 0,
      s_is_uncompressed := 0, s_is_metadata := 0\<rparr>"
  have step1: "DecodeMetaBlockLength s input = DecodeMetaBlockLength (s1\<lparr>s_substate_metablock_header :=
      (if last then BROTLI_STATE_METABLOCK_HEADER_EMPTY else BROTLI_STATE_METABLOCK_HEADER_NIBBLES)\<rparr>) input"
    by (subst DecodeMetaBlockLength.simps) (use assms(2) br1(1) in \<open>simp add: s1_def\<close>)
  define s2 where "s2 = s1\<lparr>s_substate_metablock_header := BROTLI_STATE_METABLOCK_HEADER_EMPTY\<rparr>"
  consider "\<not> last" | "last" "len_is_zero" | "last" "\<not> len_is_zero" by blast
  then show ?thesis
  proof cases
    case 1
    let ?s = "s1\<lparr>s_substate_metablock_header := BROTLI_STATE_METABLOCK_HEADER_NIBBLES\<rparr>"
    have "br_at (s_br ?s) input tail" using 1 br1(2) by (simp add: s1_def last_def)
    with metablock_nibbles [of ?s input nibbles len uncompressed rest] 1 assms(3)
    show ?thesis unfolding step1 by (auto simp: s1_def last_def tail_def br_at_def)
  next
    case 2
    then have "br_at (s_br s2) input (bits_of_nat 1 1 @ rest)"
      using br1(2) by (simp add: s1_def s2_def bits_of_nat_1)
    from read_bits_at [OF this, of 1] obtain br2 where br2:
      "read_bits s2 1 input = Some (True, 1, s2\<lparr>s_br := br2\<rparr>)" "br_at br2 input rest"
      by (auto simp: word_of_bits_take_bit)
    have "DecodeMetaBlockLength s2 input = Some (BROTLI_DECODER_SUCCESS,
        s2\<lparr>s_br := br2, s_substate_metablock_header := BROTLI_STATE_METABLOCK_HEADER_NONE\<rparr>)"
      by (subst DecodeMetaBlockLength.simps) (use br2(1) in \<open>simp add: s2_def\<close>)
    with 2 br2(2) show ?thesis unfolding step1 by (simp add: s1_def s2_def br_at_def)
  next
    case 3
    then have "br_at (s_br s2) input (bits_of_nat 1 0 @ tail)"
      using br1(2) by (simp add: s1_def s2_def bits_of_nat_1 last_def)
    from read_bits_at [OF this, of 1] obtain br2 where br2:
      "read_bits s2 1 input = Some (True, 0, s2\<lparr>s_br := br2\<rparr>)" "br_at br2 input tail"
      by (auto simp: word_of_bits_take_bit)
    let ?s = "s2\<lparr>s_br := br2, s_substate_metablock_header := BROTLI_STATE_METABLOCK_HEADER_NIBBLES\<rparr>"
    have step2: "DecodeMetaBlockLength s2 input = DecodeMetaBlockLength ?s input"
      by (subst DecodeMetaBlockLength.simps) (use br2(1) in \<open>simp add: s2_def\<close>)
    from 3 have "is_last" by (simp add: last_def)
    with metablock_nibbles [of ?s input nibbles len uncompressed rest] 3 assms(3) br2(2)
    show ?thesis unfolding step1 using step2
      by (auto simp: s1_def s2_def last_def tail_def br_at_def)
  qed
qed

text \<open>A decoder with a given bit reader, as \<open>BrotliState::new\<close> makes it.\<close>

definition sample_state :: "BrotliBitReader \<Rightarrow> BrotliState" where
  "sample_state br =
     (BrotliState_new (\<lambda>n. replicate n 0) (\<lambda>n. replicate n 0) (\<lambda>n. replicate n HuffmanCode_default))
       \<lparr>s_br := br\<rparr>"

theorem DecodeMetaBlockLength_roundtrip_witness:
  "\<exists>s'. DecodeMetaBlockLength (sample_state
      \<lparr>br_val = 0x0032080000000000, br_bit_pos = 43, br_next_in = 0, br_avail_in = 0\<rparr>) [] =
      Some (BROTLI_DECODER_SUCCESS, s') \<and>
    s_meta_block_remaining_len s' = 101 \<and> s_is_last_metablock s' = 1 \<and> stream (s_br s') [] = [False]"
proof -
  let ?br = "\<lparr>br_val = 0x0032080000000000, br_bit_pos = 43, br_next_in = 0, br_avail_in = 0\<rparr>"
  have "br_ok (s_br (sample_state ?br)) []" by (simp add: br_ok_def sample_state_def)
  moreover have "s_substate_metablock_header (sample_state ?br) = BROTLI_STATE_METABLOCK_HEADER_NONE"
    by (simp add: sample_state_def BrotliState_new_def make_brotli_state_def Let_def)
  moreover have "nibbles_for 4 101" by (simp add: nibbles_for_def)
  moreover have "stream ?br [] = [True, False, False, False, False, False, True, False, False, True,
      True, False, False, False, False, False, False, False, False, False, False]" by code_simp
  ultimately show ?thesis
    using DecodeMetaBlockLength_roundtrip [of "sample_state ?br" "[]" 4 101 False True False "[False]"]
    by (auto simp: metablock_code_def bits_of_nat_def upt_rec bit_iff_odd sample_state_def)
qed

end
