(* ===== verification/Context_Map_Spec.thy ===== *)
theory Context_Map_Spec
  imports Symbol_Spec Context_Map Header_Spec
begin

text \<open>
  What the two steps of the context map decoder compute: the inverse move-to-front transform is the
  decoder of the reference coding although it restores only a part of its table, and the loop over the
  items is the reference decoder on the bits ahead, wherever the input is cut. The encoder of the
  reference makes this a round trip.
\<close>

subsection \<open>Move-to-front coding\<close>

text \<open>
  The reference: moving the element at index \<open>i\<close> of a list to its front, the decoder of a list of
  indices and the encoder of a list of symbols.
\<close>

definition move_to_front :: "nat \<Rightarrow> 'a list \<Rightarrow> 'a list" where
  "move_to_front i xs = xs ! i # take i xs @ drop (i + 1) xs"

fun mtf_decode :: "nat list \<Rightarrow> 'a list \<Rightarrow> 'a list" where
  "mtf_decode [] xs = []"
| "mtf_decode (i # is) xs = xs ! i # mtf_decode is (move_to_front i xs)"

definition index_of :: "'a \<Rightarrow> 'a list \<Rightarrow> nat" where
  "index_of x xs = length (takeWhile (\<lambda>y. y \<noteq> x) xs)"

fun mtf_encode :: "'a list \<Rightarrow> 'a list \<Rightarrow> nat list" where
  "mtf_encode [] xs = []"
| "mtf_encode (x # ys) xs = index_of x xs # mtf_encode ys (move_to_front (index_of x xs) xs)"

definition byte_values :: "u8 list" where
  "byte_values = map of_nat [0..<256]"

lemma length_byte_values [simp]: "length byte_values = 256"
  by (simp add: byte_values_def)

lemma nth_byte_values [simp]: "i < 256 \<Longrightarrow> byte_values ! i = of_nat i"
  by (simp add: byte_values_def)

lemma unat_u8_less: "unat (v :: u8) < 256"
  using unsigned_less [where ?'a = nat, of v] by simp

lemma set_byte_values: "set byte_values = UNIV"
proof -
  have "v = of_nat (unat v)" for v :: u8 by simp
  then have "v \<in> of_nat ` {0..<256}" for v :: u8
    using unat_u8_less [of v] by (metis atLeastLessThan_iff image_eqI zero_le)
  then show ?thesis by (auto simp: byte_values_def)
qed

lemma length_move_to_front [simp]: "i < length xs \<Longrightarrow> length (move_to_front i xs) = length xs"
  by (simp add: move_to_front_def)

lemma set_move_to_front: "i < length xs \<Longrightarrow> set (move_to_front i xs) = set xs"
proof -
  assume "i < length xs"
  from id_take_nth_drop [OF this] have "set xs = set (take i xs @ xs ! i # drop (Suc i) xs)" by simp
  then show ?thesis by (auto simp: move_to_front_def)
qed

lemma nth_move_to_front_above: "i < j \<Longrightarrow> j < length xs \<Longrightarrow> move_to_front i xs ! j = xs ! j"
  by (cases j) (auto simp: move_to_front_def nth_append min_def)

lemma index_of_less: "x \<in> set xs \<Longrightarrow> index_of x xs < length xs"
  by (induction xs) (auto simp: index_of_def)

lemma nth_index_of: "x \<in> set xs \<Longrightarrow> xs ! index_of x xs = x"
  by (induction xs) (auto simp: index_of_def)

lemma mtf_decode_encode: "set ys \<subseteq> set xs \<Longrightarrow> mtf_decode (mtf_encode ys xs) xs = ys"
  by (induction ys arbitrary: xs) (simp_all add: nth_index_of set_move_to_front index_of_less)

lemma mtf_encode_less: "set ys \<subseteq> set xs \<Longrightarrow> i \<in> set (mtf_encode ys xs) \<Longrightarrow> i < length xs"
proof (induction ys arbitrary: xs)
  case (Cons y ys)
  from Cons.prems(1) have y: "index_of y xs < length xs" by (simp add: index_of_less)
  with Cons.prems have "i = index_of y xs \<or> i \<in> set (mtf_encode ys (move_to_front (index_of y xs) xs))" by simp
  with y Cons.prems(1) Cons.IH [of "move_to_front (index_of y xs) xs"] show ?case
    by (auto simp: set_move_to_front)
qed simp

subsection \<open>The transform of the decoder\<close>

lemma mtf_shift_at:
  "i < length mtf \<Longrightarrow> mtf_shift mtf i = Some (hd mtf # take i mtf @ drop (i + 1) mtf)"
proof (induction i arbitrary: mtf)
  case 0
  then show ?case by (cases mtf) auto
next
  case (Suc i)
  then have "mtf_shift mtf (Suc i) = mtf_shift (mtf[Suc i := mtf ! i]) i"
    by (simp add: slice_simps)
  also have "\<dots> = Some (hd (mtf[Suc i := mtf ! i]) # take i mtf @ mtf ! i # drop (i + 2) mtf)"
    using Suc by (simp add: drop_Suc_Cons Cons_nth_drop_Suc [symmetric] take_update_cancel)
  also have "hd (mtf[Suc i := mtf ! i]) = hd mtf" by (cases mtf) auto
  finally show ?case using Suc.prems by (simp add: take_Suc_conv_app_nth)
qed

text \<open>The table is the list of all bytes but for its first entries.\<close>

definition mtf_clean :: "u8 list \<Rightarrow> u32 \<Rightarrow> bool" where
  "mtf_clean mtf upper_bound \<longleftrightarrow> length mtf = 256 \<and> (\<forall>j < 256. unat upper_bound < j \<longrightarrow> mtf ! j = of_nat j)"

lemma mtf_clean_identity: "mtf_clean byte_values ub"
  by (simp add: mtf_clean_def)

lemma mtf_clean_refresh:
  assumes "mtf_clean mtf ub"
  shows "map of_nat [0..<unat ub + 1] @ drop (unat ub + 1) mtf = byte_values \<or> 256 \<le> unat ub"
proof (cases "unat ub < 256")
  case True
  have "map of_nat [0..<unat ub + 1] @ drop (unat ub + 1) mtf = byte_values"
  proof (rule nth_equalityI)
    show "length (map of_nat [0..<unat ub + 1] @ drop (unat ub + 1) mtf) = length byte_values"
      using assms True by (simp add: mtf_clean_def)
  next
    fix j assume "j < length (map of_nat [0..<unat ub + 1] @ drop (unat ub + 1) mtf)"
    then have "j < 256" using assms True by (simp add: mtf_clean_def)
    then show "(map of_nat [0..<unat ub + 1] @ drop (unat ub + 1) mtf) ! j = byte_values ! j"
      using assms by (auto simp: mtf_clean_def nth_append simp del: upt_Suc)
  qed
  then show ?thesis ..
qed simp

lemma shift_is_move_to_front:
  assumes "i < length mtf"
  shows "do { mtf' \<leftarrow> (if i \<le> 0 then put mtf 0 0 else mtf_shift mtf i); put mtf' 0 (mtf ! i) } = Some (move_to_front i mtf)"
proof (cases i)
  case 0
  with assms show ?thesis by (cases mtf) (auto simp: slice_simps move_to_front_def)
next
  case (Suc k)
  then show ?thesis using mtf_shift_at [OF assms] by (simp add: slice_simps move_to_front_def)
qed

lemma inverse_mtf_step:
  assumes "unat v < length mtf"
  shows "inverse_mtf_loop (v # vs) mtf ub = do {
     (vs, mtf', ub) \<leftarrow> inverse_mtf_loop vs (move_to_front (unat v) mtf) (ub OR ucast v);
     Some (mtf ! unat v # vs, mtf', ub) }"
proof -
  have "inverse_mtf_loop (v # vs) mtf ub = do {
     mtf' \<leftarrow> do { mtf' \<leftarrow> (if unat v \<le> 0 then put mtf 0 0 else mtf_shift mtf (unat v)); put mtf' 0 (mtf ! unat v) };
     (vs, mtf', ub) \<leftarrow> inverse_mtf_loop vs mtf' (ub OR ucast v);
     Some (mtf ! unat v # vs, mtf', ub) }"
    using assms by (simp add: get_Some Let_def)
  then show ?thesis by (simp only: shift_is_move_to_front [OF assms] bind.bind_lunit)
qed

lemma unat_or_le: "unat (a :: u32) \<le> unat (a OR b)" "unat b \<le> unat (a OR b)"
proof -
  have "a \<le> a OR b" for a b :: u32 by (simp add: word_le_def uint_or or_greater_eq)
  then have le: "unat a \<le> unat (a OR b)" for a b :: u32 by (simp add: word_le_nat_alt)
  show "unat a \<le> unat (a OR b)" by (rule le)
  show "unat b \<le> unat (a OR b)" using le [of b a] by (simp only: or.commute [of a b])
qed

lemma or_nat_less: "a < 2 ^ n \<Longrightarrow> b < 2 ^ n \<Longrightarrow> a OR b < 2 ^ n" for a b :: nat
proof -
  assume "a < 2 ^ n" "b < 2 ^ n"
  then have "take_bit n (a OR b) = a OR b" by (simp add: take_bit_nat_eq_self)
  then show ?thesis by (metis take_bit_nat_less_exp)
qed

lemma mtf_clean_step:
  assumes "mtf_clean mtf ub"
  shows "mtf_clean (move_to_front (unat (v :: u8)) mtf) (ub OR ucast v)"
proof -
  have v: "unat v < length mtf" using assms unat_u8_less [of v] by (simp add: mtf_clean_def)
  have "move_to_front (unat v) mtf ! j = of_nat j" if "j < 256" "unat (ub OR ucast v) < j" for j
  proof -
    have "unat ub < j" "unat v < j"
      using that(2) unat_or_le(1) [of ub "ucast v"] unat_or_le(2) [of "ucast v" ub] unat_ucast_u8 [of v]
      by linarith+
    then show ?thesis using assms that(1) by (simp add: nth_move_to_front_above mtf_clean_def)
  qed
  then show ?thesis using v assms by (simp add: mtf_clean_def)
qed

lemma inverse_mtf_loop_at:
  "mtf_clean mtf ub \<Longrightarrow> \<exists>mtf' ub'. inverse_mtf_loop vs mtf ub = Some (mtf_decode (map unat vs) mtf, mtf', ub') \<and>
     mtf_clean mtf' ub' \<and> (unat ub < 256 \<longrightarrow> unat ub' < 256)"
proof (induction vs arbitrary: mtf ub)
  case (Cons v vs)
  have v: "unat v < length mtf" using Cons.prems unat_u8_less [of v] by (simp add: mtf_clean_def)
  obtain mtf' ub' where r: "inverse_mtf_loop vs (move_to_front (unat v) mtf) (ub OR ucast v) =
      Some (mtf_decode (map unat vs) (move_to_front (unat v) mtf), mtf', ub')" "mtf_clean mtf' ub'"
      "unat (ub OR ucast v) < 256 \<longrightarrow> unat ub' < 256"
    using Cons.IH [OF mtf_clean_step [OF Cons.prems, of v]] by blast
  have "unat (ub OR ucast v) < 2 ^ 8" if "unat ub < 256"
    using that unat_u8_less [of v] by (simp only: unsigned_or_eq unat_ucast_u8) (rule or_nat_less; simp)
  with r have "unat ub < 256 \<longrightarrow> unat ub' < 256" by simp
  with r show ?case unfolding inverse_mtf_step [OF v] by simp
qed simp

lemma InverseMoveToFrontTransform_at:
  assumes "mtf_clean mtf ub" "unat ub < 256" "unat v_len \<le> length v"
  shows "\<exists>mtf' ub'. InverseMoveToFrontTransform v v_len mtf ub =
      Some (mtf_decode (map unat (take (unat v_len) v)) byte_values @ drop (unat v_len) v, mtf', ub') \<and>
    mtf_clean mtf' ub' \<and> unat ub' < 256"
proof -
  have s: "slice mtf 0 (unat ub + 1) = Some (take (unat ub + 1) mtf)"
    using assms(1,2) by (simp add: slice_def mtf_clean_def)
  have "map of_nat [0..<length (take (unat ub + 1) mtf)] @ drop (unat ub + 1) mtf = byte_values"
  proof -
    have "length (take (unat ub + 1) mtf) = unat ub + 1" using assms(1,2) by (simp add: mtf_clean_def)
    then show ?thesis using mtf_clean_refresh [OF assms(1)] assms(2) by (simp del: upt_Suc)
  qed
  moreover have "Suc (unat ub) \<le> length mtf" using assms(1,2) by (simp add: mtf_clean_def)
  ultimately show ?thesis
    using inverse_mtf_loop_at [OF mtf_clean_identity [of 0], of "take (unat v_len) v"] assms(3)
    by (auto simp: InverseMoveToFrontTransform_def s slice_def simp del: upt_Suc)
qed

text \<open>C22: The inverse move-to-front transform of a context map replaces the indices by the symbols of the
  reference decoder that starts from the list of all byte values, although it restores only the
  entries of the scratch table up to the bound the previous call left; the table it leaves is again
  one that the next call restores from the bound it returns.
\<close>

theorem InverseMoveToFrontTransform_correct:
  assumes "mtf_clean mtf upper_bound" "unat upper_bound < 256" "unat v_len \<le> length v"
  shows "\<exists>mtf' upper_bound'. InverseMoveToFrontTransform v v_len mtf upper_bound =
      Some (mtf_decode (map unat (take (unat v_len) v)) byte_values @ drop (unat v_len) v, mtf', upper_bound') \<and>
    mtf_clean mtf' upper_bound' \<and> unat upper_bound' < 256"
  using InverseMoveToFrontTransform_at [OF assms] .

theorem InverseMoveToFrontTransform_correct_witness:
  "\<exists>mtf' upper_bound'. InverseMoveToFrontTransform [1, 1, 0, 2, 1, 9] 5 (replicate 256 0) 255 =
      Some ([1, 0, 0, 2, 0, 9], mtf', upper_bound') \<and> mtf_clean mtf' upper_bound'"
proof -
  have "mtf_decode (map unat (take (unat (5 :: u32)) [1, 1, 0, 2, 1, 9 :: u8])) byte_values = [1, 0, 0, 2, 0]"
    by (simp add: move_to_front_def take_map drop_map byte_values_def upt_rec)
  moreover have "mtf_clean (replicate 256 0) 255" by (simp add: mtf_clean_def)
  ultimately show ?thesis
    using InverseMoveToFrontTransform_correct [of "replicate 256 0" 255 5 "[1, 1, 0, 2, 1, 9]"] by auto
qed

text \<open>C23: Decoding inverts encoding: for every list of bytes, the transform of its move-to-front indices is
  the list.
\<close>

theorem move_to_front_roundtrip:
  assumes "mtf_clean mtf upper_bound" "unat upper_bound < 256" "length items < 2 ^ 32"
  shows "\<exists>mtf' upper_bound'. InverseMoveToFrontTransform (map of_nat (mtf_encode items byte_values) @ rest)
      (of_nat (length items)) mtf upper_bound = Some (items @ rest, mtf', upper_bound')"
proof -
  let ?v = "map of_nat (mtf_encode items byte_values) :: u8 list"
  have "length (mtf_encode items xs) = length items" for xs by (induction items arbitrary: xs) auto
  then have len: "length ?v = length items" by simp
  have n: "unat (of_nat (length items) :: u32) = length items"
    using assms(3) by (simp add: unat_of_nat take_bit_nat_eq_self)
  have "unat (of_nat i :: u8) = i" if "i \<in> set (mtf_encode items byte_values)" for i
    using mtf_encode_less [OF _ that] by (simp add: set_byte_values unat_of_nat take_bit_nat_eq_self)
  then have "map (unat \<circ> (of_nat :: nat \<Rightarrow> u8)) (mtf_encode items byte_values) = mtf_encode items byte_values"
    by (simp add: map_idI)
  then have "map unat ?v = mtf_encode items byte_values" by simp
  then have "mtf_decode (map unat ?v) byte_values = items"
    by (simp only: mtf_decode_encode set_byte_values subset_UNIV)
  with InverseMoveToFrontTransform_at [OF assms(1,2), of "of_nat (length items)" "?v @ rest"]
  show ?thesis unfolding n using len by auto
qed

theorem move_to_front_roundtrip_witness:
  "\<exists>mtf' upper_bound'. InverseMoveToFrontTransform [7, 7, 1, 0, 2] 4 byte_values 255 = Some ([7, 6, 7, 7, 2], mtf', upper_bound')"
proof -
  have e: "mtf_encode [7, 6, 7, 7] byte_values = [7, 7, 1, 0]"
    by (simp add: move_to_front_def index_of_def byte_values_def upt_rec)
  from move_to_front_roundtrip [OF mtf_clean_identity, of 255 "[7, 6, 7, 7]" "[2]", unfolded e]
  show ?thesis by simp
qed

subsection \<open>The items of a context map\<close>

text \<open>
  The reference decoder of a context map works on the bits ahead. \<open>n\<close> items are to come; the pending
  code is the one of a run whose length is still to be read. It ends with all the items and the bits
  behind them, with the items found before the bits ran out, or with a run that is too long.
\<close>

datatype map_result =
    Map_done "u8 list" "bool list"
  | Map_more "u8 list" "u32 option" "bool list"
  | Map_error

fun items_before :: "u8 list \<Rightarrow> map_result \<Rightarrow> map_result" where
  "items_before xs (Map_done ys bs) = Map_done (xs @ ys) bs"
| "items_before xs (Map_more ys pending bs) = Map_more (xs @ ys) pending bs"
| "items_before xs Map_error = Map_error"

function map_items :: "HuffmanCode list \<Rightarrow> u32 \<Rightarrow> nat \<Rightarrow> u32 option \<Rightarrow> bool list \<Rightarrow> map_result" where
  "map_items table prefix 0 None bs = Map_done [] bs"
| "map_items table prefix (Suc n) None bs =
    (case symbol_at table bs of (v, l) \<Rightarrow>
      if length bs < l then Map_more [] None bs
      else if v = 0 then items_before [0] (map_items table prefix n None (drop l bs))
      else if prefix < ucast v
      then items_before [ucast (ucast v - prefix)] (map_items table prefix n None (drop l bs))
      else map_items table prefix (Suc n) (Some (ucast v)) (drop l bs))"
| "map_items table prefix n (Some c) bs =
    (if length bs < unat c then Map_more [] (Some c) bs
     else let run = 2 ^ unat c + unat (word_of_bits (take (unat c) bs) :: u32)
       in if n < run then Map_error
          else items_before (replicate run 0) (map_items table prefix (n - run) None (drop (unat c) bs)))"
  by pat_completeness auto
termination
proof (relation "measure (\<lambda>(table, prefix, n, pending, bs). 2 * n + (if pending = None then 1 else 0))", goal_cases)
  case (5 table prefix n c bs run)
  then have "0 < run" "run \<le> n" by simp_all
  then have "2 * (n - run) + 1 < 2 * n" by linarith
  with 5(2) show ?case by simp
qed auto

declare map_items.simps(3) [simp del]

lemma items_before_twice [simp]: "items_before xs (items_before ys r) = items_before (xs @ ys) r"
  by (cases r) simp_all

lemma items_before_Nil [simp]: "items_before [] r = r"
  by (cases r) simp_all

text \<open>What the loop of the decoder leaves behind in each case.\<close>

definition map_outcome ::
  "u32 \<Rightarrow> u8 list \<Rightarrow> nat \<Rightarrow> BrotliState \<Rightarrow> u8 list \<Rightarrow> map_result \<Rightarrow>
     (BrotliDecoderErrorCode option \<times> u8 list \<times> BrotliState) \<Rightarrow> bool" where
  "map_outcome map_size map0 i s input r out =
    (case r of
       Map_done items rest \<Rightarrow> \<exists>br. out = (None, take i map0 @ items @ drop (i + length items) map0, s\<lparr>s_br := br\<rparr>) \<and>
         i + length items = unat map_size \<and> br_at br input rest
     | Map_more items pending rest \<Rightarrow> \<exists>br. out = (Some BROTLI_DECODER_NEEDS_MORE_INPUT,
           take i map0 @ items @ drop (i + length items) map0,
           s\<lparr>s_br := br, s_code := (case pending of None \<Rightarrow> 0xFFFF | Some c \<Rightarrow> c),
             s_context_index := of_nat (i + length items)\<rparr>) \<and>
         i + length items \<le> unat map_size \<and> br_at br input rest \<and> br_avail_in br = 0
     | Map_error \<Rightarrow> \<exists>map' s'. out = (Some BROTLI_DECODER_ERROR_FORMAT_CONTEXT_MAP_REPEAT, map', s'))"

lemma zero_run_at:
  assumes "0 < unat reps" "unat i + unat reps \<le> length map0" "unat i + unat reps < 2 ^ 32"
  shows "zero_run map0 i reps = Some (take (unat i) map0 @ replicate (unat reps) 0 @ drop (unat i + unat reps) map0, i + reps)"
  using assms
proof (induction "unat reps" arbitrary: map0 i reps)
  case (Suc k)
  have "reps \<noteq> 0" using Suc(2) by auto
  then have r: "unat (reps - 1) = k" using Suc(2) by (simp add: unat_minus_one)
  have i: "unat (i + 1) = Suc (unat i)" using Suc(2,5) by (simp add: unat_word_ariths)
  have p: "put map0 (unat i) 0 = Some (map0[unat i := 0])" using Suc(2,4) by (simp add: slice_simps)
  show ?case
  proof (cases "k = 0")
    case True
    then have "reps - 1 = 0" using r by (simp add: unat_eq_0)
    then have "reps = 1" by simp
    then show ?thesis using Suc(4) by (subst zero_run.simps) (simp add: p upd_conv_take_nth_drop)
  next
    case False
    then have ne: "reps - 1 \<noteq> 0" using r by (metis unat_0)
    have "zero_run (map0[unat i := 0]) (i + 1) (reps - 1) =
      Some (take (unat (i + 1)) (map0[unat i := 0]) @ replicate k 0 @
        drop (unat (i + 1) + k) (map0[unat i := 0]), i + 1 + (reps - 1))"
      using Suc(1) [of "reps - 1" "i + 1" "map0[unat i := 0]"] Suc(2,4,5) False r i by simp
    moreover have "take (unat (i + 1)) (map0[unat i := 0]) = take (unat i) map0 @ [0]"
      using Suc(2,4) i by (simp add: take_Suc_conv_app_nth)
    moreover have "drop (unat (i + 1) + k) (map0[unat i := 0]) = drop (unat i + Suc k) map0"
      using i by simp
    ultimately show ?thesis using ne Suc(2) [symmetric] by (subst zero_run.simps) (simp add: p)
  qed
qed simp

lemma map_outcome_before:
  assumes out: "map_outcome map_size (take i map0 @ xs @ drop (i + length xs) map0) (i + length xs) (s\<lparr>s_br := br\<rparr>) input r out"
    and i: "i + length xs \<le> length map0"
  shows "map_outcome map_size map0 i s input (items_before xs r) out"
proof -
  let ?map1 = "take i map0 @ xs @ drop (i + length xs) map0"
  have "take (i + length xs) ?map1 = take i map0 @ xs" using i by simp
  moreover have "drop (i + length xs + k) ?map1 = drop (i + (length xs + k)) map0" for k
    using i by (simp add: ac_simps)
  ultimately show ?thesis
    using out by (cases r) (auto simp: map_outcome_def add.assoc)
qed

lemma run_value:
  assumes "unat c \<le> 16"
  shows "unat (word_of_bits (take (unat c) bs) + shl32 1 c :: u32) =
      2 ^ unat c + unat (word_of_bits (take (unat c) bs) :: u32)"
    and "2 ^ unat c + unat (word_of_bits (take (unat c) bs) :: u32) < 262144"
proof -
  have w: "unat (word_of_bits (take (unat c) bs) :: u32) < 2 ^ unat c"
    using assms by (intro unat_word_of_bits_less) auto
  have p: "(2 :: nat) ^ unat c \<le> 2 ^ 16" using assms by (rule power_increasing) simp
  have "shl32 1 c = push_bit (unat c) 1" using assms by simp
  then have s: "unat (shl32 1 c) = 2 ^ unat c"
    using p unat_of_nat_u32 [of "2 ^ unat c"] by simp
  show "unat (word_of_bits (take (unat c) bs) + shl32 1 c :: u32) =
      2 ^ unat c + unat (word_of_bits (take (unat c) bs) :: u32)"
    using w p by (simp only: unat_word_ariths s) simp
  show "2 ^ unat c + unat (word_of_bits (take (unat c) bs) :: u32) < 262144"
    using w p by simp
qed

text \<open>The loop continues after the code of a run as if the code had been read before.\<close>

lemma context_map_loop_run:
  assumes "SafeReadSymbol (s_context_map_table s) (s_br s) code input = Some (True, br, v)"
    and "idx < map_size" "v \<noteq> 0" "v \<le> s_max_run_length_prefix s"
  shows "context_map_loop map_size map0 idx code False s input =
    context_map_loop map_size map0 idx v True (s\<lparr>s_br := br\<rparr>) input"
proof -
  have "\<not> s_max_run_length_prefix s < v" using assms(4) by simp
  with assms(1-3) show ?thesis by (subst (1 2) context_map_loop.simps) (simp add: Let_def)
qed

lemma context_map_loop_at:
  assumes "huffman_table table" "s_context_map_table s = table" "s_max_run_length_prefix s = prefix" "unat prefix \<le> 16"
    and "unat map_size \<le> length map0" "unat map_size < 2 ^ 31" "unat idx + n = unat map_size"
    and "br_at (s_br s) input bs"
    and "case pending of None \<Rightarrow> \<not> rle | Some c \<Rightarrow> rle \<and> code = c \<and> unat c \<le> 16"
  shows "\<exists>out. context_map_loop map_size map0 idx code rle s input = Some out \<and>
    map_outcome map_size map0 (unat idx) s input (map_items table prefix n pending bs) out"
  using assms
proof (induction table prefix n pending bs arbitrary: map0 idx code rle s rule: map_items.induct)
  case (1 table prefix bs)
  then have "idx = map_size" by (simp add: word_unat_eq_iff)
  with 1 show ?case by (subst context_map_loop.simps) (auto simp: map_outcome_def intro: exI [of _ "s_br s"])
next
  case (2 table prefix n bs)
  obtain v l where v: "symbol_at table bs = (v, l)" by fastforce
  obtain br where r: "SafeReadSymbol table (s_br s) code input =
      Some (if l \<le> length bs then (True, br, ucast v) else (False, br, code))"
    "br_at br input (if l \<le> length bs then drop l bs else bs)" "length bs < l \<longrightarrow> br_avail_in br = 0"
    using huffman_table.SafeReadSymbol_at [OF 2(4) 2(11), of code, unfolded v fst_conv snd_conv] by blast
  have less: "idx < map_size" "unat idx < length map0" using 2(8,10) by (simp_all add: word_less_nat_alt)
  have suc: "unat (idx + 1) = unat idx + 1" using 2(9,10) by (simp add: unat_word_ariths)
  show ?case
  proof (cases "length bs < l")
    case True
    with r v less 2 show ?thesis
      by (subst context_map_loop.simps) (auto simp: map_outcome_def intro: exI [of _ br])
  next
    case False
    then have ok: "SafeReadSymbol table (s_br s) code input = Some (True, br, ucast v)" "br_at br input (drop l bs)"
      using r by simp_all
    have stored: "\<exists>out. context_map_loop map_size (map0[unat idx := w]) (idx + 1) (ucast v) False (s\<lparr>s_br := br\<rparr>) input = Some out \<and>
        map_outcome map_size map0 (unat idx) s input (items_before [w] (map_items table prefix n None (drop l bs))) out"
      if ih: "\<exists>out. context_map_loop map_size (map0[unat idx := w]) (idx + 1) (ucast v) False (s\<lparr>s_br := br\<rparr>) input = Some out \<and>
        map_outcome map_size (map0[unat idx := w]) (unat (idx + 1)) (s\<lparr>s_br := br\<rparr>) input (map_items table prefix n None (drop l bs)) out"
      for w
    proof -
      have "map0[unat idx := w] = take (unat idx) map0 @ [w] @ drop (unat idx + length [w]) map0"
        using less(2) by (simp add: upd_conv_take_nth_drop)
      then show ?thesis using ih map_outcome_before [of map_size "unat idx" map0 "[w]" br s input] less(2)
        by (auto simp: suc)
    qed
    let ?s = "s\<lparr>s_br := br\<rparr>"
    have table: "s_context_map_table s = table" by (rule 2(5))
    have prefix: "s_max_run_length_prefix s = prefix" by (rule 2(6))
    have len: "unat map_size \<le> length (map0[unat idx := w])" for w using 2(8) by simp
    have sum: "unat (idx + 1) + n = unat map_size" using 2(10) suc by simp
    note IH = 2
    have zero: "(ucast v :: u32) = 0 \<longleftrightarrow> v = 0" by (simp add: word_unat_eq_iff unat_ucast_u16)
    consider "v = 0" | "v \<noteq> 0" "prefix < ucast v" | "v \<noteq> 0" "\<not> prefix < ucast v" by blast
    then show ?thesis
    proof cases
      case 1
      have "context_map_loop map_size map0 idx code rle s input =
          context_map_loop map_size (map0[unat idx := 0]) (idx + 1) (ucast v) False ?s input"
        using 1 ok(1) less IH(12) table
        by (subst context_map_loop.simps) (simp add: put_Some)
      moreover have "map_items table prefix (Suc n) None bs = items_before [0] (map_items table prefix n None (drop l bs))"
        using 1 False v by simp
      moreover have "\<exists>out. context_map_loop map_size (map0[unat idx := 0]) (idx + 1) (ucast v) False ?s input = Some out \<and>
        map_outcome map_size (map0[unat idx := 0]) (unat (idx + 1)) ?s input (map_items table prefix n None (drop l bs)) out"
        by (rule IH(1) [OF v [symmetric] False 1 IH(4)]) (use table prefix len sum ok(2) IH(7,9) in simp_all)
      ultimately show ?thesis using stored by simp
    next
      case 2
      have "context_map_loop map_size map0 idx code rle s input =
          context_map_loop map_size (map0[unat idx := ucast (ucast v - prefix)]) (idx + 1) (ucast v) False ?s input"
        using 2 ok(1) less IH(12) table prefix
        by (subst context_map_loop.simps) (simp add: put_Some Let_def zero)
      moreover have "map_items table prefix (Suc n) None bs =
          items_before [ucast (ucast v - prefix)] (map_items table prefix n None (drop l bs))"
        using 2 False v by simp
      moreover have "\<exists>out. context_map_loop map_size (map0[unat idx := ucast (ucast v - prefix)]) (idx + 1) (ucast v) False ?s input = Some out \<and>
        map_outcome map_size (map0[unat idx := ucast (ucast v - prefix)]) (unat (idx + 1)) ?s input
          (map_items table prefix n None (drop l bs)) out"
        by (rule IH(2) [OF v [symmetric] False 2 IH(4)]) (use table prefix len sum ok(2) IH(7,9) in simp_all)
      ultimately show ?thesis using stored by simp
    next
      case 3
      have c: "(ucast v :: u32) \<noteq> 0" "unat (ucast v :: u32) \<le> 16"
        using 3 IH(7) by (auto simp: word_le_nat_alt zero unat_ucast_u16 not_less)
      have "context_map_loop map_size map0 idx code rle s input =
          context_map_loop map_size map0 idx (ucast v) True ?s input"
        using context_map_loop_run [of s code input br "ucast v" idx map_size map0] ok(1) less(1) c 3(2) IH(12) table prefix
        by (simp add: not_less)
      moreover have "map_items table prefix (Suc n) None bs = map_items table prefix (Suc n) (Some (ucast v)) (drop l bs)"
        using 3 False v by simp
      moreover have "\<exists>out. context_map_loop map_size map0 idx (ucast v) True ?s input = Some out \<and>
        map_outcome map_size map0 (unat idx) ?s input (map_items table prefix (Suc n) (Some (ucast v)) (drop l bs)) out"
        by (rule IH(3) [OF v [symmetric] False 3 IH(4)]) (use table prefix IH(7,8,9,10) c ok(2) in simp_all)
      ultimately show ?thesis
        using map_outcome_before [of map_size "unat idx" map0 "[]" br s input] less(2) by auto
    qed
  qed
next
  case (3 table prefix n c bs)
  then have rle: "rle" "code = c" and c: "unat c \<le> 16" by simp_all
  let ?run = "2 ^ unat c + unat (word_of_bits (take (unat c) bs) :: u32)"
  let ?reps = "word_of_bits (take (unat c) bs) + shl32 1 c :: u32"
  obtain br where r: "BrotliSafeReadBits (s_br s) c 0 input =
      Some (if unat c \<le> length bs then (True, word_of_bits (take (unat c) bs), br) else (False, 0, br))"
    "br_at br input (if unat c \<le> length bs then drop (unat c) bs else bs)" "length bs < unat c \<longrightarrow> br_avail_in br = 0"
    using SafeReadBits_at [OF 3(9), of c 0] c by auto
  show ?case
  proof (cases "length bs < unat c")
    case True
    then have "read_bits s c input = Some (False, 0, s\<lparr>s_br := br\<rparr>)" using r(1) by (simp add: read_bits_def)
    with True rle r show ?thesis using 3(8)
      by (subst context_map_loop.simps) (auto simp: map_outcome_def map_items.simps(3) intro!: exI [of _ br])
  next
    case False
    then have ok: "read_bits s c input = Some (True, word_of_bits (take (unat c) bs), s\<lparr>s_br := br\<rparr>)"
      "br_at br input (drop (unat c) bs)" using r by (simp_all add: read_bits_def)
    note run = run_value [OF c, of bs]
    have "unat map_size < 2147483648" using 3(7) by simp
    then have "unat idx + ?run < 4294967296" using run(2) 3(8) by linarith
    then have total: "unat (idx + ?reps) = unat idx + ?run"
      by (subst unat_word_ariths(1), simp only: run(1)) simp
    then have exceeds: "map_size < idx + ?reps \<longleftrightarrow> n < ?run" using 3(8) unfolding word_less_nat_alt by linarith
    show ?thesis
    proof (cases "n < ?run")
      case True
      then show ?thesis using rle ok(1) exceeds False
        by (subst context_map_loop.simps) (simp add: map_outcome_def map_items.simps(3) Let_def)
    next
      case fits: False
      let ?map1 = "take (unat idx) map0 @ replicate ?run 0 @ drop (unat idx + length (replicate ?run (0 :: u8))) map0"
      have "0 < ?run" by simp
      have zeros: "zero_run map0 idx ?reps = Some (?map1, idx + ?reps)"
        using zero_run_at [of ?reps idx map0] run fits 3(6,7,8) by (simp add: not_less)
      have "\<exists>out. context_map_loop map_size ?map1 (idx + ?reps) c False (s\<lparr>s_br := br\<rparr>) input = Some out \<and>
        map_outcome map_size ?map1 (unat (idx + ?reps)) (s\<lparr>s_br := br\<rparr>) input
          (map_items table prefix (n - ?run) None (drop (unat c) bs)) out"
        by (rule 3(1) [OF False refl fits 3(2)]) (use 3(3,4,5,6,7,8) total fits ok(2) in simp_all)
      then obtain out where out: "context_map_loop map_size ?map1 (idx + ?reps) c False (s\<lparr>s_br := br\<rparr>) input = Some out"
        "map_outcome map_size map0 (unat idx) s input
          (items_before (replicate ?run 0) (map_items table prefix (n - ?run) None (drop (unat c) bs))) out"
        using map_outcome_before [of map_size "unat idx" map0 "replicate ?run 0" br s input] fits 3(6,8)
        by (auto simp: total)
      have "context_map_loop map_size map0 idx code rle s input = Some out"
        using rle ok(1) exceeds fits zeros out(1)
        by (subst context_map_loop.simps) (simp add: Let_def)
      moreover have "map_items table prefix n (Some c) bs =
          items_before (replicate ?run 0) (map_items table prefix (n - ?run) None (drop (unat c) bs))"
        using False fits by (simp add: map_items.simps(3) Let_def)
      ultimately show ?thesis using out(2) by metis
    qed
  qed
qed

text \<open>A symbol that is complete is not changed by the bits that follow.\<close>

lemma symbol_at_append:
  assumes "huffman_table table" "snd (symbol_at table bs) \<le> length bs"
  shows "symbol_at table (bs @ ext) = symbol_at table bs"
proof -
  let ?x = "word_of_bits (take 15 bs) :: u32" and ?y = "word_of_bits (take 15 (bs @ ext)) :: u32"
  have "take_bit (snd (lookup table ?x)) ?y = take_bit (snd (lookup table ?x)) ?x"
    using assms(2) by (auto simp: bit_eq_iff bit_take_bit_iff bit_word_of_bits symbol_at_def nth_append)
  then show ?thesis unfolding symbol_at_def by (rule huffman_table.prefix_code [OF assms(1)])
qed

lemma map_items_more:
  assumes "huffman_table table" "map_items table prefix n pending bs = Map_more items p rest"
  shows "map_items table prefix n pending (bs @ ext) =
    items_before items (map_items table prefix (n - length items) p (rest @ ext))"
  using assms
proof (induction table prefix n pending bs arbitrary: items rule: map_items.induct)
  case (1 table prefix bs)
  then show ?case by simp
next
  case (2 table prefix n bs)
  obtain v l where v: "symbol_at table bs = (v, l)" by fastforce
  show ?case
  proof (cases "length bs < l")
    case True
    with 2(5) v show ?thesis by simp
  next
    case False
    have a: "symbol_at table (bs @ ext) = (v, l)" using symbol_at_append [OF 2(4), of bs ext] v False by simp
    have step: "items_before [w] (map_items table prefix n None (drop l (bs @ ext))) =
        items_before items (map_items table prefix (Suc n - length items) p (rest @ ext))"
      if m: "items_before [w] (map_items table prefix n None (drop l bs)) = Map_more items p rest"
        and ih: "\<And>items. map_items table prefix n None (drop l bs) = Map_more items p rest \<Longrightarrow>
          map_items table prefix n None (drop l bs @ ext) = items_before items (map_items table prefix (n - length items) p (rest @ ext))" for w
    proof -
      obtain ys where "map_items table prefix n None (drop l bs) = Map_more ys p rest" "items = w # ys"
        using m by (cases "map_items table prefix n None (drop l bs)") auto
      with ih show ?thesis using False by simp
    qed
    note IH = 2
    consider "v = 0" | "v \<noteq> 0" "prefix < ucast v" | "v \<noteq> 0" "\<not> prefix < ucast v" by blast
    then show ?thesis
    proof cases
      case 1
      from step [OF _ IH(1) [OF v [symmetric] False 1 IH(4)], of 0] IH(5) show ?thesis
        using 1 a v False by simp
    next
      case 2
      from step [OF _ IH(2) [OF v [symmetric] False 2 IH(4)], of "ucast (ucast v - prefix)"] IH(5) show ?thesis
        using 2 a v False by simp
    next
      case 3
      from IH(3) [OF v [symmetric] False 3 IH(4)] IH(5) show ?thesis
        using 3 a v False by simp
    qed
  qed
next
  case (3 table prefix n c bs)
  show ?case
  proof (cases "length bs < unat c")
    case True
    with 3(3) show ?thesis by (auto simp: map_items.simps(3))
  next
    case False
    let ?run = "2 ^ unat c + unat (word_of_bits (take (unat c) bs) :: u32)"
    have fits: "\<not> n < ?run" using 3(3) False by (auto simp: map_items.simps(3) Let_def)
    then obtain ys where ys: "map_items table prefix (n - ?run) None (drop (unat c) bs) = Map_more ys p rest"
      "items = replicate ?run 0 @ ys"
      using 3(3) False
      by (cases "map_items table prefix (n - ?run) None (drop (unat c) bs)") (auto simp: map_items.simps(3) Let_def)
    have "map_items table prefix n (Some c) (bs @ ext) =
        items_before (replicate ?run 0) (map_items table prefix (n - ?run) None (drop (unat c) bs @ ext))"
      using False fits by (simp add: map_items.simps(3) Let_def)
    also have "\<dots> = items_before items (map_items table prefix (n - ?run - length ys) p (rest @ ext))"
      using 3(1) [OF False refl fits 3(2) ys(1)] ys(2) by simp
    finally show ?thesis using ys(2) by simp
  qed
qed

lemma map_items_pending:
  assumes "map_items table prefix n pending bs = Map_more items p rest" "\<And>c. pending = Some c \<Longrightarrow> c \<le> prefix"
  shows "p = Some c \<Longrightarrow> c \<le> prefix"
  using assms
proof (induction table prefix n pending bs arbitrary: items rule: map_items.induct)
  case (1 table prefix bs)
  then show ?case by simp
next
  case (2 table prefix n bs)
  obtain v l where v: "symbol_at table bs = (v, l)" by fastforce
  have step: "\<exists>ys. map_items table prefix n None (drop l bs) = Map_more ys p rest"
    if "items_before [w] (map_items table prefix n None (drop l bs)) = Map_more items p rest" for w
    using that by (cases "map_items table prefix n None (drop l bs)") auto
  note IH = 2
  consider "length bs < l" | "\<not> length bs < l" "v = 0" | "\<not> length bs < l" "v \<noteq> 0" "prefix < ucast v"
    | "\<not> length bs < l" "v \<noteq> 0" "\<not> prefix < ucast v" by blast
  then show ?case
  proof cases
    case 1
    then show ?thesis using IH(4,5) v by simp
  next
    case 2
    then show ?thesis using IH(1) [OF v [symmetric] 2 IH(4)] IH(5) step [of 0] v by auto
  next
    case 3
    then show ?thesis
      using IH(2) [OF v [symmetric] 3 IH(4)] IH(5) step [of "ucast (ucast v - prefix)"] v by auto
  next
    case 4
    then show ?thesis using IH(3) [OF v [symmetric] 4 IH(4)] IH(5) v by auto
  qed
next
  case (3 table prefix n c' bs)
  let ?run = "2 ^ unat c' + unat (word_of_bits (take (unat c') bs) :: u32)"
  show ?case
  proof (cases "length bs < unat c' \<or> n < ?run")
    case True
    then show ?thesis using 3(2,3,4) by (auto simp: map_items.simps(3) Let_def split: if_splits)
  next
    case False
    then obtain ys where "map_items table prefix (n - ?run) None (drop (unat c') bs) = Map_more ys p rest"
      using 3(3) by (cases "map_items table prefix (n - ?run) None (drop (unat c') bs)") (auto simp: map_items.simps(3) Let_def)
    then show ?thesis using 3(1) [of ?run ys] 3(2) False by auto
  qed
qed

subsection \<open>Encoding\<close>

text \<open>
  An encoder's view: a zero, a value above zero, or a run of \<open>2 ^ c + extra\<close> zeros. The symbol of an
  item is looked up in the canonical code.
\<close>

datatype map_token = Zero_token | Value_token u8 | Run_token nat nat

fun token_items :: "map_token \<Rightarrow> u8 list" where
  "token_items Zero_token = [0]"
| "token_items (Value_token v) = [v]"
| "token_items (Run_token c extra) = replicate (2 ^ c + extra) 0"

fun token_symbol :: "nat \<Rightarrow> map_token \<Rightarrow> nat" where
  "token_symbol prefix Zero_token = 0"
| "token_symbol prefix (Value_token v) = unat v + prefix"
| "token_symbol prefix (Run_token c extra) = c"

fun token_extra :: "map_token \<Rightarrow> bool list" where
  "token_extra (Run_token c extra) = bits_of_word c (of_nat extra :: u32)"
| "token_extra _ = []"

fun token_ok :: "nat \<Rightarrow> map_token \<Rightarrow> bool" where
  "token_ok prefix Zero_token = True"
| "token_ok prefix (Value_token v) = (v \<noteq> 0)"
| "token_ok prefix (Run_token c extra) = (1 \<le> c \<and> c \<le> prefix \<and> extra < 2 ^ c)"

definition symbol_index :: "code \<Rightarrow> nat \<Rightarrow> nat" where
  "symbol_index code v = length (takeWhile (\<lambda>(s, l). unat s \<noteq> v) code)"

definition token_bits :: "code \<Rightarrow> nat \<Rightarrow> map_token \<Rightarrow> bool list" where
  "token_bits code prefix t = codeword code (symbol_index code (token_symbol prefix t)) @ token_extra t"

lemma symbol_index_less: "v \<in> unat ` fst ` set code \<Longrightarrow> symbol_index code v < length code"
  unfolding symbol_index_def by (induction code) auto

lemma nth_symbol_index: "v \<in> unat ` fst ` set code \<Longrightarrow> unat (fst (code ! symbol_index code v)) = v"
  unfolding symbol_index_def by (induction code) auto

lemma symbol_at_token:
  assumes "decodes table code" "v \<in> unat ` fst ` set code"
  shows "\<exists>s. symbol_at table (codeword code (symbol_index code v) @ rest) =
      (s, length (codeword code (symbol_index code v))) \<and> unat s = v"
  using assms symbol_at_decodes [OF assms(1)] canonical_codeword [OF symbol_index_less [OF assms(2)]]
    nth_symbol_index [OF assms(2)]
  by (intro exI [of _ "fst (code ! symbol_index code v)"]) (simp add: decodes_def)

lemma word_of_bits_of_word: "word_of_bits (bits_of_word c (w :: u32)) = (take_bit c w :: u32)"
  by (auto simp: bit_eq_iff bit_word_of_bits bits_of_word_def bit_take_bit_iff)

lemma map_items_token:
  assumes d: "decodes table code" and t: "token_ok prefix t" "token_symbol prefix t \<in> unat ` fst ` set code"
    and p: "prefix \<le> 16" and n: "length (token_items t) \<le> n"
  shows "map_items table (of_nat prefix) n None (token_bits code prefix t @ rest) =
    items_before (token_items t) (map_items table (of_nat prefix) (n - length (token_items t)) None rest)"
proof -
  obtain v where v: "symbol_at table (token_bits code prefix t @ rest) =
      (v, length (codeword code (symbol_index code (token_symbol prefix t))))" "unat v = token_symbol prefix t"
    using symbol_at_token [OF d t(2), of "token_extra t @ rest"] by (auto simp: token_bits_def)
  have pp: "unat (of_nat prefix :: u32) = prefix" using p by (intro unat_of_nat_u32) simp
  have u: "unat (ucast v :: u32) = token_symbol prefix t" using v(2) by (simp add: unat_ucast_u16)
  have zero: "v = 0 \<longleftrightarrow> token_symbol prefix t = 0" using v(2) by (simp add: word_unat_eq_iff)
  have above: "(of_nat prefix :: u32) < ucast v \<longleftrightarrow> prefix < token_symbol prefix t"
    by (simp only: word_less_nat_alt pp u)
  have "length (token_items t) \<noteq> 0" by (cases t) auto
  with n obtain m where m: "n = Suc m" by (cases n) auto
  show ?thesis
  proof (cases t)
    case Zero_token
    then show ?thesis using v m zero by (simp add: token_bits_def)
  next
    case (Value_token w)
    have "0 < unat w" using t(1) Value_token by (simp add: unat_gt_0)
    moreover have "(ucast (ucast v - of_nat prefix :: u32) :: u8) = w"
    proof -
      have "(of_nat prefix :: u32) \<le> ucast v" using u pp Value_token by (simp add: word_le_nat_alt)
      then have "unat (ucast v - of_nat prefix :: u32) = unat w" using u pp Value_token by (simp add: unat_sub)
      moreover have "unat w < 2 ^ 8" using unsigned_less [where ?'a = nat, of w] by simp
      ultimately show ?thesis by (simp add: word_unat_eq_iff unsigned_ucast_eq take_bit_nat_eq_self)
    qed
    ultimately show ?thesis using v m zero above Value_token by (simp add: token_bits_def)
  next
    case (Run_token c extra)
    have c: "1 \<le> c" "c \<le> prefix" "extra < 2 ^ c" using t(1) Run_token by simp_all
    have uc: "unat (ucast v :: u32) = c" using u Run_token by simp
    have "(2 :: nat) ^ c \<le> 2 ^ 16" using c(2) p by (intro power_increasing) simp_all
    then have "extra < 2 ^ 32" using c(3) by simp
    then have "unat (take_bit c (of_nat extra :: u32)) = extra"
      using c(3) by (simp add: unsigned_take_bit_eq unat_of_nat_u32 take_bit_nat_eq_self)
    then have extra: "unat (word_of_bits (take c (bits_of_word c (of_nat extra :: u32) @ rest)) :: u32) = extra"
      by (simp add: word_of_bits_of_word)
    have "map_items table (of_nat prefix) n None (token_bits code prefix t @ rest) =
        map_items table (of_nat prefix) n (Some (ucast v)) (token_extra t @ rest)"
      using v m zero above Run_token c by (simp add: token_bits_def)
    also have "\<dots> = items_before (token_items t) (map_items table (of_nat prefix) (n - length (token_items t)) None rest)"
      using extra n Run_token uc by (simp add: map_items.simps(3) Let_def)
    finally show ?thesis .
  qed
qed

lemma map_items_tokens:
  assumes d: "decodes table code" and p: "prefix \<le> 16"
    and "\<forall>t \<in> set ts. token_ok prefix t \<and> token_symbol prefix t \<in> unat ` fst ` set code"
    and "length (concat (map token_items ts)) = n"
  shows "map_items table (of_nat prefix) n None (concat (map (token_bits code prefix) ts) @ rest) =
    Map_done (concat (map token_items ts)) rest"
  using assms(3,4)
proof (induction ts arbitrary: n)
  case (Cons t ts)
  moreover from Cons.prems have "n - length (token_items t) = length (concat (map token_items ts))" by simp
  ultimately show ?case using map_items_token [OF d _ _ p, of t n "concat (map (token_bits code prefix) ts) @ rest"] by simp
qed simp

subsection \<open>Decoding a context map\<close>

text \<open>The state keeps the code of an interrupted run in \<open>code\<close>; 0xFFFF stands for none.\<close>

definition pending_code :: "u32 \<Rightarrow> u32 option" where
  "pending_code code = (if code = 0xFFFF then None else Some code)"

definition map_loop_ok :: "u32 \<Rightarrow> u8 list \<Rightarrow> u32 \<Rightarrow> u32 \<Rightarrow> BrotliState \<Rightarrow> bool" where
  "map_loop_ok map_size context_map idx code s \<longleftrightarrow>
    unat (s_max_run_length_prefix s) \<le> 16 \<and> (code = 0xFFFF \<or> code \<le> s_max_run_length_prefix s) \<and>
    unat map_size \<le> length context_map \<and> unat map_size < 2 ^ 31 \<and> idx \<le> map_size"

lemma context_map_loop_items:
  assumes "huffman_table (s_context_map_table s)" "map_loop_ok map_size map0 idx code s" "br_at (s_br s) input bs"
  shows "\<exists>out. context_map_loop map_size map0 idx code (code \<noteq> 0xFFFF) s input = Some out \<and>
    map_outcome map_size map0 (unat idx) s input (map_items (s_context_map_table s) (s_max_run_length_prefix s)
      (unat map_size - unat idx) (pending_code code) bs) out"
proof (rule context_map_loop_at)
  show "unat idx + (unat map_size - unat idx) = unat map_size"
    using assms(2) by (simp add: map_loop_ok_def word_le_nat_alt)
  have "code \<noteq> 0xFFFF \<Longrightarrow> unat code \<le> 16" using assms(2) by (simp add: map_loop_ok_def word_le_nat_alt)
  then show "case pending_code code of None \<Rightarrow> \<not> (code \<noteq> 0xFFFF) | Some c \<Rightarrow> code \<noteq> 0xFFFF \<and> code = c \<and> unat c \<le> 16"
    by (simp add: pending_code_def)
qed (use assms in \<open>simp_all add: map_loop_ok_def\<close>)

text \<open>C20: The loop that decodes a context map always returns, without a panic and with the outcome of the
  reference decoder on the bits ahead: all the items, or, when the input ends early, the items up to
  there with the index and the pending run code saved in the state, or the error for a run of zeros
  that overshoots the map.
\<close>

theorem context_map_loop_correct:
  assumes "huffman_table (s_context_map_table s)" "map_loop_ok map_size context_map idx code s"
    and "br_ok (s_br s) input"
  shows "\<exists>out. context_map_loop map_size context_map idx code (code \<noteq> 0xFFFF) s input = Some out \<and>
    map_outcome map_size context_map (unat idx) s input (map_items (s_context_map_table s) (s_max_run_length_prefix s)
      (unat map_size - unat idx) (pending_code code) (stream (s_br s) input)) out"
  using context_map_loop_items [OF assms(1,2)] assms(3) by (simp add: br_at_def)

text \<open>A table of four symbols, with codes of two bits each, and runs of two or three zeros.\<close>

definition map_state :: "BrotliBitReader \<Rightarrow> BrotliState" where
  "map_state br = (sample_state br)\<lparr>s_max_run_length_prefix := 1, s_context_map_table := simple_huffman_table 3 0 1 2 3\<rparr>"

lemma map_state_simps [simp]:
  "s_br (map_state br) = br" "s_max_run_length_prefix (map_state br) = 1"
  "s_context_map_table (map_state br) = simple_huffman_table 3 0 1 2 3"
  by (simp_all add: map_state_def sample_state_def)

lemma map_state_code: "decodes (simple_huffman_table 3 0 1 2 3) [(0, 2), (1, 2), (2, 2), (3, 2)]"
  using simple_huffman_table_decodes [of 3 0 1 2 3] by (simp add: simple_code_def)

lemma map_state_table: "huffman_table (simple_huffman_table 3 0 1 2 3)"
  by (rule decodes_huffman_table [OF map_state_code])

definition map_sample :: "map_token list" where
  "map_sample = [Zero_token, Value_token 2, Run_token 1 1]"

lemma map_sample_bits:
  "concat (map (token_bits [(0, 2), (1, 2), (2, 2), (3, 2)] 1) map_sample) = [False, False, True, True, False, True, True]"
  by (simp add: map_sample_def token_bits_def symbol_index_def codeword_def bits_of_word_def upt_rec bit_iff_odd)

lemma map_sample_ok:
  "concat (map token_items map_sample) = [0, 2, 0, 0, 0]"
  "\<forall>t \<in> set map_sample. token_ok 1 t \<and> token_symbol 1 t \<in> unat ` fst ` set [(0, 2), (1, 2), (2, 2), (3 :: u16, 2 :: nat)]"
  by (simp add: map_sample_def numeral_2_eq_2 numeral_3_eq_3) (simp add: map_sample_def)

lemma map_sample_items:
  "map_items (simple_huffman_table 3 0 1 2 3) 1 5 None ([False, False, True, True, False, True, True] @ rest) =
    Map_done [0, 2, 0, 0, 0] rest"
  using map_items_tokens [OF map_state_code _ map_sample_ok(2), of 5 rest] map_sample_ok(1) map_sample_bits by simp

lemma map_sample_cut:
  "map_items (simple_huffman_table 3 0 1 2 3) 1 5 None [False, False, True, True] = Map_more [0, 2] None []"
proof -
  let ?table = "simple_huffman_table 3 0 1 2 3"
  have "word_of_bits [False, False, True, True] = (12 :: u32)" "word_of_bits [True, True] = (3 :: u32)"
    "word_of_bits [] = (0 :: u32)" by code_simp+
  moreover have "rev_bits 15 12 = 6144" "rev_bits 15 3 = 24576" "rev_bits 15 0 = 0"
    by (simp_all add: rev_bits_def upt_rec bit_iff_odd)
  ultimately have sym: "symbol_at ?table [False, False, True, True] = (0, 2)" "symbol_at ?table [True, True] = (3, 2)"
    "symbol_at ?table [] = (0, 2)"
    by (simp_all add: symbol_at_decodes [OF map_state_code] code_value_def)
  have "map_items ?table 1 (Suc (Suc (Suc n))) None [False, False, True, True] = Map_more [0, 2] None []" for n
    by (simp add: sym)
  from this [of 2] show ?thesis by simp
qed

definition cut_reader :: BrotliBitReader where
  "cut_reader = \<lparr>br_val = 0xC000000000000000, br_bit_pos = 60, br_next_in = 0, br_avail_in = 0\<rparr>"

lemma cut_reader: "br_ok cut_reader []" "stream cut_reader [] = [False, False, True, True]"
  "map_loop_ok 5 [9, 9, 9, 9, 9] 0 0xFFFF (map_state cut_reader)"
  by (simp add: br_ok_def cut_reader_def) (code_simp, simp add: map_loop_ok_def)

theorem context_map_loop_correct_witness:
  "\<exists>s'. context_map_loop 5 [9, 9, 9, 9, 9] 0 0xFFFF False (map_state cut_reader) [] =
      Some (Some BROTLI_DECODER_NEEDS_MORE_INPUT, [0, 2, 9, 9, 9], s') \<and> s_context_index s' = 2"
  using context_map_loop_correct [of "map_state cut_reader" 5 "[9, 9, 9, 9, 9]" 0 "0xFFFF" "[]"]
    map_state_table map_sample_cut cut_reader
  by (auto simp: pending_code_def map_outcome_def)

text \<open>C21: The input may be cut anywhere. If the loop asks for more input, then running it on the next
  slice, from the index and the code it saved, has the outcome of the reference decoder on the joined
  bits and from the start of the interrupted run of the loop.
\<close>

theorem context_map_loop_resumes:
  assumes "huffman_table (s_context_map_table s)" "map_loop_ok map_size context_map idx code s" "br_ok (s_br s) input"
    and "context_map_loop map_size context_map idx code (code \<noteq> 0xFFFF) s input =
      Some (Some BROTLI_DECODER_NEEDS_MORE_INPUT, context_map', s')"
    and "length next_input < 2 ^ 32"
  shows "\<exists>out. context_map_loop map_size context_map' (s_context_index s') (s_code s') (s_code s' \<noteq> 0xFFFF)
      (s'\<lparr>s_br := next_slice (s_br s') next_input\<rparr>) next_input = Some out \<and>
    map_outcome map_size context_map (unat idx) s' next_input (map_items (s_context_map_table s) (s_max_run_length_prefix s)
      (unat map_size - unat idx) (pending_code code) (stream (s_br s) input @ bits_of_bytes next_input)) out"
proof -
  let ?table = "s_context_map_table s" and ?prefix = "s_max_run_length_prefix s"
  let ?n = "unat map_size - unat idx" and ?bs = "stream (s_br s) input"
  note ok = assms(2)[unfolded map_loop_ok_def]
  have "br_at (s_br s) input ?bs" using assms(3) by (simp add: br_at_def)
  from context_map_loop_items [OF assms(1,2) this]
  have "map_outcome map_size context_map (unat idx) s input (map_items ?table ?prefix ?n (pending_code code) ?bs)
      (Some BROTLI_DECODER_NEEDS_MORE_INPUT, context_map', s')" unfolding assms(4) by simp
  then obtain items p rest br where m: "map_items ?table ?prefix ?n (pending_code code) ?bs = Map_more items p rest"
    and c': "context_map' = take (unat idx) context_map @ items @ drop (unat idx + length items) context_map"
    and s': "s' = s\<lparr>s_br := br, s_code := (case p of None \<Rightarrow> 0xFFFF | Some c \<Rightarrow> c),
        s_context_index := of_nat (unat idx + length items)\<rparr>"
    and fits: "unat idx + length items \<le> unat map_size" and br: "br_at br input rest" "br_avail_in br = 0"
    by (cases "map_items ?table ?prefix ?n (pending_code code) ?bs") (auto simp: map_outcome_def)
  have p: "c \<le> ?prefix" if "p = Some c" for c
    by (rule map_items_pending [OF m _ that]) (use ok in \<open>auto simp: pending_code_def split: if_splits\<close>)
  have "unat (0xFFFF :: u32) = 65535" by simp
  then have "c \<noteq> 0xFFFF" if "p = Some c" for c using p [OF that] ok by (auto simp: word_le_nat_alt)
  then have code: "pending_code (s_code s') = p" by (auto simp: s' pending_code_def split: option.splits)
  have "unat idx + length items < 2 ^ 32" using fits ok by simp
  from unat_of_nat_u32 [OF this] have idx: "unat (s_context_index s') = unat idx + length items"
    by (simp add: s' del: of_nat_add)
  have at: "br_at (s_br (s'\<lparr>s_br := next_slice (s_br s') next_input\<rparr>)) next_input (rest @ bits_of_bytes next_input)"
    using next_slice_at [OF br assms(5)] by (simp add: s')
  have "map_loop_ok map_size context_map' (s_context_index s') (s_code s') (s'\<lparr>s_br := next_slice (s_br s') next_input\<rparr>)"
    using ok fits p idx by (auto simp: map_loop_ok_def c' word_le_nat_alt s' simp del: of_nat_add split: option.splits)
  let ?s = "s'\<lparr>s_br := next_slice (s_br s') next_input\<rparr>"
  have same: "s_context_map_table ?s = ?table" "s_max_run_length_prefix ?s = ?prefix" by (simp_all add: s')
  have n: "unat map_size - unat (s_context_index s') = ?n - length items" by (simp only: idx diff_diff_left)
  from context_map_loop_items [OF _ \<open>map_loop_ok map_size context_map' (s_context_index s') (s_code s') ?s\<close> at, unfolded same code n, OF assms(1)]
  obtain out where
    out: "context_map_loop map_size context_map' (s_context_index s') (s_code s') (s_code s' \<noteq> 0xFFFF)
        (s'\<lparr>s_br := next_slice (s_br s') next_input\<rparr>) next_input = Some out"
      "map_outcome map_size context_map' (unat idx + length items) (s'\<lparr>s_br := next_slice (s_br s') next_input\<rparr>) next_input
        (map_items ?table ?prefix (?n - length items) p (rest @ bits_of_bytes next_input)) out"
    unfolding idx by blast
  have "unat idx + length items \<le> length context_map" using fits ok by linarith
  from map_outcome_before [OF out(2) [unfolded c'] this] map_items_more [OF assms(1) m] out(1)
  show ?thesis by simp
qed

theorem context_map_loop_resumes_witness:
  "\<exists>context_map s out s'. context_map_loop 5 [9, 9, 9, 9, 9] 0 0xFFFF False (map_state cut_reader) [] =
      Some (Some BROTLI_DECODER_NEEDS_MORE_INPUT, context_map, s) \<and>
    context_map_loop 5 context_map (s_context_index s) (s_code s) (s_code s \<noteq> 0xFFFF)
      (s\<lparr>s_br := next_slice (s_br s) [6]\<rparr>) [6] = Some (None, [0, 2, 0, 0, 0], s')"
proof -
  obtain context_map s where cut: "context_map_loop 5 [9, 9, 9, 9, 9] 0 0xFFFF (0xFFFF \<noteq> (0xFFFF :: u32)) (map_state cut_reader) [] =
      Some (Some BROTLI_DECODER_NEEDS_MORE_INPUT, context_map, s)"
    using context_map_loop_items [of "map_state cut_reader" 5 "[9, 9, 9, 9, 9]" 0 "0xFFFF" "[]" "[False, False, True, True]"]
      map_state_table map_sample_cut cut_reader
    by (auto simp: pending_code_def map_outcome_def br_at_def)
  have "bits_of_bytes [6] = [False, True, True] @ [False, False, False, False, False]" by code_simp
  then have "map_items (simple_huffman_table 3 0 1 2 3) 1 5 None (stream cut_reader [] @ bits_of_bytes [6]) =
      Map_done [0, 2, 0, 0, 0] [False, False, False, False, False]"
    using map_sample_items [of "[False, False, False, False, False]"] by (simp add: cut_reader)
  with context_map_loop_resumes [OF _ cut_reader(3) _ cut, of "[6]"] map_state_table cut_reader cut show ?thesis
    by (auto simp: pending_code_def map_outcome_def)
qed

text \<open>C19: A context map that was encoded as zeros, values and runs of zeros under any complete canonical
  code is decoded to its items, and the reader stops at the first bit behind them.
\<close>

theorem context_map_roundtrip:
  assumes "decodes (s_context_map_table s) code" "prefix \<le> 16" "s_max_run_length_prefix s = of_nat prefix"
    and "\<forall>t \<in> set ts. token_ok prefix t \<and> token_symbol prefix t \<in> unat ` fst ` set code"
    and "unat map_size = length (concat (map token_items ts))" "unat map_size \<le> length context_map" "unat map_size < 2 ^ 31"
    and "br_at (s_br s) input (concat (map (token_bits code prefix) ts) @ rest)"
  shows "\<exists>br. context_map_loop map_size context_map 0 0xFFFF False s input =
      Some (None, concat (map token_items ts) @ drop (unat map_size) context_map, s\<lparr>s_br := br\<rparr>) \<and>
    br_at br input rest"
proof -
  have "map_loop_ok map_size context_map 0 0xFFFF s"
    using assms(2,3,6,7) by (simp add: map_loop_ok_def unat_of_nat_u32)
  from context_map_loop_items [OF decodes_huffman_table [OF assms(1)] this assms(8)]
  show ?thesis
    using map_items_tokens [OF assms(1,2,4) assms(5) [symmetric], of rest]
    by (auto simp: assms(3) pending_code_def map_outcome_def assms(5))
qed

theorem context_map_roundtrip_witness:
  "\<exists>br. context_map_loop 5 [9, 9, 9, 9, 9] 0 0xFFFF False
      (map_state \<lparr>br_val = 0x6C00000000000000, br_bit_pos = 56, br_next_in = 0, br_avail_in = 0\<rparr>) [] =
      Some (None, [0, 2, 0, 0, 0], map_state br) \<and> stream br [] = [False]"
proof -
  let ?br = "\<lparr>br_val = 0x6C00000000000000, br_bit_pos = 56, br_next_in = 0, br_avail_in = 0\<rparr> :: BrotliBitReader"
  have "stream ?br [] = concat (map (token_bits [(0, 2), (1, 2), (2, 2), (3, 2)] 1) map_sample) @ [False]"
    unfolding map_sample_bits by code_simp
  then have "br_at (s_br (map_state ?br)) [] (concat (map (token_bits [(0, 2), (1, 2), (2, 2), (3, 2)] 1) map_sample) @ [False])"
    by (simp add: br_at_def br_ok_def)
  moreover have "(map_state ?br)\<lparr>s_br := br\<rparr> = map_state br" for br by (simp add: map_state_def sample_state_def)
  ultimately show ?thesis
    using context_map_roundtrip [of "map_state ?br" "[(0, 2), (1, 2), (2, 2), (3, 2)]" 1 map_sample 5 "[9, 9, 9, 9, 9]" "[]" "[False]"]
      map_state_code map_sample_ok by (auto simp: br_at_def)
qed

end
