(* ===== verification/Dictionary.thy ===== *)
theory Dictionary
  imports Rust_Prelude
begin

text \<open>
  The 122784 bytes of the static dictionary, \<open>kBrotliDictionary\<close> of \<open>src/dictionary/mod.rs\<close>. A line of
  the source holds 16 bytes; here it is one hexadecimal number of 32 digits, read from left to right,
  and \<open>dict_rows\<close> splits it into its bytes again. The table comes in blocks of 150 lines.
\<close>

definition dict_row :: "int \<Rightarrow> u8 list" where
  "dict_row n = map (\<lambda>k. word_of_int (drop_bit (8 * (15 - k)) n)) [0..<16]"

definition dict_rows :: "int list \<Rightarrow> u8 list" where
  "dict_rows ns = concat (map dict_row ns)"

lemma length_dict_row [simp]: "length (dict_row n) = 16"
  by (simp add: dict_row_def)

lemma length_dict_rows [simp]: "length (dict_rows ns) = 16 * length ns"
  by (induction ns) (simp_all add: dict_rows_def)

definition kBrotliDictionary_0 :: "u8 list" where
  "kBrotliDictionary_0 = dict_rows [
     0x74696d65646f776e6c6966656c656674, 0x6261636b636f64656461746173686f77,
     0x6f6e6c7973697465636974796f70656e, 0x6a7573746c696b6566726565776f726b,
     0x74657874796561726f766572626f6479, 0x6c6f7665666f726d626f6f6b706c6179,
     0x6c6976656c696e6568656c70686f6d65, 0x736964656d6f7265776f72646c6f6e67,
     0x7468656d7669657766696e6470616765, 0x6461797366756c6c686561647465726d,
     0x656163686172656166726f6d74727565, 0x6d61726b61626c6575706f6e68696768,
     0x646174656c616e646e6577736576656e, 0x6e65787463617365626f7468706f7374,
     0x757365646d61646568616e6468657265, 0x776861746e616d654c696e6b626c6f67,
     0x73697a656261736568656c646d616b65, 0x6d61696e757365722729202b686f6c64,
     0x656e6473776974684e65777372656164, 0x776572657369676e74616b6568617665,
     0x67616d657365656e63616c6c70617468, 0x77656c6c706c75736d656e7566696c6d,
     0x706172746a6f696e746869736c697374, 0x676f6f646e6565647761797377657374,
     0x6a6f62736d696e64616c736f6c6f676f, 0x72696368757365736c6173747465616d,
     0x61726d79666f6f646b696e6777696c6c, 0x65617374776172646265737466697265,
     0x506167656b6e6f77617761792e706e67, 0x6d6f76657468616e6c6f616467697665,
     0x73656c666e6f74656d75636866656564, 0x6d616e79726f636b69636f6e6f6e6365,
     0x6c6f6f6b6869646564696564486f6d65, 0x72756c65686f7374616a6178696e666f,
     0x636c75626c6177736c65737368616c66, 0x736f6d65737563687a6f6e6531303025,
     0x6f6e65736361726554696d6572616365, 0x626c7565666f75727765656b66616365,
     0x686f706567617665686172646c6f7374, 0x7768656e7061726b6b65707470617373,
     0x73686970726f6f6d48544d4c706c616e, 0x54797065646f6e65736176656b656570,
     0x666c61676c696e6b736f6c6466697665, 0x746f6f6b72617465746f776e6a756d70,
     0x746875736461726b6361726466696c65, 0x66656172737461796b696c6c74686174,
     0x66616c6c6175746f657665722e636f6d, 0x74616c6b73686f70766f746564656570,
     0x6d6f6465726573747475726e626f726e, 0x62616e6466656c6c726f736575726c28,
     0x736b696e726f6c65636f6d6561637473, 0x616765736d656574676f6c642e6a7067,
     0x6974656d7661727966656c747468656e, 0x73656e6464726f7056696577636f7079,
     0x312e30223c2f613e73746f70656c7365, 0x6c696573746f75727061636b2e676966,
     0x706173746373733f677261796d65616e, 0x2667743b7269646573686f746c617465,
     0x73616964726f6164766172206665656c, 0x6a6f686e7269636b706f727466617374,
     0x2755412d646561643c2f623e706f6f72, 0x62696c6c74797065552e532e776f6f64,
     0x6d7573743270783b496e666f72616e6b, 0x7769646577616e7477616c6c6c656164,
     0x5b305d3b7061756c7761766573757265, 0x24282723776169746d61737361726d73,
     0x676f65736761696e6c616e6770616964, 0x212d2d206c6f636b756e6974726f6f74,
     0x77616c6b6669726d77696665786d6c22, 0x736f6e6774657374323070786b696e64,
     0x726f7773746f6f6c666f6e746d61696c, 0x73616665737461726d617073636f7265,
     0x7261696e666c6f77626162797370616e, 0x736179733470783b3670783b61727473,
     0x666f6f747265616c77696b6968656174, 0x73746570747269706f72672f6c616b65,
     0x7765616b746f6c64466f726d63617374, 0x66616e7362616e6b7665727972756e73,
     0x6a756c797461736b3170783b676f616c, 0x67726577736c6f776564676569643d22,
     0x736574733570783b2e6a733f34307078, 0x69662028736f6f6e736561746e6f6e65,
     0x747562657a65726f73656e7472656564, 0x66616374696e746f676966746861726d,
     0x3138707863616d6568696c6c626f6c64, 0x7a6f6f6d766f69646561737972696e67,
     0x66696c6c7065616b696e6974636f7374, 0x3370783b6a61636b7461677362697473,
     0x726f6c6c656469746b6e65776e656172, 0x3c212d2d67726f774a534f4e64757479,
     0x4e616d6573616c65796f75206c6f7473, 0x7061696e6a617a7a636f6c6465796573,
     0x666973687777772e7269736b74616273, 0x70726576313070787269736532357078,
     0x426c756564696e673330302c62616c6c, 0x666f72646561726e77696c64626f782e,
     0x666169726c61636b7665727370616972, 0x6a756e6574656368696628217069636b,
     0x6576696c242822237761726d6c6f7264, 0x646f657370756c6c2c30303069646561,
     0x647261776875676573706f7466756e64, 0x6275726e6872656663656c6c6b657973,
     0x7469636b686f75726c6f73736675656c, 0x31327078737569746465616c52535322,
     0x61676564677265794745542265617365, 0x61696d736769726c616964733870783b,
     0x6e617679677269647469707323393939, 0x776172736c61647963617273293b207d,
     0x7068703f68656c6c74616c6c77686f6d, 0x7a683ae52a2f0d0a2031303068616c6c,
     0x2e0a0a413770783b7075736863686174, 0x3070783b637265772a2f3c2f68617368,
     0x37357078666c61747261726520262620, 0x74656c6c63616d706f6e746f6c616964,
     0x6d697373736b697074656e7466696e65, 0x6d616c6567657473706c6f743430302c,
     0x0d0a0d0a636f6f6c666565742e706870, 0x3c62723e657269636d6f737467756964,
     0x62656c6c64657363686169726d617468, 0x61746f6d2f696d67262338326c75636b,
     0x63656e743030303b74696e79676f6e65, 0x68746d6c73656c6c6472756746524545,
     0x6e6f64656e69636b3f69643d6c6f7365, 0x6e756c6c7661737477696e6452535320,
     0x7765617272656c796265656e73616d65, 0x64756b656e6173616361706577697368,
     0x67756c665432333a68697473736c6f74, 0x676174656b69636b626c757274686579,
     0x313570782727293b293b223e6d736965, 0x77696e7362697264736f727462657461,
     0x7365656b5431383a6f72647374726565, 0x6d616c6c363070786661726de2809973,
     0x626f79735b305d2e27293b22504f5354, 0x626561726b696473293b7d7d6d617279,
     0x74656e6428554b29717561647a683ae6, 0x2d73697a2d2d2d2d70726f7027293b0d,
     0x6c6966745431393a76696365616e6479, 0x646562743e525353706f6f6c6e65636b,
     0x626c6f775431363a646f6f726576616c, 0x5431373a6c6574736661696c6f72616c,
     0x706f6c6c6e6f7661636f6c7367656e65, 0x20e28094736f6674726f6d6574696c6c,
     0x726f73733c68333e706f757266616465, 0x70696e6b3c74723e6d696e69297c2128,
     0x6d696e657a683ae86261727368656172, 0x3030293b6d696c6b202d2d3e69726f6e,
     0x667265646469736b77656e74736f696c, 0x707574732f6a732f686f6c795432323a,
     0x4953424e5432303a6164616d73656573, 0x3c68323e6a736f6e272c2027636f6e74]"

lemma length_kBrotliDictionary_0 [simp]: "length kBrotliDictionary_0 = 2400"
  by (simp add: kBrotliDictionary_0_def)

definition kBrotliDictionary_1 :: "u8 list" where
  "kBrotliDictionary_1 = dict_rows [
     0x5432313a205253536c6f6f7061736961, 0x6d6f6f6e3c2f703e736f756c4c494e45,
     0x666f7274636172745431343a3c68313e, 0x38307078212d2d3c3970783b5430343a,
     0x6d696b653a34365a6e696365696e6368, 0x596f726b726963657a683ae42729293b,
     0x707572656d61676570617261746f6e65, 0x626f6e643a33375a5f6f665f275d293b,
     0x3030302c7a683ae774616e6b79617264, 0x626f776c627573683a35365a4a617661,
     0x333070780a7c7d0a254333253a33345a, 0x6a656666455850496361736876697361,
     0x676f6c66736e6f777a683ae971756572, 0x2e6373737369636b6d6561746d696e2e,
     0x62696e6464656c6c6869726570696373, 0x72656e743a33365a485454502d323031,
     0x666f746f776f6c66454e442078626f78, 0x3a35345a424f44596469636b3b0a7d0a,
     0x657869743a33355a7661727362656174, 0x277d293b646965743939393b616e6e65,
     0x7d7d3c2f5b695d2e4c616e676b6dc2b2, 0x77697265746f7973616464737365616c,
     0x616c65783b0a097d6563686f6e696e65, 0x2e6f726730303529746f6e796a657773,
     0x73616e646c656773726f6f6630303029, 0x2032303077696e6567656172646f6773,
     0x626f6f74676172796375747374796c65, 0x74656d7074696f6e2e786d6c636f636b,
     0x67616e672428272e3530707850682e44, 0x6d697363616c616e6c6f616e6465736b,
     0x6d696c657279616e756e697864697363, 0x293b7d0a64757374636c6970292e0a0a,
     0x373070782d32303044564473375d3e3c, 0x7461706564656d6f692b2b2977616765,
     0x6575726f7068696c6f707473686f6c65, 0x464151736173696e2d3236546c616273,
     0x7065747355524c2062756c6b636f6f6b, 0x3b7d0d0a484541445b305d2961626272,
     0x6a75616e283139386c6573687477696e, 0x3c2f693e736f6e79677579736675636b,
     0x706970657c2d0a21303032296e646f77, 0x5b315d3b5b5d3b0a4c6f672073616c74,
     0x0d0a090962616e677472696d62617468, 0x297b0d0a303070780a7d293b6b6f3aec,
     0x6665657361643e0d733a2f2f205b5d3b, 0x746f6c6c706c756728297b0a7b0d0a20,
     0x2e6a7327323030706475616c626f6174, 0x2e4a5047293b0a7d71756f74293b0a0a,
     0x27293b0a0d0a7d0d3230313432303135, 0x32303136323031373230313832303139,
     0x32303230323032313230323232303233, 0x32303234323032353230323632303237,
     0x32303238323032393230333032303331, 0x32303332323033333230333432303335,
     0x32303336323033373230313332303132, 0x32303131323031303230303932303038,
     0x32303037323030363230303532303034, 0x32303033323030323230303132303030,
     0x31393939313939383139393731393936, 0x31393935313939343139393331393932,
     0x31393931313939303139383931393838, 0x31393837313938363139383531393834,
     0x31393833313938323139383131393830, 0x31393739313937383139373731393736,
     0x31393735313937343139373331393732, 0x31393731313937303139363931393638,
     0x31393637313936363139363531393634, 0x31393633313936323139363131393630,
     0x31393539313935383139353731393536, 0x31393535313935343139353331393532,
     0x31393531313935303130303031303234, 0x313339343030303039393939636f6d6f,
     0x6dc3a17365737465657374617065726f, 0x746f646f686163656361646161c3b16f,
     0x6269656e64c3ad616173c3ad76696461, 0x6361736f6f74726f666f726f736f6c6f,
     0x6f7472616375616c64696a6f7369646f, 0x6772616e7469706f74656d6164656265,
     0x616c676f7175c3a96573746f6e616461, 0x74726573706f636f6361736162616a6f,
     0x746f646173696e6f6167756170756573, 0x756e6f73616e7465646963656c756973,
     0x656c6c616d61796f7a6f6e61616d6f72, 0x7069736f6f627261636c6963656c6c6f,
     0x64696f73686f726163617369d0b7d0b0, 0xd0bdd0b0d0bed0bcd180d0b0d180d183,
     0xd182d0b0d0bdd0b5d0bfd0bed0bed182, 0xd0b8d0b7d0bdd0bed0b4d0bed182d0be,
     0xd0b6d0b5d0bed0bdd0b8d185d09dd0b0, 0xd0b5d0b5d0b1d18bd0bcd18bd092d18b,
     0xd181d0bed0b2d18bd0b2d0bed09dd0be, 0xd0bed0b1d09fd0bed0bbd0b8d0bdd0b8,
     0xd0a0d0a4d09dd0b5d09cd18bd182d18b, 0xd09ed0bdd0b8d0bcd0b4d0b0d097d0b0,
     0xd094d0b0d09dd183d09ed0b1d182d0b5, 0xd098d0b7d0b5d0b9d0bdd183d0bcd0bc,
     0xd0a2d18bd183d0b6d981d98ad8a3d986, 0xd985d8a7d985d8b9d983d984d8a3d988,
     0xd8b1d8afd98ad8a7d981d989d987d988, 0xd984d985d984d983d8a7d988d984d987,
     0xd8a8d8b3d8a7d984d8a5d986d987d98a, 0xd8a3d98ad982d8afd987d984d8abd985,
     0xd8a8d987d984d988d984d98ad8a8d984, 0xd8a7d98ad8a8d983d8b4d98ad8a7d985,
     0xd8a3d985d986d8aad8a8d98ad984d986, 0xd8add8a8d987d985d985d8b4d988d8b4,
     0x6669727374766964656f6c6967687477, 0x6f726c646d656469617768697465636c,
     0x6f7365626c61636b7269676874736d61, 0x6c6c626f6f6b73706c6163656d757369,
     0x636669656c646f72646572706f696e74, 0x76616c75656c6576656c7461626c6562,
     0x6f617264686f75736567726f7570776f, 0x726b7379656172737374617465746f64,
     0x6179776174657273746172747374796c, 0x656465617468706f77657270686f6e65,
     0x6e696768746572726f72696e70757461, 0x626f75747465726d737469746c65746f,
     0x6f6c736576656e746c6f63616c74696d, 0x65736c61726765776f72647367616d65,
     0x7373686f72747370616365666f637573, 0x636c6561726d6f64656c626c6f636b67,
     0x75696465726164696f7368617265776f, 0x6d656e616761696e6d6f6e6579696d61,
     0x67656e616d6573796f756e676c696e65, 0x736c61746572636f6c6f72677265656e,
     0x66726f6e7426616d703b776174636866, 0x6f726365707269636572756c65736265,
     0x67696e61667465727669736974697373, 0x7565617265617362656c6f77696e6465,
     0x78746f74616c686f7572736c6162656c, 0x7072696e7470726573736275696c746c,
     0x696e6b73737065656473747564797472, 0x616465666f756e6473656e7365756e64,
     0x657273686f776e666f726d7372616e67, 0x6561646465647374696c6c6d6f766564,
     0x74616b656e61626f7665666c61736866, 0x697865646f6674656e6f746865727669,
     0x657773636865636b6c6567616c726976, 0x65726974656d73717569636b73686170,
     0x6568756d616e6578697374676f696e67, 0x6d6f7669657468697264626173696370,
     0x65616365737461676577696474686c6f, 0x67696e696465617377726f7465706167,
     0x65737573657273647269766573746f72, 0x65627265616b736f757468766f696365,
     0x73697465736d6f6e7468776865726562, 0x75696c6477686963686561727468666f,
     0x72756d746872656573706f7274706172, 0x7479436c69636b6c6f7765726c697665]"

lemma length_kBrotliDictionary_1 [simp]: "length kBrotliDictionary_1 = 2400"
  by (simp add: kBrotliDictionary_1_def)

definition kBrotliDictionary_2 :: "u8 list" where
  "kBrotliDictionary_2 = dict_rows [
     0x73636c6173736c61796572656e747279, 0x73746f72797573616765736f756e6463,
     0x6f757274796f7572206269727468706f, 0x70757074797065736170706c79496d61,
     0x67656265696e6775707065726e6f7465, 0x73657665727973686f77736d65616e73,
     0x65787472616d61746368747261636b6b, 0x6e6f776e6561726c79626567616e7375,
     0x70657270617065726e6f7274686c6561, 0x726e676976656e6e616d6564656e6465,
     0x645465726d73706172747347726f7570, 0x6272616e647573696e67776f6d616e66,
     0x616c73657265616479617564696f7461, 0x6b65737768696c652e636f6d2f6c6976,
     0x656463617365736461696c796368696c, 0x6467726561746a7564676574686f7365,
     0x756e6974736e6576657262726f616463, 0x6f617374636f7665726170706c656669,
     0x6c65736379636c657363656e65706c61, 0x6e73636c69636b777269746571756565,
     0x6e7069656365656d61696c6672616d65, 0x6f6c64657270686f746f6c696d697463,
     0x61636865636976696c7363616c65656e, 0x7465727468656d657468657265746f75,
     0x6368626f756e64726f79616c61736b65, 0x6477686f6c6573696e636573746f636b,
     0x206e616d656661697468686561727465, 0x6d7074796f6666657273636f70656f77,
     0x6e65646d69676874616c62756d746869, 0x6e6b626c6f6f6461727261796d616a6f,
     0x72747275737463616e6f6e756e696f6e, 0x636f756e7476616c696473746f6e6553,
     0x74796c654c6f67696e68617070796f63, 0x6375726c6566743a6672657368717569,
     0x746566696c6d7367726164656e656564, 0x73757262616e66696768746261736973,
     0x686f7665726175746f3b726f7574652e, 0x68746d6c6d6978656466696e616c596f,
     0x757220736c696465746f70696362726f, 0x776e616c6f6e65647261776e73706c69,
     0x74726561636852696768746461746573, 0x6d6172636871756f7465676f6f64734c,
     0x696e6b73646f7562746173796e637468, 0x756d62616c6c6f776368696566796f75,
     0x74686e6f76656c313070783b73657276, 0x65756e74696c68616e6473436865636b,
     0x537061636571756572796a616d657365, 0x7175616c7477696365302c3030305374,
     0x61727470616e656c736f6e6773726f75, 0x6e6465696768747368696674776f7274,
     0x68706f7374736c656164737765656b73, 0x61766f696474686573656d696c657370,
     0x6c616e65736d617274616c706861706c, 0x616e746d61726b737261746573706c61,
     0x7973636c61696d73616c657374657874, 0x73737461727377726f6e673c2f68333e,
     0x7468696e672e6f72672f6d756c746968, 0x65617264506f7765727374616e64746f,
     0x6b656e736f6c69642874686973627269, 0x6e677368697073737461666674726965,
     0x6463616c6c7366756c6c796661637473, 0x6167656e7454686973202f2f2d2d3e61,
     0x646d696e65677970744576656e743135, 0x70783b456d61696c747275652263726f,
     0x73737370656e74626c6f6773626f7822, 0x3e6e6f7465646c656176656368696e61,
     0x73697a657367756573743c2f68343e72, 0x6f626f746865617679747275652c7365,
     0x76656e6772616e646372696d65736967, 0x6e73617761726564616e636570686173,
     0x653e3c212d2d656e5f5553262333393b, 0x32303070785f6e616d656c6174696e65,
     0x6e6a6f79616a61782e6174696f6e736d, 0x697468552e532e20686f6c6473706574,
     0x6572696e6469616e6176223e63686169, 0x6e73636f7265636f6d6573646f696e67,
     0x7072696f725368617265313939307372, 0x6f6d616e6c697374736a6170616e6661,
     0x6c6c73747269616c6f776e6572616772, 0x65653c2f68323e6162757365616c6572,
     0x746f70657261222d2f2f576361726473, 0x68696c6c737465616d7350686f746f74,
     0x72757468636c65616e2e7068703f7361, 0x696e746d6574616c6c6f7569736d6561,
     0x6e7470726f6f666272696566726f7722, 0x3e67656e7265747275636b6c6f6f6b73,
     0x56616c75654672616d652e6e65742f2d, 0x2d3e0a3c747279207b0a766172206d61,
     0x6b6573636f737473706c61696e616475, 0x6c747175657374747261696e6c61626f,
     0x7268656c707363617573656d61676963, 0x6d6f746f72746865697232353070786c,
     0x656173747374657073436f756e74636f, 0x756c64676c617373736964657366756e,
     0x6473686f74656c61776172646d6f7574, 0x686d6f76657370617269736769766573,
     0x6475746368746578617366727569746e, 0x756c6c2c7c7c5b5d3b746f70223e0a3c,
     0x212d2d504f5354226f6365616e3c6272, 0x2f3e666c6f6f72737065616b64657074,
     0x682073697a6562616e6b736361746368, 0x6368617274323070783b616c69676e64,
     0x65616c73776f756c64353070783b7572, 0x6c3d227061726b736d6f7573654d6f73,
     0x74202e2e2e3c2f616d6f6e6762726169, 0x6e626f6479206e6f6e653b6261736564,
     0x63617272796472616674726566657270, 0x6167655f686f6d652e6d657465726465,
     0x6c6179647265616d70726f76656a6f69, 0x6e743c2f74723e64727567733c212d2d,
     0x20617072696c696465616c616c6c656e, 0x6578616374666f727468636f6465736c,
     0x6f67696356696577207365656d73626c, 0x616e6b706f7274732028323030736176,
     0x65645f6c696e6b676f616c736772616e, 0x74677265656b686f6d657372696e6773,
     0x7261746564333070783b77686f736570, 0x6172736528293b2220426c6f636b6c69,
     0x6e75786a6f6e6573706978656c27293b, 0x223e293b6966282d6c65667464617669,
     0x64686f727365466f6375737261697365, 0x626f786573547261636b656d656e743c,
     0x2f656d3e626172223e2e7372633d746f, 0x776572616c743d226361626c6568656e,
     0x7279323470783b73657475706974616c, 0x7973686172706d696e6f727461737465,
     0x77616e7473746869732e726573657477, 0x6865656c6769726c732f6373732f3130,
     0x30253b636c7562737374756666626962, 0x6c65766f74657320313030306b6f7265,
     0x617d293b0d0a62616e64737175657565, 0x3d207b7d3b383070783b636b696e677b,
     0x0d0a09096168656164636c6f636b6972, 0x6973686c696b6520726174696f737461,
     0x7473466f726d227961686f6f295b305d, 0x3b41626f757466696e64733c2f68313e,
     0x64656275677461736b7355524c203d63, 0x656c6c737d2928293b313270783b7072,
     0x696d6574656c6c737475726e73307836, 0x30302e6a706722737061696e62656163,
     0x6874617865736d6963726f616e67656c, 0x2d2d3e3c2f676966747373746576652d,
     0x6c696e6b626f64792e7d293b0a096d6f, 0x756e7420283139394641513c2f726f67,
     0x65726672616e6b436c61737332387078, 0x3b66656564733c68313e3c73636f7474,
     0x7465737473323270783b6472696e6b29, 0x207c7c206c657769737368616c6c2330,
     0x33393b20666f72206c6f766564776173, 0x7465303070783b6a613ae38273696d6f]"

lemma length_kBrotliDictionary_2 [simp]: "length kBrotliDictionary_2 = 2400"
  by (simp add: kBrotliDictionary_2_def)

definition kBrotliDictionary_3 :: "u8 list" where
  "kBrotliDictionary_3 = dict_rows [
     0x6e3c666f6e747265706c796d65657473, 0x756e7465726368656170746967687442,
     0x72616e642920213d206472657373636c, 0x697073726f6f6d736f6e6b65796d6f62,
     0x696c6d61696e2e4e616d6520706c6174, 0x6566756e6e797472656573636f6d2f22,
     0x312e6a7067776d6f6465706172616d53, 0x544152546c65667420696464656e2c20,
     0x323031293b0a7d0a666f726d2e766972, 0x757363686169727472616e73776f7273,
     0x7450616765736974696f6e7061746368, 0x3c212d2d0a6f2d6361636669726d7374,
     0x6f7572732c30303020617369616e692b, 0x2b297b61646f626527295b305d69643d,
     0x3130626f74683b6d656e75202e322e6d, 0x692e706e67226b6576696e636f616368,
     0x4368696c646272756365322e6a706755, 0x524c292b2e6a70677c7375697465736c,
     0x69636568617272793132302220737765, 0x657474723e0d0a6e616d653d64696567,
     0x6f706167652073776973732d2d3e0a0a, 0x236666663b223e4c6f672e636f6d2274,
     0x72656174736865657429202626203134, 0x70783b736c6565706e74656e7466696c,
     0x65646a613ae38369643d22634e616d65, 0x22776f72736573686f74732d626f782d,
     0x64656c74610a266c743b62656172733a, 0x34385a3c646174612d727572616c3c2f,
     0x613e207370656e6462616b657273686f, 0x70733d2022223b706870223e6374696f,
     0x6e313370783b627269616e68656c6c6f, 0x73697a653d6f3d253246206a6f696e6d,
     0x617962653c696d6720696d67223e2c20, 0x666a73696d67222022295b305d4d546f,
     0x704254797065226e65776c7944616e73, 0x6b637a656368747261696c6b6e6f7773,
     0x3c2f68353e666171223e7a682d636e31, 0x30293b0a2d3122293b747970653d626c,
     0x7565737472756c7964617669732e6a73, 0x273b3e0d0a3c21737465656c20796f75,
     0x2068323e0d0a666f726d206a65737573, 0x31303025206d656e752e0d0a090d0a77,
     0x616c65737269736b73756d656e746464, 0x696e67622d6c696b7465616368676966,
     0x2220766567617364616e736b65657374, 0x69736871697073756f6d69736f627265,
     0x6465736465656e747265746f646f7370, 0x7565646561c3b16f73657374c3a17469,
     0x656e6568617374616f74726f73706172, 0x7465646f6e64656e7565766f68616365,
     0x72666f726d616d69736d6f6d656a6f72, 0x6d756e646f617175c3ad64c3ad617373,
     0xc3b36c6f61797564616665636861746f, 0x64617374616e746f6d656e6f73646174,
     0x6f736f74726173736974696f6d756368, 0x6f61686f72616c756761726d61796f72,
     0x6573746f73686f72617374656e657261, 0x6e746573666f746f7365737461737061,
     0xc3ad736e7565766173616c7564666f72, 0x6f736d6564696f717569656e6d657365,
     0x73706f6465726368696c65736572c3a1, 0x766563657364656369726a6f73c3a965,
     0x7374617276656e7461677275706f6865, 0x63686f656c6c6f7374656e676f616d69,
     0x676f636f7361736e6976656c67656e74, 0x656d69736d6161697265736a756c696f,
     0x74656d617368616369616661766f726a, 0x756e696f6c6962726570756e746f6275,
     0x656e6f6175746f72616272696c627565, 0x6e61746578746f6d61727a6f73616265,
     0x726c697374616c7565676f63c3b36d6f, 0x656e65726f6a7565676f706572c3ba68,
     0x616265726573746f796e756e63616d75, 0x6a657276616c6f7266756572616c6962,
     0x726f6775737461696775616c766f746f, 0x736361736f736775c3ad61707565646f,
     0x736f6d6f73617669736f757374656464, 0x6562656e6e6f63686562757363616661,
     0x6c74616575726f737365726965646963, 0x686f637572736f636c61766563617361,
     0x736c65c3b36e706c617a6f6c6172676f, 0x6f62726173766973746161706f796f6a,
     0x756e746f7472617461766973746f6372, 0x65617263616d706f68656d6f7363696e,
     0x636f636172676f7069736f736f726465, 0x6e686163656ec3a1726561646973636f,
     0x706564726f6365726361707565646170, 0x6170656c6d656e6f72c3ba74696c636c,
     0x61726f6a6f72676563616c6c65706f6e, 0x657274617264656e616469656d617263,
     0x617369677565656c6c61737369676c6f, 0x636f6368656d6f746f736d6164726563,
     0x6c617365726573746f6e69c3b16f7175, 0x656461706173617262616e636f68696a,
     0x6f737669616a657061626c6fc3a97374, 0x657669656e657265696e6f64656a6172,
     0x666f6e646f63616e616c6e6f7274656c, 0x657472616361757361746f6d61726d61,
     0x6e6f736c756e65736175746f7376696c, 0x6c6176656e646f70657361727469706f,
     0x7374656e67616d6172636f6c6c657661, 0x7061647265756e69646f76616d6f737a,
     0x6f6e6173616d626f7362616e64616d61, 0x726961616275736f6d75636861737562,
     0x697272696f6a61766976697267726164, 0x6f6368696361616c6cc3ad6a6f76656e,
     0x6469636861657374616e74616c657373, 0x616c69727375656c6f7065736f736669,
     0x6e65736c6c616d61627573636fc3a973, 0x74616c6c6567616e6567726f706c617a,
     0x6168756d6f7270616761726a756e7461, 0x646f626c6569736c6173626f6c736162,
     0x61c3b16f6861626c616c75636861c381, 0x726561646963656e6a756761726e6f74,
     0x617376616c6c65616c6cc3a163617267, 0x61646f6c6f726162616a6f657374c3a9,
     0x677573746f6d656e74656d6172696f66, 0x69726d61636f73746f6669636861706c,
     0x617461686f67617261727465736c6579, 0x6573617175656c6d7573656f62617365,
     0x73706f636f736d697461646369656c6f, 0x636869636f6d6965646f67616e617273,
     0x616e746f65746170616465626573706c, 0x61796172656465737369657465636f72,
     0x7465636f726561647564617364657365, 0x6f7669656a6f64657365616167756173,
     0x2671756f743b646f6d61696e636f6d6d, 0x6f6e7374617475736576656e74736d61,
     0x7374657273797374656d616374696f6e, 0x62616e6e657272656d6f76657363726f,
     0x6c6c757064617465676c6f62616c6d65, 0x6469756d66696c7465726e756d626572,
     0x6368616e6765726573756c747075626c, 0x696373637265656e63686f6f73656e6f,
     0x726d616c74726176656c697373756573, 0x736f7572636574617267657473707269,
     0x6e676d6f64756c656d6f62696c657377, 0x6974636870686f746f73626f72646572,
     0x726567696f6e697473656c66736f6369, 0x616c616374697665636f6c756d6e7265,
     0x636f7264666f6c6c6f777469746c653e, 0x6569746865726c656e67746866616d69,
     0x6c79667269656e646c61796f75746175, 0x74686f72637265617465726576696577,
     0x73756d6d6572736572766572706c6179, 0x6564706c61796572657870616e64706f,
     0x6c696379666f726d6174646f75626c65, 0x706f696e747373657269657370657273,
     0x6f6e6c6976696e6764657369676e6d6f, 0x6e746873666f72636573756e69717565]"

lemma length_kBrotliDictionary_3 [simp]: "length kBrotliDictionary_3 = 2400"
  by (simp add: kBrotliDictionary_3_def)

definition kBrotliDictionary_4 :: "u8 list" where
  "kBrotliDictionary_4 = dict_rows [
     0x77656967687470656f706c65656e6572, 0x67796e61747572657365617263686669,
     0x67757265686176696e67637573746f6d, 0x6f66667365746c657474657277696e64,
     0x6f777375626d697472656e6465726772, 0x6f75707375706c6f61646865616c7468,
     0x6d6574686f64766964656f737363686f, 0x6f6c667574757265736861646f776465,
     0x6261746576616c7565734f626a656374, 0x6f74686572737269676874736c656167,
     0x75656368726f6d6573696d706c656e6f, 0x74696365736861726564656e64696e67,
     0x736561736f6e7265706f72746f6e6c69, 0x6e65737175617265627574746f6e696d,
     0x61676573656e61626c656d6f76696e67, 0x6c617465737477696e7465724672616e,
     0x6365706572696f647374726f6e677265, 0x706561744c6f6e646f6e64657461696c,
     0x666f726d656464656d616e6473656375, 0x7265706173736564746f67676c65706c,
     0x61636573646576696365737461746963, 0x63697469657373747265616d79656c6c,
     0x6f7761747461636b737472656574666c, 0x6967687468696464656e696e666f223e,
     0x6f70656e656475736566756c76616c6c, 0x65796361757365736c65616465727365,
     0x637265747365636f6e6464616d616765, 0x73706f72747365786365707472617469,
     0x6e677369676e65647468696e67736566, 0x666563746669656c6473737461746573,
     0x6f666669636576697375616c65646974, 0x6f72766f6c756d655265706f72746d75,
     0x7365756d6d6f76696573706172656e74, 0x6163636573736d6f73746c796d6f7468,
     0x6572222069643d226d61726b65746772, 0x6f756e646368616e6365737572766579,
     0x6265666f726573796d626f6c6d6f6d65, 0x6e747370656563686d6f74696f6e696e,
     0x736964656d617474657243656e746572, 0x6f626a6563746578697374736d696464,
     0x6c654575726f706567726f7774686c65, 0x676163796d616e6e6572656e6f756768,
     0x636172656572616e737765726f726967, 0x696e706f7274616c636c69656e747365,
     0x6c65637472616e646f6d636c6f736564, 0x746f70696373636f6d696e6766617468,
     0x65726f7074696f6e73696d706c797261, 0x6973656465736361706563686f73656e,
     0x636875726368646566696e6572656173, 0x6f6e636f726e65726f75747075746d65,
     0x6d6f7279696672616d65706f6c696365, 0x6d6f64656c734e756d62657264757269,
     0x6e676f66666572737374796c65736b69, 0x6c6c65646c697374656463616c6c6564,
     0x73696c7665726d617267696e64656c65, 0x746562657474657262726f7773656c69,
     0x6d697473476c6f62616c73696e676c65, 0x77696467657463656e74657262756467,
     0x65746e6f77726170637265646974636c, 0x61696d73656e67696e65736166657479,
     0x63686f6963657370697269742d737479, 0x6c657370726561646d616b696e676e65,
     0x65646564727573736961706c65617365, 0x657874656e7453637269707462726f6b,
     0x656e616c6c6f77736368617267656469, 0x76696465666163746f726d656d626572,
     0x2d62617365647468656f7279636f6e66, 0x696761726f756e64776f726b65646865,
     0x6c706564436875726368696d70616374, 0x73686f756c64616c776179736c6f676f,
     0x2220626f74746f6d6c697374223e297b, 0x766172207072656669786f72616e6765,
     0x4865616465722e7075736828636f7570, 0x6c6567617264656e6272696467656c61,
     0x756e636852657669657774616b696e67, 0x766973696f6e6c6974746c6564617469,
     0x6e67427574746f6e6265617574797468, 0x656d6573666f72676f74536561726368,
     0x616e63686f72616c6d6f73746c6f6164, 0x65644368616e676572657475726e7374,
     0x72696e6772656c6f61644d6f62696c65, 0x696e636f6d65737570706c79536f7572,
     0x63656f7264657273766965776564266e, 0x6273703b636f7572736541626f757420,
     0x69736c616e643c68746d6c20636f6f6b, 0x69656e616d653d22616d617a6f6e6d6f,
     0x6465726e616476696365696e3c2f613e, 0x3a20546865206469616c6f67686f7573,
     0x6573424547494e204d657869636f7374, 0x6172747363656e747265686569676874,
     0x616464696e6749736c616e6461737365, 0x7473456d706972655363686f6f6c6566,
     0x666f72746469726563746e6561726c79, 0x6d616e75616c53656c6563742e0a0a4f,
     0x6e656a6f696e65646d656e75223e5068, 0x696c697061776172647368616e646c65,
     0x696d706f72744f666669636572656761, 0x7264736b696c6c736e6174696f6e5370,
     0x6f7274736465677265657765656b6c79, 0x2028652e672e626568696e64646f6374,
     0x6f726c6f67676564756e697465643c2f, 0x623e3c2f626567696e73706c616e7473,
     0x61737369737461727469737469737375, 0x656433303070787c63616e6164616167,
     0x656e6379736368656d6572656d61696e, 0x4272617a696c73616d706c656c6f676f,
     0x223e6265796f6e642d7363616c656163, 0x636570747365727665646d6172696e65,
     0x466f6f74657263616d6572613c2f6831, 0x3e0a5f666f726d226c65617665737374,
     0x7265737322202f3e0d0a2e6769662220, 0x6f6e6c6f61646c6f616465724f78666f,
     0x72647369737465727375727669766c69, 0x7374656e66656d616c6544657369676e,
     0x73697a653d2261707065616c74657874, 0x223e6c6576656c737468616e6b736869,
     0x67686572666f72636564616e696d616c, 0x616e796f6e6541667269636161677265,
     0x6564726563656e7450656f706c653c62, 0x72202f3e776f6e646572707269636573,
     0x7475726e65647c7c207b7d3b6d61696e, 0x223e696e6c696e6573756e6461797772,
     0x6170223e6661696c656463656e737573, 0x6d696e757465626561636f6e71756f74,
     0x657331353070787c6573746174657265, 0x6d6f7465656d61696c226c696e6b6564,
     0x72696768743b7369676e616c666f726d, 0x616c312e68746d6c7369676e75707072,
     0x696e6365666c6f61743a2e706e672220, 0x666f72756d2e41636365737370617065,
     0x7273736f756e6473657874656e644865, 0x69676874736c696465725554462d3822,
     0x26616d703b204265666f72652e205769, 0x746873747564696f6f776e6572736d61,
     0x6e61676570726f6669746a5175657279, 0x616e6e75616c706172616d73626f7567,
     0x687466616d6f7573676f6f676c656c6f, 0x6e676572692b2b29207b69737261656c,
     0x736179696e67646563696465686f6d65, 0x223e686561646572656e737572656272,
     0x616e6368706965636573626c6f636b3b, 0x737461746564746f70223e3c72616369,
     0x6e67726573697a652d2d2667743b7061, 0x6369747973657875616c627572656175,
     0x2e6a7067222031302c3030306f627461, 0x696e7469746c6573616d6f756e742c20,
     0x496e632e636f6d6564796d656e752220, 0x6c7972696373746f6461792e696e6465,
     0x6564636f756e74795f6c6f676f2e4661, 0x6d696c796c6f6f6b65644d61726b6574]"

lemma length_kBrotliDictionary_4 [simp]: "length kBrotliDictionary_4 = 2400"
  by (simp add: kBrotliDictionary_4_def)

definition kBrotliDictionary_5 :: "u8 list" where
  "kBrotliDictionary_5 = dict_rows [
     0x6c7365206966506c617965727475726b, 0x6579293b76617220666f726573746769,
     0x76696e676572726f7273446f6d61696e, 0x7d656c73657b696e73657274426c6f67,
     0x3c2f666f6f7465726c6f67696e2e6661, 0x737465726167656e74733c626f647920,
     0x313070782030707261676d6166726964, 0x61796a756e696f72646f6c6c6172706c,
     0x61636564636f76657273706c7567696e, 0x352c3030302070616765223e626f7374,
     0x6f6e2e74657374286176617461727465, 0x737465645f636f756e74666f72756d73,
     0x736368656d61696e6465782c66696c6c, 0x6564736861726573726561646572616c,
     0x657274286170706561725375626d6974, 0x6c696e65223e626f6479223e0a2a2054,
     0x686554686f756768736565696e676a65, 0x727365794e6577733c2f766572696679,
     0x657870657274696e6a75727977696474, 0x683d436f6f6b69655354415254206163,
     0x726f73735f696d616765746872656164, 0x6e6174697665706f636b6574626f7822,
     0x3e0a53797374656d2044617669646361, 0x6e6365727461626c657370726f766564,
     0x417072696c207265616c6c7964726976, 0x65726974656d223e6d6f7265223e626f,
     0x61726473636f6c6f727363616d707573, 0x6669727374207c7c205b5d3b6d656469,
     0x612e67756974617266696e6973687769, 0x6474683a73686f7765644f7468657220,
     0x2e7068702220617373756d656c617965, 0x727377696c736f6e73746f7265737265,
     0x6c69656673776564656e437573746f6d, 0x656173696c7920796f75722053747269,
     0x6e670a0a5768696c7461796c6f72636c, 0x6561723a7265736f72746672656e6368,
     0x74686f7567682229202b20223c626f64, 0x793e627579696e676272616e64734d65,
     0x6d6265726e616d65223e6f7070696e67, 0x736563746f723570783b223e76737061,
     0x6365706f737465726d616a6f7220636f, 0x666665656d617274696e6d6174757265,
     0x68617070656e3c2f6e61763e6b616e73, 0x61736c696e6b223e496d616765733d66,
     0x616c73657768696c6520687370616365, 0x3026616d703b200a0a496e2020706f77,
     0x6572506f6c736b692d636f6c6f726a6f, 0x7264616e426f74746f6d537461727420,
     0x2d636f756e74322e68746d6c6e657773, 0x223e30312e6a70674f6e6c696e652d72,
     0x696768746d696c6c657273656e696f72, 0x4953424e2030302c3030302067756964,
     0x657376616c756529656374696f6e7265, 0x706169722e786d6c2220207269676874,
     0x732e68746d6c2d626c6f636b72656745, 0x78703a686f76657277697468696e7669,
     0x7267696e70686f6e65733c2f74723e0d, 0x7573696e67200a09766172203e27293b,
     0x0a093c2f74643e0a3c2f74723e0a6261, 0x6861736162726173696c67616c65676f,
     0x6d6167796172706f6c736b6973727073, 0x6b69d8b1d8afd988e4b8ade69687e7ae,
     0x80e4bd93e7b981e9ab94e4bfa1e681af, 0xe4b8ade59bbde68891e4bbace4b880e4,
     0xb8aae585ace58fb8e7aea1e79086e8ae, 0xbae59d9be58fafe4bba5e69c8de58aa1,
     0xe697b6e997b4e4b8aae4babae4baa7e5, 0x9381e887aae5b7b1e4bc81e4b89ae69f,
     0xa5e79c8be5b7a5e4bd9ce88194e7b3bb, 0xe6b2a1e69c89e7bd91e7ab99e68980e6,
     0x9c89e8af84e8aebae4b8ade5bf83e696, 0x87e7aba0e794a8e688b7e9a696e9a1b5,
     0xe4bd9ce88085e68a80e69cafe997aee9, 0xa298e79bb8e585b3e4b88be8bdbde690,
     0x9ce7b4a2e4bdbfe794a8e8bdafe4bbb6, 0xe59ca8e7babfe4b8bbe9a298e8b584e6,
     0x9699e8a786e9a291e59b9ee5a48de6b3, 0xa8e5868ce7bd91e7bb9ce694b6e8978f,
     0xe58685e5aeb9e68ea8e88d90e5b882e5, 0x9cbae6b688e681afe7a9bae997b4e58f,
     0x91e5b883e4bb80e4b988e5a5bde58f8b, 0xe7949fe6b4bbe59bbee78987e58f91e5,
     0xb195e5a682e69e9ce6898be69cbae696, 0xb0e997bbe69c80e696b0e696b9e5bc8f,
     0xe58c97e4baace68f90e4be9be585b3e4, 0xba8ee69bb4e5a49ae8bf99e4b8aae7b3,
     0xbbe7bb9fe79fa5e98193e6b8b8e6888f, 0xe5b9bfe5918ae585b6e4bb96e58f91e8,
     0xa1a8e5ae89e585a8e7acace4b880e4bc, 0x9ae59198e8bf9be8a18ce782b9e587bb,
     0xe78988e69d83e794b5e5ad90e4b896e7, 0x958ce8aebee8aea1e5858de8b4b9e695,
     0x99e882b2e58aa0e585a5e6b4bbe58aa8, 0xe4bb96e4bbace59586e59381e58d9ae5,
     0xaea2e78eb0e59ca8e4b88ae6b5b7e5a6, 0x82e4bd95e5b7b2e7bb8fe79599e8a880,
     0xe8afa6e7bb86e7a4bee58cbae799bbe5, 0xbd95e69cace7ab99e99c80e8a681e4bb,
     0xb7e6a0bce694afe68c81e59bbde99985, 0xe993bee68ea5e59bbde5aeb6e5bbbae8,
     0xaebee69c8be58f8be99885e8afbbe6b3, 0x95e5be8be4bd8de7bdaee7bb8fe6b58e,
     0xe98089e68ba9e8bf99e6a0b7e5bd93e5, 0x898de58886e7b1bbe68e92e8a18ce59b,
     0xa0e4b8bae4baa4e69893e69c80e5908e, 0xe99fb3e4b990e4b88de883bde9809ae8,
     0xbf87e8a18ce4b89ae7a791e68a80e58f, 0xafe883bde8aebee5a487e59088e4bd9c,
     0xe5a4a7e5aeb6e7a4bee4bc9ae7a094e7, 0xa9b6e4b893e4b89ae585a8e983a8e9a1,
     0xb9e79baee8bf99e9878ce8bf98e698af, 0xe5bc80e5a78be68385e586b5e794b5e8,
     0x8491e69687e4bbb6e59381e7898ce5b8, 0xaee58aa9e69687e58c96e8b584e6ba90,
     0xe5a4a7e5ada6e5ada6e4b9a0e59cb0e5, 0x9d80e6b58fe8a788e68a95e8b584e5b7,
     0xa5e7a88be8a681e6b182e6808ee4b988, 0xe697b6e58099e58a9fe883bde4b8bbe8,
     0xa681e79baee5898de8b584e8aeafe59f, 0x8ee5b882e696b9e6b395e794b5e5bdb1,
     0xe68b9be88198e5a3b0e6988ee4bbbbe4, 0xbd95e581a5e5bab7e695b0e68daee7be,
     0x8ee59bbde6b1bde8bda6e4bb8be7bb8d, 0xe4bd86e698afe4baa4e6b581e7949fe4,
     0xbaa7e68980e4bba5e794b5e8af9de698, 0xbee7a4bae4b880e4ba9be58d95e4bd8d,
     0xe4babae59198e58886e69e90e59cb0e5, 0x9bbee69785e6b8b8e5b7a5e585b7e5ad,
     0xa6e7949fe7b3bbe58897e7bd91e58f8b, 0xe5b896e5ad90e5af86e7a081e9a291e9,
     0x8193e68ea7e588b6e59cb0e58cbae59f, 0xbae69cace585a8e59bbde7bd91e4b88a,
     0xe9878de8a681e7acace4ba8ce5969ce6, 0xaca2e8bf9be585a5e58f8be68385e8bf,
     0x99e4ba9be88083e8af95e58f91e78eb0, 0xe59fb9e8aeade4bba5e4b88ae694bfe5,
     0xba9ce68890e4b8bae78eafe5a283e9a6, 0x99e6b8afe5908ce697b6e5a8b1e4b990,
     0xe58f91e98081e4b880e5ae9ae5bc80e5, 0x8f91e4bd9ce59381e6a087e58786e6ac,
     0xa2e8bf8ee8a7a3e586b3e59cb0e696b9, 0xe4b880e4b88be4bba5e58f8ae8b4a3e4,
     0xbbbbe68896e88085e5aea2e688b7e4bb, 0xa3e8a1a8e7a7afe58886e5a5b3e4baba,
     0xe695b0e7a081e99480e594aee587bae7, 0x8eb0e7a6bbe7babfe5ba94e794a8e588,
     0x97e8a1a8e4b88de5908ce7bc96e8be91, 0xe7bb9fe8aea1e69fa5e8afa2e4b88de8,
     0xa681e69c89e585b3e69cbae69e84e5be, 0x88e5a49ae692ade694bee7bb84e7bb87]"

lemma length_kBrotliDictionary_5 [simp]: "length kBrotliDictionary_5 = 2400"
  by (simp add: kBrotliDictionary_5_def)

definition kBrotliDictionary_6 :: "u8 list" where
  "kBrotliDictionary_6 = dict_rows [
     0xe694bfe7ad96e79bb4e68ea5e883bde5, 0x8a9be69da5e6ba90e69982e99693e79c,
     0x8be588b0e783ade997a8e585b3e994ae, 0xe4b893e58cbae99d9ee5b8b8e88bb1e8,
     0xafade799bee5baa6e5b88ce69c9be7be, 0x8ee5a5b3e6af94e8be83e79fa5e8af86,
     0xe8a784e5ae9ae5bbbae8aeaee983a8e9, 0x97a8e6848fe8a781e7b2bee5bda9e697,
     0xa5e69cace68f90e9ab98e58f91e8a880, 0xe696b9e99da2e59fbae98791e5a484e7,
     0x9086e69d83e99990e5bdb1e78987e993, 0xb6e8a18ce8bf98e69c89e58886e4baab,
     0xe789a9e59381e7bb8fe890a5e6b7bbe5, 0x8aa0e4b893e5aeb6e8bf99e7a78de8af,
     0x9de9a298e8b5b7e69da5e4b89ae58aa1, 0xe585ace5918ae8aeb0e5bd95e7ae80e4,
     0xbb8be8b4a8e9878fe794b7e4babae5bd, 0xb1e5938de5bc95e794a8e68aa5e5918a,
     0xe983a8e58886e5bfabe9809fe592a8e8, 0xafa2e697b6e5b09ae6b3a8e6848fe794,
     0xb3e8afb7e5ada6e6a0a1e5ba94e8afa5, 0xe58e86e58fb2e58faae698afe8bf94e5,
     0x9b9ee8b4ade4b9b0e5908de7a7b0e4b8, 0xbae4ba86e68890e58a9fe8afb4e6988e,
     0xe4be9be5ba94e5ada9e5ad90e4b893e9, 0xa298e7a88be5ba8fe4b880e888ace69c,
     0x83e593a1e58faae69c89e585b6e5ae83, 0xe4bf9de68aa4e8808ce4b894e4bb8ae5,
     0xa4a9e7aa97e58fa3e58aa8e68081e78a, 0xb6e68081e789b9e588abe8aea4e4b8ba,
     0xe5bf85e9a1bbe69bb4e696b0e5b08fe8, 0xafb4e68891e58091e4bd9ce4b8bae5aa,
     0x92e4bd93e58c85e68bace982a3e4b988, 0xe4b880e6a0b7e59bbde58685e698afe5,
     0x90a6e6a0b9e68daee794b5e8a786e5ad, 0xa6e999a2e585b7e69c89e8bf87e7a88b,
     0xe794b1e4ba8ee4babae6898de587bae6, 0x9da5e4b88de8bf87e6ada3e59ca8e698,
     0x8ee6989fe69585e4ba8be585b3e7b3bb, 0xe6a087e9a298e59586e58aa1e8be93e5,
     0x85a5e4b880e79bb4e59fbae7a180e695, 0x99e5ada6e4ba86e8a7a3e5bbbae7ad91,
     0xe7bb93e69e9ce585a8e79083e9809ae7, 0x9fa5e8aea1e58892e5afb9e4ba8ee889,
     0xbae69cafe79bb8e5868ce58f91e7949f, 0xe79c9fe79a84e5bbbae7ab8be7ad89e7,
     0xbaa7e7b1bbe59e8be7bb8fe9aa8ce5ae, 0x9ee78eb0e588b6e4bd9ce69da5e887aa,
     0xe6a087e7adbee4bba5e4b88be58e9fe5, 0x889be697a0e6b395e585b6e4b8ade580,
     0x8be4babae4b880e58887e68c87e58d97, 0xe585b3e997ade99b86e59ba2e7acace4,
     0xb889e585b3e6b3a8e59ba0e6ada4e785, 0xa7e78987e6b7b1e59cb3e59586e4b89a,
     0xe5b9bfe5b79ee697a5e69c9fe9ab98e7, 0xbaa7e69c80e8bf91e7bbbce59088e8a1,
     0xa8e7a4bae4b893e8be91e8a18ce4b8ba, 0xe4baa4e9809ae8af84e4bbb7e8a789e5,
     0xbe97e7b2bee58d8ee5aeb6e5baade5ae, 0x8ce68890e6849fe8a789e5ae89e8a385,
     0xe5be97e588b0e982aee4bbb6e588b6e5, 0xbaa6e9a39fe59381e899bde784b6e8bd,
     0xace8bdbde68aa5e4bbb7e8aeb0e88085, 0xe696b9e6a188e8a18ce694bfe4babae6,
     0xb091e794a8e59381e4b89ce8a5bfe68f, 0x90e587bae98592e5ba97e784b6e5908e,
     0xe4bb98e6acbee783ade782b9e4bba5e5, 0x898de5ae8ce585a8e58f91e5b896e8ae,
     0xbee7bdaee9a286e5afbce5b7a5e4b89a, 0xe58cbbe999a2e79c8be79c8be7bb8fe5,
     0x85b8e58e9fe59ba0e5b9b3e58fb0e590, 0x84e7a78de5a29ee58aa0e69d90e69699,
     0xe696b0e5a29ee4b98be5908ee8818ce4, 0xb89ae69588e69e9ce4bb8ae5b9b4e8ae,
     0xbae69687e68891e59bbde5918ae8af89, 0xe78988e4b8bbe4bfaee694b9e58f82e4,
     0xb88ee68993e58db0e5bfabe4b990e69c, 0xbae6a2b0e8a782e782b9e5ad98e59ca8,
     0xe7b2bee7a59ee88eb7e5be97e588a9e7, 0x94a8e7bba7e7bbade4bda0e4bbace8bf,
     0x99e4b988e6a8a1e5bc8fe8afade8a880, 0xe883bde5a49fe99b85e8998ee6938de4,
     0xbd9ce9a38ee6a0bce4b880e8b5b7e7a7, 0x91e5ada6e4bd93e882b2e79fade4bfa1,
     0xe69da1e4bbb6e6b2bbe79697e8bf90e5, 0x8aa8e4baa7e4b89ae4bc9ae8aeaee5af,
     0xbce888aae58588e7949fe88194e79b9f, 0xe58fafe698afe5958fe9a18ce7bb93e6,
     0x9e84e4bd9ce794a8e8b083e69fa5e8b3, 0x87e69699e887aae58aa8e8b49fe8b4a3,
     0xe5869ce4b89ae8aebfe997aee5ae9ee6, 0x96bde68ea5e58f97e8aea8e8aebae982,
     0xa3e4b8aae58f8de9a688e58aa0e5bcba, 0xe5a5b3e680a7e88c83e59bb4e69c8de5,
     0x8b99e4bc91e997b2e4bb8ae697a5e5ae, 0xa2e69c8de8a780e79c8be58f82e58aa0,
     0xe79a84e8af9de4b880e782b9e4bf9de8, 0xaf81e59bbee4b9a6e69c89e69588e6b5,
     0x8be8af95e7a7bbe58aa8e6898de883bd, 0xe586b3e5ae9ae882a1e7a5a8e4b88de6,
     0x96ade99c80e6b182e4b88de5be97e58a, 0x9ee6b395e4b98be997b4e98787e794a8,
     0xe890a5e99480e68a95e8af89e79baee6, 0xa087e788b1e68385e69184e5bdb1e69c,
     0x89e4ba9be8a487e8a3bde69687e5ada6, 0xe69cbae4bc9ae695b0e5ad97e8a385e4,
     0xbfaee8b4ade789a9e5869ce69d91e585, 0xa8e99da2e7b2bee59381e585b6e5ae9e,
     0xe4ba8be68385e6b0b4e5b9b3e68f90e7, 0xa4bae4b88ae5b882e8b0a2e8b0a2e699,
     0xaee9809ae69599e5b888e4b88ae4bca0, 0xe7b1bbe588abe6ad8ce69bb2e68ba5e6,
     0x9c89e5889be696b0e9858de4bbb6e58f, 0xaae8a681e697b6e4bba3e8b387e8a88a,
     0xe8bebee588b0e4babae7949fe8aea2e9, 0x9885e88081e5b888e5b195e7a4bae5bf,
     0x83e79086e8b4b4e5ad90e7b6b2e7ab99, 0xe4b8bbe9a18ce887aae784b6e7baa7e5,
     0x88abe7ae80e58d95e694b9e99da9e982, 0xa3e4ba9be69da5e8afb4e68993e5bc80,
     0xe4bba3e7a081e588a0e999a4e8af81e5, 0x88b8e88a82e79baee9878de782b9e6ac,
     0xa1e695b8e5a49ae5b091e8a784e58892, 0xe8b584e98791e689bee588b0e4bba5e5,
     0x908ee5a4a7e585a8e4b8bbe9a1b5e69c, 0x80e4bdb3e59b9ee7ad94e5a4a9e4b88b,
     0xe4bf9de99a9ce78eb0e4bba3e6a380e6, 0x9fa5e68a95e7a5a8e5b08fe697b6e6b2,
     0x92e69c89e6ada3e5b8b8e7949ae887b3, 0xe4bba3e79086e79baee5bd95e585ace5,
     0xbc80e5a48de588b6e98791e89e8de5b9, 0xb8e7a68fe78988e69cace5bda2e68890,
     0xe58786e5a487e8a18ce68385e59b9ee5, 0x88b0e6809de683b3e6808ee6a0b7e58d,
     0x8fe8aeaee8aea4e8af81e69c80e5a5bd, 0xe4baa7e7949fe68c89e785a7e69c8de8,
     0xa385e5b9bfe4b89ce58aa8e6bcabe987, 0x87e8b4ade696b0e6898be7bb84e59bbe,
     0xe99da2e69dbfe58f82e88083e694bfe6, 0xb2bbe5aeb9e69893e5a4a9e59cb0e58a,
     0xaae58a9be4babae4bbace58d87e7baa7, 0xe9809fe5baa6e4babae789a9e8b083e6,
     0x95b4e6b581e8a18ce980a0e68890e696, 0x87e5ad97e99fa9e59bbde8b4b8e69893,
     0xe5bc80e5b195e79bb8e9979ce8a1a8e7, 0x8eb0e5bdb1e8a786e5a682e6ada4e7be,
     0x8ee5aeb9e5a4a7e5b08fe68aa5e98193, 0xe69da1e6acbee5bf83e68385e8aeb8e5,
     0xa49ae6b395e8a784e5aeb6e5b185e4b9, 0xa6e5ba97e8bf9ee68ea5e7ab8be58db3]"

lemma length_kBrotliDictionary_6 [simp]: "length kBrotliDictionary_6 = 2400"
  by (simp add: kBrotliDictionary_6_def)

definition kBrotliDictionary_7 :: "u8 list" where
  "kBrotliDictionary_7 = dict_rows [
     0xe4b8bee68aa5e68a80e5b7a7e5a5a5e8, 0xbf90e799bbe585a5e4bba5e69da5e790,
     0x86e8aebae4ba8be4bbb6e887aae794b1, 0xe4b8ade58d8ee58a9ee585ace5a688e5,
     0xa688e79c9fe6ada3e4b88de99499e585, 0xa8e69687e59088e5908ce4bbb7e580bc,
     0xe588abe4babae79b91e79da3e585b7e4, 0xbd93e4b896e7baaae59ba2e9989fe588,
     0x9be4b89ae689bfe68b85e5a29ee995bf, 0xe69c89e4babae4bf9de68c81e59586e5,
     0xaeb6e7bbb4e4bfaee58fb0e6b9bee5b7, 0xa6e58fb3e882a1e4bbbde7ad94e6a188,
     0xe5ae9ee99985e794b5e4bfa1e7bb8fe7, 0x9086e7949fe591bde5aea3e4bca0e4bb,
     0xbbe58aa1e6ada3e5bc8fe789b9e889b2, 0xe4b88be69da5e58d8fe4bc9ae58faae8,
     0x83bde5bd93e784b6e9878de696b0e585, 0xa7e5aeb9e68c87e5afbce8bf90e8a18c,
     0xe697a5e5bf97e8b3a3e5aeb6e8b685e8, 0xbf87e59c9fe59cb0e6b599e6b19fe694,
     0xafe4bb98e68ea8e587bae7ab99e995bf, 0xe69dade5b79ee689a7e8a18ce588b6e9,
     0x80a0e4b98be4b880e68ea8e5b9bfe78e, 0xb0e59cbae68f8fe8bfb0e58f98e58c96,
     0xe4bca0e7bb9fe6ad8ce6898be4bf9de9, 0x99a9e8afbee7a88be58cbbe79697e7bb,
     0x8fe8bf87e8bf87e58ebbe4b98be5898d, 0xe694b6e585a5e5b9b4e5baa6e69d82e5,
     0xbf97e7be8ee4b8bde69c80e9ab98e799, 0xbbe99986e69caae69da5e58aa0e5b7a5,
     0xe5858de8b4a3e69599e7a88be78988e5, 0x9d97e8baabe4bd93e9878de5ba86e587,
     0xbae594aee68890e69cace5bda2e5bc8f, 0xe59c9fe8b186e587bae583b9e4b89ce6,
     0x96b9e982aee7aeb1e58d97e4baace6b1, 0x82e8818ce58f96e5be97e8818ce4bd8d,
     0xe79bb8e4bfa1e9a1b5e99da2e58886e9, 0x929fe7bd91e9a1b5e7a1aee5ae9ae59b,
     0xbee4be8be7bd91e59d80e7a7afe69e81, 0xe99499e8afafe79baee79a84e5ae9de8,
     0xb49de69cbae585b3e9a38ee999a9e68e, 0x88e69d83e79785e6af92e5aea0e789a9,
     0xe999a4e4ba86e8a995e8ab96e796bee7, 0x9785e58f8ae697b6e6b182e8b4ade7ab,
     0x99e782b9e584bfe7aba5e6af8fe5a4a9, 0xe4b8ade5a4aee8aea4e8af86e6af8fe4,
     0xb8aae5a4a9e6b4a5e5ad97e4bd93e58f, 0xb0e781a3e7bbb4e68aa4e69cace9a1b5,
     0xe4b8aae680a7e5ae98e696b9e5b8b8e8, 0xa781e79bb8e69cbae68898e795a5e5ba,
     0x94e5bd93e5be8be5b888e696b9e4bebf, 0xe6a0a1e59bade882a1e5b882e688bfe5,
     0xb18be6a08fe79baee59198e5b7a5e5af, 0xbce887b4e7aa81e784b6e98193e585b7,
     0xe69cace7bd91e7bb93e59088e6a1a3e6, 0xa188e58ab3e58aa8e58fa6e5a496e7be,
     0x8ee58583e5bc95e8b5b7e694b9e58f98, 0xe7acace59b9be4bc9ae8aea1e8aaaae6,
     0x988ee99a90e7a781e5ae9de5ae9de8a7, 0x84e88c83e6b688e8b4b9e585b1e5908c,
     0xe5bf98e8aeb0e4bd93e7b3bbe5b8a6e6, 0x9da5e5908de5ad97e799bce8a1a8e5bc,
     0x80e694bee58aa0e79b9fe58f97e588b0, 0xe4ba8ce6898be5a4a7e9878fe68890e4,
     0xbabae695b0e9878fe585b1e4baabe58c, 0xbae59f9fe5a5b3e5ada9e58e9fe58899,
     0xe68980e59ca8e7bb93e69d9fe9809ae4, 0xbfa1e8b685e7baa7e9858de7bdaee5bd,
     0x93e697b6e4bc98e7a780e680a7e6849f, 0xe688bfe4baa7e9818ae688b2e587bae5,
     0x8fa3e68f90e4baa4e5b0b1e4b89ae4bf, 0x9de581a5e7a88be5baa6e58f82e695b0,
     0xe4ba8be4b89ae695b4e4b8aae5b1b1e4, 0xb89ce68385e6849fe789b9e6ae8ae588,
     0x86e9a19ee6909ce5b08be5b19ee4ba8e, 0xe997a8e688b7e8b4a2e58aa1e5a3b0e9,
     0x9fb3e58f8ae585b6e8b4a2e7bb8fe59d, 0x9ae68c81e5b9b2e983a8e68890e7ab8b,
     0xe588a9e79b8ae88083e89991e68890e9, 0x83bde58c85e8a385e794a8e688b6e6af,
     0x94e8b59be69687e6988ee68b9be59586, 0xe5ae8ce695b4e79c9fe698afe79cbce7,
     0x9d9be4bc99e4bcb4e5a881e69c9be9a2, 0x86e59f9fe58dabe7949fe4bc98e683a0,
     0xe8ab96e5a387e585ace585b1e889afe5, 0xa5bde58585e58886e7aca6e59088e999,
     0x84e4bbb6e789b9e782b9e4b88de58faf, 0xe88bb1e69687e8b584e4baa7e6a0b9e6,
     0x9cace6988ee698bee5af86e7a2bce585, 0xace4bc97e6b091e6978fe69bb4e58aa0,
     0xe4baabe58f97e5908ce5ada6e590afe5, 0x8aa8e98082e59088e58e9fe69da5e997,
     0xaee7ad94e69cace69687e7be8ee9a39f, 0xe7bbbfe889b2e7a8b3e5ae9ae7bb88e4,
     0xba8ee7949fe789a9e4be9be6b182e690, 0x9ce78b90e58a9be9878fe4b8a5e9878d,
     0xe6b0b8e8bf9ce58699e79c9fe69c89e9, 0x9990e7ab9ee4ba89e5afb9e8b1a1e8b4,
     0xb9e794a8e4b88de5a5bde7bb9de5afb9, 0xe58d81e58886e4bf83e8bf9be782b9e8,
     0xaf84e5bdb1e99fb3e4bc98e58abfe4b8, 0x8de5b091e6aca3e8b58fe5b9b6e4b894,
     0xe69c89e782b9e696b9e59091e585a8e6, 0x96b0e4bfa1e794a8e8aebee696bde5bd,
     0xa2e8b1a1e8b584e6a0bce7aa81e7a0b4, 0xe99a8fe79d80e9878de5a4a7e4ba8ee6,
     0x98afe6af95e4b89ae699bae883bde58c, 0x96e5b7a5e5ae8ce7be8ee59586e59f8e,
     0xe7bb9fe4b880e587bae78988e68993e9, 0x80a0e794a2e59381e6a682e586b5e794,
     0xa8e4ba8ee4bf9de79599e59ba0e7b4a0, 0xe4b8ade59c8be5ad98e582a8e8b4b4e5,
     0x9bbee69c80e6849be995bfe69c9fe58f, 0xa3e4bbb7e79086e8b4a2e59fbae59cb0,
     0xe5ae89e68e92e6ada6e6b189e9878ce9, 0x9da2e5889be5bbbae5a4a9e7a9bae9a6,
     0x96e58588e5ae8ce59684e9a9b1e58aa8, 0xe4b88be99da2e4b88de5868de8af9ae4,
     0xbfa1e6848fe4b989e998b3e58589e88b, 0xb1e59bbde6bc82e4baaee5869be4ba8b,
     0xe78ea9e5aeb6e7bea4e4bc97e5869ce6, 0xb091e58db3e58fafe5908de7a8b1e5ae,
     0xb6e585b7e58aa8e794bbe683b3e588b0, 0xe6b3a8e6988ee5b08fe5ada6e680a7e8,
     0x83bde88083e7a094e7a1ace4bbb6e8a7, 0x82e79c8be6b885e6a59ae6909ee7ac91,
     0xe9a696e9a081e9bb84e98791e98082e7, 0x94a8e6b19fe88b8fe79c9fe5ae9ee4b8,
     0xbbe7aea1e998b6e6aeb5e8a8bbe5868a, 0xe7bfbbe8af91e69d83e588a9e5819ae5,
     0xa5bde4bcbce4b98ee9809ae8aeafe696, 0xbde5b7a5e78b80e6858be4b99fe8aeb8,
     0xe78eafe4bf9de59fb9e585bbe6a682e5, 0xbfb5e5a4a7e59e8be69cbae7a5a8e790,
     0x86e8a7a3e58cbfe5908d6375616e646f, 0x656e766961726d616472696462757363,
     0x6172696e6963696f7469656d706f706f, 0x727175656375656e746165737461646f,
     0x70756564656e6a7565676f73636f6e74, 0x7261657374c3a16e6e6f6d6272657469,
     0x656e656e70657266696c6d616e657261, 0x616d69676f7363697564616463656e74,
     0x726f61756e7175657075656465736465, 0x6e74726f7072696d657270726563696f,
     0x736567c3ba6e6275656e6f73766f6c76, 0x657270756e746f7373656d616e616861,
     0x62c3ad6161676f73746f6e7565766f73, 0x756e69646f736361726c6f7365717569,
     0x706f6e69c3b16f736d7563686f73616c, 0x67756e61636f7272656f696d6167656e]"

lemma length_kBrotliDictionary_7 [simp]: "length kBrotliDictionary_7 = 2400"
  by (simp add: kBrotliDictionary_7_def)

definition kBrotliDictionary_8 :: "u8 list" where
  "kBrotliDictionary_8 = dict_rows [
     0x7061727469726172726962616d6172c3, 0xad61686f6d627265656d706c656f7665,
     0x7264616463616d62696f6d7563686173, 0x667565726f6e70617361646f6cc3ad6e,
     0x65617061726563656e75657661736375, 0x72736f7365737461626171756965726f,
     0x6c6962726f736375616e746f61636365, 0x736f6d696775656c766172696f736375,
     0x6174726f7469656e6573677275706f73, 0x736572c3a16e6575726f70616d656469,
     0x6f736672656e74656163657263616465, 0x6dc3a1736f6665727461636f63686573,
     0x6d6f64656c6f6974616c69616c657472, 0x6173616c67c3ba6e636f6d7072616375,
     0x616c657365786973746563756572706f, 0x7369656e646f7072656e73616c6c6567,
     0x61727669616a657364696e65726f6d75, 0x72636961706f6472c3a170756573746f,
     0x64696172696f707565626c6f71756965, 0x72656d616e75656c70726f70696f6372,
     0x6973697363696572746f73656775726f, 0x6d75657274656675656e746563657272,
     0x61726772616e646565666563746f7061, 0x727465736d656469646170726f706961,
     0x6f6672656365746965727261652d6d61, 0x696c766172696173666f726d61736675,
     0x7475726f6f626a65746f736567756972, 0x72696573676f6e6f726d61736d69736d,
     0x6f73c3ba6e69636f63616d696e6f7369, 0x74696f7372617ac3b36e64656269646f,
     0x707275656261746f6c65646f74656ec3, 0xad616a6573c3ba7365737065726f636f,
     0x63696e616f726967656e7469656e6461, 0x6369656e746f63c3a164697a6861626c,
     0x6172736572c3ad616c6174696e616675, 0x65727a61657374696c6f677565727261,
     0x656e74726172c3a97869746f6cc3b370, 0x657a6167656e646176c3ad64656f6576,
     0x69746172706167696e616d6574726f73, 0x6a617669657270616472657366c3a163,
     0x696c636162657a61c3a1726561737361, 0x6c696461656e76c3ad6f6a6170c3b36e,
     0x616275736f736269656e657374657874, 0x6f736c6c6576617270756564616e6675,
     0x65727465636f6dc3ba6e636c61736573, 0x68756d616e6f74656e69646f62696c62,
     0x616f756e69646164657374c3a1736564, 0x6974617263726561646fd0b4d0bbd18f,
     0xd187d182d0bed0bad0b0d0bad0b8d0bb, 0xd0b8d18dd182d0bed0b2d181d0b5d0b5,
     0xd0b3d0bed0bfd180d0b8d182d0b0d0ba, 0xd0b5d189d0b5d183d0b6d0b5d09ad0b0,
     0xd0bad0b1d0b5d0b7d0b1d18bd0bbd0be, 0xd0bdd0b8d092d181d0b5d0bfd0bed0b4,
     0xd0add182d0bed182d0bed0bcd187d0b5, 0xd0bcd0bdd0b5d182d0bbd0b5d182d180,
     0xd0b0d0b7d0bed0bdd0b0d0b3d0b4d0b5, 0xd0bcd0bdd0b5d094d0bbd18fd09fd180,
     0xd0b8d0bdd0b0d181d0bdd0b8d185d182, 0xd0b5d0bcd0bad182d0bed0b3d0bed0b4,
     0xd0b2d0bed182d182d0b0d0bcd0a1d0a8, 0xd090d0bcd0b0d18fd0a7d182d0bed0b2,
     0xd0b0d181d0b2d0b0d0bcd0b5d0bcd183, 0xd0a2d0b0d0bad0b4d0b2d0b0d0bdd0b0,
     0xd0bcd18dd182d0b8d18dd182d183d092, 0xd0b0d0bcd182d0b5d185d0bfd180d0be,
     0xd182d183d182d0bdd0b0d0b4d0b4d0bd, 0xd18fd092d0bed182d182d180d0b8d0bd,
     0xd0b5d0b9d092d0b0d181d0bdd0b8d0bc, 0xd181d0b0d0bcd182d0bed182d180d183,
     0xd0b1d09ed0bdd0b8d0bcd0b8d180d0bd, 0xd0b5d0b5d09ed09ed09ed0bbd0b8d186,
     0xd18dd182d0b0d09ed0bdd0b0d0bdd0b5, 0xd0bcd0b4d0bed0bcd0bcd0bed0b9d0b4,
     0xd0b2d0b5d0bed0bdd0bed181d183d0b4, 0xe0a495e0a587e0a4b9e0a588e0a495e0,
     0xa580e0a4b8e0a587e0a495e0a4bee0a4, 0x95e0a58be0a494e0a4b0e0a4aae0a4b0,
     0xe0a4a8e0a587e0a48fe0a495e0a495e0, 0xa4bfe0a4ade0a580e0a487e0a4b8e0a4,
     0x95e0a4b0e0a4a4e0a58be0a4b9e0a58b, 0xe0a486e0a4aae0a4b9e0a580e0a4afe0,
     0xa4b9e0a4afe0a4bee0a4a4e0a495e0a4, 0xa5e0a4be6a616772616ee0a486e0a49c,
     0xe0a49ce0a58be0a485e0a4ace0a4a6e0, 0xa58be0a497e0a488e0a49ce0a4bee0a4,
     0x97e0a48fe0a4b9e0a4aee0a487e0a4a8, 0xe0a4b5e0a4b9e0a4afe0a587e0a4a5e0,
     0xa587e0a4a5e0a580e0a498e0a4b0e0a4, 0x9ce0a4ace0a4a6e0a580e0a495e0a488,
     0xe0a49ce0a580e0a4b5e0a587e0a4a8e0, 0xa488e0a4a8e0a48fe0a4b9e0a4b0e0a4,
     0x89e0a4b8e0a4aee0a587e0a495e0a4ae, 0xe0a4b5e0a58be0a4b2e0a587e0a4b8e0,
     0xa4ace0a4aee0a488e0a4a6e0a587e0a4, 0x93e0a4b0e0a486e0a4aee0a4ace0a4b8,
     0xe0a4ade0a4b0e0a4ace0a4a8e0a49ae0, 0xa4b2e0a4aee0a4a8e0a486e0a497e0a4,
     0xb8e0a580e0a4b2e0a580d8b9d984d989, 0xd8a5d984d989d987d8b0d8a7d8a2d8ae,
     0xd8b1d8b9d8afd8afd8a7d984d989d987, 0xd8b0d987d8b5d988d8b1d8bad98ad8b1,
     0xd983d8a7d986d988d984d8a7d8a8d98a, 0xd986d8b9d8b1d8b6d8b0d984d983d987,
     0xd986d8a7d98ad988d985d982d8a7d984, 0xd8b9d984d98ad8a7d986d8a7d984d983,
     0xd986d8add8aad989d982d8a8d984d988, 0xd8add8a9d8a7d8aed8b1d981d982d8b7,
     0xd8b9d8a8d8afd8b1d983d986d8a5d8b0, 0xd8a7d983d985d8a7d8a7d8add8afd8a5,
     0xd984d8a7d981d98ad987d8a8d8b9d8b6, 0xd983d98ad981d8a8d8add8abd988d985,
     0xd986d988d987d988d8a3d986d8a7d8ac, 0xd8afd8a7d984d987d8a7d8b3d984d985,
     0xd8b9d986d8afd984d98ad8b3d8b9d8a8, 0xd8b1d8b5d984d989d985d986d8b0d8a8,
     0xd987d8a7d8a3d986d987d985d8abd984, 0xd983d986d8aad8a7d984d8a7d8add98a,
     0xd8abd985d8b5d8b1d8b4d8b1d8add8ad, 0xd988d984d988d981d98ad8a7d8b0d8a7,
     0xd984d983d984d985d8b1d8a9d8a7d986, 0xd8aad8a7d984d981d8a3d8a8d988d8ae,
     0xd8a7d8b5d8a3d986d8aad8a7d986d987, 0xd8a7d984d98ad8b9d8b6d988d988d982,
     0xd8afd8a7d8a8d986d8aed98ad8b1d8a8, 0xd986d8aad984d983d985d8b4d8a7d8a1,
     0xd988d987d98ad8a7d8a8d988d982d8b5, 0xd8b5d988d985d8a7d8b1d982d985d8a3,
     0xd8add8afd986d8add986d8b9d8afd985, 0xd8b1d8a3d98ad8a7d8add8a9d983d8aa,
     0xd8a8d8afd988d986d98ad8acd8a8d985, 0xd986d987d8aad8add8aad8acd987d8a9,
     0xd8b3d986d8a9d98ad8aad985d983d8b1, 0xd8a9d8bad8b2d8a9d986d981d8b3d8a8,
     0xd98ad8aad984d984d987d984d986d8a7, 0xd8aad984d983d982d984d8a8d984d985,
     0xd8a7d8b9d986d987d8a3d988d984d8b4, 0xd98ad8a1d986d988d8b1d8a3d985d8a7,
     0xd981d98ad983d8a8d983d984d8b0d8a7, 0xd8aad8b1d8aad8a8d8a8d8a3d986d987,
     0xd985d8b3d8a7d986d983d8a8d98ad8b9, 0xd981d982d8afd8add8b3d986d984d987,
     0xd985d8b4d8b9d8b1d8a3d987d984d8b4, 0xd987d8b1d982d8b7d8b1d8b7d984d8a8,
     0x70726f66696c65736572766963656465, 0x6661756c7468696d73656c6664657461,
     0x696c73636f6e74656e74737570706f72, 0x74737461727465646d65737361676573,
     0x75636365737366617368696f6e3c7469, 0x746c653e636f756e7472796163636f75]"

lemma length_kBrotliDictionary_8 [simp]: "length kBrotliDictionary_8 = 2400"
  by (simp add: kBrotliDictionary_8_def)

definition kBrotliDictionary_9 :: "u8 list" where
  "kBrotliDictionary_9 = dict_rows [
     0x6e746372656174656473746f72696573, 0x726573756c747372756e6e696e677072,
     0x6f6365737377726974696e676f626a65, 0x63747376697369626c6577656c636f6d,
     0x6561727469636c65756e6b6e6f776e6e, 0x6574776f726b636f6d70616e7964796e,
     0x616d696362726f777365727072697661, 0x637970726f626c656d53657276696365,
     0x72657370656374646973706c61797265, 0x71756573747265736572766577656273,
     0x697465686973746f7279667269656e64, 0x736f7074696f6e73776f726b696e6776,
     0x657273696f6e6d696c6c696f6e636861, 0x6e6e656c77696e646f772e6164647265,
     0x73737669736974656477656174686572, 0x636f727265637470726f647563746564,
     0x6972656374666f7277617264796f7520, 0x63616e72656d6f7665647375626a6563,
     0x74636f6e74726f6c6172636869766563, 0x757272656e7472656164696e676c6962,
     0x726172796c696d697465646d616e6167, 0x65726675727468657273756d6d617279,
     0x6d616368696e656d696e757465737072, 0x6976617465636f6e7465787470726f67,
     0x72616d736f63696574796e756d626572, 0x737772697474656e656e61626c656474,
     0x726967676572736f75726365736c6f61, 0x64696e67656c656d656e74706172746e,
     0x657266696e616c6c7970657266656374, 0x6d65616e696e6773797374656d736b65,
     0x6570696e6763756c747572652671756f, 0x743b2c6a6f75726e616c70726f6a6563,
     0x7473757266616365732671756f743b65, 0x7870697265737265766965777362616c,
     0x616e6365456e676c697368436f6e7465, 0x6e747468726f756768506c6561736520,
     0x6f70696e696f6e636f6e746163746176, 0x65726167657072696d61727976696c6c,
     0x6167655370616e69736867616c6c6572, 0x796465636c696e656d656574696e676d,
     0x697373696f6e706f70756c6172717561, 0x6c6974796d65617375726567656e6572,
     0x616c7370656369657373657373696f6e, 0x73656374696f6e77726974657273636f,
     0x756e746572696e697469616c7265706f, 0x727473666967757265736d656d626572,
     0x73686f6c64696e676469737075746565, 0x61726c69657265787072657373646967,
     0x6974616c70696374757265416e6f7468, 0x65726d61727269656474726166666963,
     0x6c656164696e676368616e6765646365, 0x6e7472616c766963746f7279696d6167,
     0x65732f726561736f6e73737475646965, 0x73666561747572656c697374696e676d,
     0x7573742062657363686f6f6c73566572, 0x73696f6e757375616c6c79657069736f,
     0x6465706c6179696e6767726f77696e67, 0x6f6276696f75736f7665726c61797072,
     0x6573656e74616374696f6e733c2f756c, 0x3e0d0a77726170706572616c72656164,
     0x796365727461696e7265616c69747973, 0x746f72616765616e6f74686572646573,
     0x6b746f706f6666657265647061747465, 0x726e756e757375616c4469676974616c,
     0x6361706974616c576562736974656661, 0x696c757265636f6e6e65637472656475,
     0x636564416e64726f6964646563616465, 0x73726567756c61722026616d703b2061,
     0x6e696d616c7372656c65617365417574, 0x6f6d617467657474696e676d6574686f,
     0x64736e6f7468696e67506f70756c6172, 0x63617074696f6e6c6574746572736361,
     0x7074757265736369656e63656c696365, 0x6e73656368616e676573456e676c616e,
     0x643d3126616d703b486973746f727920, 0x3d206e65772043656e7472616c757064,
     0x617465645370656369616c4e6574776f, 0x726b72657175697265636f6d6d656e74,
     0x7761726e696e67436f6c6c656765746f, 0x6f6c62617272656d61696e7362656361,
     0x757365656c6563746564446575747363, 0x6866696e616e6365776f726b65727371,
     0x7569636b6c796265747765656e657861, 0x63746c7973657474696e676469736561,
     0x7365536f6369657479776561706f6e73, 0x65786869626974266c743b212d2d436f,
     0x6e74726f6c636c6173736573636f7665, 0x7265646f75746c696e6561747461636b,
     0x73646576696365732877696e646f7770, 0x7572706f73657469746c653d224d6f62,
     0x696c65206b696c6c696e6773686f7769, 0x6e674974616c69616e64726f70706564,
     0x68656176696c79656666656374732d31, 0x275d293b0a636f6e6669726d43757272,
     0x656e74616476616e636573686172696e, 0x676f70656e696e6764726177696e6762,
     0x696c6c696f6e6f726465726564476572, 0x6d616e7972656c617465643c2f666f72,
     0x6d3e696e636c75646577686574686572, 0x646566696e6564536369656e63656361,
     0x74616c6f6741727469636c6562757474, 0x6f6e736c617267657374756e69666f72,
     0x6d6a6f75726e65797369646562617243, 0x68696361676f686f6c6964617947656e,
     0x6572616c706173736167652c2671756f, 0x743b616e696d6174656665656c696e67,
     0x6172726976656470617373696e676e61, 0x747572616c726f7567686c792e0a0a54,
     0x686520627574206e6f7464656e736974, 0x794272697461696e4368696e6573656c,
     0x61636b206f6674726962757465497265, 0x6c616e642220646174612d666163746f,
     0x72737265636569766574686174206973, 0x4c69627261727968757362616e64696e,
     0x20666163746166666169727343686172, 0x6c65737261646963616c62726f756768,
     0x7466696e64696e676c616e64696e673a, 0x6c616e673d2272657475726e206c6561,
     0x64657273706c616e6e65647072656d69, 0x756d7061636b616765416d6572696361,
     0x45646974696f6e5d2671756f743b4d65, 0x73736167656e65656420746f76616c75,
     0x653d22636f6d706c65786c6f6f6b696e, 0x6773746174696f6e62656c6965766573,
     0x6d616c6c65722d6d6f62696c65726563, 0x6f72647377616e7420746f6b696e6420,
     0x6f6646697265666f78796f7520617265, 0x73696d696c6172737475646965646d61,
     0x78696d756d68656164696e6772617069, 0x646c79636c696d6174656b696e67646f,
     0x6d656d6572676564616d6f756e747366, 0x6f756e64656470696f6e656572666f72,
     0x6d756c6164796e61737479686f772074, 0x6f20537570706f7274726576656e7565,
     0x65636f6e6f6d79526573756c74736272, 0x6f74686572736f6c646965726c617267,
     0x656c7963616c6c696e672e2671756f74, 0x3b4163636f756e744564776172642073,
     0x65676d656e74526f6265727420656666, 0x6f727473506163696669636c6561726e,
     0x6564757020776974686865696768743a, 0x77652068617665416e67656c65736e61,
     0x74696f6e735f7365617263686170706c, 0x696564616371756972656d6173736976,
     0x656772616e7465643a2066616c736574, 0x7265617465646269676765737462656e,
     0x6566697464726976696e675374756469, 0x65736d696e696d756d70657268617073,
     0x6d6f726e696e6773656c6c696e676973, 0x20757365647265766572736576617269]"

lemma length_kBrotliDictionary_9 [simp]: "length kBrotliDictionary_9 = 2400"
  by (simp add: kBrotliDictionary_9_def)

definition kBrotliDictionary_10 :: "u8 list" where
  "kBrotliDictionary_10 = dict_rows [
     0x616e7420726f6c653d226d697373696e, 0x676163686965766570726f6d6f746573,
     0x747564656e74736f6d656f6e65657874, 0x72656d65726573746f7265626f74746f,
     0x6d3a65766f6c766564616c6c20746865, 0x736974656d6170656e676c6973687761,
     0x7920746f202041756775737473796d62, 0x6f6c73436f6d70616e796d6174746572,
     0x736d75736963616c616761696e737473, 0x657276696e677d2928293b0d0a706179,
     0x6d656e7474726f75626c65636f6e6365, 0x7074636f6d70617265706172656e7473,
     0x706c6179657273726567696f6e736d6f, 0x6e69746f722027275468652077696e6e,
     0x696e676578706c6f7265616461707465, 0x6447616c6c65727970726f6475636561,
     0x62696c697479656e68616e6365636172, 0x65657273292e2054686520636f6c6c65,
     0x637453656172636820616e6369656e74, 0x65786973746564666f6f746572206861,
     0x6e646c65727072696e746564636f6e73, 0x6f6c654561737465726e6578706f7274,
     0x7377696e646f77734368616e6e656c69, 0x6c6c6567616c6e65757472616c737567,
     0x676573745f6865616465727369676e69, 0x6e672e68746d6c223e736574746c6564,
     0x7765737465726e63617573696e672d77, 0x65626b6974636c61696d65644a757374,
     0x6963656368617074657276696374696d, 0x7354686f6d6173206d6f7a696c6c6170,
     0x726f6d69736570617274696573656469, 0x74696f6e6f7574736964653a66616c73,
     0x652c68756e647265644f6c796d706963, 0x5f627574746f6e617574686f72737265,
     0x61636865646368726f6e696364656d61, 0x6e64737365636f6e647370726f746563,
     0x7461646f70746564707265706172656e, 0x65697468657267726561746c79677265,
     0x617465726f766572616c6c696d70726f, 0x7665636f6d6d616e647370656369616c,
     0x7365617263682e776f72736869706675, 0x6e64696e6774686f7567687468696768,
     0x657374696e73746561647574696c6974, 0x797175617274657243756c7475726574,
     0x657374696e67636c6561726c79657870, 0x6f73656442726f777365726c69626572,
     0x616c7d20636174636850726f6a656374, 0x6578616d706c656869646528293b466c,
     0x6f72696461616e7377657273616c6c6f, 0x776564456d7065726f72646566656e73,
     0x65736572696f757366726565646f6d53, 0x65766572616c2d627574746f6e467572,
     0x746865726f7574206f6620213d206e75, 0x6c6c747261696e656444656e6d61726b,
     0x766f69642830292f616c6c2e6a737072, 0x6576656e745265717565737453746570,
     0x68656e0a0a5768656e206f6273657276, 0x653c2f68323e0d0a4d6f6465726e2070,
     0x726f766964652220616c743d22626f72, 0x646572732e0a0a466f72200a0a4d616e,
     0x792061727469737473706f7765726564, 0x706572666f726d66696374696f6e7479,
     0x7065206f666d65646963616c7469636b, 0x6574736f70706f736564436f756e6369,
     0x6c7769746e6573736a75737469636547, 0x656f7267652042656c6769756d2e2e2e,
     0x3c2f613e747769747465726e6f746162, 0x6c7977616974696e6777617266617265,
     0x204f746865722072616e6b696e677068, 0x72617365736d656e74696f6e73757276,
     0x6976657363686f6c61723c2f703e0d0a, 0x20436f756e74727969676e6f7265646c,
     0x6f7373206f666a75737420617347656f, 0x72676961737472616e67653c68656164,
     0x3e3c73746f7070656431275d293b0d0a, 0x69736c616e64736e6f7461626c65626f,
     0x726465723a6c697374206f6663617272, 0x6965643130302c3030303c2f68333e0a,
     0x207365766572616c6265636f6d657373, 0x656c6563742077656464696e6730302e,
     0x68746d6c6d6f6e617263686f66662074, 0x686574656163686572686967686c7920,
     0x62696f6c6f67796c696665206f666f72, 0x206576656e72697365206f6626726171,
     0x756f3b706c75736f6e6568756e74696e, 0x672874686f756768446f75676c61736a,
     0x6f696e696e67636972636c6573466f72, 0x20746865416e6369656e74566965746e,
     0x616d76656869636c6573756368206173, 0x6372797374616c76616c7565203d5769,
     0x6e646f7773656e6a6f7965646120736d, 0x616c6c617373756d65643c612069643d,
     0x22666f726569676e20416c6c20726968, 0x6f7720746865446973706c6179726574,
     0x69726564686f77657665726869646465, 0x6e3b626174746c65737365656b696e67,
     0x636162696e6574776173206e6f746c6f, 0x6f6b206174636f6e6475637467657420,
     0x7468654a616e7561727968617070656e, 0x737475726e696e67613a686f7665724f,
     0x6e6c696e65204672656e6368206c6163, 0x6b696e677479706963616c6578747261,
     0x6374656e656d6965736576656e206966, 0x67656e65726174646563696465646172,
     0x65206e6f742f73656172636862656c69, 0x6566732d696d6167653a6c6f63617465,
     0x647374617469632e6c6f67696e223e63, 0x6f6e7665727476696f6c656e74656e74,
     0x657265646669727374223e6369726375, 0x697446696e6c616e646368656d697374,
     0x73686520776173313070783b223e6173, 0x2073756368646976696465643c2f7370,
     0x616e3e77696c6c2062656c696e65206f, 0x66612067726561746d7973746572792f,
     0x696e6465782e66616c6c696e67647565, 0x20746f207261696c776179636f6c6c65,
     0x67656d6f6e7374657264657363656e74, 0x697420776974686e75636c6561724a65,
     0x776973682070726f7465737442726974, 0x697368666c6f77657273707265646963,
     0x747265666f726d73627574746f6e2077, 0x686f207761736c656374757265696e73,
     0x74616e747375696369646567656e6572, 0x6963706572696f64736d61726b657473,
     0x536f6369616c2066697368696e67636f, 0x6d62696e656772617068696377696e6e,
     0x6572733c6272202f3e3c627920746865, 0x204e61747572616c5072697661637963,
     0x6f6f6b6965736f7574636f6d65726573, 0x6f6c7665537765646973686272696566,
     0x6c795065727369616e736f206d756368, 0x43656e7475727964657069637473636f,
     0x6c756d6e73686f7573696e6773637269, 0x7074736e65787420746f62656172696e,
     0x676d617070696e67726576697365646a, 0x5175657279282d77696474683a746974,
     0x6c65223e746f6f6c7469705365637469, 0x6f6e64657369676e735475726b697368,
     0x796f756e6765722e6d61746368287d29, 0x28293b0a0a6275726e696e676f706572,
     0x61746564656772656573736f75726365, 0x3d52696368617264636c6f73656c7970,
     0x6c6173746963656e74726965733c2f74, 0x723e0d0a636f6c6f723a23756c206964,
     0x3d22706f7373657373726f6c6c696e67, 0x706879736963736661696c696e676578,
     0x6563757465636f6e746573746c696e6b, 0x20746f44656661756c743c6272202f3e,
     0x0a3a20747275652c6368617274657274, 0x6f757269736d636c617373696370726f]"

lemma length_kBrotliDictionary_10 [simp]: "length kBrotliDictionary_10 = 2400"
  by (simp add: kBrotliDictionary_10_def)

definition kBrotliDictionary_11 :: "u8 list" where
  "kBrotliDictionary_11 = dict_rows [
     0x636565646578706c61696e3c2f68313e, 0x0d0a6f6e6c696e652e3f786d6c207665,
     0x68656c70696e676469616d6f6e647573, 0x65207468656169726c696e65656e6420,
     0x2d2d3e292e6174747228726561646572, 0x73686f7374696e672366666666666672,
     0x65616c697a6556696e63656e74736967, 0x6e616c73207372633d222f50726f6475,
     0x63746465737069746564697665727365, 0x74656c6c696e675075626c6963206865,
     0x6c6420696e4a6f736570682074686561, 0x747265616666656374733c7374796c65,
     0x3e61206c61726765646f65736e27746c, 0x617465722c20456c656d656e74666176,
     0x69636f6e63726561746f7248756e6761, 0x7279416972706f727473656520746865,
     0x736f20746861744d69636861656c5379, 0x7374656d7350726f6772616d732c2061,
     0x6e64202077696474683d652671756f74, 0x3b74726164696e676c656674223e0a70,
     0x6572736f6e73476f6c64656e20416666, 0x616972736772616d6d6172666f726d69,
     0x6e6764657374726f7969646561206f66, 0x63617365206f666f6c64657374207468,
     0x69732069732e737263203d2063617274, 0x6f6f6e72656769737472436f6d6d6f6e,
     0x734d75736c696d735768617420697369, 0x6e206d616e796d61726b696e67726576,
     0x65616c73496e646565642c657175616c, 0x6c792f73686f775f616f7574646f6f72,
     0x65736361706528417573747269616765, 0x6e6574696373797374656d2c496e2074,
     0x68652073697474696e67486520616c73, 0x6f49736c616e647341636164656d790a,
     0x09093c212d2d44616e69656c2062696e, 0x64696e67626c6f636b223e696d706f73,
     0x65647574696c697a654162726168616d, 0x286578636570747b77696474683a7075,
     0x7474696e67292e68746d6c287c7c205b, 0x5d3b0a444154415b202a6b6974636865,
     0x6e6d6f756e74656461637475616c2064, 0x69616c6563746d61696e6c79205f626c,
     0x616e6b27696e7374616c6c6578706572, 0x747369662874797065497420616c736f,
     0x26636f70793b20223e5465726d73626f, 0x726e20696e4f7074696f6e7365617374,
     0x65726e74616c6b696e67636f6e636572, 0x6e6761696e6564206f6e676f696e676a,
     0x75737469667963726974696373666163, 0x746f7279697473206f776e6173736175,
     0x6c74696e76697465646c617374696e67, 0x686973206f776e687265663d222f2220,
     0x72656c3d22646576656c6f70636f6e63, 0x6572746469616772616d646f6c6c6172,
     0x73636c75737465727068703f69643d61, 0x6c636f686f6c293b7d2928293b757369,
     0x6e6720613e3c7370616e3e7665737365, 0x6c737265766976616c41646472657373,
     0x616d6174657572616e64726f6964616c, 0x6c65676564696c6c6e65737377616c6b,
     0x696e6763656e746572737175616c6966, 0x796d617463686573756e696669656465,
     0x7874696e6374446566656e7365646965, 0x6420696e0a093c212d2d20637573746f,
     0x6d736c696e6b696e674c6974746c6520, 0x426f6f6b206f666576656e696e676d69,
     0x6e2e6a733f617265207468656b6f6e74, 0x616b74746f64617927732e68746d6c22,
     0x207461726765743d77656172696e6741, 0x6c6c205269673b0a7d2928293b726169,
     0x73696e6720416c736f2c206372756369, 0x616c61626f7574223e6465636c617265,
     0x2d2d3e0a3c736366697265666f786173, 0x206d7563686170706c696573696e6465,
     0x782c20732c206275742074797065203d, 0x200a0d0a3c212d2d746f776172647352,
     0x65636f72647350726976617465466f72, 0x6569676e5072656d69657263686f6963,
     0x65735669727475616c72657475726e73, 0x436f6d6d656e74506f7765726564696e,
     0x6c696e653b706f76657274796368616d, 0x6265724c6976696e6720766f6c756d65,
     0x73416e74686f6e796c6f67696e222052, 0x656c6174656445636f6e6f6d79726561,
     0x6368657363757474696e676772617669, 0x74796c69666520696e43686170746572,
     0x2d736861646f774e6f7461626c653c2f, 0x74643e0d0a2072657475726e73746164,
     0x69756d7769646765747376617279696e, 0x6774726176656c7368656c6420627977,
     0x686f20617265776f726b20696e666163, 0x756c7479616e67756c617277686f2068,
     0x6164616972706f7274746f776e206f66, 0x0a0a536f6d652027636c69636b276368,
     0x61726765736b6579776f726469742077, 0x696c6c63697479206f66287468697329,
     0x3b416e6472657720756e697175652063, 0x6865636b65646f72206d6f7265333030,
     0x70783b2072657475726e3b7273696f6e, 0x3d22706c7567696e7377697468696e20,
     0x68657273656c6653746174696f6e4665, 0x646572616c76656e747572657075626c,
     0x69736873656e7420746f74656e73696f, 0x6e61637472657373636f6d6520746f66,
     0x696e6765727344756b65206f6670656f, 0x706c652c6578706c6f69747768617420,
     0x69736861726d6f6e7961206d616a6f72, 0x223a2268747470696e20686973206d65,
     0x6e75223e0a6d6f6e74686c796f666669, 0x636572636f756e63696c6761696e696e,
     0x676576656e20696e53756d6d61727964, 0x617465206f666c6f79616c7479666974,
     0x6e657373616e6420776173656d706572, 0x6f7273757072656d655365636f6e6420,
     0x68656172696e675275737369616e6c6f, 0x6e67657374416c62657274616c617465,
     0x72616c736574206f6620736d616c6c22, 0x3e2e617070656e64646f207769746866,
     0x65646572616c62616e6b206f6662656e, 0x65617468446573706974654361706974,
     0x616c67726f756e6473292c20616e6420, 0x70657263656e7469742066726f6d636c,
     0x6f73696e67636f6e7461696e496e7374, 0x6561646669667465656e61732077656c,
     0x6c2e7961686f6f2e726573706f6e6466, 0x6967687465726f627363757265726566,
     0x6c6563746f7267616e69633d204d6174, 0x682e65646974696e676f6e6c696e6520,
     0x70616464696e67612077686f6c656f6e, 0x6572726f7279656172206f66656e6420,
     0x6f6620626172726965727768656e2069, 0x7468656164657220686f6d65206f6672,
     0x6573756d656472656e616d6564737472, 0x6f6e673e68656174696e677265746169,
     0x6e73636c6f75646672776179206f6620, 0x4d6172636820316b6e6f77696e67696e,
     0x20706172744265747765656e6c657373, 0x6f6e73636c6f73657374766972747561,
     0x6c6c696e6b73223e63726f7373656445, 0x4e44202d2d3e66616d6f757320617761,
     0x726465644c6963656e73654865616c74, 0x6820666169726c79207765616c746879,
     0x6d696e696d616c4166726963616e636f, 0x6d706574656c6162656c223e73696e67,
     0x696e676661726d65727342726173696c, 0x29646973637573737265706c61636547,
     0x7265676f7279666f6e7420636f707572, 0x73756564617070656172736d616b6520,
     0x7570726f756e646564626f7468206f66, 0x626c6f636b6564736177207468656f66]"

lemma length_kBrotliDictionary_11 [simp]: "length kBrotliDictionary_11 = 2400"
  by (simp add: kBrotliDictionary_11_def)

definition kBrotliDictionary_12 :: "u8 list" where
  "kBrotliDictionary_12 = dict_rows [
     0x6669636573636f6c6f75727369662864, 0x6f63757768656e206865656e666f7263,
     0x65707573682866754175677573742055, 0x54462d38223e46616e74617379696e20,
     0x6d6f7374696e6a75726564557375616c, 0x6c796661726d696e67636c6f73757265,
     0x6f626a65637420646566656e63657573, 0x65206f66204d65646963616c3c626f64,
     0x793e0a65766964656e74626520757365, 0x646b6579436f64657369787465656e49,
     0x736c616d696323303030303030656e74, 0x69726520776964656c79206163746976,
     0x652028747970656f666f6e652063616e, 0x636f6c6f72203d737065616b65726578,
     0x74656e64735068797369637374657272, 0x61696e3c74626f64793e66756e657261,
     0x6c76696577696e676d6964646c652063, 0x7269636b657470726f70686574736869,
     0x66746564646f63746f72735275737365, 0x6c6c20746172676574636f6d70616374,
     0x616c6765627261736f6369616c2d6275, 0x6c6b206f666d616e20616e643c2f7464,
     0x3e0a206865206c656674292e76616c28, 0x2966616c7365293b6c6f676963616c62,
     0x616e6b696e67686f6d6520746f6e616d, 0x696e67204172697a6f6e616372656469,
     0x7473293b0a7d293b0a666f756e646572, 0x696e207475726e436f6c6c696e736265,
     0x666f7265204275742074686563686172, 0x6765645469746c65223e436170746169,
     0x6e7370656c6c6564676f646465737354, 0x6167202d2d3e416464696e673a627574,
     0x20776173526563656e74207061746965, 0x6e746261636b20696e3d66616c736526,
     0x4c696e636f6c6e7765206b6e6f77436f, 0x756e7465724a75646169736d73637269,
     0x707420616c7465726564275d293b0a20, 0x2068617320746865756e636c65617245,
     0x76656e74272c626f746820696e6e6f74, 0x20616c6c0a0a3c212d2d20706c616369,
     0x6e676861726420746f2063656e746572, 0x736f7274206f66636c69656e74737374,
     0x72656574734265726e61726461737365, 0x72747374656e6420746f66616e746173,
     0x79646f776e20696e686172626f757246, 0x726565646f6d6a6577656c72792f6162,
     0x6f75742e2e7365617263686c6567656e, 0x64736973206d6164656d6f6465726e20,
     0x6f6e6c79206f6e6f6e6c7920746f696d, 0x61676522206c696e656172207061696e,
     0x746572616e64206e6f74726172656c79, 0x206163726f6e796d64656c6976657273,
     0x686f72746572303026616d703b617320, 0x6d616e7977696474683d222f2a203c21,
     0x5b437469746c65203d6f662074686520, 0x6c6f77657374207069636b6564206573,
     0x636170656475736573206f6670656f70, 0x6c6573205075626c69634d6174746865,
     0x777461637469637364616d6167656477, 0x617920666f726c617773206f66656173,
     0x7920746f2077696e646f777374726f6e, 0x67202073696d706c657d636174636828,
     0x736576656e7468696e666f626f787765, 0x6e7420746f7061696e74656463697469,
     0x7a656e4920646f6e2774726574726561, 0x742e20536f6d652077772e22293b0a62,
     0x6f6d62696e676d61696c746f3a6d6164, 0x6520696e2e204d616e79206361727269,
     0x65737c7c7b7d3b7769776f726b206f66, 0x73796e6f6e796d646566656174736661,
     0x766f7265646f70746963616c70616765, 0x547261756e6c6573732073656e64696e,
     0x676c656674223e3c636f6d53636f7241, 0x6c6c207468656a51756572792e746f75,
     0x72697374436c617373696366616c7365, 0x222057696c68656c6d73756275726273,
     0x67656e75696e65626973686f70732e73, 0x706c697428676c6f62616c20666f6c6c,
     0x6f7773626f6479206f666e6f6d696e61, 0x6c436f6e74616374736563756c61726c,
     0x65667420746f63686965666c792d6869, 0x6464656e2d62616e6e65723c2f6c693e,
     0x0a0a2e205768656e20696e20626f7468, 0x6469736d6973734578706c6f7265616c,
     0x776179732076696120746865737061c3, 0xb16f6c77656c6661726572756c696e67,
     0x20617272616e67656361707461696e68, 0x697320736f6e72756c65206f66686520,
     0x746f6f6b697473656c662c3d3026616d, 0x703b2863616c6c656473616d706c6573,
     0x746f206d616b65636f6d2f7061674d61, 0x7274696e204b656e6e65647961636365,
     0x70747366756c6c206f6668616e646c65, 0x64426573696465732f2f2d2d3e3c2f61,
     0x626c6520746f74617267657473657373, 0x656e636568696d20746f206974732062,
     0x7920636f6d6d6f6e2e6d696e6572616c, 0x746f2074616b657761797320746f732e,
     0x6f72672f6c6164766973656470656e61, 0x6c747973696d706c653a696620746865,
     0x794c657474657273612073686f727448, 0x657262657274737472696b6573206772,
     0x6f7570732e6c656e677468666c696768, 0x74736f7665726c6170736c6f776c7920,
     0x6c657373657220736f6369616c203c2f, 0x703e0a0909697420696e746f72616e6b,
     0x65642072617465206f66756c3e0d0a20, 0x20617474656d707470616972206f666d,
     0x616b652069744b6f6e74616b74416e74, 0x6f6e696f686176696e6720726174696e,
     0x67732061637469766573747265616d73, 0x7472617070656422292e63737328686f,
     0x7374696c656c65616420746f6c697474, 0x6c652067726f7570732c506963747572,
     0x652d2d3e0d0a0d0a20726f77733d2220, 0x6f626a656374696e76657273653c666f,
     0x6f746572437573746f6d563e3c5c2f73, 0x6372736f6c76696e674368616d626572,
     0x736c6176657279776f756e6465647768, 0x6572656173213d2027756e64666f7220,
     0x616c6c706172746c79202d7269676874, 0x3a4172616269616e6261636b65642063,
     0x656e74757279756e6974206f666d6f62, 0x696c652d4575726f70652c697320686f,
     0x6d657269736b206f6664657369726564, 0x436c696e746f6e636f7374206f666167,
     0x65206f66206265636f6d65206e6f6e65, 0x206f66702671756f743b4d6964646c65,
     0x2065616427295b304372697469637373, 0x747564696f733e26636f70793b67726f,
     0x7570223e617373656d626c6d616b696e, 0x6720707265737365647769646765742e,
     0x70733a22203f2072656275696c746279, 0x20736f6d65466f726d65722065646974,
     0x6f727364656c6179656443616e6f6e69, 0x636861642074686570757368696e6763,
     0x6c6173733d2262757420617265706172, 0x7469616c426162796c6f6e626f74746f,
     0x6d2063617272696572436f6d6d616e64, 0x6974732075736541732077697468636f,
     0x75727365736120746869726464656e6f, 0x746573616c736f20696e486f7573746f,
     0x6e323070783b223e6163637573656464, 0x6f75626c6520676f616c206f6646616d,
     0x6f757320292e62696e64287072696573, 0x7473204f6e6c696e65696e204a756c79,
     0x7374202b202267636f6e73756c746465, 0x63696d616c68656c7066756c72657669,
     0x7665646973207665727972272b276970, 0x746c6f73696e672066656d616c657369]"

lemma length_kBrotliDictionary_12 [simp]: "length kBrotliDictionary_12 = 2400"
  by (simp add: kBrotliDictionary_12_def)

definition kBrotliDictionary_13 :: "u8 list" where
  "kBrotliDictionary_13 = dict_rows [
     0x7320616c736f737472696e6773646179, 0x73206f666172726976616c6675747572,
     0x65203c6f626a656374666f7263696e67, 0x537472696e672822202f3e0a09096865,
     0x7265206973656e636f6465642e202054, 0x68652062616c6c6f6f6e646f6e652062,
     0x792f636f6d6d6f6e6267636f6c6f726c, 0x6177206f6620496e6469616e6161766f,
     0x69646564627574207468653270782033, 0x70786a71756572792e61667465722061,
     0x706f6c6963792e6d656e20616e64666f, 0x6f7465722d3d20747275653b666f7220,
     0x75736573637265656e2e496e6469616e, 0x20696d616765203d66616d696c792c68,
     0x7474703a2f2f20266e6273703b647269, 0x76657273657465726e616c73616d6520,
     0x61736e6f746963656476696577657273, 0x7d2928293b0a206973206d6f72657365,
     0x61736f6e73666f726d65722074686520, 0x6e65776973206a757374636f6e73656e,
     0x74205365617263687761732074686577, 0x6879207468657368697070656462723e,
     0x3c62723e77696474683a206865696768, 0x743d6d616465206f6663756973696e65,
     0x69732074686174612076657279204164, 0x6d6972616c2066697865643b6e6f726d,
     0x616c204d697373696f6e50726573732c, 0x206f6e746172696f6368617273657474,
     0x727920746f20696e76616465643d2274, 0x7275652273706163696e676973206d6f,
     0x737461206d6f726520746f74616c6c79, 0x66616c6c206f667d293b0d0a2020696d,
     0x6d656e736574696d6520696e73657420, 0x6f757473617469736679746f2066696e,
     0x64646f776e20746f6c6f74206f662050, 0x6c6179657273696e204a756e65717561,
     0x6e74756d6e6f742074686574696d6520, 0x746f64697374616e7446696e6e697368,
     0x737263203d202873696e676c65206865, 0x6c70206f664765726d616e206c617720,
     0x616e646c6162656c6564666f72657374, 0x73636f6f6b696e677370616365223e68,
     0x65616465722d77656c6c206173537461, 0x6e6c6579627269646765732f676c6f62,
     0x616c43726f617469612041626f757420, 0x5b305d3b0a202069742c20616e646772,
     0x6f757065646265696e672061297b7468, 0x726f776865206d6164656c6967687465,
     0x726574686963616c4646464646462262, 0x6f74746f6d226c696b65206120656d70,
     0x6c6f79736c69766520696e6173207365, 0x656e7072696e7465726d6f7374206f66,
     0x75622d6c696e6b72656a65637473616e, 0x6420757365696d616765223e73756363,
     0x65656466656564696e674e75636c6561, 0x72696e666f726d61746f2068656c7057,
     0x6f6d656e27734e6569746865724d6578, 0x6963616e70726f7465696e3c7461626c,
     0x65206279206d616e796865616c746879, 0x6c617773756974646576697365642e70,
     0x757368287b73656c6c65727373696d70, 0x6c79205468726f7567682e636f6f6b69,
     0x6520496d616765286f6c646572223e75, 0x732e6a73223e2053696e636520756e69,
     0x766572736c6172676572206f70656e20, 0x746f212d2d20656e646c69657320696e,
     0x275d293b0d0a20206d61726b65747768, 0x6f206973202822444f4d436f6d616e61,
     0x6765646f6e6520666f72747970656f66, 0x204b696e67646f6d70726f6669747370,
     0x726f706f7365746f2073686f7763656e, 0x7465723b6d6164652069746472657373,
     0x65647765726520696e6d697874757265, 0x7072656369736561726973696e677372,
     0x63203d20276d616b6520612073656375, 0x72656442617074697374766f74696e67,
     0x200a0909766172204d61726368203267, 0x726577207570436c696d6174652e7265,
     0x6d6f7665736b696c6c65647761792074, 0x68653c2f686561643e66616365206f66,
     0x616374696e67207269676874223e746f, 0x20776f726b7265647563657368617320,
     0x6861646572656374656473686f772829, 0x3b616374696f6e3d626f6f6b206f6661,
     0x6e20617265613d3d20226874743c6865, 0x616465720a3c68746d6c3e636f6e666f,
     0x726d666163696e6720636f6f6b69652e, 0x72656c79206f6e686f73746564202e63,
     0x7573746f6d68652077656e7462757420, 0x666f727370726561642046616d696c79,
     0x2061206d65616e736f75742074686566, 0x6f72756d732e666f6f74616765223e4d,
     0x6f62696c436c656d656e747322206964, 0x3d2261732068696768696e74656e7365,
     0x2d2d3e3c212d2d66656d616c65206973, 0x207365656e696d706c69656473657420,
     0x74686561207374617465616e64206869, 0x73666173746573746265736964657362,
     0x7574746f6e5f626f756e646564223e3c, 0x696d6720496e666f626f786576656e74,
     0x732c6120796f756e67616e6420617265, 0x4e617469766520636865617065725469,
     0x6d656f7574616e6420686173656e6769, 0x6e6573776f6e20746865286d6f73746c,
     0x7972696768743a2066696e642061202d, 0x626f74746f6d5072696e636520617265,
     0x61206f666d6f7265206f667365617263, 0x685f6e61747572652c6c6567616c6c79,
     0x706572696f642c6c616e64206f666f72, 0x2077697468696e647563656470726f76,
     0x696e676d697373696c656c6f63616c6c, 0x79416761696e7374746865207761796b,
     0x2671756f743b70783b223e0d0a707573, 0x686564206162616e646f6e6e756d6572,
     0x616c4365727461696e496e2074686973, 0x6d6f726520696e6f7220736f6d656e61,
     0x6d65206973616e642c20696e63726f77, 0x6e65644953424e20302d637265617465,
     0x734f63746f6265726d6179206e6f7463, 0x656e746572206c61746520696e446566,
     0x656e6365656e61637465647769736820, 0x746f62726f61646c79636f6f6c696e67,
     0x6f6e6c6f61643d69742e205468657265, 0x636f7665724d656d6265727368656967,
     0x687420617373756d65733c68746d6c3e, 0x0a70656f706c652e696e206f6e65203d,
     0x77696e646f77666f6f7465725f612067, 0x6f6f642072656b6c616d616f74686572,
     0x732c746f20746869735f636f6f6b6965, 0x70616e656c223e4c6f6e646f6e2c6465,
     0x66696e65736372757368656462617074, 0x69736d636f617374616c737461747573,
     0x207469746c6522206d6f766520746f6c, 0x6f737420696e62657474657220696d70,
     0x6c696573726976616c72797365727665, 0x72732053797374656d50657268617073,
     0x657320616e6420636f6e74656e64666c, 0x6f77696e676c61737465642072697365,
     0x20696e47656e6573697376696577206f, 0x66726973696e67207365656d20746f62,
     0x757420696e206261636b696e67686520, 0x77696c6c676976656e2061676976696e,
     0x67206369746965732e666c6f77206f66, 0x204c6174657220616c6c206275744869,
     0x67687761796f6e6c792062797369676e, 0x206f66686520646f6573646966666572,
     0x736261747465727926616d703b6c6173, 0x696e676c657374687265617473696e74,
     0x6567657274616b65206f6e7265667573, 0x656463616c6c6564203d555326616d70]"

lemma length_kBrotliDictionary_13 [simp]: "length kBrotliDictionary_13 = 2400"
  by (simp add: kBrotliDictionary_13_def)

definition kBrotliDictionary_14 :: "u8 list" where
  "kBrotliDictionary_14 = dict_rows [
     0x536565207468656e6174697665736279, 0x207468697373797374656d2e68656164,
     0x206f663a686f7665722c6c6573626961, 0x6e7375726e616d65616e6420616c6c63,
     0x6f6d6d6f6e2f6865616465725f5f7061, 0x72616d73486172766172642f70697865,
     0x6c2e72656d6f76616c736f206c6f6e67, 0x726f6c65206f666a6f696e746c79736b,
     0x7973637261556e69636f64656272202f, 0x3e0d0a41746c616e74616e75636c6575,
     0x73436f756e74792c707572656c792063, 0x6f756e74223e656173696c7920627569,
     0x6c6420616f6e636c69636b6120676976, 0x656e706f696e746572682671756f743b,
     0x6576656e747320656c7365207b0a6469, 0x74696f6e736e6f77207468652c207769,
     0x7468206d616e2077686f6f72672f5765, 0x626f6e6520616e64636176616c727948,
     0x65206469656473656174746c6530302c, 0x303030207b77696e646f776861766520,
     0x746f69662877696e64616e6420697473, 0x736f6c656c79206d2671756f743b7265,
     0x6e65776564446574726f6974616d6f6e, 0x677374656974686572207468656d2069,
     0x6e53656e61746f7255733c2f613e3c4b, 0x696e67206f664672616e6369732d7072,
     0x6f647563686520757365646172742061, 0x6e6468696d20616e6475736564206279,
     0x73636f72696e67617420686f6d65746f, 0x206861766572656c617465736962696c,
     0x69747966616374696f6e42756666616c, 0x6f6c696e6b223e3c7768617420686566,
     0x72656520746f43697479206f66636f6d, 0x6520696e736563746f7273636f756e74,
     0x65646f6e65206461796e6572766f7573, 0x737175617265207d3b696628676f696e,
     0x2077686174696d672220616c6973206f, 0x6e6c797365617263682f747565736461,
     0x796c6f6f73656c79536f6c6f6d6f6e73, 0x657875616c202d203c612068726d6564,
     0x69756d22444f204e4f54204672616e63, 0x652c7769746820612077617220616e64,
     0x7365636f6e642074616b652061203e0d, 0x0a0d0a0d0a6d61726b65742e68696768,
     0x776179646f6e6520696e637469766974, 0x79226c617374223e6f626c6967656472,
     0x69736520746f22756e646566696d6164, 0x6520746f204561726c79207072616973,
     0x6564696e2069747320666f7220686973, 0x6174686c6574654a7570697465725961,
     0x686f6f21207465726d656420736f206d, 0x616e797265616c6c7920732e20546865,
     0x206120776f6d616e3f76616c75653d64, 0x69726563742072696768742220626963,
     0x79636c656163696e673d226461792061, 0x6e6473746174696e675261746865722c,
     0x686967686572204f6666696365206172, 0x65206e6f7774696d65732c207768656e,
     0x20612070617920666f726f6e20746869, 0x732d6c696e6b223e3b626f7264657261,
     0x726f756e6420616e6e75616c20746865, 0x204e6577707574207468652e636f6d22,
     0x2074616b696e20746f61206272696566, 0x28696e2074686567726f7570732e3b20,
     0x7769647468656e7a796d657373696d70, 0x6c6520696e206c6174657b7265747572,
     0x6e746865726170796120706f696e7462, 0x616e6e696e67696e6b73223e0a28293b,
     0x222072656120706c6163655c75303033, 0x436161626f7574206174723e0d0a0909,
     0x63636f756e7420676976657320613c53, 0x43524950545261696c7761797468656d,
     0x65732f746f6f6c626f78427949642822, 0x7868756d616e732c7761746368657369,
     0x6e20736f6d6520696620287769636f6d, 0x696e6720666f726d61747320556e6465,
     0x72206275742068617368616e64656420, 0x6d6164652062797468616e20696e6665,
     0x6172206f6664656e6f7465642f696672, 0x616d656c65667420696e766f6c746167,
     0x65696e2065616368612671756f743b62, 0x617365206f66496e206d616e79756e64,
     0x6572676f726567696d6573616374696f, 0x6e203c2f703e0d0a3c7573746f6d5661,
     0x3b2667743b3c2f696d706f7274736f72, 0x20746861746d6f73746c792026616d70,
     0x3b72652073697a653d223c2f613e3c2f, 0x686120636c6173737061737369766548,
     0x6f7374203d2057686574686572666572, 0x74696c65566172696f75733d5b5d3b28,
     0x667563616d657261732f3e3c2f74643e, 0x61637473206173496e20736f6d653e0d,
     0x0a0d0a3c216f7267616e6973203c6272, 0x202f3e4265696a696e67636174616cc3,
     0xa0646575747363686575726f70657565, 0x75736b617261676165696c6765737665,
     0x6e736b6165737061c3b1616d656e7361, 0x6a657573756172696f74726162616a6f,
     0x6dc3a97869636f70c3a167696e617369, 0x656d70726573697374656d616f637475,
     0x627265647572616e746561c3b1616469, 0x72656d70726573616d6f6d656e746f6e,
     0x75657374726f7072696d657261747261, 0x76c3a973677261636961736e75657374,
     0x726170726f6365736f65737461646f73, 0x63616c69646164706572736f6e616ec3,
     0xba6d65726f6163756572646f6dc3ba73, 0x6963616d69656d62726f6f6665727461,
     0x73616c67756e6f737061c3ad73657365, 0x6a656d706c6f6465726563686f616465,
     0x6dc3a1737072697661646f6167726567, 0x6172656e6c61636573706f7369626c65,
     0x686f74656c6573736576696c6c617072, 0x696d65726fc3ba6c74696d6f6576656e,
     0x746f736172636869766f63756c747572, 0x616d756a65726573656e747261646161,
     0x6e756e63696f656d626172676f6d6572, 0x6361646f6772616e6465736573747564,
     0x696f6d656a6f7265736665627265726f, 0x64697365c3b16f74757269736d6f63c3,
     0xb36469676f706f727461646165737061, 0x63696f66616d696c6961616e746f6e69,
     0x6f7065726d6974656775617264617261, 0x6c67756e617370726563696f73616c67,
     0x7569656e73656e7469646f7669736974, 0x617374c3ad74756c6f636f6e6f636572,
     0x736567756e646f636f6e73656a6f6672, 0x616e6369616d696e75746f7373656775,
     0x6e646174656e656d6f7365666563746f, 0x736dc3a16c61676173657369c3b36e72,
     0x6576697374616772616e616461636f6d, 0x70726172696e677265736f67617263c3,
     0xad6161636369c3b36e65637561646f72, 0x717569656e6573696e636c75736f6465,
     0x626572c3a16d617465726961686f6d62, 0x7265736d756573747261706f6472c3ad,
     0x616d61c3b1616e61c3ba6c74696d6165, 0x7374616d6f736f66696369616c74616d,
     0x6269656e6e696e67c3ba6e73616c7564, 0x6f73706f64656d6f736d656a6f726172,
     0x706f736974696f6e627573696e657373, 0x686f6d65706167657365637572697479,
     0x6c616e67756167657374616e64617264, 0x63616d706169676e6665617475726573,
     0x63617465676f727965787465726e616c, 0x6368696c6472656e7265736572766564,
     0x726573656172636865786368616e6765, 0x6661766f7269746574656d706c617465,
     0x6d696c6974617279696e647573747279, 0x73657276696365736d6174657269616c]"

lemma length_kBrotliDictionary_14 [simp]: "length kBrotliDictionary_14 = 2400"
  by (simp add: kBrotliDictionary_14_def)

definition kBrotliDictionary_15 :: "u8 list" where
  "kBrotliDictionary_15 = dict_rows [
     0x70726f64756374737a2d696e6465783a, 0x636f6d6d656e7473736f667477617265,
     0x636f6d706c65746563616c656e646172, 0x706c6174666f726d61727469636c6573,
     0x72657175697265646d6f76656d656e74, 0x7175657374696f6e6275696c64696e67,
     0x706f6c6974696373706f737369626c65, 0x72656c6967696f6e706879736963616c,
     0x666565646261636b7265676973746572, 0x706963747572657364697361626c6564,
     0x70726f746f636f6c61756469656e6365, 0x73657474696e67736163746976697479,
     0x656c656d656e74736c6561726e696e67, 0x616e797468696e676162737472616374,
     0x70726f67726573736f76657276696577, 0x6d6167617a696e6565636f6e6f6d6963,
     0x747261696e696e677072657373757265, 0x766172696f7573203c7374726f6e673e,
     0x70726f706572747973686f7070696e67, 0x746f676574686572616476616e636564,
     0x6265686176696f72646f776e6c6f6164, 0x6665617475726564666f6f7462616c6c,
     0x73656c65637465644c616e6775616765, 0x64697374616e636572656d656d626572,
     0x747261636b696e6770617373776f7264, 0x6d6f64696669656473747564656e7473,
     0x6469726563746c796669676874696e67, 0x6e6f72746865726e6461746162617365,
     0x666573746976616c627265616b696e67, 0x6c6f636174696f6e696e7465726e6574,
     0x64726f70646f776e7072616374696365, 0x65766964656e636566756e6374696f6e,
     0x6d61727269616765726573706f6e7365, 0x70726f626c656d736e65676174697665,
     0x70726f6772616d73616e616c79736973, 0x72656c656173656462616e6e6572223e,
     0x7075726368617365706f6c6963696573, 0x726567696f6e616c6372656174697665,
     0x617267756d656e74626f6f6b6d61726b, 0x72656665727265726368656d6963616c,
     0x6469766973696f6e63616c6c6261636b, 0x736570617261746570726f6a65637473,
     0x636f6e666c6963746861726477617265, 0x696e74657265737464656c6976657279,
     0x6d6f756e7461696e6f627461696e6564, 0x3d2066616c73653b666f722876617220,
     0x61636365707465646361706163697479, 0x636f6d70757465726964656e74697479,
     0x6169726372616674656d706c6f796564, 0x70726f706f736564646f6d6573746963,
     0x696e636c7564657370726f7669646564, 0x686f73706974616c766572746963616c,
     0x636f6c6c61707365617070726f616368, 0x706172746e6572736c6f676f223e3c61,
     0x6461756768746572617574686f722220, 0x63756c747572616c66616d696c696573,
     0x2f696d616765732f617373656d626c79, 0x706f77657266756c7465616368696e67,
     0x66696e69736865646469737472696374, 0x637269746963616c6367692d62696e2f,
     0x707572706f7365737265717569726573, 0x656c656374696f6e6265636f6d696e67,
     0x70726f766964657361636164656d6963, 0x657865726369736561637475616c6c79,
     0x6d65646963696e65636f6e7374616e74, 0x6163636964656e744d6167617a696e65,
     0x646f63756d656e747374617274696e67, 0x626f74746f6d223e6f62736572766564,
     0x3a202671756f743b657874656e646564, 0x70726576696f7573536f667477617265,
     0x637573746f6d65726465636973696f6e, 0x737472656e67746864657461696c6564,
     0x736c696768746c79706c616e6e696e67, 0x746578746172656163757272656e6379,
     0x65766572796f6e657374726169676874, 0x7472616e73666572706f736974697665,
     0x70726f64756365646865726974616765, 0x7368697070696e676162736f6c757465,
     0x726563656976656472656c6576616e74, 0x627574746f6e222076696f6c656e6365,
     0x616e79776865726562656e6566697473, 0x6c61756e63686564726563656e746c79,
     0x616c6c69616e6365666f6c6c6f776564, 0x6d756c7469706c6562756c6c6574696e,
     0x696e636c756465646f63637572726564, 0x696e7465726e616c242874686973292e,
     0x72657075626c69633e3c74723e3c7464, 0x636f6e67726573737265636f72646564,
     0x756c74696d617465736f6c7574696f6e, 0x3c756c2069643d22646973636f766572,
     0x486f6d653c2f613e7765627369746573, 0x6e6574776f726b73616c74686f756768,
     0x656e746972656c796d656d6f7269616c, 0x6d65737361676573636f6e74696e7565,
     0x616374697665223e736f6d6577686174, 0x766963746f7269615765737465726e20,
     0x207469746c653d224c6f636174696f6e, 0x636f6e747261637476697369746f7273,
     0x446f776e6c6f6164776974686f757420, 0x7269676874223e0a6d65617375726573,
     0x7769647468203d207661726961626c65, 0x696e766f6c76656476697267696e6961,
     0x6e6f726d616c6c7968617070656e6564, 0x6163636f756e74737374616e64696e67,
     0x6e6174696f6e616c5265676973746572, 0x7072657061726564636f6e74726f6c73,
     0x61636375726174656269727468646179, 0x73747261746567796f6666696369616c,
     0x67726170686963736372696d696e616c, 0x706f737369626c79636f6e73756d6572,
     0x506572736f6e616c737065616b696e67, 0x76616c69646174656163686965766564,
     0x2e6a706722202f3e6d616368696e6573, 0x3c2f68323e0a20206b6579776f726473,
     0x667269656e646c7962726f7468657273, 0x636f6d62696e65646f726967696e616c,
     0x636f6d706f7365646578706563746564, 0x616465717561746570616b697374616e,
     0x666f6c6c6f77222076616c7561626c65, 0x3c2f6c6162656c3e72656c6174697665,
     0x6272696e67696e67696e637265617365, 0x676f7665726e6f72706c7567696e732f,
     0x4c697374206f6620486561646572223e, 0x22206e616d653d2220282671756f743b,
     0x67726164756174653c2f686561643e0a, 0x636f6d6d657263656d616c6179736961,
     0x6469726563746f726d61696e7461696e, 0x3b6865696768743a7363686564756c65,
     0x6368616e67696e676261636b20746f20, 0x636174686f6c69637061747465726e73,
     0x636f6c6f723a20236772656174657374, 0x737570706c69657372656c6961626c65,
     0x3c2f756c3e0a09093c73656c65637420, 0x636974697a656e73636c6f7468696e67,
     0x7761746368696e673c6c692069643d22, 0x73706563696669636361727279696e67,
     0x73656e74656e63653c63656e7465723e, 0x636f6e74726173747468696e6b696e67,
     0x6361746368286529736f75746865726e, 0x4d69636861656c206d65726368616e74,
     0x6361726f7573656c70616464696e673a, 0x696e746572696f722e73706c69742822,
     0x6c697a6174696f6e4f63746f62657220, 0x297b72657475726e696d70726f766564,
     0x2d2d2667743b0a0a636f766572616765, 0x63686169726d616e2e706e6722202f3e,
     0x7375626a656374735269636861726420, 0x776861746576657270726f6261626c79,
     0x7265636f766572796261736562616c6c, 0x6a7564676d656e74636f6e6e6563742e]"

lemma length_kBrotliDictionary_15 [simp]: "length kBrotliDictionary_15 = 2400"
  by (simp add: kBrotliDictionary_15_def)

definition kBrotliDictionary_16 :: "u8 list" where
  "kBrotliDictionary_16 = dict_rows [
     0x2e63737322202f3e2077656273697465, 0x7265706f7274656464656661756c7422,
     0x2f3e3c2f613e0d0a656c656374726963, 0x73636f746c616e646372656174696f6e,
     0x7175616e746974792e204953424e2030, 0x646964206e6f7420696e7374616e6365,
     0x2d7365617263682d22206c616e673d22, 0x737065616b657273436f6d7075746572,
     0x636f6e7461696e736172636869766573, 0x6d696e69737465727265616374696f6e,
     0x646973636f756e744974616c69616e6f, 0x63726974657269617374726f6e676c79,
     0x3a2027687474703a2773637269707427, 0x636f766572696e676f66666572696e67,
     0x61707065617265644272697469736820, 0x6964656e7469667946616365626f6f6b,
     0x6e756d65726f757376656869636c6573, 0x636f6e6365726e73416d65726963616e,
     0x68616e646c696e676469762069643d22, 0x57696c6c69616d2070726f7669646572,
     0x5f636f6e74656e746163637572616379, 0x73656374696f6e20616e646572736f6e,
     0x666c657869626c6543617465676f7279, 0x6c617772656e63653c7363726970743e,
     0x6c61796f75743d22617070726f766564, 0x206d6178696d756d686561646572223e,
     0x3c2f7461626c653e5365727669636573, 0x68616d696c746f6e63757272656e7420,
     0x63616e616469616e6368616e6e656c73, 0x2f7468656d65732f2f61727469636c65,
     0x6f7074696f6e616c706f72747567616c, 0x76616c75653d2222696e74657276616c,
     0x776972656c657373656e7469746c6564, 0x6167656e636965735365617263682220,
     0x6d6561737572656474686f7573616e64, 0x7370656e64696e672668656c6c69703b,
     0x6e65772044617465222073697a653d22, 0x706167654e616d656d6964646c652220,
     0x22202f3e3c2f613e68696464656e223e, 0x73657175656e6365706572736f6e616c,
     0x6f766572666c6f776f70696e696f6e73, 0x696c6c696e6f69736c696e6b73223e0a,
     0x093c7469746c653e76657273696f6e73, 0x73617475726461797465726d696e616c,
     0x6974656d70726f70656e67696e656572, 0x73656374696f6e7364657369676e6572,
     0x70726f706f73616c3d2266616c736522, 0x45737061c3b16f6c72656c6561736573,
     0x7375626d6974222065722671756f743b, 0x6164646974696f6e73796d70746f6d73,
     0x6f7269656e7465647265736f75726365, 0x7269676874223e3c706c656173757265,
     0x73746174696f6e73686973746f72792e, 0x6c656176696e672020626f726465723d,
     0x636f6e74656e747363656e746572223e, 0x2e0a0a536f6d65206469726563746564,
     0x7375697461626c6562756c6761726961, 0x2e73686f7728293b64657369676e6564,
     0x47656e6572616c20636f6e6365707473, 0x4578616d706c657377696c6c69616d73,
     0x4f726967696e616c223e3c7370616e3e, 0x736561726368223e6f70657261746f72,
     0x726571756573747361202671756f743b, 0x616c6c6f77696e67446f63756d656e74,
     0x7265766973696f6e2e200a0a54686520, 0x796f757273656c66436f6e7461637420,
     0x6d6963686967616e456e676c69736820, 0x636f6c756d6269617072696f72697479,
     0x7072696e74696e676472696e6b696e67, 0x666163696c69747972657475726e6564,
     0x436f6e74656e74206f66666963657273, 0x5275737369616e2067656e6572617465,
     0x2d383835392d3122696e646963617465, 0x66616d696c696172207175616c697479,
     0x6d617267696e3a3020636f6e74656e74, 0x76696577706f7274636f6e7461637473,
     0x2d7469746c65223e706f727461626c65, 0x2e6c656e67746820656c696769626c65,
     0x696e766f6c76657361746c616e746963, 0x6f6e6c6f61643d2264656661756c742e,
     0x737570706c6965647061796d656e7473, 0x676c6f73736172790a0a416674657220,
     0x67756964616e63653c2f74643e3c7464, 0x656e636f64696e676d6964646c65223e,
     0x63616d6520746f20646973706c617973, 0x73636f74746973686a6f6e617468616e,
     0x6d616a6f72697479776964676574732e, 0x636c696e6963616c746861696c616e64,
     0x74656163686572733c686561643e0a09, 0x6166666563746564737570706f727473,
     0x706f696e7465723b746f537472696e67, 0x3c2f736d616c6c3e6f6b6c61686f6d61,
     0x77696c6c20626520696e766573746f72, 0x302220616c743d22686f6c6964617973,
     0x5265736f757263656c6963656e736564, 0x20287768696368202e20416674657220,
     0x636f6e73696465727669736974696e67, 0x6578706c6f7265727072696d61727920,
     0x7365617263682220616e64726f696422, 0x717569636b6c79206d656574696e6773,
     0x657374696d6174653b72657475726e20, 0x3b636f6c6f723a23206865696768743d,
     0x617070726f76616c2c202671756f743b, 0x20636865636b65642e6d696e2e6a7322,
     0x6d61676e657469633e3c2f613e3c2f68, 0x666f7265636173742e205768696c6520,
     0x74687572736461796476657274697365, 0x266561637574653b686173436c617373,
     0x6576616c756174656f72646572696e67, 0x6578697374696e6770617469656e7473,
     0x204f6e6c696e6520636f6c6f7261646f, 0x4f7074696f6e732263616d7062656c6c,
     0x3c212d2d20656e643c2f7370616e3e3c, 0x3c6272202f3e0d0a5f706f707570737c,
     0x736369656e6365732c2671756f743b20, 0x7175616c6974792057696e646f777320,
     0x61737369676e65646865696768743a20, 0x3c6220636c6173736c652671756f743b,
     0x2076616c75653d2220436f6d70616e79, 0x6578616d706c65733c696672616d6520,
     0x62656c696576657370726573656e7473, 0x6d61727368616c6c70617274206f6620,
     0x70726f7065726c79292e0a0a54686520, 0x7461786f6e6f6d796d756368206f6620,
     0x3c2f7370616e3e0a2220646174612d73, 0x7274756775c3aa737363726f6c6c546f,
     0x2070726f6a6563743c686561643e0d0a, 0x6174746f726e6579656d706861736973,
     0x73706f6e736f727366616e6379626f78, 0x776f726c6427732077696c646c696665,
     0x636865636b65643d73657373696f6e73, 0x70726f6772616d6d70783b666f6e742d,
     0x2050726f6a6563746a6f75726e616c73, 0x62656c69657665647661636174696f6e,
     0x74686f6d70736f6e6c69676874696e67, 0x616e6420746865207370656369616c20,
     0x626f726465723d30636865636b696e67, 0x3c2f74626f64793e3c627574746f6e20,
     0x436f6d706c657465636c656172666978, 0x0a3c686561643e0a61727469636c6520,
     0x3c73656374696f6e66696e64696e6773, 0x726f6c6520696e20706f70756c617220,
     0x204f63746f6265727765627369746520, 0x6578706f737572657573656420746f20,
     0x206368616e6765736f70657261746564, 0x636c69636b696e67656e746572696e67,
     0x636f6d6d616e6473696e666f726d6564, 0x206e756d6265727320203c2f6469763e,
     0x6372656174696e676f6e5375626d6974, 0x6d6172796c616e64636f6c6c65676573]"

lemma length_kBrotliDictionary_16 [simp]: "length kBrotliDictionary_16 = 2400"
  by (simp add: kBrotliDictionary_16_def)

definition kBrotliDictionary_17 :: "u8 list" where
  "kBrotliDictionary_17 = dict_rows [
     0x616e616c797469636c697374696e6773, 0x636f6e746163742e6c6f67676564496e,
     0x61647669736f72797369626c696e6773, 0x636f6e74656e7422732671756f743b29,
     0x732e2054686973207061636b61676573, 0x636865636b626f787375676765737473,
     0x707265676e616e74746f6d6f72726f77, 0x73706163696e673d69636f6e2e706e67,
     0x6a6170616e657365636f646562617365, 0x627574746f6e223e67616d626c696e67,
     0x73756368206173202c207768696c6520, 0x3c2f7370616e3e206d6973736f757269,
     0x73706f7274696e67746f703a31707820, 0x2e3c2f7370616e3e74656e73696f6e73,
     0x77696474683d22326c617a796c6f6164, 0x6e6f76656d6265727573656420696e20,
     0x6865696768743d226372697074223e0a, 0x266e6273703b3c2f3c74723e3c746420,
     0x6865696768743a322f70726f64756374, 0x636f756e74727920696e636c75646520,
     0x666f6f7465722220266c743b212d2d20, 0x7469746c65223e3c2f6a71756572792e,
     0x3c2f666f726d3e0a28e7ae80e4bd9329, 0x28e7b981e9ab94296872766174736b69,
     0x6974616c69616e6f726f6dc3a26ec483, 0x74c3bc726bc3a765d8a7d8b1d8afd988,
     0x74616d6269c3a96e6e6f746963696173, 0x6d656e73616a6573706572736f6e6173,
     0x6465726563686f736e6163696f6e616c, 0x736572766963696f636f6e746163746f,
     0x7573756172696f7370726f6772616d61, 0x676f626965726e6f656d707265736173,
     0x616e756e63696f7376616c656e636961, 0x636f6c6f6d6269616465737075c3a973,
     0x6465706f7274657370726f796563746f, 0x70726f647563746f70c3ba626c69636f,
     0x6e6f736f74726f73686973746f726961, 0x70726573656e74656d696c6c6f6e6573,
     0x6d656469616e746570726567756e7461, 0x616e746572696f727265637572736f73,
     0x70726f626c656d6173616e746961676f, 0x6e75657374726f736f70696e69c3b36e,
     0x696d7072696d69726d69656e74726173, 0x616dc3a97269636176656e6465646f72,
     0x736f636965646164726573706563746f, 0x7265616c697a6172726567697374726f,
     0x70616c6162726173696e746572c3a973, 0x656e746f6e636573657370656369616c,
     0x6d69656d62726f737265616c69646164, 0x63c3b372646f62617a617261676f7a61,
     0x70c3a167696e6173736f6369616c6573, 0x626c6f71756561726765737469c3b36e,
     0x616c7175696c657273697374656d6173, 0x6369656e63696173636f6d706c65746f,
     0x7665727369c3b36e636f6d706c657461, 0x6573747564696f7370c3ba626c696361,
     0x6f626a657469766f616c6963616e7465, 0x6275736361646f7263616e7469646164,
     0x656e747261646173616363696f6e6573, 0x6172636869766f737375706572696f72,
     0x6d61796f72c3ad61616c656d616e6961, 0x66756e6369c3b36ec3ba6c74696d6f73,
     0x68616369656e646f617175656c6c6f73, 0x6564696369c3b36e6665726e616e646f,
     0x616d6269656e746566616365626f6f6b, 0x6e75657374726173636c69656e746573,
     0x70726f6365736f7362617374616e7465, 0x70726573656e74617265706f72746172,
     0x636f6e677265736f7075626c69636172, 0x636f6d657263696f636f6e747261746f,
     0x6ac3b376656e6573646973747269746f, 0x74c3a9636e696361636f6e6a756e746f,
     0x656e657267c3ad6174726162616a6172, 0x617374757269617372656369656e7465,
     0x7574696c697a6172626f6c6574c3ad6e, 0x73616c7661646f72636f727265637461,
     0x74726162616a6f737072696d65726f73, 0x6e65676f63696f736c69626572746164,
     0x646574616c6c657370616e74616c6c61, 0x7072c3b378696d6f616c6d6572c3ad61,
     0x616e696d616c6573717569c3a96e6573, 0x636f72617ac3b36e7365636369c3b36e,
     0x62757363616e646f6f7063696f6e6573, 0x6578746572696f72636f6e636570746f,
     0x746f646176c3ad6167616c6572c3ad61, 0x65736372696269726d65646963696e61,
     0x6c6963656e636961636f6e73756c7461, 0x6173706563746f736372c3ad74696361,
     0x64c3b36c617265736a75737469636961, 0x6465626572c3a16e706572c3ad6f646f,
     0x6e656365736974616d616e74656e6572, 0x7065717565c3b16f7265636962696461,
     0x74726962756e616c74656e6572696665, 0x63616e6369c3b36e63616e6172696173,
     0x64657363617267616469766572736f73, 0x6d616c6c6f7263617265717569657265,
     0x74c3a9636e69636f6465626572c3ad61, 0x76697669656e646166696e616e7a6173,
     0x6164656c616e746566756e63696f6e61, 0x636f6e73656a6f73646966c3ad63696c,
     0x6369756461646573616e746967756173, 0x6176616e7a61646174c3a9726d696e6f,
     0x756e69646164657373c3a16e6368657a, 0x63616d7061c3b161736f66746f6e6963,
     0x7265766973746173636f6e7469656e65, 0x736563746f7265736d6f6d656e746f73,
     0x666163756c7461646372c3a96469746f, 0x6469766572736173737570756573746f,
     0x666163746f726573736567756e646f73, 0x7065717565c3b161d0b3d0bed0b4d0b0,
     0xd0b5d181d0bbd0b8d0b5d181d182d18c, 0xd0b1d18bd0bbd0bed0b1d18bd182d18c,
     0xd18dd182d0bed0bcd095d181d0bbd0b8, 0xd182d0bed0b3d0bed0bcd0b5d0bdd18f,
     0xd0b2d181d0b5d185d18dd182d0bed0b9, 0xd0b4d0b0d0b6d0b5d0b1d18bd0bbd0b8,
     0xd0b3d0bed0b4d183d0b4d0b5d0bdd18c, 0xd18dd182d0bed182d0b1d18bd0bbd0b0,
     0xd181d0b5d0b1d18fd0bed0b4d0b8d0bd, 0xd181d0b5d0b1d0b5d0bdd0b0d0b4d0be,
     0xd181d0b0d0b9d182d184d0bed182d0be, 0xd0bdd0b5d0b3d0bed181d0b2d0bed0b8,
     0xd181d0b2d0bed0b9d0b8d0b3d180d18b, 0xd182d0bed0b6d0b5d0b2d181d0b5d0bc,
     0xd181d0b2d0bed18ed0bbd0b8d188d18c, 0xd18dd182d0b8d185d0bfd0bed0bad0b0,
     0xd0b4d0bdd0b5d0b9d0b4d0bed0bcd0b0, 0xd0bcd0b8d180d0b0d0bbd0b8d0b1d0be,
     0xd182d0b5d0bcd183d185d0bed182d18f, 0xd0b4d0b2d183d185d181d0b5d182d0b8,
     0xd0bbd18ed0b4d0b8d0b4d0b5d0bbd0be, 0xd0bcd0b8d180d0b5d182d0b5d0b1d18f,
     0xd181d0b2d0bed0b5d0b2d0b8d0b4d0b5, 0xd187d0b5d0b3d0bed18dd182d0b8d0bc,
     0xd181d187d0b5d182d182d0b5d0bcd18b, 0xd186d0b5d0bdd18bd181d182d0b0d0bb,
     0xd0b2d0b5d0b4d18cd182d0b5d0bcd0b5, 0xd0b2d0bed0b4d18bd182d0b5d0b1d0b5,
     0xd0b2d18bd188d0b5d0bdd0b0d0bcd0b8, 0xd182d0b8d0bfd0b0d182d0bed0bcd183,
     0xd0bfd180d0b0d0b2d0bbd0b8d186d0b0, 0xd0bed0b4d0bdd0b0d0b3d0bed0b4d18b,
     0xd0b7d0bdd0b0d18ed0bcd0bed0b3d183, 0xd0b4d180d183d0b3d0b2d181d0b5d0b9,
     0xd0b8d0b4d0b5d182d0bad0b8d0bdd0be, 0xd0bed0b4d0bdd0bed0b4d0b5d0bbd0b0,
     0xd0b4d0b5d0bbd0b5d181d180d0bed0ba, 0xd0b8d18ed0bdd18fd0b2d0b5d181d18c,
     0xd095d181d182d18cd180d0b0d0b7d0b0, 0xd0bdd0b0d188d0b8d8a7d984d984d987]"

lemma length_kBrotliDictionary_17 [simp]: "length kBrotliDictionary_17 = 2400"
  by (simp add: kBrotliDictionary_17_def)

definition kBrotliDictionary_18 :: "u8 list" where
  "kBrotliDictionary_18 = dict_rows [
     0xd8a7d984d8aad98ad8acd985d98ad8b9, 0xd8aed8a7d8b5d8a9d8a7d984d8b0d98a,
     0xd8b9d984d98ad987d8acd8afd98ad8af, 0xd8a7d984d8a2d986d8a7d984d8b1d8af,
     0xd8aad8add983d985d8b5d981d8add8a9, 0xd983d8a7d986d8aad8a7d984d984d98a,
     0xd98ad983d988d986d8b4d8a8d983d8a9, 0xd981d98ad987d8a7d8a8d986d8a7d8aa,
     0xd8add988d8a7d8a1d8a3d983d8abd8b1, 0xd8aed984d8a7d984d8a7d984d8add8a8,
     0xd8afd984d98ad984d8afd8b1d988d8b3, 0xd8a7d8b6d8bad8b7d8aad983d988d986,
     0xd987d986d8a7d983d8b3d8a7d8add8a9, 0xd986d8a7d8afd98ad8a7d984d8b7d8a8,
     0xd8b9d984d98ad983d8b4d983d8b1d8a7, 0xd98ad985d983d986d985d986d987d8a7,
     0xd8b4d8b1d983d8a9d8b1d8a6d98ad8b3, 0xd986d8b4d98ad8b7d985d8a7d8b0d8a7,
     0xd8a7d984d981d986d8b4d8a8d8a7d8a8, 0xd8aad8b9d8a8d8b1d8b1d8add985d8a9,
     0xd983d8a7d981d8a9d98ad982d988d984, 0xd985d8b1d983d8b2d983d984d985d8a9,
     0xd8a3d8add985d8afd982d984d8a8d98a, 0xd98ad8b9d986d98ad8b5d988d8b1d8a9,
     0xd8b7d8b1d98ad982d8b4d8a7d8b1d983, 0xd8acd988d8a7d984d8a3d8aed8b1d989,
     0xd985d8b9d986d8a7d8a7d8a8d8add8ab, 0xd8b9d8b1d988d8b6d8a8d8b4d983d984,
     0xd985d8b3d8acd984d8a8d986d8a7d986, 0xd8aed8a7d984d8afd983d8aad8a7d8a8,
     0xd983d984d98ad8a9d8a8d8afd988d986, 0xd8a3d98ad8b6d8a7d98ad988d8acd8af,
     0xd981d8b1d98ad982d983d8aad8a8d8aa, 0xd8a3d981d8b6d984d985d8b7d8a8d8ae,
     0xd8a7d983d8abd8b1d8a8d8a7d8b1d983, 0xd8a7d981d8b6d984d8a7d8add984d989,
     0xd986d981d8b3d987d8a3d98ad8a7d985, 0xd8b1d8afd988d8afd8a3d986d987d8a7,
     0xd8afd98ad986d8a7d8a7d984d8a7d986, 0xd985d8b9d8b1d8b6d8aad8b9d984d985,
     0xd8afd8a7d8aed984d985d985d983d986, 0x00000000000000000100010001000100,
     0x02000200020002000400040004000400, 0x00010203040506070706050403020100,
     0x08090a0b0c0d0e0f0f0e0d0c0b0a0908, 0x10111213141516171716151413121110,
     0x18191a1b1c1d1e1f1f1e1d1c1b1a1918, 0xffffffff0000000000000000ffffffff,
     0x01000000020000000200000001000000, 0x0100000003000000ffff000100000001,
     0x0000ffff000100000008000800080008, 0x00000001000200030004000500060007,
     0x7265736f7572636573636f756e747269, 0x65737175657374696f6e736571756970,
     0x6d656e74636f6d6d756e697479617661, 0x696c61626c65686967686c6967687444,
     0x54442f7868746d6c6d61726b6574696e, 0x676b6e6f776c65646765736f6d657468,
     0x696e67636f6e7461696e657264697265, 0x6374696f6e7375627363726962656164,
     0x76657274697365636861726163746572, 0x222076616c75653d223c2f73656c6563,
     0x743e4175737472616c69612220636c61, 0x73733d22736974756174696f6e617574,
     0x686f72697479666f6c6c6f77696e6770, 0x72696d6172696c796f7065726174696f,
     0x6e6368616c6c656e6765646576656c6f, 0x706564616e6f6e796d6f757366756e63,
     0x74696f6e2066756e6374696f6e73636f, 0x6d70616e696573737472756374757265,
     0x61677265656d656e7422207469746c65, 0x3d22706f74656e7469616c6564756361,
     0x74696f6e617267756d656e7473736563, 0x6f6e64617279636f707972696768746c,
     0x616e6775616765736578636c75736976, 0x65636f6e646974696f6e3c2f666f726d,
     0x3e0d0a73746174656d656e7461747465, 0x6e74696f6e42696f6772617068797d20,
     0x656c7365207b0a736f6c7574696f6e73, 0x7768656e2074686520416e616c797469,
     0x637374656d706c6174657364616e6765, 0x726f7573736174656c6c697465646f63,
     0x756d656e74737075626c697368657269, 0x6d706f7274616e7470726f746f747970,
     0x65696e666c75656e636526726171756f, 0x3b3c2f65666665637469766567656e65,
     0x72616c6c797472616e73666f726d6265, 0x6175746966756c7472616e73706f7274,
     0x6f7267616e697a65647075626c697368, 0x656470726f6d696e656e74756e74696c,
     0x207468657468756d626e61696c4e6174, 0x696f6e616c202e666f63757328293b6f,
     0x76657220746865206d6967726174696f, 0x6e616e6e6f756e636564666f6f746572,
     0x223e0a657863657074696f6e6c657373, 0x207468616e657870656e73697665666f,
     0x726d6174696f6e6672616d65776f726b, 0x7465727269746f72796e646963617469,
     0x6f6e63757272656e746c79636c617373, 0x4e616d6563726974696369736d747261,
     0x646974696f6e656c7365776865726541, 0x6c6578616e6465726170706f696e7465,
     0x646d6174657269616c7362726f616463, 0x6173746d656e74696f6e656461666669,
     0x6c696174653c2f6f7074696f6e3e7472, 0x6561746d656e74646966666572656e74,
     0x2f64656661756c742e50726573696465, 0x6e746f6e636c69636b3d2262696f6772,
     0x617068796f7468657277697365706572, 0x6d616e656e744672616ec3a761697348,
     0x6f6c6c79776f6f64657870616e73696f, 0x6e7374616e64617264733c2f7374796c,
     0x653e0a726564756374696f6e44656365, 0x6d626572207072656665727265644361,
     0x6d6272696467656f70706f6e656e7473, 0x427573696e65737320636f6e66757369,
     0x6f6e3e0a3c7469746c653e7072657365, 0x6e7465646578706c61696e6564646f65,
     0x73206e6f7420776f726c647769646569, 0x6e74657266616365706f736974696f6e,
     0x736e65777370617065723c2f7461626c, 0x653e0a6d6f756e7461696e736c696b65,
     0x2074686520657373656e7469616c6669, 0x6e616e6369616c73656c656374696f6e,
     0x616374696f6e3d222f6162616e646f6e, 0x6564456475636174696f6e7061727365,
     0x496e742873746162696c697479756e61, 0x626c6520746f3c2f7469746c653e0a72,
     0x656c6174696f6e734e6f746520746861, 0x74656666696369656e74706572666f72,
     0x6d656474776f20796561727353696e63, 0x65207468657468657265666f72657772,
     0x6170706572223e616c7465726e617465, 0x696e63726561736564426174746c6520,
     0x6f66706572636569766564747279696e, 0x6720746f6e6563657373617279706f72,
     0x747261796564656c656374696f6e7345, 0x6c697a61626574683c2f696672616d65,
     0x3e646973636f76657279696e73757261, 0x6e6365732e6c656e6774683b6c656765,
     0x6e6461727947656f6772617068796361, 0x6e646964617465636f72706f72617465,
     0x736f6d6574696d657373657276696365, 0x732e696e686572697465643c2f737472,
     0x6f6e673e436f6d6d756e69747972656c, 0x6967696f75736c6f636174696f6e7343,
     0x6f6d6d69747465656275696c64696e67, 0x7374686520776f726c646e6f206c6f6e,
     0x676572626567696e6e696e6772656665, 0x72656e636563616e6e6f742062656672]"

lemma length_kBrotliDictionary_18 [simp]: "length kBrotliDictionary_18 = 2400"
  by (simp add: kBrotliDictionary_18_def)

definition kBrotliDictionary_19 :: "u8 list" where
  "kBrotliDictionary_19 = dict_rows [
     0x657175656e63797479706963616c6c79, 0x696e746f207468652072656c61746976,
     0x653b7265636f7264696e677072657369, 0x64656e74696e697469616c6c79746563,
     0x686e69717565746865206f7468657269, 0x742063616e2062656578697374656e63,
     0x65756e6465726c696e65746869732074, 0x696d6574656c6570686f6e656974656d,
     0x73636f70657072616374696365736164, 0x76616e74616765293b72657475726e20,
     0x466f72206f7468657270726f76696469, 0x6e6764656d6f6372616379626f746820,
     0x74686520657874656e73697665737566, 0x666572696e67737570706f7274656463,
     0x6f6d7075746572732066756e6374696f, 0x6e70726163746963616c736169642074,
     0x6861746974206d6179206265456e676c, 0x6973683c2f66726f6d20746865207363,
     0x686564756c6564646f776e6c6f616473, 0x3c2f6c6162656c3e0a73757370656374,
     0x65646d617267696e3a20307370697269, 0x7475616c3c2f686561643e0a0a6d6963,
     0x726f736f66746772616475616c6c7964, 0x6973637573736564686520626563616d,
     0x656578656375746976656a7175657279, 0x2e6a73686f757365686f6c64636f6e66,
     0x69726d65647075726368617365646c69, 0x746572616c6c7964657374726f796564,
     0x757020746f2074686576617269617469, 0x6f6e72656d61696e696e676974206973,
     0x206e6f7463656e7475726965734a6170, 0x616e65736520616d6f6e672074686563,
     0x6f6d706c65746564616c676f72697468, 0x6d696e74657265737473726562656c6c,
     0x696f6e756e646566696e6564656e636f, 0x7572616765726573697a61626c65696e,
     0x766f6c76696e6773656e736974697665, 0x756e6976657273616c70726f76697369,
     0x6f6e28616c74686f7567686665617475, 0x72696e67636f6e647563746564292c20,
     0x776869636820636f6e74696e7565642d, 0x686561646572223e4665627275617279,
     0x206e756d65726f7573206f766572666c, 0x6f773a636f6d706f6e656e7466726167,
     0x6d656e7473657863656c6c656e74636f, 0x6c7370616e3d22746563686e6963616c,
     0x6e6561722074686520416476616e6365, 0x6420736f75726365206f666578707265,
     0x73736564486f6e67204b6f6e67204661, 0x6365626f6f6b6d756c7469706c65206d,
     0x656368616e69736d656c65766174696f, 0x6e6f6666656e736976653c2f666f726d,
     0x3e0a0973706f6e736f726564646f6375, 0x6d656e742e6f72202671756f743b7468,
     0x6572652061726574686f73652077686f, 0x6d6f76656d656e747370726f63657373,
     0x6573646966666963756c747375626d69, 0x747465647265636f6d6d656e64636f6e,
     0x76696e63656470726f6d6f74696e6722, 0x2077696474683d222e7265706c616365,
     0x28636c6173736963616c636f616c6974, 0x696f6e68697320666972737464656369,
     0x73696f6e73617373697374616e74696e, 0x6469636174656465766f6c7574696f6e,
     0x2d7772617070657222656e6f75676820, 0x746f616c6f6e672074686564656c6976,
     0x657265642d2d3e0d0a3c212d2d416d65, 0x726963616e2070726f7465637465644e,
     0x6f76656d626572203c2f7374796c653e, 0x3c6675726e6974757265496e7465726e,
     0x657420206f6e626c75723d2273757370, 0x656e646564726563697069656e746261,
     0x736564206f6e204d6f72656f7665722c, 0x61626f6c6973686564636f6c6c656374,
     0x656477657265206d616465656d6f7469, 0x6f6e616c656d657267656e63796e6172,
     0x7261746976656164766f636174657370, 0x783b626f72646572636f6d6d69747465,
     0x646469723d226c747222656d706c6f79, 0x65657372657365617263682e2073656c,
     0x6563746564737563636573736f726375, 0x73746f6d657273646973706c61796564,
     0x53657074656d626572616464436c6173, 0x732846616365626f6f6b207375676765,
     0x73746564616e64206c617465726f7065, 0x726174696e67656c61626f7261746553,
     0x6f6d6574696d6573496e737469747574, 0x656365727461696e6c79696e7374616c,
     0x6c6564666f6c6c6f776572734a657275, 0x73616c656d746865792068617665636f,
     0x6d707574696e6767656e657261746564, 0x70726f76696e63657367756172616e74,
     0x65656172626974726172797265636f67, 0x6e697a6577616e74656420746f70783b,
     0x77696474683a7468656f7279206f6662, 0x65686176696f75725768696c65207468,
     0x65657374696d61746564626567616e20, 0x746f20697420626563616d656d61676e,
     0x69747564656d75737420686176656d6f, 0x7265207468616e4469726563746f7279,
     0x657874656e73696f6e73656372657461, 0x72796e61747572616c6c796f63637572,
     0x72696e677661726961626c6573676976, 0x656e20746865706c6174666f726d2e3c,
     0x2f6c6162656c3e3c6661696c65642074, 0x6f636f6d706f756e64736b696e647320,
     0x6f6620736f63696574696573616c6f6e, 0x6773696465202d2d2667743b0a0a736f,
     0x75746877657374746865207269676874, 0x726164696174696f6e6d617920686176,
     0x6520756e6573636170652873706f6b65, 0x6e20696e2220687265663d222f70726f,
     0x6772616d6d656f6e6c79207468652063, 0x6f6d652066726f6d6469726563746f72,
     0x7962757269656420696e612073696d69, 0x6c61727468657920776572653c2f666f,
     0x6e743e3c2f4e6f7277656769616e7370, 0x6563696669656470726f647563696e67,
     0x70617373656e676572286e6577204461, 0x746574656d706f726172796669637469,
     0x6f6e616c416674657220746865657175, 0x6174696f6e73646f776e6c6f61642e72,
     0x6567756c61726c79646576656c6f7065, 0x7261626f7665207468656c696e6b6564,
     0x20746f7068656e6f6d656e6170657269, 0x6f64206f66746f6f6c746970223e7375,
     0x627374616e63656175746f6d61746963, 0x617370656374206f66416d6f6e672074,
     0x6865636f6e6e6563746564657374696d, 0x6174657341697220466f726365737973,
     0x74656d206f666f626a65637469766569, 0x6d6d6564696174656d616b696e672069,
     0x747061696e74696e6773636f6e717565, 0x726564617265207374696c6c70726f63,
     0x656475726567726f777468206f666865, 0x616465642062794575726f7065616e20,
     0x6469766973696f6e736d6f6c6563756c, 0x65736672616e6368697365696e74656e,
     0x74696f6e617474726163746564636869, 0x6c64686f6f64616c736f207573656464,
     0x656469636174656473696e6761706f72, 0x65646567726565206f66666174686572,
     0x206f66636f6e666c696374733c2f613e, 0x3c2f703e0a63616d652066726f6d7765,
     0x726520757365646e6f74652074686174, 0x726563656976696e6745786563757469,
     0x76656576656e206d6f72656163636573, 0x7320746f636f6d6d616e646572506f6c,
     0x69746963616c6d7573696369616e7364, 0x656c6963696f7573707269736f6e6572]"

lemma length_kBrotliDictionary_19 [simp]: "length kBrotliDictionary_19 = 2400"
  by (simp add: kBrotliDictionary_19_def)

definition kBrotliDictionary_20 :: "u8 list" where
  "kBrotliDictionary_20 = dict_rows [
     0x73616476656e74206f665554462d3822, 0x202f3e3c215b43444154415b223e436f,
     0x6e74616374536f75746865726e206267, 0x636f6c6f723d22736572696573206f66,
     0x2e2049742077617320696e204575726f, 0x70657065726d697474656476616c6964,
     0x6174652e617070656172696e676f6666, 0x696369616c73736572696f75736c792d,
     0x6c616e6775616765696e697469617465, 0x64657874656e64696e676c6f6e672d74,
     0x65726d696e666c6174696f6e73756368, 0x2074686174676574436f6f6b69656d61,
     0x726b65642062793c2f627574746f6e3e, 0x696d706c656d656e7462757420697420,
     0x6973696e63726561736573646f776e20, 0x74686520726571756972696e67646570,
     0x656e64656e742d2d3e0a3c212d2d2069, 0x6e746572766965775769746820746865,
     0x20636f70696573206f66636f6e73656e, 0x737573776173206275696c7456656e65,
     0x7a75656c6128666f726d65726c797468, 0x65207374617465706572736f6e6e656c,
     0x7374726174656769636661766f757220, 0x6f66696e76656e74696f6e57696b6970,
     0x65646961636f6e74696e656e74766972, 0x7475616c6c7977686963682077617370,
     0x72696e6369706c65436f6d706c657465, 0x206964656e746963616c73686f772074,
     0x6861747072696d697469766561776179, 0x2066726f6d6d6f6c6563756c61727072,
     0x65636973656c79646973736f6c766564, 0x556e6465722074686576657273696f6e,
     0x3d223e266e6273703b3c2f4974206973, 0x2074686520546869732069732077696c,
     0x6c20686176656f7267616e69736d7373, 0x6f6d652074696d654672696564726963,
     0x68776173206669727374746865206f6e, 0x6c7920666163742074686174666f726d,
     0x2069643d22707265636564696e675465, 0x63686e6963616c706879736963697374,
     0x6f636375727320696e6e617669676174, 0x6f7273656374696f6e223e7370616e20,
     0x69643d22736f7567687420746f62656c, 0x6f7720746865737572766976696e677d,
     0x3c2f7374796c653e6869732064656174, 0x68617320696e20746865636175736564,
     0x2062797061727469616c6c7965786973, 0x74696e67207573696e67207468657761,
     0x7320676976656e61206c697374206f66, 0x6c6576656c73206f666e6f74696f6e20,
     0x6f664f6666696369616c206469736d69, 0x73736564736369656e74697374726573,
     0x656d626c65736475706c696361746565, 0x78706c6f736976657265636f76657265,
     0x64616c6c206f7468657267616c6c6572, 0x6965737b70616464696e673a70656f70,
     0x6c65206f66726567696f6e206f666164, 0x647265737365736173736f6369617465,
     0x696d6720616c743d22696e206d6f6465, 0x726e73686f756c642062656d6574686f,
     0x64206f667265706f7274696e6774696d, 0x657374616d706e656564656420746f74,
     0x6865204772656174726567617264696e, 0x677365656d656420746f766965776564,
     0x206173696d70616374206f6e69646561, 0x207468617474686520576f726c646865,
     0x69676874206f66657870616e64696e67, 0x54686573652061726563757272656e74,
     0x223e6361726566756c6c796d61696e74, 0x61696e73636861726765206f66436c61,
     0x73736963616c61646472657373656470, 0x72656469637465646f776e6572736869,
     0x703c6469762069643d22726967687422, 0x3e0d0a7265736964656e63656c656176,
     0x6520746865636f6e74656e74223e6172, 0x65206f6674656e20207d2928293b0d0a,
     0x70726f6261626c792050726f66657373, 0x6f722d627574746f6e2220726573706f,
     0x6e646564736179732074686174686164, 0x20746f206265706c6163656420696e48,
     0x756e67617269616e737461747573206f, 0x66736572766573206173556e69766572,
     0x73616c657865637574696f6e61676772, 0x6567617465666f72207768696368696e,
     0x66656374696f6e61677265656420746f, 0x686f77657665722c20706f70756c6172,
     0x223e706c61636564206f6e636f6e7374, 0x72756374656c6563746f72616c73796d,
     0x626f6c206f66696e636c7564696e6772, 0x657475726e20746f6172636869746563,
     0x7443687269737469616e70726576696f, 0x7573206c6976696e6720696e65617369,
     0x657220746f70726f666573736f720a26, 0x6c743b212d2d20656666656374206f66,
     0x616e616c79746963737761732074616b, 0x656e776865726520746865746f6f6b20,
     0x6f76657262656c69656620696e416672, 0x696b61616e7361732066617220617370,
     0x726576656e746564776f726b20776974, 0x6861207370656369616c3c6669656c64,
     0x7365744368726973746d617352657472, 0x69657665640a0a496e20746865206261,
     0x636b20696e746f6e6f72746865617374, 0x6d6167617a696e65733e3c7374726f6e,
     0x673e636f6d6d6974746565676f766572, 0x6e696e6767726f757073206f6673746f,
     0x72656420696e65737461626c69736861, 0x2067656e6572616c6974732066697273,
     0x747468656972206f776e706f70756c61, 0x746564616e206f626a65637443617269,
     0x626265616e616c6c6f77207468656469, 0x73747269637473776973636f6e73696e,
     0x6c6f636174696f6e2e3b207769647468, 0x3a20696e68616269746564536f636961,
     0x6c6973744a616e7561727920313c2f66, 0x6f6f7465723e73696d696c61726c7963,
     0x686f696365206f667468652073616d65, 0x20737065636966696320627573696e65,
     0x7373205468652066697273742e6c656e, 0x6774683b2064657369726520746f6465,
     0x616c207769746873696e636520746865, 0x757365724167656e74636f6e63656976,
     0x6564696e6465782e7068706173202671, 0x756f743b656e6761676520696e726563,
     0x656e746c792c66657720796561727377, 0x65726520616c736f0a3c686561643e0a,
     0x3c656469746564206279617265206b6e, 0x6f776e63697469657320696e61636365,
     0x73736b6579636f6e64656d6e6564616c, 0x736f206861766573657276696365732c,
     0x66616d696c79206f665363686f6f6c20, 0x6f66636f6e7665727465646e61747572,
     0x65206f66206c616e67756167656d696e, 0x6973746572733c2f6f626a6563743e74,
     0x68657265206973206120706f70756c61, 0x7273657175656e6365736164766f6361,
     0x746564546865792077657265616e7920, 0x6f746865726c6f636174696f6e3d656e,
     0x746572207468656d756368206d6f7265, 0x7265666c6563746564776173206e616d,
     0x65646f726967696e616c206120747970, 0x6963616c7768656e2074686579656e67,
     0x696e65657273636f756c64206e6f7472, 0x65736964656e74737765646e65736461,
     0x797468652074686972642070726f6475, 0x6374734a616e75617279203277686174,
     0x207468657961206365727461696e7265, 0x616374696f6e7370726f636573736f72,
     0x616674657220686973746865206c6173, 0x7420636f6e7461696e6564223e3c2f64]"

lemma length_kBrotliDictionary_20 [simp]: "length kBrotliDictionary_20 = 2400"
  by (simp add: kBrotliDictionary_20_def)

definition kBrotliDictionary_21 :: "u8 list" where
  "kBrotliDictionary_21 = dict_rows [
     0x69763e0a3c2f613e3c2f74643e646570, 0x656e64206f6e736561726368223e0a70,
     0x6965636573206f66636f6d706574696e, 0x675265666572656e636574656e6e6573,
     0x73656577686963682068617320766572, 0x73696f6e3d3c2f7370616e3e203c3c2f,
     0x6865616465723e676976657320746865, 0x686973746f7269616e76616c75653d22,
     0x223e70616464696e673a307669657720, 0x74686174746f6765746865722c746865,
     0x206d6f73742077617320666f756e6473, 0x7562736574206f6661747461636b206f,
     0x6e6368696c6472656e2c706f696e7473, 0x206f66706572736f6e616c20706f7369,
     0x74696f6e3a616c6c656765646c79436c, 0x6576656c616e64776173206c61746572,
     0x616e6420616674657261726520676976, 0x656e776173207374696c6c7363726f6c,
     0x6c696e6764657369676e206f666d616b, 0x6573207468656d756368206c65737341,
     0x6d65726963616e732e0a0a4166746572, 0x202c20627574207468654d757365756d,
     0x206f666c6f75697369616e612866726f, 0x6d207468656d696e6e65736f74617061,
     0x727469636c6573612070726f63657373, 0x446f6d696e6963616e766f6c756d6520,
     0x6f6672657475726e696e67646566656e, 0x73697665303070787c726967686d6164,
     0x652066726f6d6d6f7573656f76657222, 0x207374796c653d22737461746573206f,
     0x66287768696368206973636f6e74696e, 0x7565734672616e636973636f6275696c,
     0x64696e6720776974686f757420617769, 0x746820736f6d6577686f20776f756c64,
     0x6120666f726d206f6661207061727420, 0x6f666265666f72652069746b6e6f776e,
     0x206173202053657276696365736c6f63, 0x6174696f6e20616e64206f6674656e6d,
     0x6561737572696e67616e642069742069, 0x7370617065726261636b76616c756573,
     0x206f660d0a3c7469746c653e3d207769, 0x6e646f772e64657465726d696e656572,
     0x2671756f743b20706c61796564206279, 0x616e64206561726c793c2f63656e7465,
     0x723e66726f6d20746869737468652074, 0x68726565706f77657220616e646f6620,
     0x2671756f743b696e6e657248544d4c3c, 0x6120687265663d22793a696e6c696e65,
     0x3b436875726368206f66746865206576, 0x656e747665727920686967686f666669,
     0x6369616c202d6865696768743a20636f, 0x6e74656e743d222f6367692d62696e2f,
     0x746f20637265617465616672696b6161, 0x6e736573706572616e746f6672616ec3,
     0xa76169736c6174766965c5a1756c6965, 0x74757669c5b3c48c65c5a174696e61c4,
     0x8d65c5a174696e61e0b984e0b897e0b8, 0xa2e697a5e69cace8aa9ee7ae80e4bd93,
     0xe5ad97e7b981e9ab94e5ad97ed959cea, 0xb5adec96b4e4b8bae4bb80e4b988e8ae,
     0xa1e7ae97e69cbae7ac94e8aeb0e69cac, 0xe8a88ee8ab96e58d80e69c8de58aa1e5,
     0x99a8e4ba92e88194e7bd91e688bfe59c, 0xb0e4baa7e4bfb1e4b990e983a8e587ba,
     0xe78988e7a4bee68e92e8a18ce6a69ce9, 0x83a8e890bde6a0bce8bf9be4b880e6ad,
     0xa5e694afe4bb98e5ae9de9aa8ce8af81, 0xe7a081e5a794e59198e4bc9ae695b0e6,
     0x8daee5ba93e6b688e8b4b9e88085e58a, 0x9ee585ace5aea4e8aea8e8aebae58cba,
     0xe6b7b1e59cb3e5b882e692ade694bee5, 0x99a8e58c97e4baace5b882e5a4a7e5ad,
     0xa6e7949fe8b68ae69da5e8b68ae7aea1, 0xe79086e59198e4bfa1e681afe7bd9173,
     0x6572766963696f73617274c3ad63756c, 0x6f617267656e74696e6162617263656c,
     0x6f6e616375616c71756965727075626c, 0x696361646f70726f647563746f73706f,
     0x6cc3ad74696361726573707565737461, 0x77696b6970656469617369677569656e,
     0x746562c3ba737175656461636f6d756e, 0x69646164736567757269646164707269,
     0x6e636970616c70726567756e74617363, 0x6f6e74656e69646f726573706f6e6465,
     0x7276656e657a75656c6170726f626c65, 0x6d617364696369656d62726572656c61,
     0x6369c3b36e6e6f7669656d6272657369, 0x6d696c6172657370726f796563746f73,
     0x70726f6772616d6173696e7374697475, 0x746f616374697669646164656e637565,
     0x6e74726165636f6e6f6dc3ad61696dc3, 0xa167656e6573636f6e74616374617264,
     0x65736361726761726e65636573617269, 0x6f6174656e6369c3b36e74656cc3a966,
     0x6f6e6f636f6d697369c3b36e63616e63, 0x696f6e6573636170616369646164656e,
     0x636f6e74726172616ec3a16c69736973, 0x6661766f7269746f7374c3a9726d696e,
     0x6f7370726f76696e6369616574697175, 0x65746173656c656d656e746f7366756e,
     0x63696f6e6573726573756c7461646f63, 0x6172c3a16374657270726f7069656461,
     0x647072696e636970696f6e6563657369, 0x6461646d756e69636970616c63726561,
     0x6369c3b36e6465736361726761737072, 0x6573656e636961636f6d65726369616c,
     0x6f70696e696f6e6573656a6572636963, 0x696f656469746f7269616c73616c616d,
     0x616e6361676f6e7ac3a16c657a646f63, 0x756d656e746f70656cc3ad63756c6172,
     0x656369656e74657367656e6572616c65, 0x737461727261676f6e617072c3a16374,
     0x6963616e6f7665646164657370726f70, 0x756573746170616369656e74657374c3,
     0xa9636e696361736f626a657469766f73, 0x636f6e746163746f73e0a4aee0a587e0,
     0xa482e0a4b2e0a4bfe0a48fe0a4b9e0a5, 0x88e0a482e0a497e0a4afe0a4bee0a4b8,
     0xe0a4bee0a4a5e0a48fe0a4b5e0a482e0, 0xa4b0e0a4b9e0a587e0a495e0a58be0a4,
     0x88e0a495e0a581e0a49be0a4b0e0a4b9, 0xe0a4bee0a4ace0a4bee0a4a6e0a495e0,
     0xa4b9e0a4bee0a4b8e0a4ade0a580e0a4, 0xb9e0a581e0a48fe0a4b0e0a4b9e0a580,
     0xe0a4aee0a588e0a482e0a4a6e0a4bfe0, 0xa4a8e0a4ace0a4bee0a4a46469706c6f,
     0x646f6373e0a4b8e0a4aee0a4afe0a4b0, 0xe0a582e0a4aae0a4a8e0a4bee0a4aee0,
     0xa4aae0a4a4e0a4bee0a4abe0a4bfe0a4, 0xb0e0a494e0a4b8e0a4a4e0a4a4e0a4b0,
     0xe0a4b9e0a4b2e0a58be0a497e0a4b9e0, 0xa581e0a486e0a4ace0a4bee0a4b0e0a4,
     0xa6e0a587e0a4b6e0a4b9e0a581e0a488, 0xe0a496e0a587e0a4b2e0a4afe0a4a6e0,
     0xa4bfe0a495e0a4bee0a4aee0a4b5e0a5, 0x87e0a4ace0a4a4e0a580e0a4a8e0a4ac,
     0xe0a580e0a49ae0a4aee0a58ce0a4a4e0, 0xa4b8e0a4bee0a4b2e0a4b2e0a587e0a4,
     0x96e0a49ce0a589e0a4ace0a4aee0a4a6, 0xe0a4a6e0a4a4e0a4a5e0a4bee0a4a8e0,
     0xa4b9e0a580e0a4b6e0a4b9e0a4b0e0a4, 0x85e0a4b2e0a497e0a495e0a4ade0a580,
     0xe0a4a8e0a497e0a4b0e0a4aae0a4bee0, 0xa4b8e0a4b0e0a4bee0a4a4e0a495e0a4,
     0xbfe0a48fe0a489e0a4b8e0a587e0a497, 0xe0a4afe0a580e0a4b9e0a582e0a481e0,
     0xa486e0a497e0a587e0a49fe0a580e0a4, 0xaee0a496e0a58be0a49ce0a495e0a4be,
     0xe0a4b0e0a485e0a4ade0a580e0a497e0, 0xa4afe0a587e0a4a4e0a581e0a4aee0a4]"

lemma length_kBrotliDictionary_21 [simp]: "length kBrotliDictionary_21 = 2400"
  by (simp add: kBrotliDictionary_21_def)

definition kBrotliDictionary_22 :: "u8 list" where
  "kBrotliDictionary_22 = dict_rows [
     0xb5e0a58be0a49fe0a4a6e0a587e0a482, 0xe0a485e0a497e0a4b0e0a490e0a4b8e0,
     0xa587e0a4aee0a587e0a4b2e0a4b2e0a4, 0x97e0a4bee0a4b9e0a4bee0a4b2e0a48a,
     0xe0a4aae0a4b0e0a49ae0a4bee0a4b0e0, 0xa490e0a4b8e0a4bee0a4a6e0a587e0a4,
     0xb0e0a49ce0a4bfe0a4b8e0a4a6e0a4bf, 0xe0a4b2e0a4ace0a482e0a4a6e0a4ace0,
     0xa4a8e0a4bee0a4b9e0a582e0a482e0a4, 0xb2e0a4bee0a496e0a49ce0a580e0a4a4,
     0xe0a4ace0a49fe0a4a8e0a4aee0a4bfe0, 0xa4b2e0a487e0a4b8e0a587e0a486e0a4,
     0xa8e0a587e0a4a8e0a4afe0a4bee0a495, 0xe0a581e0a4b2e0a4b2e0a589e0a497e0,
     0xa4ade0a4bee0a497e0a4b0e0a587e0a4, 0xb2e0a49ce0a497e0a4b9e0a4b0e0a4be,
     0xe0a4aee0a4b2e0a497e0a587e0a4aae0, 0xa587e0a49ce0a4b9e0a4bee0a4a5e0a4,
     0x87e0a4b8e0a580e0a4b8e0a4b9e0a580, 0xe0a495e0a4b2e0a4bee0a4a0e0a580e0,
     0xa495e0a4b9e0a4bee0a481e0a4a6e0a5, 0x82e0a4b0e0a4a4e0a4b9e0a4a4e0a4b8,
     0xe0a4bee0a4a4e0a4afe0a4bee0a4a6e0, 0xa486e0a4afe0a4bee0a4aae0a4bee0a4,
     0x95e0a495e0a58ce0a4a8e0a4b6e0a4be, 0xe0a4aee0a4a6e0a587e0a496e0a4afe0,
     0xa4b9e0a580e0a4b0e0a4bee0a4afe0a4, 0x96e0a581e0a4a6e0a4b2e0a497e0a580,
     0x63617465676f72696573657870657269, 0x656e63653c2f7469746c653e0d0a436f,
     0x70797269676874206a61766173637269, 0x7074636f6e646974696f6e7365766572,
     0x797468696e673c7020636c6173733d22, 0x746563686e6f6c6f67796261636b6772,
     0x6f756e643c6120636c6173733d226d61, 0x6e6167656d656e7426636f70793b2032,
     0x30316a61766153637269707463686172, 0x61637465727362726561646372756d62,
     0x7468656d73656c766573686f72697a6f, 0x6e74616c676f7665726e6d656e744361,
     0x6c69666f726e69616163746976697469, 0x6573646973636f76657265644e617669,
     0x676174696f6e7472616e736974696f6e, 0x636f6e6e656374696f6e6e6176696761,
     0x74696f6e617070656172616e63653c2f, 0x7469746c653e3c6d636865636b626f78,
     0x2220746563686e697175657370726f74, 0x656374696f6e6170706172656e746c79,
     0x61732077656c6c206173756e74272c20, 0x2755412d7265736f6c7574696f6e6f70,
     0x65726174696f6e7374656c6576697369, 0x6f6e7472616e736c6174656457617368,
     0x696e67746f6e6e6176696761746f722e, 0x203d2077696e646f772e696d70726573,
     0x73696f6e266c743b62722667743b6c69, 0x7465726174757265706f70756c617469,
     0x6f6e6267636f6c6f723d222365737065, 0x6369616c6c7920636f6e74656e743d22,
     0x70726f64756374696f6e6e6577736c65, 0x7474657270726f706572746965736465,
     0x66696e6974696f6e6c65616465727368, 0x6970546563686e6f6c6f67795061726c,
     0x69616d656e74636f6d70617269736f6e, 0x756c20636c6173733d222e696e646578,
     0x4f662822636f6e636c7573696f6e6469, 0x7363757373696f6e636f6d706f6e656e,
     0x747362696f6c6f676963616c5265766f, 0x6c7574696f6e5f636f6e7461696e6572,
     0x756e64657273746f6f646e6f73637269, 0x70743e3c7065726d697373696f6e6561,
     0x6368206f7468657261746d6f73706865, 0x7265206f6e666f6375733d223c666f72,
     0x6d2069643d2270726f63657373696e67, 0x746869732e76616c756567656e657261,
     0x74696f6e436f6e666572656e63657375, 0x6273657175656e7477656c6c2d6b6e6f,
     0x776e766172696174696f6e7372657075, 0x746174696f6e7068656e6f6d656e6f6e,
     0x6469736369706c696e656c6f676f2e70, 0x6e67222028646f63756d656e742c626f,
     0x756e6461726965736578707265737369, 0x6f6e736574746c656d656e744261636b,
     0x67726f756e646f7574206f6620746865, 0x656e7465727072697365282268747470,
     0x733a2220756e65736361706528227061, 0x7373776f7264222064656d6f63726174,
     0x69633c6120687265663d222f77726170, 0x706572223e0a6d656d62657273686970,
     0x6c696e6775697374696370783b706164, 0x64696e677068696c6f736f7068796173,
     0x73697374616e6365756e697665727369, 0x7479666163696c69746965737265636f,
     0x676e697a6564707265666572656e6365, 0x69662028747970656f666d61696e7461,
     0x696e6564766f636162756c6172796879, 0x706f7468657369732e7375626d697428,
     0x293b26616d703b6e6273703b616e6e6f, 0x746174696f6e626568696e6420746865,
     0x466f756e646174696f6e7075626c6973, 0x68657222617373756d7074696f6e696e,
     0x74726f6475636564636f727275707469, 0x6f6e736369656e74697374736578706c,
     0x696369746c79696e7374656164206f66, 0x64696d656e73696f6e73206f6e436c69,
     0x636b3d22636f6e736964657265646465, 0x706172746d656e746f63637570617469,
     0x6f6e736f6f6e206166746572696e7665, 0x73746d656e7470726f6e6f756e636564,
     0x6964656e746966696564657870657269, 0x6d656e744d616e6167656d656e746765,
     0x6f677261706869632220686569676874, 0x3d226c696e6b2072656c3d222e726570,
     0x6c616365282f64657072657373696f6e, 0x636f6e666572656e636570756e697368,
     0x6d656e74656c696d696e617465647265, 0x73697374616e63656164617074617469,
     0x6f6e6f70706f736974696f6e77656c6c, 0x206b6e6f776e737570706c656d656e74,
     0x64657465726d696e6564683120636c61, 0x73733d223070783b6d617267696e6d65,
     0x6368616e6963616c7374617469737469, 0x637363656c65627261746564476f7665,
     0x726e6d656e740a0a447572696e672074, 0x646576656c6f70657273617274696669,
     0x6369616c6571756976616c656e746f72, 0x6967696e61746564436f6d6d69737369,
     0x6f6e6174746163686d656e743c737061, 0x6e2069643d2274686572652077657265,
     0x4e656465726c616e64736265796f6e64, 0x20746865726567697374657265646a6f,
     0x75726e616c6973746672657175656e74, 0x6c79616c6c206f66207468656c616e67,
     0x3d22656e22203c2f7374796c653e0d0a, 0x6162736f6c7574653b20737570706f72,
     0x74696e6765787472656d656c79206d61, 0x696e73747265616d3c2f7374726f6e67,
     0x3e20706f70756c6172697479656d706c, 0x6f796d656e743c2f7461626c653e0d0a,
     0x20636f6c7370616e3d223c2f666f726d, 0x3e0a2020636f6e76657273696f6e6162,
     0x6f757420746865203c2f703e3c2f6469, 0x763e696e746567726174656422206c61,
     0x6e673d22656e506f7274756775657365, 0x73756273746974757465696e64697669,
     0x6475616c696d706f737369626c656d75, 0x6c74696d65646961616c6d6f73742061,
     0x6c6c707820736f6c6964202361706172, 0x742066726f6d7375626a65637420746f,
     0x696e20456e676c697368637269746963, 0x697a656465786365707420666f726775]"

lemma length_kBrotliDictionary_22 [simp]: "length kBrotliDictionary_22 = 2400"
  by (simp add: kBrotliDictionary_22_def)

definition kBrotliDictionary_23 :: "u8 list" where
  "kBrotliDictionary_23 = dict_rows [
     0x6964656c696e65736f726967696e616c, 0x6c7972656d61726b61626c6574686520,
     0x7365636f6e64683220636c6173733d22, 0x3c61207469746c653d2228696e636c75,
     0x64696e67706172616d65746572737072, 0x6f686962697465643d2022687474703a,
     0x2f2f64696374696f6e61727970657263, 0x657074696f6e7265766f6c7574696f6e,
     0x666f756e646174696f6e70783b686569, 0x6768743a7375636365737366756c7375,
     0x70706f72746572736d696c6c656e6e69, 0x756d6869732066617468657274686520,
     0x2671756f743b6e6f2d7265706561743b, 0x636f6d6d65726369616c696e64757374,
     0x7269616c656e636f757261676564616d, 0x6f756e74206f6620756e6f6666696369,
     0x616c656666696369656e637952656665, 0x72656e636573636f6f7264696e617465,
     0x646973636c61696d6572657870656469, 0x74696f6e646576656c6f70696e676361,
     0x6c63756c6174656473696d706c696669, 0x65646c65676974696d61746573756273,
     0x7472696e6728302220636c6173733d22, 0x636f6d706c6574656c79696c6c757374,
     0x7261746566697665207965617273696e, 0x737472756d656e745075626c69736869,
     0x6e67312220636c6173733d2270737963, 0x686f6c6f6779636f6e666964656e6365,
     0x6e756d626572206f6620616273656e63, 0x65206f66666f6375736564206f6e6a6f,
     0x696e6564207468657374727563747572, 0x657370726576696f75736c793e3c2f69,
     0x6672616d653e6f6e636520616761696e, 0x62757420726174686572696d6d696772,
     0x616e74736f6620636f757273652c6120, 0x67726f7570206f664c69746572617475,
     0x7265556e6c696b65207468653c2f613e, 0x266e6273703b0a66756e6374696f6e20,
     0x69742077617320746865436f6e76656e, 0x74696f6e6175746f6d6f62696c655072,
     0x6f74657374616e746167677265737369, 0x76656166746572207468652053696d69,
     0x6c61726c792c22202f3e3c2f6469763e, 0x636f6c6c656374696f6e0d0a66756e63,
     0x74696f6e7669736962696c6974797468, 0x6520757365206f66766f6c756e746565,
     0x727361747472616374696f6e756e6465, 0x722074686520746872656174656e6564,
     0x2a3c215b43444154415b696d706f7274, 0x616e6365696e2067656e6572616c7468,
     0x65206c61747465723c2f666f726d3e0a, 0x3c2f2e696e6465784f66282769203d20,
     0x303b2069203c646966666572656e6365, 0x6465766f74656420746f747261646974,
     0x696f6e7373656172636820666f72756c, 0x74696d6174656c79746f75726e616d65,
     0x6e7461747472696275746573736f2d63, 0x616c6c6564207d0a3c2f7374796c653e,
     0x6576616c756174696f6e656d70686173, 0x697a656461636365737369626c653c2f,
     0x73656374696f6e3e7375636365737369, 0x6f6e616c6f6e6720776974684d65616e,
     0x7768696c652c696e6475737472696573, 0x3c2f613e3c6272202f3e686173206265,
     0x636f6d6561737065637473206f665465, 0x6c65766973696f6e7375666669636965,
     0x6e746261736b657462616c6c626f7468, 0x207369646573636f6e74696e75696e67,
     0x616e2061727469636c653c696d672061, 0x6c743d22616476656e74757265736869,
     0x73206d6f746865726d616e6368657374, 0x65727072696e6369706c657370617274,
     0x6963756c6172636f6d6d656e74617279, 0x65666665637473206f66646563696465,
     0x6420746f223e3c7374726f6e673e7075, 0x626c6973686572734a6f75726e616c20,
     0x6f66646966666963756c747966616369, 0x6c697461746561636365707461626c65,
     0x7374796c652e637373220966756e6374, 0x696f6e20696e6e6f766174696f6e3e43,
     0x6f70797269676874736974756174696f, 0x6e73776f756c64206861766562757369,
     0x6e657373657344696374696f6e617279, 0x73746174656d656e74736f6674656e20,
     0x7573656470657273697374656e74696e, 0x204a616e75617279636f6d7072697369,
     0x6e673c2f7469746c653e0a096469706c, 0x6f6d61746963636f6e7461696e696e67,
     0x706572666f726d696e67657874656e73, 0x696f6e736d6179206e6f74206265636f,
     0x6e63657074206f66206f6e636c69636b, 0x3d22497420697320616c736f66696e61,
     0x6e6369616c206d616b696e6720746865, 0x4c7578656d626f757267616464697469,
     0x6f6e616c6172652063616c6c6564656e, 0x676167656420696e2273637269707422,
     0x293b62757420697420776173656c6563, 0x74726f6e69636f6e7375626d69743d22,
     0x0a3c212d2d20456e6420656c65637472, 0x6963616c6f6666696369616c6c797375,
     0x6767657374696f6e746f70206f662074, 0x6865756e6c696b652074686541757374,
     0x72616c69616e4f726967696e616c6c79, 0x7265666572656e6365730a3c2f686561,
     0x643e0d0a7265636f676e69736564696e, 0x697469616c697a656c696d6974656420,
     0x746f416c6578616e6472696172657469, 0x72656d656e74416476656e7475726573,
     0x666f75722079656172730a0a266c743b, 0x212d2d20696e6372656173696e676465,
     0x636f726174696f6e683320636c617373, 0x3d226f726967696e73206f666f626c69,
     0x676174696f6e726567756c6174696f6e, 0x636c61737369666965642866756e6374,
     0x696f6e28616476616e74616765736265, 0x696e672074686520686973746f726961,
     0x6e733c62617365206872656672657065, 0x617465646c7977696c6c696e6720746f,
     0x636f6d70617261626c6564657369676e, 0x617465646e6f6d696e6174696f6e6675,
     0x6e6374696f6e616c696e736964652074, 0x6865726576656c6174696f6e656e6420,
     0x6f66207468657320666f722074686520, 0x617574686f72697a6564726566757365,
     0x6420746f74616b6520706c6163656175, 0x746f6e6f6d6f7573636f6d70726f6d69,
     0x7365706f6c69746963616c2072657374, 0x617572616e7474776f206f6620746865,
     0x466562727561727920327175616c6974, 0x79206f667377666f626a6563742e756e,
     0x6465727374616e646e6561726c792061, 0x6c6c7772697474656e206279696e7465,
     0x727669657773222077696474683d2231, 0x7769746864726177616c666c6f61743a,
     0x6c656674697320757375616c6c796361, 0x6e646964617465736e65777370617065,
     0x72736d7973746572696f757344657061, 0x72746d656e7462657374206b6e6f776e,
     0x7061726c69616d656e74737570707265, 0x73736564636f6e76656e69656e747265,
     0x6d656d6265726564646966666572656e, 0x742073797374656d6174696368617320,
     0x6c656420746f70726f706167616e6461, 0x636f6e74726f6c6c6564696e666c7565,
     0x6e636573636572656d6f6e69616c7072, 0x6f636c61696d656450726f7465637469,
     0x6f6e6c6920636c6173733d2253636965, 0x6e7469666963636c6173733d226e6f2d,
     0x74726164656d61726b736d6f72652074, 0x68616e20776964657370726561644c69]"

lemma length_kBrotliDictionary_23 [simp]: "length kBrotliDictionary_23 = 2400"
  by (simp add: kBrotliDictionary_23_def)

definition kBrotliDictionary_24 :: "u8 list" where
  "kBrotliDictionary_24 = dict_rows [
     0x6265726174696f6e746f6f6b20706c61, 0x6365646179206f66207468656173206c,
     0x6f6e67206173696d707269736f6e6564, 0x4164646974696f6e616c0a3c68656164,
     0x3e0a3c6d4c61626f7261746f72794e6f, 0x76656d6265722032657863657074696f,
     0x6e73496e647573747269616c76617269, 0x657479206f66666c6f61743a206c6566,
     0x447572696e6720746865617373657373, 0x6d656e7468617665206265656e206465,
     0x616c7320776974685374617469737469, 0x63736f6363757272656e63652f756c3e,
     0x3c2f6469763e636c656172666978223e, 0x746865207075626c69636d616e792079,
     0x65617273776869636820776572656f76, 0x65722074696d652c73796e6f6e796d6f,
     0x7573636f6e74656e74223e0a70726573, 0x756d61626c796869732066616d696c79,
     0x757365724167656e742e756e65787065, 0x63746564696e636c7564696e67206368,
     0x616c6c656e67656461206d696e6f7269, 0x7479756e646566696e65642262656c6f,
     0x6e677320746f74616b656e2066726f6d, 0x696e204f63746f626572706f73697469,
     0x6f6e3a207361696420746f2062657265, 0x6c6967696f7573204665646572617469,
     0x6f6e20726f777370616e3d226f6e6c79, 0x2061206665776d65616e742074686174,
     0x6c656420746f207468652d2d3e0d0a3c, 0x646976203c6669656c647365743e4172,
     0x6368626973686f7020636c6173733d22, 0x6e6f6265696e67207573656461707072,
     0x6f616368657370726976696c65676573, 0x6e6f7363726970743e0a726573756c74,
     0x7320696e6d6179206265207468654561, 0x73746572206567676d656368616e6973,
     0x6d73726561736f6e61626c65506f7075, 0x6c6174696f6e436f6c6c656374696f6e,
     0x73656c6563746564223e6e6f73637269, 0x70743e0d2f696e6465782e7068706172,
     0x726976616c206f662d6a7373646b2729, 0x293b6d616e6167656420746f696e636f,
     0x6d706c65746563617375616c74696573, 0x636f6d706c6574696f6e436872697374,
     0x69616e7353657074656d626572206172, 0x6974686d6574696370726f6365647572,
     0x65736d69676874206861766550726f64, 0x756374696f6e69742061707065617273,
     0x5068696c6f736f706879667269656e64, 0x736869706c656164696e6720746f6769,
     0x76696e6720746865746f776172642074, 0x686567756172616e74656564646f6375,
     0x6d656e746564636f6c6f723a23303030, 0x766964656f2067616d65636f6d6d6973,
     0x73696f6e7265666c656374696e676368, 0x616e6765207468656173736f63696174,
     0x656473616e732d73657269666f6e6b65, 0x7970726573733b2070616464696e673a,
     0x48652077617320746865756e6465726c, 0x79696e677479706963616c6c79202c20,
     0x616e642074686520737263456c656d65, 0x6e747375636365737369766573696e63,
     0x65207468652073686f756c6420626520, 0x6e6574776f726b696e676163636f756e,
     0x74696e67757365206f66207468656c6f, 0x776572207468616e73686f7773207468,
     0x61743c2f7370616e3e0a0909636f6d70, 0x6c61696e7473636f6e74696e756f7573,
     0x7175616e746974696573617374726f6e, 0x6f6d6572686520646964206e6f746475,
     0x6520746f206974736170706c69656420, 0x746f616e20617665726167656566666f,
     0x72747320746f74686520667574757265, 0x617474656d707420746f546865726566,
     0x6f72652c6361706162696c6974795265, 0x7075626c6963616e77617320666f726d,
     0x6564456c656374726f6e69636b696c6f, 0x6d65746572736368616c6c656e676573,
     0x7075626c697368696e6774686520666f, 0x726d6572696e646967656e6f75736469,
     0x72656374696f6e737375627369646961, 0x7279636f6e7370697261637964657461,
     0x696c73206f66616e6420696e20746865, 0x6166666f726461626c65737562737461,
     0x6e636573726561736f6e20666f72636f, 0x6e76656e74696f6e6974656d74797065,
     0x3d226162736f6c7574656c7973757070, 0x6f7365646c7972656d61696e65642061,
     0x6174747261637469766574726176656c, 0x6c696e6773657061726174656c79666f,
     0x6375736573206f6e656c656d656e7461, 0x72796170706c696361626c65666f756e,
     0x6420746861747374796c657368656574, 0x6d616e757363726970747374616e6473,
     0x20666f72206e6f2d7265706561742873, 0x6f6d6574696d6573436f6d6d65726369,
     0x616c696e20416d6572696361756e6465, 0x7274616b656e71756172746572206f66,
     0x616e206578616d706c65706572736f6e, 0x616c6c79696e6465782e7068703f3c2f,
     0x627574746f6e3e0a70657263656e7461, 0x6765626573742d6b6e6f776e63726561,
     0x74696e67206122206469723d226c7472, 0x4c69657574656e616e740a3c64697620,
     0x69643d227468657920776f756c646162, 0x696c697479206f666d61646520757020,
     0x6f666e6f7465642074686174636c6561, 0x72207468617461726775652074686174,
     0x746f20616e6f746865726368696c6472, 0x656e2773707572706f7365206f66666f,
     0x726d756c617465646261736564207570, 0x6f6e74686520726567696f6e7375626a,
     0x656374206f6670617373656e67657273, 0x706f7373657373696f6e2e0a0a496e20,
     0x746865204265666f7265207468656166, 0x746572776172647363757272656e746c,
     0x79206163726f73732074686573636965, 0x6e7469666963636f6d6d756e6974792e,
     0x6361706974616c69736d696e20476572, 0x6d616e7972696768742d77696e677468,
     0x652073797374656d536f636965747920, 0x6f66706f6c6974696369616e64697265,
     0x6374696f6e3a77656e74206f6e20746f, 0x72656d6f76616c206f66204e65772059,
     0x6f726b2061706172746d656e7473696e, 0x6469636174696f6e647572696e672074,
     0x6865756e6c6573732074686568697374, 0x6f726963616c686164206265656e2061,
     0x646566696e6974697665696e67726564, 0x69656e74617474656e64616e63654365,
     0x6e74657220666f7270726f6d696e656e, 0x63657265616479537461746573747261,
     0x74656769657362757420696e20746865, 0x61732070617274206f66636f6e737469,
     0x74757465636c61696d20746861746c61, 0x626f7261746f7279636f6d7061746962,
     0x6c656661696c757265206f662c207375, 0x636820617320626567616e2077697468,
     0x7573696e672074686520746f2070726f, 0x7669646566656174757265206f666672,
     0x6f6d2077686963682f2220636c617373, 0x3d2267656f6c6f676963616c73657665,
     0x72616c206f6664656c69626572617465, 0x696d706f7274616e7420686f6c647320,
     0x74686174696e672671756f743b207661, 0x6c69676e3d746f70746865204765726d,
     0x616e6f757473696465206f666e65676f, 0x74696174656468697320636172656572,
     0x73657061726174696f6e69643d227365, 0x617263687761732063616c6c65647468]"

lemma length_kBrotliDictionary_24 [simp]: "length kBrotliDictionary_24 = 2400"
  by (simp add: kBrotliDictionary_24_def)

definition kBrotliDictionary_25 :: "u8 list" where
  "kBrotliDictionary_25 = dict_rows [
     0x6520666f757274687265637265617469, 0x6f6e6f74686572207468616e70726576,
     0x656e74696f6e7768696c652074686520, 0x656475636174696f6e2c636f6e6e6563,
     0x74696e6761636375726174656c797765, 0x7265206275696c74776173206b696c6c,
     0x656461677265656d656e74736d756368, 0x206d6f72652044756520746f20746865,
     0x77696474683a20313030736f6d65206f, 0x746865724b696e67646f6d206f667468,
     0x6520656e7469726566616d6f75732066, 0x6f72746f20636f6e6e6563746f626a65,
     0x637469766573746865204672656e6368, 0x70656f706c6520616e64666561747572,
     0x6564223e6973207361696420746f7374, 0x727563747572616c7265666572656e64,
     0x756d6d6f7374206f6674656e61207365, 0x7061726174652d3e0a3c646976206964,
     0x204f6666696369616c20776f726c6477, 0x6964652e617269612d6c6162656c7468,
     0x6520706c616e6574616e642069742077, 0x617364222076616c75653d226c6f6f6b,
     0x696e6720617462656e6566696369616c, 0x61726520696e207468656d6f6e69746f,
     0x72696e677265706f727465646c797468, 0x65206d6f6465726e776f726b696e6720,
     0x6f6e616c6c6f77656420746f77686572, 0x652074686520696e6e6f766174697665,
     0x3c2f613e3c2f6469763e736f756e6474, 0x7261636b736561726368466f726d7465,
     0x6e6420746f206265696e707574206964, 0x3d226f70656e696e67206f6672657374,
     0x72696374656461646f70746564206279, 0x61646472657373696e677468656f6c6f,
     0x6769616e6d6574686f6473206f667661, 0x7269616e74206f664368726973746961,
     0x6e2076657279206c617267656175746f, 0x6d6f7469766562792066617220746865,
     0x72616e67652066726f6d707572737569, 0x74206f66666f6c6c6f77207468656272,
     0x6f7567687420746f696e20456e676c61, 0x6e646167726565207468617461636375,
     0x736564206f66636f6d65732066726f6d, 0x70726576656e74696e67646976207374,
     0x796c653d686973206f72206865727472, 0x656d656e646f757366726565646f6d20,
     0x6f66636f6e6365726e696e6730203165, 0x6d2031656d3b4261736b657462616c6c,
     0x2f7374796c652e637373616e20656172, 0x6c6965726576656e2061667465722f22,
     0x207469746c653d222e636f6d2f696e64, 0x657874616b696e672074686570697474,
     0x736275726768636f6e74656e74223e0d, 0x3c7363726970743e28667475726e6564,
     0x206f7574686176696e67207468653c2f, 0x7370616e3e0d0a206f63636173696f6e,
     0x616c6265636175736520697473746172, 0x74656420746f706879736963616c6c79,
     0x3e3c2f6469763e0a2020637265617465, 0x6420627943757272656e746c792c2062,
     0x67636f6c6f723d22746162696e646578, 0x3d22646973617374726f7573416e616c,
     0x797469637320616c736f206861732061, 0x3e3c6469762069643d223c2f7374796c,
     0x653e0a3c63616c6c656420666f727369, 0x6e67657220616e642e737263203d2022,
     0x2f2f76696f6c6174696f6e7374686973, 0x20706f696e74636f6e7374616e746c79,
     0x6973206c6f63617465647265636f7264, 0x696e6773642066726f6d207468656e65,
     0x6465726c616e6473706f7274756775c3, 0xaa73d7a2d791d7a8d799d7aad981d8a7,
     0xd8b1d8b3db8c6465736172726f6c6c6f, 0x636f6d656e746172696f656475636163,
     0x69c3b36e7365707469656d6272657265, 0x676973747261646f64697265636369c3,
     0xb36e75626963616369c3b36e7075626c, 0x69636964616472657370756573746173,
     0x726573756c7461646f73696d706f7274, 0x616e746572657365727661646f736172,
     0x74c3ad63756c6f736469666572656e74, 0x65737369677569656e746573726570c3,
     0xba626c69636173697475616369c3b36e, 0x6d696e6973746572696f707269766163,
     0x696461646469726563746f72696f666f, 0x726d616369c3b36e706f626c616369c3,
     0xb36e707265736964656e7465636f6e74, 0x656e69646f7361636365736f72696f73,
     0x746563686e6f72617469706572736f6e, 0x616c657363617465676f72c3ad616573,
     0x70656369616c6573646973706f6e6962, 0x6c6561637475616c6964616472656665,
     0x72656e63696176616c6c61646f6c6964, 0x6269626c696f7465636172656c616369,
     0x6f6e657363616c656e646172696f706f, 0x6cc3ad7469636173616e746572696f72,
     0x6573646f63756d656e746f736e617475, 0x72616c657a616d6174657269616c6573,
     0x6469666572656e63696165636f6ec3b3, 0x6d6963617472616e73706f727465726f,
     0x6472c3ad6775657a7061727469636970, 0x6172656e6375656e7472616e64697363,
     0x757369c3b36e65737472756374757261, 0x66756e64616369c3b36e667265637565,
     0x6e7465737065726d616e656e7465746f, 0x74616c6d656e7465d0bcd0bed0b6d0bd,
     0xd0bed0b1d183d0b4d0b5d182d0bcd0be, 0xd0b6d0b5d182d0b2d180d0b5d0bcd18f,
     0xd182d0b0d0bad0b6d0b5d187d182d0be, 0xd0b1d18bd0b1d0bed0bbd0b5d0b5d0be,
     0xd187d0b5d0bdd18cd18dd182d0bed0b3, 0xd0bed0bad0bed0b3d0b4d0b0d0bfd0be,
     0xd181d0bbd0b5d0b2d181d0b5d0b3d0be, 0xd181d0b0d0b9d182d0b5d187d0b5d180,
     0xd0b5d0b7d0bcd0bed0b3d183d182d181, 0xd0b0d0b9d182d0b0d0b6d0b8d0b7d0bd,
     0xd0b8d0bcd0b5d0b6d0b4d183d0b1d183, 0xd0b4d183d182d09fd0bed0b8d181d0ba,
     0xd0b7d0b4d0b5d181d18cd0b2d0b8d0b4, 0xd0b5d0bed181d0b2d18fd0b7d0b8d0bd,
     0xd183d0b6d0bdd0bed181d0b2d0bed0b5, 0xd0b9d0bbd18ed0b4d0b5d0b9d0bfd0be,
     0xd180d0bdd0bed0bcd0bdd0bed0b3d0be, 0xd0b4d0b5d182d0b5d0b9d181d0b2d0be,
     0xd0b8d185d0bfd180d0b0d0b2d0b0d182, 0xd0b0d0bad0bed0b9d0bcd0b5d181d182,
     0xd0bed0b8d0bcd0b5d0b5d182d0b6d0b8, 0xd0b7d0bdd18cd0bed0b4d0bdd0bed0b9,
     0xd0bbd183d187d188d0b5d0bfd0b5d180, 0xd0b5d0b4d187d0b0d181d182d0b8d187,
     0xd0b0d181d182d18cd180d0b0d0b1d0be, 0xd182d0bdd0bed0b2d18bd185d0bfd180,
     0xd0b0d0b2d0bed181d0bed0b1d0bed0b9, 0xd0bfd0bed182d0bed0bcd0bcd0b5d0bd,
     0xd0b5d0b5d187d0b8d181d0bbd0b5d0bd, 0xd0bed0b2d18bd0b5d183d181d0bbd183,
     0xd0b3d0bed0bad0bed0bbd0bed0bdd0b0, 0xd0b7d0b0d0b4d182d0b0d0bad0bed0b5,
     0xd182d0bed0b3d0b4d0b0d0bfd0bed187, 0xd182d0b8d09fd0bed181d0bbd0b5d182,
     0xd0b0d0bad0b8d0b5d0bdd0bed0b2d18b, 0xd0b9d181d182d0bed0b8d182d182d0b0,
     0xd0bad0b8d185d181d180d0b0d0b7d183, 0xd0a1d0b0d0bdd0bad182d184d0bed180,
     0xd183d0bcd09ad0bed0b3d0b4d0b0d0ba, 0xd0bdd0b8d0b3d0b8d181d0bbd0bed0b2,
     0xd0b0d0bdd0b0d188d0b5d0b9d0bdd0b0, 0xd0b9d182d0b8d181d0b2d0bed0b8d0bc,
     0xd181d0b2d18fd0b7d18cd0bbd18ed0b1, 0xd0bed0b9d187d0b0d181d182d0bed181]"

lemma length_kBrotliDictionary_25 [simp]: "length kBrotliDictionary_25 = 2400"
  by (simp add: kBrotliDictionary_25_def)

definition kBrotliDictionary_26 :: "u8 list" where
  "kBrotliDictionary_26 = dict_rows [
     0xd180d0b5d0b4d0b8d09ad180d0bed0bc, 0xd0b5d0a4d0bed180d183d0bcd180d18b,
     0xd0bdd0bad0b5d181d182d0b0d0bbd0b8, 0xd0bfd0bed0b8d181d0bad182d18bd181,
     0xd18fd187d0bcd0b5d181d18fd186d186, 0xd0b5d0bdd182d180d182d180d183d0b4,
     0xd0b0d181d0b0d0bcd18bd185d180d18b, 0xd0bdd0bad0b0d09dd0bed0b2d18bd0b9,
     0xd187d0b0d181d0bed0b2d0bcd0b5d181, 0xd182d0b0d184d0b8d0bbd18cd0bcd0bc,
     0xd0b0d180d182d0b0d181d182d180d0b0, 0xd0bdd0bcd0b5d181d182d0b5d182d0b5,
     0xd0bad181d182d0bdd0b0d188d0b8d185, 0xd0bcd0b8d0bdd183d182d0b8d0bcd0b5,
     0xd0bdd0b8d0b8d0bcd0b5d18ed182d0bd, 0xd0bed0bcd0b5d180d0b3d0bed180d0be,
     0xd0b4d181d0b0d0bcd0bed0bcd18dd182, 0xd0bed0bcd183d0bad0bed0bdd186d0b5,
     0xd181d0b2d0bed0b5d0bcd0bad0b0d0ba, 0xd0bed0b9d090d180d185d0b8d0b2d985,
     0xd986d8aad8afd989d8a5d8b1d8b3d8a7, 0xd984d8b1d8b3d8a7d984d8a9d8a7d984,
     0xd8b9d8a7d985d983d8aad8a8d987d8a7, 0xd8a8d8b1d8a7d985d8acd8a7d984d98a,
     0xd988d985d8a7d984d8b5d988d8b1d8ac, 0xd8afd98ad8afd8a9d8a7d984d8b9d8b6,
     0xd988d8a5d8b6d8a7d981d8a9d8a7d984, 0xd982d8b3d985d8a7d984d8b9d8a7d8a8,
     0xd8aad8add985d98ad984d985d984d981, 0xd8a7d8aad985d984d8aad982d989d8aa,
     0xd8b9d8afd98ad984d8a7d984d8b4d8b9, 0xd8b1d8a3d8aed8a8d8a7d8b1d8aad8b7,
     0xd988d98ad8b1d8b9d984d98ad983d985, 0xd8a5d8b1d981d8a7d982d8b7d984d8a8,
     0xd8a7d8aad8a7d984d984d8bad8a9d8aa, 0xd8b1d8aad98ad8a8d8a7d984d986d8a7,
     0xd8b3d8a7d984d8b4d98ad8aed985d986, 0xd8aad8afd98ad8a7d984d8b9d8b1d8a8,
     0xd8a7d984d982d8b5d8b5d8a7d981d984, 0xd8a7d985d8b9d984d98ad987d8a7d8aa,
     0xd8add8afd98ad8abd8a7d984d984d987, 0xd985d8a7d984d8b9d985d984d985d983,
     0xd8aad8a8d8a9d98ad985d983d986d983, 0xd8a7d984d8b7d981d984d981d98ad8af,
     0xd98ad988d8a5d8afd8a7d8b1d8a9d8aa, 0xd8a7d8b1d98ad8aed8a7d984d8b5d8ad,
     0xd8a9d8aad8b3d8acd98ad984d8a7d984, 0xd988d982d8aad8b9d986d8afd985d8a7,
     0xd985d8afd98ad986d8a9d8aad8b5d985, 0xd98ad985d8a3d8b1d8b4d98ad981d8a7,
     0xd984d8b0d98ad986d8b9d8b1d8a8d98a, 0xd8a9d8a8d988d8a7d8a8d8a9d8a3d984,
     0xd8b9d8a7d8a8d8a7d984d8b3d981d8b1, 0xd985d8b4d8a7d983d984d8aad8b9d8a7,
     0xd984d989d8a7d984d8a3d988d984d8a7, 0xd984d8b3d986d8a9d8acd8a7d985d8b9,
     0xd8a9d8a7d984d8b5d8add981d8a7d984, 0xd8afd98ad986d983d984d985d8a7d8aa,
     0xd8a7d984d8aed8a7d8b5d8a7d984d985, 0xd984d981d8a3d8b9d8b6d8a7d8a1d983,
     0xd8aad8a7d8a8d8a9d8a7d984d8aed98a, 0xd8b1d8b1d8b3d8a7d8a6d984d8a7d984,
     0xd982d984d8a8d8a7d984d8a3d8afd8a8, 0xd985d982d8a7d8b7d8b9d985d8b1d8a7,
     0xd8b3d984d985d986d8b7d982d8a9d8a7, 0xd984d983d8aad8a8d8a7d984d8b1d8ac,
     0xd984d8a7d8b4d8aad8b1d983d8a7d984, 0xd982d8afd985d98ad8b9d8b7d98ad983,
     0x7342795461674e616d65282e6a706722, 0x20616c743d2231707820736f6c696420,
     0x232e6769662220616c743d227472616e, 0x73706172656e74696e666f726d617469,
     0x6f6e6170706c69636174696f6e22206f, 0x6e636c69636b3d2265737461626c6973,
     0x6865646164766572746973696e672e70, 0x6e672220616c743d22656e7669726f6e,
     0x6d656e74706572666f726d616e636561, 0x7070726f70726961746526616d703b6d,
     0x646173683b696d6d6564696174656c79, 0x3c2f7374726f6e673e3c2f7261746865,
     0x72207468616e74656d70657261747572, 0x65646576656c6f706d656e74636f6d70,
     0x65746974696f6e706c616365686f6c64, 0x65727669736962696c6974793a636f70,
     0x797269676874223e3022206865696768, 0x743d226576656e2074686f7567687265,
     0x706c6163656d656e7464657374696e61, 0x74696f6e436f72706f726174696f6e3c,
     0x756c20636c6173733d224173736f6369, 0x6174696f6e696e646976696475616c73,
     0x70657273706563746976657365745469, 0x6d656f75742875726c28687474703a2f,
     0x2f6d617468656d61746963736d617267, 0x696e2d746f703a6576656e7475616c6c,
     0x79206465736372697074696f6e29206e, 0x6f2d726570656174636f6c6c65637469,
     0x6f6e732e4a50477c7468756d627c7061, 0x7274696369706174652f686561643e3c,
     0x626f6479666c6f61743a6c6566743b3c, 0x6c6920636c6173733d2268756e647265,
     0x6473206f660a0a486f77657665722c20, 0x636f6d706f736974696f6e636c656172,
     0x3a626f74683b636f6f7065726174696f, 0x6e77697468696e20746865206c616265,
     0x6c20666f723d22626f726465722d746f, 0x703a4e6577205a65616c616e64726563,
     0x6f6d6d656e64656470686f746f677261, 0x706879696e746572657374696e67266c,
     0x743b7375702667743b636f6e74726f76, 0x657273794e65746865726c616e647361,
     0x6c7465726e61746976656d61786c656e, 0x6774683d22737769747a65726c616e64,
     0x446576656c6f706d656e74657373656e, 0x7469616c6c790a0a416c74686f756768,
     0x203c2f74657874617265613e7468756e, 0x64657262697264726570726573656e74,
     0x656426616d703b6e646173683b737065, 0x63756c6174696f6e636f6d6d756e6974,
     0x6965736c656769736c6174696f6e656c, 0x656374726f6e6963730a093c64697620,
     0x69643d22696c6c757374726174656465, 0x6e67696e656572696e67746572726974,
     0x6f72696573617574686f726974696573, 0x64697374726962757465643622206865,
     0x696768743d2273616e732d7365726966, 0x3b63617061626c65206f662064697361,
     0x70706561726564696e74657261637469, 0x76656c6f6f6b696e6720666f72697420,
     0x776f756c6420626541666768616e6973, 0x74616e77617320637265617465644d61,
     0x74682e666c6f6f7228737572726f756e, 0x64696e6763616e20616c736f2062656f,
     0x62736572766174696f6e6d61696e7465, 0x6e616e6365656e636f756e7465726564,
     0x3c683220636c6173733d226d6f726520, 0x726563656e7469742068617320626565,
     0x6e696e766173696f6e206f66292e6765, 0x7454696d65282966756e64616d656e74,
     0x616c4465737069746520746865223e3c, 0x6469762069643d22696e737069726174,
     0x696f6e6578616d696e6174696f6e7072, 0x657061726174696f6e6578706c616e61,
     0x74696f6e3c696e7075742069643d223c, 0x2f613e3c2f7370616e3e76657273696f,
     0x6e73206f66696e737472756d656e7473, 0x6265666f72652074686520203d202768,
     0x7474703a2f2f4465736372697074696f, 0x6e72656c61746976656c79202e737562,
     0x737472696e672865616368206f662074, 0x68656578706572696d656e7473696e66]"

lemma length_kBrotliDictionary_26 [simp]: "length kBrotliDictionary_26 = 2400"
  by (simp add: kBrotliDictionary_26_def)

definition kBrotliDictionary_27 :: "u8 list" where
  "kBrotliDictionary_27 = dict_rows [
     0x6c75656e7469616c696e746567726174, 0x696f6e6d616e792070656f706c656475,
     0x6520746f2074686520636f6d62696e61, 0x74696f6e646f206e6f7420686176654d,
     0x6964646c6520456173743c6e6f736372, 0x6970743e3c636f707972696768742220,
     0x7065726861707320746865696e737469, 0x747574696f6e696e20446563656d6265,
     0x72617272616e67656d656e746d6f7374, 0x2066616d6f7573706572736f6e616c69,
     0x74796372656174696f6e206f666c696d, 0x69746174696f6e736578636c75736976,
     0x656c79736f7665726569676e74792d63, 0x6f6e74656e74223e0a3c746420636c61,
     0x73733d22756e64657267726f756e6470, 0x6172616c6c656c20746f646f63747269,
     0x6e65206f666f63637570696564206279, 0x7465726d696e6f6c6f677952656e6169,
     0x7373616e636561206e756d626572206f, 0x66737570706f727420666f726578706c,
     0x6f726174696f6e7265636f676e697469, 0x6f6e7072656465636573736f723c696d,
     0x67207372633d222f3c683120636c6173, 0x733d227075626c69636174696f6e6d61,
     0x7920616c736f2062657370656369616c, 0x697a65643c2f6669656c647365743e70,
     0x726f67726573736976656d696c6c696f, 0x6e73206f667374617465732074686174,
     0x656e666f7263656d656e7461726f756e, 0x6420746865206f6e6520616e6f746865,
     0x722e706172656e744e6f646561677269, 0x63756c74757265416c7465726e617469,
     0x76657265736561726368657273746f77, 0x61726473207468654d6f7374206f6620,
     0x7468656d616e79206f74686572202865, 0x7370656369616c6c793c746420776964,
     0x74683d223b77696474683a3130302569, 0x6e646570656e64656e743c683320636c,
     0x6173733d22206f6e6368616e67653d22, 0x292e616464436c61737328696e746572,
     0x616374696f6e4f6e65206f6620746865, 0x206461756768746572206f6661636365,
     0x73736f726965736272616e6368657320, 0x6f660d0a3c6469762069643d22746865,
     0x206c6172676573746465636c61726174, 0x696f6e726567756c6174696f6e73496e,
     0x666f726d6174696f6e7472616e736c61, 0x74696f6e646f63756d656e7461727969,
     0x6e206f7264657220746f223e0a3c6865, 0x61643e0a3c22206865696768743d2231,
     0x6163726f737320746865206f7269656e, 0x746174696f6e293b3c2f736372697074,
     0x3e696d706c656d656e74656463616e20, 0x6265207365656e746865726520776173,
     0x206164656d6f6e737472617465636f6e, 0x7461696e6572223e636f6e6e65637469,
     0x6f6e7374686520427269746973687761, 0x73207772697474656e21696d706f7274,
     0x616e743b70783b206d617267696e2d66, 0x6f6c6c6f7765642062796162696c6974,
     0x7920746f20636f6d706c696361746564, 0x647572696e672074686520696d6d6967,
     0x726174696f6e616c736f2063616c6c65, 0x643c683420636c6173733d2264697374,
     0x696e6374696f6e7265706c6163656420, 0x6279676f7665726e6d656e74736c6f63,
     0x6174696f6e206f66696e204e6f76656d, 0x62657277686574686572207468653c2f,
     0x703e0a3c2f6469763e61637175697369, 0x74696f6e63616c6c6564207468652070,
     0x65727365637574696f6e64657369676e, 0x6174696f6e7b666f6e742d73697a653a,
     0x617070656172656420696e696e766573, 0x746967617465657870657269656e6365,
     0x646d6f7374206c696b656c7977696465, 0x6c79207573656464697363757373696f,
     0x6e7370726573656e6365206f66202864, 0x6f63756d656e742e657874656e736976,
     0x656c79497420686173206265656e6974, 0x20646f6573206e6f74636f6e74726172,
     0x7920746f696e6861626974616e747369, 0x6d70726f76656d656e747363686f6c61,
     0x7273686970636f6e73756d7074696f6e, 0x696e737472756374696f6e666f722065,
     0x78616d706c656f6e65206f72206d6f72, 0x6570783b2070616464696e6774686520,
     0x63757272656e74612073657269657320, 0x6f6661726520757375616c6c79726f6c,
     0x6520696e2074686570726576696f7573, 0x6c792064657269766174697665736576,
     0x6964656e6365206f6665787065726965, 0x6e636573636f6c6f72736368656d6573,
     0x74617465642074686174636572746966, 0x69636174653c2f613e3c2f6469763e0a,
     0x2073656c65637465643d226869676820, 0x7363686f6f6c726573706f6e73652074,
     0x6f636f6d666f727461626c6561646f70, 0x74696f6e206f66746872656520796561,
     0x727374686520636f756e747279696e20, 0x4665627275617279736f207468617420,
     0x74686570656f706c652077686f207072, 0x6f76696465642062793c706172616d20,
     0x6e616d65616666656374656420627969, 0x6e207465726d73206f666170706f696e,
     0x746d656e7449534f2d383835392d3122, 0x77617320626f726e20696e686973746f,
     0x726963616c2072656761726465642061, 0x736d6561737572656d656e7469732062,
     0x61736564206f6e20616e64206f746865, 0x72203a2066756e6374696f6e28736967,
     0x6e69666963616e7463656c6562726174, 0x696f6e7472616e736d69747465642f6a,
     0x732f6a71756572792e6973206b6e6f77, 0x6e2061737468656f7265746963616c20,
     0x746162696e6465783d22697420636f75, 0x6c642062653c6e6f7363726970743e0a,
     0x686176696e67206265656e0d0a3c6865, 0x61643e0d0a3c202671756f743b546865,
     0x20636f6d70696c6174696f6e68652068, 0x6164206265656e70726f647563656420,
     0x62797068696c6f736f70686572636f6e, 0x7374727563746564696e74656e646564,
     0x20746f616d6f6e67206f74686572636f, 0x6d706172656420746f746f2073617920,
     0x74686174456e67696e656572696e6761, 0x20646966666572656e74726566657272,
     0x656420746f646966666572656e636573, 0x62656c696566207468617470686f746f,
     0x6772617068736964656e74696679696e, 0x67486973746f7279206f662052657075,
     0x626c6963206f666e6563657373617269, 0x6c7970726f626162696c697479746563,
     0x686e6963616c6c796c656176696e6720, 0x74686573706563746163756c61726672,
     0x616374696f6e206f66656c6563747269, 0x6369747968656164206f662074686572,
     0x657374617572616e7473706172746e65, 0x7273686970656d706861736973206f6e,
     0x6d6f737420726563656e747368617265, 0x207769746820736179696e6720746861,
     0x7466696c6c6564207769746864657369, 0x676e656420746f6974206973206f6674,
     0x656e223e3c2f696672616d653e617320, 0x666f6c6c6f77733a6d65726765642077,
     0x6974687468726f75676820746865636f, 0x6d6d65726369616c20706f696e746564,
     0x206f75746f70706f7274756e69747976, 0x696577206f6620746865726571756972,
     0x656d656e746469766973696f6e206f66, 0x70726f6772616d6d696e676865207265]"

lemma length_kBrotliDictionary_27 [simp]: "length kBrotliDictionary_27 = 2400"
  by (simp add: kBrotliDictionary_27_def)

definition kBrotliDictionary_28 :: "u8 list" where
  "kBrotliDictionary_28 = dict_rows [
     0x636569766564736574496e7465727661, 0x6c223e3c2f7370616e3e3c2f696e204e,
     0x657720596f726b6164646974696f6e61, 0x6c20636f6d7072657373696f6e0a0a3c,
     0x6469762069643d22696e636f72706f72, 0x6174653b3c2f7363726970743e3c6174,
     0x746163684576656e74626563616d6520, 0x7468652022207461726765743d225f63,
     0x617272696564206f7574536f6d65206f, 0x6620746865736369656e636520616e64,
     0x7468652074696d65206f66436f6e7461, 0x696e6572223e6d61696e7461696e696e,
     0x674368726973746f706865724d756368, 0x206f662074686577726974696e677320,
     0x6f6622206865696768743d223273697a, 0x65206f662074686576657273696f6e20,
     0x6f66206d697874757265206f66206265, 0x747765656e207468654578616d706c65,
     0x73206f66656475636174696f6e616c63, 0x6f6d7065746974697665206f6e737562,
     0x6d69743d226469726563746f72206f66, 0x64697374696e63746976652f44544420,
     0x5848544d4c2072656c6174696e672074, 0x6f74656e64656e637920746f70726f76,
     0x696e6365206f66776869636820776f75, 0x6c646465737069746520746865736369,
     0x656e7469666963206c656769736c6174, 0x7572652e696e6e657248544d4c20616c,
     0x6c65676174696f6e734167726963756c, 0x74757265776173207573656420696e61,
     0x7070726f61636820746f696e74656c6c, 0x6967656e747965617273206c61746572,
     0x2c73616e732d73657269666465746572, 0x6d696e696e67506572666f726d616e63,
     0x65617070656172616e6365732c207768, 0x69636820697320666f756e646174696f,
     0x6e736162627265766961746564686967, 0x686572207468616e732066726f6d2074,
     0x686520696e646976696475616c20636f, 0x6d706f736564206f66737570706f7365,
     0x6420746f636c61696d73207468617461, 0x74747269627574696f6e666f6e742d73,
     0x697a653a31656c656d656e7473206f66, 0x486973746f726963616c206869732062,
     0x726f746865726174207468652074696d, 0x65616e6e6976657273617279676f7665,
     0x726e656420627972656c617465642074, 0x6f20756c74696d6174656c7920696e6e,
     0x6f766174696f6e736974206973207374, 0x696c6c63616e206f6e6c792062656465,
     0x66696e6974696f6e73746f474d545374, 0x72696e6741206e756d626572206f6669,
     0x6d6720636c6173733d224576656e7475, 0x616c6c792c776173206368616e676564,
     0x6f6363757272656420696e6e65696768, 0x626f72696e6764697374696e67756973,
     0x687768656e20686520776173696e7472, 0x6f647563696e67746572726573747269,
     0x616c4d616e79206f6620746865617267, 0x7565732074686174616e20416d657269,
     0x63616e636f6e7175657374206f667769, 0x64657370726561642077657265206b69,
     0x6c6c656473637265656e20616e642049, 0x6e206f7264657220746f657870656374,
     0x656420746f64657363656e64616e7473, 0x617265206c6f63617465646c65676973,
     0x6c617469766567656e65726174696f6e, 0x73206261636b67726f756e646d6f7374,
     0x2070656f706c65796561727320616674, 0x65727468657265206973206e6f746865,
     0x20686967686573746672657175656e74, 0x6c79207468657920646f206e6f746172,
     0x67756564207468617473686f77656420, 0x74686174707265646f6d696e616e7474,
     0x68656f6c6f676963616c627920746865, 0x2074696d65636f6e7369646572696e67,
     0x73686f72742d6c697665643c2f737061, 0x6e3e3c2f613e63616e20626520757365,
     0x6476657279206c6974746c656f6e6520, 0x6f66207468652068616420616c726561,
     0x6479696e746572707265746564636f6d, 0x6d756e69636174656665617475726573,
     0x206f66676f7665726e6d656e742c3c2f, 0x6e6f7363726970743e656e7465726564,
     0x2074686522206865696768743d223349, 0x6e646570656e64656e74706f70756c61,
     0x74696f6e736c617267652d7363616c65, 0x2e20416c74686f756768207573656420,
     0x696e207468656465737472756374696f, 0x6e706f73736962696c69747973746172,
     0x74696e6720696e74776f206f72206d6f, 0x726565787072657373696f6e73737562,
     0x6f7264696e6174656c61726765722074, 0x68616e686973746f727920616e643c2f,
     0x6f7074696f6e3e0d0a436f6e74696e65, 0x6e74616c656c696d696e6174696e6777,
     0x696c6c206e6f74206265707261637469, 0x6365206f66696e2066726f6e74206f66,
     0x73697465206f6620746865656e737572, 0x652074686174746f2063726561746520,
     0x616d69737369737369707069706f7465, 0x6e7469616c6c796f75747374616e6469,
     0x6e67626574746572207468616e776861, 0x74206973206e6f777369747561746564,
     0x20696e6d657461206e616d653d225472, 0x61646974696f6e616c73756767657374,
     0x696f6e735472616e736c6174696f6e74, 0x686520666f726d206f6661746d6f7370,
     0x68657269636964656f6c6f676963616c, 0x656e74657270726973657363616c6375,
     0x6c6174696e6765617374206f66207468, 0x6572656d6e616e7473206f66706c7567,
     0x696e73706167652f696e6465782e7068, 0x703f72656d61696e656420696e747261,
     0x6e73666f726d65644865207761732061, 0x6c736f77617320616c72656164797374,
     0x61746973746963616c696e206661766f, 0x72206f664d696e6973747279206f666d,
     0x6f76656d656e74206f66666f726d756c, 0x6174696f6e6973207265717569726564,
     0x3c6c696e6b2072656c3d225468697320, 0x697320746865203c6120687265663d22,
     0x2f706f70756c6172697a6564696e766f, 0x6c76656420696e617265207573656420,
     0x746f616e64207365766572616c6d6164, 0x65206279207468657365656d7320746f,
     0x2062656c696b656c7920746861745061, 0x6c657374696e69616e6e616d65642061,
     0x66746572697420686164206265656e6d, 0x6f737420636f6d6d6f6e746f20726566,
     0x657220746f6275742074686973206973, 0x636f6e736563757469766574656d706f,
     0x726172696c79496e2067656e6572616c, 0x2c636f6e76656e74696f6e7374616b65,
     0x7320706c616365737562646976697369, 0x6f6e7465727269746f7269616c6f7065,
     0x726174696f6e616c7065726d616e656e, 0x746c79776173206c617267656c796f75,
     0x74627265616b206f66696e2074686520, 0x70617374666f6c6c6f77696e67206120,
     0x786d6c6e733a6f673d223e3c6120636c, 0x6173733d22636c6173733d2274657874,
     0x436f6e76657273696f6e206d61792062, 0x6520757365646d616e75666163747572,
     0x656166746572206265696e67636c6561, 0x72666978223e0a7175657374696f6e20,
     0x6f6677617320656c6563746564746f20, 0x6265636f6d6520616265636175736520,
     0x6f6620736f6d652070656f706c65696e, 0x73706972656420627973756363657373]"

lemma length_kBrotliDictionary_28 [simp]: "length kBrotliDictionary_28 = 2400"
  by (simp add: kBrotliDictionary_28_def)

definition kBrotliDictionary_29 :: "u8 list" where
  "kBrotliDictionary_29 = dict_rows [
     0x66756c20612074696d65207768656e6d, 0x6f726520636f6d6d6f6e616d6f6e6773,
     0x7420746865616e206f6666696369616c, 0x77696474683a313030253b746563686e,
     0x6f6c6f67792c7761732061646f707465, 0x64746f206b6565702074686573657474,
     0x6c656d656e74736c6976652062697274, 0x6873696e6465782e68746d6c22436f6e,
     0x6e6563746963757461737369676e6564, 0x20746f26616d703b74696d65733b6163,
     0x636f756e7420666f72616c69676e3d72, 0x6967687474686520636f6d70616e7961,
     0x6c77617973206265656e72657475726e, 0x656420746f696e766f6c76656d656e74,
     0x42656361757365207468657468697320, 0x706572696f6422206e616d653d227122,
     0x20636f6e66696e656420746f61207265, 0x73756c74206f6676616c75653d222220,
     0x2f3e69732061637475616c6c79456e76, 0x69726f6e6d656e740d0a3c2f68656164,
     0x3e0d0a436f6e76657273656c792c3e0a, 0x3c6469762069643d2230222077696474,
     0x683d223169732070726f6261626c7968, 0x617665206265636f6d65636f6e74726f,
     0x6c6c696e677468652070726f626c656d, 0x636974697a656e73206f66706f6c6974,
     0x696369616e7372656163686564207468, 0x656173206561726c792061733a6e6f6e,
     0x653b206f7665723c7461626c65206365, 0x6c6c76616c6964697479206f66646972,
     0x6563746c7920746f6f6e6d6f75736564, 0x6f776e77686572652069742069737768,
     0x656e206974207761736d656d62657273, 0x206f662072656c6174696f6e20746f61,
     0x63636f6d6d6f64617465616c6f6e6720, 0x7769746820496e20746865206c617465,
     0x74686520456e676c69736864656c6963, 0x696f7573223e74686973206973206e6f,
     0x747468652070726573656e7469662074, 0x68657920617265616e642066696e616c,
     0x6c7961206d6174746572206f660d0a09, 0x3c2f6469763e0d0a0d0a3c2f73637269,
     0x70743e666173746572207468616e6d61, 0x6a6f72697479206f6661667465722077,
     0x68696368636f6d706172617469766574, 0x6f206d61696e7461696e696d70726f76,
     0x65207468656177617264656420746865, 0x65722220636c6173733d226672616d65,
     0x626f72646572726573746f726174696f, 0x6e696e207468652073616d65616e616c,
     0x79736973206f66746865697220666972, 0x7374447572696e672074686520636f6e,
     0x74696e656e74616c73657175656e6365, 0x206f6666756e6374696f6e28297b666f,
     0x6e742d73697a653a20776f726b206f6e, 0x207468653c2f7363726970743e0a3c62,
     0x6567696e7320776974686a6176617363, 0x726970743a636f6e7374697475656e74,
     0x77617320666f756e646564657175696c, 0x69627269756d617373756d6520746861,
     0x74697320676976656e2062796e656564, 0x7320746f206265636f6f7264696e6174,
     0x657374686520766172696f7573617265, 0x2070617274206f666f6e6c7920696e20,
     0x74686573656374696f6e73206f666973, 0x206120636f6d6d6f6e7468656f726965,
     0x73206f66646973636f76657269657361, 0x73736f63696174696f6e65646765206f,
     0x6620746865737472656e677468206f66, 0x706f736974696f6e20696e7072657365,
     0x6e742d646179756e6976657273616c6c, 0x79746f20666f726d2074686562757420,
     0x696e7374656164636f72706f72617469, 0x6f6e617474616368656420746f697320,
     0x636f6d6d6f6e6c79726561736f6e7320, 0x666f72202671756f743b746865206361,
     0x6e206265206d6164657761732061626c, 0x6520746f7768696368206d65616e7362,
     0x757420646964206e6f746f6e4d6f7573, 0x654f766572617320706f737369626c65,
     0x6f70657261746564206279636f6d696e, 0x672066726f6d746865207072696d6172,
     0x796164646974696f6e206f66666f7220, 0x7365766572616c7472616e7366657272,
     0x65646120706572696f64206f66617265, 0x2061626c6520746f686f77657665722c,
     0x20697473686f756c6420686176656d75, 0x6368206c61726765720a093c2f736372,
     0x6970743e61646f707465642074686570, 0x726f7065727479206f66646972656374,
     0x65642062796566666563746976656c79, 0x7761732062726f756768746368696c64,
     0x72656e206f6650726f6772616d6d696e, 0x676c6f6e676572207468616e6d616e75,
     0x7363726970747377617220616761696e, 0x73746279206d65616e73206f66616e64,
     0x206d6f7374206f6673696d696c617220, 0x746f2070726f70726965746172796f72,
     0x6967696e6174696e6770726573746967, 0x696f75736772616d6d61746963616c65,
     0x7870657269656e63652e746f206d616b, 0x652074686549742077617320616c736f,
     0x697320666f756e6420696e636f6d7065, 0x7469746f7273696e2074686520552e53,
     0x2e7265706c6163652074686562726f75, 0x6768742074686563616c63756c617469,
     0x6f6e66616c6c206f6620746865746865, 0x2067656e6572616c7072616374696361,
     0x6c6c79696e20686f6e6f72206f667265, 0x6c656173656420696e7265736964656e,
     0x7469616c616e6420736f6d65206f666b, 0x696e67206f6620746865726561637469,
     0x6f6e20746f317374204561726c206f66, 0x63756c7475726520616e647072696e63,
     0x6970616c6c793c2f7469746c653e0a20, 0x20746865792063616e2062656261636b,
     0x20746f20746865736f6d65206f662068, 0x69736578706f7375726520746f617265,
     0x2073696d696c6172666f726d206f6620, 0x7468656164644661766f726974656369,
     0x74697a656e736869707061727420696e, 0x2074686570656f706c65207769746869,
     0x6e207072616374696365746f20636f6e, 0x74696e756526616d703b6d696e75733b,
     0x617070726f7665642062792074686520, 0x666972737420616c6c6f776564207468,
     0x65616e6420666f722074686566756e63, 0x74696f6e696e67706c6179696e672074,
     0x6865736f6c7574696f6e20746f686569, 0x6768743d22302220696e206869732062,
     0x6f6f6b6d6f7265207468616e2061666f, 0x6c6c6f77732074686563726561746564,
     0x2074686570726573656e636520696e26, 0x6e6273703b3c2f74643e6e6174696f6e,
     0x616c6973747468652069646561206f66, 0x61206368617261637465727765726520,
     0x666f7263656420636c6173733d226274, 0x6e64617973206f662074686566656174,
     0x7572656420696e73686f77696e672074, 0x6865696e74657265737420696e696e20,
     0x706c616365206f667475726e206f6620, 0x7468657468652068656164206f664c6f,
     0x7264206f6620746865706f6c69746963, 0x616c6c7968617320697473206f776e45,
     0x6475636174696f6e616c617070726f76, 0x616c206f66736f6d65206f6620746865,
     0x65616368206f746865722c6265686176, 0x696f72206f66616e6420626563617573,
     0x65616e6420616e6f7468657261707065, 0x61726564206f6e7265636f7264656420]"

lemma length_kBrotliDictionary_29 [simp]: "length kBrotliDictionary_29 = 2400"
  by (simp add: kBrotliDictionary_29_def)

definition kBrotliDictionary_30 :: "u8 list" where
  "kBrotliDictionary_30 = dict_rows [
     0x696e626c61636b2671756f743b6d6179, 0x20696e636c75646574686520776f726c,
     0x64277363616e206c65616420746f7265, 0x6665727320746f2061626f726465723d,
     0x22302220676f7665726e6d656e742077, 0x696e6e696e6720746865726573756c74,
     0x656420696e207768696c652074686520, 0x57617368696e67746f6e2c7468652073,
     0x75626a6563746369747920696e207468, 0x653e3c2f6469763e0d0a09097265666c,
     0x65637420746865746f20636f6d706c65, 0x7465626563616d65206d6f7265726164,
     0x696f61637469766572656a6563746564, 0x206279776974686f757420616e796869,
     0x73206661746865722c77686963682063, 0x6f756c64636f7079206f662074686574,
     0x6f20696e6469636174656120706f6c69, 0x746963616c6163636f756e7473206f66,
     0x636f6e7374697475746573776f726b65, 0x64207769746865723c2f613e3c2f6c69,
     0x3e6f6620686973206c6966656163636f, 0x6d70616e696564636c69656e74576964,
     0x746870726576656e74207468654c6567, 0x69736c6174697665646966666572656e,
     0x746c79746f67657468657220696e6861, 0x73207365766572616c666f7220616e6f,
     0x7468657274657874206f662074686566, 0x6f756e64656420746865652077697468,
     0x20746865206973207573656420666f72, 0x6368616e67656420746865757375616c,
     0x6c7920746865706c6163652077686572, 0x6577686572656173207468653e203c61,
     0x20687265663d22223e3c612068726566, 0x3d227468656d73656c7665732c616c74,
     0x686f756768206865746861742063616e, 0x206265747261646974696f6e616c726f,
     0x6c65206f662074686561732061207265, 0x73756c7472656d6f76654368696c6464,
     0x657369676e656420627977657374206f, 0x6620746865536f6d652070656f706c65,
     0x70726f64756374696f6e2c7369646520, 0x6f66207468656e6577736c6574746572,
     0x737573656420627920746865646f776e, 0x20746f20746865616363657074656420,
     0x62796c69766520696e20746865617474, 0x656d70747320746f6f75747369646520,
     0x7468656672657175656e63696573486f, 0x77657665722c20696e70726f6772616d,
     0x6d6572736174206c6561737420696e61, 0x7070726f78696d617465616c74686f75,
     0x67682069747761732070617274206f66, 0x616e6420766172696f7573476f766572,
     0x6e6f72206f667468652061727469636c, 0x657475726e656420696e746f3e3c6120,
     0x687265663d222f7468652065636f6e6f, 0x6d79697320746865206d6f73746d6f73,
     0x7420776964656c79776f756c64206c61, 0x746572616e6420706572686170737269,
     0x736520746f207468656f636375727320, 0x7768656e756e64657220776869636863,
     0x6f6e646974696f6e732e746865207765, 0x737465726e7468656f72792074686174,
     0x69732070726f64756365647468652063, 0x697479206f66696e2077686963682068,
     0x657365656e20696e2074686574686520, 0x63656e7472616c6275696c64696e6720,
     0x6f666d616e79206f6620686973617265, 0x61206f6620746865697320746865206f,
     0x6e6c796d6f7374206f66207468656d61, 0x6e79206f662074686574686520576573,
     0x7465726e5468657265206973206e6f65, 0x7874656e64656420746f537461746973,
     0x746963616c636f6c7370616e3d32207c, 0x73686f72742073746f7279706f737369,
     0x626c6520746f746f706f6c6f67696361, 0x6c637269746963616c206f667265706f,
     0x7274656420746f612043687269737469, 0x616e6465636973696f6e20746f697320,
     0x657175616c20746f70726f626c656d73, 0x206f66546869732063616e2062656d65,
     0x726368616e64697365666f72206d6f73, 0x74206f666e6f2065766964656e636565,
     0x646974696f6e73206f66656c656d656e, 0x747320696e2671756f743b2e20546865,
     0x636f6d2f696d616765732f7768696368, 0x206d616b65737468652070726f636573,
     0x7372656d61696e73207468656c697465, 0x7261747572652c69732061206d656d62,
     0x657274686520706f70756c6172746865, 0x20616e6369656e7470726f626c656d73,
     0x20696e74696d65206f66207468656465, 0x666561746564206279626f6479206f66,
     0x2074686561206665772079656172736d, 0x756368206f662074686574686520776f,
     0x726b206f6643616c69666f726e69612c, 0x7365727665642061732061676f766572,
     0x6e6d656e742e636f6e6365707473206f, 0x666d6f76656d656e7420696e09093c64,
     0x69762069643d226974222076616c7565, 0x3d226c616e6775616765206f66617320,
     0x746865792061726570726f6475636564, 0x20696e69732074686174207468656578,
     0x706c61696e207468656469763e3c2f64, 0x69763e0a486f7765766572207468656c,
     0x65616420746f20746865093c61206872, 0x65663d222f776173206772616e746564,
     0x70656f706c652068617665636f6e7469, 0x6e75616c6c79776173207365656e2061,
     0x73616e642072656c6174656474686520, 0x726f6c65206f6670726f706f73656420,
     0x62796f66207468652062657374656163, 0x68206f746865722e436f6e7374616e74,
     0x696e6570656f706c652066726f6d6469, 0x616c65637473206f66746f2072657669,
     0x73696f6e7761732072656e616d656461, 0x20736f75726365206f6674686520696e,
     0x697469616c6c61756e6368656420696e, 0x70726f7669646520746865746f207468,
     0x65207765737477686572652074686572, 0x65616e642073696d696c617262657477,
     0x65656e2074776f697320616c736f2074, 0x6865456e676c69736820616e64636f6e,
     0x646974696f6e732c7468617420697420, 0x776173656e7469746c656420746f7468,
     0x656d73656c7665732e7175616e746974, 0x79206f6672616e73706172656e637974,
     0x68652073616d65206173746f206a6f69, 0x6e20746865636f756e74727920616e64,
     0x74686973206973207468655468697320, 0x6c656420746f612073746174656d656e,
     0x74636f6e747261737420746f6c617374, 0x496e6465784f667468726f7567682068,
     0x697369732064657369676e6564746865, 0x207465726d20697369732070726f7669,
     0x64656470726f74656374207468656e67, 0x3c2f613e3c2f6c693e54686520637572,
     0x72656e747468652073697465206f6673, 0x75627374616e7469616c657870657269,
     0x656e63652c696e207468652057657374, 0x746865792073686f756c64736c6f7665,
     0x6ec48d696e61636f6d656e746172696f, 0x73756e697665727369646164636f6e64,
     0x6963696f6e6573616374697669646164, 0x6573657870657269656e636961746563,
     0x6e6f6c6f67c3ad6170726f6475636369, 0xc3b36e70756e7475616369c3b36e6170,
     0x6c6963616369c3b36e636f6e74726173, 0x65c3b16163617465676f72c3ad617372,
     0x6567697374726172736570726f666573, 0x696f6e616c74726174616d69656e746f]"

lemma length_kBrotliDictionary_30 [simp]: "length kBrotliDictionary_30 = 2400"
  by (simp add: kBrotliDictionary_30_def)

definition kBrotliDictionary_31 :: "u8 list" where
  "kBrotliDictionary_31 = dict_rows [
     0x726567c3ad7374726174657365637265, 0x746172c3ad617072696e636970616c65,
     0x7370726f7465636369c3b36e696d706f, 0x7274616e746573696d706f7274616e63,
     0x6961706f736962696c69646164696e74, 0x65726573616e746563726563696d6965,
     0x6e746f6e656365736964616465737375, 0x73637269626972736561736f63696163,
     0x69c3b36e646973706f6e69626c657365, 0x76616c75616369c3b36e657374756469,
     0x616e746573726573706f6e7361626c65, 0x7265736f6c756369c3b36e6775616461,
     0x6c616a6172617265676973747261646f, 0x736f706f7274756e69646164636f6d65,
     0x726369616c6573666f746f67726166c3, 0xad616175746f72696461646573696e67,
     0x656e696572c3ad6174656c6576697369, 0xc3b36e636f6d706574656e6369616f70,
     0x65726163696f6e657365737461626c65, 0x6369646f73696d706c656d656e746561,
     0x637475616c6d656e74656e6176656761, 0x6369c3b36e636f6e666f726d69646164,
     0x6c696e652d6865696768743a666f6e74, 0x2d66616d696c793a22203a2022687474,
     0x703a2f2f6170706c69636174696f6e73, 0x6c696e6b2220687265663d2273706563,
     0x69666963616c6c792f2f3c215b434441, 0x54415b0a4f7267616e697a6174696f6e,
     0x646973747269627574696f6e3070783b, 0x206865696768743a72656c6174696f6e,
     0x736869706465766963652d7769647468, 0x3c64697620636c6173733d223c6c6162,
     0x656c20666f723d227265676973747261, 0x74696f6e3c2f6e6f7363726970743e0a,
     0x2f696e6465782e68746d6c2277696e64, 0x6f772e6f70656e282021696d706f7274,
     0x616e743b6170706c69636174696f6e2f, 0x696e646570656e64656e63652f2f7777,
     0x772e676f6f676c656f7267616e697a61, 0x74696f6e6175746f636f6d706c657465,
     0x726571756972656d656e7473636f6e73, 0x65727661746976653c666f726d206e61,
     0x6d653d22696e74656c6c65637475616c, 0x6d617267696e2d6c6566743a31387468,
     0x2063656e74757279616e20696d706f72, 0x74616e74696e737469747574696f6e73,
     0x616262726576696174696f6e3c696d67, 0x20636c6173733d226f7267616e697361,
     0x74696f6e636976696c697a6174696f6e, 0x313974682063656e7475727961726368,
     0x6974656374757265696e636f72706f72, 0x61746564323074682063656e74757279,
     0x2d636f6e7461696e6572223e6d6f7374, 0x206e6f7461626c792f3e3c2f613e3c2f,
     0x6469763e6e6f74696669636174696f6e, 0x27756e646566696e6564272946757274,
     0x6865726d6f72652c62656c6965766520, 0x74686174696e6e657248544d4c203d20,
     0x7072696f7220746f207468656472616d, 0x61746963616c6c79726566657272696e,
     0x6720746f6e65676f74696174696f6e73, 0x686561647175617274657273536f7574,
     0x6820416672696361756e737563636573, 0x7366756c50656e6e73796c76616e6961,
     0x4173206120726573756c742c3c68746d, 0x6c206c616e673d22266c743b2f737570,
     0x2667743b6465616c696e672077697468, 0x7068696c6164656c7068696168697374,
     0x6f726963616c6c79293b3c2f73637269, 0x70743e0a70616464696e672d746f703a,
     0x6578706572696d656e74616c67657441, 0x7474726962757465696e737472756374,
     0x696f6e73746563686e6f6c6f67696573, 0x70617274206f6620746865203d66756e,
     0x6374696f6e28297b7375627363726970, 0x74696f6e6c2e647464223e0d0a3c6874,
     0x67656f67726170686963616c436f6e73, 0x7469747574696f6e272c2066756e6374,
     0x696f6e28737570706f72746564206279, 0x6167726963756c747572616c636f6e73,
     0x7472756374696f6e7075626c69636174, 0x696f6e73666f6e742d73697a653a2031,
     0x612076617269657479206f663c646976, 0x207374796c653d22456e6379636c6f70,
     0x65646961696672616d65207372633d22, 0x64656d6f6e737472617465646163636f,
     0x6d706c6973686564756e697665727369, 0x7469657344656d6f6772617068696373,
     0x293b3c2f7363726970743e3c64656469, 0x636174656420746f6b6e6f776c656467,
     0x65206f66736174697366616374696f6e, 0x706172746963756c61726c793c2f6469,
     0x763e3c2f6469763e456e676c69736820, 0x28555329617070656e644368696c6428,
     0x7472616e736d697373696f6e732e2048, 0x6f77657665722c20696e74656c6c6967,
     0x656e63652220746162696e6465783d22, 0x666c6f61743a72696768743b436f6d6d,
     0x6f6e7765616c746872616e67696e6720, 0x66726f6d696e20776869636820746865,
     0x6174206c65617374206f6e6572657072, 0x6f64756374696f6e656e6379636c6f70,
     0x656469613b666f6e742d73697a653a31, 0x6a7572697364696374696f6e61742074,
     0x6861742074696d65223e3c6120636c61, 0x73733d22496e206164646974696f6e2c,
     0x6465736372697074696f6e2b636f6e76, 0x6572736174696f6e636f6e7461637420,
     0x7769746869732067656e6572616c6c79, 0x722220636f6e74656e743d2272657072,
     0x6573656e74696e67266c743b6d617468, 0x2667743b70726573656e746174696f6e,
     0x6f63636173696f6e616c6c793c696d67, 0x2077696474683d226e61766967617469,
     0x6f6e223e636f6d70656e736174696f6e, 0x6368616d70696f6e736869706d656469,
     0x613d22616c6c222076696f6c6174696f, 0x6e206f667265666572656e636520746f,
     0x72657475726e20747275653b53747269, 0x63742f2f454e22207472616e73616374,
     0x696f6e73696e74657276656e74696f6e, 0x766572696669636174696f6e496e666f,
     0x726d6174696f6e20646966666963756c, 0x746965734368616d70696f6e73686970,
     0x6361706162696c69746965733c215b65, 0x6e6469665d2d2d3e7d0a3c2f73637269,
     0x70743e0a43687269737469616e697479, 0x666f72206578616d706c652c50726f66,
     0x657373696f6e616c7265737472696374, 0x696f6e73737567676573742074686174,
     0x7761732072656c656173656428737563, 0x682061732074686572656d6f7665436c,
     0x61737328756e656d706c6f796d656e74, 0x74686520416d65726963616e73747275,
     0x6374757265206f662f696e6465782e68, 0x746d6c207075626c697368656420696e,
     0x7370616e20636c6173733d22223e3c61, 0x20687265663d222f696e74726f647563,
     0x74696f6e62656c6f6e67696e6720746f, 0x636c61696d65642074686174636f6e73,
     0x657175656e6365733c6d657461206e61, 0x6d653d22477569646520746f20746865,
     0x6f7665727768656c6d696e6761676169, 0x6e73742074686520636f6e63656e7472,
     0x617465642c0a2e6e6f6e746f75636820, 0x6f62736572766174696f6e733c2f613e,
     0x0a3c2f6469763e0a662028646f63756d, 0x656e742e626f726465723a2031707820,
     0x7b666f6e742d73697a653a3174726561, 0x746d656e74206f663022206865696768]"

lemma length_kBrotliDictionary_31 [simp]: "length kBrotliDictionary_31 = 2400"
  by (simp add: kBrotliDictionary_31_def)

definition kBrotliDictionary_32 :: "u8 list" where
  "kBrotliDictionary_32 = dict_rows [
     0x743d22316d6f64696669636174696f6e, 0x496e646570656e64656e636564697669,
     0x64656420696e746f6772656174657220, 0x7468616e616368696576656d656e7473,
     0x65737461626c697368696e674a617661, 0x53637269707422206e65766572746865,
     0x6c6573737369676e69666963616e6365, 0x42726f616463617374696e673e266e62,
     0x73703b3c2f74643e636f6e7461696e65, 0x72223e0a737563682061732074686520,
     0x696e666c75656e6365206f6661207061, 0x72746963756c61727372633d27687474,
     0x703a2f2f6e617669676174696f6e2220, 0x68616c66206f66207468652073756273,
     0x74616e7469616c20266e6273703b3c2f, 0x6469763e616476616e74616765206f66,
     0x646973636f76657279206f6666756e64, 0x616d656e74616c206d6574726f706f6c,
     0x6974616e746865206f70706f73697465, 0x2220786d6c3a6c616e673d2264656c69,
     0x6265726174656c79616c69676e3d6365, 0x6e74657265766f6c7574696f6e206f66,
     0x707265736572766174696f6e696d7072, 0x6f76656d656e7473626567696e6e696e,
     0x6720696e4a6573757320436872697374, 0x5075626c69636174696f6e7364697361,
     0x677265656d656e74746578742d616c69, 0x676e3a722c2066756e6374696f6e2829,
     0x73696d696c61726974696573626f6479, 0x3e3c2f68746d6c3e6973206375727265,
     0x6e746c79616c7068616265746963616c, 0x697320736f6d6574696d657374797065,
     0x3d22696d6167652f6d616e79206f6620, 0x74686520666c6f773a68696464656e3b,
     0x617661696c61626c6520696e64657363, 0x72696265207468656578697374656e63,
     0x65206f66616c6c206f76657220746865, 0x74686520496e7465726e6574093c756c,
     0x20636c6173733d22696e7374616c6c61, 0x74696f6e6e65696768626f72686f6f64,
     0x61726d656420666f7263657372656475, 0x63696e6720746865636f6e74696e7565,
     0x7320746f4e6f6e657468656c6573732c, 0x74656d7065726174757265730a09093c,
     0x6120687265663d22636c6f736520746f, 0x207468656578616d706c6573206f6620,
     0x69732061626f75742074686528736565, 0x2062656c6f77292e222069643d227365,
     0x6172636870726f66657373696f6e616c, 0x697320617661696c61626c6574686520,
     0x6f6666696369616c09093c2f73637269, 0x70743e0a0a09093c6469762069643d22,
     0x616363656c65726174696f6e7468726f, 0x756768207468652048616c6c206f6620,
     0x46616d656465736372697074696f6e73, 0x7472616e736c6174696f6e73696e7465,
     0x72666572656e636520747970653d2774, 0x6578742f726563656e74207965617273,
     0x696e2074686520776f726c6476657279, 0x20706f70756c61727b6261636b67726f,
     0x756e643a747261646974696f6e616c20, 0x736f6d65206f662074686520636f6e6e,
     0x656374656420746f6578706c6f697461, 0x74696f6e656d657267656e6365206f66,
     0x636f6e737469747574696f6e41204869, 0x73746f7279206f667369676e69666963,
     0x616e74206d616e756661637475726564, 0x6578706563746174696f6e733e3c6e6f,
     0x7363726970743e3c63616e2062652066, 0x6f756e64626563617573652074686520,
     0x686173206e6f74206265656e6e656967, 0x68626f7572696e67776974686f757420,
     0x74686520616464656420746f20746865, 0x093c6c6920636c6173733d22696e7374,
     0x72756d656e74616c536f766965742055, 0x6e696f6e61636b6e6f776c6564676564,
     0x77686963682063616e2062656e616d65, 0x20666f7220746865617474656e74696f,
     0x6e20746f617474656d70747320746f20, 0x646576656c6f706d656e7473496e2066,
     0x6163742c207468653c6c6920636c6173, 0x733d2261696d706c69636174696f6e73,
     0x7375697461626c6520666f726d756368, 0x206f662074686520636f6c6f6e697a61,
     0x74696f6e707265736964656e7469616c, 0x63616e63656c427562626c6520496e66,
     0x6f726d6174696f6e6d6f7374206f6620, 0x74686520697320646573637269626564,
     0x72657374206f6620746865206d6f7265, 0x206f72206c657373696e205365707465,
     0x6d626572496e74656c6c6967656e6365, 0x7372633d22687474703a2f2f70783b20,
     0x6865696768743a20617661696c61626c, 0x6520746f6d616e756661637475726572,
     0x68756d616e207269676874736c696e6b, 0x20687265663d222f617661696c616269,
     0x6c69747970726f706f7274696f6e616c, 0x6f757473696465207468652061737472,
     0x6f6e6f6d6963616c68756d616e206265, 0x696e67736e616d65206f662074686520,
     0x61726520666f756e6420696e61726520, 0x6261736564206f6e736d616c6c657220,
     0x7468616e6120706572736f6e2077686f, 0x657870616e73696f6e206f6661726775,
     0x696e6720746861746e6f77206b6e6f77, 0x6e206173496e20746865206561726c79,
     0x696e7465726d65646961746564657269, 0x7665642066726f6d5363616e64696e61,
     0x7669616e3c2f613e3c2f6469763e0d0a, 0x636f6e736964657220746865616e2065,
     0x7374696d61746564746865204e617469, 0x6f6e616c3c6469762069643d22706167,
     0x726573756c74696e6720696e636f6d6d, 0x697373696f6e6564616e616c6f676f75,
     0x7320746f617265207265717569726564, 0x2f756c3e0a3c2f6469763e0a77617320,
     0x6261736564206f6e616e642062656361, 0x6d652061266e6273703b266e6273703b,
     0x74222076616c75653d22222077617320, 0x63617074757265646e6f206d6f726520,
     0x7468616e726573706563746976656c79, 0x636f6e74696e756520746f203e0d0a3c,
     0x686561643e0d0a3c7765726520637265, 0x617465646d6f72652067656e6572616c,
     0x696e666f726d6174696f6e2075736564, 0x20666f7220746865696e646570656e64,
     0x656e742074686520496d70657269616c, 0x636f6d706f6e656e74206f66746f2074,
     0x6865206e6f727468696e636c75646520, 0x74686520436f6e737472756374696f6e,
     0x73696465206f662074686520776f756c, 0x64206e6f74206265666f7220696e7374,
     0x616e6365696e76656e74696f6e206f66, 0x6d6f726520636f6d706c6578636f6c6c,
     0x6563746976656c796261636b67726f75, 0x6e643a20746578742d616c69676e3a20,
     0x697473206f726967696e616c696e746f, 0x206163636f756e74746869732070726f,
     0x63657373616e20657874656e73697665, 0x686f77657665722c2074686574686579,
     0x20617265206e6f7472656a6563746564, 0x2074686563726974696369736d206f66,
     0x647572696e6720776869636870726f62, 0x61626c79207468657468697320617274,
     0x69636c652866756e6374696f6e28297b, 0x49742073686f756c64206265616e2061,
     0x677265656d656e746163636964656e74, 0x616c6c79646966666572732066726f6d,
     0x41726368697465637475726562657474, 0x6572206b6e6f776e617272616e67656d]"

lemma length_kBrotliDictionary_32 [simp]: "length kBrotliDictionary_32 = 2400"
  by (simp add: kBrotliDictionary_32_def)

definition kBrotliDictionary_33 :: "u8 list" where
  "kBrotliDictionary_33 = dict_rows [
     0x656e7473696e666c75656e6365206f6e, 0x617474656e646564207468656964656e,
     0x746963616c20746f736f757468206f66, 0x2074686570617373207468726f756768,
     0x786d6c22207469746c653d2277656967, 0x68743a626f6c643b6372656174696e67,
     0x20746865646973706c61793a6e6f6e65, 0x7265706c61636564207468653c696d67,
     0x207372633d222f6968747470733a2f2f, 0x7777772e576f726c6420576172204949,
     0x74657374696d6f6e69616c73666f756e, 0x6420696e207468657265717569726564,
     0x20746f20616e64207468617420746865, 0x6265747765656e207468652077617320,
     0x64657369676e6564636f6e7369737473, 0x206f6620636f6e736964657261626c79,
     0x7075626c697368656420627974686520, 0x6c616e6775616765436f6e7365727661,
     0x74696f6e636f6e736973746564206f66, 0x726566657220746f207468656261636b,
     0x20746f207468652063737322206d6564, 0x69613d2250656f706c652066726f6d20,
     0x617661696c61626c65206f6e70726f76, 0x656420746f2062657375676765737469,
     0x6f6e7322776173206b6e6f776e206173, 0x766172696574696573206f666c696b65,
     0x6c7920746f206265636f6d7072697365, 0x64206f66737570706f72742074686520,
     0x68616e6473206f6620746865636f7570, 0x6c65642077697468636f6e6e65637420,
     0x616e6420626f726465723a6e6f6e653b, 0x706572666f726d616e6365736265666f,
     0x7265206265696e676c61746572206265, 0x63616d6563616c63756c6174696f6e73,
     0x6f6674656e2063616c6c656472657369, 0x64656e7473206f666d65616e696e6720,
     0x746861743e3c6c6920636c6173733d22, 0x65766964656e636520666f726578706c,
     0x616e6174696f6e73656e7669726f6e6d, 0x656e7473223e3c2f613e3c2f6469763e,
     0x776869636820616c6c6f7773496e7472, 0x6f64756374696f6e646576656c6f7065,
     0x642062796120776964652072616e6765, 0x6f6e20626568616c66206f6676616c69,
     0x676e3d22746f70227072696e6369706c, 0x65206f666174207468652074696d652c,
     0x3c2f6e6f7363726970743e0d73616964, 0x20746f2068617665696e207468652066,
     0x697273747768696c65206f7468657273, 0x6879706f746865746963616c7068696c,
     0x6f736f7068657273706f776572206f66, 0x20746865636f6e7461696e656420696e,
     0x706572666f726d6564206279696e6162, 0x696c69747920746f7765726520777269,
     0x7474656e7370616e207374796c653d22, 0x696e707574206e616d653d2274686520,
     0x7175657374696f6e696e74656e646564, 0x20666f7272656a656374696f6e206f66,
     0x696d706c6965732074686174696e7665, 0x6e74656420746865746865207374616e,
     0x646172647761732070726f6261626c79, 0x6c696e6b206265747765656e70726f66,
     0x6573736f72206f66696e746572616374, 0x696f6e736368616e67696e6720746865,
     0x496e6469616e204f6365616e20636c61, 0x73733d226c617374776f726b696e6720,
     0x7769746827687474703a2f2f7777772e, 0x7965617273206265666f726554686973,
     0x20776173207468657265637265617469, 0x6f6e616c656e746572696e6720746865,
     0x6d6561737572656d656e7473616e2065, 0x787472656d656c7976616c7565206f66,
     0x207468657374617274206f6620746865, 0x0a3c2f7363726970743e0a0a616e2065,
     0x66666f727420746f696e637265617365, 0x20746865746f2074686520736f757468,
     0x73706163696e673d2230223e73756666, 0x696369656e746c79746865204575726f,
     0x7065616e636f6e76657274656420746f, 0x636c65617254696d656f757464696420,
     0x6e6f742068617665636f6e7365717565, 0x6e746c79666f7220746865206e657874,
     0x657874656e73696f6e206f6665636f6e, 0x6f6d696320616e64616c74686f756768,
     0x207468656172652070726f6475636564, 0x616e64207769746820746865696e7375,
     0x6666696369656e74676976656e206279, 0x2074686573746174696e672074686174,
     0x657870656e646974757265733c2f7370, 0x616e3e3c2f613e0a74686f7567687420,
     0x746861746f6e20746865206261736973, 0x63656c6c70616464696e673d696d6167,
     0x65206f662074686572657475726e696e, 0x6720746f696e666f726d6174696f6e2c,
     0x73657061726174656420627961737361, 0x7373696e61746564732220636f6e7465,
     0x6e743d22617574686f72697479206f66, 0x6e6f7274687765737465726e3c2f6469,
     0x763e0a3c64697620223e3c2f6469763e, 0x0d0a2020636f6e73756c746174696f6e,
     0x636f6d6d756e697479206f6674686520, 0x6e6174696f6e616c69742073686f756c,
     0x642062657061727469636970616e7473, 0x20616c69676e3d226c65667474686520,
     0x677265617465737473656c656374696f, 0x6e206f6673757065726e61747572616c,
     0x646570656e64656e74206f6e6973206d, 0x656e74696f6e6564616c6c6f77696e67,
     0x2074686577617320696e76656e746564, 0x6163636f6d70616e79696e6768697320,
     0x706572736f6e616c617661696c61626c, 0x652061747374756479206f6620746865,
     0x6f6e20746865206f7468657265786563, 0x7574696f6e206f6648756d616e205269,
     0x676874737465726d73206f6620746865, 0x6173736f63696174696f6e7372657365,
     0x6172636820616e647375636365656465, 0x64206279646566656174656420746865,
     0x616e642066726f6d2074686562757420, 0x7468657920617265636f6d6d616e6465,
     0x72206f667374617465206f6620746865, 0x7965617273206f662061676574686520,
     0x7374756479206f663c756c20636c6173, 0x733d2273706c61636520696e20746865,
     0x7768657265206865207761733c6c6920, 0x636c6173733d22667468657265206172,
     0x65206e6f776869636820626563616d65, 0x6865207075626c697368656465787072,
     0x657373656420696e746f207768696368, 0x20746865636f6d6d697373696f6e6572,
     0x666f6e742d7765696768743a74657272, 0x69746f7279206f66657874656e73696f,
     0x6e73223e526f6d616e20456d70697265, 0x657175616c20746f20746865496e2063,
     0x6f6e74726173742c686f77657665722c, 0x20616e646973207479706963616c6c79,
     0x616e6420686973207769666528616c73, 0x6f2063616c6c65643e3c756c20636c61,
     0x73733d226566666563746976656c7920, 0x65766f6c76656420696e746f7365656d,
     0x20746f20686176657768696368206973, 0x20746865746865726520776173206e6f,
     0x616e20657863656c6c656e74616c6c20, 0x6f662074686573656465736372696265,
     0x64206279496e2070726163746963652c, 0x62726f616463617374696e6763686172,
     0x67656420776974687265666c65637465, 0x6420696e7375626a656374656420746f,
     0x6d696c697461727920616e64746f2074, 0x686520706f696e7465636f6e6f6d6963]"

lemma length_kBrotliDictionary_33 [simp]: "length kBrotliDictionary_33 = 2400"
  by (simp add: kBrotliDictionary_33_def)

definition kBrotliDictionary_34 :: "u8 list" where
  "kBrotliDictionary_34 = dict_rows [
     0x616c6c79736574546172676574696e67, 0x6172652061637475616c6c7976696374,
     0x6f7279206f76657228293b3c2f736372, 0x6970743e636f6e74696e756f75736c79,
     0x726571756972656420666f7265766f6c, 0x7574696f6e617279616e206566666563,
     0x746976656e6f727468206f6620746865, 0x2c207768696368207761732066726f6e,
     0x74206f66207468656f72206f74686572, 0x77697365736f6d6520666f726d206f66,
     0x686164206e6f74206265656e67656e65, 0x7261746564206279696e666f726d6174,
     0x696f6e2e7065726d697474656420746f, 0x696e636c756465732074686564657665,
     0x6c6f706d656e742c656e746572656420, 0x696e746f7468652070726576696f7573,
     0x636f6e73697374656e746c7961726520, 0x6b6e6f776e206173746865206669656c,
     0x64206f66746869732074797065206f66, 0x676976656e20746f2074686574686520,
     0x7469746c65206f66636f6e7461696e73, 0x20746865696e7374616e636573206f66,
     0x696e20746865206e6f72746864756520, 0x746f2074686569726172652064657369,
     0x676e6564636f72706f726174696f6e73, 0x7761732074686174207468656f6e6520,
     0x6f662074686573656d6f726520706f70, 0x756c617273756363656564656420696e,
     0x737570706f72742066726f6d696e2064, 0x6966666572656e74646f6d696e617465,
     0x6420627964657369676e656420666f72, 0x6f776e657273686970206f66616e6420,
     0x706f737369626c797374616e64617264, 0x697a6564726573706f6e736554657874,
     0x77617320696e74656e64656472656365, 0x6976656420746865617373756d656420,
     0x746861746172656173206f6620746865, 0x7072696d6172696c7920696e74686520,
     0x6261736973206f66696e207468652073, 0x656e73656163636f756e747320666f72,
     0x64657374726f7965642062796174206c, 0x656173742074776f776173206465636c,
     0x61726564636f756c64206e6f74206265, 0x536563726574617279206f6661707065,
     0x617220746f2062656d617267696e2d74, 0x6f703a312f5e5c732b7c5c732b242f67,
     0x65297b7468726f7720657d3b74686520, 0x7374617274206f6674776f2073657061,
     0x726174656c616e677561676520616e64, 0x77686f20686164206265656e6f706572,
     0x6174696f6e206f666465617468206f66, 0x207468657265616c206e756d62657273,
     0x093c6c696e6b2072656c3d2270726f76, 0x69646564207468657468652073746f72,
     0x79206f66636f6d7065746974696f6e73, 0x656e676c6973682028554b29656e676c,
     0x6973682028555329d09cd0bed0bdd0b3, 0xd0bed0bbd0a1d180d0bfd181d0bad0b8,
     0xd181d180d0bfd181d0bad0b8d181d180, 0xd0bfd181d0bad0bed984d8b9d8b1d8a8,
     0xd98ad8a9e6ada3e9ab94e4b8ade69687, 0xe7ae80e4bd93e4b8ade69687e7b981e4,
     0xbd93e4b8ade69687e69c89e99990e585, 0xace58fb8e4babae6b091e694bfe5ba9c,
     0xe998bfe9878ce5b7b4e5b7b4e7a4bee4, 0xbc9ae4b8bbe4b989e6938de4bd9ce7b3,
     0xbbe7bb9fe694bfe7ad96e6b395e8a784, 0x696e666f726d616369c3b36e68657272,
     0x616d69656e746173656c65637472c3b3, 0x6e69636f646573637269706369c3b36e,
     0x636c61736966696361646f73636f6e6f, 0x63696d69656e746f7075626c69636163,
     0x69c3b36e72656c6163696f6e61646173, 0x696e666f726dc3a17469636172656c61,
     0x63696f6e61646f73646570617274616d, 0x656e746f74726162616a61646f726573,
     0x646972656374616d656e74656179756e, 0x74616d69656e746f6d65726361646f4c,
     0x69627265636f6e74c3a16374656e6f73, 0x68616269746163696f6e657363756d70,
     0x6c696d69656e746f7265737461757261, 0x6e746573646973706f73696369c3b36e,
     0x636f6e73656375656e636961656c6563, 0x7472c3b36e69636161706c6963616369,
     0x6f6e6573646573636f6e65637461646f, 0x696e7374616c616369c3b36e7265616c,
     0x697a616369c3b36e7574696c697a6163, 0x69c3b36e656e6369636c6f7065646961,
     0x656e6665726d656461646573696e7374, 0x72756d656e746f73657870657269656e,
     0x63696173696e73746974756369c3b36e, 0x706172746963756c6172657373756263,
     0x617465676f726961d182d0bed0bbd18c, 0xd0bad0bed0a0d0bed181d181d0b8d0b8,
     0xd180d0b0d0b1d0bed182d18bd0b1d0be, 0xd0bbd18cd188d0b5d0bfd180d0bed181,
     0xd182d0bed0bcd0bed0b6d0b5d182d0b5, 0xd0b4d180d183d0b3d0b8d185d181d0bb,
     0xd183d187d0b0d0b5d181d0b5d0b9d187, 0xd0b0d181d0b2d181d0b5d0b3d0b4d0b0,
     0xd0a0d0bed181d181d0b8d18fd09cd0be, 0xd181d0bad0b2d0b5d0b4d180d183d0b3,
     0xd0b8d0b5d0b3d0bed180d0bed0b4d0b0, 0xd0b2d0bed0bfd180d0bed181d0b4d0b0,
     0xd0bdd0bdd18bd185d0b4d0bed0bbd0b6, 0xd0bdd18bd0b8d0bcd0b5d0bdd0bdd0be,
     0xd09cd0bed181d0bad0b2d18bd180d183, 0xd0b1d0bbd0b5d0b9d09cd0bed181d0ba,
     0xd0b2d0b0d181d182d180d0b0d0bdd18b, 0xd0bdd0b8d187d0b5d0b3d0bed180d0b0,
     0xd0b1d0bed182d0b5d0b4d0bed0bbd0b6, 0xd0b5d0bdd183d181d0bbd183d0b3d0b8,
     0xd182d0b5d0bfd0b5d180d18cd09ed0b4, 0xd0bdd0b0d0bad0bed0bfd0bed182d0be,
     0xd0bcd183d180d0b0d0b1d0bed182d183, 0xd0b0d0bfd180d0b5d0bbd18fd0b2d0be,
     0xd0bed0b1d189d0b5d0bed0b4d0bdd0be, 0xd0b3d0bed181d0b2d0bed0b5d0b3d0be,
     0xd181d182d0b0d182d18cd0b8d0b4d180, 0xd183d0b3d0bed0b9d184d0bed180d183,
     0xd0bcd0b5d185d0bed180d0bed188d0be, 0xd0bfd180d0bed182d0b8d0b2d181d181,
     0xd18bd0bbd0bad0b0d0bad0b0d0b6d0b4, 0xd18bd0b9d0b2d0bbd0b0d181d182d0b8,
     0xd0b3d180d183d0bfd0bfd18bd0b2d0bc, 0xd0b5d181d182d0b5d180d0b0d0b1d0be,
     0xd182d0b0d181d0bad0b0d0b7d0b0d0bb, 0xd0bfd0b5d180d0b2d18bd0b9d0b4d0b5,
     0xd0bbd0b0d182d18cd0b4d0b5d0bdd18c, 0xd0b3d0b8d0bfd0b5d180d0b8d0bed0b4,
     0xd0b1d0b8d0b7d0bdd0b5d181d0bed181, 0xd0bdd0bed0b2d0b5d0bcd0bed0bcd0b5,
     0xd0bdd182d0bad183d0bfd0b8d182d18c, 0xd0b4d0bed0bbd0b6d0bdd0b0d180d0b0,
     0xd0bcd0bad0b0d185d0bdd0b0d187d0b0, 0xd0bbd0bed0a0d0b0d0b1d0bed182d0b0,
     0xd0a2d0bed0bbd18cd0bad0bed181d0be, 0xd0b2d181d0b5d0bcd0b2d182d0bed180,
     0xd0bed0b9d0bdd0b0d187d0b0d0bbd0b0, 0xd181d0bfd0b8d181d0bed0bad181d0bb,
     0xd183d0b6d0b1d18bd181d0b8d181d182, 0xd0b5d0bcd0bfd0b5d187d0b0d182d0b8,
     0xd0bdd0bed0b2d0bed0b3d0bed0bfd0be, 0xd0bcd0bed189d0b8d181d0b0d0b9d182,
     0xd0bed0b2d0bfd0bed187d0b5d0bcd183, 0xd0bfd0bed0bcd0bed189d18cd0b4d0be,
     0xd0bbd0b6d0bdd0bed181d181d18bd0bb, 0xd0bad0b8d0b1d18bd181d182d180d0be,
     0xd0b4d0b0d0bdd0bdd18bd0b5d0bcd0bd, 0xd0bed0b3d0b8d0b5d0bfd180d0bed0b5]"

lemma length_kBrotliDictionary_34 [simp]: "length kBrotliDictionary_34 = 2400"
  by (simp add: kBrotliDictionary_34_def)

definition kBrotliDictionary_35 :: "u8 list" where
  "kBrotliDictionary_35 = dict_rows [
     0xd0bad182d0a1d0b5d0b9d187d0b0d181, 0xd0bcd0bed0b4d0b5d0bbd0b8d182d0b0,
     0xd0bad0bed0b3d0bed0bed0bdd0bbd0b0, 0xd0b9d0bdd0b3d0bed180d0bed0b4d0b5,
     0xd0b2d0b5d180d181d0b8d18fd181d182, 0xd180d0b0d0bdd0b5d184d0b8d0bbd18c,
     0xd0bcd18bd183d180d0bed0b2d0bdd18f, 0xd180d0b0d0b7d0bdd18bd185d0b8d181,
     0xd0bad0b0d182d18cd0bdd0b5d0b4d0b5, 0xd0bbd18ed18fd0bdd0b2d0b0d180d18f,
     0xd0bcd0b5d0bdd18cd188d0b5d0bcd0bd, 0xd0bed0b3d0b8d185d0b4d0b0d0bdd0bd,
     0xd0bed0b9d0b7d0bdd0b0d187d0b8d182, 0xd0bdd0b5d0bbd18cd0b7d18fd184d0be,
     0xd180d183d0bcd0b0d0a2d0b5d0bfd0b5, 0xd180d18cd0bcd0b5d181d18fd186d0b0,
     0xd0b7d0b0d189d0b8d182d18bd09bd183, 0xd187d188d0b8d0b5e0a4a8e0a4b9e0a5,
     0x80e0a482e0a495e0a4b0e0a4a8e0a587, 0xe0a485e0a4aae0a4a8e0a587e0a495e0,
     0xa4bfe0a4afe0a4bee0a495e0a4b0e0a5, 0x87e0a482e0a485e0a4a8e0a58de0a4af,
     0xe0a495e0a58de0a4afe0a4bee0a497e0, 0xa4bee0a487e0a4a1e0a4ace0a4bee0a4,
     0xb0e0a587e0a495e0a4bfe0a4b8e0a580, 0xe0a4a6e0a4bfe0a4afe0a4bee0a4aae0,
     0xa4b9e0a4b2e0a587e0a4b8e0a4bfe0a4, 0x82e0a4b9e0a4ade0a4bee0a4b0e0a4a4,
     0xe0a485e0a4aae0a4a8e0a580e0a4b5e0, 0xa4bee0a4b2e0a587e0a4b8e0a587e0a4,
     0xb5e0a4bee0a495e0a4b0e0a4a4e0a587, 0xe0a4aee0a587e0a4b0e0a587e0a4b9e0,
     0xa58be0a4a8e0a587e0a4b8e0a495e0a4, 0xa4e0a587e0a4ace0a4b9e0a581e0a4a4,
     0xe0a4b8e0a4bee0a487e0a49fe0a4b9e0, 0xa58be0a497e0a4bee0a49ce0a4bee0a4,
     0xa8e0a587e0a4aee0a4bfe0a4a8e0a49f, 0xe0a495e0a4b0e0a4a4e0a4bee0a495e0,
     0xa4b0e0a4a8e0a4bee0a489e0a4a8e0a4, 0x95e0a587e0a4afe0a4b9e0a4bee0a481,
     0xe0a4b8e0a4ace0a4b8e0a587e0a4ade0, 0xa4bee0a4b7e0a4bee0a486e0a4aae0a4,
     0x95e0a587e0a4b2e0a4bfe0a4afe0a587, 0xe0a4b6e0a581e0a4b0e0a582e0a487e0,
     0xa4b8e0a495e0a587e0a498e0a482e0a4, 0x9fe0a587e0a4aee0a587e0a4b0e0a580,
     0xe0a4b8e0a495e0a4a4e0a4bee0a4aee0, 0xa587e0a4b0e0a4bee0a4b2e0a587e0a4,
     0x95e0a4b0e0a485e0a4a7e0a4bfe0a495, 0xe0a485e0a4aae0a4a8e0a4bee0a4b8e0,
     0xa4aee0a4bee0a49ce0a4aee0a581e0a4, 0x9de0a587e0a495e0a4bee0a4b0e0a4a3,
     0xe0a4b9e0a58be0a4a4e0a4bee0a495e0, 0xa4a1e0a4bce0a580e0a4afe0a4b9e0a4,
     0xbee0a482e0a4b9e0a58be0a49fe0a4b2, 0xe0a4b6e0a4ace0a58de0a4a6e0a4b2e0,
     0xa4bfe0a4afe0a4bee0a49ce0a580e0a4, 0xb5e0a4a8e0a49ce0a4bee0a4a4e0a4be,
     0xe0a495e0a588e0a4b8e0a587e0a486e0, 0xa4aae0a495e0a4bee0a4b5e0a4bee0a4,
     0xb2e0a580e0a4a6e0a587e0a4a8e0a587, 0xe0a4aae0a582e0a4b0e0a580e0a4aae0,
     0xa4bee0a4a8e0a580e0a489e0a4b8e0a4, 0x95e0a587e0a4b9e0a58be0a497e0a580,
     0xe0a4ace0a588e0a4a0e0a495e0a486e0, 0xa4aae0a495e0a580e0a4b5e0a4b0e0a5,
     0x8de0a4b7e0a497e0a4bee0a482e0a4b5, 0xe0a486e0a4aae0a495e0a58be0a49ce0,
     0xa4bfe0a4b2e0a4bee0a49ce0a4bee0a4, 0xa8e0a4bee0a4b8e0a4b9e0a4aee0a4a4,
     0xe0a4b9e0a4aee0a587e0a482e0a489e0, 0xa4a8e0a495e0a580e0a4afe0a4bee0a4,
     0xb9e0a582e0a4a6e0a4b0e0a58de0a49c, 0xe0a4b8e0a582e0a49ae0a580e0a4aae0,
     0xa4b8e0a482e0a4a6e0a4b8e0a4b5e0a4, 0xbee0a4b2e0a4b9e0a58be0a4a8e0a4be,
     0xe0a4b9e0a58be0a4a4e0a580e0a49ce0, 0xa588e0a4b8e0a587e0a4b5e0a4bee0a4,
     0xaae0a4b8e0a49ce0a4a8e0a4a4e0a4be, 0xe0a4a8e0a587e0a4a4e0a4bee0a49ce0,
     0xa4bee0a4b0e0a580e0a498e0a4bee0a4, 0xafe0a4b2e0a49ce0a4bfe0a4b2e0a587,
     0xe0a4a8e0a580e0a49ae0a587e0a49ce0, 0xa4bee0a482e0a49ae0a4aae0a4a4e0a5,
     0x8de0a4b0e0a497e0a582e0a497e0a4b2, 0xe0a49ce0a4bee0a4a4e0a587e0a4ace0,
     0xa4bee0a4b9e0a4b0e0a486e0a4aae0a4, 0xa8e0a587e0a4b5e0a4bee0a4b9e0a4a8,
     0xe0a487e0a4b8e0a495e0a4bee0a4b8e0, 0xa581e0a4ace0a4b9e0a4b0e0a4b9e0a4,
     0xa8e0a587e0a487e0a4b8e0a4b8e0a587, 0xe0a4b8e0a4b9e0a4bfe0a4a4e0a4ace0,
     0xa4a1e0a4bce0a587e0a498e0a49fe0a4, 0xa8e0a4bee0a4a4e0a4b2e0a4bee0a4b6,
     0xe0a4aae0a4bee0a482e0a49ae0a4b6e0, 0xa58de0a4b0e0a580e0a4ace0a4a1e0a4,
     0xbce0a580e0a4b9e0a58be0a4a4e0a587, 0xe0a4b8e0a4bee0a488e0a49fe0a4b6e0,
     0xa4bee0a4afe0a4a6e0a4b8e0a495e0a4, 0xa4e0a580e0a49ce0a4bee0a4a4e0a580,
     0xe0a4b5e0a4bee0a4b2e0a4bee0a4b9e0, 0xa49ce0a4bee0a4b0e0a4aae0a49fe0a4,
     0xa8e0a4bee0a4b0e0a496e0a4a8e0a587, 0xe0a4b8e0a4a1e0a4bce0a495e0a4aee0,
     0xa4bfe0a4b2e0a4bee0a489e0a4b8e0a4, 0x95e0a580e0a495e0a587e0a4b5e0a4b2,
     0xe0a4b2e0a497e0a4a4e0a4bee0a496e0, 0xa4bee0a4a8e0a4bee0a485e0a4b0e0a5,
     0x8de0a4a5e0a49ce0a4b9e0a4bee0a482, 0xe0a4a6e0a587e0a496e0a4bee0a4aae0,
     0xa4b9e0a4b2e0a580e0a4a8e0a4bfe0a4, 0xafe0a4aee0a4ace0a4bfe0a4a8e0a4be,
     0xe0a4ace0a588e0a482e0a495e0a495e0, 0xa4b9e0a580e0a482e0a495e0a4b9e0a4,
     0xa8e0a4bee0a4a6e0a587e0a4a4e0a4be, 0xe0a4b9e0a4aee0a4b2e0a587e0a495e0,
     0xa4bee0a4abe0a580e0a49ce0a4ace0a4, 0x95e0a4bfe0a4a4e0a581e0a4b0e0a4a4,
     0xe0a4aee0a4bee0a482e0a497e0a4b5e0, 0xa4b9e0a580e0a482e0a4b0e0a58be0a4,
     0x9ce0a4bce0a4aee0a4bfe0a4b2e0a580, 0xe0a486e0a4b0e0a58be0a4aae0a4b8e0,
     0xa587e0a4a8e0a4bee0a4afe0a4bee0a4, 0xa6e0a4b5e0a4b2e0a587e0a4a8e0a587,
     0xe0a496e0a4bee0a4a4e0a4bee0a495e0, 0xa4b0e0a580e0a4ace0a489e0a4a8e0a4,
     0x95e0a4bee0a49ce0a4b5e0a4bee0a4ac, 0xe0a4aae0a582e0a4b0e0a4bee0a4ace0,
     0xa4a1e0a4bce0a4bee0a4b8e0a58ce0a4, 0xa6e0a4bee0a4b6e0a587e0a4afe0a4b0,
     0xe0a495e0a4bfe0a4afe0a587e0a495e0, 0xa4b9e0a4bee0a482e0a485e0a495e0a4,
     0xb8e0a4b0e0a4ace0a4a8e0a4bee0a48f, 0xe0a4b5e0a4b9e0a4bee0a482e0a4b8e0,
     0xa58de0a4a5e0a4b2e0a4aee0a4bfe0a4, 0xb2e0a587e0a4b2e0a587e0a496e0a495,
     0xe0a4b5e0a4bfe0a4b7e0a4afe0a495e0, 0xa58de0a4b0e0a482e0a4b8e0a4aee0a5,
     0x82e0a4b9e0a4a5e0a4bee0a4a8e0a4be, 0xd8aad8b3d8aad8b7d98ad8b9d985d8b4,
     0xd8a7d8b1d983d8a9d8a8d988d8a7d8b3, 0xd8b7d8a9d8a7d984d8b5d981d8add8a9,
     0xd985d988d8a7d8b6d98ad8b9d8a7d984, 0xd8aed8a7d8b5d8a9d8a7d984d985d8b2,
     0xd98ad8afd8a7d984d8b9d8a7d985d8a9, 0xd8a7d984d983d8a7d8aad8a8d8a7d984,
     0xd8b1d8afd988d8afd8a8d8b1d986d8a7, 0xd985d8acd8a7d984d8afd988d984d8a9,
     0xd8a7d984d8b9d8a7d984d985d8a7d984, 0xd985d988d982d8b9d8a7d984d8b9d8b1]"

lemma length_kBrotliDictionary_35 [simp]: "length kBrotliDictionary_35 = 2400"
  by (simp add: kBrotliDictionary_35_def)

definition kBrotliDictionary_36 :: "u8 list" where
  "kBrotliDictionary_36 = dict_rows [
     0xd8a8d98ad8a7d984d8b3d8b1d98ad8b9, 0xd8a7d984d8acd988d8a7d984d8a7d984,
     0xd8b0d987d8a7d8a8d8a7d984d8add98a, 0xd8a7d8a9d8a7d984d8add982d988d982,
     0xd8a7d984d983d8b1d98ad985d8a7d984, 0xd8b9d8b1d8a7d982d985d8add981d988,
     0xd8b8d8a9d8a7d984d8abd8a7d986d98a, 0xd985d8b4d8a7d987d8afd8a9d8a7d984,
     0xd985d8b1d8a3d8a9d8a7d984d982d8b1, 0xd8a2d986d8a7d984d8b4d8a8d8a7d8a8,
     0xd8a7d984d8add988d8a7d8b1d8a7d984, 0xd8acd8afd98ad8afd8a7d984d8a3d8b3,
     0xd8b1d8a9d8a7d984d8b9d984d988d985, 0xd985d8acd985d988d8b9d8a9d8a7d984,
     0xd8b1d8add985d986d8a7d984d986d982, 0xd8a7d8b7d981d984d8b3d8b7d98ad986,
     0xd8a7d984d983d988d98ad8aad8a7d984, 0xd8afd986d98ad8a7d8a8d8b1d983d8a7,
     0xd8aad987d8a7d984d8b1d98ad8a7d8b6, 0xd8aad8add98ad8a7d8aad98ad8a8d8aa,
     0xd988d982d98ad8aad8a7d984d8a3d988, 0xd984d989d8a7d984d8a8d8b1d98ad8af,
     0xd8a7d984d983d984d8a7d985d8a7d984, 0xd8b1d8a7d8a8d8b7d8a7d984d8b4d8ae,
     0xd8b5d98ad8b3d98ad8a7d8b1d8a7d8aa, 0xd8a7d984d8abd8a7d984d8abd8a7d984,
     0xd8b5d984d8a7d8a9d8a7d984d8add8af, 0xd98ad8abd8a7d984d8b2d988d8a7d8b1,
     0xd8a7d984d8aed984d98ad8acd8a7d984, 0xd8acd985d98ad8b9d8a7d984d8b9d8a7,
     0xd985d987d8a7d984d8acd985d8a7d984, 0xd8a7d984d8b3d8a7d8b9d8a9d985d8b4,
     0xd8a7d987d8afd987d8a7d984d8b1d8a6, 0xd98ad8b3d8a7d984d8afd8aed988d984,
     0xd8a7d984d981d986d98ad8a9d8a7d984, 0xd983d8aad8a7d8a8d8a7d984d8afd988,
     0xd8b1d98ad8a7d984d8afd8b1d988d8b3, 0xd8a7d8b3d8aad8bad8b1d982d8aad8b5,
     0xd8a7d985d98ad985d8a7d984d8a8d986, 0xd8a7d8aad8a7d984d8b9d8b8d98ad985,
     0x656e7465727461696e6d656e74756e64, 0x65727374616e64696e67203d2066756e,
     0x6374696f6e28292e6a70672220776964, 0x74683d22636f6e66696775726174696f,
     0x6e2e706e67222077696474683d223c62, 0x6f647920636c6173733d224d6174682e,
     0x72616e646f6d2829636f6e74656d706f, 0x7261727920556e697465642053746174,
     0x657363697263756d7374616e6365732e, 0x617070656e644368696c64286f726761,
     0x6e697a6174696f6e733c7370616e2063, 0x6c6173733d22223e3c696d6720737263,
     0x3d222f64697374696e67756973686564, 0x74686f7573616e6473206f6620636f6d,
     0x6d756e69636174696f6e636c65617222, 0x3e3c2f6469763e696e76657374696761,
     0x74696f6e66617669636f6e2e69636f22, 0x206d617267696e2d72696768743a6261,
     0x736564206f6e20746865204d61737361, 0x63687573657474737461626c6520626f,
     0x726465723d696e7465726e6174696f6e, 0x616c616c736f206b6e6f776e20617370,
     0x726f6e756e63696174696f6e6261636b, 0x67726f756e643a236670616464696e67,
     0x2d6c6566743a466f72206578616d706c, 0x652c206d697363656c6c616e656f7573,
     0x266c743b2f6d6174682667743b707379, 0x63686f6c6f676963616c696e20706172,
     0x746963756c6172656172636822207479, 0x70653d22666f726d206d6574686f643d,
     0x226173206f70706f73656420746f5375, 0x7072656d6520436f7572746f63636173,
     0x696f6e616c6c79204164646974696f6e, 0x616c6c792c4e6f72746820416d657269,
     0x636170783b6261636b67726f756e646f, 0x70706f7274756e6974696573456e7465,
     0x727461696e6d656e742e746f4c6f7765, 0x7243617365286d616e75666163747572,
     0x696e6770726f66657373696f6e616c20, 0x636f6d62696e65642077697468466f72,
     0x20696e7374616e63652c636f6e736973, 0x74696e67206f6622206d61786c656e67,
     0x74683d2272657475726e2066616c7365, 0x3b636f6e7363696f75736e6573734d65,
     0x646974657272616e65616e6578747261, 0x6f7264696e617279617373617373696e,
     0x6174696f6e73756273657175656e746c, 0x7920627574746f6e20747970653d2274,
     0x6865206e756d626572206f6674686520, 0x6f726967696e616c20636f6d70726568,
     0x656e7369766572656665727320746f20, 0x7468653c2f756c3e0a3c2f6469763e0a,
     0x7068696c6f736f70686963616c6c6f63, 0x6174696f6e2e68726566776173207075,
     0x626c697368656453616e204672616e63, 0x6973636f2866756e6374696f6e28297b,
     0x0a3c6469762069643d226d61696e736f, 0x70686973746963617465646d61746865,
     0x6d61746963616c202f686561643e0d0a, 0x3c626f64797375676765737473207468,
     0x6174646f63756d656e746174696f6e63, 0x6f6e63656e74726174696f6e72656c61,
     0x74696f6e73686970736d617920686176, 0x65206265656e28666f72206578616d70,
     0x6c652c546869732061727469636c6520, 0x696e20736f6d65206361736573706172,
     0x7473206f662074686520646566696e69, 0x74696f6e206f66477265617420427269,
     0x7461696e2063656c6c70616464696e67, 0x3d6571756976616c656e7420746f706c,
     0x616365686f6c6465723d223b20666f6e, 0x742d73697a653a206a75737469666963,
     0x6174696f6e62656c6965766564207468, 0x617473756666657265642066726f6d61,
     0x7474656d7074656420746f206c656164, 0x6572206f662074686563726970742220,
     0x7372633d222f2866756e6374696f6e28, 0x29207b61726520617661696c61626c65,
     0x0a093c6c696e6b2072656c3d22207372, 0x633d27687474703a2f2f696e74657265,
     0x7374656420696e636f6e76656e74696f, 0x6e616c202220616c743d2222202f3e3c,
     0x2f6172652067656e6572616c6c796861, 0x7320616c736f206265656e6d6f737420,
     0x706f70756c617220636f72726573706f, 0x6e64696e676372656469746564207769,
     0x746874796c653d22626f726465723a3c, 0x2f613e3c2f7370616e3e3c2f2e676966,
     0x222077696474683d223c696672616d65, 0x207372633d227461626c6520636c6173,
     0x733d22696e6c696e652d626c6f636b3b, 0x6163636f7264696e6720746f20746f67,
     0x65746865722077697468617070726f78, 0x696d6174656c797061726c69616d656e,
     0x746172796d6f726520616e64206d6f72, 0x65646973706c61793a6e6f6e653b7472,
     0x61646974696f6e616c6c79707265646f, 0x6d696e616e746c79266e6273703b7c26,
     0x6e6273703b266e6273703b3c2f737061, 0x6e3e2063656c6c73706163696e673d3c,
     0x696e707574206e616d653d226f722220, 0x636f6e74656e743d22636f6e74726f76,
     0x65727369616c70726f70657274793d22, 0x6f673a2f782d73686f636b776176652d,
     0x64656d6f6e7374726174696f6e737572, 0x726f756e6465642062794e6576657274,
     0x68656c6573732c776173207468652066, 0x69727374636f6e736964657261626c65,
     0x20416c74686f7567682074686520636f, 0x6c6c61626f726174696f6e73686f756c]"

lemma length_kBrotliDictionary_36 [simp]: "length kBrotliDictionary_36 = 2400"
  by (simp add: kBrotliDictionary_36_def)

definition kBrotliDictionary_37 :: "u8 list" where
  "kBrotliDictionary_37 = dict_rows [
     0x64206e6f7420626570726f706f727469, 0x6f6e206f663c7370616e207374796c65,
     0x3d226b6e6f776e206173207468652073, 0x686f72746c79206166746572666f7220,
     0x696e7374616e63652c64657363726962, 0x6564206173202f686561643e0a3c626f,
     0x6479207374617274696e672077697468, 0x696e6372656173696e676c7920746865,
     0x20666163742074686174646973637573, 0x73696f6e206f666d6964646c65206f66,
     0x20746865616e20696e64697669647561, 0x6c646966666963756c7420746f20706f,
     0x696e74206f662076696577686f6d6f73, 0x657875616c697479616363657074616e,
     0x6365206f663c2f7370616e3e3c2f6469, 0x763e6d616e756661637475726572736f,
     0x726967696e206f6620746865636f6d6d, 0x6f6e6c792075736564696d706f727461,
     0x6e6365206f6664656e6f6d696e617469, 0x6f6e736261636b67726f756e643a2023,
     0x6c656e677468206f6620746865646574, 0x65726d696e6174696f6e61207369676e,
     0x69666963616e742220626f726465723d, 0x2230223e7265766f6c7574696f6e6172,
     0x797072696e6369706c6573206f666973, 0x20636f6e736964657265647761732064,
     0x6576656c6f706564496e646f2d457572, 0x6f7065616e76756c6e657261626c6520,
     0x746f70726f706f6e656e7473206f6661, 0x726520736f6d6574696d6573636c6f73,
     0x657220746f207468654e657720596f72, 0x6b2043697479206e616d653d22736561,
     0x7263686174747269627574656420746f, 0x636f75727365206f66207468656d6174,
     0x68656d6174696369616e627920746865, 0x20656e64206f6661742074686520656e,
     0x64206f662220626f726465723d223022, 0x20746563686e6f6c6f676963616c2e72,
     0x656d6f7665436c617373286272616e63, 0x68206f662074686565766964656e6365,
     0x2074686174215b656e6469665d2d2d3e, 0x0d0a496e73746974757465206f662069,
     0x6e746f20612073696e676c6572657370, 0x6563746976656c792e616e6420746865,
     0x7265666f726570726f70657274696573, 0x206f666973206c6f636174656420696e,
     0x736f6d65206f66207768696368546865, 0x726520697320616c736f636f6e74696e,
     0x75656420746f20617070656172616e63, 0x65206f662026616d703b6e646173683b,
     0x2064657363726962657320746865636f, 0x6e73696465726174696f6e617574686f,
     0x72206f6620746865696e646570656e64, 0x656e746c796571756970706564207769,
     0x7468646f6573206e6f7420686176653c, 0x2f613e3c6120687265663d22636f6e66,
     0x7573656420776974683c6c696e6b2068, 0x7265663d222f61742074686520616765,
     0x206f6661707065617220696e20746865, 0x546865736520696e636c756465726567,
     0x6172646c657373206f66636f756c6420, 0x62652075736564207374796c653d2671,
     0x756f743b7365766572616c2074696d65, 0x73726570726573656e7420746865626f,
     0x64793e0a3c2f68746d6c3e74686f7567, 0x687420746f206265706f70756c617469,
     0x6f6e206f66706f73736962696c697469, 0x657370657263656e74616765206f6661,
     0x636365737320746f20746865616e2061, 0x7474656d707420746f70726f64756374,
     0x696f6e206f666a71756572792f6a7175, 0x65727974776f20646966666572656e74,
     0x62656c6f6e6720746f20746865657374, 0x61626c6973686d656e747265706c6163,
     0x696e6720746865646573637269707469, 0x6f6e222064657465726d696e65207468,
     0x65617661696c61626c6520666f724163, 0x636f7264696e6720746f207769646520,
     0x72616e6765206f66093c64697620636c, 0x6173733d226d6f726520636f6d6d6f6e,
     0x6c796f7267616e69736174696f6e7366, 0x756e6374696f6e616c69747977617320,
     0x636f6d706c657465642026616d703b6d, 0x646173683b2070617274696369706174,
     0x696f6e74686520636861726163746572, 0x616e206164646974696f6e616c617070,
     0x6561727320746f206265666163742074, 0x68617420746865616e206578616d706c,
     0x65206f667369676e69666963616e746c, 0x796f6e6d6f7573656f7665723d226265,
     0x63617573652074686579206173796e63, 0x203d20747275653b70726f626c656d73,
     0x20776974687365656d7320746f206861, 0x766574686520726573756c74206f6620,
     0x7372633d22687474703a2f2f66616d69, 0x6c6961722077697468706f7373657373,
     0x696f6e206f6666756e6374696f6e2028, 0x29207b746f6f6b20706c61636520696e,
     0x616e6420736f6d6574696d6573737562, 0x7374616e7469616c6c793c7370616e3e,
     0x3c2f7370616e3e6973206f6674656e20, 0x75736564696e20616e20617474656d70,
     0x746772656174206465616c206f66456e, 0x7669726f6e6d656e74616c7375636365,
     0x737366756c6c79207669727475616c6c, 0x7920616c6c323074682063656e747572,
     0x792c70726f66657373696f6e616c736e, 0x656365737361727920746f2064657465,
     0x726d696e6564206279636f6d70617469, 0x62696c69747962656361757365206974,
     0x20697344696374696f6e617279206f66, 0x6d6f64696669636174696f6e73546865,
     0x20666f6c6c6f77696e676d6179207265, 0x66657220746f3a436f6e73657175656e,
     0x746c792c496e7465726e6174696f6e61, 0x6c616c74686f75676820736f6d657468,
     0x617420776f756c64206265776f726c64, 0x2773206669727374636c617373696669,
     0x6564206173626f74746f6d206f662074, 0x686528706172746963756c61726c7961,
     0x6c69676e3d226c65667422206d6f7374, 0x20636f6d6d6f6e6c7962617369732066,
     0x6f7220746865666f756e646174696f6e, 0x206f66636f6e747269627574696f6e73,
     0x706f70756c6172697479206f6663656e, 0x746572206f6620746865746f20726564,
     0x756365207468656a7572697364696374, 0x696f6e73617070726f78696d6174696f,
     0x6e206f6e6d6f7573656f75743d224e65, 0x772054657374616d656e74636f6c6c65,
     0x6374696f6e206f663c2f7370616e3e3c, 0x2f613e3c2f696e2074686520556e6974,
     0x656466696c6d206469726563746f722d, 0x7374726963742e647464223e68617320,
     0x6265656e207573656472657475726e20, 0x746f20746865616c74686f7567682074,
     0x6869736368616e676520696e20746865, 0x7365766572616c206f74686572627574,
     0x20746865726520617265756e70726563, 0x6564656e74656469732073696d696c61,
     0x7220746f657370656369616c6c792069, 0x6e7765696768743a20626f6c643b6973,
     0x2063616c6c656420746865636f6d7075, 0x746174696f6e616c696e646963617465,
     0x20746861747265737472696374656420, 0x746f093c6d657461206e616d653d2261,
     0x7265207479706963616c6c79636f6e66, 0x6c6963742077697468486f7765766572,
     0x2c2074686520416e206578616d706c65, 0x206f66636f6d70617265642077697468]"

lemma length_kBrotliDictionary_37 [simp]: "length kBrotliDictionary_37 = 2400"
  by (simp add: kBrotliDictionary_37_def)

definition kBrotliDictionary_38 :: "u8 list" where
  "kBrotliDictionary_38 = dict_rows [
     0x7175616e746974696573206f66726174, 0x686572207468616e2061636f6e737465,
     0x6c6c6174696f6e6e6563657373617279, 0x20666f727265706f7274656420746861,
     0x7473706563696669636174696f6e706f, 0x6c69746963616c20616e64266e627370,
     0x3b266e6273703b3c7265666572656e63, 0x657320746f7468652073616d65207965,
     0x6172476f7665726e6d656e74206f6667, 0x656e65726174696f6e206f6668617665,
     0x206e6f74206265656e7365766572616c, 0x207965617273636f6d6d69746d656e74,
     0x20746f09093c756c20636c6173733d22, 0x76697375616c697a6174696f6e313974,
     0x682063656e747572792c707261637469, 0x74696f6e657273746861742068652077,
     0x6f756c64616e6420636f6e74696e7565, 0x646f636375706174696f6e206f666973,
     0x20646566696e656420617363656e7472, 0x65206f662074686574686520616d6f75,
     0x6e74206f663e3c646976207374796c65, 0x3d226571756976616c656e74206f6664,
     0x6966666572656e746961746562726f75, 0x6768742061626f75746d617267696e2d,
     0x6c6566743a206175746f6d6174696361, 0x6c6c7974686f75676874206f66206173,
     0x536f6d65206f662074686573650a3c64, 0x697620636c6173733d22696e70757420,
     0x636c6173733d227265706c6163656420, 0x776974686973206f6e65206f66207468,
     0x65656475636174696f6e20616e64696e, 0x666c75656e6365642062797265707574,
     0x6174696f6e2061730a3c6d657461206e, 0x616d653d226163636f6d6d6f64617469,
     0x6f6e3c2f6469763e0a3c2f6469763e6c, 0x617267652070617274206f66496e7374,
     0x697475746520666f7274686520736f2d, 0x63616c6c656420616761696e73742074,
     0x686520496e207468697320636173652c, 0x776173206170706f696e746564636c61,
     0x696d656420746f206265486f77657665, 0x722c20746869734465706172746d656e,
     0x74206f667468652072656d61696e696e, 0x67656666656374206f6e207468657061,
     0x72746963756c61726c79206465616c20, 0x77697468207468650a3c646976207374,
     0x796c653d22616c6d6f737420616c7761, 0x79736172652063757272656e746c7965,
     0x787072657373696f6e206f667068696c, 0x6f736f706879206f66666f72206d6f72,
     0x65207468616e636976696c697a617469, 0x6f6e736f6e207468652069736c616e64,
     0x73656c6563746564496e64657863616e, 0x20726573756c7420696e222076616c75,
     0x653d2222202f3e746865207374727563, 0x74757265202f3e3c2f613e3c2f646976,
     0x3e4d616e79206f662074686573656361, 0x75736564206279207468656f66207468,
     0x6520556e697465647370616e20636c61, 0x73733d226d63616e2062652074726163,
     0x656469732072656c6174656420746f62, 0x6563616d65206f6e65206f6669732066,
     0x72657175656e746c796c6976696e6720, 0x696e207468657468656f726574696361,
     0x6c6c79466f6c6c6f77696e6720746865, 0x5265766f6c7574696f6e617279676f76,
     0x65726e6d656e7420696e697320646574, 0x65726d696e656474686520706f6c6974,
     0x6963616c696e74726f64756365642069, 0x6e73756666696369656e7420746f6465,
     0x736372697074696f6e223e73686f7274, 0x2073746f726965737365706172617469,
     0x6f6e206f66617320746f207768657468, 0x65726b6e6f776e20666f722069747377,
     0x617320696e697469616c6c7964697370, 0x6c61793a626c6f636b697320616e2065,
     0x78616d706c65746865207072696e6369, 0x70616c636f6e7369737473206f662061,
     0x7265636f676e697a65642061732f626f, 0x64793e3c2f68746d6c3e612073756273,
     0x74616e7469616c7265636f6e73747275, 0x6374656468656164206f662073746174,
     0x65726573697374616e636520746f756e, 0x64657267726164756174655468657265,
     0x206172652074776f6772617669746174, 0x696f6e616c6172652064657363726962,
     0x6564696e74656e74696f6e616c6c7973, 0x657276656420617320746865636c6173,
     0x733d226865616465726f70706f736974, 0x696f6e20746f66756e64616d656e7461,
     0x6c6c79646f6d696e6174656420746865, 0x616e6420746865206f74686572616c6c,
     0x69616e6365207769746877617320666f, 0x7263656420746f726573706563746976,
     0x656c792c616e6420706f6c6974696361, 0x6c696e20737570706f7274206f667065,
     0x6f706c6520696e207468653230746820, 0x63656e747572792e616e64207075626c,
     0x69736865646c6f616443686172746265, 0x6174746f20756e6465727374616e646d,
     0x656d62657220737461746573656e7669, 0x726f6e6d656e74616c66697273742068,
     0x616c66206f66636f756e747269657320, 0x616e646172636869746563747572616c,
     0x626520636f6e73696465726564636861, 0x726163746572697a6564636c65617249,
     0x6e74657276616c617574686f72697461, 0x7469766546656465726174696f6e206f,
     0x6677617320737563636565646564616e, 0x64207468657265206172656120636f6e,
     0x73657175656e63657468652050726573, 0x6964656e74616c736f20696e636c7564,
     0x65646672656520736f66747761726573, 0x756363657373696f6e206f6664657665,
     0x6c6f7065642074686577617320646573, 0x74726f796564617761792066726f6d20,
     0x7468653b0a3c2f7363726970743e0a3c, 0x616c74686f7567682074686579666f6c,
     0x6c6f77656420627920616d6f72652070, 0x6f77657266756c726573756c74656420,
     0x696e2061556e6976657273697479206f, 0x66486f77657665722c206d616e797468,
     0x6520707265736964656e74486f776576, 0x65722c20736f6d6569732074686f7567,
     0x687420746f756e74696c207468652065, 0x6e6477617320616e6e6f756e63656461,
     0x726520696d706f7274616e74616c736f, 0x20696e636c756465733e3c696e707574,
     0x20747970653d7468652063656e746572, 0x206f6620444f204e4f5420414c544552,
     0x7573656420746f207265666572746865, 0x6d65732f3f736f72743d746861742068,
     0x6164206265656e746865206261736973, 0x20666f7268617320646576656c6f7065,
     0x64696e207468652073756d6d6572636f, 0x6d70617261746976656c796465736372,
     0x69626564207468657375636820617320, 0x74686f736574686520726573756c7469,
     0x6e67697320696d706f737369626c6576, 0x6172696f7573206f74686572536f7574,
     0x68204166726963616e68617665207468, 0x652073616d656566666563746976656e,
     0x657373696e2077686963682063617365, 0x3b20746578742d616c69676e3a737472,
     0x75637475726520616e643b206261636b, 0x67726f756e643a726567617264696e67,
     0x20746865737570706f72746564207468, 0x65697320616c736f206b6e6f776e7374,
     0x796c653d226d617267696e696e636c75, 0x64696e6720746865626168617361204d]"

lemma length_kBrotliDictionary_38 [simp]: "length kBrotliDictionary_38 = 2400"
  by (simp add: kBrotliDictionary_38_def)

definition kBrotliDictionary_39 :: "u8 list" where
  "kBrotliDictionary_39 = dict_rows [
     0x656c6179756e6f72736b20626f6b6dc3, 0xa56c6e6f72736b206e796e6f72736b73,
     0x6c6f76656ec5a1c48d696e61696e7465, 0x726e6163696f6e616c63616c69666963,
     0x616369c3b36e636f6d756e6963616369, 0xc3b36e636f6e73747275636369c3b36e,
     0x223e3c64697620636c6173733d226469, 0x73616d626967756174696f6e446f6d61,
     0x696e4e616d65272c202761646d696e69, 0x7374726174696f6e73696d756c74616e,
     0x656f75736c797472616e73706f727461, 0x74696f6e496e7465726e6174696f6e61,
     0x6c206d617267696e2d626f74746f6d3a, 0x726573706f6e736962696c6974793c21,
     0x5b656e6469665d2d2d3e0a3c2f3e3c6d, 0x657461206e616d653d22696d706c656d,
     0x656e746174696f6e696e667261737472, 0x756374757265726570726573656e7461,
     0x74696f6e626f726465722d626f74746f, 0x6d3a3c2f686561643e0a3c626f64793e,
     0x3d687474702533412532462532463c66, 0x6f726d206d6574686f643d226d657468,
     0x6f643d22706f737422202f6661766963, 0x6f6e2e69636f22207d293b0a3c2f7363,
     0x726970743e0a2e736574417474726962, 0x7574652841646d696e69737472617469,
     0x6f6e3d206e657720417272617928293b, 0x3c215b656e6469665d2d2d3e0d0a6469,
     0x73706c61793a626c6f636b3b556e666f, 0x7274756e6174656c792c223e266e6273,
     0x703b3c2f6469763e2f66617669636f6e, 0x2e69636f223e3d277374796c65736865,
     0x657427206964656e7469666963617469, 0x6f6e2c20666f72206578616d706c652c,
     0x3c6c693e3c6120687265663d222f616e, 0x20616c7465726e617469766561732061,
     0x20726573756c74206f667074223e3c2f, 0x7363726970743e0a747970653d227375,
     0x626d697422200a2866756e6374696f6e, 0x2829207b7265636f6d6d656e64617469,
     0x6f6e666f726d20616374696f6e3d222f, 0x7472616e73666f726d6174696f6e7265,
     0x636f6e737472756374696f6e2e737479, 0x6c652e646973706c6179204163636f72,
     0x64696e6720746f2068696464656e2220, 0x6e616d653d22616c6f6e672077697468,
     0x20746865646f63756d656e742e626f64, 0x792e617070726f78696d6174656c7920,
     0x436f6d6d756e69636174696f6e73706f, 0x73742220616374696f6e3d226d65616e,
     0x696e67202671756f743b2d2d3c215b65, 0x6e6469665d2d2d3e5072696d65204d69,
     0x6e697374657263686172616374657269, 0x737469633c2f613e203c6120636c6173,
     0x733d74686520686973746f7279206f66, 0x206f6e6d6f7573656f7665723d227468,
     0x6520676f7665726e6d656e7468726566, 0x3d2268747470733a2f2f776173206f72,
     0x6967696e616c6c7977617320696e7472, 0x6f6475636564636c6173736966696361,
     0x74696f6e726570726573656e74617469, 0x766561726520636f6e73696465726564,
     0x3c215b656e6469665d2d2d3e0a0a6465, 0x70656e6473206f6e20746865556e6976,
     0x657273697479206f6620696e20636f6e, 0x747261737420746f20706c616365686f,
     0x6c6465723d22696e2074686520636173, 0x65206f66696e7465726e6174696f6e61,
     0x6c20636f6e737469747574696f6e616c, 0x7374796c653d22626f726465722d3a20,
     0x66756e6374696f6e2829207b42656361, 0x757365206f66207468652d7374726963,
     0x742e647464223e0a3c7461626c652063, 0x6c6173733d226163636f6d70616e6965,
     0x642062796163636f756e74206f662074, 0x68653c736372697074207372633d222f,
     0x6e6174757265206f6620746865207468, 0x652070656f706c6520696e20696e2061,
     0x64646974696f6e20746f73293b206a73, 0x2e6964203d206964222077696474683d,
     0x223130302522726567617264696e6720, 0x74686520526f6d616e20436174686f6c,
     0x6963616e20696e646570656e64656e74, 0x666f6c6c6f77696e6720746865202e67,
     0x6966222077696474683d223174686520, 0x666f6c6c6f77696e6720646973637269,
     0x6d696e6174696f6e6172636861656f6c, 0x6f676963616c7072696d65206d696e69,
     0x737465722e6a73223e3c2f7363726970, 0x743e636f6d62696e6174696f6e206f66,
     0x206d617267696e77696474683d226372, 0x65617465456c656d656e7428772e6174,
     0x746163684576656e74283c2f613e3c2f, 0x74643e3c2f74723e7372633d22687474,
     0x70733a2f2f61496e2070617274696375, 0x6c61722c20616c69676e3d226c656674,
     0x2220437a6563682052657075626c6963, 0x556e69746564204b696e67646f6d636f,
     0x72726573706f6e64656e6365636f6e63, 0x6c7564656420746861742e68746d6c22,
     0x207469746c653d222866756e6374696f, 0x6e202829207b636f6d65732066726f6d,
     0x207468656170706c69636174696f6e20, 0x6f663c7370616e20636c6173733d2273,
     0x62656c696576656420746f206265656d, 0x656e742827736372697074273c2f613e,
     0x0a3c2f6c693e0a3c6c69766572792064, 0x6966666572656e743e3c7370616e2063,
     0x6c6173733d226f7074696f6e2076616c, 0x75653d2228616c736f206b6e6f776e20,
     0x6173093c6c693e3c6120687265663d22, 0x3e3c696e707574206e616d653d227365,
     0x706172617465642066726f6d72656665, 0x7272656420746f2061732076616c6967,
     0x6e3d22746f70223e666f756e64657220, 0x6f6620746865617474656d7074696e67,
     0x20746f20636172626f6e2064696f7869, 0x64650a0a3c64697620636c6173733d22,
     0x636c6173733d227365617263682d2f62, 0x6f64793e0a3c2f68746d6c3e6f70706f,
     0x7274756e69747920746f636f6d6d756e, 0x69636174696f6e733c2f686561643e0d,
     0x0a3c626f6479207374796c653d227769, 0x6474683a5469e1babf6e67205669e1bb,
     0x87746368616e67657320696e20746865, 0x626f726465722d636f6c6f723a233022,
     0x20626f726465723d223022203c2f7370, 0x616e3e3c2f6469763e3c776173206469,
     0x73636f76657265642220747970653d22, 0x746578742220293b0a3c2f7363726970,
     0x743e0a0a4465706172746d656e74206f, 0x66206563636c6573696173746963616c,
     0x746865726520686173206265656e7265, 0x73756c74696e672066726f6d3c2f626f,
     0x64793e3c2f68746d6c3e686173206e65, 0x766572206265656e7468652066697273,
     0x742074696d65696e20726573706f6e73, 0x6520746f6175746f6d61746963616c6c,
     0x79203c2f6469763e0a0a3c6469762069, 0x77617320636f6e736964657265647065,
     0x7263656e74206f662074686522202f3e, 0x3c2f613e3c2f6469763e636f6c6c6563,
     0x74696f6e206f662064657363656e6465, 0x642066726f6d73656374696f6e206f66,
     0x207468656163636570742d6368617273, 0x6574746f20626520636f6e6675736564,
     0x6d656d626572206f6620746865207061, 0x6464696e672d72696768743a7472616e,
     0x736c6174696f6e206f66696e74657270, 0x7265746174696f6e20687265663d2768]"

lemma length_kBrotliDictionary_39 [simp]: "length kBrotliDictionary_39 = 2400"
  by (simp add: kBrotliDictionary_39_def)

definition kBrotliDictionary_40 :: "u8 list" where
  "kBrotliDictionary_40 = dict_rows [
     0x7474703a2f2f77686574686572206f72, 0x206e6f7454686572652061726520616c,
     0x736f746865726520617265206d616e79, 0x6120736d616c6c206e756d6265726f74,
     0x686572207061727473206f66696d706f, 0x737369626c6520746f2020636c617373,
     0x3d22627574746f6e6c6f636174656420, 0x696e207468652e20486f77657665722c,
     0x20746865616e64206576656e7475616c, 0x6c7941742074686520656e64206f6620,
     0x62656361757365206f66206974737265, 0x70726573656e7473207468653c666f72,
     0x6d20616374696f6e3d22206d6574686f, 0x643d22706f737422697420697320706f,
     0x737369626c656d6f7265206c696b656c, 0x7920746f616e20696e63726561736520,
     0x696e6861766520616c736f206265656e, 0x636f72726573706f6e647320746f616e,
     0x6e6f756e6365642074686174616c6967, 0x6e3d227269676874223e6d616e792063,
     0x6f756e7472696573666f72206d616e79, 0x2079656172736561726c69657374206b,
     0x6e6f776e626563617573652069742077, 0x61737074223e3c2f7363726970743e0d,
     0x2076616c69676e3d22746f702220696e, 0x6861626974616e7473206f66666f6c6c,
     0x6f77696e6720796561720d0a3c646976, 0x20636c6173733d226d696c6c696f6e20,
     0x70656f706c65636f6e74726f76657273, 0x69616c20636f6e6365726e696e672074,
     0x68656172677565207468617420746865, 0x676f7665726e6d656e7420616e646120,
     0x7265666572656e636520746f7472616e, 0x7366657272656420746f646573637269,
     0x62696e6720746865207374796c653d22, 0x636f6c6f723a616c74686f7567682074,
     0x6865726562657374206b6e6f776e2066, 0x6f727375626d697422206e616d653d22,
     0x6d756c7469706c69636174696f6e6d6f, 0x7265207468616e206f6e65207265636f,
     0x676e6974696f6e206f66436f756e6369, 0x6c206f662074686565646974696f6e20,
     0x6f662074686520203c6d657461206e61, 0x6d653d22456e7465727461696e6d656e,
     0x7420617761792066726f6d2074686520, 0x3b6d617267696e2d72696768743a6174,
     0x207468652074696d65206f66696e7665, 0x737469676174696f6e73636f6e6e6563,
     0x7465642077697468616e64206d616e79, 0x206f74686572616c74686f7567682069,
     0x74206973626567696e6e696e67207769, 0x7468203c7370616e20636c6173733d22,
     0x64657363656e64616e7473206f663c73, 0x70616e20636c6173733d226920616c69,
     0x676e3d227269676874223c2f68656164, 0x3e0a3c626f6479206173706563747320,
     0x6f66207468656861732073696e636520, 0x6265656e4575726f7065616e20556e69,
     0x6f6e72656d696e697363656e74206f66, 0x6d6f726520646966666963756c745669,
     0x636520507265736964656e74636f6d70, 0x6f736974696f6e206f66706173736564,
     0x207468726f7567686d6f726520696d70, 0x6f7274616e74666f6e742d73697a653a,
     0x313170786578706c616e6174696f6e20, 0x6f6674686520636f6e63657074206f66,
     0x7772697474656e20696e20746865093c, 0x7370616e20636c6173733d226973206f,
     0x6e65206f662074686520726573656d62, 0x6c616e636520746f6f6e207468652067,
     0x726f756e6473776869636820636f6e74, 0x61696e73696e636c7564696e67207468,
     0x6520646566696e656420627920746865, 0x7075626c69636174696f6e206f666d65,
     0x616e732074686174207468656f757473, 0x696465206f6620746865737570706f72,
     0x74206f66207468653c696e7075742063, 0x6c6173733d223c7370616e20636c6173,
     0x733d2274284d6174682e72616e646f6d, 0x28296d6f73742070726f6d696e656e74,
     0x6465736372697074696f6e206f66436f, 0x6e7374616e74696e6f706c6577657265,
     0x207075626c69736865643c6469762063, 0x6c6173733d2273656170706561727320,
     0x696e207468653122206865696768743d, 0x223122206d6f737420696d706f727461,
     0x6e74776869636820696e636c75646573, 0x776869636820686164206265656e6465,
     0x737472756374696f6e206f6674686520, 0x706f70756c6174696f6e0a093c646976,
     0x20636c6173733d22706f73736962696c, 0x697479206f66736f6d6574696d657320,
     0x7573656461707065617220746f206861, 0x766573756363657373206f6620746865,
     0x696e74656e64656420746f2062657072, 0x6573656e7420696e207468657374796c,
     0x653d22636c6561723a620d0a3c2f7363, 0x726970743e0d0a3c77617320666f756e,
     0x64656420696e696e7465727669657720, 0x776974685f69642220636f6e74656e74,
     0x3d226361706974616c206f6620746865, 0x0d0a3c6c696e6b2072656c3d22737265,
     0x6c65617365206f6620746865706f696e, 0x74206f75742074686174784d4c487474,
     0x7052657175657374616e642073756273, 0x657175656e747365636f6e64206c6172,
     0x676573747665727920696d706f727461, 0x6e7473706563696669636174696f6e73,
     0x73757266616365206f66207468656170, 0x706c69656420746f20746865666f7265,
     0x69676e20706f6c6963795f736574446f, 0x6d61696e4e616d6565737461626c6973,
     0x68656420696e69732062656c69657665, 0x6420746f496e206164646974696f6e20,
     0x746f6d65616e696e67206f6620746865, 0x6973206e616d6564206166746572746f,
     0x2070726f746563742074686569732072, 0x6570726573656e7465644465636c6172,
     0x6174696f6e206f666d6f726520656666, 0x696369656e74436c6173736966696361,
     0x74696f6e6f7468657220666f726d7320, 0x6f6668652072657475726e656420746f,
     0x3c7370616e20636c6173733d22637065, 0x72666f726d616e6365206f662866756e,
     0x6374696f6e2829207b0d696620616e64, 0x206f6e6c79206966726567696f6e7320,
     0x6f66207468656c656164696e6720746f, 0x2074686572656c6174696f6e73207769,
     0x7468556e69746564204e6174696f6e73, 0x7374796c653d226865696768743a6f74,
     0x686572207468616e2074686579706522, 0x20636f6e74656e743d224173736f6369,
     0x6174696f6e206f660a3c2f686561643e, 0x0a3c626f64796c6f6361746564206f6e,
     0x20746865697320726566657272656420, 0x746f28696e636c7564696e6720746865,
     0x636f6e63656e74726174696f6e737468, 0x6520696e646976696475616c616d6f6e,
     0x6720746865206d6f73747468616e2061, 0x6e79206f746865722f3e0a3c6c696e6b,
     0x2072656c3d222072657475726e206661, 0x6c73653b74686520707572706f736520,
     0x6f66746865206162696c69747920746f, 0x3b636f6c6f723a236666667d0a2e0a3c,
     0x7370616e20636c6173733d2274686520, 0x7375626a656374206f66646566696e69,
     0x74696f6e73206f663e0d0a3c6c696e6b, 0x2072656c3d22636c61696d2074686174,
     0x207468656861766520646576656c6f70, 0x65643c7461626c652077696474683d22]"

lemma length_kBrotliDictionary_40 [simp]: "length kBrotliDictionary_40 = 2400"
  by (simp add: kBrotliDictionary_40_def)

definition kBrotliDictionary_41 :: "u8 list" where
  "kBrotliDictionary_41 = dict_rows [
     0x63656c6562726174696f6e206f66466f, 0x6c6c6f77696e672074686520746f2064,
     0x697374696e67756973683c7370616e20, 0x636c6173733d226274616b657320706c,
     0x61636520696e756e6465722074686520, 0x6e616d656e6f74656420746861742074,
     0x68653e3c215b656e6469665d2d2d3e0a, 0x7374796c653d226d617267696e2d696e,
     0x7374656164206f6620746865696e7472, 0x6f647563656420746865746865207072,
     0x6f63657373206f66696e637265617369, 0x6e6720746865646966666572656e6365,
     0x7320696e657374696d61746564207468, 0x6174657370656369616c6c7920746865,
     0x2f6469763e3c6469762069643d227761, 0x73206576656e7475616c6c797468726f,
     0x7567686f757420686973746865206469, 0x66666572656e6365736f6d657468696e,
     0x6720746861747370616e3e3c2f737061, 0x6e3e3c2f7369676e69666963616e746c,
     0x79203e3c2f7363726970743e0d0a0d0a, 0x656e7669726f6e6d656e74616c20746f,
     0x2070726576656e742074686568617665, 0x206265656e2075736564657370656369,
     0x616c6c7920666f72756e646572737461, 0x6e6420746865697320657373656e7469,
     0x616c6c79776572652074686520666972, 0x7374697320746865206c617267657374,
     0x68617665206265656e206d6164652220, 0x7372633d22687474703a2f2f696e7465,
     0x727072657465642061737365636f6e64, 0x2068616c66206f6663726f6c6c696e67,
     0x3d226e6f2220697320636f6d706f7365, 0x64206f6649492c20486f6c7920526f6d,
     0x616e697320657870656374656420746f, 0x68617665207468656972206f776e6465,
     0x66696e65642061732074686574726164, 0x6974696f6e616c6c7920686176652064,
     0x6966666572656e74617265206f667465, 0x6e2075736564746f20656e7375726520,
     0x7468617461677265656d656e74207769, 0x7468636f6e7461696e696e6720746865,
     0x617265206672657175656e746c79696e, 0x666f726d6174696f6e206f6e6578616d,
     0x706c6520697320746865726573756c74, 0x696e6720696e20613c2f613e3c2f6c69,
     0x3e3c2f756c3e20636c6173733d22666f, 0x6f746572616e6420657370656369616c,
     0x6c79747970653d22627574746f6e2220, 0x3c2f7370616e3e3c2f7370616e3e7768,
     0x69636820696e636c756465643e0a3c6d, 0x657461206e616d653d22636f6e736964,
     0x65726564207468656361727269656420, 0x6f7574206279486f77657665722c2069,
     0x74206973626563616d65207061727420, 0x6f66696e2072656c6174696f6e20746f,
     0x706f70756c617220696e207468657468, 0x65206361706974616c206f6677617320,
     0x6f6666696369616c6c79776869636820, 0x686173206265656e7468652048697374,
     0x6f7279206f66616c7465726e61746976, 0x6520746f646966666572656e74206672,
     0x6f6d746f20737570706f727420746865, 0x7375676765737465642074686174696e,
     0x207468652070726f6365737320203c64, 0x697620636c6173733d2274686520666f,
     0x756e646174696f6e6265636175736520, 0x6f6620686973636f6e6365726e656420,
     0x7769746874686520756e697665727369, 0x74796f70706f73656420746f20746865,
     0x74686520636f6e74657874206f663c73, 0x70616e20636c6173733d227074657874,
     0x22206e616d653d22712209093c646976, 0x20636c6173733d227468652073636965,
     0x6e7469666963726570726573656e7465, 0x642062796d617468656d617469636961,
     0x6e73656c656374656420627920746865, 0x746861742068617665206265656e3e3c,
     0x64697620636c6173733d226364697620, 0x69643d22686561646572696e20706172,
     0x746963756c61722c636f6e7665727465, 0x6420696e746f293b0a3c2f7363726970,
     0x743e0a3c7068696c6f736f7068696361, 0x6c20737270736b6f6872766174736b69,
     0x7469e1babf6e67205669e1bb8774d0a0, 0xd183d181d181d0bad0b8d0b9d180d183,
     0xd181d181d0bad0b8d0b9696e76657374, 0x6967616369c3b36e7061727469636970,
     0x616369c3b36ed0bad0bed182d0bed180, 0xd18bd0b5d0bed0b1d0bbd0b0d181d182,
     0xd0b8d0bad0bed182d0bed180d18bd0b9, 0xd187d0b5d0bbd0bed0b2d0b5d0bad181,
     0xd0b8d181d182d0b5d0bcd18bd09dd0be, 0xd0b2d0bed181d182d0b8d0bad0bed182,
     0xd0bed180d18bd185d0bed0b1d0bbd0b0, 0xd181d182d18cd0b2d180d0b5d0bcd0b5,
     0xd0bdd0b8d0bad0bed182d0bed180d0b0, 0xd18fd181d0b5d0b3d0bed0b4d0bdd18f,
     0xd181d0bad0b0d187d0b0d182d18cd0bd, 0xd0bed0b2d0bed181d182d0b8d0a3d0ba,
     0xd180d0b0d0b8d0bdd18bd0b2d0bed0bf, 0xd180d0bed181d18bd0bad0bed182d0be,
     0xd180d0bed0b9d181d0b4d0b5d0bbd0b0, 0xd182d18cd0bfd0bed0bcd0bed189d18c,
     0xd18ed181d180d0b5d0b4d181d182d0b2, 0xd0bed0b1d180d0b0d0b7d0bed0bcd181,
     0xd182d0bed180d0bed0bdd18bd183d187, 0xd0b0d181d182d0b8d0b5d182d0b5d187,
     0xd0b5d0bdd0b8d0b5d093d0bbd0b0d0b2, 0xd0bdd0b0d18fd0b8d181d182d0bed180,
     0xd0b8d0b8d181d0b8d181d182d0b5d0bc, 0xd0b0d180d0b5d188d0b5d0bdd0b8d18f,
     0xd0a1d0bad0b0d187d0b0d182d18cd0bf, 0xd0bed18dd182d0bed0bcd183d181d0bb,
     0xd0b5d0b4d183d0b5d182d181d0bad0b0, 0xd0b7d0b0d182d18cd182d0bed0b2d0b0,
     0xd180d0bed0b2d0bad0bed0bdd0b5d187, 0xd0bdd0bed180d0b5d188d0b5d0bdd0b8,
     0xd0b5d0bad0bed182d0bed180d0bed0b5, 0xd0bed180d0b3d0b0d0bdd0bed0b2d0ba,
     0xd0bed182d0bed180d0bed0bcd0a0d0b5, 0xd0bad0bbd0b0d0bcd0b0d8a7d984d985,
     0xd986d8aad8afd989d985d986d8aad8af, 0xd98ad8a7d8aad8a7d984d985d988d8b6,
     0xd988d8b9d8a7d984d8a8d8b1d8a7d985, 0xd8acd8a7d984d985d988d8a7d982d8b9,
     0xd8a7d984d8b1d8b3d8a7d8a6d984d985, 0xd8b4d8a7d8b1d983d8a7d8aad8a7d984,
     0xd8a3d8b9d8b6d8a7d8a1d8a7d984d8b1, 0xd98ad8a7d8b6d8a9d8a7d984d8aad8b5,
     0xd985d98ad985d8a7d984d8a7d8b9d8b6, 0xd8a7d8a1d8a7d984d986d8aad8a7d8a6,
     0xd8acd8a7d984d8a3d984d8b9d8a7d8a8, 0xd8a7d984d8aad8b3d8acd98ad984d8a7,
     0xd984d8a3d982d8b3d8a7d985d8a7d984, 0xd8b6d8bad8b7d8a7d8aad8a7d984d981,
     0xd98ad8afd98ad988d8a7d984d8aad8b1, 0xd8add98ad8a8d8a7d984d8acd8afd98a,
     0xd8afd8a9d8a7d984d8aad8b9d984d98a, 0xd985d8a7d984d8a3d8aed8a8d8a7d8b1,
     0xd8a7d984d8a7d981d984d8a7d985d8a7, 0xd984d8a3d981d984d8a7d985d8a7d984,
     0xd8aad8a7d8b1d98ad8aed8a7d984d8aa, 0xd982d986d98ad8a9d8a7d984d8a7d984,
     0xd8b9d8a7d8a8d8a7d984d8aed988d8a7, 0xd8b7d8b1d8a7d984d985d8acd8aad985,
     0xd8b9d8a7d984d8afd98ad983d988d8b1, 0xd8a7d984d8b3d98ad8a7d8add8a9d8b9,
     0xd8a8d8afd8a7d984d984d987d8a7d984, 0xd8aad8b1d8a8d98ad8a9d8a7d984d8b1]"

lemma length_kBrotliDictionary_41 [simp]: "length kBrotliDictionary_41 = 2400"
  by (simp add: kBrotliDictionary_41_def)

definition kBrotliDictionary_42 :: "u8 list" where
  "kBrotliDictionary_42 = dict_rows [
     0xd988d8a7d8a8d8b7d8a7d984d8a3d8af, 0xd8a8d98ad8a9d8a7d984d8a7d8aed8a8,
     0xd8a7d8b1d8a7d984d985d8aad8add8af, 0xd8a9d8a7d984d8a7d8bad8a7d986d98a,
     0x637572736f723a706f696e7465723b3c, 0x2f7469746c653e0a3c6d657461202220,
     0x687265663d22687474703a2f2f223e3c, 0x7370616e20636c6173733d226d656d62,
     0x657273206f66207468652077696e646f, 0x772e6c6f636174696f6e766572746963,
     0x616c2d616c69676e3a2f613e207c203c, 0x6120687265663d223c21646f63747970,
     0x652068746d6c3e6d656469613d227363, 0x7265656e22203c6f7074696f6e207661,
     0x6c75653d2266617669636f6e2e69636f, 0x22202f3e0a09093c64697620636c6173,
     0x733d2263686172616374657269737469, 0x637322206d6574686f643d2267657422,
     0x202f626f64793e0a3c2f68746d6c3e0a, 0x73686f72746375742069636f6e222064,
     0x6f63756d656e742e7772697465287061, 0x6464696e672d626f74746f6d3a726570,
     0x726573656e746174697665737375626d, 0x6974222076616c75653d22616c69676e,
     0x3d2263656e74657222207468726f7567, 0x686f75742074686520736369656e6365,
     0x2066696374696f6e0a20203c64697620, 0x636c6173733d227375626d6974222063,
     0x6c6173733d226f6e65206f6620746865, 0x206d6f73742076616c69676e3d22746f,
     0x70223e3c7761732065737461626c6973, 0x686564293b0d0a3c2f7363726970743e,
     0x0d0a72657475726e2066616c73653b22, 0x3e292e7374796c652e646973706c6179,
     0x62656361757365206f66207468652064, 0x6f63756d656e742e636f6f6b69653c66,
     0x6f726d20616374696f6e3d222f7d626f, 0x64797b6d617267696e3a303b456e6379,
     0x636c6f7065646961206f667665727369, 0x6f6e206f6620746865202e6372656174,
     0x65456c656d656e74286e616d65222063, 0x6f6e74656e743d223c2f6469763e0a3c,
     0x2f6469763e0a0a61646d696e69737472, 0x6174697665203c2f626f64793e0a3c2f,
     0x68746d6c3e686973746f7279206f6620, 0x74686520223e3c696e70757420747970,
     0x653d22706f7274696f6e206f66207468, 0x652061732070617274206f6620746865,
     0x20266e6273703b3c6120687265663d22, 0x6f7468657220636f756e747269657322,
     0x3e0a3c64697620636c6173733d223c2f, 0x7370616e3e3c2f7370616e3e3c496e20,
     0x6f7468657220776f7264732c64697370, 0x6c61793a20626c6f636b3b636f6e7472,
     0x6f6c206f662074686520696e74726f64, 0x756374696f6e206f662f3e0a3c6d6574,
     0x61206e616d653d2261732077656c6c20, 0x61732074686520696e20726563656e74,
     0x2079656172730d0a093c64697620636c, 0x6173733d223c2f6469763e0a093c2f64,
     0x69763e0a696e73706972656420627920, 0x74686574686520656e64206f66207468,
     0x6520636f6d70617469626c6520776974, 0x68626563616d65206b6e6f776e206173,
     0x207374796c653d226d617267696e3a2e, 0x6a73223e3c2f7363726970743e3c2049,
     0x6e7465726e6174696f6e616c20746865, 0x72652068617665206265656e4765726d,
     0x616e206c616e6775616765207374796c, 0x653d22636f6c6f723a23436f6d6d756e,
     0x697374205061727479636f6e73697374, 0x656e742077697468626f726465723d22,
     0x30222063656c6c206d617267696e6865, 0x696768743d22746865206d616a6f7269,
     0x7479206f662220616c69676e3d226365, 0x6e74657272656c6174656420746f2074,
     0x6865206d616e7920646966666572656e, 0x74204f7274686f646f78204368757263,
     0x6873696d696c617220746f2074686520, 0x2f3e0a3c6c696e6b2072656c3d227377,
     0x6173206f6e65206f662074686520756e, 0x74696c206869732064656174687d2928,
     0x293b0a3c2f7363726970743e6f746865, 0x72206c616e677561676573636f6d7061,
     0x72656420746f20746865706f7274696f, 0x6e73206f6620746865746865204e6574,
     0x6865726c616e6473746865206d6f7374, 0x20636f6d6d6f6e6261636b67726f756e,
     0x643a75726c2861726775656420746861, 0x74207468657363726f6c6c696e673d22,
     0x6e6f2220696e636c7564656420696e20, 0x7468654e6f72746820416d6572696361,
     0x6e20746865206e616d65206f66207468, 0x65696e746572707265746174696f6e73,
     0x74686520747261646974696f6e616c64, 0x6576656c6f706d656e74206f66206672,
     0x657175656e746c792075736564612063, 0x6f6c6c656374696f6e206f6676657279,
     0x2073696d696c617220746f737572726f, 0x756e64696e67207468656578616d706c,
     0x65206f662074686973616c69676e3d22, 0x63656e746572223e776f756c64206861,
     0x7665206265656e696d6167655f636170, 0x74696f6e203d61747461636865642074,
     0x6f2074686573756767657374696e6720, 0x74686174696e2074686520666f726d20,
     0x6f6620696e766f6c76656420696e2074, 0x6865697320646572697665642066726f,
     0x6d6e616d656420616674657220746865, 0x496e74726f64756374696f6e20746f72,
     0x65737472696374696f6e73206f6e2073, 0x74796c653d2277696474683a2063616e,
     0x206265207573656420746f2074686520, 0x6372656174696f6e206f666d6f737420,
     0x696d706f7274616e7420696e666f726d, 0x6174696f6e20616e64726573756c7465,
     0x6420696e20746865636f6c6c61707365, 0x206f662074686554686973206d65616e,
     0x732074686174656c656d656e7473206f, 0x6620746865776173207265706c616365,
     0x64206279616e616c79736973206f6620, 0x746865696e737069726174696f6e2066,
     0x6f727265676172646564206173207468, 0x656d6f7374207375636365737366756c,
     0x6b6e6f776e206173202671756f743b61, 0x20636f6d70726568656e736976654869,
     0x73746f7279206f662074686520776572, 0x6520636f6e7369646572656472657475,
     0x726e656420746f207468656172652072, 0x6566657272656420746f556e736f7572,
     0x63656420696d6167653e0a093c646976, 0x20636c6173733d22636f6e7369737473,
     0x206f662074686573746f7050726f7061, 0x676174696f6e696e7465726573742069,
     0x6e20746865617661696c6162696c6974, 0x79206f666170706561727320746f2068,
     0x617665656c656374726f6d61676e6574, 0x6963656e61626c655365727669636573,
     0x2866756e6374696f6e206f6620746865, 0x497420697320696d706f7274616e743c,
     0x2f7363726970743e3c2f6469763e6675, 0x6e6374696f6e28297b7661722072656c,
     0x617469766520746f2074686561732061, 0x20726573756c74206f66207468652070,
     0x6f736974696f6e206f66466f72206578, 0x616d706c652c20696e206d6574686f64,
     0x3d22706f7374222077617320666f6c6c, 0x6f77656420627926616d703b6d646173,
     0x683b20746865746865206170706c6963, 0x6174696f6e6a73223e3c2f7363726970]"

lemma length_kBrotliDictionary_42 [simp]: "length kBrotliDictionary_42 = 2400"
  by (simp add: kBrotliDictionary_42_def)

definition kBrotliDictionary_43 :: "u8 list" where
  "kBrotliDictionary_43 = dict_rows [
     0x743e0d0a756c3e3c2f6469763e3c2f64, 0x69763e61667465722074686520646561,
     0x74687769746820726573706563742074, 0x6f7374796c653d2270616464696e673a,
     0x697320706172746963756c61726c7964, 0x6973706c61793a696e6c696e653b2074,
     0x7970653d227375626d69742220697320, 0x6469766964656420696e746fe4b8ade6,
     0x96872028e7ae80e4bd9329726573706f, 0x6e736162696c6964616461646d696e69,
     0x737472616369c3b36e696e7465726e61, 0x63696f6e616c6573636f72726573706f,
     0x6e6469656e7465e0a489e0a4aae0a4af, 0xe0a58be0a497e0a4aae0a582e0a4b0e0,
     0xa58de0a4b5e0a4b9e0a4aee0a4bee0a4, 0xb0e0a587e0a4b2e0a58be0a497e0a58b,
     0xe0a482e0a49ae0a581e0a4a8e0a4bee0, 0xa4b5e0a4b2e0a587e0a495e0a4bfe0a4,
     0xa8e0a4b8e0a4b0e0a495e0a4bee0a4b0, 0xe0a4aae0a581e0a4b2e0a4bfe0a4b8e0,
     0xa496e0a58be0a49ce0a587e0a482e0a4, 0x9ae0a4bee0a4b9e0a4bfe0a48fe0a4ad,
     0xe0a587e0a49ce0a587e0a482e0a4b6e0, 0xa4bee0a4aee0a4bfe0a4b2e0a4b9e0a4,
     0xaee0a4bee0a4b0e0a580e0a49ce0a4be, 0xe0a497e0a4b0e0a4a3e0a4ace0a4a8e0,
     0xa4bee0a4a8e0a587e0a495e0a581e0a4, 0xaee0a4bee0a4b0e0a4ace0a58de0a4b2,
     0xe0a589e0a497e0a4aee0a4bee0a4b2e0, 0xa4bfe0a495e0a4aee0a4b9e0a4bfe0a4,
     0xb2e0a4bee0a4aae0a583e0a4b7e0a58d, 0xe0a4a0e0a4ace0a4a2e0a4bce0a4a4e0,
     0xa587e0a4ade0a4bee0a49ce0a4aae0a4, 0xbee0a495e0a58de0a4b2e0a4bfe0a495,
     0xe0a49fe0a58de0a4b0e0a587e0a4a8e0, 0xa496e0a4bfe0a4b2e0a4bee0a4abe0a4,
     0xa6e0a58ce0a4b0e0a4bee0a4a8e0a4ae, 0xe0a4bee0a4aee0a4b2e0a587e0a4aee0,
     0xa4a4e0a4a6e0a4bee0a4a8e0a4ace0a4, 0xbee0a49ce0a4bee0a4b0e0a4b5e0a4bf,
     0xe0a495e0a4bee0a4b8e0a495e0a58de0, 0xa4afe0a58be0a482e0a49ae0a4bee0a4,
     0xb9e0a4a4e0a587e0a4aae0a4b9e0a581, 0xe0a481e0a49ae0a4ace0a4a4e0a4bee0,
     0xa4afe0a4bee0a4b8e0a482e0a4b5e0a4, 0xbee0a4a6e0a4a6e0a587e0a496e0a4a8,
     0xe0a587e0a4aae0a4bfe0a49be0a4b2e0, 0xa587e0a4b5e0a4bfe0a4b6e0a587e0a4,
     0xb7e0a4b0e0a4bee0a49ce0a58de0a4af, 0xe0a489e0a4a4e0a58de0a4a4e0a4b0e0,
     0xa4aee0a581e0a482e0a4ace0a488e0a4, 0xa6e0a58be0a4a8e0a58be0a482e0a489,
     0xe0a4aae0a495e0a4b0e0a4a3e0a4aae0, 0xa4a2e0a4bce0a587e0a482e0a4b8e0a5,
     0x8de0a4a5e0a4bfe0a4a4e0a4abe0a4bf, 0xe0a4b2e0a58de0a4aee0a4aee0a581e0,
     0xa496e0a58de0a4afe0a485e0a49ae0a5, 0x8de0a49be0a4bee0a49be0a582e0a49f,
     0xe0a4a4e0a580e0a4b8e0a482e0a497e0, 0xa580e0a4a4e0a49ce0a4bee0a48fe0a4,
     0x97e0a4bee0a4b5e0a4bfe0a4ade0a4be, 0xe0a497e0a498e0a4a3e0a58de0a49fe0,
     0xa587e0a4a6e0a582e0a4b8e0a4b0e0a5, 0x87e0a4a6e0a4bfe0a4a8e0a58be0a482,
     0xe0a4b9e0a4a4e0a58de0a4afe0a4bee0, 0xa4b8e0a587e0a495e0a58de0a4b8e0a4,
     0x97e0a4bee0a482e0a4a7e0a580e0a4b5, 0xe0a4bfe0a4b6e0a58de0a4b5e0a4b0e0,
     0xa4bee0a4a4e0a587e0a482e0a4a6e0a5, 0x88e0a49fe0a58de0a4b8e0a4a8e0a495,
     0xe0a58de0a4b6e0a4bee0a4b8e0a4bee0, 0xa4aee0a4a8e0a587e0a485e0a4a6e0a4,
     0xbee0a4b2e0a4a4e0a4ace0a4bfe0a49c, 0xe0a4b2e0a580e0a4aae0a581e0a4b0e0,
     0xa582e0a4b7e0a4b9e0a4bfe0a482e0a4, 0xa6e0a580e0a4aee0a4bfe0a4a4e0a58d,
     0xe0a4b0e0a495e0a4b5e0a4bfe0a4a4e0, 0xa4bee0a4b0e0a581e0a4aae0a4afe0a5,
     0x87e0a4b8e0a58de0a4a5e0a4bee0a4a8, 0xe0a495e0a4b0e0a58be0a4a1e0a4bce0,
     0xa4aee0a581e0a495e0a58de0a4a4e0a4, 0xafe0a58be0a49ce0a4a8e0a4bee0a495,
     0xe0a583e0a4aae0a4afe0a4bee0a4aae0, 0xa58be0a4b8e0a58de0a49fe0a498e0a4,
     0xb0e0a587e0a4b2e0a582e0a495e0a4be, 0xe0a4b0e0a58de0a4afe0a4b5e0a4bfe0,
     0xa49ae0a4bee0a4b0e0a4b8e0a582e0a4, 0x9ae0a4a8e0a4bee0a4aee0a582e0a4b2,
     0xe0a58de0a4afe0a4a6e0a587e0a496e0, 0xa587e0a482e0a4b9e0a4aee0a587e0a4,
     0xb6e0a4bee0a4b8e0a58de0a495e0a582, 0xe0a4b2e0a4aee0a588e0a482e0a4a8e0,
     0xa587e0a4a4e0a588e0a4afe0a4bee0a4, 0xb0e0a49ce0a4bfe0a4b8e0a495e0a587,
     0x7273732b786d6c22207469746c653d22, 0x2d747970652220636f6e74656e743d22,
     0x7469746c652220636f6e74656e743d22, 0x6174207468652073616d652074696d65,
     0x2e6a73223e3c2f7363726970743e0a3c, 0x22206d6574686f643d22706f73742220,
     0x3c2f7370616e3e3c2f613e3c2f6c693e, 0x766572746963616c2d616c69676e3a74,
     0x2f6a71756572792e6d696e2e6a73223e, 0x2e636c69636b2866756e6374696f6e28,
     0x207374796c653d2270616464696e672d, 0x7d2928293b0a3c2f7363726970743e0a,
     0x3c2f7370616e3e3c6120687265663d22, 0x3c6120687265663d22687474703a2f2f,
     0x293b2072657475726e2066616c73653b, 0x746578742d6465636f726174696f6e3a,
     0x207363726f6c6c696e673d226e6f2220, 0x626f726465722d636f6c6c617073653a,
     0x6173736f636961746564207769746820, 0x42616861736120496e646f6e65736961,
     0x456e676c697368206c616e6775616765, 0x3c7465787420786d6c3a73706163653d,
     0x2e6769662220626f726465723d223022, 0x3c2f626f64793e0a3c2f68746d6c3e0a,
     0x6f766572666c6f773a68696464656e3b, 0x696d67207372633d22687474703a2f2f,
     0x6164644576656e744c697374656e6572, 0x726573706f6e7369626c6520666f7220,
     0x732e6a73223e3c2f7363726970743e0a, 0x2f66617669636f6e2e69636f22202f3e,
     0x6f7065726174696e672073797374656d, 0x22207374796c653d2277696474683a31,
     0x7461726765743d225f626c616e6b223e, 0x537461746520556e6976657273697479,
     0x746578742d616c69676e3a6c6566743b, 0x0a646f63756d656e742e777269746528,
     0x2c20696e636c7564696e672074686520, 0x61726f756e642074686520776f726c64,
     0x293b0d0a3c2f7363726970743e0d0a3c, 0x22207374796c653d226865696768743a,
     0x3b6f766572666c6f773a68696464656e, 0x6d6f726520696e666f726d6174696f6e,
     0x616e20696e7465726e6174696f6e616c, 0x61206d656d626572206f662074686520,
     0x6f6e65206f6620746865206669727374, 0x63616e20626520666f756e6420696e20,
     0x3c2f6469763e0a09093c2f6469763e0a, 0x646973706c61793a206e6f6e653b223e,
     0x22202f3e0a3c6c696e6b2072656c3d22, 0x0a20202866756e6374696f6e2829207b,
     0x74686520313574682063656e74757279, 0x2e70726576656e7444656661756c7428,
     0x6c61726765206e756d626572206f6620, 0x42797a616e74696e6520456d70697265,
     0x2e6a70677c7468756d627c6c6566747c, 0x76617374206d616a6f72697479206f66]"

lemma length_kBrotliDictionary_43 [simp]: "length kBrotliDictionary_43 = 2400"
  by (simp add: kBrotliDictionary_43_def)

definition kBrotliDictionary_44 :: "u8 list" where
  "kBrotliDictionary_44 = dict_rows [
     0x6d616a6f72697479206f662074686520, 0x20616c69676e3d2263656e746572223e,
     0x556e6976657273697479205072657373, 0x646f6d696e6174656420627920746865,
     0x5365636f6e6420576f726c6420576172, 0x646973747269627574696f6e206f6620,
     0x7374796c653d22706f736974696f6e3a, 0x7468652072657374206f662074686520,
     0x636861726163746572697a6564206279, 0x2072656c3d226e6f666f6c6c6f77223e,
     0x646572697665732066726f6d20746865, 0x726174686572207468616e2074686520,
     0x6120636f6d62696e6174696f6e206f66, 0x7374796c653d2277696474683a313030,
     0x456e676c6973682d737065616b696e67, 0x636f6d707574657220736369656e6365,
     0x626f726465723d22302220616c743d22, 0x746865206578697374656e6365206f66,
     0x44656d6f637261746963205061727479, 0x22207374796c653d226d617267696e2d,
     0x466f72207468697320726561736f6e2c, 0x2e6a73223e3c2f7363726970743e0a09,
     0x7342795461674e616d652873295b305d, 0x6a73223e3c2f7363726970743e0d0a3c,
     0x2e6a73223e3c2f7363726970743e0d0a, 0x6c696e6b2072656c3d2269636f6e2220,
     0x2720616c743d272720636c6173733d27, 0x666f726d6174696f6e206f6620746865,
     0x76657273696f6e73206f662074686520, 0x3c2f613e3c2f6469763e3c2f6469763e,
     0x2f706167653e0a20203c706167653e0a, 0x3c64697620636c6173733d22636f6e74,
     0x626563616d6520746865206669727374, 0x62616861736120496e646f6e65736961,
     0x656e676c697368202873696d706c6529, 0xce95cebbcebbceb7cebdceb9cebaceac,
     0xd185d180d0b2d0b0d182d181d0bad0b8, 0xd0bad0bed0bcd0bfd0b0d0bdd0b8d0b8,
     0xd18fd0b2d0bbd18fd0b5d182d181d18f, 0xd094d0bed0b1d0b0d0b2d0b8d182d18c,
     0xd187d0b5d0bbd0bed0b2d0b5d0bad0b0, 0xd180d0b0d0b7d0b2d0b8d182d0b8d18f,
     0xd098d0bdd182d0b5d180d0bdd0b5d182, 0xd09ed182d0b2d0b5d182d0b8d182d18c,
     0xd0bdd0b0d0bfd180d0b8d0bcd0b5d180, 0xd0b8d0bdd182d0b5d180d0bdd0b5d182,
     0xd0bad0bed182d0bed180d0bed0b3d0be, 0xd181d182d180d0b0d0bdd0b8d186d18b,
     0xd0bad0b0d187d0b5d181d182d0b2d0b5, 0xd183d181d0bbd0bed0b2d0b8d18fd185,
     0xd0bfd180d0bed0b1d0bbd0b5d0bcd18b, 0xd0bfd0bed0bbd183d187d0b8d182d18c,
     0xd18fd0b2d0bbd18fd18ed182d181d18f, 0xd0bdd0b0d0b8d0b1d0bed0bbd0b5d0b5,
     0xd0bad0bed0bcd0bfd0b0d0bdd0b8d18f, 0xd0b2d0bdd0b8d0bcd0b0d0bdd0b8d0b5,
     0xd181d180d0b5d0b4d181d182d0b2d0b0, 0xd8a7d984d985d988d8a7d8b6d98ad8b9,
     0xd8a7d984d8b1d8a6d98ad8b3d98ad8a9, 0xd8a7d984d8a7d986d8aad982d8a7d984,
     0xd985d8b4d8a7d8b1d983d8a7d8aad983, 0xd8a7d984d8b3d98ad8a7d8b1d8a7d8aa,
     0xd8a7d984d985d983d8aad988d8a8d8a9, 0xd8a7d984d8b3d8b9d988d8afd98ad8a9,
     0xd8a7d8add8b5d8a7d8a6d98ad8a7d8aa, 0xd8a7d984d8b9d8a7d984d985d98ad8a9,
     0xd8a7d984d8b5d988d8aad98ad8a7d8aa, 0xd8a7d984d8a7d986d8aad8b1d986d8aa,
     0xd8a7d984d8aad8b5d8a7d985d98ad985, 0xd8a7d984d8a5d8b3d984d8a7d985d98a,
     0xd8a7d984d985d8b4d8a7d8b1d983d8a9, 0xd8a7d984d985d8b1d8a6d98ad8a7d8aa,
     0x726f626f74732220636f6e74656e743d, 0x223c6469762069643d22666f6f746572,
     0x223e74686520556e6974656420537461, 0x7465733c696d67207372633d22687474,
     0x703a2f2f2e6a70677c72696768747c74, 0x68756d627c2e6a73223e3c2f73637269,
     0x70743e0d0a3c6c6f636174696f6e2e70, 0x726f746f636f6c6672616d65626f7264,
     0x65723d223022207322202f3e0a3c6d65, 0x7461206e616d653d223c2f613e3c2f64,
     0x69763e3c2f6469763e3c666f6e742d77, 0x65696768743a626f6c643b2671756f74,
     0x3b20616e64202671756f743b64657065, 0x6e64696e67206f6e20746865206d6172,
     0x67696e3a303b70616464696e673a2220, 0x72656c3d226e6f666f6c6c6f77222050,
     0x7265736964656e74206f662074686520, 0x7477656e74696574682063656e747572,
     0x7965766973696f6e3e0a20203c2f7061, 0x6765496e7465726e6574204578706c6f,
     0x726572612e6173796e63203d20747275, 0x653b0d0a696e666f726d6174696f6e20,
     0x61626f75743c6469762069643d226865, 0x61646572223e2220616374696f6e3d22,
     0x687474703a2f2f3c6120687265663d22, 0x68747470733a2f2f3c6469762069643d,
     0x22636f6e74656e74223c2f6469763e0d, 0x0a3c2f6469763e0d0a3c646572697665,
     0x642066726f6d20746865203c696d6720, 0x7372633d27687474703a2f2f6163636f,
     0x7264696e6720746f20746865200a3c2f, 0x626f64793e0a3c2f68746d6c3e0a7374,
     0x796c653d22666f6e742d73697a653a73, 0x6372697074206c616e67756167653d22,
     0x417269616c2c2048656c766574696361, 0x2c3c2f613e3c7370616e20636c617373,
     0x3d223c2f7363726970743e3c73637269, 0x707420706f6c69746963616c20706172,
     0x7469657374643e3c2f74723e3c2f7461, 0x626c653e3c687265663d22687474703a,
     0x2f2f7777772e696e7465727072657461, 0x74696f6e206f6672656c3d227374796c,
     0x6573686565742220646f63756d656e74, 0x2e777269746528273c63686172736574,
     0x3d227574662d38223e0a626567696e6e, 0x696e67206f6620746865207265766561,
     0x6c656420746861742074686574656c65, 0x766973696f6e20736572696573222072,
     0x656c3d226e6f666f6c6c6f77223e2074, 0x61726765743d225f626c616e6b223e63,
     0x6c61696d696e67207468617420746865, 0x68747470253341253246253246777777,
     0x2e6d616e69666573746174696f6e7320, 0x6f665072696d65204d696e6973746572,
     0x206f66696e666c75656e636564206279, 0x20746865636c6173733d22636c656172,
     0x666978223e2f6469763e0d0a3c2f6469, 0x763e0d0a0d0a74687265652d64696d65,
     0x6e73696f6e616c436875726368206f66, 0x20456e676c616e646f66204e6f727468,
     0x204361726f6c696e6173717561726520, 0x6b696c6f6d65747265732e6164644576,
     0x656e744c697374656e65726469737469, 0x6e63742066726f6d20746865636f6d6d,
     0x6f6e6c79206b6e6f776e20617350686f, 0x6e6574696320416c7068616265746465,
     0x636c6172656420746861742074686563, 0x6f6e74726f6c6c656420627920746865,
     0x42656e6a616d696e204672616e6b6c69, 0x6e726f6c652d706c6179696e67206761,
     0x6d6574686520556e6976657273697479, 0x206f66696e205765737465726e204575,
     0x726f7065706572736f6e616c20636f6d, 0x707574657250726f6a65637420477574,
     0x656e626572677265676172646c657373, 0x206f6620746865686173206265656e20,
     0x70726f706f736564746f676574686572, 0x2077697468207468653e3c2f6c693e3c]"

lemma length_kBrotliDictionary_44 [simp]: "length kBrotliDictionary_44 = 2400"
  by (simp add: kBrotliDictionary_44_def)

definition kBrotliDictionary_45 :: "u8 list" where
  "kBrotliDictionary_45 = dict_rows [
     0x6c6920636c6173733d22696e20736f6d, 0x6520636f756e74726965736d696e2e6a,
     0x73223e3c2f7363726970743e6f662074, 0x686520706f70756c6174696f6e6f6666,
     0x696369616c206c616e67756167653c69, 0x6d67207372633d22696d616765732f69,
     0x64656e74696669656420627920746865, 0x6e61747572616c207265736f75726365,
     0x73636c617373696669636174696f6e20, 0x6f6663616e20626520636f6e73696465,
     0x7265647175616e74756d206d65636861, 0x6e6963734e657665727468656c657373,
     0x2c207468656d696c6c696f6e20796561, 0x72732061676f3c2f626f64793e0d0a3c,
     0x2f68746d6c3e0dce95cebbcebbceb7ce, 0xbdceb9cebaceac0a74616b6520616476,
     0x616e74616765206f66616e642c206163, 0x636f7264696e6720746f617474726962,
     0x7574656420746f207468654d6963726f, 0x736f66742057696e646f777374686520,
     0x66697273742063656e74757279756e64, 0x65722074686520636f6e74726f6c6469,
     0x7620636c6173733d2268656164657273, 0x686f72746c7920616674657220746865,
     0x6e6f7461626c6520657863657074696f, 0x6e74656e73206f662074686f7573616e,
     0x64737365766572616c20646966666572, 0x656e7461726f756e642074686520776f,
     0x726c642e7265616368696e67206d696c, 0x697461727969736f6c61746564206672,
     0x6f6d207468656f70706f736974696f6e, 0x20746f20746865746865204f6c642054,
     0x657374616d656e744166726963616e20, 0x416d65726963616e73696e7365727465,
     0x6420696e746f20746865736570617261, 0x74652066726f6d207468656d6574726f,
     0x706f6c6974616e20617265616d616b65, 0x7320697420706f737369626c6561636b,
     0x6e6f776c656467656420746861746172, 0x677561626c7920746865206d6f737474,
     0x7970653d22746578742f637373223e0a, 0x74686520496e7465726e6174696f6e61,
     0x6c4163636f7264696e6720746f207468, 0x652070653d22746578742f6373732220,
     0x2f3e0a636f696e636964652077697468, 0x2074686574776f2d746869726473206f,
     0x6620746865447572696e672074686973, 0x2074696d652c647572696e6720746865,
     0x20706572696f64616e6e6f756e636564, 0x207468617420686574686520696e7465,
     0x726e6174696f6e616c616e64206d6f72, 0x6520726563656e746c7962656c696576,
     0x6564207468617420746865636f6e7363, 0x696f75736e65737320616e64666f726d,
     0x65726c79206b6e6f776e206173737572, 0x726f756e646564206279207468656669,
     0x72737420617070656172656420696e6f, 0x63636173696f6e616c6c792075736564,
     0x706f736974696f6e3a6162736f6c7574, 0x653b22207461726765743d225f626c61,
     0x6e6b2220706f736974696f6e3a72656c, 0x61746976653b746578742d616c69676e,
     0x3a63656e7465723b6a61782f6c696273, 0x2f6a71756572792f312e6261636b6772,
     0x6f756e642d636f6c6f723a2374797065, 0x3d226170706c69636174696f6e2f616e,
     0x67756167652220636f6e74656e743d22, 0x3c6d65746120687474702d6571756976,
     0x3d225072697661637920506f6c696379, 0x3c2f613e652822253343736372697074,
     0x207372633d2722207461726765743d22, 0x5f626c616e6b223e4f6e20746865206f,
     0x746865722068616e642c2e6a70677c74, 0x68756d627c72696768747c323c2f6469,
     0x763e3c64697620636c6173733d223c64, 0x6976207374796c653d22666c6f61743a,
     0x6e696e657465656e74682063656e7475, 0x72793c2f626f64793e0d0a3c2f68746d,
     0x6c3e0d0a3c696d67207372633d226874, 0x74703a2f2f733b746578742d616c6967,
     0x6e3a63656e746572666f6e742d776569, 0x6768743a20626f6c643b204163636f72,
     0x64696e6720746f207468652064696666, 0x6572656e6365206265747765656e2220,
     0x6672616d65626f726465723d22302220, 0x22207374796c653d22706f736974696f,
     0x6e3a6c696e6b20687265663d22687474, 0x703a2f2f68746d6c342f6c6f6f73652e,
     0x647464223e0a647572696e6720746869, 0x7320706572696f643c2f74643e3c2f74,
     0x723e3c2f7461626c653e636c6f73656c, 0x792072656c6174656420746f666f7220,
     0x7468652066697273742074696d653b66, 0x6f6e742d7765696768743a626f6c643b,
     0x696e70757420747970653d2274657874, 0x22203c7370616e207374796c653d2266,
     0x6f6e742d6f6e72656164797374617465, 0x6368616e6765093c64697620636c6173,
     0x733d22636c656172646f63756d656e74, 0x2e6c6f636174696f6e2e20466f722065,
     0x78616d706c652c207468652061207769, 0x64652076617269657479206f66203c21,
     0x444f43545950452068746d6c3e0d0a3c, 0x266e6273703b266e6273703b266e6273,
     0x703b223e3c6120687265663d22687474, 0x703a2f2f7374796c653d22666c6f6174,
     0x3a6c6566743b636f6e6365726e656420, 0x77697468207468653d68747470253341,
     0x2532462532467777772e696e20706f70, 0x756c61722063756c7475726574797065,
     0x3d22746578742f63737322202f3e6974, 0x20697320706f737369626c6520746f20,
     0x4861727661726420556e697665727369, 0x747974796c6573686565742220687265,
     0x663d222f746865206d61696e20636861, 0x7261637465724f78666f726420556e69,
     0x7665727369747920206e616d653d226b, 0x6579776f7264732220637374796c653d,
     0x22746578742d616c69676e3a74686520, 0x556e69746564204b696e67646f6d6665,
     0x646572616c20676f7665726e6d656e74, 0x3c646976207374796c653d226d617267,
     0x696e20646570656e64696e67206f6e20, 0x746865206465736372697074696f6e20,
     0x6f66207468653c64697620636c617373, 0x3d226865616465722e6d696e2e6a7322,
     0x3e3c2f7363726970743e646573747275, 0x6374696f6e206f6620746865736c6967,
     0x68746c7920646966666572656e74696e, 0x206163636f7264616e63652077697468,
     0x74656c65636f6d6d756e69636174696f, 0x6e73696e646963617465732074686174,
     0x2074686573686f72746c792074686572, 0x656166746572657370656369616c6c79,
     0x20696e20746865204575726f7065616e, 0x20636f756e7472696573486f77657665,
     0x722c207468657265206172657372633d, 0x22687474703a2f2f7374617469637375,
     0x67676573746564207468617420746865, 0x22207372633d22687474703a2f2f7777,
     0x772e61206c61726765206e756d626572, 0x206f662054656c65636f6d6d756e6963,
     0x6174696f6e73222072656c3d226e6f66, 0x6f6c6c6f77222074486f6c7920526f6d,
     0x616e20456d7065726f72616c6d6f7374, 0x206578636c75736976656c792220626f,
     0x726465723d22302220616c743d225365, 0x63726574617279206f66205374617465,
     0x63756c6d696e6174696e6720696e2074, 0x686543494120576f726c642046616374]"

lemma length_kBrotliDictionary_45 [simp]: "length kBrotliDictionary_45 = 2400"
  by (simp add: kBrotliDictionary_45_def)

definition kBrotliDictionary_46 :: "u8 list" where
  "kBrotliDictionary_46 = dict_rows [
     0x626f6f6b746865206d6f737420696d70, 0x6f7274616e74616e6e69766572736172,
     0x79206f66207468657374796c653d2262, 0x61636b67726f756e642d3c6c693e3c65,
     0x6d3e3c6120687265663d222f74686520, 0x41746c616e746963204f6365616e7374,
     0x726963746c7920737065616b696e672c, 0x73686f72746c79206265666f72652074,
     0x6865646966666572656e742074797065, 0x73206f66746865204f74746f6d616e20,
     0x456d706972653e3c696d67207372633d, 0x22687474703a2f2f416e20496e74726f,
     0x64756374696f6e20746f636f6e736571, 0x75656e6365206f662074686564657061,
     0x72747572652066726f6d20746865436f, 0x6e666564657261746520537461746573,
     0x696e646967656e6f75732070656f706c, 0x657350726f63656564696e6773206f66,
     0x20746865696e666f726d6174696f6e20, 0x6f6e207468657468656f726965732068,
     0x617665206265656e696e766f6c76656d, 0x656e7420696e20746865646976696465,
     0x6420696e746f20746872656561646a61, 0x63656e7420636f756e74726965736973,
     0x20726573706f6e7369626c6520666f72, 0x646973736f6c7574696f6e206f662074,
     0x6865636f6c6c61626f726174696f6e20, 0x77697468776964656c79207265676172,
     0x64656420617368697320636f6e74656d, 0x706f726172696573666f756e64696e67,
     0x206d656d626572206f66446f6d696e69, 0x63616e2052657075626c696367656e65,
     0x72616c6c792061636365707465647468, 0x6520706f73736962696c697479206f66,
     0x61726520616c736f20617661696c6162, 0x6c65756e64657220636f6e7374727563,
     0x74696f6e726573746f726174696f6e20, 0x6f66207468657468652067656e657261,
     0x6c207075626c6963697320616c6d6f73, 0x7420656e746972656c79706173736573,
     0x207468726f7567682074686568617320, 0x6265656e20737567676573746564636f,
     0x6d707574657220616e6420766964656f, 0x4765726d616e6963206c616e67756167,
     0x6573206163636f7264696e6720746f20, 0x74686520646966666572656e74206672,
     0x6f6d2074686573686f72746c79206166, 0x7465727761726473687265663d226874,
     0x7470733a2f2f7777772e726563656e74, 0x20646576656c6f706d656e74426f6172,
     0x64206f66204469726563746f72733c64, 0x697620636c6173733d22736561726368,
     0x7c203c6120687265663d22687474703a, 0x2f2f496e20706172746963756c61722c,
     0x207468654d756c7469706c6520666f6f, 0x746e6f7465736f72206f746865722073,
     0x75627374616e636574686f7573616e64, 0x73206f662079656172737472616e736c,
     0x6174696f6e206f66207468653c2f6469, 0x763e0d0a3c2f6469763e0d0a0d0a3c61,
     0x20687265663d22696e6465782e706870, 0x7761732065737461626c697368656420,
     0x696e6d696e2e6a73223e3c2f73637269, 0x70743e0a706172746963697061746520,
     0x696e2074686561207374726f6e672069, 0x6e666c75656e63657374796c653d226d,
     0x617267696e2d746f703a726570726573, 0x656e7465642062792074686567726164,
     0x75617465642066726f6d207468655472, 0x61646974696f6e616c6c792c20746865,
     0x456c656d656e74282273637269707422, 0x293b486f77657665722c2073696e6365,
     0x207468652f6469763e0a3c2f6469763e, 0x0a3c646976206c6566743b206d617267,
     0x696e2d6c6566743a70726f7465637469, 0x6f6e20616761696e7374303b20766572,
     0x746963616c2d616c69676e3a556e666f, 0x7274756e6174656c792c207468657479,
     0x70653d22696d6167652f782d69636f6e, 0x2f6469763e0a3c64697620636c617373,
     0x3d2220636c6173733d22636c65617266, 0x6978223e3c64697620636c6173733d22,
     0x666f6f74657209093c2f6469763e0a09, 0x093c2f6469763e0a746865206d6f7469,
     0x6f6e2070696374757265d091d18ad0bb, 0xd0b3d0b0d180d181d0bad0b8d0b1d18a,
     0xd0bbd0b3d0b0d180d181d0bad0b8d0a4, 0xd0b5d0b4d0b5d180d0b0d186d0b8d0b8,
     0xd0bdd0b5d181d0bad0bed0bbd18cd0ba, 0xd0bed181d0bed0bed0b1d189d0b5d0bd,
     0xd0b8d0b5d181d0bed0bed0b1d189d0b5, 0xd0bdd0b8d18fd0bfd180d0bed0b3d180,
     0xd0b0d0bcd0bcd18bd09ed182d0bfd180, 0xd0b0d0b2d0b8d182d18cd0b1d0b5d181,
     0xd0bfd0bbd0b0d182d0bdd0bed0bcd0b0, 0xd182d0b5d180d0b8d0b0d0bbd18bd0bf,
     0xd0bed0b7d0b2d0bed0bbd18fd0b5d182, 0xd0bfd0bed181d0bbd0b5d0b4d0bdd0b8,
     0xd0b5d180d0b0d0b7d0bbd0b8d187d0bd, 0xd18bd185d0bfd180d0bed0b4d183d0ba,
     0xd186d0b8d0b8d0bfd180d0bed0b3d180, 0xd0b0d0bcd0bcd0b0d0bfd0bed0bbd0bd,
     0xd0bed181d182d18cd18ed0bdd0b0d185, 0xd0bed0b4d0b8d182d181d18fd0b8d0b7,
     0xd0b1d180d0b0d0bdd0bdd0bed0b5d0bd, 0xd0b0d181d0b5d0bbd0b5d0bdd0b8d18f,
     0xd0b8d0b7d0bcd0b5d0bdd0b5d0bdd0b8, 0xd18fd0bad0b0d182d0b5d0b3d0bed180,
     0xd0b8d0b8d090d0bbd0b5d0bad181d0b0, 0xd0bdd0b4d180e0a4a6e0a58de0a4b5e0,
     0xa4bee0a4b0e0a4bee0a4aee0a588e0a4, 0xa8e0a581e0a485e0a4b2e0a4aae0a58d,
     0xe0a4b0e0a4a6e0a4bee0a4a8e0a4ade0, 0xa4bee0a4b0e0a4a4e0a580e0a4afe0a4,
     0x85e0a4a8e0a581e0a4a6e0a587e0a4b6, 0xe0a4b9e0a4bfe0a4a8e0a58de0a4a6e0,
     0xa580e0a487e0a482e0a4a1e0a4bfe0a4, 0xafe0a4bee0a4a6e0a4bfe0a4b2e0a58d,
     0xe0a4b2e0a580e0a485e0a4a7e0a4bfe0, 0xa495e0a4bee0a4b0e0a4b5e0a580e0a4,
     0xa1e0a4bfe0a4afe0a58be0a49ae0a4bf, 0xe0a49fe0a58de0a4a0e0a587e0a4b8e0,
     0xa4aee0a4bee0a49ae0a4bee0a4b0e0a4, 0x9ce0a482e0a495e0a58de0a4b6e0a4a8,
     0xe0a4a6e0a581e0a4a8e0a4bfe0a4afe0, 0xa4bee0a4aae0a58de0a4b0e0a4afe0a5,
     0x8be0a497e0a485e0a4a8e0a581e0a4b8, 0xe0a4bee0a4b0e0a491e0a4a8e0a4b2e0,
     0xa4bee0a487e0a4a8e0a4aae0a4bee0a4, 0xb0e0a58de0a49fe0a580e0a4b6e0a4b0,
     0xe0a58de0a4a4e0a58be0a482e0a4b2e0, 0xa58be0a495e0a4b8e0a4ade0a4bee0a4,
     0xabe0a4bce0a58de0a4b2e0a588e0a4b6, 0xe0a4b6e0a4b0e0a58de0a4a4e0a587e0,
     0xa482e0a4aae0a58de0a4b0e0a4a6e0a5, 0x87e0a4b6e0a4aae0a58de0a4b2e0a587,
     0xe0a4afe0a4b0e0a495e0a587e0a482e0, 0xa4a6e0a58de0a4b0e0a4b8e0a58de0a4,
     0xa5e0a4bfe0a4a4e0a4bfe0a489e0a4a4, 0xe0a58de0a4aae0a4bee0a4a6e0a489e0,
     0xa4a8e0a58de0a4b9e0a587e0a482e0a4, 0x9ae0a4bfe0a49fe0a58de0a4a0e0a4be,
     0xe0a4afe0a4bee0a4a4e0a58de0a4b0e0, 0xa4bee0a49ce0a58de0a4afe0a4bee0a4,
     0xa6e0a4bee0a4aae0a581e0a4b0e0a4be, 0xe0a4a8e0a587e0a49ce0a58be0a4a1e0,
     0xa4bce0a587e0a482e0a485e0a4a8e0a5, 0x81e0a4b5e0a4bee0a4a6e0a4b6e0a58d,
     0xe0a4b0e0a587e0a4a3e0a580e0a4b6e0, 0xa4bfe0a495e0a58de0a4b7e0a4bee0a4]"

lemma length_kBrotliDictionary_46 [simp]: "length kBrotliDictionary_46 = 2400"
  by (simp add: kBrotliDictionary_46_def)

definition kBrotliDictionary_47 :: "u8 list" where
  "kBrotliDictionary_47 = dict_rows [
     0xb8e0a4b0e0a495e0a4bee0a4b0e0a580, 0xe0a4b8e0a482e0a497e0a58de0a4b0e0,
     0xa4b9e0a4aae0a4b0e0a4bfe0a4a3e0a4, 0xbee0a4aee0a4ace0a58de0a4b0e0a4be,
     0xe0a482e0a4a1e0a4ace0a49ae0a58de0, 0xa49ae0a58be0a482e0a489e0a4aae0a4,
     0xb2e0a4ace0a58de0a4a7e0a4aee0a482, 0xe0a4a4e0a58de0a4b0e0a580e0a4b8e0,
     0xa482e0a4aae0a4b0e0a58de0a495e0a4, 0x89e0a4aee0a58de0a4aee0a580e0a4a6,
     0xe0a4aee0a4bee0a4a7e0a58de0a4afe0, 0xa4aee0a4b8e0a4b9e0a4bee0a4afe0a4,
     0xa4e0a4bee0a4b6e0a4ace0a58de0a4a6, 0xe0a58be0a482e0a4aee0a580e0a4a1e0,
     0xa4bfe0a4afe0a4bee0a486e0a488e0a4, 0xaae0a580e0a48fe0a4b2e0a4aee0a58b,
     0xe0a4ace0a4bee0a487e0a4b2e0a4b8e0, 0xa482e0a496e0a58de0a4afe0a4bee0a4,
     0x86e0a4aae0a4b0e0a587e0a4b6e0a4a8, 0xe0a485e0a4a8e0a581e0a4ace0a482e0,
     0xa4a7e0a4ace0a4bee0a49ce0a4bce0a4, 0xbee0a4b0e0a4a8e0a4b5e0a580e0a4a8,
     0xe0a4a4e0a4aee0a4aae0a58de0a4b0e0, 0xa4aee0a581e0a496e0a4aae0a58de0a4,
     0xb0e0a4b6e0a58de0a4a8e0a4aae0a4b0, 0xe0a4bfe0a4b5e0a4bee0a4b0e0a4a8e0,
     0xa581e0a495e0a4b8e0a4bee0a4a8e0a4, 0xb8e0a4aee0a4b0e0a58de0a4a5e0a4a8,
     0xe0a486e0a4afe0a58be0a49ce0a4bfe0, 0xa4a4e0a4b8e0a58be0a4aee0a4b5e0a4,
     0xbee0a4b0d8a7d984d985d8b4d8a7d8b1, 0xd983d8a7d8aad8a7d984d985d986d8aa,
     0xd8afd98ad8a7d8aad8a7d984d983d985, 0xd8a8d98ad988d8aad8b1d8a7d984d985,
     0xd8b4d8a7d987d8afd8a7d8aad8b9d8af, 0xd8afd8a7d984d8b2d988d8a7d8b1d8b9,
     0xd8afd8afd8a7d984d8b1d8afd988d8af, 0xd8a7d984d8a5d8b3d984d8a7d985d98a,
     0xd8a9d8a7d984d981d988d8aad988d8b4, 0xd988d8a8d8a7d984d985d8b3d8a7d8a8,
     0xd982d8a7d8aad8a7d984d985d8b9d984, 0xd988d985d8a7d8aad8a7d984d985d8b3,
     0xd984d8b3d984d8a7d8aad8a7d984d8ac, 0xd8b1d8a7d981d98ad983d8b3d8a7d984,
     0xd8a7d8b3d984d8a7d985d98ad8a9d8a7, 0xd984d8a7d8aad8b5d8a7d984d8a7d8aa,
     0x6b6579776f7264732220636f6e74656e, 0x743d2277332e6f72672f313939392f78,
     0x68746d6c223e3c61207461726765743d, 0x225f626c616e6b2220746578742f6874,
     0x6d6c3b20636861727365743d22207461, 0x726765743d225f626c616e6b223e3c74,
     0x61626c652063656c6c70616464696e67, 0x3d226175746f636f6d706c6574653d22,
     0x6f66662220746578742d616c69676e3a, 0x2063656e7465723b746f206c61737420,
     0x76657273696f6e206279206261636b67, 0x726f756e642d636f6c6f723a20232220,
     0x687265663d22687474703a2f2f777777, 0x2e2f6469763e3c2f6469763e3c646976,
     0x2069643d3c6120687265663d22232220, 0x636c6173733d22223e3c696d67207372,
     0x633d22687474703a2f2f637269707422, 0x207372633d22687474703a2f2f0a3c73,
     0x6372697074206c616e67756167653d22, 0x2f2f454e222022687474703a2f2f7777,
     0x772e77656e636f6465555249436f6d70, 0x6f6e656e74282220687265663d226a61,
     0x76617363726970743a3c64697620636c, 0x6173733d22636f6e74656e74646f6375,
     0x6d656e742e777269746528273c736370, 0x6f736974696f6e3a206162736f6c7574,
     0x653b736372697074207372633d226874, 0x74703a2f2f207374796c653d226d6172,
     0x67696e2d746f703a2e6d696e2e6a7322, 0x3e3c2f7363726970743e0a3c2f646976,
     0x3e0a3c64697620636c6173733d227733, 0x2e6f72672f313939392f7868746d6c22,
     0x200a0d0a3c2f626f64793e0d0a3c2f68, 0x746d6c3e64697374696e6374696f6e20,
     0x6265747765656e2f2220746172676574, 0x3d225f626c616e6b223e3c6c696e6b20,
     0x687265663d22687474703a2f2f656e63, 0x6f64696e673d227574662d38223f3e0a,
     0x772e6164644576656e744c697374656e, 0x65723f616374696f6e3d22687474703a,
     0x2f2f7777772e69636f6e222068726566, 0x3d22687474703a2f2f207374796c653d,
     0x226261636b67726f756e643a74797065, 0x3d22746578742f63737322202f3e0a6d,
     0x6574612070726f70657274793d226f67, 0x3a743c696e70757420747970653d2274,
     0x6578742220207374796c653d22746578, 0x742d616c69676e3a7468652064657665,
     0x6c6f706d656e74206f662074796c6573, 0x686565742220747970653d2274656874,
     0x6d6c3b20636861727365743d7574662d, 0x38697320636f6e736964657265642074,
     0x6f2062657461626c652077696474683d, 0x22313030252220496e20616464697469,
     0x6f6e20746f2074686520636f6e747269, 0x627574656420746f2074686520646966,
     0x666572656e636573206265747765656e, 0x646576656c6f706d656e74206f662074,
     0x686520497420697320696d706f727461, 0x6e7420746f203c2f7363726970743e0a,
     0x0a3c73637269707420207374796c653d, 0x22666f6e742d73697a653a313e3c2f73,
     0x70616e3e3c7370616e2069643d67624c, 0x696272617279206f6620436f6e677265,
     0x73733c696d67207372633d2268747470, 0x3a2f2f696d456e676c69736820747261,
     0x6e736c6174696f6e41636164656d7920, 0x6f6620536369656e6365736469762073,
     0x74796c653d22646973706c61793a636f, 0x6e737472756374696f6e206f66207468,
     0x652e676574456c656d656e7442794964, 0x28696429696e20636f6e6a756e637469,
     0x6f6e2077697468456c656d656e742827, 0x73637269707427293b203c6d65746120,
     0x70726f70657274793d226f673ad091d1, 0x8ad0bbd0b3d0b0d180d181d0bad0b80a,
     0x20747970653d227465787422206e616d, 0x653d223e5072697661637920506f6c69,
     0x63793c2f613e61646d696e6973746572, 0x656420627920746865656e61626c6553,
     0x696e676c65526571756573747374796c, 0x653d2671756f743b6d617267696e3a3c,
     0x2f6469763e3c2f6469763e3c2f646976, 0x3e3c3e3c696d67207372633d22687474,
     0x703a2f2f69207374796c653d2671756f, 0x743b666c6f61743a7265666572726564,
     0x20746f2061732074686520746f74616c, 0x20706f70756c6174696f6e206f66696e,
     0x2057617368696e67746f6e2c20442e43, 0x2e207374796c653d226261636b67726f,
     0x756e642d616d6f6e67206f7468657220, 0x7468696e67732c6f7267616e697a6174,
     0x696f6e206f6620746865706172746963, 0x69706174656420696e20746865746865,
     0x20696e74726f64756374696f6e206f66, 0x6964656e746966696564207769746820,
     0x74686566696374696f6e616c20636861, 0x726163746572204f78666f726420556e,
     0x6976657273697479206d6973756e6465, 0x727374616e64696e67206f6654686572,
     0x65206172652c20686f77657665722c73, 0x74796c6573686565742220687265663d,
     0x222f436f6c756d62696120556e697665, 0x7273697479657870616e64656420746f]"

lemma length_kBrotliDictionary_47 [simp]: "length kBrotliDictionary_47 = 2400"
  by (simp add: kBrotliDictionary_47_def)

definition kBrotliDictionary_48 :: "u8 list" where
  "kBrotliDictionary_48 = dict_rows [
     0x20696e636c756465757375616c6c7920, 0x726566657272656420746f696e646963,
     0x6174696e672074686174207468656861, 0x76652073756767657374656420746861,
     0x74616666696c69617465642077697468, 0x20746865636f7272656c6174696f6e20,
     0x6265747765656e6e756d626572206f66, 0x20646966666572656e743e3c2f74643e,
     0x3c2f74723e3c2f7461626c653e526570, 0x75626c6963206f66204972656c616e64,
     0x0a3c2f7363726970743e0a3c73637269, 0x707420756e6465722074686520696e66,
     0x6c75656e6365636f6e74726962757469, 0x6f6e20746f207468654f666669636961,
     0x6c2077656273697465206f6668656164, 0x7175617274657273206f662074686563,
     0x656e74657265642061726f756e642074, 0x6865696d706c69636174696f6e73206f,
     0x662074686568617665206265656e2064, 0x6576656c6f7065644665646572616c20,
     0x52657075626c6963206f66626563616d, 0x6520696e6372656173696e676c79636f,
     0x6e74696e756174696f6e206f66207468, 0x654e6f74652c20686f77657665722c20,
     0x7468617473696d696c617220746f2074, 0x686174206f66206361706162696c6974,
     0x696573206f66207468656163636f7264, 0x616e6365207769746820746865706172,
     0x7469636970616e747320696e20746865, 0x6675727468657220646576656c6f706d,
     0x656e74756e6465722074686520646972, 0x656374696f6e6973206f6674656e2063,
     0x6f6e7369646572656468697320796f75, 0x6e6765722062726f746865723c2f7464,
     0x3e3c2f74723e3c2f7461626c653e3c61, 0x20687474702d65717569763d22582d55,
     0x412d706879736963616c2070726f7065, 0x72746965736f66204272697469736820,
     0x436f6c756d626961686173206265656e, 0x20637269746963697a65642877697468,
     0x2074686520657863657074696f6e7175, 0x657374696f6e732061626f7574207468,
     0x6570617373696e67207468726f756768, 0x2074686530222063656c6c7061646469,
     0x6e673d2230222074686f7573616e6473, 0x206f662070656f706c65726564697265,
     0x63747320686572652e20466f72686176, 0x65206368696c6472656e20756e646572,
     0x2533452533432f736372697074253345, 0x2229293b3c6120687265663d22687474,
     0x703a2f2f7777772e3c6c693e3c612068, 0x7265663d22687474703a2f2f73697465,
     0x5f6e616d652220636f6e74656e743d22, 0x746578742d6465636f726174696f6e3a,
     0x6e6f6e657374796c653d22646973706c, 0x61793a206e6f6e653c6d657461206874,
     0x74702d65717569763d22582d6e657720, 0x4461746528292e67657454696d652829,
     0x20747970653d22696d6167652f782d69, 0x636f6e223c2f7370616e3e3c7370616e,
     0x20636c6173733d226c616e6775616765, 0x3d226a61766173637269707477696e64,
     0x6f772e6c6f636174696f6e2e68726566, 0x3c6120687265663d226a617661736372,
     0x6970743a2d2d3e0d0a3c736372697074, 0x20747970653d22743c6120687265663d,
     0x27687474703a2f2f7777772e686f7274, 0x6375742069636f6e2220687265663d22,
     0x3c2f6469763e0d0a3c64697620636c61, 0x73733d223c736372697074207372633d,
     0x22687474703a2f2f222072656c3d2273, 0x74796c6573686565742220743c2f6469,
     0x763e0a3c73637269707420747970653d, 0x2f613e203c6120687265663d22687474,
     0x703a2f2f20616c6c6f775472616e7370, 0x6172656e63793d22582d55412d436f6d,
     0x70617469626c652220636f6e72656c61, 0x74696f6e73686970206265747765656e,
     0x0a3c2f7363726970743e0d0a3c736372, 0x697074203c2f613e3c2f6c693e3c2f75,
     0x6c3e3c2f6469763e6173736f63696174, 0x65642077697468207468652070726f67,
     0x72616d6d696e67206c616e6775616765, 0x3c2f613e3c6120687265663d22687474,
     0x703a2f2f3c2f613e3c2f6c693e3c6c69, 0x20636c6173733d22666f726d20616374,
     0x696f6e3d22687474703a2f2f3c646976, 0x207374796c653d22646973706c61793a,
     0x747970653d227465787422206e616d65, 0x3d2271223c7461626c65207769647468,
     0x3d223130302522206261636b67726f75, 0x6e642d706f736974696f6e3a2220626f,
     0x726465723d2230222077696474683d22, 0x72656c3d2273686f7274637574206963,
     0x6f6e222068363e3c756c3e3c6c693e3c, 0x6120687265663d2220203c6d65746120,
     0x687474702d65717569763d2263737322, 0x206d656469613d2273637265656e2220,
     0x726573706f6e7369626c6520666f7220, 0x746865202220747970653d226170706c,
     0x69636174696f6e2f22207374796c653d, 0x226261636b67726f756e642d68746d6c,
     0x3b20636861727365743d7574662d3822, 0x20616c6c6f777472616e73706172656e,
     0x63793d227374796c6573686565742220, 0x747970653d2274650d0a3c6d65746120,
     0x687474702d65717569763d223e3c2f73, 0x70616e3e3c7370616e20636c6173733d,
     0x2230222063656c6c73706163696e673d, 0x2230223e3b0a3c2f7363726970743e0a,
     0x3c73637269707420736f6d6574696d65, 0x732063616c6c656420746865646f6573,
     0x206e6f74206e65636573736172696c79, 0x466f72206d6f726520696e666f726d61,
     0x74696f6e61742074686520626567696e, 0x6e696e67206f66203c21444f43545950,
     0x452068746d6c3e3c68746d6c70617274, 0x6963756c61726c7920696e2074686520,
     0x747970653d2268696464656e22206e61, 0x6d653d226a6176617363726970743a76,
     0x6f69642830293b226566666563746976, 0x656e657373206f662074686520617574,
     0x6f636f6d706c6574653d226f66662220, 0x67656e6572616c6c7920636f6e736964,
     0x657265643e3c696e7075742074797065, 0x3d22746578742220223e3c2f73637269,
     0x70743e0d0a3c7363726970747468726f, 0x7567686f75742074686520776f726c64,
     0x636f6d6d6f6e206d6973636f6e636570, 0x74696f6e6173736f63696174696f6e20,
     0x77697468207468653c2f6469763e0a3c, 0x2f6469763e0a3c646976206364757269,
     0x6e6720686973206c69666574696d652c, 0x636f72726573706f6e64696e6720746f,
     0x20746865747970653d22696d6167652f, 0x782d69636f6e2220616e20696e637265,
     0x6173696e67206e756d6265726469706c, 0x6f6d617469632072656c6174696f6e73,
     0x617265206f6674656e20636f6e736964, 0x657265646d6574612063686172736574,
     0x3d227574662d3822203c696e70757420, 0x747970653d227465787422206578616d,
     0x706c657320696e636c75646520746865, 0x223e3c696d67207372633d2268747470,
     0x3a2f2f6970617274696369706174696f, 0x6e20696e207468657468652065737461,
     0x626c6973686d656e74206f660a3c2f64, 0x69763e0a3c64697620636c6173733d22,
     0x26616d703b6e6273703b26616d703b6e, 0x6273703b746f2064657465726d696e65]"

lemma length_kBrotliDictionary_48 [simp]: "length kBrotliDictionary_48 = 2400"
  by (simp add: kBrotliDictionary_48_def)

definition kBrotliDictionary_49 :: "u8 list" where
  "kBrotliDictionary_49 = dict_rows [
     0x20776865746865727175697465206469, 0x66666572656e742066726f6d6d61726b,
     0x65642074686520626567696e6e696e67, 0x64697374616e6365206265747765656e,
     0x20746865636f6e747269627574696f6e, 0x7320746f20746865636f6e666c696374,
     0x206265747765656e2074686577696465, 0x6c7920636f6e7369646572656420746f,
     0x776173206f6e65206f66207468652066, 0x69727374776974682076617279696e67,
     0x20646567726565736861766520737065, 0x63756c61746564207468617428646f63,
     0x756d656e742e676574456c656d656e74, 0x70617274696369706174696e6720696e,
     0x207468656f726967696e616c6c792064, 0x6576656c6f7065646574612063686172,
     0x7365743d227574662d38223e20747970, 0x653d22746578742f63737322202f3e0a,
     0x696e7465726368616e676561626c7920, 0x776974686d6f726520636c6f73656c79,
     0x2072656c61746564736f6369616c2061, 0x6e6420706f6c69746963616c74686174,
     0x20776f756c64206f7468657277697365, 0x70657270656e646963756c617220746f,
     0x207468657374796c6520747970653d22, 0x746578742f637373747970653d227375,
     0x626d697422206e616d653d2266616d69, 0x6c696573207265736964696e6720696e,
     0x646576656c6f70696e6720636f756e74, 0x72696573636f6d70757465722070726f,
     0x6772616d6d696e6765636f6e6f6d6963, 0x20646576656c6f706d656e7464657465,
     0x726d696e6174696f6e206f6620746865, 0x666f72206d6f726520696e666f726d61,
     0x74696f6e6f6e207365766572616c206f, 0x63636173696f6e73706f7274756775c3,
     0xaa7320284575726f70657529d0a3d0ba, 0xd180d0b0d197d0bdd181d18cd0bad0b0,
     0xd183d0bad180d0b0d197d0bdd181d18c, 0xd0bad0b0d0a0d0bed181d181d0b8d0b9,
     0xd181d0bad0bed0b9d0bcd0b0d182d0b5, 0xd180d0b8d0b0d0bbd0bed0b2d0b8d0bd,
     0xd184d0bed180d0bcd0b0d186d0b8d0b8, 0xd183d0bfd180d0b0d0b2d0bbd0b5d0bd,
     0xd0b8d18fd0bdd0b5d0bed0b1d185d0be, 0xd0b4d0b8d0bcd0bed0b8d0bdd184d0be,
     0xd180d0bcd0b0d186d0b8d18fd098d0bd, 0xd184d0bed180d0bcd0b0d186d0b8d18f,
     0xd0a0d0b5d181d0bfd183d0b1d0bbd0b8, 0xd0bad0b8d0bad0bed0bbd0b8d187d0b5,
     0xd181d182d0b2d0bed0b8d0bdd184d0be, 0xd180d0bcd0b0d186d0b8d18ed182d0b5,
     0xd180d180d0b8d182d0bed180d0b8d0b8, 0xd0b4d0bed181d182d0b0d182d0bed187,
     0xd0bdd0bed8a7d984d985d8aad988d8a7, 0xd8acd8afd988d986d8a7d984d8a7d8b4,
     0xd8aad8b1d8a7d983d8a7d8aad8a7d984, 0xd8a7d982d8aad8b1d8a7d8add8a7d8aa,
     0x68746d6c3b20636861727365743d5554, 0x462d38222073657454696d656f757428,
     0x66756e6374696f6e2829646973706c61, 0x793a696e6c696e652d626c6f636b3b3c,
     0x696e70757420747970653d227375626d, 0x6974222074797065203d202774657874,
     0x2f6a617661736372693c696d67207372, 0x633d22687474703a2f2f7777772e2220,
     0x22687474703a2f2f7777772e77332e6f, 0x72672f73686f72746375742069636f6e,
     0x2220687265663d2222206175746f636f, 0x6d706c6574653d226f666622203c2f61,
     0x3e3c2f6469763e3c64697620636c6173, 0x733d3c2f613e3c2f6c693e0a3c6c6920,
     0x636c6173733d22637373222074797065, 0x3d22746578742f63737322203c666f72,
     0x6d20616374696f6e3d22687474703a2f, 0x2f78742f6373732220687265663d2268,
     0x7474703a2f2f6c696e6b2072656c3d22, 0x616c7465726e61746522200d0a3c7363,
     0x7269707420747970653d22746578742f, 0x206f6e636c69636b3d226a6176617363,
     0x726970743a286e65772044617465292e, 0x67657454696d6528297d686569676874,
     0x3d2231222077696474683d2231222050, 0x656f706c6527732052657075626c6963,
     0x206f6620203c6120687265663d226874, 0x74703a2f2f7777772e746578742d6465,
     0x636f726174696f6e3a756e6465727468, 0x6520626567696e6e696e67206f662074,
     0x6865203c2f6469763e0a3c2f6469763e, 0x0a3c2f6469763e0a65737461626c6973,
     0x686d656e74206f6620746865203c2f64, 0x69763e3c2f6469763e3c2f6469763e3c,
     0x2f642376696577706f72747b6d696e2d, 0x6865696768743a0a3c73637269707420,
     0x7372633d22687474703a2f2f6f707469, 0x6f6e3e3c6f7074696f6e2076616c7565,
     0x3d6f6674656e20726566657272656420, 0x746f206173202f6f7074696f6e3e0a3c,
     0x6f7074696f6e2076616c753c21444f43, 0x545950452068746d6c3e0a3c212d2d5b,
     0x496e7465726e6174696f6e616c204169, 0x72706f72743e0a3c6120687265663d22,
     0x687474703a2f2f7777773c2f613e3c61, 0x20687265663d22687474703a2f2f77e0,
     0xb8a0e0b8b2e0b8a9e0b8b2e0b984e0b8, 0x97e0b8a2e183a5e18390e183a0e18397,
     0xe183a3e1839ae18398e6ada3e9ab94e4, 0xb8ade696872028e7b981e9ab9429e0a4,
     0xa8e0a4bfe0a4b0e0a58de0a4a6e0a587, 0xe0a4b6e0a4a1e0a4bee0a489e0a4a8e0,
     0xa4b2e0a58be0a4a1e0a495e0a58de0a4, 0xb7e0a587e0a4a4e0a58de0a4b0e0a49c,
     0xe0a4bee0a4a8e0a495e0a4bee0a4b0e0, 0xa580e0a4b8e0a482e0a4ace0a482e0a4,
     0xa7e0a4bfe0a4a4e0a4b8e0a58de0a4a5, 0xe0a4bee0a4aae0a4a8e0a4bee0a4b8e0,
     0xa58de0a4b5e0a580e0a495e0a4bee0a4, 0xb0e0a4b8e0a482e0a4b8e0a58de0a495,
     0xe0a4b0e0a4a3e0a4b8e0a4bee0a4aee0, 0xa497e0a58de0a4b0e0a580e0a49ae0a4,
     0xbfe0a49fe0a58de0a4a0e0a58be0a482, 0xe0a4b5e0a4bfe0a49ce0a58de0a49ee0,
     0xa4bee0a4a8e0a485e0a4aee0a587e0a4, 0xb0e0a4bfe0a495e0a4bee0a4b5e0a4bf,
     0xe0a4ade0a4bfe0a4a8e0a58de0a4a8e0, 0xa497e0a4bee0a4a1e0a4bfe0a4afe0a4,
     0xbee0a481e0a495e0a58de0a4afe0a58b, 0xe0a482e0a495e0a4bfe0a4b8e0a581e0,
     0xa4b0e0a495e0a58de0a4b7e0a4bee0a4, 0xaae0a4b9e0a581e0a481e0a49ae0a4a4,
     0xe0a580e0a4aae0a58de0a4b0e0a4ace0, 0xa482e0a4a7e0a4a8e0a49fe0a4bfe0a4,
     0xaae0a58de0a4aae0a4a3e0a580e0a495, 0xe0a58de0a4b0e0a4bfe0a495e0a587e0,
     0xa49fe0a4aae0a58de0a4b0e0a4bee0a4, 0xb0e0a482e0a4ade0a4aae0a58de0a4b0,
     0xe0a4bee0a4aae0a58de0a4a4e0a4aee0, 0xa4bee0a4b2e0a4bfe0a495e0a58be0a4,
     0x82e0a4b0e0a4abe0a4bce0a58de0a4a4, 0xe0a4bee0a4b0e0a4a8e0a4bfe0a4b0e0,
     0xa58de0a4aee0a4bee0a4a3e0a4b2e0a4, 0xbfe0a4aee0a4bfe0a49fe0a587e0a4a1,
     0x6465736372697074696f6e2220636f6e, 0x74656e743d22646f63756d656e742e6c,
     0x6f636174696f6e2e70726f742e676574, 0x456c656d656e747342795461674e616d,
     0x65283c21444f43545950452068746d6c, 0x3e0a3c68746d6c203c6d657461206368,
     0x61727365743d227574662d38223e3a75, 0x726c2220636f6e74656e743d22687474]"

lemma length_kBrotliDictionary_49 [simp]: "length kBrotliDictionary_49 = 2400"
  by (simp add: kBrotliDictionary_49_def)

definition kBrotliDictionary_50 :: "u8 list" where
  "kBrotliDictionary_50 = dict_rows [
     0x703a2f2f2e637373222072656c3d2273, 0x74796c657368656574227374796c6520,
     0x747970653d22746578742f637373223e, 0x747970653d22746578742f6373732220,
     0x687265663d2277332e6f72672f313939, 0x392f7868746d6c2220786d6c74797065,
     0x3d22746578742f6a6176617363726970, 0x7422206d6574686f643d226765742220,
     0x616374696f6e3d226c696e6b2072656c, 0x3d227374796c6573686565742220203d,
     0x20646f63756d656e742e676574456c65, 0x6d656e74747970653d22696d6167652f,
     0x782d69636f6e22202f3e63656c6c7061, 0x6464696e673d2230222063656c6c7370,
     0x2e6373732220747970653d2274657874, 0x2f63737322203c2f613e3c2f6c693e3c,
     0x6c693e3c6120687265663d2222207769, 0x6474683d223122206865696768743d22,
     0x3122223e3c6120687265663d22687474, 0x703a2f2f7777772e7374796c653d2264,
     0x6973706c61793a6e6f6e653b223e616c, 0x7465726e6174652220747970653d2261,
     0x70706c692d2f2f5733432f2f44544420, 0x5848544d4c20312e3020656c6c737061,
     0x63696e673d2230222063656c6c706164, 0x20747970653d2268696464656e222076,
     0x616c75653d222f613e266e6273703b3c, 0x7370616e20726f6c653d22730a3c696e,
     0x70757420747970653d2268696464656e, 0x22206c616e67756167653d224a617661,
     0x536372697074222020646f63756d656e, 0x742e676574456c656d656e747342673d,
     0x2230222063656c6c73706163696e673d, 0x223022207970653d22746578742f6373,
     0x7322206d656469613d22747970653d27, 0x746578742f6a61766173637269707427,
     0x77697468207468652065786365707469, 0x6f6e206f66207970653d22746578742f,
     0x637373222072656c3d22737420686569, 0x6768743d2231222077696474683d2231,
     0x22203d272b656e636f6465555249436f, 0x6d706f6e656e74283c6c696e6b207265,
     0x6c3d22616c7465726e61746522200a62, 0x6f64792c2074722c20696e7075742c20,
     0x746578746d657461206e616d653d2272, 0x6f626f74732220636f6e6d6574686f64,
     0x3d22706f73742220616374696f6e3d22, 0x3e0a3c6120687265663d22687474703a,
     0x2f2f7777772e637373222072656c3d22, 0x7374796c65736865657422203c2f6469,
     0x763e3c2f6469763e3c64697620636c61, 0x73736c616e67756167653d226a617661,
     0x736372697074223e617269612d686964, 0x64656e3d2274727565223ec2b73c7269,
     0x70742220747970653d22746578742f6a, 0x617661736c3d303b7d2928293b0a2866,
     0x756e6374696f6e28297b6261636b6772, 0x6f756e642d696d6167653a2075726c28,
     0x2f613e3c2f6c693e3c6c693e3c612068, 0x7265663d226809093c6c693e3c612068,
     0x7265663d22687474703a2f2f61746f72, 0x2220617269612d68696464656e3d2274,
     0x72753e203c6120687265663d22687474, 0x703a2f2f7777772e6c616e6775616765,
     0x3d226a61766173637269707422202f6f, 0x7074696f6e3e0a3c6f7074696f6e2076,
     0x616c75652f6469763e3c2f6469763e3c, 0x64697620636c6173733d7261746f7222,
     0x20617269612d68696464656e3d227472, 0x653d286e65772044617465292e676574,
     0x54696d652829706f7274756775c3aa73, 0x2028646f2042726173696c29d0bed180,
     0xd0b3d0b0d0bdd0b8d0b7d0b0d186d0b8, 0xd0b8d0b2d0bed0b7d0bcd0bed0b6d0bd,
     0xd0bed181d182d18cd0bed0b1d180d0b0, 0xd0b7d0bed0b2d0b0d0bdd0b8d18fd180,
     0xd0b5d0b3d0b8d181d182d180d0b0d186, 0xd0b8d0b8d0b2d0bed0b7d0bcd0bed0b6,
     0xd0bdd0bed181d182d0b8d0bed0b1d18f, 0xd0b7d0b0d182d0b5d0bbd18cd0bdd0b0,
     0x3c21444f43545950452068746d6c2050, 0x55424c494320226e742d547970652220,
     0x636f6e74656e743d22746578742f3c6d, 0x65746120687474702d65717569763d22,
     0x436f6e746572616e736974696f6e616c, 0x2f2f454e222022687474703a3c68746d,
     0x6c20786d6c6e733d22687474703a2f2f, 0x7777772d2f2f5733432f2f4454442058,
     0x48544d4c20312e3020544454442f7868, 0x746d6c312d7472616e736974696f6e61,
     0x6c2f2f7777772e77332e6f72672f5452, 0x2f7868746d6c312f7065203d20277465,
     0x78742f6a617661736372697074273b3c, 0x6d657461206e616d653d226465736372,
     0x697074696f6e706172656e744e6f6465, 0x2e696e736572744265666f72653c696e,
     0x70757420747970653d2268696464656e, 0x22206e616a732220747970653d227465,
     0x78742f6a6176617363726928646f6375, 0x6d656e74292e72656164792866756e63,
     0x746973637269707420747970653d2274, 0x6578742f6a61766173696d6167652220,
     0x636f6e74656e743d22687474703a2f2f, 0x55412d436f6d70617469626c65222063,
     0x6f6e74656e743d746d6c3b2063686172, 0x7365743d7574662d3822202f3e0a6c69,
     0x6e6b2072656c3d2273686f7274637574, 0x2069636f6e3c6c696e6b2072656c3d22,
     0x7374796c65736865657422203c2f7363, 0x726970743e0a3c736372697074207479,
     0x70653d3d20646f63756d656e742e6372, 0x65617465456c656d656e3c6120746172,
     0x6765743d225f626c616e6b2220687265, 0x663d20646f63756d656e742e67657445,
     0x6c656d656e747342696e707574207479, 0x70653d227465787422206e616d653d61,
     0x2e74797065203d2027746578742f6a61, 0x7661736372696e70757420747970653d,
     0x2268696464656e22206e616d6568746d, 0x6c3b20636861727365743d7574662d38,
     0x22202f3e647464223e0a3c68746d6c20, 0x786d6c6e733d22687474702d2f2f5733,
     0x432f2f4454442048544d4c20342e3031, 0x2054656e747342795461674e616d6528,
     0x277363726970742729696e7075742074, 0x7970653d2268696464656e22206e616d,
     0x3c73637269707420747970653d227465, 0x78742f6a6176617322207374796c653d,
     0x22646973706c61793a6e6f6e653b223e, 0x646f63756d656e742e676574456c656d,
     0x656e7442794964283d646f63756d656e, 0x742e637265617465456c656d656e7428,
     0x2720747970653d27746578742f6a6176, 0x6173637269707427696e707574207479,
     0x70653d227465787422206e616d653d22, 0x642e676574456c656d656e7473427954,
     0x61674e616d6528736e6963616c222068, 0x7265663d22687474703a2f2f7777772e,
     0x432f2f4454442048544d4c20342e3031, 0x205472616e7369743c7374796c652074,
     0x7970653d22746578742f637373223e0a, 0x0a3c7374796c6520747970653d227465,
     0x78742f637373223e696f6e616c2e6474, 0x64223e0a3c68746d6c20786d6c6e733d,
     0x687474702d65717569763d22436f6e74, 0x656e742d5479706564696e673d223022,
     0x2063656c6c73706163696e673d223022, 0x68746d6c3b20636861727365743d7574,
     0x662d3822202f3e0a207374796c653d22, 0x646973706c61793a6e6f6e653b223e3c]"

lemma length_kBrotliDictionary_50 [simp]: "length kBrotliDictionary_50 = 2400"
  by (simp add: kBrotliDictionary_50_def)

definition kBrotliDictionary_51 :: "u8 list" where
  "kBrotliDictionary_51 = dict_rows [
     0x3c6c693e3c6120687265663d22687474, 0x703a2f2f7777772e20747970653d2774,
     0x6578742f6a617661736372697074273e, 0xd0b4d0b5d18fd182d0b5d0bbd18cd0bd,
     0xd0bed181d182d0b8d181d0bed0bed182, 0xd0b2d0b5d182d181d182d0b2d0b8d0b8,
     0xd0bfd180d0bed0b8d0b7d0b2d0bed0b4, 0xd181d182d0b2d0b0d0b1d0b5d0b7d0be,
     0xd0bfd0b0d181d0bdd0bed181d182d0b8, 0xe0a4aae0a581e0a4b8e0a58de0a4a4e0,
     0xa4bfe0a495e0a4bee0a495e0a4bee0a4, 0x82e0a497e0a58de0a4b0e0a587e0a4b8,
     0xe0a489e0a4a8e0a58de0a4b9e0a58be0, 0xa482e0a4a8e0a587e0a4b5e0a4bfe0a4,
     0xa7e0a4bee0a4a8e0a4b8e0a4ade0a4be, 0xe0a4abe0a4bfe0a495e0a58de0a4b8e0,
     0xa4bfe0a482e0a497e0a4b8e0a581e0a4, 0xb0e0a495e0a58de0a4b7e0a4bfe0a4a4,
     0xe0a495e0a589e0a4aae0a580e0a4b0e0, 0xa4bee0a487e0a49fe0a4b5e0a4bfe0a4,
     0x9ce0a58de0a49ee0a4bee0a4aae0a4a8, 0xe0a495e0a4bee0a4b0e0a58de0a4b0e0,
     0xa4b5e0a4bee0a488e0a4b8e0a495e0a5, 0x8de0a4b0e0a4bfe0a4afe0a4a4e0a4be]"

lemma length_kBrotliDictionary_51 [simp]: "length kBrotliDictionary_51 = 384"
  by (simp add: kBrotliDictionary_51_def)

definition kBrotliDictionary :: "u8 list" where
  "kBrotliDictionary =
     kBrotliDictionary_0 @ kBrotliDictionary_1 @ kBrotliDictionary_2 @ kBrotliDictionary_3 @
     kBrotliDictionary_4 @ kBrotliDictionary_5 @ kBrotliDictionary_6 @ kBrotliDictionary_7 @
     kBrotliDictionary_8 @ kBrotliDictionary_9 @ kBrotliDictionary_10 @ kBrotliDictionary_11 @
     kBrotliDictionary_12 @ kBrotliDictionary_13 @ kBrotliDictionary_14 @ kBrotliDictionary_15 @
     kBrotliDictionary_16 @ kBrotliDictionary_17 @ kBrotliDictionary_18 @ kBrotliDictionary_19 @
     kBrotliDictionary_20 @ kBrotliDictionary_21 @ kBrotliDictionary_22 @ kBrotliDictionary_23 @
     kBrotliDictionary_24 @ kBrotliDictionary_25 @ kBrotliDictionary_26 @ kBrotliDictionary_27 @
     kBrotliDictionary_28 @ kBrotliDictionary_29 @ kBrotliDictionary_30 @ kBrotliDictionary_31 @
     kBrotliDictionary_32 @ kBrotliDictionary_33 @ kBrotliDictionary_34 @ kBrotliDictionary_35 @
     kBrotliDictionary_36 @ kBrotliDictionary_37 @ kBrotliDictionary_38 @ kBrotliDictionary_39 @
     kBrotliDictionary_40 @ kBrotliDictionary_41 @ kBrotliDictionary_42 @ kBrotliDictionary_43 @
     kBrotliDictionary_44 @ kBrotliDictionary_45 @ kBrotliDictionary_46 @ kBrotliDictionary_47 @
     kBrotliDictionary_48 @ kBrotliDictionary_49 @ kBrotliDictionary_50 @ kBrotliDictionary_51"

lemma length_kBrotliDictionary: "length kBrotliDictionary = 122784"
  by (simp add: kBrotliDictionary_def)

end
