(* ===== verification/Prefix_Codes.thy ===== *)
theory Prefix_Codes
  imports Bit_Stream
begin

text \<open>
  The constant tables of \<open>src/prefix.rs\<close>: the ranges of the 26 block-length codes and the 704
  insert-and-copy commands, copied entry by entry, and what the command decoder relies on.
  The command table is written in its eleven cells of 64 codes, each in four blocks of 16 entries.
\<close>

text \<open>The structs \<open>PrefixCodeRange\<close> and \<open>CmdLutElement\<close>; the field \<open>distance_code\<close> is an \<open>i8\<close>.\<close>

datatype PrefixCodeRange = PrefixCodeRange (pc_offset: u16) (pc_nbits: u8)

datatype CmdLutElement =
  CmdLutElement (cl_insert_len_extra_bits: u8) (cl_copy_len_extra_bits: u8)
    (cl_distance_code: int) (cl_context: u8) (cl_insert_len_offset: u16) (cl_copy_len_offset: u16)

definition kBlockLengthPrefixCode :: "PrefixCodeRange list" where
  "kBlockLengthPrefixCode = [
     PrefixCodeRange 1 2, PrefixCodeRange 5 2, PrefixCodeRange 9 2, PrefixCodeRange 13 2,
     PrefixCodeRange 17 3, PrefixCodeRange 25 3, PrefixCodeRange 33 3, PrefixCodeRange 41 3,
     PrefixCodeRange 49 4, PrefixCodeRange 65 4, PrefixCodeRange 81 4, PrefixCodeRange 97 4,
     PrefixCodeRange 113 5, PrefixCodeRange 145 5, PrefixCodeRange 177 5, PrefixCodeRange 209 5,
     PrefixCodeRange 241 6, PrefixCodeRange 305 6, PrefixCodeRange 369 7, PrefixCodeRange 497 8,
     PrefixCodeRange 753 9, PrefixCodeRange 1265 10, PrefixCodeRange 2289 11, PrefixCodeRange 4337 12,
     PrefixCodeRange 8433 13, PrefixCodeRange 16625 24]"

definition kCmdLut_0_0 :: "CmdLutElement list" where
  "kCmdLut_0_0 = [
     CmdLutElement 0 0 0 0 0 2, CmdLutElement 0 0 0 1 0 3, CmdLutElement 0 0 0 2 0 4,
     CmdLutElement 0 0 0 3 0 5, CmdLutElement 0 0 0 3 0 6, CmdLutElement 0 0 0 3 0 7,
     CmdLutElement 0 0 0 3 0 8, CmdLutElement 0 0 0 3 0 9, CmdLutElement 0 0 0 0 1 2,
     CmdLutElement 0 0 0 1 1 3, CmdLutElement 0 0 0 2 1 4, CmdLutElement 0 0 0 3 1 5,
     CmdLutElement 0 0 0 3 1 6, CmdLutElement 0 0 0 3 1 7, CmdLutElement 0 0 0 3 1 8,
     CmdLutElement 0 0 0 3 1 9]"

definition kCmdLut_0_1 :: "CmdLutElement list" where
  "kCmdLut_0_1 = [
     CmdLutElement 0 0 0 0 2 2, CmdLutElement 0 0 0 1 2 3, CmdLutElement 0 0 0 2 2 4,
     CmdLutElement 0 0 0 3 2 5, CmdLutElement 0 0 0 3 2 6, CmdLutElement 0 0 0 3 2 7,
     CmdLutElement 0 0 0 3 2 8, CmdLutElement 0 0 0 3 2 9, CmdLutElement 0 0 0 0 3 2,
     CmdLutElement 0 0 0 1 3 3, CmdLutElement 0 0 0 2 3 4, CmdLutElement 0 0 0 3 3 5,
     CmdLutElement 0 0 0 3 3 6, CmdLutElement 0 0 0 3 3 7, CmdLutElement 0 0 0 3 3 8,
     CmdLutElement 0 0 0 3 3 9]"

definition kCmdLut_0_2 :: "CmdLutElement list" where
  "kCmdLut_0_2 = [
     CmdLutElement 0 0 0 0 4 2, CmdLutElement 0 0 0 1 4 3, CmdLutElement 0 0 0 2 4 4,
     CmdLutElement 0 0 0 3 4 5, CmdLutElement 0 0 0 3 4 6, CmdLutElement 0 0 0 3 4 7,
     CmdLutElement 0 0 0 3 4 8, CmdLutElement 0 0 0 3 4 9, CmdLutElement 0 0 0 0 5 2,
     CmdLutElement 0 0 0 1 5 3, CmdLutElement 0 0 0 2 5 4, CmdLutElement 0 0 0 3 5 5,
     CmdLutElement 0 0 0 3 5 6, CmdLutElement 0 0 0 3 5 7, CmdLutElement 0 0 0 3 5 8,
     CmdLutElement 0 0 0 3 5 9]"

definition kCmdLut_0_3 :: "CmdLutElement list" where
  "kCmdLut_0_3 = [
     CmdLutElement 1 0 0 0 6 2, CmdLutElement 1 0 0 1 6 3, CmdLutElement 1 0 0 2 6 4,
     CmdLutElement 1 0 0 3 6 5, CmdLutElement 1 0 0 3 6 6, CmdLutElement 1 0 0 3 6 7,
     CmdLutElement 1 0 0 3 6 8, CmdLutElement 1 0 0 3 6 9, CmdLutElement 1 0 0 0 8 2,
     CmdLutElement 1 0 0 1 8 3, CmdLutElement 1 0 0 2 8 4, CmdLutElement 1 0 0 3 8 5,
     CmdLutElement 1 0 0 3 8 6, CmdLutElement 1 0 0 3 8 7, CmdLutElement 1 0 0 3 8 8,
     CmdLutElement 1 0 0 3 8 9]"

definition kCmdLut_0 :: "CmdLutElement list" where
  "kCmdLut_0 = kCmdLut_0_0 @ kCmdLut_0_1 @ kCmdLut_0_2 @ kCmdLut_0_3"

definition kCmdLut_1_0 :: "CmdLutElement list" where
  "kCmdLut_1_0 = [
     CmdLutElement 0 1 0 3 0 10, CmdLutElement 0 1 0 3 0 12, CmdLutElement 0 2 0 3 0 14,
     CmdLutElement 0 2 0 3 0 18, CmdLutElement 0 3 0 3 0 22, CmdLutElement 0 3 0 3 0 30,
     CmdLutElement 0 4 0 3 0 38, CmdLutElement 0 4 0 3 0 54, CmdLutElement 0 1 0 3 1 10,
     CmdLutElement 0 1 0 3 1 12, CmdLutElement 0 2 0 3 1 14, CmdLutElement 0 2 0 3 1 18,
     CmdLutElement 0 3 0 3 1 22, CmdLutElement 0 3 0 3 1 30, CmdLutElement 0 4 0 3 1 38,
     CmdLutElement 0 4 0 3 1 54]"

definition kCmdLut_1_1 :: "CmdLutElement list" where
  "kCmdLut_1_1 = [
     CmdLutElement 0 1 0 3 2 10, CmdLutElement 0 1 0 3 2 12, CmdLutElement 0 2 0 3 2 14,
     CmdLutElement 0 2 0 3 2 18, CmdLutElement 0 3 0 3 2 22, CmdLutElement 0 3 0 3 2 30,
     CmdLutElement 0 4 0 3 2 38, CmdLutElement 0 4 0 3 2 54, CmdLutElement 0 1 0 3 3 10,
     CmdLutElement 0 1 0 3 3 12, CmdLutElement 0 2 0 3 3 14, CmdLutElement 0 2 0 3 3 18,
     CmdLutElement 0 3 0 3 3 22, CmdLutElement 0 3 0 3 3 30, CmdLutElement 0 4 0 3 3 38,
     CmdLutElement 0 4 0 3 3 54]"

definition kCmdLut_1_2 :: "CmdLutElement list" where
  "kCmdLut_1_2 = [
     CmdLutElement 0 1 0 3 4 10, CmdLutElement 0 1 0 3 4 12, CmdLutElement 0 2 0 3 4 14,
     CmdLutElement 0 2 0 3 4 18, CmdLutElement 0 3 0 3 4 22, CmdLutElement 0 3 0 3 4 30,
     CmdLutElement 0 4 0 3 4 38, CmdLutElement 0 4 0 3 4 54, CmdLutElement 0 1 0 3 5 10,
     CmdLutElement 0 1 0 3 5 12, CmdLutElement 0 2 0 3 5 14, CmdLutElement 0 2 0 3 5 18,
     CmdLutElement 0 3 0 3 5 22, CmdLutElement 0 3 0 3 5 30, CmdLutElement 0 4 0 3 5 38,
     CmdLutElement 0 4 0 3 5 54]"

definition kCmdLut_1_3 :: "CmdLutElement list" where
  "kCmdLut_1_3 = [
     CmdLutElement 1 1 0 3 6 10, CmdLutElement 1 1 0 3 6 12, CmdLutElement 1 2 0 3 6 14,
     CmdLutElement 1 2 0 3 6 18, CmdLutElement 1 3 0 3 6 22, CmdLutElement 1 3 0 3 6 30,
     CmdLutElement 1 4 0 3 6 38, CmdLutElement 1 4 0 3 6 54, CmdLutElement 1 1 0 3 8 10,
     CmdLutElement 1 1 0 3 8 12, CmdLutElement 1 2 0 3 8 14, CmdLutElement 1 2 0 3 8 18,
     CmdLutElement 1 3 0 3 8 22, CmdLutElement 1 3 0 3 8 30, CmdLutElement 1 4 0 3 8 38,
     CmdLutElement 1 4 0 3 8 54]"

definition kCmdLut_1 :: "CmdLutElement list" where
  "kCmdLut_1 = kCmdLut_1_0 @ kCmdLut_1_1 @ kCmdLut_1_2 @ kCmdLut_1_3"

definition kCmdLut_2_0 :: "CmdLutElement list" where
  "kCmdLut_2_0 = [
     CmdLutElement 0 0 (-1) 0 0 2, CmdLutElement 0 0 (-1) 1 0 3, CmdLutElement 0 0 (-1) 2 0 4,
     CmdLutElement 0 0 (-1) 3 0 5, CmdLutElement 0 0 (-1) 3 0 6, CmdLutElement 0 0 (-1) 3 0 7,
     CmdLutElement 0 0 (-1) 3 0 8, CmdLutElement 0 0 (-1) 3 0 9, CmdLutElement 0 0 (-1) 0 1 2,
     CmdLutElement 0 0 (-1) 1 1 3, CmdLutElement 0 0 (-1) 2 1 4, CmdLutElement 0 0 (-1) 3 1 5,
     CmdLutElement 0 0 (-1) 3 1 6, CmdLutElement 0 0 (-1) 3 1 7, CmdLutElement 0 0 (-1) 3 1 8,
     CmdLutElement 0 0 (-1) 3 1 9]"

definition kCmdLut_2_1 :: "CmdLutElement list" where
  "kCmdLut_2_1 = [
     CmdLutElement 0 0 (-1) 0 2 2, CmdLutElement 0 0 (-1) 1 2 3, CmdLutElement 0 0 (-1) 2 2 4,
     CmdLutElement 0 0 (-1) 3 2 5, CmdLutElement 0 0 (-1) 3 2 6, CmdLutElement 0 0 (-1) 3 2 7,
     CmdLutElement 0 0 (-1) 3 2 8, CmdLutElement 0 0 (-1) 3 2 9, CmdLutElement 0 0 (-1) 0 3 2,
     CmdLutElement 0 0 (-1) 1 3 3, CmdLutElement 0 0 (-1) 2 3 4, CmdLutElement 0 0 (-1) 3 3 5,
     CmdLutElement 0 0 (-1) 3 3 6, CmdLutElement 0 0 (-1) 3 3 7, CmdLutElement 0 0 (-1) 3 3 8,
     CmdLutElement 0 0 (-1) 3 3 9]"

definition kCmdLut_2_2 :: "CmdLutElement list" where
  "kCmdLut_2_2 = [
     CmdLutElement 0 0 (-1) 0 4 2, CmdLutElement 0 0 (-1) 1 4 3, CmdLutElement 0 0 (-1) 2 4 4,
     CmdLutElement 0 0 (-1) 3 4 5, CmdLutElement 0 0 (-1) 3 4 6, CmdLutElement 0 0 (-1) 3 4 7,
     CmdLutElement 0 0 (-1) 3 4 8, CmdLutElement 0 0 (-1) 3 4 9, CmdLutElement 0 0 (-1) 0 5 2,
     CmdLutElement 0 0 (-1) 1 5 3, CmdLutElement 0 0 (-1) 2 5 4, CmdLutElement 0 0 (-1) 3 5 5,
     CmdLutElement 0 0 (-1) 3 5 6, CmdLutElement 0 0 (-1) 3 5 7, CmdLutElement 0 0 (-1) 3 5 8,
     CmdLutElement 0 0 (-1) 3 5 9]"

definition kCmdLut_2_3 :: "CmdLutElement list" where
  "kCmdLut_2_3 = [
     CmdLutElement 1 0 (-1) 0 6 2, CmdLutElement 1 0 (-1) 1 6 3, CmdLutElement 1 0 (-1) 2 6 4,
     CmdLutElement 1 0 (-1) 3 6 5, CmdLutElement 1 0 (-1) 3 6 6, CmdLutElement 1 0 (-1) 3 6 7,
     CmdLutElement 1 0 (-1) 3 6 8, CmdLutElement 1 0 (-1) 3 6 9, CmdLutElement 1 0 (-1) 0 8 2,
     CmdLutElement 1 0 (-1) 1 8 3, CmdLutElement 1 0 (-1) 2 8 4, CmdLutElement 1 0 (-1) 3 8 5,
     CmdLutElement 1 0 (-1) 3 8 6, CmdLutElement 1 0 (-1) 3 8 7, CmdLutElement 1 0 (-1) 3 8 8,
     CmdLutElement 1 0 (-1) 3 8 9]"

definition kCmdLut_2 :: "CmdLutElement list" where
  "kCmdLut_2 = kCmdLut_2_0 @ kCmdLut_2_1 @ kCmdLut_2_2 @ kCmdLut_2_3"

definition kCmdLut_3_0 :: "CmdLutElement list" where
  "kCmdLut_3_0 = [
     CmdLutElement 0 1 (-1) 3 0 10, CmdLutElement 0 1 (-1) 3 0 12, CmdLutElement 0 2 (-1) 3 0 14,
     CmdLutElement 0 2 (-1) 3 0 18, CmdLutElement 0 3 (-1) 3 0 22, CmdLutElement 0 3 (-1) 3 0 30,
     CmdLutElement 0 4 (-1) 3 0 38, CmdLutElement 0 4 (-1) 3 0 54, CmdLutElement 0 1 (-1) 3 1 10,
     CmdLutElement 0 1 (-1) 3 1 12, CmdLutElement 0 2 (-1) 3 1 14, CmdLutElement 0 2 (-1) 3 1 18,
     CmdLutElement 0 3 (-1) 3 1 22, CmdLutElement 0 3 (-1) 3 1 30, CmdLutElement 0 4 (-1) 3 1 38,
     CmdLutElement 0 4 (-1) 3 1 54]"

definition kCmdLut_3_1 :: "CmdLutElement list" where
  "kCmdLut_3_1 = [
     CmdLutElement 0 1 (-1) 3 2 10, CmdLutElement 0 1 (-1) 3 2 12, CmdLutElement 0 2 (-1) 3 2 14,
     CmdLutElement 0 2 (-1) 3 2 18, CmdLutElement 0 3 (-1) 3 2 22, CmdLutElement 0 3 (-1) 3 2 30,
     CmdLutElement 0 4 (-1) 3 2 38, CmdLutElement 0 4 (-1) 3 2 54, CmdLutElement 0 1 (-1) 3 3 10,
     CmdLutElement 0 1 (-1) 3 3 12, CmdLutElement 0 2 (-1) 3 3 14, CmdLutElement 0 2 (-1) 3 3 18,
     CmdLutElement 0 3 (-1) 3 3 22, CmdLutElement 0 3 (-1) 3 3 30, CmdLutElement 0 4 (-1) 3 3 38,
     CmdLutElement 0 4 (-1) 3 3 54]"

definition kCmdLut_3_2 :: "CmdLutElement list" where
  "kCmdLut_3_2 = [
     CmdLutElement 0 1 (-1) 3 4 10, CmdLutElement 0 1 (-1) 3 4 12, CmdLutElement 0 2 (-1) 3 4 14,
     CmdLutElement 0 2 (-1) 3 4 18, CmdLutElement 0 3 (-1) 3 4 22, CmdLutElement 0 3 (-1) 3 4 30,
     CmdLutElement 0 4 (-1) 3 4 38, CmdLutElement 0 4 (-1) 3 4 54, CmdLutElement 0 1 (-1) 3 5 10,
     CmdLutElement 0 1 (-1) 3 5 12, CmdLutElement 0 2 (-1) 3 5 14, CmdLutElement 0 2 (-1) 3 5 18,
     CmdLutElement 0 3 (-1) 3 5 22, CmdLutElement 0 3 (-1) 3 5 30, CmdLutElement 0 4 (-1) 3 5 38,
     CmdLutElement 0 4 (-1) 3 5 54]"

definition kCmdLut_3_3 :: "CmdLutElement list" where
  "kCmdLut_3_3 = [
     CmdLutElement 1 1 (-1) 3 6 10, CmdLutElement 1 1 (-1) 3 6 12, CmdLutElement 1 2 (-1) 3 6 14,
     CmdLutElement 1 2 (-1) 3 6 18, CmdLutElement 1 3 (-1) 3 6 22, CmdLutElement 1 3 (-1) 3 6 30,
     CmdLutElement 1 4 (-1) 3 6 38, CmdLutElement 1 4 (-1) 3 6 54, CmdLutElement 1 1 (-1) 3 8 10,
     CmdLutElement 1 1 (-1) 3 8 12, CmdLutElement 1 2 (-1) 3 8 14, CmdLutElement 1 2 (-1) 3 8 18,
     CmdLutElement 1 3 (-1) 3 8 22, CmdLutElement 1 3 (-1) 3 8 30, CmdLutElement 1 4 (-1) 3 8 38,
     CmdLutElement 1 4 (-1) 3 8 54]"

definition kCmdLut_3 :: "CmdLutElement list" where
  "kCmdLut_3 = kCmdLut_3_0 @ kCmdLut_3_1 @ kCmdLut_3_2 @ kCmdLut_3_3"

definition kCmdLut_4_0 :: "CmdLutElement list" where
  "kCmdLut_4_0 = [
     CmdLutElement 2 0 (-1) 0 10 2, CmdLutElement 2 0 (-1) 1 10 3, CmdLutElement 2 0 (-1) 2 10 4,
     CmdLutElement 2 0 (-1) 3 10 5, CmdLutElement 2 0 (-1) 3 10 6, CmdLutElement 2 0 (-1) 3 10 7,
     CmdLutElement 2 0 (-1) 3 10 8, CmdLutElement 2 0 (-1) 3 10 9, CmdLutElement 2 0 (-1) 0 14 2,
     CmdLutElement 2 0 (-1) 1 14 3, CmdLutElement 2 0 (-1) 2 14 4, CmdLutElement 2 0 (-1) 3 14 5,
     CmdLutElement 2 0 (-1) 3 14 6, CmdLutElement 2 0 (-1) 3 14 7, CmdLutElement 2 0 (-1) 3 14 8,
     CmdLutElement 2 0 (-1) 3 14 9]"

definition kCmdLut_4_1 :: "CmdLutElement list" where
  "kCmdLut_4_1 = [
     CmdLutElement 3 0 (-1) 0 18 2, CmdLutElement 3 0 (-1) 1 18 3, CmdLutElement 3 0 (-1) 2 18 4,
     CmdLutElement 3 0 (-1) 3 18 5, CmdLutElement 3 0 (-1) 3 18 6, CmdLutElement 3 0 (-1) 3 18 7,
     CmdLutElement 3 0 (-1) 3 18 8, CmdLutElement 3 0 (-1) 3 18 9, CmdLutElement 3 0 (-1) 0 26 2,
     CmdLutElement 3 0 (-1) 1 26 3, CmdLutElement 3 0 (-1) 2 26 4, CmdLutElement 3 0 (-1) 3 26 5,
     CmdLutElement 3 0 (-1) 3 26 6, CmdLutElement 3 0 (-1) 3 26 7, CmdLutElement 3 0 (-1) 3 26 8,
     CmdLutElement 3 0 (-1) 3 26 9]"

definition kCmdLut_4_2 :: "CmdLutElement list" where
  "kCmdLut_4_2 = [
     CmdLutElement 4 0 (-1) 0 34 2, CmdLutElement 4 0 (-1) 1 34 3, CmdLutElement 4 0 (-1) 2 34 4,
     CmdLutElement 4 0 (-1) 3 34 5, CmdLutElement 4 0 (-1) 3 34 6, CmdLutElement 4 0 (-1) 3 34 7,
     CmdLutElement 4 0 (-1) 3 34 8, CmdLutElement 4 0 (-1) 3 34 9, CmdLutElement 4 0 (-1) 0 50 2,
     CmdLutElement 4 0 (-1) 1 50 3, CmdLutElement 4 0 (-1) 2 50 4, CmdLutElement 4 0 (-1) 3 50 5,
     CmdLutElement 4 0 (-1) 3 50 6, CmdLutElement 4 0 (-1) 3 50 7, CmdLutElement 4 0 (-1) 3 50 8,
     CmdLutElement 4 0 (-1) 3 50 9]"

definition kCmdLut_4_3 :: "CmdLutElement list" where
  "kCmdLut_4_3 = [
     CmdLutElement 5 0 (-1) 0 66 2, CmdLutElement 5 0 (-1) 1 66 3, CmdLutElement 5 0 (-1) 2 66 4,
     CmdLutElement 5 0 (-1) 3 66 5, CmdLutElement 5 0 (-1) 3 66 6, CmdLutElement 5 0 (-1) 3 66 7,
     CmdLutElement 5 0 (-1) 3 66 8, CmdLutElement 5 0 (-1) 3 66 9, CmdLutElement 5 0 (-1) 0 98 2,
     CmdLutElement 5 0 (-1) 1 98 3, CmdLutElement 5 0 (-1) 2 98 4, CmdLutElement 5 0 (-1) 3 98 5,
     CmdLutElement 5 0 (-1) 3 98 6, CmdLutElement 5 0 (-1) 3 98 7, CmdLutElement 5 0 (-1) 3 98 8,
     CmdLutElement 5 0 (-1) 3 98 9]"

definition kCmdLut_4 :: "CmdLutElement list" where
  "kCmdLut_4 = kCmdLut_4_0 @ kCmdLut_4_1 @ kCmdLut_4_2 @ kCmdLut_4_3"

definition kCmdLut_5_0 :: "CmdLutElement list" where
  "kCmdLut_5_0 = [
     CmdLutElement 2 1 (-1) 3 10 10, CmdLutElement 2 1 (-1) 3 10 12, CmdLutElement 2 2 (-1) 3 10 14,
     CmdLutElement 2 2 (-1) 3 10 18, CmdLutElement 2 3 (-1) 3 10 22, CmdLutElement 2 3 (-1) 3 10 30,
     CmdLutElement 2 4 (-1) 3 10 38, CmdLutElement 2 4 (-1) 3 10 54, CmdLutElement 2 1 (-1) 3 14 10,
     CmdLutElement 2 1 (-1) 3 14 12, CmdLutElement 2 2 (-1) 3 14 14, CmdLutElement 2 2 (-1) 3 14 18,
     CmdLutElement 2 3 (-1) 3 14 22, CmdLutElement 2 3 (-1) 3 14 30, CmdLutElement 2 4 (-1) 3 14 38,
     CmdLutElement 2 4 (-1) 3 14 54]"

definition kCmdLut_5_1 :: "CmdLutElement list" where
  "kCmdLut_5_1 = [
     CmdLutElement 3 1 (-1) 3 18 10, CmdLutElement 3 1 (-1) 3 18 12, CmdLutElement 3 2 (-1) 3 18 14,
     CmdLutElement 3 2 (-1) 3 18 18, CmdLutElement 3 3 (-1) 3 18 22, CmdLutElement 3 3 (-1) 3 18 30,
     CmdLutElement 3 4 (-1) 3 18 38, CmdLutElement 3 4 (-1) 3 18 54, CmdLutElement 3 1 (-1) 3 26 10,
     CmdLutElement 3 1 (-1) 3 26 12, CmdLutElement 3 2 (-1) 3 26 14, CmdLutElement 3 2 (-1) 3 26 18,
     CmdLutElement 3 3 (-1) 3 26 22, CmdLutElement 3 3 (-1) 3 26 30, CmdLutElement 3 4 (-1) 3 26 38,
     CmdLutElement 3 4 (-1) 3 26 54]"

definition kCmdLut_5_2 :: "CmdLutElement list" where
  "kCmdLut_5_2 = [
     CmdLutElement 4 1 (-1) 3 34 10, CmdLutElement 4 1 (-1) 3 34 12, CmdLutElement 4 2 (-1) 3 34 14,
     CmdLutElement 4 2 (-1) 3 34 18, CmdLutElement 4 3 (-1) 3 34 22, CmdLutElement 4 3 (-1) 3 34 30,
     CmdLutElement 4 4 (-1) 3 34 38, CmdLutElement 4 4 (-1) 3 34 54, CmdLutElement 4 1 (-1) 3 50 10,
     CmdLutElement 4 1 (-1) 3 50 12, CmdLutElement 4 2 (-1) 3 50 14, CmdLutElement 4 2 (-1) 3 50 18,
     CmdLutElement 4 3 (-1) 3 50 22, CmdLutElement 4 3 (-1) 3 50 30, CmdLutElement 4 4 (-1) 3 50 38,
     CmdLutElement 4 4 (-1) 3 50 54]"

definition kCmdLut_5_3 :: "CmdLutElement list" where
  "kCmdLut_5_3 = [
     CmdLutElement 5 1 (-1) 3 66 10, CmdLutElement 5 1 (-1) 3 66 12, CmdLutElement 5 2 (-1) 3 66 14,
     CmdLutElement 5 2 (-1) 3 66 18, CmdLutElement 5 3 (-1) 3 66 22, CmdLutElement 5 3 (-1) 3 66 30,
     CmdLutElement 5 4 (-1) 3 66 38, CmdLutElement 5 4 (-1) 3 66 54, CmdLutElement 5 1 (-1) 3 98 10,
     CmdLutElement 5 1 (-1) 3 98 12, CmdLutElement 5 2 (-1) 3 98 14, CmdLutElement 5 2 (-1) 3 98 18,
     CmdLutElement 5 3 (-1) 3 98 22, CmdLutElement 5 3 (-1) 3 98 30, CmdLutElement 5 4 (-1) 3 98 38,
     CmdLutElement 5 4 (-1) 3 98 54]"

definition kCmdLut_5 :: "CmdLutElement list" where
  "kCmdLut_5 = kCmdLut_5_0 @ kCmdLut_5_1 @ kCmdLut_5_2 @ kCmdLut_5_3"

definition kCmdLut_6_0 :: "CmdLutElement list" where
  "kCmdLut_6_0 = [
     CmdLutElement 0 5 (-1) 3 0 70, CmdLutElement 0 5 (-1) 3 0 102, CmdLutElement 0 6 (-1) 3 0 134,
     CmdLutElement 0 7 (-1) 3 0 198, CmdLutElement 0 8 (-1) 3 0 326, CmdLutElement 0 9 (-1) 3 0 582,
     CmdLutElement 0 10 (-1) 3 0 1094, CmdLutElement 0 24 (-1) 3 0 2118, CmdLutElement 0 5 (-1) 3 1 70,
     CmdLutElement 0 5 (-1) 3 1 102, CmdLutElement 0 6 (-1) 3 1 134, CmdLutElement 0 7 (-1) 3 1 198,
     CmdLutElement 0 8 (-1) 3 1 326, CmdLutElement 0 9 (-1) 3 1 582, CmdLutElement 0 10 (-1) 3 1 1094,
     CmdLutElement 0 24 (-1) 3 1 2118]"

definition kCmdLut_6_1 :: "CmdLutElement list" where
  "kCmdLut_6_1 = [
     CmdLutElement 0 5 (-1) 3 2 70, CmdLutElement 0 5 (-1) 3 2 102, CmdLutElement 0 6 (-1) 3 2 134,
     CmdLutElement 0 7 (-1) 3 2 198, CmdLutElement 0 8 (-1) 3 2 326, CmdLutElement 0 9 (-1) 3 2 582,
     CmdLutElement 0 10 (-1) 3 2 1094, CmdLutElement 0 24 (-1) 3 2 2118, CmdLutElement 0 5 (-1) 3 3 70,
     CmdLutElement 0 5 (-1) 3 3 102, CmdLutElement 0 6 (-1) 3 3 134, CmdLutElement 0 7 (-1) 3 3 198,
     CmdLutElement 0 8 (-1) 3 3 326, CmdLutElement 0 9 (-1) 3 3 582, CmdLutElement 0 10 (-1) 3 3 1094,
     CmdLutElement 0 24 (-1) 3 3 2118]"

definition kCmdLut_6_2 :: "CmdLutElement list" where
  "kCmdLut_6_2 = [
     CmdLutElement 0 5 (-1) 3 4 70, CmdLutElement 0 5 (-1) 3 4 102, CmdLutElement 0 6 (-1) 3 4 134,
     CmdLutElement 0 7 (-1) 3 4 198, CmdLutElement 0 8 (-1) 3 4 326, CmdLutElement 0 9 (-1) 3 4 582,
     CmdLutElement 0 10 (-1) 3 4 1094, CmdLutElement 0 24 (-1) 3 4 2118, CmdLutElement 0 5 (-1) 3 5 70,
     CmdLutElement 0 5 (-1) 3 5 102, CmdLutElement 0 6 (-1) 3 5 134, CmdLutElement 0 7 (-1) 3 5 198,
     CmdLutElement 0 8 (-1) 3 5 326, CmdLutElement 0 9 (-1) 3 5 582, CmdLutElement 0 10 (-1) 3 5 1094,
     CmdLutElement 0 24 (-1) 3 5 2118]"

definition kCmdLut_6_3 :: "CmdLutElement list" where
  "kCmdLut_6_3 = [
     CmdLutElement 1 5 (-1) 3 6 70, CmdLutElement 1 5 (-1) 3 6 102, CmdLutElement 1 6 (-1) 3 6 134,
     CmdLutElement 1 7 (-1) 3 6 198, CmdLutElement 1 8 (-1) 3 6 326, CmdLutElement 1 9 (-1) 3 6 582,
     CmdLutElement 1 10 (-1) 3 6 1094, CmdLutElement 1 24 (-1) 3 6 2118, CmdLutElement 1 5 (-1) 3 8 70,
     CmdLutElement 1 5 (-1) 3 8 102, CmdLutElement 1 6 (-1) 3 8 134, CmdLutElement 1 7 (-1) 3 8 198,
     CmdLutElement 1 8 (-1) 3 8 326, CmdLutElement 1 9 (-1) 3 8 582, CmdLutElement 1 10 (-1) 3 8 1094,
     CmdLutElement 1 24 (-1) 3 8 2118]"

definition kCmdLut_6 :: "CmdLutElement list" where
  "kCmdLut_6 = kCmdLut_6_0 @ kCmdLut_6_1 @ kCmdLut_6_2 @ kCmdLut_6_3"

definition kCmdLut_7_0 :: "CmdLutElement list" where
  "kCmdLut_7_0 = [
     CmdLutElement 6 0 (-1) 0 130 2, CmdLutElement 6 0 (-1) 1 130 3, CmdLutElement 6 0 (-1) 2 130 4,
     CmdLutElement 6 0 (-1) 3 130 5, CmdLutElement 6 0 (-1) 3 130 6, CmdLutElement 6 0 (-1) 3 130 7,
     CmdLutElement 6 0 (-1) 3 130 8, CmdLutElement 6 0 (-1) 3 130 9, CmdLutElement 7 0 (-1) 0 194 2,
     CmdLutElement 7 0 (-1) 1 194 3, CmdLutElement 7 0 (-1) 2 194 4, CmdLutElement 7 0 (-1) 3 194 5,
     CmdLutElement 7 0 (-1) 3 194 6, CmdLutElement 7 0 (-1) 3 194 7, CmdLutElement 7 0 (-1) 3 194 8,
     CmdLutElement 7 0 (-1) 3 194 9]"

definition kCmdLut_7_1 :: "CmdLutElement list" where
  "kCmdLut_7_1 = [
     CmdLutElement 8 0 (-1) 0 322 2, CmdLutElement 8 0 (-1) 1 322 3, CmdLutElement 8 0 (-1) 2 322 4,
     CmdLutElement 8 0 (-1) 3 322 5, CmdLutElement 8 0 (-1) 3 322 6, CmdLutElement 8 0 (-1) 3 322 7,
     CmdLutElement 8 0 (-1) 3 322 8, CmdLutElement 8 0 (-1) 3 322 9, CmdLutElement 9 0 (-1) 0 578 2,
     CmdLutElement 9 0 (-1) 1 578 3, CmdLutElement 9 0 (-1) 2 578 4, CmdLutElement 9 0 (-1) 3 578 5,
     CmdLutElement 9 0 (-1) 3 578 6, CmdLutElement 9 0 (-1) 3 578 7, CmdLutElement 9 0 (-1) 3 578 8,
     CmdLutElement 9 0 (-1) 3 578 9]"

definition kCmdLut_7_2 :: "CmdLutElement list" where
  "kCmdLut_7_2 = [
     CmdLutElement 10 0 (-1) 0 1090 2, CmdLutElement 10 0 (-1) 1 1090 3, CmdLutElement 10 0 (-1) 2 1090 4,
     CmdLutElement 10 0 (-1) 3 1090 5, CmdLutElement 10 0 (-1) 3 1090 6, CmdLutElement 10 0 (-1) 3 1090 7,
     CmdLutElement 10 0 (-1) 3 1090 8, CmdLutElement 10 0 (-1) 3 1090 9, CmdLutElement 12 0 (-1) 0 2114 2,
     CmdLutElement 12 0 (-1) 1 2114 3, CmdLutElement 12 0 (-1) 2 2114 4, CmdLutElement 12 0 (-1) 3 2114 5,
     CmdLutElement 12 0 (-1) 3 2114 6, CmdLutElement 12 0 (-1) 3 2114 7, CmdLutElement 12 0 (-1) 3 2114 8,
     CmdLutElement 12 0 (-1) 3 2114 9]"

definition kCmdLut_7_3 :: "CmdLutElement list" where
  "kCmdLut_7_3 = [
     CmdLutElement 14 0 (-1) 0 6210 2, CmdLutElement 14 0 (-1) 1 6210 3, CmdLutElement 14 0 (-1) 2 6210 4,
     CmdLutElement 14 0 (-1) 3 6210 5, CmdLutElement 14 0 (-1) 3 6210 6, CmdLutElement 14 0 (-1) 3 6210 7,
     CmdLutElement 14 0 (-1) 3 6210 8, CmdLutElement 14 0 (-1) 3 6210 9, CmdLutElement 24 0 (-1) 0 22594 2,
     CmdLutElement 24 0 (-1) 1 22594 3, CmdLutElement 24 0 (-1) 2 22594 4, CmdLutElement 24 0 (-1) 3 22594 5,
     CmdLutElement 24 0 (-1) 3 22594 6, CmdLutElement 24 0 (-1) 3 22594 7, CmdLutElement 24 0 (-1) 3 22594 8,
     CmdLutElement 24 0 (-1) 3 22594 9]"

definition kCmdLut_7 :: "CmdLutElement list" where
  "kCmdLut_7 = kCmdLut_7_0 @ kCmdLut_7_1 @ kCmdLut_7_2 @ kCmdLut_7_3"

definition kCmdLut_8_0 :: "CmdLutElement list" where
  "kCmdLut_8_0 = [
     CmdLutElement 2 5 (-1) 3 10 70, CmdLutElement 2 5 (-1) 3 10 102, CmdLutElement 2 6 (-1) 3 10 134,
     CmdLutElement 2 7 (-1) 3 10 198, CmdLutElement 2 8 (-1) 3 10 326, CmdLutElement 2 9 (-1) 3 10 582,
     CmdLutElement 2 10 (-1) 3 10 1094, CmdLutElement 2 24 (-1) 3 10 2118, CmdLutElement 2 5 (-1) 3 14 70,
     CmdLutElement 2 5 (-1) 3 14 102, CmdLutElement 2 6 (-1) 3 14 134, CmdLutElement 2 7 (-1) 3 14 198,
     CmdLutElement 2 8 (-1) 3 14 326, CmdLutElement 2 9 (-1) 3 14 582, CmdLutElement 2 10 (-1) 3 14 1094,
     CmdLutElement 2 24 (-1) 3 14 2118]"

definition kCmdLut_8_1 :: "CmdLutElement list" where
  "kCmdLut_8_1 = [
     CmdLutElement 3 5 (-1) 3 18 70, CmdLutElement 3 5 (-1) 3 18 102, CmdLutElement 3 6 (-1) 3 18 134,
     CmdLutElement 3 7 (-1) 3 18 198, CmdLutElement 3 8 (-1) 3 18 326, CmdLutElement 3 9 (-1) 3 18 582,
     CmdLutElement 3 10 (-1) 3 18 1094, CmdLutElement 3 24 (-1) 3 18 2118, CmdLutElement 3 5 (-1) 3 26 70,
     CmdLutElement 3 5 (-1) 3 26 102, CmdLutElement 3 6 (-1) 3 26 134, CmdLutElement 3 7 (-1) 3 26 198,
     CmdLutElement 3 8 (-1) 3 26 326, CmdLutElement 3 9 (-1) 3 26 582, CmdLutElement 3 10 (-1) 3 26 1094,
     CmdLutElement 3 24 (-1) 3 26 2118]"

definition kCmdLut_8_2 :: "CmdLutElement list" where
  "kCmdLut_8_2 = [
     CmdLutElement 4 5 (-1) 3 34 70, CmdLutElement 4 5 (-1) 3 34 102, CmdLutElement 4 6 (-1) 3 34 134,
     CmdLutElement 4 7 (-1) 3 34 198, CmdLutElement 4 8 (-1) 3 34 326, CmdLutElement 4 9 (-1) 3 34 582,
     CmdLutElement 4 10 (-1) 3 34 1094, CmdLutElement 4 24 (-1) 3 34 2118, CmdLutElement 4 5 (-1) 3 50 70,
     CmdLutElement 4 5 (-1) 3 50 102, CmdLutElement 4 6 (-1) 3 50 134, CmdLutElement 4 7 (-1) 3 50 198,
     CmdLutElement 4 8 (-1) 3 50 326, CmdLutElement 4 9 (-1) 3 50 582, CmdLutElement 4 10 (-1) 3 50 1094,
     CmdLutElement 4 24 (-1) 3 50 2118]"

definition kCmdLut_8_3 :: "CmdLutElement list" where
  "kCmdLut_8_3 = [
     CmdLutElement 5 5 (-1) 3 66 70, CmdLutElement 5 5 (-1) 3 66 102, CmdLutElement 5 6 (-1) 3 66 134,
     CmdLutElement 5 7 (-1) 3 66 198, CmdLutElement 5 8 (-1) 3 66 326, CmdLutElement 5 9 (-1) 3 66 582,
     CmdLutElement 5 10 (-1) 3 66 1094, CmdLutElement 5 24 (-1) 3 66 2118, CmdLutElement 5 5 (-1) 3 98 70,
     CmdLutElement 5 5 (-1) 3 98 102, CmdLutElement 5 6 (-1) 3 98 134, CmdLutElement 5 7 (-1) 3 98 198,
     CmdLutElement 5 8 (-1) 3 98 326, CmdLutElement 5 9 (-1) 3 98 582, CmdLutElement 5 10 (-1) 3 98 1094,
     CmdLutElement 5 24 (-1) 3 98 2118]"

definition kCmdLut_8 :: "CmdLutElement list" where
  "kCmdLut_8 = kCmdLut_8_0 @ kCmdLut_8_1 @ kCmdLut_8_2 @ kCmdLut_8_3"

definition kCmdLut_9_0 :: "CmdLutElement list" where
  "kCmdLut_9_0 = [
     CmdLutElement 6 1 (-1) 3 130 10, CmdLutElement 6 1 (-1) 3 130 12, CmdLutElement 6 2 (-1) 3 130 14,
     CmdLutElement 6 2 (-1) 3 130 18, CmdLutElement 6 3 (-1) 3 130 22, CmdLutElement 6 3 (-1) 3 130 30,
     CmdLutElement 6 4 (-1) 3 130 38, CmdLutElement 6 4 (-1) 3 130 54, CmdLutElement 7 1 (-1) 3 194 10,
     CmdLutElement 7 1 (-1) 3 194 12, CmdLutElement 7 2 (-1) 3 194 14, CmdLutElement 7 2 (-1) 3 194 18,
     CmdLutElement 7 3 (-1) 3 194 22, CmdLutElement 7 3 (-1) 3 194 30, CmdLutElement 7 4 (-1) 3 194 38,
     CmdLutElement 7 4 (-1) 3 194 54]"

definition kCmdLut_9_1 :: "CmdLutElement list" where
  "kCmdLut_9_1 = [
     CmdLutElement 8 1 (-1) 3 322 10, CmdLutElement 8 1 (-1) 3 322 12, CmdLutElement 8 2 (-1) 3 322 14,
     CmdLutElement 8 2 (-1) 3 322 18, CmdLutElement 8 3 (-1) 3 322 22, CmdLutElement 8 3 (-1) 3 322 30,
     CmdLutElement 8 4 (-1) 3 322 38, CmdLutElement 8 4 (-1) 3 322 54, CmdLutElement 9 1 (-1) 3 578 10,
     CmdLutElement 9 1 (-1) 3 578 12, CmdLutElement 9 2 (-1) 3 578 14, CmdLutElement 9 2 (-1) 3 578 18,
     CmdLutElement 9 3 (-1) 3 578 22, CmdLutElement 9 3 (-1) 3 578 30, CmdLutElement 9 4 (-1) 3 578 38,
     CmdLutElement 9 4 (-1) 3 578 54]"

definition kCmdLut_9_2 :: "CmdLutElement list" where
  "kCmdLut_9_2 = [
     CmdLutElement 10 1 (-1) 3 1090 10, CmdLutElement 10 1 (-1) 3 1090 12, CmdLutElement 10 2 (-1) 3 1090 14,
     CmdLutElement 10 2 (-1) 3 1090 18, CmdLutElement 10 3 (-1) 3 1090 22, CmdLutElement 10 3 (-1) 3 1090 30,
     CmdLutElement 10 4 (-1) 3 1090 38, CmdLutElement 10 4 (-1) 3 1090 54, CmdLutElement 12 1 (-1) 3 2114 10,
     CmdLutElement 12 1 (-1) 3 2114 12, CmdLutElement 12 2 (-1) 3 2114 14, CmdLutElement 12 2 (-1) 3 2114 18,
     CmdLutElement 12 3 (-1) 3 2114 22, CmdLutElement 12 3 (-1) 3 2114 30, CmdLutElement 12 4 (-1) 3 2114 38,
     CmdLutElement 12 4 (-1) 3 2114 54]"

definition kCmdLut_9_3 :: "CmdLutElement list" where
  "kCmdLut_9_3 = [
     CmdLutElement 14 1 (-1) 3 6210 10, CmdLutElement 14 1 (-1) 3 6210 12, CmdLutElement 14 2 (-1) 3 6210 14,
     CmdLutElement 14 2 (-1) 3 6210 18, CmdLutElement 14 3 (-1) 3 6210 22, CmdLutElement 14 3 (-1) 3 6210 30,
     CmdLutElement 14 4 (-1) 3 6210 38, CmdLutElement 14 4 (-1) 3 6210 54, CmdLutElement 24 1 (-1) 3 22594 10,
     CmdLutElement 24 1 (-1) 3 22594 12, CmdLutElement 24 2 (-1) 3 22594 14, CmdLutElement 24 2 (-1) 3 22594 18,
     CmdLutElement 24 3 (-1) 3 22594 22, CmdLutElement 24 3 (-1) 3 22594 30, CmdLutElement 24 4 (-1) 3 22594 38,
     CmdLutElement 24 4 (-1) 3 22594 54]"

definition kCmdLut_9 :: "CmdLutElement list" where
  "kCmdLut_9 = kCmdLut_9_0 @ kCmdLut_9_1 @ kCmdLut_9_2 @ kCmdLut_9_3"

definition kCmdLut_10_0 :: "CmdLutElement list" where
  "kCmdLut_10_0 = [
     CmdLutElement 6 5 (-1) 3 130 70, CmdLutElement 6 5 (-1) 3 130 102, CmdLutElement 6 6 (-1) 3 130 134,
     CmdLutElement 6 7 (-1) 3 130 198, CmdLutElement 6 8 (-1) 3 130 326, CmdLutElement 6 9 (-1) 3 130 582,
     CmdLutElement 6 10 (-1) 3 130 1094, CmdLutElement 6 24 (-1) 3 130 2118, CmdLutElement 7 5 (-1) 3 194 70,
     CmdLutElement 7 5 (-1) 3 194 102, CmdLutElement 7 6 (-1) 3 194 134, CmdLutElement 7 7 (-1) 3 194 198,
     CmdLutElement 7 8 (-1) 3 194 326, CmdLutElement 7 9 (-1) 3 194 582, CmdLutElement 7 10 (-1) 3 194 1094,
     CmdLutElement 7 24 (-1) 3 194 2118]"

definition kCmdLut_10_1 :: "CmdLutElement list" where
  "kCmdLut_10_1 = [
     CmdLutElement 8 5 (-1) 3 322 70, CmdLutElement 8 5 (-1) 3 322 102, CmdLutElement 8 6 (-1) 3 322 134,
     CmdLutElement 8 7 (-1) 3 322 198, CmdLutElement 8 8 (-1) 3 322 326, CmdLutElement 8 9 (-1) 3 322 582,
     CmdLutElement 8 10 (-1) 3 322 1094, CmdLutElement 8 24 (-1) 3 322 2118, CmdLutElement 9 5 (-1) 3 578 70,
     CmdLutElement 9 5 (-1) 3 578 102, CmdLutElement 9 6 (-1) 3 578 134, CmdLutElement 9 7 (-1) 3 578 198,
     CmdLutElement 9 8 (-1) 3 578 326, CmdLutElement 9 9 (-1) 3 578 582, CmdLutElement 9 10 (-1) 3 578 1094,
     CmdLutElement 9 24 (-1) 3 578 2118]"

definition kCmdLut_10_2 :: "CmdLutElement list" where
  "kCmdLut_10_2 = [
     CmdLutElement 10 5 (-1) 3 1090 70, CmdLutElement 10 5 (-1) 3 1090 102, CmdLutElement 10 6 (-1) 3 1090 134,
     CmdLutElement 10 7 (-1) 3 1090 198, CmdLutElement 10 8 (-1) 3 1090 326, CmdLutElement 10 9 (-1) 3 1090 582,
     CmdLutElement 10 10 (-1) 3 1090 1094, CmdLutElement 10 24 (-1) 3 1090 2118, CmdLutElement 12 5 (-1) 3 2114 70,
     CmdLutElement 12 5 (-1) 3 2114 102, CmdLutElement 12 6 (-1) 3 2114 134, CmdLutElement 12 7 (-1) 3 2114 198,
     CmdLutElement 12 8 (-1) 3 2114 326, CmdLutElement 12 9 (-1) 3 2114 582, CmdLutElement 12 10 (-1) 3 2114 1094,
     CmdLutElement 12 24 (-1) 3 2114 2118]"

definition kCmdLut_10_3 :: "CmdLutElement list" where
  "kCmdLut_10_3 = [
     CmdLutElement 14 5 (-1) 3 6210 70, CmdLutElement 14 5 (-1) 3 6210 102, CmdLutElement 14 6 (-1) 3 6210 134,
     CmdLutElement 14 7 (-1) 3 6210 198, CmdLutElement 14 8 (-1) 3 6210 326, CmdLutElement 14 9 (-1) 3 6210 582,
     CmdLutElement 14 10 (-1) 3 6210 1094, CmdLutElement 14 24 (-1) 3 6210 2118, CmdLutElement 24 5 (-1) 3 22594 70,
     CmdLutElement 24 5 (-1) 3 22594 102, CmdLutElement 24 6 (-1) 3 22594 134, CmdLutElement 24 7 (-1) 3 22594 198,
     CmdLutElement 24 8 (-1) 3 22594 326, CmdLutElement 24 9 (-1) 3 22594 582, CmdLutElement 24 10 (-1) 3 22594 1094,
     CmdLutElement 24 24 (-1) 3 22594 2118]"

definition kCmdLut_10 :: "CmdLutElement list" where
  "kCmdLut_10 = kCmdLut_10_0 @ kCmdLut_10_1 @ kCmdLut_10_2 @ kCmdLut_10_3"

definition kCmdLut :: "CmdLutElement list" where
  "kCmdLut = kCmdLut_0 @
     kCmdLut_1 @
     kCmdLut_2 @
     kCmdLut_3 @
     kCmdLut_4 @
     kCmdLut_5 @
     kCmdLut_6 @
     kCmdLut_7 @
     kCmdLut_8 @
     kCmdLut_9 @
     kCmdLut_10"

subsection \<open>The format's description of the tables\<close>

text \<open>
  The insert and copy length codes as the format defines them, by first value and number of
  extra bits. The command symbols come in eleven cells of 64: a cell pairs eight consecutive
  insert length codes with eight consecutive copy length codes, and the first two cells reuse
  the last distance without coding it.
\<close>

definition insert_length_code :: "(u16 \<times> u8) list" where
  "insert_length_code =
    [(0,0), (1,0), (2,0), (3,0), (4,0), (5,0), (6,1), (8,1), (10,2), (14,2), (18,3), (26,3),
     (34,4), (50,4), (66,5), (98,5), (130,6), (194,7), (322,8), (578,9), (1090,10), (2114,12),
     (6210,14), (22594,24)]"

definition copy_length_code :: "(u16 \<times> u8) list" where
  "copy_length_code =
    [(2,0), (3,0), (4,0), (5,0), (6,0), (7,0), (8,0), (9,0), (10,1), (12,1), (14,2), (18,2),
     (22,3), (30,3), (38,4), (54,4), (70,5), (102,5), (134,6), (198,7), (326,8), (582,9),
     (1094,10), (2118,24)]"

definition distance_context_of_copy_length :: "u16 \<Rightarrow> u8" where
  "distance_context_of_copy_length n = (if n = 2 then 0 else if n = 3 then 1 else if n = 4 then 2 else 3)"

definition command_cell :: "int \<Rightarrow> nat \<Rightarrow> nat \<Rightarrow> CmdLutElement list" where
  "command_cell d i c =
     concat (map (\<lambda>(ioff, ibits). map (\<lambda>(coff, cbits).
         CmdLutElement ibits cbits d (distance_context_of_copy_length coff) ioff coff)
       (take 8 (drop c copy_length_code)))
       (take 8 (drop i insert_length_code)))"

definition command_table :: "CmdLutElement list" where
  "command_table =
     command_cell 0 0 0 @ command_cell 0 0 8 @
     command_cell (-1) 0 0 @ command_cell (-1) 0 8 @ command_cell (-1) 8 0 @
     command_cell (-1) 8 8 @ command_cell (-1) 0 16 @ command_cell (-1) 16 0 @
     command_cell (-1) 8 16 @ command_cell (-1) 16 8 @ command_cell (-1) 16 16"

lemma length_kBlockLengthPrefixCode [simp]: "length kBlockLengthPrefixCode = 26"
  by (simp add: kBlockLengthPrefixCode_def)

lemmas command_cell_simps =
  command_cell_def insert_length_code_def copy_length_code_def distance_context_of_copy_length_def

lemma kCmdLut_0_cell: "kCmdLut_0 = command_cell 0 0 0"
  by (simp add: kCmdLut_0_def kCmdLut_0_0_def kCmdLut_0_1_def kCmdLut_0_2_def kCmdLut_0_3_def
      command_cell_simps)

lemma kCmdLut_1_cell: "kCmdLut_1 = command_cell 0 0 8"
  by (simp add: kCmdLut_1_def kCmdLut_1_0_def kCmdLut_1_1_def kCmdLut_1_2_def kCmdLut_1_3_def
      command_cell_simps)

lemma kCmdLut_2_cell: "kCmdLut_2 = command_cell (-1) 0 0"
  by (simp add: kCmdLut_2_def kCmdLut_2_0_def kCmdLut_2_1_def kCmdLut_2_2_def kCmdLut_2_3_def
      command_cell_simps)

lemma kCmdLut_3_cell: "kCmdLut_3 = command_cell (-1) 0 8"
  by (simp add: kCmdLut_3_def kCmdLut_3_0_def kCmdLut_3_1_def kCmdLut_3_2_def kCmdLut_3_3_def
      command_cell_simps)

lemma kCmdLut_4_cell: "kCmdLut_4 = command_cell (-1) 8 0"
  by (simp add: kCmdLut_4_def kCmdLut_4_0_def kCmdLut_4_1_def kCmdLut_4_2_def kCmdLut_4_3_def
      command_cell_simps)

lemma kCmdLut_5_cell: "kCmdLut_5 = command_cell (-1) 8 8"
  by (simp add: kCmdLut_5_def kCmdLut_5_0_def kCmdLut_5_1_def kCmdLut_5_2_def kCmdLut_5_3_def
      command_cell_simps)

lemma kCmdLut_6_cell: "kCmdLut_6 = command_cell (-1) 0 16"
  by (simp add: kCmdLut_6_def kCmdLut_6_0_def kCmdLut_6_1_def kCmdLut_6_2_def kCmdLut_6_3_def
      command_cell_simps)

lemma kCmdLut_7_cell: "kCmdLut_7 = command_cell (-1) 16 0"
  by (simp add: kCmdLut_7_def kCmdLut_7_0_def kCmdLut_7_1_def kCmdLut_7_2_def kCmdLut_7_3_def
      command_cell_simps)

lemma kCmdLut_8_cell: "kCmdLut_8 = command_cell (-1) 8 16"
  by (simp add: kCmdLut_8_def kCmdLut_8_0_def kCmdLut_8_1_def kCmdLut_8_2_def kCmdLut_8_3_def
      command_cell_simps)

lemma kCmdLut_9_cell: "kCmdLut_9 = command_cell (-1) 16 8"
  by (simp add: kCmdLut_9_def kCmdLut_9_0_def kCmdLut_9_1_def kCmdLut_9_2_def kCmdLut_9_3_def
      command_cell_simps)

lemma kCmdLut_10_cell: "kCmdLut_10 = command_cell (-1) 16 16"
  by (simp add: kCmdLut_10_def kCmdLut_10_0_def kCmdLut_10_1_def kCmdLut_10_2_def kCmdLut_10_3_def
      command_cell_simps)

lemmas kCmdLut_cells =
  kCmdLut_0_cell kCmdLut_1_cell kCmdLut_2_cell kCmdLut_3_cell kCmdLut_4_cell kCmdLut_5_cell
  kCmdLut_6_cell kCmdLut_7_cell kCmdLut_8_cell kCmdLut_9_cell kCmdLut_10_cell

lemma length_command_cell:
  "i \<le> 16 \<Longrightarrow> c \<le> 16 \<Longrightarrow> length (command_cell d i c) = 64"
  by (simp add: command_cell_def length_concat comp_def case_prod_beta sum_list_triv
      insert_length_code_def copy_length_code_def)

lemma length_kCmdLut [simp]: "length kCmdLut = 704"
  by (simp add: kCmdLut_def kCmdLut_cells length_command_cell)

lemma set_command_cell:
  "set (command_cell d i c) \<subseteq>
     {CmdLutElement ib cb d (distance_context_of_copy_length co) io co |ib cb io co.
        (io, ib) \<in> set insert_length_code \<and> (co, cb) \<in> set copy_length_code}"
  by (auto simp: command_cell_def dest!: in_set_takeD in_set_dropD)

lemma set_kCmdLut:
  assumes "e \<in> set kCmdLut"
  obtains d ib cb io co where
    "e = CmdLutElement ib cb d (distance_context_of_copy_length co) io co"
    "(io, ib) \<in> set insert_length_code" "(co, cb) \<in> set copy_length_code" "d = 0 \<or> d = -1"
  using assms unfolding kCmdLut_def kCmdLut_cells set_append
  by (elim UnE) (auto dest!: set_command_cell [THEN subsetD])

end
