(* ===== verification/Transform_Word.thy ===== *)
theory Transform_Word
  imports Bit_Stream
begin

text \<open>
  The dictionary word transforms, \<open>src/transform.rs\<close>, and the layout of the static dictionary,
  \<open>src/dictionary/mod.rs\<close>. A transform writes a prefix, the word, shortened or with letters
  in upper case, and a suffix into the output buffer. The bytes of the dictionary itself are
  data; the functions that use them receive them as an argument.
\<close>

subsection \<open>The tables\<close>

datatype Transform =
  Transform (tr_prefix_id: u8) (tr_transform: u8) (tr_suffix_id: u8)

abbreviation (input) kIdentity :: u8 where "kIdentity \<equiv> 0"
abbreviation (input) kOmitLast1 :: u8 where "kOmitLast1 \<equiv> 1"
abbreviation (input) kOmitLast2 :: u8 where "kOmitLast2 \<equiv> 2"
abbreviation (input) kOmitLast3 :: u8 where "kOmitLast3 \<equiv> 3"
abbreviation (input) kOmitLast4 :: u8 where "kOmitLast4 \<equiv> 4"
abbreviation (input) kOmitLast5 :: u8 where "kOmitLast5 \<equiv> 5"
abbreviation (input) kOmitLast6 :: u8 where "kOmitLast6 \<equiv> 6"
abbreviation (input) kOmitLast7 :: u8 where "kOmitLast7 \<equiv> 7"
abbreviation (input) kOmitLast8 :: u8 where "kOmitLast8 \<equiv> 8"
abbreviation (input) kOmitLast9 :: u8 where "kOmitLast9 \<equiv> 9"
abbreviation (input) kUppercaseFirst :: u8 where "kUppercaseFirst \<equiv> 10"
abbreviation (input) kUppercaseAll :: u8 where "kUppercaseAll \<equiv> 11"
abbreviation (input) kOmitFirst1 :: u8 where "kOmitFirst1 \<equiv> 12"
abbreviation (input) kOmitFirst2 :: u8 where "kOmitFirst2 \<equiv> 13"
abbreviation (input) kOmitFirst3 :: u8 where "kOmitFirst3 \<equiv> 14"
abbreviation (input) kOmitFirst4 :: u8 where "kOmitFirst4 \<equiv> 15"
abbreviation (input) kOmitFirst5 :: u8 where "kOmitFirst5 \<equiv> 16"
abbreviation (input) kOmitFirst6 :: u8 where "kOmitFirst6 \<equiv> 17"
abbreviation (input) kOmitFirst7 :: u8 where "kOmitFirst7 \<equiv> 18"
abbreviation (input) kOmitFirst9 :: u8 where "kOmitFirst9 \<equiv> 20"
abbreviation (input) kPFix_EMPTY :: u8 where "kPFix_EMPTY \<equiv> 0"
abbreviation (input) kPFix_SP :: u8 where "kPFix_SP \<equiv> 1"
abbreviation (input) kPFix_COMMASP :: u8 where "kPFix_COMMASP \<equiv> 3"
abbreviation (input) kPFix_SPofSPtheSP :: u8 where "kPFix_SPofSPtheSP \<equiv> 6"
abbreviation (input) kPFix_SPtheSP :: u8 where "kPFix_SPtheSP \<equiv> 9"
abbreviation (input) kPFix_eSP :: u8 where "kPFix_eSP \<equiv> 12"
abbreviation (input) kPFix_SPofSP :: u8 where "kPFix_SPofSP \<equiv> 15"
abbreviation (input) kPFix_sSP :: u8 where "kPFix_sSP \<equiv> 20"
abbreviation (input) kPFix_DOT :: u8 where "kPFix_DOT \<equiv> 23"
abbreviation (input) kPFix_SPandSP :: u8 where "kPFix_SPandSP \<equiv> 25"
abbreviation (input) kPFix_SPinSP :: u8 where "kPFix_SPinSP \<equiv> 31"
abbreviation (input) kPFix_DQUOT :: u8 where "kPFix_DQUOT \<equiv> 36"
abbreviation (input) kPFix_SPtoSP :: u8 where "kPFix_SPtoSP \<equiv> 38"
abbreviation (input) kPFix_DQUOTGT :: u8 where "kPFix_DQUOTGT \<equiv> 43"
abbreviation (input) kPFix_NEWLINE :: u8 where "kPFix_NEWLINE \<equiv> 46"
abbreviation (input) kPFix_DOTSP :: u8 where "kPFix_DOTSP \<equiv> 48"
abbreviation (input) kPFix_CLOSEBR :: u8 where "kPFix_CLOSEBR \<equiv> 51"
abbreviation (input) kPFix_SPforSP :: u8 where "kPFix_SPforSP \<equiv> 53"
abbreviation (input) kPFix_SPaSP :: u8 where "kPFix_SPaSP \<equiv> 59"
abbreviation (input) kPFix_SPthatSP :: u8 where "kPFix_SPthatSP \<equiv> 63"
abbreviation (input) kPFix_SQUOT :: u8 where "kPFix_SQUOT \<equiv> 70"
abbreviation (input) kPFix_SPwithSP :: u8 where "kPFix_SPwithSP \<equiv> 72"
abbreviation (input) kPFix_SPfromSP :: u8 where "kPFix_SPfromSP \<equiv> 79"
abbreviation (input) kPFix_SPbySP :: u8 where "kPFix_SPbySP \<equiv> 86"
abbreviation (input) kPFix_OPEN :: u8 where "kPFix_OPEN \<equiv> 91"
abbreviation (input) kPFix_DOTSPTheSP :: u8 where "kPFix_DOTSPTheSP \<equiv> 93"
abbreviation (input) kPFix_SPonSP :: u8 where "kPFix_SPonSP \<equiv> 100"
abbreviation (input) kPFix_SPasSP :: u8 where "kPFix_SPasSP \<equiv> 105"
abbreviation (input) kPFix_SPisSP :: u8 where "kPFix_SPisSP \<equiv> 110"
abbreviation (input) kPFix_ingSP :: u8 where "kPFix_ingSP \<equiv> 115"
abbreviation (input) kPFix_NEWLINETAB :: u8 where "kPFix_NEWLINETAB \<equiv> 120"
abbreviation (input) kPFix_COLON :: u8 where "kPFix_COLON \<equiv> 123"
abbreviation (input) kPFix_edSP :: u8 where "kPFix_edSP \<equiv> 125"
abbreviation (input) kPFix_EQDQUOT :: u8 where "kPFix_EQDQUOT \<equiv> 129"
abbreviation (input) kPFix_SPatSP :: u8 where "kPFix_SPatSP \<equiv> 132"
abbreviation (input) kPFix_lySP :: u8 where "kPFix_lySP \<equiv> 137"
abbreviation (input) kPFix_COMMA :: u8 where "kPFix_COMMA \<equiv> 141"
abbreviation (input) kPFix_EQSQUOT :: u8 where "kPFix_EQSQUOT \<equiv> 143"
abbreviation (input) kPFix_DOTcomSLASH :: u8 where "kPFix_DOTcomSLASH \<equiv> 146"
abbreviation (input) kPFix_DOTSPThisSP :: u8 where "kPFix_DOTSPThisSP \<equiv> 152"
abbreviation (input) kPFix_SPnotSP :: u8 where "kPFix_SPnotSP \<equiv> 160"
abbreviation (input) kPFix_erSP :: u8 where "kPFix_erSP \<equiv> 166"
abbreviation (input) kPFix_alSP :: u8 where "kPFix_alSP \<equiv> 170"
abbreviation (input) kPFix_fulSP :: u8 where "kPFix_fulSP \<equiv> 174"
abbreviation (input) kPFix_iveSP :: u8 where "kPFix_iveSP \<equiv> 179"
abbreviation (input) kPFix_lessSP :: u8 where "kPFix_lessSP \<equiv> 184"
abbreviation (input) kPFix_estSP :: u8 where "kPFix_estSP \<equiv> 190"
abbreviation (input) kPFix_izeSP :: u8 where "kPFix_izeSP \<equiv> 195"
abbreviation (input) kPFix_NBSP :: u8 where "kPFix_NBSP \<equiv> 200"
abbreviation (input) kPFix_ousSP :: u8 where "kPFix_ousSP \<equiv> 203"

definition kTransforms_0 :: "Transform list" where
  "kTransforms_0 = [
     Transform kPFix_EMPTY kIdentity kPFix_EMPTY, Transform kPFix_EMPTY kIdentity kPFix_SP,
     Transform kPFix_SP kIdentity kPFix_SP, Transform kPFix_EMPTY kOmitFirst1 kPFix_EMPTY,
     Transform kPFix_EMPTY kUppercaseFirst kPFix_SP, Transform kPFix_EMPTY kIdentity kPFix_SPtheSP,
     Transform kPFix_SP kIdentity kPFix_EMPTY, Transform kPFix_sSP kIdentity kPFix_SP,
     Transform kPFix_EMPTY kIdentity kPFix_SPofSP, Transform kPFix_EMPTY kUppercaseFirst kPFix_EMPTY,
     Transform kPFix_EMPTY kIdentity kPFix_SPandSP, Transform kPFix_EMPTY kOmitFirst2 kPFix_EMPTY,
     Transform kPFix_EMPTY kOmitLast1 kPFix_EMPTY, Transform kPFix_COMMASP kIdentity kPFix_SP,
     Transform kPFix_EMPTY kIdentity kPFix_COMMASP, Transform kPFix_SP kUppercaseFirst kPFix_SP,
     Transform kPFix_EMPTY kIdentity kPFix_SPinSP, Transform kPFix_EMPTY kIdentity kPFix_SPtoSP,
     Transform kPFix_eSP kIdentity kPFix_SP, Transform kPFix_EMPTY kIdentity kPFix_DQUOT,
     Transform kPFix_EMPTY kIdentity kPFix_DOT, Transform kPFix_EMPTY kIdentity kPFix_DQUOTGT,
     Transform kPFix_EMPTY kIdentity kPFix_NEWLINE, Transform kPFix_EMPTY kOmitLast3 kPFix_EMPTY,
     Transform kPFix_EMPTY kIdentity kPFix_CLOSEBR, Transform kPFix_EMPTY kIdentity kPFix_SPforSP,
     Transform kPFix_EMPTY kOmitFirst3 kPFix_EMPTY, Transform kPFix_EMPTY kOmitLast2 kPFix_EMPTY,
     Transform kPFix_EMPTY kIdentity kPFix_SPaSP, Transform kPFix_EMPTY kIdentity kPFix_SPthatSP,
     Transform kPFix_SP kUppercaseFirst kPFix_EMPTY]"

definition kTransforms_1 :: "Transform list" where
  "kTransforms_1 = [
     Transform kPFix_EMPTY kIdentity kPFix_DOTSP, Transform kPFix_DOT kIdentity kPFix_EMPTY,
     Transform kPFix_SP kIdentity kPFix_COMMASP, Transform kPFix_EMPTY kOmitFirst4 kPFix_EMPTY,
     Transform kPFix_EMPTY kIdentity kPFix_SPwithSP, Transform kPFix_EMPTY kIdentity kPFix_SQUOT,
     Transform kPFix_EMPTY kIdentity kPFix_SPfromSP, Transform kPFix_EMPTY kIdentity kPFix_SPbySP,
     Transform kPFix_EMPTY kOmitFirst5 kPFix_EMPTY, Transform kPFix_EMPTY kOmitFirst6 kPFix_EMPTY,
     Transform kPFix_SPtheSP kIdentity kPFix_EMPTY, Transform kPFix_EMPTY kOmitLast4 kPFix_EMPTY,
     Transform kPFix_EMPTY kIdentity kPFix_DOTSPTheSP, Transform kPFix_EMPTY kUppercaseAll kPFix_EMPTY,
     Transform kPFix_EMPTY kIdentity kPFix_SPonSP, Transform kPFix_EMPTY kIdentity kPFix_SPasSP,
     Transform kPFix_EMPTY kIdentity kPFix_SPisSP, Transform kPFix_EMPTY kOmitLast7 kPFix_EMPTY,
     Transform kPFix_EMPTY kOmitLast1 kPFix_ingSP, Transform kPFix_EMPTY kIdentity kPFix_NEWLINETAB,
     Transform kPFix_EMPTY kIdentity kPFix_COLON, Transform kPFix_SP kIdentity kPFix_DOTSP,
     Transform kPFix_EMPTY kIdentity kPFix_edSP, Transform kPFix_EMPTY kOmitFirst9 kPFix_EMPTY,
     Transform kPFix_EMPTY kOmitFirst7 kPFix_EMPTY, Transform kPFix_EMPTY kOmitLast6 kPFix_EMPTY,
     Transform kPFix_EMPTY kIdentity kPFix_OPEN, Transform kPFix_EMPTY kUppercaseFirst kPFix_COMMASP,
     Transform kPFix_EMPTY kOmitLast8 kPFix_EMPTY, Transform kPFix_EMPTY kIdentity kPFix_SPatSP]"

definition kTransforms_2 :: "Transform list" where
  "kTransforms_2 = [
     Transform kPFix_EMPTY kIdentity kPFix_lySP, Transform kPFix_SPtheSP kIdentity kPFix_SPofSP,
     Transform kPFix_EMPTY kOmitLast5 kPFix_EMPTY, Transform kPFix_EMPTY kOmitLast9 kPFix_EMPTY,
     Transform kPFix_SP kUppercaseFirst kPFix_COMMASP, Transform kPFix_EMPTY kUppercaseFirst kPFix_DQUOT,
     Transform kPFix_DOT kIdentity kPFix_OPEN, Transform kPFix_EMPTY kUppercaseAll kPFix_SP,
     Transform kPFix_EMPTY kUppercaseFirst kPFix_DQUOTGT, Transform kPFix_EMPTY kIdentity kPFix_EQDQUOT,
     Transform kPFix_SP kIdentity kPFix_DOT, Transform kPFix_DOTcomSLASH kIdentity kPFix_EMPTY,
     Transform kPFix_SPtheSP kIdentity kPFix_SPofSPtheSP, Transform kPFix_EMPTY kUppercaseFirst kPFix_SQUOT,
     Transform kPFix_EMPTY kIdentity kPFix_DOTSPThisSP, Transform kPFix_EMPTY kIdentity kPFix_COMMA,
     Transform kPFix_DOT kIdentity kPFix_SP, Transform kPFix_EMPTY kUppercaseFirst kPFix_OPEN,
     Transform kPFix_EMPTY kUppercaseFirst kPFix_DOT, Transform kPFix_EMPTY kIdentity kPFix_SPnotSP,
     Transform kPFix_SP kIdentity kPFix_EQDQUOT, Transform kPFix_EMPTY kIdentity kPFix_erSP,
     Transform kPFix_SP kUppercaseAll kPFix_SP, Transform kPFix_EMPTY kIdentity kPFix_alSP,
     Transform kPFix_SP kUppercaseAll kPFix_EMPTY, Transform kPFix_EMPTY kIdentity kPFix_EQSQUOT,
     Transform kPFix_EMPTY kUppercaseAll kPFix_DQUOT, Transform kPFix_EMPTY kUppercaseFirst kPFix_DOTSP,
     Transform kPFix_SP kIdentity kPFix_OPEN, Transform kPFix_EMPTY kIdentity kPFix_fulSP]"

definition kTransforms_3 :: "Transform list" where
  "kTransforms_3 = [
     Transform kPFix_SP kUppercaseFirst kPFix_DOTSP, Transform kPFix_EMPTY kIdentity kPFix_iveSP,
     Transform kPFix_EMPTY kIdentity kPFix_lessSP, Transform kPFix_EMPTY kUppercaseAll kPFix_SQUOT,
     Transform kPFix_EMPTY kIdentity kPFix_estSP, Transform kPFix_SP kUppercaseFirst kPFix_DOT,
     Transform kPFix_EMPTY kUppercaseAll kPFix_DQUOTGT, Transform kPFix_SP kIdentity kPFix_EQSQUOT,
     Transform kPFix_EMPTY kUppercaseFirst kPFix_COMMA, Transform kPFix_EMPTY kIdentity kPFix_izeSP,
     Transform kPFix_EMPTY kUppercaseAll kPFix_DOT, Transform kPFix_NBSP kIdentity kPFix_EMPTY,
     Transform kPFix_SP kIdentity kPFix_COMMA, Transform kPFix_EMPTY kUppercaseFirst kPFix_EQDQUOT,
     Transform kPFix_EMPTY kUppercaseAll kPFix_EQDQUOT, Transform kPFix_EMPTY kIdentity kPFix_ousSP,
     Transform kPFix_EMPTY kUppercaseAll kPFix_COMMASP, Transform kPFix_EMPTY kUppercaseFirst kPFix_EQSQUOT,
     Transform kPFix_SP kUppercaseFirst kPFix_COMMA, Transform kPFix_SP kUppercaseAll kPFix_EQDQUOT,
     Transform kPFix_SP kUppercaseAll kPFix_COMMASP, Transform kPFix_EMPTY kUppercaseAll kPFix_COMMA,
     Transform kPFix_EMPTY kUppercaseAll kPFix_OPEN, Transform kPFix_EMPTY kUppercaseAll kPFix_DOTSP,
     Transform kPFix_SP kUppercaseAll kPFix_DOT, Transform kPFix_EMPTY kUppercaseAll kPFix_EQSQUOT,
     Transform kPFix_SP kUppercaseAll kPFix_DOTSP, Transform kPFix_SP kUppercaseFirst kPFix_EQDQUOT,
     Transform kPFix_SP kUppercaseAll kPFix_EQSQUOT, Transform kPFix_SP kUppercaseFirst kPFix_EQSQUOT]"

definition kTransforms :: "Transform list" where
  "kTransforms = kTransforms_0 @ kTransforms_1 @ kTransforms_2 @ kTransforms_3"

definition kPrefixSuffix :: "u8 list" where
  "kPrefixSuffix = [
     0x00, 0x20, 0x00, 0x2c, 0x20, 0x00, 0x20, 0x6f, 0x66, 0x20, 0x74, 0x68, 0x65, 0x20, 0x00, 0x20,
     0x6f, 0x66, 0x20, 0x00, 0x73, 0x20, 0x00, 0x2e, 0x00, 0x20, 0x61, 0x6e, 0x64, 0x20, 0x00, 0x20,
     0x69, 0x6e, 0x20, 0x00, 0x22, 0x00, 0x20, 0x74, 0x6f, 0x20, 0x00, 0x22, 0x3e, 0x00, 0x0a, 0x00,
     0x2e, 0x20, 0x00, 0x5d, 0x00, 0x20, 0x66, 0x6f, 0x72, 0x20, 0x00, 0x20, 0x61, 0x20, 0x00, 0x20,
     0x74, 0x68, 0x61, 0x74, 0x20, 0x00, 0x27, 0x00, 0x20, 0x77, 0x69, 0x74, 0x68, 0x20, 0x00, 0x20,
     0x66, 0x72, 0x6f, 0x6d, 0x20, 0x00, 0x20, 0x62, 0x79, 0x20, 0x00, 0x28, 0x00, 0x2e, 0x20, 0x54,
     0x68, 0x65, 0x20, 0x00, 0x20, 0x6f, 0x6e, 0x20, 0x00, 0x20, 0x61, 0x73, 0x20, 0x00, 0x20, 0x69,
     0x73, 0x20, 0x00, 0x69, 0x6e, 0x67, 0x20, 0x00, 0x0a, 0x09, 0x00, 0x3a, 0x00, 0x65, 0x64, 0x20,
     0x00, 0x3d, 0x22, 0x00, 0x20, 0x61, 0x74, 0x20, 0x00, 0x6c, 0x79, 0x20, 0x00, 0x2c, 0x00, 0x3d,
     0x27, 0x00, 0x2e, 0x63, 0x6f, 0x6d, 0x2f, 0x00, 0x2e, 0x20, 0x54, 0x68, 0x69, 0x73, 0x20, 0x00,
     0x20, 0x6e, 0x6f, 0x74, 0x20, 0x00, 0x65, 0x72, 0x20, 0x00, 0x61, 0x6c, 0x20, 0x00, 0x66, 0x75,
     0x6c, 0x20, 0x00, 0x69, 0x76, 0x65, 0x20, 0x00, 0x6c, 0x65, 0x73, 0x73, 0x20, 0x00, 0x65, 0x73,
     0x74, 0x20, 0x00, 0x69, 0x7a, 0x65, 0x20, 0x00, 0xc2, 0xa0, 0x00, 0x6f, 0x75, 0x73, 0x20, 0x00]"

definition kNumTransforms :: int where
  "kNumTransforms = 121"

definition kBrotliDictionaryOffsetsByLength :: "u32 list" where
  "kBrotliDictionaryOffsetsByLength =
    [0, 0, 0, 0, 0, 4096, 9216, 21504, 35840, 44032, 53248, 63488, 74752, 87040, 93696, 100864,
     104704, 106752, 108928, 113536, 115968, 118528, 119872, 121280, 122016]"

definition kBrotliDictionarySizeBitsByLength :: "u8 list" where
  "kBrotliDictionarySizeBitsByLength =
    [0, 0, 0, 0, 10, 10, 11, 11, 10, 10, 10, 10, 10, 9, 9, 8, 7, 7, 8, 7, 7, 6, 6, 5, 5]"

definition kBrotliMinDictionaryWordLength :: u8 where
  "kBrotliMinDictionaryWordLength = 4"

definition kBrotliMaxDictionaryWordLength :: u8 where
  "kBrotliMaxDictionaryWordLength = 24"

subsection \<open>The operations\<close>

text \<open>The slice \<open>p\<close> is updated in place; the result is the number of bytes of the character.\<close>

definition ToUpperCase :: "u8 list \<Rightarrow> (u8 list \<times> int) option" where
  "ToUpperCase p = do {
     p0 \<leftarrow> get p 0;
     if p0 < 0xc0 then
       if 97 \<le> p0 \<and> p0 \<le> 122 then do {
         p \<leftarrow> put p 0 (p0 XOR 32);
         Some (p, 1)
       } else Some (p, 1)
     else if p0 < 0xe0 then do {
       p1 \<leftarrow> get p 1;
       p \<leftarrow> put p 1 (p1 XOR 32);
       Some (p, 2)
     } else do {
       p2 \<leftarrow> get p 2;
       p \<leftarrow> put p 2 (p2 XOR 5);
       Some (p, 3)
     }
   }"

text \<open>The loop that copies the prefix, and the one that copies the suffix, up to a zero byte.\<close>

fun copy_until_zero :: "u8 list \<Rightarrow> nat \<Rightarrow> u8 list \<Rightarrow> (u8 list \<times> nat) option" where
  "copy_until_zero dst idx [] = None"
| "copy_until_zero dst idx (b # src) =
    (if b \<noteq> 0 then do {
       dst \<leftarrow> put dst idx b;
       copy_until_zero dst (idx + 1) src
     } else Some (dst, idx))"

lemma ToUpperCase_step:
  "ToUpperCase p = Some (q, step) \<Longrightarrow> 0 < step"
  by (auto simp: ToUpperCase_def split: if_splits bind_splits)

function uppercase_loop :: "u8 list \<Rightarrow> nat \<Rightarrow> int \<Rightarrow> u8 list option" where
  "uppercase_loop uppercase off len =
    (if len > 0 then do {
       p \<leftarrow> slice_from uppercase off;
       (p, step) \<leftarrow> ToUpperCase p;
       uppercase_loop (take off uppercase @ p) (off + nat step) (len - step)
     } else Some uppercase)"
  by pat_completeness auto
termination
  by (relation "measure (\<lambda>(u, off, len). nat len)") (auto dest: ToUpperCase_step)

declare uppercase_loop.simps [simp del]

definition TransformDictionaryWord ::
  "u8 list \<Rightarrow> u8 list \<Rightarrow> int \<Rightarrow> int \<Rightarrow> (u8 list \<times> int) option" where
  "TransformDictionaryWord dst word len transform = do {
     tr \<leftarrow> get kTransforms (usize_of_i32 transform);
     prefix \<leftarrow> slice_from kPrefixSuffix (unat (tr_prefix_id tr));
     (dst, idx) \<leftarrow> copy_until_zero dst 0 prefix;
     let t = tr_transform tr;
     let skip = (if t < kOmitFirst1 then 0 else int (unat t) - int (unat (kOmitFirst1 - 1)));
     let skip = (if skip > len then len else skip);
     word \<leftarrow> slice_from word (usize_of_i32 skip);
     let len = len - skip;
     let len = (if t \<le> kOmitLast9 then i32 (len - int (unat t)) else len);
     dst \<leftarrow> copy_from_input dst idx word 0 (nat len);
     let idx = idx + nat len;
     let start = usize_of_i32 (i32 (int idx - len));
     uppercase \<leftarrow> slice_from dst start;
     uppercase \<leftarrow>
       (if t = kUppercaseFirst then map_option fst (ToUpperCase uppercase)
        else if t = kUppercaseAll then uppercase_loop uppercase 0 len
        else Some uppercase);
     let dst = take start dst @ uppercase;
     suffix \<leftarrow> slice_from kPrefixSuffix (unat (tr_suffix_id tr));
     (dst, idx) \<leftarrow> copy_until_zero dst idx suffix;
     Some (dst, int idx)
   }"

subsection \<open>Specification\<close>

text \<open>The zero-terminated string at an offset of \<open>kPrefixSuffix\<close>.\<close>

definition affix :: "u8 \<Rightarrow> u8 list" where
  "affix i = takeWhile (\<lambda>b. b \<noteq> 0) (drop (unat i) kPrefixSuffix)"

definition upper_ascii :: "u8 \<Rightarrow> u8" where
  "upper_ascii b = (if 97 \<le> b \<and> b \<le> 122 then b XOR 32 else b)"

text \<open>Upper case of the first character and of every character of a word, on the word alone.\<close>

fun upper_first :: "u8 list \<Rightarrow> u8 list" where
  "upper_first [] = []"
| "upper_first (b # bs) =
    (if b < 0xc0 then upper_ascii b # bs
     else if b < 0xe0 then b # (case bs of [] \<Rightarrow> [] | c # cs \<Rightarrow> (c XOR 32) # cs)
     else b # (case bs of c # d # ds \<Rightarrow> c # (d XOR 5) # ds | _ \<Rightarrow> bs))"

fun upper_all :: "u8 list \<Rightarrow> u8 list" where
  "upper_all [] = []"
| "upper_all (b # bs) =
    (if b < 0xc0 then upper_ascii b # upper_all bs
     else if b < 0xe0 then b # (case bs of [] \<Rightarrow> [] | c # cs \<Rightarrow> (c XOR 32) # upper_all cs)
     else b # (case bs of c # d # ds \<Rightarrow> c # (d XOR 5) # upper_all ds | _ \<Rightarrow> bs))"

definition transform_word :: "u8 \<Rightarrow> u8 list \<Rightarrow> u8 list" where
  "transform_word t w =
    (if t \<le> kOmitLast9 then take (length w - unat t) w
     else if t = kUppercaseFirst then upper_first w
     else if t = kUppercaseAll then upper_all w
     else drop (unat t - 11) w)"

definition transformed :: "Transform \<Rightarrow> u8 list \<Rightarrow> u8 list" where
  "transformed tr w =
     affix (tr_prefix_id tr) @ transform_word (tr_transform tr) w @ affix (tr_suffix_id tr)"

subsection \<open>Lemmas\<close>

lemma copy_until_zero_Some:
  assumes "0 \<in> set src" "idx + length (takeWhile (\<lambda>b. b \<noteq> 0) src) \<le> length dst"
  shows "copy_until_zero dst idx src =
    Some (take idx dst @ takeWhile (\<lambda>b. b \<noteq> 0) src @
            drop (idx + length (takeWhile (\<lambda>b. b \<noteq> 0) src)) dst,
          idx + length (takeWhile (\<lambda>b. b \<noteq> 0) src))"
  using assms
proof (induction src arbitrary: dst idx)
  case (Cons b src)
  then show ?case
    by (cases "b = 0") (auto simp: slice_simps take_Suc_conv_app_nth)
qed simp

lemma ToUpperCase_cases:
  assumes "3 \<le> length q"
  obtains b r where "q = b # r" "ToUpperCase q = Some (upper_ascii b # r, 1)" "b < 0xc0"
  | b c r where "q = b # c # r" "ToUpperCase q = Some (b # (c XOR 32) # r, 2)"
      "\<not> b < 0xc0" "b < 0xe0"
  | b c d r where "q = b # c # d # r" "ToUpperCase q = Some (b # c # (d XOR 5) # r, 3)"
      "\<not> b < 0xc0" "\<not> b < 0xe0"
proof -
  from assms obtain b c d r where q: "q = b # c # d # r"
    by (auto simp: Suc_le_length_iff numeral_3_eq_3)
  show ?thesis
  proof (cases "b < 0xc0")
    case True
    then show ?thesis using that(1) [of b "c # d # r"] q
      by (auto simp: ToUpperCase_def upper_ascii_def slice_simps)
  next
    case False
    show ?thesis
    proof (cases "b < 0xe0")
      case True
      with False show ?thesis using that(2) [of b c "d # r"] q
        by (auto simp: ToUpperCase_def slice_simps)
    next
      case False2: False
      with False show ?thesis using that(3) [of b c d r] q
        by (auto simp: ToUpperCase_def slice_simps numeral_2_eq_2)
    qed
  qed
qed

lemma take_upper_first:
  assumes "3 \<le> length q" "0 < n"
  shows "\<exists>q' step. ToUpperCase q = Some (q', step) \<and> length q' = length q \<and>
    take n q' = upper_first (take n q) \<and> drop (n + 2) q' = drop (n + 2) q"
proof -
  obtain m where n: "n = Suc m" using assms(2) by (cases n) auto
  show ?thesis
  by (rule ToUpperCase_cases [OF assms(1)])
     (auto simp: n take_Cons' not_less Suc_le_eq split: list.splits nat.splits)
qed

lemma uppercase_loop_at:
  assumes "nat len + 2 \<le> length q"
  shows "\<exists>q'. uppercase_loop (pre @ q) (length pre) len = Some (pre @ q') \<and> length q' = length q \<and>
    take (nat len) q' = upper_all (take (nat len) q) \<and> drop (nat len + 2) q' = drop (nat len + 2) q"
  using assms
proof (induction "nat len" arbitrary: pre q len rule: less_induct)
  case less
  show ?case
  proof (cases "0 < len")
    case False
    then show ?thesis by (simp add: uppercase_loop.simps)
  next
    case True
    then have "3 \<le> length q" using less.prems by simp
    then show ?thesis
    proof (cases rule: ToUpperCase_cases)
      case (1 b r)
      have "nat (len - 1) < nat len" "nat (len - 1) + 2 \<le> length r"
        using True less.prems 1 by auto
      from less.hyps [OF this, of "pre @ [upper_ascii b]"] obtain r' where
        "uppercase_loop (pre @ upper_ascii b # r) (Suc (length pre)) (len - 1) =
           Some (pre @ upper_ascii b # r')" "length r' = length r"
        "take (nat (len - 1)) r' = upper_all (take (nat (len - 1)) r)"
        "drop (nat (len - 1) + 2) r' = drop (nat (len - 1) + 2) r" by auto
      moreover have "nat len = Suc (nat (len - 1))" using True by simp
      ultimately show ?thesis using True 1
        by (subst uppercase_loop.simps) (auto simp: slice_simps)
    next
      case (2 b c r)
      show ?thesis
      proof (cases "len = 1")
        case l1: True
        then show ?thesis using 2
          by (subst uppercase_loop.simps, subst uppercase_loop.simps) (simp add: slice_simps)
      next
        case False
        have "nat (len - 2) < nat len" "nat (len - 2) + 2 \<le> length r"
          using True False less.prems 2 by auto
        from less.hyps [OF this, of "pre @ [b, c XOR 32]"] obtain r' where
          "uppercase_loop (pre @ b # (c XOR 32) # r) (Suc (Suc (length pre))) (len - 2) =
             Some (pre @ b # (c XOR 32) # r')" "length r' = length r"
          "take (nat (len - 2)) r' = upper_all (take (nat (len - 2)) r)"
          "drop (nat (len - 2) + 2) r' = drop (nat (len - 2) + 2) r" by auto
        moreover have "nat len = Suc (Suc (nat (len - 2)))" using True False by simp
        ultimately show ?thesis using True 2
          by (subst uppercase_loop.simps) (auto simp: slice_simps numeral_2_eq_2)
      qed
    next
      case (3 b c d r)
      show ?thesis
      proof (cases "len \<le> 2")
        case l2: True
        then consider "len = 1" | "len = 2" using True by linarith
        then show ?thesis using 3
          by cases (subst uppercase_loop.simps, subst uppercase_loop.simps,
              simp add: slice_simps numeral_2_eq_2 numeral_3_eq_3)+
      next
        case False
        have "nat (len - 3) < nat len" "nat (len - 3) + 2 \<le> length r"
          using True False less.prems 3 by auto
        from less.hyps [OF this, of "pre @ [b, c, d XOR 5]"] obtain r' where
          "uppercase_loop (pre @ b # c # (d XOR 5) # r) (Suc (Suc (Suc (length pre)))) (len - 3) =
             Some (pre @ b # c # (d XOR 5) # r')" "length r' = length r"
          "take (nat (len - 3)) r' = upper_all (take (nat (len - 3)) r)"
          "drop (nat (len - 3) + 2) r' = drop (nat (len - 3) + 2) r" by auto
        moreover have "nat len = Suc (Suc (Suc (nat (len - 3))))" using True False by simp
        ultimately show ?thesis using True 3
          by (subst uppercase_loop.simps) (auto simp: slice_simps numeral_3_eq_3)
      qed
    qed
  qed
qed

lemma kPrefixSuffix_affix:
  assumes "tr \<in> set kTransforms"
  shows "unat (tr_prefix_id tr) < length kPrefixSuffix" "unat (tr_suffix_id tr) < length kPrefixSuffix"
    "length (affix (tr_prefix_id tr)) + length (affix (tr_suffix_id tr)) \<le> 13"
    "tr_transform tr \<le> kOmitFirst9"
proof -
  have "list_all (\<lambda>tr. unat (tr_prefix_id tr) < length kPrefixSuffix \<and>
     unat (tr_suffix_id tr) < length kPrefixSuffix \<and>
     length (affix (tr_prefix_id tr)) + length (affix (tr_suffix_id tr)) \<le> 13 \<and>
     tr_transform tr \<le> kOmitFirst9) kTransforms"
    by code_simp
  then show "unat (tr_prefix_id tr) < length kPrefixSuffix" "unat (tr_suffix_id tr) < length kPrefixSuffix"
    "length (affix (tr_prefix_id tr)) + length (affix (tr_suffix_id tr)) \<le> 13"
    "tr_transform tr \<le> kOmitFirst9"
    using assms by (simp_all add: list_all_iff)
qed

text \<open>The part of the word that is copied, and the in-place change of letters.\<close>

definition kept_length :: "u8 \<Rightarrow> nat \<Rightarrow> nat" where
  "kept_length t n = (if t \<le> kOmitLast9 then n - unat t else if t < kOmitFirst1 then n else n - (unat t - 11))"

lemma length_upper_first [simp]: "length (upper_first w) = length w"
  by (cases w) (auto split: list.splits)

lemma length_upper_all [simp]: "length (upper_all w) = length w"
  by (induction w rule: upper_all.induct) (auto split: list.splits)

lemma length_transform_word: "length (transform_word t w) = kept_length t (length w)"
  by (auto simp: transform_word_def kept_length_def word_le_nat_alt word_less_nat_alt word_eq_iff_unsigned)

lemma affix_at:
  assumes "tr \<in> set kTransforms" "i = tr_prefix_id tr \<or> i = tr_suffix_id tr"
    "idx + length (affix i) \<le> length dst"
  shows "slice_from kPrefixSuffix (unat i) = Some (drop (unat i) kPrefixSuffix)"
    and "copy_until_zero dst idx (drop (unat i) kPrefixSuffix) =
      Some (take idx dst @ affix i @ drop (idx + length (affix i)) dst, idx + length (affix i))"
proof -
  have i: "unat i < length kPrefixSuffix"
    using kPrefixSuffix_affix [OF assms(1)] assms(2) by auto
  then show "slice_from kPrefixSuffix (unat i) = Some (drop (unat i) kPrefixSuffix)"
    by (simp add: slice_simps)
  have l: "last kPrefixSuffix = 0" "kPrefixSuffix \<noteq> []" by (simp_all add: kPrefixSuffix_def)
  then have "last (drop (unat i) kPrefixSuffix) = 0" "drop (unat i) kPrefixSuffix \<noteq> []" using i by simp_all
  then have "0 \<in> set (drop (unat i) kPrefixSuffix)" by (metis last_in_set)
  from copy_until_zero_Some [OF this] assms(3) show "copy_until_zero dst idx (drop (unat i) kPrefixSuffix) =
      Some (take idx dst @ affix i @ drop (idx + length (affix i)) dst, idx + length (affix i))"
    by (simp add: affix_def)
qed

lemma uppercase_at:
  assumes "n + 2 \<le> length q" "0 < n \<or> t = kUppercaseAll" "t = kUppercaseFirst \<or> t = kUppercaseAll"
  shows "\<exists>q'. (if t = kUppercaseFirst then map_option fst (ToUpperCase q)
      else if t = kUppercaseAll then uppercase_loop q 0 (int n) else Some q) = Some q' \<and>
    length q' = length q \<and> take n q' = transform_word t (take n q) \<and> drop (n + 2) q' = drop (n + 2) q"
proof (cases "t = kUppercaseFirst")
  case True
  have "3 \<le> length q" "0 < n" using assms True by auto
  from take_upper_first [OF this] True show ?thesis
    by (auto simp: transform_word_def)
next
  case False
  with assms(3) uppercase_loop_at [of "int n" q "[]"] assms(1) show ?thesis
    by (auto simp: transform_word_def)
qed

text \<open>
  The middle part of a transform: after the prefix the word, with the bytes that the transform
  omits skipped, is copied to position \<open>p\<close> of the buffer and changed in place.
\<close>

lemma middle_at:
  assumes t: "t \<le> kOmitFirst9" and len: "4 \<le> len" "len \<le> 24" and w: "nat len \<le> length word"
    and dst: "p \<le> 13" "42 \<le> length dst" "length dst < 2 ^ 31"
  defines "skip0 \<equiv> if t < kOmitFirst1 then 0 else int (unat t) - int (unat (kOmitFirst1 - 1))"
  defines "skip \<equiv> if skip0 > len then len else skip0"
  defines "len' \<equiv> if t \<le> kOmitLast9 then i32 (len - skip - int (unat t)) else len - skip"
  shows "\<exists>word' dst1 q q'. slice_from word (usize_of_i32 skip) = Some word' \<and>
    copy_from_input dst p word' 0 (nat len') = Some dst1 \<and> length dst1 = length dst \<and>
    slice_from dst1 (usize_of_i32 (i32 (int (p + nat len') - len'))) = Some q \<and>
    (if t = kUppercaseFirst then map_option fst (ToUpperCase q)
      else if t = kUppercaseAll then uppercase_loop q 0 len' else Some q) = Some q' \<and>
    nat len' = kept_length t (nat len) \<and>
    (\<exists>rest. take (usize_of_i32 (i32 (int (p + nat len') - len'))) dst1 @ q' =
       take p dst @ transform_word t (take (nat len) word) @ rest \<and>
     length rest = length dst - p - nat len' \<and>
     drop 2 rest = drop (p + nat len' + 2) dst)"
proof -
  let ?L = "nat len"
  note of_nat_unat [simp del]
  have t20: "unat t \<le> 20" using t by (simp add: word_le_nat_alt)
  define k where "k = kept_length t ?L"
  define s where "s = nat skip"
  have skip0: "0 \<le> skip0" "skip0 \<le> 9" using t20 by (auto simp: skip0_def word_less_nat_alt)
  then have skip: "0 \<le> skip" "skip \<le> len" "skip \<le> 9" using len by (auto simp: skip_def)
  have l9: "-5 \<le> len'" "len' \<le> 24" using skip len t20
    by (auto simp: len'_def skip_def skip0_def word_le_nat_alt word_less_nat_alt)
  have k: "nat len' = k" using len t20
    by (auto simp: k_def kept_length_def len'_def skip_def skip0_def word_le_nat_alt word_less_nat_alt)
  have ks: "s + k \<le> ?L" using k skip len
    by (auto simp: s_def len'_def word_le_nat_alt)
  let ?w = "drop s word"
  have word': "slice_from word (usize_of_i32 skip) = Some ?w"
    using skip w len by (simp add: slice_simps s_def)
  have k24: "k \<le> 24" using k l9 by simp
  let ?d = "take p dst @ take k ?w @ drop (p + k) dst"
  have copy: "copy_from_input dst p ?w 0 (nat len') = Some ?d"
    using copy_from_input_Some [of p k dst 0 ?w] k k24 dst ks w by simp
  have lend: "length ?d = length dst" using ks w k24 dst by simp
  have concl: ?thesis
    if m: "usize_of_i32 (i32 (int (p + nat len') - len')) = m" and q: "slice_from ?d m = Some q"
      and q': "(if t = kUppercaseFirst then map_option fst (ToUpperCase q)
        else if t = kUppercaseAll then uppercase_loop q 0 len' else Some q) = Some q'"
      and r: "take m ?d @ q' = take p dst @ transform_word t (take ?L word) @ rest"
        "length rest = length dst - p - k" "drop 2 rest = drop (p + k + 2) dst" for m q q' rest
    unfolding k m [unfolded k]
    by (rule exI [of _ ?w], rule exI [of _ ?d], rule exI [of _ q], rule exI [of _ q'], intro conjI exI [of _ rest])
       (fact word' copy [unfolded k] lend q q' k_def r)+
  show ?thesis
  proof (cases "0 \<le> len'")
    case True
    then have start: "usize_of_i32 (i32 (int (p + nat len') - len')) = p"
      using dst by simp
    let ?q = "take k ?w @ drop (p + k) dst"
    have q: "slice_from ?d p = Some ?q" and tp: "take p ?d = take p dst"
      using dst by (simp_all add: slice_simps)
    show ?thesis
    proof (cases "t = kUppercaseFirst \<or> t = kUppercaseAll")
      case up: True
      then have "k = ?L" "s = 0" using skip by (auto simp: k_def kept_length_def s_def skip_def skip0_def)
      then have tw: "take k ?q = take ?L word" "0 < k" "k + 2 \<le> length ?q"
        using dst k24 w ks len by auto
      obtain q' where q':
        "(if t = kUppercaseFirst then map_option fst (ToUpperCase ?q)
          else if t = kUppercaseAll then uppercase_loop ?q 0 (int k) else Some ?q) = Some q'"
        "length q' = length ?q" "take k q' = transform_word t (take ?L word)"
        "drop (k + 2) q' = drop (k + 2) ?q"
        using uppercase_at [OF tw(3) disjI1 [OF tw(2)] up] unfolding tw(1) by blast
      have ik: "int k = len'" using True k by simp
      have "q' = transform_word t (take ?L word) @ drop k q'"
        using q'(3) by (metis append_take_drop_id)
      then have "take p ?d @ q' = take p dst @ transform_word t (take ?L word) @ drop k q'"
        unfolding tp by (rule arg_cong)
      moreover have "drop 2 (drop k q') = drop (p + k + 2) dst"
        using q'(4) ks w by (simp add: add.commute)
      moreover have "length (drop k q') = length dst - p - k"
        using q'(2) ks w k24 dst by simp
      ultimately show ?thesis
        by (intro concl [OF start q q'(1) [unfolded ik]])
    next
      case nup: False
      have tw: "take k ?w = transform_word t (take ?L word)"
      proof (cases "t \<le> kOmitLast9")
        case True
        then have "s = 0" "k = ?L - unat t" using skip len
          by (auto simp: s_def skip_def skip0_def k_def kept_length_def word_le_nat_alt word_less_nat_alt)
        then show ?thesis using True w by (simp add: transform_word_def min_def)
      next
        case False
        then have "\<not> t < kOmitFirst1" using nup
          by (auto simp: word_less_nat_alt word_le_nat_alt word_unat_eq_iff)
        then have "s = min ?L (unat t - 11)" "k = ?L - (unat t - 11)" using False skip len
          by (auto simp: s_def skip_def skip0_def k_def kept_length_def word_le_nat_alt word_less_nat_alt)
        then show ?thesis using False nup w
          by (auto simp: transform_word_def drop_take min_def)
      qed
      have "take p ?d @ ?q = take p dst @ transform_word t (take ?L word) @ drop (p + k) dst"
        by (subst tp, subst tw) (rule refl)
      then show ?thesis
        by (rule concl [OF start q, rotated]) (use nup in \<open>simp_all add: add.commute\<close>)
    qed
  next
    case False
    then have t9: "t \<le> kOmitLast9" using skip by (auto simp: len'_def split: if_splits)
    have k0: "k = 0" using False k by simp
    define m where "m = p + nat (- len')"
    have start: "usize_of_i32 (i32 (int (p + nat len') - len')) = m"
      using False dst l9 by (simp add: m_def nat_add_distrib)
    have m: "p \<le> m" "m \<le> length dst" using l9 dst by (auto simp: m_def)
    have tw: "transform_word t (take ?L word) = []"
      using length_transform_word [of t "take ?L word"] w k0 by (simp add: k_def min_absorb2)
    have "take m ?d @ drop m ?d = take p dst @ transform_word t (take ?L word) @ drop p dst"
      using k0 tw by simp
    moreover have "slice_from ?d m = Some (drop m ?d)"
      using lend m by (simp only: slice_from_Some)
    moreover have "t \<noteq> kUppercaseFirst" "t \<noteq> kUppercaseAll" using t9 by auto
    ultimately show ?thesis using k0
      by (intro concl [OF start, of "drop m ?d" "drop m ?d" "drop p dst"]) simp_all
  qed
qed

lemma TransformDictionaryWord_at:
  assumes tr: "0 \<le> transform" "transform < kNumTransforms"
    and len: "4 \<le> len" "len \<le> 24" and w: "nat len \<le> length word"
    and dst: "42 \<le> length dst" "length dst < 2 ^ 31"
  shows "\<exists>dst'. TransformDictionaryWord dst word len transform =
      Some (dst', int (length (transformed (kTransforms ! nat transform) (take (nat len) word)))) \<and>
    length dst' = length dst \<and>
    take (length (transformed (kTransforms ! nat transform) (take (nat len) word))) dst' =
      transformed (kTransforms ! nat transform) (take (nat len) word) \<and>
    drop 42 dst' = drop 42 dst"
proof -
  define tr where "tr = kTransforms ! nat transform"
  have lenk: "length kTransforms = 121" by code_simp
  then have tr_in: "tr \<in> set kTransforms"
    using assms by (simp add: tr_def kNumTransforms_def)
  have get: "get kTransforms (usize_of_i32 transform) = Some tr"
    using assms lenk by (simp add: tr_def kNumTransforms_def slice_simps)
  note affix = kPrefixSuffix_affix [OF tr_in]
  let ?P = "affix (tr_prefix_id tr)" and ?S = "affix (tr_suffix_id tr)"
  let ?t = "tr_transform tr" and ?w = "take (nat len) word"
  define p where "p = length ?P"
  define d0 where "d0 = ?P @ drop p dst"
  have p13: "p \<le> 13" using affix(3) by (simp add: p_def)
  have pre: "slice_from kPrefixSuffix (unat (tr_prefix_id tr)) = Some (drop (unat (tr_prefix_id tr)) kPrefixSuffix)"
    "copy_until_zero dst 0 (drop (unat (tr_prefix_id tr)) kPrefixSuffix) = Some (d0, p)"
    using affix_at [OF tr_in disjI1 [OF refl], of 0 dst] p13 dst by (simp_all add: p_def d0_def)
  have d0: "length d0 = length dst" "take p d0 = ?P" "drop k d0 = drop k dst" if "p \<le> k" for k
    using p13 dst that by (simp_all add: d0_def p_def)
  then have d42: "42 \<le> length d0" "length d0 < 2 ^ 31" using dst d0(1) [of p] by simp_all
  let ?skip0 = "if ?t < kOmitFirst1 then 0 else int (unat ?t) - int (unat (kOmitFirst1 - 1))"
  let ?skip = "if ?skip0 > len then len else ?skip0"
  define len' where "len' = (if ?t \<le> kOmitLast9 then i32 (len - ?skip - int (unat ?t)) else len - ?skip)"
  let ?n = "nat len'"
  let ?st = "usize_of_i32 (i32 (int (p + ?n) - len'))"
  obtain word' dst1 q q' rest where mid:
    "slice_from word (usize_of_i32 ?skip) = Some word'"
    "copy_from_input d0 p word' 0 ?n = Some dst1" "slice_from dst1 ?st = Some q"
    "(if ?t = kUppercaseFirst then map_option fst (ToUpperCase q)
      else if ?t = kUppercaseAll then uppercase_loop q 0 len' else Some q) = Some q'"
    "?n = kept_length ?t (nat len)"
    "take ?st dst1 @ q' = take p d0 @ transform_word ?t ?w @ rest"
    "length rest = length d0 - p - ?n" "drop 2 rest = drop (p + ?n + 2) d0"
    using middle_at [OF affix(4) len w p13 d42] unfolding len'_def [symmetric] by blast
  have n24: "?n \<le> 24" using mid(5) len by (auto simp: kept_length_def)
  have lt: "length (transform_word ?t ?w) = ?n"
    unfolding length_transform_word mid(5) using w by (simp add: min_absorb2)
  let ?d = "?P @ transform_word ?t ?w @ rest"
  have mid6: "take ?st dst1 @ q' = ?d" using mid(6) d0(2) [of p] by simp
  have ld: "length ?d = length dst"
    using lt mid(7) d0(1) [of p] p13 n24 dst by (simp add: p_def)
  let ?m = "p + ?n + length ?S"
  have m37: "?m \<le> 37" using affix(3) n24 by (simp add: p_def)
  have suf: "slice_from kPrefixSuffix (unat (tr_suffix_id tr)) = Some (drop (unat (tr_suffix_id tr)) kPrefixSuffix)"
    "copy_until_zero ?d (p + ?n) (drop (unat (tr_suffix_id tr)) kPrefixSuffix) =
      Some (take (p + ?n) ?d @ ?S @ drop ?m ?d, ?m)"
    using affix_at [OF tr_in disjI2 [OF refl], of "p + ?n" ?d] m37 dst ld by simp_all
  have T: "length (transformed tr ?w) = ?m" using lt by (simp add: transformed_def p_def)
  have tk: "take (p + ?n) ?d = ?P @ transform_word ?t ?w" using lt by (simp add: p_def)
  let ?r = "take (p + ?n) ?d @ ?S @ drop ?m ?d"
  have res: "TransformDictionaryWord dst word len transform = Some (?r, int ?m)"
    by (simp only: TransformDictionaryWord_def get pre Let_def len'_def [symmetric] mid(1-4) mid6 suf
        bind.bind_lunit prod.case)
  have "drop 42 ?d = drop (42 - (p + ?n)) rest" using lt m37 by (simp add: p_def)
  also have "\<dots> = drop (40 - (p + ?n)) (drop 2 rest)"
    using m37 by (simp add: add.commute Suc_diff_le numeral_eq_Suc)
  also have "\<dots> = drop 42 dst"
    unfolding mid(8) using m37 d0(3) [of 42] p13 by simp
  finally have "drop 42 ?r = drop 42 dst"
    using m37 ld dst lt by (simp add: p_def)
  moreover have "take ?m ?r = transformed tr ?w"
    unfolding tk transformed_def using lt by (simp add: p_def)
  moreover have "length ?r = length dst"
  proof -
    have "length (take a d @ s @ drop (a + length s) d) = length d" if "a + length s \<le> length d"
      for a and s d :: "u8 list" using that by simp
    from this [of "p + ?n" ?S ?d] show ?thesis unfolding ld using m37 dst by simp
  qed
  ultimately show ?thesis unfolding tr_def [symmetric] res T by blast
qed

lemma length_transformed:
  assumes "tr \<in> set kTransforms"
  shows "length (transformed tr w) \<le> length w + 13"
proof -
  have "length (transform_word (tr_transform tr) w) \<le> length w"
    by (simp add: length_transform_word kept_length_def)
  then show ?thesis using kPrefixSuffix_affix(3) [OF assms] by (simp add: transformed_def)
qed

lemma length_kTransforms [simp]: "length kTransforms = 121"
  by code_simp

text \<open>The words of length \<open>n\<close> fill the interval between two consecutive offsets.\<close>

lemma dictionary_layout:
  assumes "4 \<le> n" "n \<le> 24"
  shows "unat (kBrotliDictionaryOffsetsByLength ! n) + n * 2 ^ unat (kBrotliDictionarySizeBitsByLength ! n) =
    (if n = 24 then 122784 else unat (kBrotliDictionaryOffsetsByLength ! (n + 1)))"
proof -
  have "\<forall>n \<in> set [4..<25].
    unat (kBrotliDictionaryOffsetsByLength ! n) + n * 2 ^ unat (kBrotliDictionarySizeBitsByLength ! n) =
    (if n = 24 then 122784 else unat (kBrotliDictionaryOffsetsByLength ! (n + 1)))"
    by (simp add: kBrotliDictionaryOffsetsByLength_def kBrotliDictionarySizeBitsByLength_def upt_rec)
  moreover have "n \<in> set [4..<25]"
    using assms unfolding set_upt atLeastLessThan_iff by linarith
  ultimately show ?thesis by (rule bspec)
qed

lemma dictionary_offset_le:
  assumes "4 \<le> n" "n \<le> 24"
  shows "unat (kBrotliDictionaryOffsetsByLength ! n) + n * 2 ^ unat (kBrotliDictionarySizeBitsByLength ! n)
    \<le> 122784"
proof -
  have "\<forall>n \<in> set [4..<25].
    unat (kBrotliDictionaryOffsetsByLength ! n) + n * 2 ^ unat (kBrotliDictionarySizeBitsByLength ! n)
    \<le> 122784"
    by (simp add: kBrotliDictionaryOffsetsByLength_def kBrotliDictionarySizeBitsByLength_def upt_rec)
  moreover have "n \<in> set [4..<25]"
    using assms unfolding set_upt atLeastLessThan_iff by linarith
  ultimately show ?thesis by (rule bspec)
qed

subsection \<open>Properties\<close>

text \<open>C35: For every transform and every dictionary word of 4 to 24 bytes, \<open>TransformDictionaryWord\<close>
  does not panic if the buffer has 42 bytes left (the slack the ring buffer keeps), writes the prefix,
  the transformed word and the suffix, returns their length, which exceeds that of the word by
  at most 13, and leaves everything beyond the 42 bytes as it was.\<close>

theorem TransformDictionaryWord_correct:
  assumes "0 \<le> transform" "transform < kNumTransforms" "4 \<le> len" "len \<le> 24" "nat len \<le> length word"
    "42 \<le> length dst" "length dst < 2 ^ 31"
  shows "\<exists>dst' n. TransformDictionaryWord dst word len transform = Some (dst', int n) \<and>
    n \<le> nat len + 13 \<and>
    take n dst' = transformed (kTransforms ! nat transform) (take (nat len) word) \<and>
    length dst' = length dst \<and> drop 42 dst' = drop 42 dst"
proof -
  have "kTransforms ! nat transform \<in> set kTransforms"
    using assms by (simp add: kNumTransforms_def)
  then have "length (transformed (kTransforms ! nat transform) (take (nat len) word)) \<le> nat len + 13"
    using length_transformed [of _ "take (nat len) word"] assms(5) by fastforce
  with TransformDictionaryWord_at [OF assms] show ?thesis by blast
qed

theorem TransformDictionaryWord_correct_witness:
  "\<exists>dst' n. TransformDictionaryWord (replicate 42 0) [116, 105, 109, 101, 100] 4 44 = Some (dst', int n) \<and>
    n \<le> nat 4 + 13 \<and>
    take n dst' = transformed (kTransforms ! nat 44) (take (nat 4) [116, 105, 109, 101, 100]) \<and>
    length dst' = length (replicate 42 (0 :: u8)) \<and> drop 42 dst' = drop 42 (replicate 42 0)"
  by (rule TransformDictionaryWord_correct) (simp_all add: kNumTransforms_def)

text \<open>C36: The words of each length from 4 to 24 lie one after the other in the dictionary: every
  word index with as many bits as the length allows addresses a word inside the 122784 bytes, and
  words of a smaller length end before it begins.\<close>

theorem dictionary_words_in_bounds:
  assumes "4 \<le> n" "n \<le> 24" "i < 2 ^ unat (kBrotliDictionarySizeBitsByLength ! n)"
  shows "unat (kBrotliDictionaryOffsetsByLength ! n) + i * n + n \<le> 122784 \<and>
    (n < 24 \<longrightarrow> unat (kBrotliDictionaryOffsetsByLength ! n) + i * n + n \<le>
       unat (kBrotliDictionaryOffsetsByLength ! (n + 1)))"
proof -
  have "i * n + n \<le> n * 2 ^ unat (kBrotliDictionarySizeBitsByLength ! n)"
    using mult_le_mono1 [of "Suc i" "2 ^ unat (kBrotliDictionarySizeBitsByLength ! n)" n] assms(3)
    by (simp add: mult.commute add.commute)
  then show ?thesis
    using dictionary_layout [OF assms(1,2)] dictionary_offset_le [OF assms(1,2)]
    by (auto split: if_splits)
qed

theorem dictionary_words_in_bounds_witness:
  "unat (kBrotliDictionaryOffsetsByLength ! 5) + 7 * 5 + 5 \<le> (122784 :: nat) \<and>
    unat (kBrotliDictionaryOffsetsByLength ! 5) + 7 * 5 + 5 \<le>
       unat (kBrotliDictionaryOffsetsByLength ! 6)"
proof -
  have "(7 :: nat) < 2 ^ unat (kBrotliDictionarySizeBitsByLength ! 5)"
    by (simp add: kBrotliDictionarySizeBitsByLength_def)
  from dictionary_words_in_bounds [of 5 7, OF _ _ this] show ?thesis by simp
qed

end
