(* ===== verification/Block_Switch.thy ===== *)
theory Block_Switch
  imports Context_Map Prefix_Codes
begin

text \<open>
  Block types and block lengths, from \<open>src/decode.rs\<close>: reading a block length with its extra bits,
  the switch to the next block of a category (0 literals, 1 commands, 2 distances) with its
  ring of the last two block types, and what a switch changes of the decoder's state.
\<close>

subsection \<open>Block lengths\<close>

definition ReadBlockLength ::
  "HuffmanCode list \<Rightarrow> BrotliBitReader \<Rightarrow> u8 list \<Rightarrow> (u32 \<times> BrotliBitReader) option" where
  "ReadBlockLength table br input = do {
     (code, br) \<leftarrow> ReadSymbol table br input;
     r \<leftarrow> get kBlockLengthPrefixCode (unat code);
     (bits, br) \<leftarrow> BrotliReadBits br (ucast (pc_nbits r)) input;
     Some (ucast (pc_offset r) + bits, br)
   }"

definition SafeReadBlockLengthIndex ::
  "BrotliRunningReadBlockLengthState \<Rightarrow> u32 \<Rightarrow> HuffmanCode list \<Rightarrow> BrotliBitReader \<Rightarrow> u8 list \<Rightarrow>
     ((bool \<times> u32) \<times> BrotliBitReader) option" where
  "SafeReadBlockLengthIndex substate block_length_index table br input = (case substate of
     BROTLI_STATE_READ_BLOCK_LENGTH_NONE \<Rightarrow> do {
       (ok, br, index) \<leftarrow> SafeReadSymbol table br 0 input;
       if \<not> ok then Some ((False, 0), br) else Some ((True, index), br)
     }
   | _ \<Rightarrow> Some ((True, block_length_index), br))"

definition SafeReadBlockLengthFromIndex ::
  "BlockTypeAndLengthState \<Rightarrow> BrotliBitReader \<Rightarrow> u32 \<Rightarrow> bool \<times> u32 \<Rightarrow> u8 list \<Rightarrow>
     (bool \<times> BlockTypeAndLengthState \<times> BrotliBitReader \<times> u32) option" where
  "SafeReadBlockLengthFromIndex s br result res_index input =
    (let (res, index) = res_index in
     if \<not> res then Some (False, s, br, result)
     else do {
       r \<leftarrow> get kBlockLengthPrefixCode (unat index);
       (ok, bits, br) \<leftarrow> BrotliSafeReadBits br (ucast (pc_nbits r)) 0 input;
       if \<not> ok
       then Some (False, s\<lparr>bt_block_length_index := index,
                    bt_substate_read_block_length := BROTLI_STATE_READ_BLOCK_LENGTH_SUFFIX\<rparr>, br, result)
       else Some (True, s\<lparr>bt_substate_read_block_length := BROTLI_STATE_READ_BLOCK_LENGTH_NONE\<rparr>,
                  br, ucast (pc_offset r) + bits)
     })"

subsection \<open>Block switches\<close>

text \<open>The new block type from the type code and the last two types, and the new pair of last types.\<close>

definition next_block_type :: "u32 \<Rightarrow> u32 \<Rightarrow> u32 \<Rightarrow> u32 \<Rightarrow> u32" where
  "next_block_type max_block_type r0 r1 block_type =
    (let block_type =
       (if block_type = 1 then r1 + 1 else if block_type = 0 then r0 else block_type - 2)
     in if block_type \<ge> max_block_type then block_type - max_block_type else block_type)"

definition rotate_block_types ::
  "BlockTypeAndLengthState \<Rightarrow> nat \<Rightarrow> u32 \<Rightarrow> u32 \<Rightarrow> BlockTypeAndLengthState option" where
  "rotate_block_types s tree_type max_block_type block_type = do {
     ringbuffer \<leftarrow> slice_from (bt_block_type_rb s) (tree_type * 2);
     r0 \<leftarrow> get ringbuffer 0;
     r1 \<leftarrow> get ringbuffer 1;
     let block_type = next_block_type max_block_type r0 r1 block_type;
     ringbuffer \<leftarrow> put ringbuffer 0 r1;
     ringbuffer \<leftarrow> put ringbuffer 1 block_type;
     Some (s\<lparr>bt_block_type_rb := take (tree_type * 2) (bt_block_type_rb s) @ ringbuffer\<rparr>)
   }"

definition DecodeBlockTypeAndLength ::
  "bool \<Rightarrow> BlockTypeAndLengthState \<Rightarrow> BrotliBitReader \<Rightarrow> nat \<Rightarrow> u8 list \<Rightarrow>
     (bool \<times> BlockTypeAndLengthState \<times> BrotliBitReader) option" where
  "DecodeBlockTypeAndLength safe s br tree_type input = do {
     max_block_type \<leftarrow> get (bt_num_block_types s) tree_type;
     let tree_offset = tree_type * BROTLI_HUFFMAN_MAX_TABLE_SIZE;
     if max_block_type \<le> 1 then Some (False, s, br)
     else if \<not> safe then do {
       type_tree \<leftarrow> slice_from (bt_block_type_trees s) tree_offset;
       (block_type, br) \<leftarrow> ReadSymbol type_tree br input;
       len_tree \<leftarrow> slice_from (bt_block_len_trees s) tree_offset;
       (len, br) \<leftarrow> ReadBlockLength len_tree br input;
       lengths \<leftarrow> put (bt_block_length s) tree_type len;
       s \<leftarrow> rotate_block_types (s\<lparr>bt_block_length := lengths\<rparr>) tree_type max_block_type block_type;
       Some (True, s, br)
     } else do {
       let memento = BrotliBitReaderSaveState br;
       type_tree \<leftarrow> slice_from (bt_block_type_trees s) tree_offset;
       (ok, br, block_type) \<leftarrow> SafeReadSymbol type_tree br 0 input;
       if \<not> ok then Some (False, s, br)
       else do {
         len_tree \<leftarrow> slice_from (bt_block_len_trees s) tree_offset;
         (index_ret, br) \<leftarrow> SafeReadBlockLengthIndex (bt_substate_read_block_length s)
           (bt_block_length_index s) len_tree br input;
         (ok, s, br, len) \<leftarrow> SafeReadBlockLengthFromIndex s br 0 index_ret input;
         if \<not> ok
         then Some (False, s\<lparr>bt_substate_read_block_length := BROTLI_STATE_READ_BLOCK_LENGTH_NONE\<rparr>,
                    BrotliBitReaderRestoreState br memento)
         else do {
           lengths \<leftarrow> put (bt_block_length s) tree_type len;
           s \<leftarrow> rotate_block_types (s\<lparr>bt_block_length := lengths\<rparr>) tree_type max_block_type block_type;
           Some (True, s, br)
         }
       }
     }
   }"

subsection \<open>Literal blocks\<close>

definition kLiteralContextBits :: nat where
  [simp]: "kLiteralContextBits = 6"

text \<open>The inner loop, over the contexts of one block type: the source unrolls it four times.\<close>

fun context_difference :: "u8 list \<Rightarrow> nat \<Rightarrow> u8 \<Rightarrow> nat \<Rightarrow> u8 \<Rightarrow> u8 option" where
  "context_difference context_map i sample 0 error = Some error"
| "context_difference context_map i sample (Suc n) error = do {
     c \<leftarrow> get context_map i;
     context_difference context_map (i + 1) sample n (error OR (c XOR sample))
   }"

fun detect_trivial :: "u8 list \<Rightarrow> u32 list \<Rightarrow> nat \<Rightarrow> nat \<Rightarrow> u32 list option" where
  "detect_trivial context_map contexts i 0 = Some contexts"
| "detect_trivial context_map contexts i (Suc n) = do {
     let offset = push_bit kLiteralContextBits i;
     sample \<leftarrow> get context_map offset;
     error \<leftarrow> context_difference context_map offset sample (push_bit kLiteralContextBits 1) 0;
     contexts \<leftarrow>
       (if error = 0 then do {
          c \<leftarrow> get contexts (drop_bit 5 i);
          put contexts (drop_bit 5 i) (c OR shl32 1 (of_nat (i AND 31)))
        } else Some contexts);
     detect_trivial context_map contexts (i + 1) n
   }"

definition DetectTrivialLiteralBlockTypes :: "BrotliState \<Rightarrow> BrotliState option" where
  "DetectTrivialLiteralBlockTypes s = do {
     n \<leftarrow> get (bt_num_block_types (s_block_type_length_state s)) 0;
     contexts \<leftarrow> detect_trivial (s_context_map s)
       (replicate (length (s_trivial_literal_contexts s)) 0) 0 (unat n);
     Some (s\<lparr>s_trivial_literal_contexts := contexts\<rparr>)
   }"

definition PrepareLiteralDecoding :: "BrotliState \<Rightarrow> BrotliState option" where
  "PrepareLiteralDecoding s = do {
     bt \<leftarrow> get (bt_block_type_rb (s_block_type_length_state s)) 1;
     let block_type = unat bt;
     let context_offset = (of_nat (push_bit kLiteralContextBits block_type) :: u32);
     let index = unat context_offset;
     trivial \<leftarrow> get (s_trivial_literal_contexts s) (drop_bit 5 block_type);
     htree \<leftarrow> get (s_context_map s) index;
     mode \<leftarrow> get (s_context_modes s) block_type;
     lookup \<leftarrow> get kContextLookup (unat (mode AND 3));
     Some (s\<lparr>s_context_map_slice_index := index,
             s_trivial_literal_context := uint (shr32 trivial (of_nat (block_type AND 31)) AND 1),
             s_literal_htree_index := htree,
             s_context_lookup := lookup\<rparr>)
   }"

definition DecodeLiteralBlockSwitchInternal ::
  "bool \<Rightarrow> BrotliState \<Rightarrow> u8 list \<Rightarrow> (bool \<times> BrotliState) option" where
  "DecodeLiteralBlockSwitchInternal safe s input = do {
     (ok, bt, br) \<leftarrow> DecodeBlockTypeAndLength safe (s_block_type_length_state s) (s_br s) 0 input;
     let s = s\<lparr>s_block_type_length_state := bt, s_br := br\<rparr>;
     if \<not> ok then Some (False, s)
     else do { s \<leftarrow> PrepareLiteralDecoding s; Some (True, s) }
   }"

subsection \<open>Command and distance blocks\<close>

definition DecodeCommandBlockSwitchInternal ::
  "bool \<Rightarrow> BrotliState \<Rightarrow> u8 list \<Rightarrow> (bool \<times> BrotliState) option" where
  "DecodeCommandBlockSwitchInternal safe s input = do {
     (ok, bt, br) \<leftarrow> DecodeBlockTypeAndLength safe (s_block_type_length_state s) (s_br s) 1 input;
     let s = s\<lparr>s_block_type_length_state := bt, s_br := br\<rparr>;
     if \<not> ok then Some (False, s)
     else do {
       t \<leftarrow> get (bt_block_type_rb (s_block_type_length_state s)) 3;
       Some (True, s\<lparr>s_htree_command_index := ucast t\<rparr>)
     }
   }"

definition kDistanceContextBits :: int where
  [simp]: "kDistanceContextBits = 2"

definition DecodeDistanceBlockSwitchInternal ::
  "bool \<Rightarrow> BrotliState \<Rightarrow> u8 list \<Rightarrow> (bool \<times> BrotliState) option" where
  "DecodeDistanceBlockSwitchInternal safe s input = do {
     (ok, bt, br) \<leftarrow> DecodeBlockTypeAndLength safe (s_block_type_length_state s) (s_br s) 2 input;
     let s = s\<lparr>s_block_type_length_state := bt, s_br := br\<rparr>;
     if \<not> ok then Some (False, s)
     else do {
       t \<leftarrow> get (bt_block_type_rb (s_block_type_length_state s)) 5;
       let s = s\<lparr>s_dist_context_map_slice_index := unat (shl32 t (u32_of_i32 kDistanceContextBits))\<rparr>;
       htree \<leftarrow> get (s_dist_context_map s)
         (s_dist_context_map_slice_index s + usize_of_i32 (s_distance_context s));
       Some (True, s\<lparr>s_dist_htree_index := htree\<rparr>)
     }
   }"

text \<open>The wrappers that fix the flag.\<close>

definition DecodeCommandBlockSwitch :: "BrotliState \<Rightarrow> u8 list \<Rightarrow> BrotliState option" where
  "DecodeCommandBlockSwitch s input = map_option snd (DecodeCommandBlockSwitchInternal False s input)"

definition SafeDecodeCommandBlockSwitch ::
  "BrotliState \<Rightarrow> u8 list \<Rightarrow> (bool \<times> BrotliState) option" where
  "SafeDecodeCommandBlockSwitch s input = DecodeCommandBlockSwitchInternal True s input"

definition DecodeDistanceBlockSwitch :: "BrotliState \<Rightarrow> u8 list \<Rightarrow> BrotliState option" where
  "DecodeDistanceBlockSwitch s input = map_option snd (DecodeDistanceBlockSwitchInternal False s input)"

definition SafeDecodeDistanceBlockSwitch ::
  "BrotliState \<Rightarrow> u8 list \<Rightarrow> (bool \<times> BrotliState) option" where
  "SafeDecodeDistanceBlockSwitch s input = DecodeDistanceBlockSwitchInternal True s input"

subsection \<open>Context modes\<close>

text \<open>The loop over the modes of the block types from \<open>i\<close>, \<open>n\<close> of them.\<close>

fun read_context_modes ::
  "BrotliState \<Rightarrow> int \<Rightarrow> nat \<Rightarrow> u8 list \<Rightarrow> (BrotliDecoderErrorCode \<times> BrotliState) option" where
  "read_context_modes s i 0 input = Some (BROTLI_DECODER_SUCCESS, s)"
| "read_context_modes s i (Suc n) input = do {
     (ok, bits, s) \<leftarrow> read_bits s 2 input;
     if \<not> ok then Some (BROTLI_DECODER_NEEDS_MORE_INPUT, s\<lparr>s_loop_counter := i\<rparr>)
     else do {
       modes \<leftarrow> put (s_context_modes s) (usize_of_i32 i) (ucast bits);
       read_context_modes (s\<lparr>s_context_modes := modes\<rparr>) (i + 1) n input
     }
   }"

definition ReadContextModes ::
  "BrotliState \<Rightarrow> u8 list \<Rightarrow> (BrotliDecoderErrorCode \<times> BrotliState) option" where
  "ReadContextModes s input = do {
     let i = s_loop_counter s;
     n \<leftarrow> get (bt_num_block_types (s_block_type_length_state s)) 0;
     modes \<leftarrow> slice (s_context_modes s) (usize_of_i32 i) (unat n);
     read_context_modes s i (length modes) input
   }"

end
