(* ===== verification/Block_Spec.thy ===== *)
theory Block_Spec
  imports Block_Switch Context_Map_Spec
begin

text \<open>
  The codes of numbers by ranges (a prefix code for the range, extra bits for the number in it), and
  the correctness of the block switches of \<open>Block_Switch\<close>: an encoding of block lengths and block
  types and the proof that \<open>ReadBlockLength\<close>, \<open>SafeReadBlockLengthIndex\<close> and
  \<open>DecodeBlockTypeAndLength\<close> invert it in the fast and in the safe version, on states of the ring
  of block types that every switch preserves.
\<close>

subsection \<open>Codes for ranges of numbers\<close>

text \<open>
  A table of ranges, each with its first number and its number of extra bits, the code of a number
  in it, and its extra bits. A table without gaps has a code for every number from its first to its
  last.
\<close>

definition contiguous :: "(u16 \<times> u8) list \<Rightarrow> bool" where
  "contiguous rs \<longleftrightarrow> rs \<noteq> [] \<and>
     (\<forall>i. Suc i < length rs \<longrightarrow> unat (fst (rs ! Suc i)) = unat (fst (rs ! i)) + 2 ^ unat (snd (rs ! i)))"

definition range_index :: "(u16 \<times> u8) list \<Rightarrow> nat \<Rightarrow> nat" where
  "range_index rs n = length (takeWhile (\<lambda>r. unat (fst r) \<le> n) rs) - 1"

definition range_extra :: "(u16 \<times> u8) list \<Rightarrow> nat \<Rightarrow> nat" where
  "range_extra rs n = n - unat (fst (rs ! range_index rs n))"

definition in_ranges :: "(u16 \<times> u8) list \<Rightarrow> nat \<Rightarrow> bool" where
  "in_ranges rs n \<longleftrightarrow> unat (fst (hd rs)) \<le> n \<and> n < unat (fst (last rs)) + 2 ^ unat (snd (last rs))"

definition range_bits :: "(u16 \<times> u8) list \<Rightarrow> nat \<Rightarrow> bool list" where
  "range_bits rs n = bits_of_word (unat (snd (rs ! range_index rs n))) (of_nat (range_extra rs n) :: u32)"

lemma range_index_at:
  assumes "contiguous rs" "in_ranges rs n"
  shows "range_index rs n < length rs" "unat (fst (rs ! range_index rs n)) \<le> n"
    "n < unat (fst (rs ! range_index rs n)) + 2 ^ unat (snd (rs ! range_index rs n))"
proof -
  let ?P = "\<lambda>r. unat (fst r) \<le> n"
  define j where "j = length (takeWhile ?P rs)"
  have ne: "rs \<noteq> []" using assms(1) by (simp add: contiguous_def)
  have "?P (hd rs)" using assms(2) by (simp add: in_ranges_def)
  then have "0 < j" using ne by (cases rs) (simp_all add: j_def)
  have le: "j \<le> length rs" by (simp add: j_def length_takeWhile_le)
  have i: "range_index rs n = j - 1" by (simp add: range_index_def j_def)
  show less: "range_index rs n < length rs" using \<open>0 < j\<close> le i by simp
  have "takeWhile ?P rs ! (j - 1) = rs ! (j - 1)" using \<open>0 < j\<close> by (intro takeWhile_nth) (simp add: j_def)
  moreover have "?P (takeWhile ?P rs ! (j - 1))"
    using \<open>0 < j\<close> set_takeWhileD [of _ ?P rs] by (metis diff_less j_def nth_mem zero_less_one)
  ultimately show "unat (fst (rs ! range_index rs n)) \<le> n" by (simp add: i)
  show "n < unat (fst (rs ! range_index rs n)) + 2 ^ unat (snd (rs ! range_index rs n))"
  proof (cases "j < length rs")
    case True
    then have "\<not> ?P (rs ! j)" unfolding j_def by (rule nth_length_takeWhile)
    moreover have "unat (fst (rs ! j)) = unat (fst (rs ! (j - 1))) + 2 ^ unat (snd (rs ! (j - 1)))"
      using assms(1) True \<open>0 < j\<close> unfolding contiguous_def by (metis Suc_pred')
    ultimately show ?thesis by (simp add: i)
  next
    case False
    then have "rs ! (j - 1) = last rs" using le ne by (simp add: last_conv_nth)
    then show ?thesis using assms(2) by (simp add: i in_ranges_def)
  qed
qed

lemma length_range_bits [simp]: "length (range_bits rs n) = unat (snd (rs ! range_index rs n))"
  by (simp add: range_bits_def)

text \<open>Reading the extra bits gives back the number.\<close>

lemma range_bits_value:
  assumes "contiguous rs" "in_ranges rs n" "unat (snd (rs ! range_index rs n)) \<le> 24"
  shows "ucast (fst (rs ! range_index rs n)) +
      (word_of_bits (take (unat (snd (rs ! range_index rs n))) (range_bits rs n @ rest)) :: u32) = of_nat n"
proof -
  let ?r = "rs ! range_index rs n"
  note r = range_index_at [OF assms(1,2)]
  have extra: "range_extra rs n < 2 ^ unat (snd ?r)" using r by (simp add: range_extra_def)
  have "(2 :: nat) ^ unat (snd ?r) \<le> 2 ^ 24" using assms(3) by (intro power_increasing) simp_all
  then have small: "range_extra rs n < 2 ^ 32" using extra by simp
  have "word_of_bits (take (unat (snd ?r)) (range_bits rs n @ rest)) = (of_nat (range_extra rs n) :: u32)"
  proof -
    have "take_bit (unat (snd ?r)) (of_nat (range_extra rs n) :: u32) = of_nat (range_extra rs n)"
      using extra by (simp add: word_unat_eq_iff unsigned_take_bit_eq unat_of_nat_u32 [OF small] take_bit_nat_eq_self)
    then show ?thesis by (simp add: range_bits_def word_of_bits_of_word)
  qed
  moreover have "(ucast (fst ?r) :: u32) = of_nat (unat (fst ?r))"
    by (simp add: word_unat_eq_iff unat_ucast_u16 unat_of_nat_u32 [OF order_less_trans [OF unsigned_less]])
  moreover have "unat (fst ?r) + range_extra rs n = n" using r by (simp add: range_extra_def)
  ultimately show ?thesis by (metis of_nat_add)
qed

subsection \<open>Block lengths\<close>

definition block_ranges :: "(u16 \<times> u8) list" where
  "block_ranges = map (\<lambda>r. (pc_offset r, pc_nbits r)) kBlockLengthPrefixCode"

lemma block_ranges:
  "contiguous block_ranges" "length block_ranges = 26"
  "in_ranges block_ranges n \<longleftrightarrow> 1 \<le> n \<and> n < 16625 + 2 ^ 24"
proof -
  have "\<forall>i \<in> set [0..<25]. unat (fst (block_ranges ! Suc i)) =
      unat (fst (block_ranges ! i)) + 2 ^ unat (snd (block_ranges ! i))"
    by (simp add: block_ranges_def kBlockLengthPrefixCode_def upt_rec)
  then show "contiguous block_ranges"
    by (auto simp: contiguous_def block_ranges_def kBlockLengthPrefixCode_def)
  show "length block_ranges = 26" by (simp add: block_ranges_def)
  show "in_ranges block_ranges n \<longleftrightarrow> 1 \<le> n \<and> n < 16625 + 2 ^ 24"
    by (simp add: in_ranges_def block_ranges_def kBlockLengthPrefixCode_def)
qed

lemma block_range_bits: "i < 26 \<Longrightarrow> unat (snd (block_ranges ! i)) \<le> 24"
proof -
  have "\<forall>i \<in> set [0..<26]. unat (snd (block_ranges ! i)) \<le> 24"
    by (simp add: block_ranges_def kBlockLengthPrefixCode_def upt_rec)
  then show "i < 26 \<Longrightarrow> unat (snd (block_ranges ! i)) \<le> 24" by simp
qed

lemma get_block_range:
  assumes "i < 26"
  shows "\<exists>r. get kBlockLengthPrefixCode i = Some r \<and> pc_offset r = fst (block_ranges ! i) \<and> pc_nbits r = snd (block_ranges ! i)"
  using assms by (simp add: get_def block_ranges_def)

text \<open>The code of a block length: the code word of its range, then the extra bits.\<close>

definition block_length_bits :: "code \<Rightarrow> nat \<Rightarrow> bool list" where
  "block_length_bits code n =
    codeword code (symbol_index code (range_index block_ranges n)) @ range_bits block_ranges n"

definition codable :: "code \<Rightarrow> nat \<Rightarrow> bool" where
  "codable code v \<longleftrightarrow> v \<in> unat ` fst ` set code"

lemma block_length_at:
  assumes d: "decodes table code" and n: "1 \<le> n" "n < 16625 + 2 ^ 24"
    and c: "codable code (range_index block_ranges n)"
  shows "\<exists>s l r. symbol_at table (block_length_bits code n @ rest) = (s, l) \<and> l \<le> length (block_length_bits code n @ rest) \<and>
    drop l (block_length_bits code n @ rest) = range_bits block_ranges n @ rest \<and>
    unat (ucast s :: u32) = range_index block_ranges n \<and>
    get kBlockLengthPrefixCode (unat (ucast s :: u32)) = Some r \<and> unat (ucast (pc_nbits r) :: u32) \<le> 24 \<and>
    unat (ucast (pc_nbits r) :: u32) = length (range_bits block_ranges n) \<and>
    ucast (pc_offset r) + (word_of_bits (take (unat (ucast (pc_nbits r) :: u32)) (range_bits block_ranges n @ rest)) :: u32) = of_nat n"
proof -
  have ranges: "in_ranges block_ranges n" using n block_ranges(3) by simp
  have i: "range_index block_ranges n < 26" using range_index_at(1) [OF block_ranges(1) ranges] block_ranges(2) by simp
  obtain s where s: "symbol_at table (codeword code (symbol_index code (range_index block_ranges n)) @ range_bits block_ranges n @ rest) =
      (s, length (codeword code (symbol_index code (range_index block_ranges n))))" "unat s = range_index block_ranges n"
    using symbol_at_token [OF d] c unfolding codable_def by blast
  obtain r where r: "get kBlockLengthPrefixCode (range_index block_ranges n) = Some r"
    "pc_offset r = fst (block_ranges ! range_index block_ranges n)" "pc_nbits r = snd (block_ranges ! range_index block_ranges n)"
    using get_block_range [OF i] by blast
  show ?thesis
    using s r block_range_bits [OF i] range_bits_value [OF block_ranges(1) ranges block_range_bits [OF i], of rest]
    by (intro exI [of _ s] exI [of _ r] exI [of _ "length (codeword code (symbol_index code (range_index block_ranges n)))"])
      (simp add: block_length_bits_def unat_ucast_u16 unat_ucast_u8)
qed

lemma ReadBlockLength_at:
  assumes d: "decodes table code" and n: "1 \<le> n" "n < 16625 + 2 ^ 24"
    and c: "codable code (range_index block_ranges n)"
    and at: "br_at br input (block_length_bits code n @ rest)" "unat (br_bit_pos br) < 64" "15 \<le> unat (br_avail_in br)"
  shows "\<exists>br'. ReadBlockLength table br input = Some (of_nat n, br') \<and> br_at br' input rest \<and> unat (br_bit_pos br') < 64 \<and>
    unat (br_avail_in br) \<le> unat (br_avail_in br') + 14"
proof -
  obtain s l r where sym: "symbol_at table (block_length_bits code n @ rest) = (s, l)"
    "drop l (block_length_bits code n @ rest) = range_bits block_ranges n @ rest"
    "get kBlockLengthPrefixCode (unat (ucast s :: u32)) = Some r" "unat (ucast (pc_nbits r) :: u32) \<le> 24"
    "unat (ucast (pc_nbits r) :: u32) = length (range_bits block_ranges n)"
    "ucast (pc_offset r) + (word_of_bits (take (unat (ucast (pc_nbits r) :: u32)) (range_bits block_ranges n @ rest)) :: u32) = of_nat n"
    using block_length_at [OF d n c, of rest] by blast
  have "8 \<le> unat (br_avail_in br)" using at(3) by simp
  from huffman_table.ReadSymbol_at [OF decodes_huffman_table [OF d] at(1,2) this, unfolded sym(1) fst_conv snd_conv sym(2)] obtain br1 where 1:
    "ReadSymbol table br input = Some (ucast s, br1)" "br_at br1 input (range_bits block_ranges n @ rest)"
    "unat (br_bit_pos br1) < 64" "unat (br_avail_in br) \<le> unat (br_avail_in br1) + 7"
    by blast
  have "8 \<le> unat (br_avail_in br1)" "unat (ucast (pc_nbits r) :: u32) \<le> 32" using at(3) 1(4) sym(4) by linarith+
  from ReadBits_at [OF 1(2,3) this] obtain br2 where 2:
    "BrotliReadBits br1 (ucast (pc_nbits r)) input =
      Some (word_of_bits (take (unat (ucast (pc_nbits r) :: u32)) (range_bits block_ranges n @ rest)), br2)"
    "br_at br2 input (drop (unat (ucast (pc_nbits r) :: u32)) (range_bits block_ranges n @ rest))"
    "unat (br_bit_pos br2) < 64" "unat (br_avail_in br1) \<le> unat (br_avail_in br2) + 7" by blast
  have "br_at br2 input rest" using 2(2) by (simp add: sym(5))
  moreover have "ReadBlockLength table br input = Some (of_nat n, br2)"
    using 1(1) 2(1) sym(3,6) by (simp add: ReadBlockLength_def)
  moreover have "unat (br_avail_in br) \<le> unat (br_avail_in br2) + 14" using 1(4) 2(4) by linarith
  ultimately show ?thesis using 2(3) by blast
qed

lemma SafeReadBlockLength_at:
  assumes d: "decodes table code" and n: "1 \<le> n" "n < 16625 + 2 ^ 24"
    and c: "codable code (range_index block_ranges n)"
    and at: "br_at br input (block_length_bits code n @ rest)"
  shows "\<exists>ix br1 br2. SafeReadBlockLengthIndex BROTLI_STATE_READ_BLOCK_LENGTH_NONE i table br input = Some ((True, ix), br1) \<and>
    SafeReadBlockLengthFromIndex s br1 v (True, ix) input =
      Some (True, s\<lparr>bt_substate_read_block_length := BROTLI_STATE_READ_BLOCK_LENGTH_NONE\<rparr>, br2, of_nat n) \<and>
    br_at br2 input rest"
proof -
  obtain sy l r where sym: "symbol_at table (block_length_bits code n @ rest) = (sy, l)" "l \<le> length (block_length_bits code n @ rest)"
    "drop l (block_length_bits code n @ rest) = range_bits block_ranges n @ rest"
    "get kBlockLengthPrefixCode (unat (ucast sy :: u32)) = Some r" "unat (ucast (pc_nbits r) :: u32) \<le> 24"
    "unat (ucast (pc_nbits r) :: u32) = length (range_bits block_ranges n)"
    "ucast (pc_offset r) + (word_of_bits (take (unat (ucast (pc_nbits r) :: u32)) (range_bits block_ranges n @ rest)) :: u32) = of_nat n"
    using block_length_at [OF d n c, of rest] by blast
  from huffman_table.SafeReadSymbol_at [OF decodes_huffman_table [OF d] at, of 0,
      unfolded sym(1) fst_conv snd_conv if_P [OF sym(2)] sym(3)]
  obtain br1 where 1: "SafeReadSymbol table br 0 input = Some (True, br1, ucast sy)"
    "br_at br1 input (range_bits block_ranges n @ rest)" by blast
  have "unat (ucast (pc_nbits r) :: u32) \<le> 32" using sym(5) by simp
  from SafeReadBits_at [OF 1(2) this, of 0] obtain br2 where 2:
    "BrotliSafeReadBits br1 (ucast (pc_nbits r)) 0 input =
      Some (True, word_of_bits (take (unat (ucast (pc_nbits r) :: u32)) (range_bits block_ranges n @ rest)), br2)"
    "br_at br2 input rest" by (auto simp: sym(6))
  show ?thesis
    using 1(1) 2 sym(4,7)
    by (intro exI [of _ "ucast sy"] exI [of _ br1] exI [of _ br2])
      (simp add: SafeReadBlockLengthIndex_def SafeReadBlockLengthFromIndex_def Let_def)
qed

subsection \<open>Block types\<close>

text \<open>
  A type code 0 stands for the type before the last, 1 for the successor of the last, and the others
  for the type two below them.
\<close>

definition coded_block_type :: "nat \<Rightarrow> nat \<Rightarrow> nat \<Rightarrow> nat \<Rightarrow> nat" where
  "coded_block_type types before last_type k =
    (if k = 0 then before else if k = 1 then (last_type + 1) mod types else k - 2)"

lemma next_block_type_at:
  assumes "unat types \<le> 256" "r0 < types" "r1 < types" "unat k < unat types + 2"
  shows "unat (next_block_type types r0 r1 k) = coded_block_type (unat types) (unat r0) (unat r1) (unat k)"
    and "next_block_type types r0 r1 k < types"
proof -
  have r: "unat r0 < unat types" "unat r1 < unat types" using assms(2,3) by (simp_all add: word_less_nat_alt)
  have succ: "unat (r1 + 1) = unat r1 + 1" using r(2) assms(1) by (simp add: unat_word_ariths)
  show eq: "unat (next_block_type types r0 r1 k) = coded_block_type (unat types) (unat r0) (unat r1) (unat k)"
  proof -
    consider "k = 0" | "k = 1" | "k \<noteq> 0" "k \<noteq> 1" by blast
    then show ?thesis
    proof cases
      case 1
      then show ?thesis using assms(2) by (simp add: next_block_type_def coded_block_type_def not_le [symmetric])
    next
      case 2
      show ?thesis
      proof (cases "types \<le> r1 + 1")
        case True
        then have e: "unat r1 + 1 = unat types" using r(2) succ by (simp add: word_le_nat_alt)
        then have "r1 + 1 = types" using succ by (simp add: word_unat_eq_iff)
        then show ?thesis using 2 e by (simp add: next_block_type_def coded_block_type_def Let_def)
      next
        case False
        then have "unat r1 + 1 < unat types" using succ by (simp add: word_le_nat_alt)
        then show ?thesis using 2 False succ by (simp add: next_block_type_def coded_block_type_def Let_def)
      qed
    next
      case 3
      then have "unat k \<noteq> 0" "unat k \<noteq> 1" by (simp_all add: word_unat_eq_iff)
      then have k: "2 \<le> unat k" by linarith
      then have "unat (k - 2) = unat k - 2" by (simp add: unat_sub word_le_nat_alt)
      then have "\<not> types \<le> k - 2" using assms(4) k by (simp add: word_le_nat_alt)
      then show ?thesis using 3 \<open>unat (k - 2) = unat k - 2\<close> \<open>unat k \<noteq> 0\<close> \<open>unat k \<noteq> 1\<close>
        by (simp add: next_block_type_def coded_block_type_def Let_def)
    qed
  qed
  have "coded_block_type (unat types) (unat r0) (unat r1) (unat k) < unat types"
    using r assms(4) by (auto simp: coded_block_type_def)
  then show "next_block_type types r0 r1 k < types" using eq by (simp add: word_less_nat_alt)
qed

lemma take_append_update: "i < length (drop a xs) \<Longrightarrow> take a xs @ (drop a xs)[i := v] = xs[a + i := v]"
  by (rule nth_equalityI) (auto simp: nth_append nth_list_update min_def)

text \<open>The state of the block types of the category \<open>t\<close>.\<close>

definition block_types_ok :: "BlockTypeAndLengthState \<Rightarrow> nat \<Rightarrow> bool" where
  "block_types_ok s t \<longleftrightarrow> t < 3 \<and> length (bt_num_block_types s) = 3 \<and> length (bt_block_length s) = 3 \<and>
     length (bt_block_type_rb s) = 6 \<and> 1 < bt_num_block_types s ! t \<and> unat (bt_num_block_types s ! t) \<le> 256 \<and>
     bt_block_type_rb s ! (2 * t) < bt_num_block_types s ! t \<and>
     bt_block_type_rb s ! (2 * t + 1) < bt_num_block_types s ! t \<and>
     t * BROTLI_HUFFMAN_MAX_TABLE_SIZE \<le> length (bt_block_type_trees s) \<and>
     t * BROTLI_HUFFMAN_MAX_TABLE_SIZE \<le> length (bt_block_len_trees s) \<and>
     bt_substate_read_block_length s = BROTLI_STATE_READ_BLOCK_LENGTH_NONE"

definition type_tree :: "BlockTypeAndLengthState \<Rightarrow> nat \<Rightarrow> HuffmanCode list" where
  "type_tree s t = drop (t * BROTLI_HUFFMAN_MAX_TABLE_SIZE) (bt_block_type_trees s)"

definition len_tree :: "BlockTypeAndLengthState \<Rightarrow> nat \<Rightarrow> HuffmanCode list" where
  "len_tree s t = drop (t * BROTLI_HUFFMAN_MAX_TABLE_SIZE) (bt_block_len_trees s)"

definition switched :: "BlockTypeAndLengthState \<Rightarrow> nat \<Rightarrow> nat \<Rightarrow> nat \<Rightarrow> BlockTypeAndLengthState" where
  "switched s t k n = s\<lparr>
     bt_block_length := (bt_block_length s)[t := of_nat n],
     bt_block_type_rb := (bt_block_type_rb s)
       [2 * t := bt_block_type_rb s ! (2 * t + 1),
        2 * t + 1 := of_nat (coded_block_type (unat (bt_num_block_types s ! t))
          (unat (bt_block_type_rb s ! (2 * t))) (unat (bt_block_type_rb s ! (2 * t + 1))) k)]\<rparr>"

lemma rotate_block_types_at:
  assumes ok: "block_types_ok s t" and k: "unat k < unat (bt_num_block_types s ! t) + 2"
  shows "rotate_block_types (s\<lparr>bt_block_length := (bt_block_length s)[t := of_nat n]\<rparr>) t (bt_num_block_types s ! t) k =
    Some (switched s t (unat k) n)"
proof -
  let ?rb = "bt_block_type_rb s" and ?m = "bt_num_block_types s ! t"
  have len: "t * 2 + 1 < length ?rb" "length ?rb = 6" using ok by (auto simp: block_types_ok_def)
  have r: "?rb ! (t * 2) < ?m" "?rb ! (t * 2 + 1) < ?m" "unat ?m \<le> 256"
    using ok by (simp_all add: block_types_ok_def mult.commute)
  have "next_block_type ?m (?rb ! (t * 2)) (?rb ! (t * 2 + 1)) k =
      of_nat (coded_block_type (unat ?m) (unat (?rb ! (t * 2))) (unat (?rb ! (t * 2 + 1))) (unat k))"
  proof -
    have "next_block_type ?m (?rb ! (t * 2)) (?rb ! (t * 2 + 1)) k =
        of_nat (unat (next_block_type ?m (?rb ! (t * 2)) (?rb ! (t * 2 + 1)) k))" by simp
    then show ?thesis by (simp only: next_block_type_at(1) [OF r(3,1,2) k])
  qed
  moreover have "take (t * 2) ?rb @ (drop (t * 2) ?rb)[0 := a, Suc 0 := b] = ?rb[t * 2 := a, t * 2 + 1 := b]" for a b
  proof -
    have "take (t * 2) ?rb @ (drop (t * 2) ?rb)[0 := a] = ?rb[t * 2 := a]"
      using take_append_update [of 0 "t * 2" ?rb a] len by simp
    moreover have "take (t * 2) (?rb[t * 2 := a]) @ (drop (t * 2) (?rb[t * 2 := a]))[1 := b] = ?rb[t * 2 := a, t * 2 + 1 := b]"
      using take_append_update [of 1 "t * 2" "?rb[t * 2 := a]" b] len by simp
    moreover have "drop (t * 2) (?rb[t * 2 := a]) = (drop (t * 2) ?rb)[0 := a]" using len by (simp add: drop_update_swap)
    ultimately show ?thesis by simp
  qed
  ultimately show ?thesis using len
    by (simp add: rotate_block_types_def switched_def slice_from_def get_def put_def Let_def mult.commute)
qed

text \<open>The bits of a block switch.\<close>

definition switch_bits :: "code \<Rightarrow> code \<Rightarrow> nat \<Rightarrow> nat \<Rightarrow> bool list" where
  "switch_bits type_code len_code k n = codeword type_code (symbol_index type_code k) @ block_length_bits len_code n"

lemma block_switch_safe:
  assumes ok: "block_types_ok s t"
    and d: "decodes (type_tree s t) type_code" "decodes (len_tree s t) len_code"
    and k: "codable type_code k" "k < unat (bt_num_block_types s ! t) + 2"
    and n: "1 \<le> n" "n < 16625 + 2 ^ 24" "codable len_code (range_index block_ranges n)"
    and at: "br_at br input (switch_bits type_code len_code k n @ rest)"
  shows "\<exists>br'. DecodeBlockTypeAndLength True s br t input = Some (True, switched s t k n, br') \<and> br_at br' input rest"
proof -
  have t3: "get (bt_num_block_types s) t = Some (bt_num_block_types s ! t)"
    "slice_from (bt_block_type_trees s) (t * BROTLI_HUFFMAN_MAX_TABLE_SIZE) = Some (type_tree s t)"
    "slice_from (bt_block_len_trees s) (t * BROTLI_HUFFMAN_MAX_TABLE_SIZE) = Some (len_tree s t)"
    "put (bt_block_length s) t (of_nat n) = Some ((bt_block_length s)[t := of_nat n])"
    "\<not> bt_num_block_types s ! t \<le> 1" "bt_substate_read_block_length s = BROTLI_STATE_READ_BLOCK_LENGTH_NONE"
    using ok by (auto simp: block_types_ok_def get_def slice_from_def put_def type_tree_def len_tree_def)
  obtain v where v: "symbol_at (type_tree s t) (codeword type_code (symbol_index type_code k) @ block_length_bits len_code n @ rest) =
      (v, length (codeword type_code (symbol_index type_code k)))" "unat v = k"
    using symbol_at_token [OF d(1)] k(1) unfolding codable_def by blast
  obtain br1 where 1: "SafeReadSymbol (type_tree s t) br 0 input = Some (True, br1, ucast v)"
    "br_at br1 input (block_length_bits len_code n @ rest)"
    using huffman_table.SafeReadSymbol_at [OF decodes_huffman_table [OF d(1)] at, of 0] v(1)
    by (auto simp: switch_bits_def)
  from SafeReadBlockLength_at [OF d(2) n 1(2), of "bt_block_length_index s" s 0] obtain ix br2 br3 where 2:
    "SafeReadBlockLengthIndex BROTLI_STATE_READ_BLOCK_LENGTH_NONE (bt_block_length_index s) (len_tree s t) br1 input =
      Some ((True, ix), br2)"
    "SafeReadBlockLengthFromIndex s br2 0 (True, ix) input =
      Some (True, s\<lparr>bt_substate_read_block_length := BROTLI_STATE_READ_BLOCK_LENGTH_NONE\<rparr>, br3, of_nat n)"
    "br_at br3 input rest" by blast
  have same: "s\<lparr>bt_substate_read_block_length := BROTLI_STATE_READ_BLOCK_LENGTH_NONE\<rparr> = s" using t3(6) by simp
  have "unat (ucast v :: u32) = k" using v(2) by (simp add: unat_ucast_u16)
  then have "rotate_block_types (s\<lparr>bt_block_length := (bt_block_length s)[t := of_nat n]\<rparr>) t (bt_num_block_types s ! t) (ucast v) =
      Some (switched s t k n)" using rotate_block_types_at [OF ok, of "ucast v" n] k(2) by simp
  then have "DecodeBlockTypeAndLength True s br t input = Some (True, switched s t k n, br3)"
    using t3 1(1) 2(1,2) same by (simp add: DecodeBlockTypeAndLength_def Let_def)
  with 2(3) show ?thesis by blast
qed

lemma block_switch_fast:
  assumes ok: "block_types_ok s t"
    and d: "decodes (type_tree s t) type_code" "decodes (len_tree s t) len_code"
    and k: "codable type_code k" "k < unat (bt_num_block_types s ! t) + 2"
    and n: "1 \<le> n" "n < 16625 + 2 ^ 24" "codable len_code (range_index block_ranges n)"
    and at: "br_at br input (switch_bits type_code len_code k n @ rest)"
    and fast: "unat (br_bit_pos br) < 64" "22 \<le> unat (br_avail_in br)"
  shows "\<exists>br'. DecodeBlockTypeAndLength False s br t input = Some (True, switched s t k n, br') \<and> br_at br' input rest"
proof -
  have t3: "get (bt_num_block_types s) t = Some (bt_num_block_types s ! t)"
    "slice_from (bt_block_type_trees s) (t * BROTLI_HUFFMAN_MAX_TABLE_SIZE) = Some (type_tree s t)"
    "slice_from (bt_block_len_trees s) (t * BROTLI_HUFFMAN_MAX_TABLE_SIZE) = Some (len_tree s t)"
    "put (bt_block_length s) t (of_nat n) = Some ((bt_block_length s)[t := of_nat n])"
    "\<not> bt_num_block_types s ! t \<le> 1"
    using ok by (auto simp: block_types_ok_def get_def slice_from_def put_def type_tree_def len_tree_def)
  obtain v where v: "symbol_at (type_tree s t) (codeword type_code (symbol_index type_code k) @ block_length_bits len_code n @ rest) =
      (v, length (codeword type_code (symbol_index type_code k)))" "unat v = k"
    using symbol_at_token [OF d(1)] k(1) unfolding codable_def by blast
  have "8 \<le> unat (br_avail_in br)" using fast(2) by simp
  from huffman_table.ReadSymbol_at [OF decodes_huffman_table [OF d(1)] at fast(1) this] v(1)
  obtain br1 where 1: "ReadSymbol (type_tree s t) br input = Some (ucast v, br1)"
    "br_at br1 input (block_length_bits len_code n @ rest)" "unat (br_bit_pos br1) < 64"
    "unat (br_avail_in br) \<le> unat (br_avail_in br1) + 7" by (auto simp: switch_bits_def)
  have "15 \<le> unat (br_avail_in br1)" using 1(4) fast(2) by linarith
  from ReadBlockLength_at [OF d(2) n 1(2,3) this] obtain br2 where 2:
    "ReadBlockLength (len_tree s t) br1 input = Some (of_nat n, br2)" "br_at br2 input rest" by blast
  have "unat (ucast v :: u32) = k" using v(2) by (simp add: unat_ucast_u16)
  then have "rotate_block_types (s\<lparr>bt_block_length := (bt_block_length s)[t := of_nat n]\<rparr>) t (bt_num_block_types s ! t) (ucast v) =
      Some (switched s t k n)" using rotate_block_types_at [OF ok, of "ucast v" n] k(2) by simp
  then have "DecodeBlockTypeAndLength False s br t input = Some (True, switched s t k n, br2)"
    using t3 1(1) 2(1) by (simp add: DecodeBlockTypeAndLength_def Let_def)
  with 2(2) show ?thesis by blast
qed

text \<open>A block switch that is not complete leaves everything as it was.\<close>

lemma RestoreState_SaveState [simp]: "BrotliBitReaderRestoreState br' (BrotliBitReaderSaveState br) = br"
  by (simp add: BrotliBitReaderRestoreState_def BrotliBitReaderSaveState_def)

lemma SafeReadBlockLength_failed:
  assumes "SafeReadBlockLengthFromIndex s br v ix input = Some (False, s', br', len)"
  shows "\<exists>i u. s' = s\<lparr>bt_block_length_index := i, bt_substate_read_block_length := u\<rparr>"
proof (cases "fst ix")
  case False
  then have "s' = s" using assms by (simp add: SafeReadBlockLengthFromIndex_def Let_def split_beta)
  then show ?thesis
    by (intro exI [of _ "bt_block_length_index s"] exI [of _ "bt_substate_read_block_length s"]) simp
next
  case True
  from assms True have "s' = s\<lparr>bt_block_length_index := snd ix,
      bt_substate_read_block_length := BROTLI_STATE_READ_BLOCK_LENGTH_SUFFIX\<rparr>"
    by (simp add: SafeReadBlockLengthFromIndex_def split_beta bind_eq_Some_conv split: if_splits) blast
  then show ?thesis by blast
qed

lemma block_switch_failed:
  assumes ok: "block_types_ok s t" and d: "decodes (type_tree s t) type_code"
    and at: "br_at br input bs"
    and fail: "DecodeBlockTypeAndLength True s br t input = Some (False, s', br')"
  shows "(\<exists>i. s' = s\<lparr>bt_block_length_index := i\<rparr>) \<and> br_at br' input bs"
proof -
  have t3: "get (bt_num_block_types s) t = Some (bt_num_block_types s ! t)"
    "slice_from (bt_block_type_trees s) (t * BROTLI_HUFFMAN_MAX_TABLE_SIZE) = Some (type_tree s t)"
    "\<not> bt_num_block_types s ! t \<le> 1" "bt_substate_read_block_length s = BROTLI_STATE_READ_BLOCK_LENGTH_NONE"
    using ok by (auto simp: block_types_ok_def get_def slice_from_def type_tree_def)
  have same: "s = s\<lparr>bt_block_length_index := bt_block_length_index s\<rparr>" by simp
  have none: "s\<lparr>bt_block_length_index := i, bt_substate_read_block_length := BROTLI_STATE_READ_BLOCK_LENGTH_NONE\<rparr> =
      s\<lparr>bt_block_length_index := i\<rparr>" for i using t3(4) by simp
  let ?sym = "symbol_at (type_tree s t) bs"
  from huffman_table.SafeReadSymbol_at [OF decodes_huffman_table [OF d] at, of 0]
  obtain br1 where 1: "SafeReadSymbol (type_tree s t) br 0 input =
      Some (if snd ?sym \<le> length bs then (True, br1, ucast (fst ?sym)) else (False, br1, 0))"
    "br_at br1 input (if snd ?sym \<le> length bs then drop (snd ?sym) bs else bs)" by blast
  show ?thesis
  proof (cases "snd ?sym \<le> length bs")
    case False
    then have "s' = s" "br' = br1" using fail t3 1(1) by (simp_all add: DecodeBlockTypeAndLength_def Let_def)
    with 1(2) False show ?thesis by (auto intro: exI [of _ "bt_block_length_index s"])
  next
    case True
    from fail t3 1(1) True obtain s1 br2 br3 ix len where 2:
      "SafeReadBlockLengthFromIndex s br2 0 ix input = Some (False, s1, br3, len)"
      "s' = s1\<lparr>bt_substate_read_block_length := BROTLI_STATE_READ_BLOCK_LENGTH_NONE\<rparr>" "br' = br"
      by (auto simp: DecodeBlockTypeAndLength_def Let_def bind_eq_Some_conv split: prod.splits if_splits)
    from SafeReadBlockLength_failed [OF 2(1)] obtain i u where
      "s1 = s\<lparr>bt_block_length_index := i, bt_substate_read_block_length := u\<rparr>" by blast
    with 2(2) have "s' = s\<lparr>bt_block_length_index := i\<rparr>" using t3(4) by simp
    with at 2(3) show ?thesis by blast
  qed
qed

lemma switched_ok:
  assumes "block_types_ok s t" "k < unat (bt_num_block_types s ! t) + 2"
  shows "block_types_ok (switched s t k n) t"
proof -
  let ?m = "bt_num_block_types s ! t" and ?rb = "bt_block_type_rb s"
  have r: "?rb ! (2 * t) < ?m" "?rb ! (2 * t + 1) < ?m" "unat ?m \<le> 256" "t < 3" "length ?rb = 6"
    using assms(1) by (simp_all add: block_types_ok_def)
  have k: "unat (of_nat k :: u32) = k" using assms(2) r(3) by (intro unat_of_nat_u32) simp
  have k': "unat (of_nat k :: u32) < unat ?m + 2" using assms(2) k by simp
  have "next_block_type ?m (?rb ! (2 * t)) (?rb ! (2 * t + 1)) (of_nat k) =
      of_nat (unat (next_block_type ?m (?rb ! (2 * t)) (?rb ! (2 * t + 1)) (of_nat k)))" by simp
  then have "next_block_type ?m (?rb ! (2 * t)) (?rb ! (2 * t + 1)) (of_nat k) =
      of_nat (coded_block_type (unat ?m) (unat (?rb ! (2 * t))) (unat (?rb ! (2 * t + 1))) k)"
    by (simp only: next_block_type_at(1) [OF r(3,1,2) k'] k)
  with next_block_type_at(2) [OF r(3,1,2) k']
  have "of_nat (coded_block_type (unat ?m) (unat (?rb ! (2 * t))) (unat (?rb ! (2 * t + 1))) k) < ?m" by (simp only:)
  then show ?thesis using assms(1) r by (simp add: block_types_ok_def switched_def)
qed

subsection \<open>Properties of block switches\<close>

text \<open>C26: Every block length from 1 to \<open>16624 + 2^24\<close> has a code, and both readers invert it: the code
  word of its range under any complete canonical code followed by the extra bits is read as that
  number and nothing behind it is consumed, by \<open>SafeReadBlockLengthIndex\<close> and
  \<open>SafeReadBlockLengthFromIndex\<close> wherever the input ends, and by \<open>ReadBlockLength\<close> with 15 bytes
  ahead.\<close>

theorem block_length_roundtrip:
  assumes "decodes table code" "1 \<le> n" "n < 16625 + 2 ^ 24" "codable code (range_index block_ranges n)"
    and "br_at br input (block_length_bits code n @ rest)"
  shows "(\<exists>ix br1 br2. SafeReadBlockLengthIndex BROTLI_STATE_READ_BLOCK_LENGTH_NONE i table br input = Some ((True, ix), br1) \<and>
      SafeReadBlockLengthFromIndex s br1 v (True, ix) input =
        Some (True, s\<lparr>bt_substate_read_block_length := BROTLI_STATE_READ_BLOCK_LENGTH_NONE\<rparr>, br2, of_nat n) \<and>
      br_at br2 input rest) \<and>
    (unat (br_bit_pos br) < 64 \<and> 15 \<le> unat (br_avail_in br) \<longrightarrow>
      (\<exists>br'. ReadBlockLength table br input = Some (of_nat n, br') \<and> br_at br' input rest))"
  using SafeReadBlockLength_at [OF assms] ReadBlockLength_at [OF assms] by blast

text \<open>A code with two length ranges, from 13 and from 41.\<close>

definition length_tree :: "HuffmanCode list" where
  "length_tree = simple_huffman_table 1 3 7 0 0"

lemma length_tree_decodes: "decodes length_tree [(3, 1), (7, 1)]"
  using simple_huffman_table_decodes [of 1 3 7 0 0] by (simp add: length_tree_def simple_code_def min_def max_def)

lemma length_tree_bits: "range_index block_ranges 15 = 3" "block_length_bits [(3, 1), (7, 1)] 15 = [False, False, True]"
proof -
  show i: "range_index block_ranges 15 = 3"
    by (simp add: range_index_def block_ranges_def kBlockLengthPrefixCode_def)
  show "block_length_bits [(3, 1), (7, 1)] 15 = [False, False, True]"
    unfolding block_length_bits_def range_bits_def range_extra_def i
    by (simp add: block_ranges_def kBlockLengthPrefixCode_def symbol_index_def codeword_def bits_of_word_def upt_rec bit_iff_odd)
qed

text \<open>A state whose literals have three block types.\<close>

definition sample_switch :: BlockTypeAndLengthState where
  "sample_switch = \<lparr>bt_substate_read_block_length = BROTLI_STATE_READ_BLOCK_LENGTH_NONE,
     bt_num_block_types = [3, 1, 1], bt_block_length_index = 0, bt_block_length = [0, 1, 1],
     bt_block_type_trees = simple_huffman_table 1 1 4 0 0, bt_block_len_trees = length_tree,
     bt_block_type_rb = [0, 2, 1, 0, 1, 0]\<rparr>"

theorem block_length_roundtrip_witness:
  "\<exists>br'. ReadBlockLength length_tree (sample_reader\<lparr>br_val := 0xAC00000000000000, br_avail_in := 20\<rparr>)
      (sample_input @ sample_input) = Some (15, br')"
proof -
  let ?br = "sample_reader\<lparr>br_val := 0xAC00000000000000, br_avail_in := 20\<rparr>" and ?i = "sample_input @ sample_input"
  have "take 3 (stream ?br ?i) = [False, False, True]" by code_simp
  then have "stream ?br ?i = block_length_bits [(3, 1), (7, 1)] 15 @ drop 3 (stream ?br ?i)"
    unfolding length_tree_bits by (metis append_take_drop_id)
  moreover have "br_ok ?br ?i" by (simp add: br_ok_def sample_reader_def sample_input_def)
  ultimately have "br_at ?br ?i (block_length_bits [(3, 1), (7, 1)] 15 @ drop 3 (stream ?br ?i))" by (simp add: br_at_def)
  from block_length_roundtrip [OF length_tree_decodes _ _ _ this, of 0 sample_switch 0] show ?thesis
    by (auto simp: length_tree_bits codable_def sample_reader_def)
qed

text \<open>C24: A block switch that was encoded as the code word of a block type and a block length is decoded
  to them: the length is stored for its category, the type is resolved against the last two types
  (the one before the last, the successor of the last modulo their number, or the type itself) and
  becomes the last one, and all of it stays a valid state of the category, whose types are below
  their number. The safe version does so wherever the input ends, the fast one with 22 bytes ahead.\<close>

theorem block_switch_roundtrip:
  assumes "block_types_ok s t"
    and "decodes (type_tree s t) type_code" "decodes (len_tree s t) len_code"
    and "codable type_code k" "k < unat (bt_num_block_types s ! t) + 2"
    and "1 \<le> n" "n < 16625 + 2 ^ 24" "codable len_code (range_index block_ranges n)"
    and "br_at br input (switch_bits type_code len_code k n @ rest)"
  shows "(\<exists>br'. DecodeBlockTypeAndLength True s br t input = Some (True, switched s t k n, br') \<and> br_at br' input rest) \<and>
    (unat (br_bit_pos br) < 64 \<and> 22 \<le> unat (br_avail_in br) \<longrightarrow>
      (\<exists>br'. DecodeBlockTypeAndLength False s br t input = Some (True, switched s t k n, br') \<and> br_at br' input rest)) \<and>
    block_types_ok (switched s t k n) t"
  using block_switch_safe [OF assms] block_switch_fast [OF assms] switched_ok [OF assms(1,5)] by blast

lemma sample_switch_stream:
  "stream \<lparr>br_val = 0x8000000000000000, br_bit_pos = 60, br_next_in = 0, br_avail_in = 0\<rparr> [] = [False, False, False, True]"
  by code_simp

theorem block_switch_roundtrip_witness:
  "\<exists>br' s'. DecodeBlockTypeAndLength True sample_switch
      \<lparr>br_val = 0x8000000000000000, br_bit_pos = 60, br_next_in = 0, br_avail_in = 0\<rparr> 0 [] = Some (True, s', br') \<and>
    bt_block_length s' = [15, 1, 1] \<and> bt_block_type_rb s' = [2, 0, 1, 0, 1, 0]"
proof -
  let ?br = "\<lparr>br_val = 0x8000000000000000, br_bit_pos = 60, br_next_in = 0, br_avail_in = 0\<rparr>"
  have ok: "block_types_ok sample_switch 0" by (simp add: block_types_ok_def sample_switch_def)
  have trees: "type_tree sample_switch 0 = simple_huffman_table 1 1 4 0 0" "len_tree sample_switch 0 = length_tree"
    by (simp_all add: type_tree_def len_tree_def sample_switch_def)
  have d: "decodes (type_tree sample_switch 0) [(1, 1), (4, 1)]"
    unfolding trees using simple_huffman_table_decodes [of 1 1 4 0 0] by (simp add: simple_code_def min_def max_def)
  have l: "decodes (len_tree sample_switch 0) [(3, 1), (7, 1)]" unfolding trees by (rule length_tree_decodes)
  have bits: "switch_bits [(1, 1), (4, 1)] [(3, 1), (7, 1)] 1 15 = [False, False, False, True]"
    unfolding switch_bits_def length_tree_bits
    by (simp add: symbol_index_def codeword_def bits_of_word_def upt_rec bit_iff_odd)
  have "br_at ?br [] (switch_bits [(1, 1), (4, 1)] [(3, 1), (7, 1)] 1 15 @ [])"
    using sample_switch_stream unfolding bits by (simp add: br_at_def br_ok_def)
  from block_switch_roundtrip [OF ok d l _ _ _ _ _ this]
  have "\<exists>br'. DecodeBlockTypeAndLength True sample_switch ?br 0 [] = Some (True, switched sample_switch 0 1 15, br')"
    by (auto simp: codable_def length_tree_bits sample_switch_def)
  then show ?thesis
    by (auto simp: switched_def sample_switch_def coded_block_type_def)
qed


text \<open>C25: A block switch whose bits are not all there yet is undone: \<open>DecodeBlockTypeAndLength\<close>
  reports failure with the block lengths, the block types and their ring unchanged (only the scratch
  field for the index of a length may differ) and gives back every bit it took, so that the
  next call, when more input has come, reads the switch from its first bit.\<close>

theorem block_switch_interrupted:
  assumes "block_types_ok s t" "decodes (type_tree s t) type_code" "br_ok br input"
    and "DecodeBlockTypeAndLength True s br t input = Some (False, s', br')"
  shows "(\<exists>i. s' = s\<lparr>bt_block_length_index := i\<rparr>) \<and> block_types_ok s' t \<and>
    br_ok br' input \<and> stream br' input = stream br input"
proof -
  have "br_at br input (stream br input)" using assms(3) by (simp add: br_at_def)
  from block_switch_failed [OF assms(1,2) this assms(4)] show ?thesis
    using assms(1) by (auto simp: br_at_def block_types_ok_def)
qed

theorem block_switch_interrupted_witness:
  "\<exists>s' br'. DecodeBlockTypeAndLength True sample_switch
      \<lparr>br_val = 0x8000000000000000, br_bit_pos = 62, br_next_in = 0, br_avail_in = 0\<rparr> 0 [] = Some (False, s', br') \<and>
    bt_block_type_rb s' = [0, 2, 1, 0, 1, 0] \<and> stream br' [] = [False, True]"
proof -
  let ?br = "\<lparr>br_val = 0x8000000000000000, br_bit_pos = 62, br_next_in = 0, br_avail_in = 0\<rparr>"
  have ok: "block_types_ok sample_switch 0" by (simp add: block_types_ok_def sample_switch_def)
  have d: "decodes (type_tree sample_switch 0) [(1, 1), (4, 1)]"
    using simple_huffman_table_decodes [of 1 1 4 0 0]
    by (simp add: type_tree_def sample_switch_def simple_code_def min_def max_def)
  have bs: "stream ?br [] = [False, True]" by code_simp
  have l: "decodes (len_tree sample_switch 0) [(3, 1), (7, 1)]"
    using length_tree_decodes by (simp add: len_tree_def sample_switch_def)
  have at: "br_at ?br [] [False, True]" using bs by (simp add: br_at_def br_ok_def)
  have sym_t: "symbol_at (type_tree sample_switch 0) [False, True] = (1, 1)"
    using symbol_at_token [OF d, of 1 "[True]"]
    by (auto simp: symbol_index_def codeword_def bits_of_word_def word_unat_eq_iff)
  have sym_l: "symbol_at (len_tree sample_switch 0) [True] = (7, 1)"
    using symbol_at_token [OF l, of 7 "[]"]
    by (auto simp: symbol_index_def codeword_def bits_of_word_def word_unat_eq_iff bit_iff_odd)
  obtain br1 where 1: "SafeReadSymbol (type_tree sample_switch 0) ?br 0 [] = Some (True, br1, 1)" "br_at br1 [] [True]"
    using huffman_table.SafeReadSymbol_at [OF decodes_huffman_table [OF d] at, of 0] by (auto simp: sym_t)
  obtain br2 where 2: "SafeReadSymbol (len_tree sample_switch 0) br1 0 [] = Some (True, br2, 7)" "br_at br2 [] []"
    using huffman_table.SafeReadSymbol_at [OF decodes_huffman_table [OF l] 1(2), of 0] by (auto simp: sym_l)
  have 3: "get kBlockLengthPrefixCode 7 = Some (PrefixCodeRange 41 3)" by (simp add: kBlockLengthPrefixCode_def get_def)
  obtain br3 where 4: "BrotliSafeReadBits br2 3 0 [] = Some (False, 0, br3)" using SafeReadBits_at [OF 2(2), of 3 0] by auto
  have "\<exists>s' br'. DecodeBlockTypeAndLength True sample_switch ?br 0 [] = Some (False, s', br')"
    using 1(1) 2(1) 3 4 unfolding DecodeBlockTypeAndLength_def SafeReadBlockLengthIndex_def SafeReadBlockLengthFromIndex_def
    by (simp add: Let_def get_def slice_from_def type_tree_def len_tree_def sample_switch_def)
  then obtain s' br' where run: "DecodeBlockTypeAndLength True sample_switch ?br 0 [] = Some (False, s', br')" by blast
  from block_switch_interrupted [OF ok d _ run] bs run show ?thesis
    by (auto simp: br_ok_def sample_switch_def)
qed

end
