(* ===== verification/Ring_Buffer.thy ===== *)
theory Ring_Buffer
  imports Block_Switch Transform_Word
begin

text \<open>
  The ring buffer, from \<open>src/decode.rs\<close>: its allocation, the bytes that wait to be written, writing
  them to the output, moving the bytes behind its end back to its start, and the copy of an
  uncompressed metablock into it.
\<close>

subsection \<open>Writing output\<close>

definition UnwrittenBytes :: "BrotliState \<Rightarrow> bool \<Rightarrow> nat" where
  "UnwrittenBytes s wrap =
    (let pos = (if wrap \<and> s_pos s > s_ringbuffer_size s
                then usize_of_i32 (s_ringbuffer_size s) else usize_of_i32 (s_pos s));
         partial_pos_rb = wrap_usize (s_rb_roundtrips s * usize_of_i32 (s_ringbuffer_size s) + pos)
     in usize_sub partial_pos_rb (s_partial_pos_out s))"

text \<open>
  What the caller lends for the output: the bytes that are left, the buffer if there is one, the
  offset in it, and the count of all bytes written.
\<close>

record Output =
  o_available_out :: nat
  o_output :: "u8 list option"
  o_output_offset :: nat
  o_total_out :: nat

text \<open>The size \<open>1 << s.window_bits\<close> of a full ring buffer.\<close>

definition window_size :: "BrotliState \<Rightarrow> int" where
  "window_size s = shl_i32 1 (uint (s_window_bits s))"

text \<open>The second component is the slice of the ring buffer that was written.\<close>

definition WriteRingBuffer ::
  "Output \<Rightarrow> bool \<Rightarrow> BrotliState \<Rightarrow> (BrotliDecoderErrorCode \<times> u8 list \<times> Output \<times> BrotliState) option" where
  "WriteRingBuffer out force s =
    (let to_write = UnwrittenBytes s True;
         num_written = o_available_out out;
         num_written = (if num_written > to_write then to_write else num_written)
     in if s_meta_block_remaining_len s < 0
        then Some (BROTLI_DECODER_ERROR_FORMAT_BLOCK_LENGTH_1, [], out, s)
        else do {
          let start_index = s_partial_pos_out s AND usize_of_i32 (s_ringbuffer_mask s);
          start \<leftarrow> slice (s_ringbuffer s) start_index (start_index + num_written);
          output \<leftarrow>
            (case o_output out of
               None \<Rightarrow> Some None
             | Some output \<Rightarrow> do {
                 output \<leftarrow> overwrite output (o_output_offset out) start;
                 Some (Some output)
               });
          let s = s\<lparr>s_partial_pos_out := s_partial_pos_out s + num_written\<rparr>;
          let out = out\<lparr>o_output := output,
                        o_output_offset := o_output_offset out + num_written,
                        o_available_out := o_available_out out - num_written,
                        o_total_out := s_partial_pos_out s\<rparr>;
          if num_written < to_write then
            if s_ringbuffer_size s = window_size s \<or> force
            then Some (BROTLI_DECODER_NEEDS_MORE_OUTPUT, [], out, s)
            else Some (BROTLI_DECODER_SUCCESS, start, out, s)
          else if s_ringbuffer_size s = window_size s \<and> s_pos s \<ge> s_ringbuffer_size s
          then do {
            let s = s\<lparr>s_pos := s_pos s - s_ringbuffer_size s,
                      s_rb_roundtrips := s_rb_roundtrips s + 1\<rparr>;
            Some (BROTLI_DECODER_SUCCESS, start, out, s\<lparr>s_should_wrap_ringbuffer := (s_pos s \<noteq> 0)\<rparr>)
          } else Some (BROTLI_DECODER_SUCCESS, start, out, s)
        })"

definition WrapRingBuffer :: "BrotliState \<Rightarrow> BrotliState option" where
  "WrapRingBuffer s =
    (if s_should_wrap_ringbuffer s then do {
       let size = usize_of_i32 (s_ringbuffer_size s);
       let pos = usize_of_i32 (s_pos s);
       ring_buffer_end \<leftarrow> slice_from (s_ringbuffer s) size;
       ring_buffer_start \<leftarrow> slice (s_ringbuffer s) 0 size;
       moved \<leftarrow> slice ring_buffer_end 0 pos;
       ring_buffer_start \<leftarrow> overwrite ring_buffer_start 0 moved;
       Some (s\<lparr>s_ringbuffer := ring_buffer_start @ ring_buffer_end, s_should_wrap_ringbuffer := False\<rparr>)
     } else Some s)"

subsection \<open>Uncompressed metablocks\<close>

text \<open>One pass of the state \<open>BROTLI_STATE_UNCOMPRESSED_NONE\<close>: the copy into the ring buffer.\<close>

definition copy_uncompressed :: "BrotliState \<Rightarrow> u8 list \<Rightarrow> BrotliState option" where
  "copy_uncompressed s input = do {
     let remaining = BrotliGetRemainingBytes (s_br s);
     let nbytes = min remaining (u32_of_i32 (s_meta_block_remaining_len s));
     let nbytes = min nbytes (u32_of_i32 (s_ringbuffer_size s - s_pos s));
     let pos = usize_of_i32 (s_pos s);
     dest \<leftarrow> slice_from (s_ringbuffer s) pos;
     (dest, br) \<leftarrow> BrotliCopyBytes dest (s_br s) nbytes input;
     Some (s\<lparr>s_ringbuffer := take pos (s_ringbuffer s) @ dest, s_br := br,
             s_pos := i32 (s_pos s + sint nbytes),
             s_meta_block_remaining_len := i32 (s_meta_block_remaining_len s - sint nbytes)\<rparr>)
   }"

partial_function (option) CopyUncompressedBlockToOutput ::
  "Output \<Rightarrow> BrotliState \<Rightarrow> u8 list \<Rightarrow> (BrotliDecoderErrorCode \<times> Output \<times> BrotliState) option" where
  "CopyUncompressedBlockToOutput out s input = (case s_substate_uncompressed s of
     BROTLI_STATE_UNCOMPRESSED_NONE \<Rightarrow> do {
       s \<leftarrow> copy_uncompressed s input;
       if s_pos s < window_size s then
         if s_meta_block_remaining_len s = 0 then Some (BROTLI_DECODER_SUCCESS, out, s)
         else Some (BROTLI_DECODER_NEEDS_MORE_INPUT, out, s)
       else CopyUncompressedBlockToOutput out
         (s\<lparr>s_substate_uncompressed := BROTLI_STATE_UNCOMPRESSED_WRITE\<rparr>) input
     }
   | BROTLI_STATE_UNCOMPRESSED_WRITE \<Rightarrow> do {
       (result, start, out, s) \<leftarrow> WriteRingBuffer out False s;
       if result \<noteq> BROTLI_DECODER_SUCCESS then Some (result, out, s)
       else do {
         let s = (if s_ringbuffer_size s = window_size s
                  then s\<lparr>s_max_distance := s_max_backward_distance s\<rparr> else s);
         CopyUncompressedBlockToOutput out
           (s\<lparr>s_substate_uncompressed := BROTLI_STATE_UNCOMPRESSED_NONE\<rparr>) input
       }
     })"

declare CopyUncompressedBlockToOutput.simps [code]

subsection \<open>Allocation\<close>

definition kRingBufferWriteAheadSlack :: int where
  [simp]: "kRingBufferWriteAheadSlack = 42"

text \<open>The loop that halves the ring buffer while the rest of the stream fits twice.\<close>

function shrink_ring_buffer :: "int \<Rightarrow> int \<Rightarrow> int" where
  "shrink_ring_buffer needed ringbuffer_size =
    (if ringbuffer_size \<ge> needed * 2 \<and> ringbuffer_size > 32
     then shrink_ring_buffer needed (ringbuffer_size div 2) else ringbuffer_size)"
  by pat_completeness auto
termination
  by (relation "measure (\<lambda>(needed, size). nat size)") auto

declare shrink_ring_buffer.simps [simp del]

text \<open>
  A byte 3 behind an uncompressed metablock is the header of an empty last metablock, so the
  metablock is the last one with content.
\<close>

definition ring_buffer_is_last :: "BrotliState \<Rightarrow> u8 list \<Rightarrow> bool option" where
  "ring_buffer_is_last s input =
    (if s_is_uncompressed s \<noteq> 0 then do {
       next_block_header \<leftarrow> BrotliPeekByte (s_br s) (u32_of_i32 (s_meta_block_remaining_len s)) input;
       Some (if next_block_header \<noteq> -1 \<and> next_block_header AND 3 = 3 then True
             else s_is_last_metablock s \<noteq> 0)
     } else Some (s_is_last_metablock s \<noteq> 0))"

definition BrotliAllocateRingBuffer :: "BrotliState \<Rightarrow> u8 list \<Rightarrow> (bool \<times> BrotliState) option" where
  "BrotliAllocateRingBuffer s input = do {
     let s = s\<lparr>s_ringbuffer_size := window_size s\<rparr>;
     is_last \<leftarrow> ring_buffer_is_last s input;
     let max_dict_size = usize_sub (usize_of_i32 (s_ringbuffer_size s)) 16;
     let dict_size = usize_of_isize (s_custom_dict_size s);
     (custom_dict, s) \<leftarrow>
       (if dict_size > max_dict_size then do {
          cd \<leftarrow> slice (s_custom_dict s) (dict_size - max_dict_size) dict_size;
          Some (cd, s\<lparr>s_custom_dict_size := int max_dict_size\<rparr>)
        } else do {
          cd \<leftarrow> slice (s_custom_dict s) 0 dict_size;
          Some (cd, s)
        });
     let s = (if is_last \<and> s_canny_ringbuffer_allocation s
              then s\<lparr>s_ringbuffer_size := shrink_ring_buffer
                (s_custom_dict_size s + s_meta_block_remaining_len s + 16) (s_ringbuffer_size s)\<rparr> else s);
     let s = (if s_ringbuffer_size s > window_size s then s\<lparr>s_ringbuffer_size := window_size s\<rparr> else s);
     let size = usize_of_i32 (s_ringbuffer_size s);
     let s = s\<lparr>s_ringbuffer_mask := s_ringbuffer_size s - 1,
               s_ringbuffer := s_alloc_u8 s
                 (size + nat kRingBufferWriteAheadSlack + unat kBrotliMaxDictionaryWordLength)\<rparr>;
     if length (s_ringbuffer s) = 0 then Some (False, s)
     else do {
       ringbuffer \<leftarrow> put (s_ringbuffer s) (usize_sub size 1) 0;
       ringbuffer \<leftarrow> put ringbuffer (usize_sub size 2) 0;
       ringbuffer \<leftarrow>
         (if length custom_dict \<noteq> 0 then do {
            let offset = usize_of_isize ((- s_custom_dict_size s) AND s_ringbuffer_mask s);
            rassert (length custom_dict = usize_of_isize (s_custom_dict_size s));
            overwrite ringbuffer offset custom_dict
          } else Some ringbuffer);
       Some (True, s\<lparr>s_ringbuffer := ringbuffer, s_custom_dict := []\<rparr>)
     }
   }"

subsection \<open>The output interface\<close>

definition BrotliDecoderHasMoreOutput :: "BrotliState \<Rightarrow> bool" where
  "BrotliDecoderHasMoreOutput s =
    (if is_fatal (s_error_code s) then False
     else length (s_ringbuffer s) \<noteq> 0 \<and> UnwrittenBytes s False \<noteq> 0)"

text \<open>The result is the bytes, the new value of the argument \<open>size\<close>, here \<open>requested\<close>, and the state.\<close>

definition BrotliDecoderTakeOutput ::
  "BrotliState \<Rightarrow> nat \<Rightarrow> (u8 list \<times> nat \<times> BrotliState) option" where
  "BrotliDecoderTakeOutput s requested =
    (let available_out = (if requested \<noteq> 0 then requested else push_bit 24 1);
         requested_out = available_out
     in if length (s_ringbuffer s) = 0 \<or> is_fatal (s_error_code s) then Some ([], 0, s)
        else do {
          s \<leftarrow> WrapRingBuffer s;
          (status, result, out, s) \<leftarrow> WriteRingBuffer
            \<lparr>o_available_out = available_out, o_output = None, o_output_offset = 0, o_total_out = 0\<rparr> True s;
          if status = BROTLI_DECODER_SUCCESS \<or> status = BROTLI_DECODER_NEEDS_MORE_OUTPUT
          then Some (result, requested_out - o_available_out out, s)
          else Some ([], 0, s)
        })"

definition BrotliDecoderIsUsed :: "BrotliState \<Rightarrow> bool" where
  "BrotliDecoderIsUsed s \<longleftrightarrow>
     s_state s \<noteq> BROTLI_STATE_UNINITED \<or> BrotliGetAvailableBits (s_br s) \<noteq> 0"

definition BrotliDecoderIsFinished :: "BrotliState \<Rightarrow> bool" where
  "BrotliDecoderIsFinished s =
    (case s_state s of BROTLI_STATE_DONE \<Rightarrow> \<not> BrotliDecoderHasMoreOutput s | _ \<Rightarrow> False)"

definition BrotliDecoderGetErrorCode :: "BrotliState \<Rightarrow> BrotliDecoderErrorCode" where
  "BrotliDecoderGetErrorCode s = s_error_code s"

end
