(* ===== verification/Commands.thy ===== *)
theory Commands
  imports Ring_Buffer
begin

text \<open>
  The command loop, from \<open>src/decode.rs\<close>: reading an insert-and-copy command and a distance, and
  \<open>ProcessCommandsInternal\<close>, which inserts literals and copies from the ring buffer or the static
  dictionary. The flag \<open>safe\<close> selects the version for the end of the input, which checks every
  read. The handlers of the four states of the loop are separate definitions. The bytes of the
  static dictionary are the argument \<open>dict\<close>.
\<close>

subsection \<open>Distances\<close>

definition kBrotliMaxAllowedDistance :: u32 where
  [simp]: "kBrotliMaxAllowedDistance = 0x7FFFFFFC"

definition kDistanceShortCodeIndexOffset :: u32 where
  [simp]: "kDistanceShortCodeIndexOffset = 0xaaafff1b"

definition kDistanceShortCodeValueOffset :: u32 where
  [simp]: "kDistanceShortCodeValueOffset = 0xfa5fa500"

text \<open>\<open>>>\<close> of an \<open>i32\<close>: arithmetic, with a masked distance.\<close>

definition shr_i32 :: "int \<Rightarrow> int \<Rightarrow> int" where
  "shr_i32 x n = drop_bit (nat (n mod 32)) x"

definition TakeDistanceFromRingBuffer :: "BrotliState \<Rightarrow> BrotliState option" where
  "TakeDistanceFromRingBuffer s =
    (if s_distance_code s = 0 then do {
       let s = s\<lparr>s_dist_rb_idx := i32 (s_dist_rb_idx s - 1)\<rparr>;
       d \<leftarrow> get_at (s_dist_rb s) (s_dist_rb_idx s AND 3);
       Some (s\<lparr>s_distance_code := d, s_distance_context := 1\<rparr>)
     } else do {
       let distance_code = shl_i32 (s_distance_code s) 1;
       let v = i32 (s_dist_rb_idx s + shr_i32 (sint kDistanceShortCodeIndexOffset) distance_code) AND 0x3;
       d \<leftarrow> get_at (s_dist_rb s) v;
       let v = sint (shr32 kDistanceShortCodeValueOffset (u32_of_i32 distance_code)) AND 0x3;
       if distance_code AND 0x3 \<noteq> 0 then Some (s\<lparr>s_distance_code := i32 (d + v)\<rparr>)
       else do {
         let s = s\<lparr>s_distance_code := i32 (d - v)\<rparr>;
         if s_distance_code s \<le> 0 then Some (s\<lparr>s_distance_code := 0x7fffffff\<rparr>) else Some s
       }
     })"

text \<open>The function \<open>SafeReadBits\<close> of the source: reading no bits at all succeeds.\<close>

definition SafeReadBits ::
  "BrotliBitReader \<Rightarrow> u32 \<Rightarrow> u32 \<Rightarrow> u8 list \<Rightarrow> (bool \<times> u32 \<times> BrotliBitReader) option" where
  "SafeReadBits br n_bits val input =
    (if n_bits \<noteq> 0 then BrotliSafeReadBits br n_bits val input else Some (True, 0, br))"

text \<open>\<open>s.block_type_length_state.block_length[k] -= 1\<close>.\<close>

definition decrement_block_length :: "nat \<Rightarrow> BrotliState \<Rightarrow> BrotliState option" where
  "decrement_block_length k s =
    (let bt = s_block_type_length_state s in do {
       n \<leftarrow> get (bt_block_length bt) k;
       lengths \<leftarrow> put (bt_block_length bt) k (n - 1);
       Some (s\<lparr>s_block_type_length_state := bt\<lparr>bt_block_length := lengths\<rparr>\<rparr>)
     })"

text \<open>
  The value of a distance code from the parameters of the metablock and the extra bits: with no
  postfix bits in the fast version, and in general.
\<close>

definition distance_without_postfix :: "int \<Rightarrow> u32 \<Rightarrow> u32 \<Rightarrow> u32 \<Rightarrow> int" where
  "distance_without_postfix distval nbits num_direct bits =
     i32 (uint num_direct + i32 (shl_i32 (2 + (distval AND 1)) (uint nbits) - 4) + uint bits)"

definition distance_with_postfix :: "int \<Rightarrow> int \<Rightarrow> u32 \<Rightarrow> u32 \<Rightarrow> u32 \<Rightarrow> u32 \<Rightarrow> int" where
  "distance_with_postfix postfix distval nbits postfix_bits num_direct bits =
    (let offset = i32 (shl_i32 ((distval AND 1) + 2) (uint nbits) - 4)
     in i32 ((offset + uint bits) * 2 ^ unat (postfix_bits AND 63) + postfix + uint num_direct))"

definition ReadDistanceInternal ::
  "bool \<Rightarrow> BrotliState \<Rightarrow> u8 list \<Rightarrow> HuffmanCode list list \<Rightarrow> (bool \<times> BrotliState) option" where
  "ReadDistanceInternal safe s input distance_hgroup = do {
     let memento = BrotliBitReaderSaveState (s_br s);
     tree \<leftarrow> get distance_hgroup (unat (s_dist_htree_index s));
     (ok, br, code) \<leftarrow>
       (if \<not> safe then do { (code, br) \<leftarrow> ReadSymbol tree (s_br s) input; Some (True, br, code) }
        else SafeReadSymbol tree (s_br s) 0 input);
     let s = s\<lparr>s_br := br\<rparr>;
     if \<not> ok then Some (False, s)
     else do {
       let s = s\<lparr>s_distance_code := sint code, s_distance_context := 0\<rparr>;
       if (word_of_int (s_distance_code s) :: u64) AND 0xfffffffffffffff0 = 0 then do {
         s \<leftarrow> TakeDistanceFromRingBuffer s;
         s \<leftarrow> decrement_block_length 2 s;
         Some (True, s)
       } else do {
         let distval = i32 (s_distance_code s - sint (s_num_direct_distance_codes s));
         (ok, s) \<leftarrow>
           (if distval \<ge> 0 then
              if \<not> safe \<and> s_distance_postfix_bits s = 0 then do {
                let nbits = drop_bit 1 (u32_of_i32 distval) + 1;
                (bits, br) \<leftarrow> BrotliReadBits (s_br s) nbits input;
                Some (True, s\<lparr>s_br := br, s_distance_code :=
                  distance_without_postfix distval nbits (s_num_direct_distance_codes s) bits\<rparr>)
              } else do {
                let postfix = distval AND s_distance_postfix_mask s;
                let distval = shr_i32 distval (uint (s_distance_postfix_bits s));
                let nbits = drop_bit 1 (u32_of_i32 distval) + 1;
                (ok, bits, br) \<leftarrow>
                  (if safe then SafeReadBits (s_br s) nbits 0 input
                   else do { (bits, br) \<leftarrow> BrotliReadBits (s_br s) nbits input; Some (True, bits, br) });
                if \<not> ok
                then Some (False, s\<lparr>s_distance_code := -1, s_br := BrotliBitReaderRestoreState br memento\<rparr>)
                else Some (True, s\<lparr>s_br := br, s_distance_code :=
                  distance_with_postfix postfix distval nbits (s_distance_postfix_bits s)
                    (s_num_direct_distance_codes s) bits\<rparr>)
              }
            else Some (True, s));
         if \<not> ok then Some (False, s)
         else do {
           let s = s\<lparr>s_distance_code := i32 (i32 (s_distance_code s - uint NUM_DISTANCE_SHORT_CODES) + 1)\<rparr>;
           s \<leftarrow> decrement_block_length 2 s;
           Some (True, s)
         }
       }
     }
   }"

subsection \<open>Commands\<close>

text \<open>The result has the insert length, which the source writes through a reference.\<close>

definition ReadCommandInternal ::
  "bool \<Rightarrow> BrotliState \<Rightarrow> int \<Rightarrow> u8 list \<Rightarrow> HuffmanCode list list \<Rightarrow> (bool \<times> int \<times> BrotliState) option" where
  "ReadCommandInternal safe s insert_length input insert_copy_hgroup = do {
     let memento = BrotliBitReaderSaveState (s_br s);
     tree \<leftarrow> get insert_copy_hgroup (unat (s_htree_command_index s));
     (ok, br, cmd_code) \<leftarrow>
       (if \<not> safe then do { (code, br) \<leftarrow> ReadSymbol tree (s_br s) input; Some (True, br, code) }
        else SafeReadSymbol tree (s_br s) 0 input);
     let s = s\<lparr>s_br := br\<rparr>;
     if \<not> ok then Some (False, insert_length, s)
     else do {
       v \<leftarrow> get kCmdLut (unat cmd_code);
       let s = s\<lparr>s_distance_code := cl_distance_code v, s_distance_context := uint (cl_context v)\<rparr>;
       htree \<leftarrow> get (s_dist_context_map s)
         (s_dist_context_map_slice_index s + usize_of_i32 (s_distance_context s));
       let s = s\<lparr>s_dist_htree_index := htree\<rparr>;
       let insert_length = uint (cl_insert_len_offset v);
       let ibits = (ucast (cl_insert_len_extra_bits v) :: u32);
       let cbits = (ucast (cl_copy_len_extra_bits v) :: u32);
       (ok, insert_len_extra, copy_length, br) \<leftarrow>
         (if \<not> safe then do {
            (extra, br) \<leftarrow>
              (if cl_insert_len_extra_bits v \<noteq> 0 then BrotliReadBits (s_br s) ibits input
               else Some (0, s_br s));
            (len, br) \<leftarrow> BrotliReadBits br cbits input;
            Some (True, extra, len, br)
          } else do {
            (ok, extra, br) \<leftarrow> SafeReadBits (s_br s) ibits 0 input;
            if \<not> ok then Some (False, 0, 0, br)
            else do {
              (ok, len, br) \<leftarrow> SafeReadBits br cbits 0 input;
              Some (ok, extra, len, br)
            }
          });
       if \<not> ok then Some (False, insert_length, s\<lparr>s_br := BrotliBitReaderRestoreState br memento\<rparr>)
       else do {
         let s = s\<lparr>s_br := br, s_copy_length := i32 (sint copy_length + uint (cl_copy_len_offset v))\<rparr>;
         s \<leftarrow> decrement_block_length 1 s;
         Some (True, i32 (insert_length + sint insert_len_extra), s)
       }
     }
   }"

definition WarmupBitReader :: "bool \<Rightarrow> BrotliBitReader \<Rightarrow> u8 list \<Rightarrow> (bool \<times> BrotliBitReader) option" where
  "WarmupBitReader safe br input = (if safe then Some (True, br) else BrotliWarmupBitReader br input)"

definition CheckInputAmount :: "bool \<Rightarrow> BrotliBitReader \<Rightarrow> u32 \<Rightarrow> bool" where
  "CheckInputAmount safe br num \<longleftrightarrow> safe \<or> BrotliCheckInputAmount br num"

subsection \<open>Copies\<close>

definition memmove16 :: "u8 list \<Rightarrow> u32 \<Rightarrow> u32 \<Rightarrow> u8 list option" where
  "memmove16 data u32off_dst u32off_src = do {
     local_array \<leftarrow> slice data (unat u32off_src) (unat u32off_src + 16);
     overwrite data (unat u32off_dst) local_array
   }"

definition memcpy_within_slice :: "u8 list \<Rightarrow> nat \<Rightarrow> nat \<Rightarrow> nat \<Rightarrow> u8 list option" where
  "memcpy_within_slice data off_dst off_src n =
    (if off_dst > off_src then do {
       src \<leftarrow> slice data 0 off_dst;
       dst \<leftarrow> slice_from data off_dst;
       src_slice \<leftarrow> slice src off_src (off_src + n);
       dst \<leftarrow> overwrite dst 0 src_slice;
       Some (src @ dst)
     } else do {
       dst \<leftarrow> slice data 0 off_src;
       src \<leftarrow> slice_from data off_src;
       src_slice \<leftarrow> slice src 0 n;
       dst \<leftarrow> overwrite dst off_dst src_slice;
       Some (dst @ src)
     })"

subsection \<open>The literals of a command\<close>

text \<open>
  How a loop over literals ends: all are decoded, or the command loop has to go on with a new
  state, or it has to return a code. \<open>pos\<close> is the position in the ring buffer, \<open>i\<close> the number of
  literals left.
\<close>

datatype literals_end =
    LiteralsDone int int BrotliState
  | LiteralsContinue int int BrotliState
  | LiteralsReturn BrotliDecoderErrorCode int int BrotliState

text \<open>
  The end of the body of both literal loops, after the literal is stored: the block length is
  decremented, and the loop stops at the end of the ring buffer or of the literals.
\<close>

definition literal_stored :: "int \<Rightarrow> int \<Rightarrow> BrotliState \<Rightarrow> (literals_end + int \<times> int \<times> BrotliState) option" where
  "literal_stored pos i s = do {
     n \<leftarrow> get (bt_block_length (s_block_type_length_state s)) 0;
     if n = 0 then Some (Inl (LiteralsReturn BROTLI_DECODER_ERROR_FORMAT_WINDOW_BITS pos i s))
     else do {
       s \<leftarrow> decrement_block_length 0 s;
       let pos = i32 (pos + 1);
       let i = i32 (i - 1);
       if pos = s_ringbuffer_size s
       then Some (Inl (LiteralsReturn BROTLI_DECODER_SUCCESS pos i
              (s\<lparr>s_state := BROTLI_STATE_COMMAND_INNER_WRITE\<rparr>)))
       else if i = 0 then Some (Inl (LiteralsDone pos i s))
       else Some (Inr (pos, i, s))
     }
   }"

text \<open>The loop for block types whose literals all use one tree, with the preloaded symbol.\<close>

partial_function (option) trivial_literals ::
  "bool \<Rightarrow> HuffmanCode list list \<Rightarrow> u8 list \<Rightarrow> HuffmanCode list \<Rightarrow> u32 \<Rightarrow> u32 \<Rightarrow> int \<Rightarrow> int \<Rightarrow> BrotliState \<Rightarrow>
     literals_end option" where
  "trivial_literals safe literal_hgroup input tree bits value pos i s =
    (if \<not> CheckInputAmount safe (s_br s) 28
     then Some (LiteralsReturn BROTLI_DECODER_NEEDS_MORE_INPUT pos i s)
     else do {
       n \<leftarrow> get (bt_block_length (s_block_type_length_state s)) 0;
       (stop, s) \<leftarrow>
         (if n = 0 then do {
            (ok, s) \<leftarrow> DecodeLiteralBlockSwitchInternal safe s input;
            Some (\<not> ok \<and> safe, s)
          } else Some (False, s));
       if stop then Some (LiteralsReturn BROTLI_DECODER_NEEDS_MORE_INPUT pos i s)
       else do {
         (tree, bits, value, s) \<leftarrow>
           (if n = 0 then do {
              tree \<leftarrow> get literal_hgroup (unat (s_literal_htree_index s));
              (br, bits, value) \<leftarrow> PreloadSymbol safe tree (s_br s) bits value input;
              Some (tree, bits, value, s\<lparr>s_br := br\<rparr>)
            } else Some (tree, bits, value, s));
         if n = 0 \<and> s_trivial_literal_context s = 0
         then Some (LiteralsContinue pos i (s\<lparr>s_state := BROTLI_STATE_COMMAND_INNER\<rparr>))
         else do {
           (ok, literal, bits, value, br) \<leftarrow>
             (if \<not> safe then do {
                (literal, br, bits, value) \<leftarrow> ReadPreloadedSymbol tree (s_br s) bits value input;
                Some (True, literal, bits, value, br)
              } else do {
                (ok, br, literal) \<leftarrow> SafeReadSymbol tree (s_br s) 0 input;
                Some (ok, literal, bits, value, br)
              });
           let s = s\<lparr>s_br := br\<rparr>;
           if \<not> ok then Some (LiteralsReturn BROTLI_DECODER_NEEDS_MORE_INPUT pos i s)
           else do {
             ringbuffer \<leftarrow> put_at (s_ringbuffer s) pos (ucast literal);
             r \<leftarrow> literal_stored pos i (s\<lparr>s_ringbuffer := ringbuffer\<rparr>);
             case r of
               Inl e \<Rightarrow> Some e
             | Inr c \<Rightarrow> trivial_literals safe literal_hgroup input tree bits value
                 (fst c) (fst (snd c)) (snd (snd c))
           }
         }
       }
     })"

text \<open>The loop that chooses the tree by the context of the last two bytes, \<open>p1\<close> and \<open>p2\<close>.\<close>

partial_function (option) context_literals ::
  "bool \<Rightarrow> HuffmanCode list list \<Rightarrow> u8 list \<Rightarrow> u8 \<Rightarrow> u8 \<Rightarrow> int \<Rightarrow> int \<Rightarrow> BrotliState \<Rightarrow> literals_end option" where
  "context_literals safe literal_hgroup input p1 p2 pos i s =
    (if \<not> CheckInputAmount safe (s_br s) 28
     then Some (LiteralsReturn BROTLI_DECODER_NEEDS_MORE_INPUT pos i
            (s\<lparr>s_state := BROTLI_STATE_COMMAND_INNER\<rparr>))
     else do {
       n \<leftarrow> get (bt_block_length (s_block_type_length_state s)) 0;
       (stop, s) \<leftarrow>
         (if n = 0 then do {
            (ok, s) \<leftarrow> DecodeLiteralBlockSwitchInternal safe s input;
            Some (\<not> ok \<and> safe, s)
          } else Some (False, s));
       if stop then Some (LiteralsReturn BROTLI_DECODER_NEEDS_MORE_INPUT pos i s)
       else if n = 0 \<and> s_trivial_literal_context s \<noteq> 0
       then Some (LiteralsContinue pos i (s\<lparr>s_state := BROTLI_STATE_COMMAND_INNER\<rparr>))
       else do {
         context \<leftarrow> literal_context (s_context_lookup s) p1 p2;
         t \<leftarrow> get (s_context_map s) (s_context_map_slice_index s + unat context);
         hc \<leftarrow> get literal_hgroup (unat t);
         (ok, br, literal) \<leftarrow>
           (if \<not> safe then do { (literal, br) \<leftarrow> ReadSymbol hc (s_br s) input; Some (True, br, literal) }
            else SafeReadSymbol hc (s_br s) 0 input);
         let s = s\<lparr>s_br := br\<rparr>;
         if \<not> ok then Some (LiteralsReturn BROTLI_DECODER_NEEDS_MORE_INPUT pos i s)
         else do {
           let p2 = p1;
           let p1 = ucast literal;
           ringbuffer \<leftarrow> put_at (s_ringbuffer s) pos p1;
           r \<leftarrow> literal_stored pos i (s\<lparr>s_ringbuffer := ringbuffer\<rparr>);
           case r of
             Inl e \<Rightarrow> Some e
           | Inr c \<Rightarrow> context_literals safe literal_hgroup input p1 p2 (fst c) (fst (snd c)) (snd (snd c))
         }
       }
     })"

declare trivial_literals.simps [code] context_literals.simps [code]

subsection \<open>The states of the command loop\<close>

text \<open>
  What the handler of a state leads to: the next iteration, the end of the loop with a result,
  or the direct return for a forbidden distance, which skips the code behind the loop.
\<close>

datatype command_flow =
    Continue int int BrotliState
  | Break BrotliDecoderErrorCode int int BrotliState
  | Return BrotliDecoderErrorCode BrotliState

definition command_begin ::
  "bool \<Rightarrow> HuffmanCode list list \<Rightarrow> u8 list \<Rightarrow> int \<Rightarrow> int \<Rightarrow> BrotliState \<Rightarrow> command_flow option" where
  "command_begin safe insert_copy_hgroup input pos i s =
    (if \<not> CheckInputAmount safe (s_br s) 28 then Some (Break BROTLI_DECODER_NEEDS_MORE_INPUT pos i s)
     else do {
       n \<leftarrow> get (bt_block_length (s_block_type_length_state s)) 1;
       if n = 0 then do {
         (ok, s) \<leftarrow> DecodeCommandBlockSwitchInternal safe s input;
         if \<not> ok then Some (Break BROTLI_DECODER_NEEDS_MORE_INPUT pos i s)
         else Some (Continue pos i (s\<lparr>s_state := BROTLI_STATE_COMMAND_BEGIN\<rparr>))
       } else do {
         (ok, i, s) \<leftarrow> ReadCommandInternal safe s i input insert_copy_hgroup;
         if \<not> ok \<and> safe then Some (Break BROTLI_DECODER_NEEDS_MORE_INPUT pos i s)
         else if i = 0
         then Some (Continue pos i (s\<lparr>s_state := BROTLI_STATE_COMMAND_POST_DECODE_LITERALS\<rparr>))
         else Some (Continue pos i
           (s\<lparr>s_meta_block_remaining_len := i32 (s_meta_block_remaining_len s - i),
              s_state := BROTLI_STATE_COMMAND_INNER\<rparr>))
       }
     })"

definition command_inner ::
  "bool \<Rightarrow> HuffmanCode list list \<Rightarrow> u8 list \<Rightarrow> int \<Rightarrow> int \<Rightarrow> BrotliState \<Rightarrow> command_flow option" where
  "command_inner safe literal_hgroup input pos i s = do {
     e \<leftarrow>
       (if s_trivial_literal_context s \<noteq> 0 then do {
          tree \<leftarrow> get literal_hgroup (unat (s_literal_htree_index s));
          (br, bits, value) \<leftarrow> PreloadSymbol safe tree (s_br s) 0 0 input;
          trivial_literals safe literal_hgroup input tree bits value pos i (s\<lparr>s_br := br\<rparr>)
        } else do {
          p1 \<leftarrow> get_at (s_ringbuffer s) ((pos - 1) AND s_ringbuffer_mask s);
          p2 \<leftarrow> get_at (s_ringbuffer s) ((pos - 2) AND s_ringbuffer_mask s);
          let (p1, p2) = (if s_custom_dict_avoid_context_seed s \<and> pos < 2 then (0, 0) else (p1, p2));
          let s = (if pos > 1 then s\<lparr>s_custom_dict_avoid_context_seed := False\<rparr> else s);
          context_literals safe literal_hgroup input p1 p2 pos i s
        });
     case e of
       LiteralsReturn result pos i s \<Rightarrow> Some (Break result pos i s)
     | LiteralsContinue pos i s \<Rightarrow> Some (Continue pos i s)
     | LiteralsDone pos i s \<Rightarrow>
         if s_meta_block_remaining_len s \<le> 0
         then Some (Break BROTLI_DECODER_SUCCESS pos i (s\<lparr>s_state := BROTLI_STATE_METABLOCK_DONE\<rparr>))
         else Some (Continue pos i (s\<lparr>s_state := BROTLI_STATE_COMMAND_POST_DECODE_LITERALS\<rparr>))
   }"

text \<open>The end of a copy: the next metablock or the next command.\<close>

definition after_copy :: "int \<Rightarrow> int \<Rightarrow> BrotliState \<Rightarrow> command_flow" where
  "after_copy pos i s =
    (if s_meta_block_remaining_len s \<le> 0
     then Break BROTLI_DECODER_SUCCESS pos i (s\<lparr>s_state := BROTLI_STATE_METABLOCK_DONE\<rparr>)
     else Continue pos i (s\<lparr>s_state := BROTLI_STATE_COMMAND_BEGIN\<rparr>))"

text \<open>A distance beyond the ring buffer: a word of the static dictionary, transformed.\<close>

definition copy_from_dictionary ::
  "u8 list \<Rightarrow> int \<Rightarrow> int \<Rightarrow> BrotliState \<Rightarrow> command_flow option" where
  "copy_from_dictionary dict pos i s =
    (if i \<ge> uint kBrotliMinDictionaryWordLength \<and> i \<le> uint kBrotliMaxDictionaryWordLength then do {
       offset \<leftarrow> get kBrotliDictionaryOffsetsByLength (nat i);
       let word_id = i32 (s_distance_code s - s_max_distance s - 1);
       shift \<leftarrow> get kBrotliDictionarySizeBitsByLength (nat i);
       mask \<leftarrow> BitMask (ucast shift);
       let word_idx = word_id AND sint mask;
       let transform_idx = shr_i32 word_id (uint shift);
       let s = s\<lparr>s_dist_rb_idx := i32 (s_dist_rb_idx s + s_distance_context s)\<rparr>;
       let offset = i32 (sint offset + i32 (word_idx * i));
       if transform_idx < kNumTransforms then do {
         word \<leftarrow> slice dict (usize_of_i32 offset) (usize_of_i32 (i32 (offset + i)));
         (ringbuffer, len) \<leftarrow>
           (if transform_idx = 0 then do {
              ringbuffer \<leftarrow> overwrite (s_ringbuffer s) (usize_of_i32 pos) word;
              Some (ringbuffer, i)
            } else do {
              dst \<leftarrow> slice_from (s_ringbuffer s) (usize_of_i32 pos);
              (dst, len) \<leftarrow> TransformDictionaryWord dst word i transform_idx;
              Some (take (usize_of_i32 pos) (s_ringbuffer s) @ dst, len)
            });
         let pos = i32 (pos + len);
         let s = s\<lparr>s_ringbuffer := ringbuffer,
                   s_meta_block_remaining_len := i32 (s_meta_block_remaining_len s - len)\<rparr>;
         if pos \<ge> s_ringbuffer_size s
         then Some (Break BROTLI_DECODER_SUCCESS pos i (s\<lparr>s_state := BROTLI_STATE_COMMAND_POST_WRITE_1\<rparr>))
         else Some (after_copy pos i s)
       } else Some (Break BROTLI_DECODER_ERROR_FORMAT_TRANSFORM pos i s)
     } else Some (Break BROTLI_DECODER_ERROR_FORMAT_DICTIONARY pos i s))"

text \<open>A copy inside the ring buffer: a first guess of 16 bytes, then the rest or the slow way.\<close>

definition copy_from_ring_buffer :: "int \<Rightarrow> int \<Rightarrow> BrotliState \<Rightarrow> command_flow option" where
  "copy_from_ring_buffer pos i s = do {
     dist_rb \<leftarrow> put_at (s_dist_rb s) (s_dist_rb_idx s AND 3) (s_distance_code s);
     let s = s\<lparr>s_dist_rb := dist_rb, s_dist_rb_idx := i32 (s_dist_rb_idx s + 1),
               s_meta_block_remaining_len := i32 (s_meta_block_remaining_len s - i)\<rparr>;
     let src_start = u32_of_i32 (i32 (pos - s_distance_code s) AND s_ringbuffer_mask s);
     let dst_start = u32_of_i32 pos;
     let dst_end = u32_of_i32 pos + u32_of_i32 i;
     let src_end = src_start + u32_of_i32 i;
     ringbuffer \<leftarrow> memmove16 (s_ringbuffer s) dst_start src_start;
     let s = s\<lparr>s_ringbuffer := ringbuffer\<rparr>;
     if src_end > u32_of_i32 pos \<and> dst_end > src_start
     then Some (Continue pos i (s\<lparr>s_state := BROTLI_STATE_COMMAND_POST_WRAP_COPY\<rparr>))
     else if dst_end \<ge> u32_of_i32 (s_ringbuffer_size s) \<or> src_end \<ge> u32_of_i32 (s_ringbuffer_size s)
     then Some (Continue pos i (s\<lparr>s_state := BROTLI_STATE_COMMAND_POST_WRAP_COPY\<rparr>))
     else do {
       let pos = i32 (pos + i);
       ringbuffer \<leftarrow>
         (if i > 16 then
            if i > 32
            then memcpy_within_slice (s_ringbuffer s) (unat dst_start + 16) (unat src_start + 16)
                   (usize_of_i32 (i - 16))
            else memmove16 (s_ringbuffer s) (dst_start + 16) (src_start + 16)
          else Some (s_ringbuffer s));
       Some (after_copy pos i (s\<lparr>s_ringbuffer := ringbuffer\<rparr>))
     }
   }"

text \<open>The distance that a position may reach back to in the ring buffer.\<close>

definition update_max_distance :: "int \<Rightarrow> BrotliState \<Rightarrow> BrotliState" where
  "update_max_distance pos s =
    (if s_max_distance s \<noteq> s_max_backward_distance s then
       if pos < s_max_backward_distance_minus_custom_dict_size s
       then s\<lparr>s_max_distance := i32 (pos + i32 (s_custom_dict_size s))\<rparr>
       else s\<lparr>s_max_distance := s_max_backward_distance s\<rparr>
     else s)"

definition command_post_decode_literals ::
  "bool \<Rightarrow> u8 list \<Rightarrow> HuffmanCode list list \<Rightarrow> u8 list \<Rightarrow> int \<Rightarrow> int \<Rightarrow> BrotliState \<Rightarrow> command_flow option" where
  "command_post_decode_literals safe dict distance_hgroup input pos i s = do {
     (stop, s) \<leftarrow>
       (if s_distance_code s \<ge> 0 then do {
          let s = s\<lparr>s_distance_context := (if s_distance_code s \<noteq> 0 then 0 else 1),
                    s_dist_rb_idx := i32 (s_dist_rb_idx s - 1)\<rparr>;
          d \<leftarrow> get_at (s_dist_rb s) (s_dist_rb_idx s AND 3);
          Some (False, s\<lparr>s_distance_code := d\<rparr>)
        } else do {
          n \<leftarrow> get (bt_block_length (s_block_type_length_state s)) 2;
          (stop, s) \<leftarrow>
            (if n = 0 then do {
               (ok, s) \<leftarrow> DecodeDistanceBlockSwitchInternal safe s input;
               Some (\<not> ok \<and> safe, s)
             } else Some (False, s));
          if stop then Some (True, s)
          else do {
            (ok, s) \<leftarrow> ReadDistanceInternal safe s input distance_hgroup;
            Some (\<not> ok \<and> safe, s)
          }
        });
     if stop then Some (Break BROTLI_DECODER_NEEDS_MORE_INPUT pos i s)
     else do {
       let s = update_max_distance pos s;
       let i = s_copy_length s;
       if s_distance_code s > s_max_distance s then
         if s_distance_code s > sint kBrotliMaxAllowedDistance
         then Some (Return BROTLI_DECODER_ERROR_FORMAT_DISTANCE s)
         else copy_from_dictionary dict pos i s
       else copy_from_ring_buffer pos i s
     }
   }"

text \<open>The byte-by-byte copy. The boolean tells that the end of the ring buffer was reached.\<close>

function wrap_copy :: "int \<Rightarrow> int \<Rightarrow> int \<Rightarrow> BrotliState \<Rightarrow> (bool \<times> int \<times> int \<times> BrotliState) option" where
  "wrap_copy wrap_guard pos i s =
    (if i > 0 then do {
       let i = i - 1;
       b \<leftarrow> get_at (s_ringbuffer s) (i32 (pos - s_distance_code s) AND s_ringbuffer_mask s);
       ringbuffer \<leftarrow> put_at (s_ringbuffer s) pos b;
       let s = s\<lparr>s_ringbuffer := ringbuffer\<rparr>;
       let pos = i32 (pos + 1);
       let wrap_guard = i32 (wrap_guard - 1);
       if wrap_guard = 0
       then Some (True, pos, i, s\<lparr>s_state := BROTLI_STATE_COMMAND_POST_WRITE_2\<rparr>)
       else wrap_copy wrap_guard pos i s
     } else Some (False, pos, i, s))"
  by pat_completeness auto
termination
  by (relation "measure (\<lambda>(wrap_guard, pos, i, s). nat i)") auto

declare wrap_copy.simps [simp del]

definition command_post_wrap_copy :: "int \<Rightarrow> int \<Rightarrow> BrotliState \<Rightarrow> command_flow option" where
  "command_post_wrap_copy pos i s = do {
     (full, pos, i, s) \<leftarrow> wrap_copy (i32 (s_ringbuffer_size s - pos)) pos i s;
     if full then Some (Break BROTLI_DECODER_SUCCESS pos i s)
     else Some (after_copy pos (i - 1) s)
   }"

subsection \<open>The command loop\<close>

definition command_step ::
  "bool \<Rightarrow> u8 list \<Rightarrow> HuffmanCode list list \<Rightarrow> HuffmanCode list list \<Rightarrow> HuffmanCode list list \<Rightarrow> u8 list \<Rightarrow>
     int \<Rightarrow> int \<Rightarrow> BrotliState \<Rightarrow> command_flow option" where
  "command_step safe dict literal_hgroup distance_hgroup insert_copy_hgroup input pos i s =
    (case s_state s of
       BROTLI_STATE_COMMAND_BEGIN \<Rightarrow> command_begin safe insert_copy_hgroup input pos i s
     | BROTLI_STATE_COMMAND_INNER \<Rightarrow> command_inner safe literal_hgroup input pos i s
     | BROTLI_STATE_COMMAND_POST_DECODE_LITERALS \<Rightarrow>
         command_post_decode_literals safe dict distance_hgroup input pos i s
     | BROTLI_STATE_COMMAND_POST_WRAP_COPY \<Rightarrow> command_post_wrap_copy pos i s
     | _ \<Rightarrow> Some (Break BROTLI_DECODER_ERROR_UNREACHABLE pos i s))"

partial_function (option) command_loop ::
  "bool \<Rightarrow> u8 list \<Rightarrow> HuffmanCode list list \<Rightarrow> HuffmanCode list list \<Rightarrow> HuffmanCode list list \<Rightarrow> u8 list \<Rightarrow>
     int \<Rightarrow> int \<Rightarrow> BrotliState \<Rightarrow> command_flow option" where
  "command_loop safe dict lit dist ins input pos i s = do {
     flow \<leftarrow> command_step safe dict lit dist ins input pos i s;
     case flow of
       Continue pos i s \<Rightarrow> command_loop safe dict lit dist ins input pos i s
     | Break e pos i s \<Rightarrow> Some (Break e pos i s)
     | Return e s \<Rightarrow> Some (Return e s)
   }"

declare command_loop.simps [code]

text \<open>
  The groups are moved out of the state for the time of the loop. The direct return leaves them
  empty and the position of the state as it was.
\<close>

definition ProcessCommandsInternal ::
  "u8 list \<Rightarrow> bool \<Rightarrow> BrotliState \<Rightarrow> u8 list \<Rightarrow> (BrotliDecoderErrorCode \<times> BrotliState) option" where
  "ProcessCommandsInternal dict safe s input = do {
     (ok, br) \<leftarrow>
       (if \<not> CheckInputAmount safe (s_br s) 28 then Some (False, s_br s)
        else WarmupBitReader safe (s_br s) input);
     let s = s\<lparr>s_br := br\<rparr>;
     if \<not> ok then Some (BROTLI_DECODER_NEEDS_MORE_INPUT, s)
     else do {
       let (lit, dist, ins) = (s_literal_hgroup s, s_distance_hgroup s, s_insert_copy_hgroup s);
       literal_hgroup \<leftarrow> build_hgroup_cache lit;
       distance_hgroup \<leftarrow> build_hgroup_cache dist;
       insert_copy_hgroup \<leftarrow> build_hgroup_cache ins;
       flow \<leftarrow> command_loop safe dict literal_hgroup distance_hgroup insert_copy_hgroup input
         (s_pos s) (s_loop_counter s)
         (s\<lparr>s_literal_hgroup := HuffmanTreeGroup_default, s_distance_hgroup := HuffmanTreeGroup_default,
            s_insert_copy_hgroup := HuffmanTreeGroup_default\<rparr>);
       case flow of
         Break result pos i s \<Rightarrow>
           Some (result, s\<lparr>s_pos := pos, s_loop_counter := i, s_literal_hgroup := lit,
                           s_distance_hgroup := dist, s_insert_copy_hgroup := ins\<rparr>)
       | Return result s \<Rightarrow> Some (result, s)
       | Continue pos i s \<Rightarrow> None
     }
   }"

definition ProcessCommands ::
  "u8 list \<Rightarrow> BrotliState \<Rightarrow> u8 list \<Rightarrow> (BrotliDecoderErrorCode \<times> BrotliState) option" where
  "ProcessCommands dict s input = ProcessCommandsInternal dict False s input"

definition SafeProcessCommands ::
  "u8 list \<Rightarrow> BrotliState \<Rightarrow> u8 list \<Rightarrow> (BrotliDecoderErrorCode \<times> BrotliState) option" where
  "SafeProcessCommands dict s input = ProcessCommandsInternal dict True s input"

end
