(* ===== verification/Command_Spec.thy ===== *)
theory Command_Spec
  imports Commands Block_Spec
begin

text \<open>
  The correctness of \<open>ReadCommandInternal\<close>: commands as pairs of an insert and a copy length, their symbols
  among the 704 entries of \<open>kCmdLut\<close>, their encoding, and the proof that the fast and the safe reader invert
  it, and that the safe one undoes a command it cannot read to the end.
\<close>

subsection \<open>The table of commands\<close>

text \<open>
  The 704 command symbols are 11 cells of 8 insert length codes by 8 copy length codes; the first two
  cells say that the last distance is used again.
\<close>

lemma nth_concat_uniform:
  assumes "\<And>x. x \<in> set xss \<Longrightarrow> length x = n" "i < length xss" "j < n"
  shows "concat xss ! (i * n + j) = xss ! i ! j"
  using assms
proof (induction xss arbitrary: i)
  case (Cons x xss)
  then have "length x = n" by simp
  with Cons show ?case by (cases i) (simp_all add: nth_append)
qed simp

lemma length_length_codes [simp]: "length insert_length_code = 24" "length copy_length_code = 24"
  by (simp_all add: insert_length_code_def copy_length_code_def)

definition command_entry :: "int \<Rightarrow> nat \<Rightarrow> nat \<Rightarrow> CmdLutElement" where
  "command_entry d i c = CmdLutElement (snd (insert_length_code ! i)) (snd (copy_length_code ! c)) d
     (distance_context_of_copy_length (fst (copy_length_code ! c)))
     (fst (insert_length_code ! i)) (fst (copy_length_code ! c))"

lemma command_cell_nth:
  assumes "i \<le> 16" "c \<le> 16" "x < 8" "y < 8"
  shows "command_cell d i c ! (x * 8 + y) = command_entry d (i + x) (c + y)"
proof -
  let ?row = "\<lambda>r. map (\<lambda>k. CmdLutElement (snd r) (snd k) d (distance_context_of_copy_length (fst k)) (fst r) (fst k))
      (take 8 (drop c copy_length_code))"
  have cell: "command_cell d i c = concat (map ?row (take 8 (drop i insert_length_code)))"
    by (simp add: command_cell_def split_def)
  have "length (?row r) = 8" for r using assms(2) by simp
  then have "command_cell d i c ! (x * 8 + y) = map ?row (take 8 (drop i insert_length_code)) ! x ! y"
    unfolding cell using assms by (intro nth_concat_uniform) auto
  then show ?thesis using assms by (simp add: command_entry_def)
qed

definition command_cells :: "(int \<times> nat \<times> nat) list" where
  "command_cells = [(0, 0, 0), (0, 0, 8), (-1, 0, 0), (-1, 0, 8), (-1, 8, 0), (-1, 8, 8), (-1, 0, 16),
     (-1, 16, 0), (-1, 8, 16), (-1, 16, 8), (-1, 16, 16)]"

lemma length_command_cells: "length command_cells = 11"
  by (simp add: command_cells_def)

lemma kCmdLut_concat: "kCmdLut = concat (map (\<lambda>(d, i, c). command_cell d i c) command_cells)"
  by (simp only: kCmdLut_def kCmdLut_cells command_cells_def list.map prod.case concat.simps append.simps append_assoc append_Nil2)

definition cell_number :: "bool \<Rightarrow> nat \<Rightarrow> nat \<Rightarrow> nat" where
  "cell_number same_distance i c =
     (if same_distance then c div 8 else [[2, 3, 6], [4, 5, 8], [7, 9, 10]] ! (i div 8) ! (c div 8))"

lemma cell_number:
  assumes "i < 24" "c < 24" "same_distance \<longrightarrow> i < 8 \<and> c < 16"
  shows "cell_number same_distance i c < 11"
    "command_cells ! cell_number same_distance i c =
      (if same_distance then 0 else -1, i div 8 * 8, c div 8 * 8)"
proof -
  have "i div 8 = 0 \<or> i div 8 = 1 \<or> i div 8 = 2" using assms(1) by linarith
  moreover have "c div 8 = 0 \<or> c div 8 = 1 \<or> c div 8 = 2" using assms(2) by linarith
  moreover have "same_distance \<Longrightarrow> i div 8 = 0 \<and> c div 8 \<noteq> 2" using assms(3) by auto
  ultimately have "cell_number same_distance i c < 11 \<and> command_cells ! cell_number same_distance i c =
      (if same_distance then 0 else -1, i div 8 * 8, c div 8 * 8)"
    by (cases same_distance; elim disjE) (auto simp: cell_number_def command_cells_def)
  then show "cell_number same_distance i c < 11"
    "command_cells ! cell_number same_distance i c = (if same_distance then 0 else -1, i div 8 * 8, c div 8 * 8)"
    by blast+
qed

text \<open>The symbol of a pair of length codes.\<close>

definition command_symbol :: "bool \<Rightarrow> nat \<Rightarrow> nat \<Rightarrow> nat" where
  "command_symbol same_distance i c = cell_number same_distance i c * 64 + i mod 8 * 8 + c mod 8"

lemma command_symbol_at:
  assumes "i < 24" "c < 24" "same_distance \<longrightarrow> i < 8 \<and> c < 16"
  shows "get kCmdLut (command_symbol same_distance i c) = Some (command_entry (if same_distance then 0 else -1) i c)"
proof -
  let ?n = "cell_number same_distance i c" and ?d = "(if same_distance then 0 else -1) :: int"
  note n = cell_number [OF assms]
  let ?cells = "map (\<lambda>(d, i, c). command_cell d i c) command_cells"
  have cell: "?cells ! ?n = command_cell ?d (i div 8 * 8) (c div 8 * 8)"
    using n nth_map [of ?n command_cells "\<lambda>(d, i, c). command_cell d i c"] length_command_cells by simp
  have "i div 8 \<le> 2" "c div 8 \<le> 2" using assms(1,2) by simp_all
  then have le: "i div 8 * 8 \<le> 16" "c div 8 * 8 \<le> 16" by simp_all
  have "i mod 8 < 8" "c mod 8 < 8" by simp_all
  then have lt: "i mod 8 * 8 + c mod 8 < 64" by linarith
  have "length x = 64" if "x \<in> set ?cells" for x
    using that by (auto simp: command_cells_def length_command_cell)
  then have "kCmdLut ! (?n * 64 + (i mod 8 * 8 + c mod 8)) = ?cells ! ?n ! (i mod 8 * 8 + c mod 8)"
    unfolding kCmdLut_concat using n(1) lt by (intro nth_concat_uniform) (auto simp: length_command_cells)
  also have "\<dots> = command_entry ?d (i div 8 * 8 + i mod 8) (c div 8 * 8 + c mod 8)"
    unfolding cell by (rule command_cell_nth) (use le in auto)
  finally have "kCmdLut ! command_symbol same_distance i c = command_entry ?d i c"
    by (simp add: command_symbol_def add.assoc)
  moreover have "command_symbol same_distance i c < 704" using n(1) lt unfolding command_symbol_def by linarith
  ultimately show ?thesis by (simp add: get_def)
qed

subsection \<open>Insert and copy lengths\<close>

lemma insert_ranges:
  "contiguous insert_length_code" "in_ranges insert_length_code n \<longleftrightarrow> n < 22594 + 2 ^ 24"
proof -
  have "\<forall>i \<in> set [0..<23]. unat (fst (insert_length_code ! Suc i)) =
      unat (fst (insert_length_code ! i)) + 2 ^ unat (snd (insert_length_code ! i))"
    by (simp add: insert_length_code_def upt_rec)
  then show "contiguous insert_length_code" by (auto simp: contiguous_def insert_length_code_def)
  show "in_ranges insert_length_code n \<longleftrightarrow> n < 22594 + 2 ^ 24"
    by (simp add: in_ranges_def insert_length_code_def)
qed

lemma copy_ranges:
  "contiguous copy_length_code" "in_ranges copy_length_code n \<longleftrightarrow> 2 \<le> n \<and> n < 2118 + 2 ^ 24"
proof -
  have "\<forall>i \<in> set [0..<23]. unat (fst (copy_length_code ! Suc i)) =
      unat (fst (copy_length_code ! i)) + 2 ^ unat (snd (copy_length_code ! i))"
    by (simp add: copy_length_code_def upt_rec)
  then show "contiguous copy_length_code" by (auto simp: contiguous_def copy_length_code_def)
  show "in_ranges copy_length_code n \<longleftrightarrow> 2 \<le> n \<and> n < 2118 + 2 ^ 24"
    by (simp add: in_ranges_def copy_length_code_def)
qed

lemma length_code_bits:
  assumes "i < 24"
  shows "unat (snd (insert_length_code ! i)) \<le> 24" "unat (snd (copy_length_code ! i)) \<le> 24"
proof -
  have "\<forall>i \<in> set [0..<24]. unat (snd (insert_length_code ! i)) \<le> 24 \<and> unat (snd (copy_length_code ! i)) \<le> 24"
    by (simp add: insert_length_code_def copy_length_code_def upt_rec)
  then show "unat (snd (insert_length_code ! i)) \<le> 24" "unat (snd (copy_length_code ! i)) \<le> 24"
    using assms by simp_all
qed

text \<open>The last distance can be used again with insert lengths below 10 and copy lengths below 70.\<close>

lemma same_distance_ranges:
  "n < 10 \<Longrightarrow> range_index insert_length_code n < 8"
  "2 \<le> n \<Longrightarrow> n < 70 \<Longrightarrow> range_index copy_length_code n < 16"
  by (simp_all add: range_index_def insert_length_code_def copy_length_code_def)

text \<open>The distance context is the copy length less two, or three for a length above four.\<close>

lemma copy_context:
  assumes "2 \<le> n" "n < 2118 + 2 ^ 24"
  shows "uint (distance_context_of_copy_length (fst (copy_length_code ! range_index copy_length_code n))) = int (min (n - 2) 3)"
proof -
  consider "n = 2" | "n = 3" | "n = 4" | "5 \<le> n" using assms(1) by linarith
  then show ?thesis
  proof cases
    case 4
    have small: "\<forall>i \<in> set [0..<24]. unat (fst (copy_length_code ! i)) \<le> 4 \<longrightarrow> unat (fst (copy_length_code ! i)) + 2 ^ unat (snd (copy_length_code ! i)) \<le> 5"
      by (simp add: copy_length_code_def upt_rec)
    have r: "in_ranges copy_length_code n" using copy_ranges(2) [of n] assms by simp
    note r' = range_index_at [OF copy_ranges(1) r, unfolded length_length_codes]
    have "range_index copy_length_code n \<in> set [0..<24]" using r'(1) by simp
    with small have "unat (fst (copy_length_code ! range_index copy_length_code n)) \<le> 4 \<longrightarrow>
        unat (fst (copy_length_code ! range_index copy_length_code n)) + 2 ^ unat (snd (copy_length_code ! range_index copy_length_code n)) \<le> 5"
      by (rule bspec)
    then have "4 < unat (fst (copy_length_code ! range_index copy_length_code n))"
      using r'(3) 4 by linarith
    then show ?thesis using 4 by (auto simp: distance_context_of_copy_length_def)
  qed (simp_all add: range_index_def copy_length_code_def distance_context_of_copy_length_def)
qed

subsection \<open>Reading a command\<close>

definition insert_code :: "nat \<Rightarrow> nat" where "insert_code = range_index insert_length_code"
definition copy_code :: "nat \<Rightarrow> nat" where "copy_code = range_index copy_length_code"

text \<open>A command: the last distance again or not, the number of literals, the length of the copy.\<close>

definition command_ok :: "bool \<Rightarrow> nat \<Rightarrow> nat \<Rightarrow> bool" where
  "command_ok same_distance n_insert n_copy \<longleftrightarrow> n_insert < 22594 + 2 ^ 24 \<and> 2 \<le> n_copy \<and> n_copy < 2118 + 2 ^ 24 \<and>
     (same_distance \<longrightarrow> n_insert < 10 \<and> n_copy < 70)"

definition command_code :: "bool \<Rightarrow> nat \<Rightarrow> nat \<Rightarrow> nat" where
  "command_code same_distance n_insert n_copy = command_symbol same_distance (insert_code n_insert) (copy_code n_copy)"

definition command_bits :: "code \<Rightarrow> bool \<Rightarrow> nat \<Rightarrow> nat \<Rightarrow> bool list" where
  "command_bits code same_distance n_insert n_copy =
     codeword code (symbol_index code (command_code same_distance n_insert n_copy)) @
     range_bits insert_length_code n_insert @ range_bits copy_length_code n_copy"

text \<open>What reading a command sets.\<close>

definition command_read :: "BrotliState \<Rightarrow> bool \<Rightarrow> nat \<Rightarrow> BrotliBitReader \<Rightarrow> BrotliState" where
  "command_read s same_distance n_copy br =
    (let bt = s_block_type_length_state s; context = min (n_copy - 2) 3
     in s\<lparr>s_br := br, s_distance_code := (if same_distance then 0 else -1), s_distance_context := int context,
          s_dist_htree_index := s_dist_context_map s ! (s_dist_context_map_slice_index s + context),
          s_copy_length := int n_copy,
          s_block_type_length_state := bt\<lparr>bt_block_length := (bt_block_length bt)[1 := bt_block_length bt ! 1 - 1]\<rparr>\<rparr>)"

definition command_state_ok :: "BrotliState \<Rightarrow> nat \<Rightarrow> bool" where
  "command_state_ok s n_copy \<longleftrightarrow>
     s_dist_context_map_slice_index s + min (n_copy - 2) 3 < length (s_dist_context_map s) \<and>
     1 < length (bt_block_length (s_block_type_length_state s))"

text \<open>The entry of the table for a command, and its extra bits as numbers.\<close>

lemma extra_bits_value:
  assumes "contiguous rs" "in_ranges rs n" "unat (snd (rs ! range_index rs n)) \<le> 24"
  shows "sint (word_of_bits (take (unat (snd (rs ! range_index rs n))) (range_bits rs n @ rest)) :: u32) +
    uint (fst (rs ! range_index rs n)) = int n"
proof -
  let ?w = "word_of_bits (take (unat (snd (rs ! range_index rs n))) (range_bits rs n @ rest)) :: u32"
  let ?k = "unat (snd (rs ! range_index rs n))"
  have w: "?w = take_bit ?k (of_nat (range_extra rs n))"
    by (simp add: range_bits_def word_of_bits_of_word)
  have extra: "range_extra rs n < 2 ^ ?k" "range_extra rs n + unat (fst (rs ! range_index rs n)) = n"
    using range_index_at [OF assms(1,2)] by (simp_all add: range_extra_def)
  have "(2 :: nat) ^ ?k \<le> 2 ^ 24" using assms(3) by (intro power_increasing) simp_all
  then have small: "range_extra rs n < 2 ^ 24" using extra(1) by linarith
  then have "unat ?w = range_extra rs n"
    using extra(1) unat_of_nat_u32 [of "range_extra rs n"] unfolding w by (simp add: unsigned_take_bit_eq take_bit_nat_eq_self)
  then have "uint ?w = int (range_extra rs n)" by (metis uint_nat)
  then have "sint ?w = int (range_extra rs n)" using small by (simp add: sint_uint signed_take_bit_int_eq_self)
  then show ?thesis using extra(2) by (metis of_nat_add uint_nat)
qed

lemma command_at:
  fixes rest :: "bool list"
  assumes d: "decodes tree code" and ok: "command_ok same_distance n_insert n_copy"
    and c: "codable code (command_code same_distance n_insert n_copy)"
  defines "bs \<equiv> command_bits code same_distance n_insert n_copy @ rest"
    and "v \<equiv> command_entry (if same_distance then 0 else -1) (insert_code n_insert) (copy_code n_copy)"
  shows "\<exists>s l. symbol_at tree bs = (s, l) \<and> l \<le> length bs \<and>
    drop l bs = range_bits insert_length_code n_insert @ range_bits copy_length_code n_copy @ rest \<and>
    get kCmdLut (unat (ucast s :: u32)) = Some v"
    and "unat (ucast (cl_insert_len_extra_bits v) :: u32) = length (range_bits insert_length_code n_insert)"
    and "unat (ucast (cl_copy_len_extra_bits v) :: u32) = length (range_bits copy_length_code n_copy)"
    and "length (range_bits insert_length_code n_insert) \<le> 24" "length (range_bits copy_length_code n_copy) \<le> 24"
    and "sint (word_of_bits (take (length (range_bits insert_length_code n_insert)) (range_bits insert_length_code n_insert @ r)) :: u32) +
      uint (cl_insert_len_offset v) = int n_insert"
    and "sint (word_of_bits (take (length (range_bits copy_length_code n_copy)) (range_bits copy_length_code n_copy @ r)) :: u32) +
      uint (cl_copy_len_offset v) = int n_copy"
    and "uint (cl_context v) = int (min (n_copy - 2) 3)" "cl_distance_code v = (if same_distance then 0 else -1)"
proof -
  have ranges: "in_ranges insert_length_code n_insert" "in_ranges copy_length_code n_copy"
    using ok insert_ranges(2) copy_ranges(2) by (simp_all add: command_ok_def)
  have i: "insert_code n_insert < 24" "copy_code n_copy < 24"
    using range_index_at(1) [OF insert_ranges(1) ranges(1)] range_index_at(1) [OF copy_ranges(1) ranges(2)]
    by (simp_all add: insert_code_def copy_code_def)
  have same: "same_distance \<longrightarrow> insert_code n_insert < 8 \<and> copy_code n_copy < 16"
    using ok same_distance_ranges by (simp add: command_ok_def insert_code_def copy_code_def)
  obtain s where "symbol_at tree bs = (s, length (codeword code (symbol_index code (command_code same_distance n_insert n_copy))))"
    "unat s = command_code same_distance n_insert n_copy"
    using symbol_at_token [OF d] c unfolding codable_def bs_def command_bits_def append_assoc by blast
  moreover have "get kCmdLut (command_code same_distance n_insert n_copy) = Some v"
    unfolding command_code_def v_def by (rule command_symbol_at [OF i same])
  ultimately show "\<exists>s l. symbol_at tree bs = (s, l) \<and> l \<le> length bs \<and>
    drop l bs = range_bits insert_length_code n_insert @ range_bits copy_length_code n_copy @ rest \<and>
    get kCmdLut (unat (ucast s :: u32)) = Some v"
    by (intro exI [of _ s] exI [of _ "length (codeword code (symbol_index code (command_code same_distance n_insert n_copy)))"])
      (simp add: bs_def command_bits_def unat_ucast_u16)
  show "unat (ucast (cl_insert_len_extra_bits v) :: u32) = length (range_bits insert_length_code n_insert)"
    "unat (ucast (cl_copy_len_extra_bits v) :: u32) = length (range_bits copy_length_code n_copy)"
    by (simp_all add: v_def command_entry_def insert_code_def copy_code_def unat_ucast_u8)
  show l: "length (range_bits insert_length_code n_insert) \<le> 24" "length (range_bits copy_length_code n_copy) \<le> 24"
    using length_code_bits(1) [OF i(1)] length_code_bits(2) [OF i(2)] by (simp_all add: insert_code_def copy_code_def)
  show "sint (word_of_bits (take (length (range_bits insert_length_code n_insert)) (range_bits insert_length_code n_insert @ r)) :: u32) +
      uint (cl_insert_len_offset v) = int n_insert"
    using extra_bits_value [OF insert_ranges(1) ranges(1), of r] l(1) by (simp add: v_def command_entry_def insert_code_def)
  show "sint (word_of_bits (take (length (range_bits copy_length_code n_copy)) (range_bits copy_length_code n_copy @ r)) :: u32) +
      uint (cl_copy_len_offset v) = int n_copy"
    using extra_bits_value [OF copy_ranges(1) ranges(2), of r] l(2) by (simp add: v_def command_entry_def copy_code_def)
  show "uint (cl_context v) = int (min (n_copy - 2) 3)"
    using copy_context [of n_copy] ok by (simp add: v_def command_entry_def command_ok_def copy_code_def)
  show "cl_distance_code v = (if same_distance then 0 else -1)" by (simp add: v_def command_entry_def)
qed

lemma SafeReadBits_prefix:
  assumes "br_at br input (bits @ rest)" "unat n = length bits" "length bits \<le> 24"
  shows "\<exists>br'. SafeReadBits br n val input = Some (True, word_of_bits (take (length bits) (bits @ rest)), br') \<and> br_at br' input rest"
proof (cases "n = 0")
  case True
  then have "bits = []" using assms(2) by simp
  moreover have "word_of_bits [] = (0 :: u32)" by (rule bit_eqI) (simp add: bit_word_of_bits)
  ultimately show ?thesis using assms(1) True by (simp add: SafeReadBits_def)
next
  case False
  have n: "unat n \<le> 32" using assms(2,3) by simp
  from SafeReadBits_at [OF assms(1) n, of val] False show ?thesis by (auto simp: SafeReadBits_def assms(2))
qed

lemma decrement_commands:
  assumes "1 < length (bt_block_length (s_block_type_length_state s))"
  shows "decrement_block_length 1 s = Some (s\<lparr>s_block_type_length_state := s_block_type_length_state s
    \<lparr>bt_block_length := (bt_block_length (s_block_type_length_state s))
      [1 := bt_block_length (s_block_type_length_state s) ! 1 - 1]\<rparr>\<rparr>)"
  using assms by (simp add: decrement_block_length_def get_def put_def Let_def)

lemma ReadCommand_safe:
  assumes tree: "get hgroup (unat (s_htree_command_index s)) = Some tree" and d: "decodes tree code"
    and ok: "command_ok same_distance n_insert n_copy" "command_state_ok s n_copy"
    and c: "codable code (command_code same_distance n_insert n_copy)"
    and at: "br_at (s_br s) input (command_bits code same_distance n_insert n_copy @ rest)"
  shows "\<exists>br'. ReadCommandInternal True s n input hgroup =
      Some (True, int n_insert, command_read s same_distance n_copy br') \<and> br_at br' input rest"
proof -
  define v where "v = command_entry (if same_distance then 0 else -1) (insert_code n_insert) (copy_code n_copy)"
  note cmd = command_at [OF d ok(1) c, folded v_def]
  obtain sy l where sym: "symbol_at tree (command_bits code same_distance n_insert n_copy @ rest) = (sy, l)"
    "l \<le> length (command_bits code same_distance n_insert n_copy @ rest)"
    "drop l (command_bits code same_distance n_insert n_copy @ rest) =
      range_bits insert_length_code n_insert @ range_bits copy_length_code n_copy @ rest"
    "get kCmdLut (unat (ucast sy :: u32)) = Some v" using cmd(1) [of rest] by blast
  from huffman_table.SafeReadSymbol_at [OF decodes_huffman_table [OF d] at, of 0,
      unfolded sym(1) fst_conv snd_conv if_P [OF sym(2)] sym(3)]
  obtain br1 where 1: "SafeReadSymbol tree (s_br s) 0 input = Some (True, br1, ucast sy)"
    "br_at br1 input (range_bits insert_length_code n_insert @ range_bits copy_length_code n_copy @ rest)" by blast
  from SafeReadBits_prefix [OF 1(2) cmd(2,4), of 0] obtain br2 where 2:
    "SafeReadBits br1 (ucast (cl_insert_len_extra_bits v)) 0 input =
      Some (True, word_of_bits (take (length (range_bits insert_length_code n_insert))
        (range_bits insert_length_code n_insert @ range_bits copy_length_code n_copy @ rest)), br2)"
    "br_at br2 input (range_bits copy_length_code n_copy @ rest)" by blast
  from SafeReadBits_prefix [OF 2(2) cmd(3,5), of 0] obtain br3 where 3:
    "SafeReadBits br2 (ucast (cl_copy_len_extra_bits v)) 0 input =
      Some (True, word_of_bits (take (length (range_bits copy_length_code n_copy)) (range_bits copy_length_code n_copy @ rest)), br3)"
    "br_at br3 input rest" by blast
  have small: "n_insert < 2147483648" "n_copy < 2147483648" using ok(1) by (simp_all add: command_ok_def)
  have ctx: "get (s_dist_context_map s) (s_dist_context_map_slice_index s + min (n_copy - 2) 3) =
      Some (s_dist_context_map s ! (s_dist_context_map_slice_index s + min (n_copy - 2) 3))"
    using ok(2) by (simp add: command_state_ok_def get_def)
  have sums: "i32 (uint (cl_insert_len_offset v) + sint (word_of_bits (take (length (range_bits insert_length_code n_insert))
        (range_bits insert_length_code n_insert @ range_bits copy_length_code n_copy @ rest)) :: u32)) = int n_insert"
    "i32 (sint (word_of_bits (take (length (range_bits copy_length_code n_copy)) (range_bits copy_length_code n_copy @ rest)) :: u32) +
      uint (cl_copy_len_offset v)) = int n_copy"
    using cmd(6) [of "range_bits copy_length_code n_copy @ rest"] cmd(7) [of rest] small by (simp_all add: add.commute)
  from 2(1) 3(1) sums obtain e1 e2 where e:
    "SafeReadBits br1 (ucast (cl_insert_len_extra_bits v)) 0 input = Some (True, e1, br2)"
    "SafeReadBits br2 (ucast (cl_copy_len_extra_bits v)) 0 input = Some (True, e2, br3)"
    "i32 (uint (cl_insert_len_offset v) + sint e1) = int n_insert"
    "i32 (sint e2 + uint (cl_copy_len_offset v)) = int n_copy" by blast
  have len: "1 < length (bt_block_length (s_block_type_length_state s))" using ok(2) by (simp add: command_state_ok_def)
  have "ReadCommandInternal True s n input hgroup = Some (True, int n_insert, command_read s same_distance n_copy br3)"
    unfolding ReadCommandInternal_def
    by (simp add: tree 1(1) sym(4) cmd(9) ctx e Let_def command_read_def decrement_commands [unfolded One_nat_def] len [unfolded One_nat_def] cmd(8))
  with 3(2) show ?thesis by blast
qed

lemma ReadCommand_fast:
  assumes tree: "get hgroup (unat (s_htree_command_index s)) = Some tree" and d: "decodes tree code"
    and ok: "command_ok same_distance n_insert n_copy" "command_state_ok s n_copy"
    and c: "codable code (command_code same_distance n_insert n_copy)"
    and at: "br_at (s_br s) input (command_bits code same_distance n_insert n_copy @ rest)"
    and fast: "unat (br_bit_pos (s_br s)) < 64" "22 \<le> unat (br_avail_in (s_br s))"
  shows "\<exists>br'. ReadCommandInternal False s n input hgroup =
      Some (True, int n_insert, command_read s same_distance n_copy br') \<and> br_at br' input rest"
proof -
  define v where "v = command_entry (if same_distance then 0 else -1) (insert_code n_insert) (copy_code n_copy)"
  note cmd = command_at [OF d ok(1) c, folded v_def]
  let ?i = "range_bits insert_length_code n_insert" and ?c = "range_bits copy_length_code n_copy"
  obtain sy l where sym: "symbol_at tree (command_bits code same_distance n_insert n_copy @ rest) = (sy, l)"
    "drop l (command_bits code same_distance n_insert n_copy @ rest) = ?i @ ?c @ rest"
    "get kCmdLut (unat (ucast sy :: u32)) = Some v" using cmd(1) [of rest] by blast
  have "8 \<le> unat (br_avail_in (s_br s))" using fast(2) by simp
  from huffman_table.ReadSymbol_at [OF decodes_huffman_table [OF d] at fast(1) this, unfolded sym(1) fst_conv snd_conv sym(2)]
  obtain br1 where 1: "ReadSymbol tree (s_br s) input = Some (ucast sy, br1)" "br_at br1 input (?i @ ?c @ rest)"
    "unat (br_bit_pos br1) < 64" "unat (br_avail_in (s_br s)) \<le> unat (br_avail_in br1) + 7" by blast
  have a1: "8 \<le> unat (br_avail_in br1)" "unat (ucast (cl_insert_len_extra_bits v) :: u32) \<le> 32"
    using 1(4) fast(2) cmd(2,4) by linarith+
  have zero: "word_of_bits [] = (0 :: u32)" by (rule bit_eqI) (simp add: bit_word_of_bits)
  obtain br2 where 2:
    "(if cl_insert_len_extra_bits v \<noteq> 0 then BrotliReadBits br1 (ucast (cl_insert_len_extra_bits v)) input else Some (0, br1)) =
      Some (word_of_bits (take (length ?i) (?i @ ?c @ rest)), br2)"
    "br_at br2 input (?c @ rest)" "unat (br_bit_pos br2) < 64" "unat (br_avail_in br1) \<le> unat (br_avail_in br2) + 7"
  proof (cases "cl_insert_len_extra_bits v = 0")
    case True
    then have "length ?i = 0" using cmd(2) by (simp only: unat_ucast_u8) simp
    then have "?i = []" by (simp only: length_0_conv)
    then show ?thesis using True 1(2,3) that [of br1] zero by simp
  next
    case False
    from ReadBits_at [OF 1(2,3) a1] that False show ?thesis by (auto simp: cmd(2))
  qed
  have a2: "8 \<le> unat (br_avail_in br2)" "unat (ucast (cl_copy_len_extra_bits v) :: u32) \<le> 32"
    using 1(4) 2(4) fast(2) cmd(3,5) by linarith+
  from ReadBits_at [OF 2(2,3) a2, unfolded cmd(3)] obtain br3 where 3:
    "BrotliReadBits br2 (ucast (cl_copy_len_extra_bits v)) input = Some (word_of_bits (take (length ?c) (?c @ rest)), br3)"
    "br_at br3 input rest" by auto
  have small: "n_insert < 2147483648" "n_copy < 2147483648" using ok(1) by (simp_all add: command_ok_def)
  have ctx: "get (s_dist_context_map s) (s_dist_context_map_slice_index s + min (n_copy - 2) 3) =
      Some (s_dist_context_map s ! (s_dist_context_map_slice_index s + min (n_copy - 2) 3))"
    using ok(2) by (simp add: command_state_ok_def get_def)
  have sums: "i32 (uint (cl_insert_len_offset v) + sint (word_of_bits (take (length ?i) (?i @ ?c @ rest)) :: u32)) = int n_insert"
    "i32 (sint (word_of_bits (take (length ?c) (?c @ rest)) :: u32) + uint (cl_copy_len_offset v)) = int n_copy"
    using cmd(6) [of "?c @ rest"] cmd(7) [of rest] small by (simp_all add: add.commute)
  from 2(1) 3(1) sums obtain e1 e2 where e:
    "(if cl_insert_len_extra_bits v \<noteq> 0 then BrotliReadBits br1 (ucast (cl_insert_len_extra_bits v)) input else Some (0, br1)) = Some (e1, br2)"
    "BrotliReadBits br2 (ucast (cl_copy_len_extra_bits v)) input = Some (e2, br3)"
    "i32 (uint (cl_insert_len_offset v) + sint e1) = int n_insert"
    "i32 (sint e2 + uint (cl_copy_len_offset v)) = int n_copy" by blast
  have len: "1 < length (bt_block_length (s_block_type_length_state s))" using ok(2) by (simp add: command_state_ok_def)
  have "ReadCommandInternal False s n input hgroup = Some (True, int n_insert, command_read s same_distance n_copy br3)"
  proof (cases "cl_insert_len_extra_bits v = 0")
    case True
    then have e1: "e1 = 0" "br2 = br1" using e(1) by auto
    show ?thesis unfolding ReadCommandInternal_def
      using e(2-4) unfolding e1
      by (simp add: tree 1(1) sym(3) cmd(9) ctx True Let_def command_read_def decrement_commands [unfolded One_nat_def]
          len [unfolded One_nat_def] cmd(8))
  next
    case False
    then have e1: "BrotliReadBits br1 (ucast (cl_insert_len_extra_bits v)) input = Some (e1, br2)" using e(1) by simp
    show ?thesis unfolding ReadCommandInternal_def
      by (simp add: tree 1(1) sym(3) cmd(9) ctx e1 e(2-4) False Let_def command_read_def decrement_commands [unfolded One_nat_def]
          len [unfolded One_nat_def] cmd(8))
  qed
  with 3(2) show ?thesis by blast
qed

lemma ReadCommand_failed:
  assumes tree: "get hgroup (unat (s_htree_command_index s)) = Some tree" "huffman_table tree"
    and at: "br_at (s_br s) input bs"
    and fail: "ReadCommandInternal True s n input hgroup = Some (False, n', s')"
  shows "\<exists>d c h br'. s' = s\<lparr>s_br := br', s_distance_code := d, s_distance_context := c, s_dist_htree_index := h\<rparr> \<and> br_at br' input bs"
proof -
  let ?sym = "symbol_at tree bs"
  from huffman_table.SafeReadSymbol_at [OF tree(2) at, of 0]
  obtain br1 where 1: "SafeReadSymbol tree (s_br s) 0 input =
      Some (if snd ?sym \<le> length bs then (True, br1, ucast (fst ?sym)) else (False, br1, 0))"
    "br_at br1 input (if snd ?sym \<le> length bs then drop (snd ?sym) bs else bs)" by blast
  show ?thesis
  proof (cases "snd ?sym \<le> length bs")
    case False
    then have "s' = s\<lparr>s_br := br1\<rparr>" using fail tree(1) 1(1) by (simp add: ReadCommandInternal_def Let_def)
    with 1(2) False show ?thesis
      by (intro exI [of _ "s_distance_code s"] exI [of _ "s_distance_context s"] exI [of _ "s_dist_htree_index s"] exI [of _ br1]) simp
  next
    case True
    from fail tree(1) 1(1) True
    have "\<exists>d c h br2. s' = s\<lparr>s_distance_code := d, s_distance_context := c, s_dist_htree_index := h,
        s_br := BrotliBitReaderRestoreState br2 (BrotliBitReaderSaveState (s_br s))\<rparr>"
      by (simp add: ReadCommandInternal_def Let_def bind_eq_Some_conv split_beta del: RestoreState_SaveState split: if_splits) blast
    then obtain d c h br2 where "s' = s\<lparr>s_distance_code := d, s_distance_context := c, s_dist_htree_index := h,
        s_br := BrotliBitReaderRestoreState br2 (BrotliBitReaderSaveState (s_br s))\<rparr>" by blast
    then have "s' = s\<lparr>s_br := s_br s, s_distance_code := d, s_distance_context := c, s_dist_htree_index := h\<rparr>" by simp
    with at show ?thesis by blast
  qed
qed

subsection \<open>Properties of commands\<close>

text \<open>C27: Every command, that is a pair of an insert length up to \<open>22593 + 2^24\<close> and a copy length from 2 to
  \<open>2117 + 2^24\<close>, with or without the flag that the last distance is used again, is read back from its
  encoding: the code word of its entry among the 704 entries of \<open>kCmdLut\<close> under any complete canonical code,
  followed by the extra bits of both lengths. \<open>ReadCommandInternal\<close> returns the insert length, stores the copy
  length, the distance flag, the distance context (the copy length less two, at most three) and the
  distance tree of that context, counts the command off its block and consumes nothing behind it: the safe
  version wherever the input ends, the fast one with 22 bytes ahead.\<close>

theorem command_roundtrip:
  assumes "get hgroup (unat (s_htree_command_index s)) = Some tree" "decodes tree code"
    and "command_ok same_distance n_insert n_copy" "command_state_ok s n_copy"
    and "codable code (command_code same_distance n_insert n_copy)"
    and "br_at (s_br s) input (command_bits code same_distance n_insert n_copy @ rest)"
  shows "(\<exists>br'. ReadCommandInternal True s n input hgroup =
      Some (True, int n_insert, command_read s same_distance n_copy br') \<and> br_at br' input rest) \<and>
    (unat (br_bit_pos (s_br s)) < 64 \<and> 22 \<le> unat (br_avail_in (s_br s)) \<longrightarrow>
      (\<exists>br'. ReadCommandInternal False s n input hgroup =
        Some (True, int n_insert, command_read s same_distance n_copy br') \<and> br_at br' input rest))"
  using ReadCommand_safe [OF assms] ReadCommand_fast [OF assms] by blast

text \<open>Seven literals and a copy of thirteen bytes, each with an extra bit.\<close>

definition command_sample :: BrotliState where
  "command_sample =
     (BrotliState_new (\<lambda>n. replicate n 0) (\<lambda>n. replicate n 0) (\<lambda>n. replicate n HuffmanCode_default))
       \<lparr>s_br := \<lparr>br_val = 0xC000000000000000, br_bit_pos = 61, br_next_in = 0, br_avail_in = 0\<rparr>,
        s_dist_context_map := [4, 5, 6, 7]\<rparr>"

theorem command_roundtrip_witness:
  "\<exists>s'. ReadCommandInternal True command_sample 0 [] [simple_huffman_table 1 241 300 0 0] = Some (True, 7, s') \<and>
    s_copy_length s' = 13 \<and> s_distance_code s' = -1 \<and> s_dist_htree_index s' = 7"
proof -
  have d: "decodes (simple_huffman_table 1 241 300 0 0) [(241, 1), (300, 1)]"
    using simple_huffman_table_decodes [of 1 241 300 0 0] by (simp add: simple_code_def min_def max_def)
  have bs: "stream (s_br command_sample) [] = [False, True, True]" 
    by (simp add: command_sample_def stream_def window_bytes_def acc_bits_def upt_rec bit_iff_odd)
  have ix: "range_index insert_length_code 7 = 6" "range_index copy_length_code 13 = 9"
    by (simp_all add: range_index_def insert_length_code_def copy_length_code_def)
  have code: "command_code False 7 13 = 241"
    by (simp add: command_code_def insert_code_def copy_code_def ix command_symbol_def cell_number_def)
  have "command_bits [(241, 1), (300, 1)] False 7 13 @ [] = [False, True, True]"
    unfolding command_bits_def code range_bits_def range_extra_def ix
    by (simp add: insert_length_code_def copy_length_code_def symbol_index_def codeword_def bits_of_word_def upt_rec bit_iff_odd)
  then have at: "br_at (s_br command_sample) [] (command_bits [(241, 1), (300, 1)] False 7 13 @ [])"
    using bs by (simp add: br_at_def br_ok_def command_sample_def)
  have st: "s_htree_command_index command_sample = 0" "s_dist_context_map_slice_index command_sample = 0"
    "s_dist_context_map command_sample = [4, 5, 6, 7]" "length (bt_block_length (s_block_type_length_state command_sample)) = 3"
    by (simp_all add: command_sample_def BrotliState_new_def make_brotli_state_def Let_def)
  have "get [simple_huffman_table 1 241 300 0 0] (unat (s_htree_command_index command_sample)) = Some (simple_huffman_table 1 241 300 0 0)"
    by (simp add: st get_def)
  from command_roundtrip [OF this d _ _ _ at, of 0] show ?thesis
    by (auto simp: command_ok_def command_state_ok_def st code codable_def command_read_def Let_def)
qed

text \<open>C28: A command whose bits are not all there yet is undone: \<open>ReadCommandInternal\<close> reports failure with
  every bit it took given back, and of the rest of the state only the distance code, its context and
  its tree are changed, which the next attempt sets again; no command is counted off the block.\<close>

theorem command_interrupted:
  assumes "get hgroup (unat (s_htree_command_index s)) = Some tree" "decodes tree code" "br_ok (s_br s) input"
    and "ReadCommandInternal True s n input hgroup = Some (False, n', s')"
  shows "\<exists>d c h br'. s' = s\<lparr>s_br := br', s_distance_code := d, s_distance_context := c, s_dist_htree_index := h\<rparr> \<and>
    br_ok br' input \<and> stream br' input = stream (s_br s) input"
proof -
  have "br_at (s_br s) input (stream (s_br s) input)" using assms(3) by (simp add: br_at_def)
  from ReadCommand_failed [OF assms(1) decodes_huffman_table [OF assms(2)] this assms(4)]
  show ?thesis by (auto simp: br_at_def)
qed

theorem command_interrupted_witness:
  "\<exists>n' s'. ReadCommandInternal True (command_sample\<lparr>s_br :=
      \<lparr>br_val = 0x8000000000000000, br_bit_pos = 62, br_next_in = 0, br_avail_in = 0\<rparr>\<rparr>) 0 []
      [simple_huffman_table 1 241 300 0 0] = Some (False, n', s') \<and>
    stream (s_br s') [] = [False, True] \<and> s_copy_length s' = s_copy_length command_sample"
proof -
  let ?s = "command_sample\<lparr>s_br := \<lparr>br_val = 0x8000000000000000, br_bit_pos = 62, br_next_in = 0, br_avail_in = 0\<rparr>\<rparr>"
  let ?t = "simple_huffman_table 1 241 300 0 0"
  have d: "decodes ?t [(241, 1), (300, 1)]"
    using simple_huffman_table_decodes [of 1 241 300 0 0] by (simp add: simple_code_def min_def max_def)
  have bs: "stream (s_br ?s) [] = [False, True]"
    by (simp add: stream_def window_bytes_def acc_bits_def upt_rec bit_iff_odd)
  have ok: "br_ok (s_br ?s) []" by (simp add: br_ok_def)
  have at: "br_at (s_br ?s) [] [False, True]" using bs ok by (simp only: br_at_def)
  have sy: "symbol_at ?t [False, True] = (241, 1)"
    using symbol_at_token [OF d, of 241 "[True]"]
    by (auto simp: symbol_index_def codeword_def bits_of_word_def word_unat_eq_iff)
  have st: "s_htree_command_index ?s = 0" "s_dist_context_map_slice_index ?s = 0" "s_dist_context_map ?s = [4, 5, 6, 7]"
    by (simp_all add: command_sample_def BrotliState_new_def make_brotli_state_def Let_def)
  obtain br1 where 1: "SafeReadSymbol ?t (s_br ?s) 0 [] = Some (True, br1, 241)" "br_at br1 [] [True]"
    using huffman_table.SafeReadSymbol_at [OF decodes_huffman_table [OF d] at, of 0] by (auto simp: sy)
  have "get kCmdLut (command_symbol False 6 9) = Some (command_entry (-1) 6 9)"
    using command_symbol_at [of 6 9 False] by simp
  then have e: "get kCmdLut 241 = Some (CmdLutElement 1 1 (-1) 3 6 12)"
    by (simp add: command_symbol_def cell_number_def command_entry_def insert_length_code_def copy_length_code_def
        distance_context_of_copy_length_def)
  obtain br2 x where 2: "SafeReadBits br1 1 0 [] = Some (True, x, br2)" "br_at br2 [] []"
    using SafeReadBits_at [OF 1(2), of 1 0] by (auto simp: SafeReadBits_def)
  obtain br3 where 3: "SafeReadBits br2 1 0 [] = Some (False, 0, br3)"
    using SafeReadBits_at [OF 2(2), of 1 0] by (auto simp: SafeReadBits_def)
  have g: "get [?t] (unat (s_htree_command_index ?s)) = Some ?t" unfolding st by (simp add: get_def)
  have c: "get [4, 5, 6, 7] (0 + usize_of_i32 (uint (3 :: u8))) = Some (7 :: u8)" by (simp add: get_def)
  have "\<exists>n' s'. ReadCommandInternal True ?s 0 [] [?t] = Some (False, n', s')"
    unfolding ReadCommandInternal_def g bind.bind_lunit if_False if_True not_True_eq_False 1(1) prod.case e
    using 1(1) 2(1) 3 c st(2,3) e by (simp add: Let_def get_def)
  then obtain n' s' where run: "ReadCommandInternal True ?s 0 [] [?t] = Some (False, n', s')" by blast
  from command_interrupted [OF g d ok run] bs run show ?thesis by auto
qed

end
