(* ===== verification/Distance_Spec.thy ===== *)
theory Distance_Spec
  imports Command_Spec
begin

text \<open>
  The correctness of \<open>ReadDistanceInternal\<close>: the 16 short codes for the last four distances, and the encoding of
  a distance under the parameters of a metablock, its code and its extra bits; both readers invert
  them, and the safe one undoes a distance it cannot read to the end.
\<close>

subsection \<open>Short distance codes\<close>

text \<open>
  The last four distances, the newest first, and the table of the 16 short codes: one of the last four as
  it is, or the last or the last but one with a difference of at most three.
\<close>

definition recent_distance :: "BrotliState \<Rightarrow> nat \<Rightarrow> int" where
  "recent_distance s j = s_dist_rb s ! nat ((s_dist_rb_idx s - 1 - int j) mod 4)"

definition short_distance_codes :: "(nat \<times> int) list" where
  "short_distance_codes = [(0, 0), (1, 0), (2, 0), (3, 0), (0, -1), (0, 1), (0, -2), (0, 2), (0, -3), (0, 3),
     (1, -1), (1, 1), (1, -2), (1, 2), (1, -3), (1, 3)]"

definition short_distance :: "BrotliState \<Rightarrow> nat \<Rightarrow> int" where
  "short_distance s c = (let (j, delta) = short_distance_codes ! c; d = recent_distance s j + delta
     in if d \<le> 0 then 0x7fffffff else d)"

definition distances_ok :: "BrotliState \<Rightarrow> bool" where
  "distances_ok s \<longleftrightarrow> length (s_dist_rb s) = 4 \<and> (\<forall>d \<in> set (s_dist_rb s). 0 < d \<and> d \<le> 0x7FFFFFFC)"

lemma i32_mod4: "i32 x mod 4 = x mod 4"
proof -
  have "i32 x = x - 4 * (1073741824 * ((x + 2147483648) div 4294967296))"
    unfolding i32_def by (simp add: minus_div_mult_eq_mod [symmetric])
  then show ?thesis by (metis mod_mult_self2 diff_add_cancel mult.commute)
qed

lemma and3: "(x :: int) AND 3 = x mod 4"
  using take_bit_eq_mask [of 2 x] by (simp add: take_bit_eq_mod mask_eq_exp_minus_1)

lemma recent_distance_range:
  assumes "distances_ok s" shows "0 < recent_distance s j" "recent_distance s j \<le> 0x7FFFFFFC"
proof -
  have "nat ((s_dist_rb_idx s - 1 - int j) mod 4) < length (s_dist_rb s)" using assms by (simp add: distances_ok_def)
  then have "recent_distance s j \<in> set (s_dist_rb s)" unfolding recent_distance_def by (rule nth_mem)
  then show "0 < recent_distance s j" "recent_distance s j \<le> 0x7FFFFFFC" using assms by (auto simp: distances_ok_def)
qed

lemma get_recent:
  assumes "length (s_dist_rb s) = 4" "x mod 4 = (s_dist_rb_idx s - 1 - int j) mod 4"
  shows "get_at (s_dist_rb s) (x AND 3) = Some (recent_distance s j)"
  using assms by (simp add: get_at_def get_def and3 recent_distance_def)

text \<open>The two constants hold two bits for every code.\<close>

lemma short_code_index:
  assumes "0 < c" "c < 16"
  shows "(x + shr_i32 (sint kDistanceShortCodeIndexOffset) (2 * int c)) mod 4 = (x - 1 - int (fst (short_distance_codes ! c))) mod 4"
proof -
  have "\<forall>c \<in> set [1..<16]. shr_i32 (sint kDistanceShortCodeIndexOffset) (2 * int c) mod 4 = (- 1 - int (fst (short_distance_codes ! c))) mod 4"
    by (simp add: upt_rec shr_i32_def short_distance_codes_def drop_bit_eq_div)
  then have "shr_i32 (sint kDistanceShortCodeIndexOffset) (2 * int c) mod 4 = (- 1 - int (fst (short_distance_codes ! c))) mod 4"
    using assms by simp
  from mod_add_cong [OF refl [of "x mod 4"] this] show ?thesis by (simp add: algebra_simps)
qed

lemma short_code_value:
  assumes "0 < c" "c < 16"
  shows "sint (shr32 kDistanceShortCodeValueOffset (of_nat (2 * c))) AND 3 =
    (if odd c then snd (short_distance_codes ! c) else - snd (short_distance_codes ! c))"
proof -
  have "\<forall>c \<in> set [1..<16]. sint (shr32 kDistanceShortCodeValueOffset (of_nat (2 * c))) AND 3 =
    (if odd c then snd (short_distance_codes ! c) else - snd (short_distance_codes ! c))"
    by (simp add: upt_rec shr32_def short_distance_codes_def drop_bit_eq_div)
  then show ?thesis using assms by simp
qed

lemma TakeDistance_at:
  assumes ok: "distances_ok s" and c: "s_distance_code s = int c" "c < 16"
  shows "TakeDistanceFromRingBuffer s = Some (if c = 0
    then s\<lparr>s_dist_rb_idx := i32 (s_dist_rb_idx s - 1), s_distance_code := short_distance s 0, s_distance_context := 1\<rparr>
    else s\<lparr>s_distance_code := short_distance s c\<rparr>)"
proof (cases "c = 0")
  case True
  have "(i32 (s_dist_rb_idx s - 1)) mod 4 = (s_dist_rb_idx s - 1 - int 0) mod 4" by (simp add: i32_mod4)
  from get_recent [OF _ this] ok
  have "get_at (s_dist_rb s) (i32 (s_dist_rb_idx s - 1) AND 3) = Some (recent_distance s 0)" by (simp add: distances_ok_def)
  then show ?thesis using True c recent_distance_range [OF ok, of 0]
    by (simp add: TakeDistanceFromRingBuffer_def short_distance_def short_distance_codes_def Let_def)
next
  case False
  let ?j = "fst (short_distance_codes ! c)" and ?d = "snd (short_distance_codes ! c)"
  have double: "shl_i32 (int c) 1 = 2 * int c" using c(2) by (simp add: shl_i32_def)
  have "i32 (s_dist_rb_idx s + shr_i32 (sint kDistanceShortCodeIndexOffset) (2 * int c)) mod 4 = (s_dist_rb_idx s - 1 - int ?j) mod 4"
    using short_code_index [of c] False c(2) by (simp only: i32_mod4)
  from get_recent [OF _ this] ok
  have get: "get_at (s_dist_rb s) (i32 (s_dist_rb_idx s + shr_i32 (sint kDistanceShortCodeIndexOffset) (2 * int c)) AND 3) =
      Some (recent_distance s ?j)" by (simp only: distances_ok_def)
  have v: "sint (shr32 kDistanceShortCodeValueOffset (u32_of_i32 (2 * int c))) AND 3 = (if odd c then ?d else - ?d)"
    using short_code_value [of c] False c(2) by simp
  have parity: "2 * int c AND 3 \<noteq> 0 \<longleftrightarrow> odd c" unfolding and3 by presburger
  have "\<forall>c \<in> set [0..<16]. - 3 \<le> snd (short_distance_codes ! c) \<and> snd (short_distance_codes ! c) \<le> 3 \<and>
      (odd c \<longrightarrow> 0 \<le> snd (short_distance_codes ! c))"
    by (simp add: short_distance_codes_def upt_rec)
  then have d: "- 3 \<le> ?d" "?d \<le> 3" "odd c \<longrightarrow> 0 \<le> ?d" using c(2) by auto
  note r = recent_distance_range [OF ok, of ?j]
  have sum: "i32 (recent_distance s ?j + ?d) = recent_distance s ?j + ?d" using r d by (intro i32_id) linarith+
  have step: "TakeDistanceFromRingBuffer s = (let v = (if odd c then ?d else - ?d) in
      if odd c then Some (s\<lparr>s_distance_code := i32 (recent_distance s ?j + v)\<rparr>)
      else (let s = s\<lparr>s_distance_code := i32 (recent_distance s ?j - v)\<rparr> in
        if s_distance_code s \<le> 0 then Some (s\<lparr>s_distance_code := 0x7fffffff\<rparr>) else Some s))"
    unfolding TakeDistanceFromRingBuffer_def c(1) double Let_def get v bind.bind_lunit parity using False by simp
  show ?thesis unfolding step using False d(3) r sum
    by (auto simp: short_distance_def Let_def split_beta)
qed

subsection \<open>Distances with extra bits\<close>

text \<open>
  The parameters of a metablock: the number \<open>p\<close> of postfix bits and the number \<open>nd\<close> of direct distances.
\<close>

definition distance_params_ok :: "BrotliState \<Rightarrow> nat \<Rightarrow> nat \<Rightarrow> bool" where
  "distance_params_ok s p nd \<longleftrightarrow> p \<le> 3 \<and> nd \<le> 120 \<and> s_distance_postfix_bits s = of_nat p \<and>
     s_distance_postfix_mask s = 2 ^ p - 1 \<and> s_num_direct_distance_codes s = of_nat (16 + nd)"

fun bit_width :: "nat \<Rightarrow> nat" where
  "bit_width n = (if n = 0 then 0 else Suc (bit_width (n div 2)))"

declare bit_width.simps [simp del]

lemma bit_width_bounds: "0 < n \<Longrightarrow> 2 ^ (bit_width n - 1) \<le> n \<and> n < 2 ^ bit_width n"
proof (induction n rule: bit_width.induct)
  case (1 n)
  show ?case
  proof (cases "n = 1")
    case True
    then show ?thesis by (simp add: bit_width.simps)
  next
    case False
    then have half: "0 < n div 2" using "1.prems" by simp
    with 1 have ih: "2 ^ (bit_width (n div 2) - 1) \<le> n div 2" "n div 2 < 2 ^ bit_width (n div 2)" by simp_all
    have pos: "0 < bit_width (n div 2)" using half by (subst bit_width.simps) simp
    have "(2 :: nat) ^ bit_width (n div 2) = 2 * 2 ^ (bit_width (n div 2) - 1)"
      using pos by (simp add: power_eq_if)
    moreover have "bit_width n = Suc (bit_width (n div 2))" using "1.prems" by (subst bit_width.simps) simp
    ultimately show ?thesis using ih by simp linarith
  qed
qed

text \<open>The number whose leading bits give the code, its number of extra bits, and the code without postfix.\<close>

definition distance_scaled :: "nat \<Rightarrow> nat \<Rightarrow> nat \<Rightarrow> nat" where
  "distance_scaled p nd d = (d - nd - 1) div 2 ^ p + 4"

definition distance_nbits :: "nat \<Rightarrow> nat \<Rightarrow> nat \<Rightarrow> nat" where
  "distance_nbits p nd d = bit_width (distance_scaled p nd d) - 2"

definition distance_high :: "nat \<Rightarrow> nat \<Rightarrow> nat \<Rightarrow> nat" where
  "distance_high p nd d = (let n = distance_nbits p nd d in 2 * (n - 1) + (distance_scaled p nd d div 2 ^ n - 2))"

definition distance_symbol :: "nat \<Rightarrow> nat \<Rightarrow> nat \<Rightarrow> nat" where
  "distance_symbol p nd d = (if d \<le> nd then 15 + d
     else 16 + nd + distance_high p nd d * 2 ^ p + (d - nd - 1) mod 2 ^ p)"

definition distance_extra :: "nat \<Rightarrow> nat \<Rightarrow> nat \<Rightarrow> bool list" where
  "distance_extra p nd d = (if d \<le> nd then []
     else bits_of_word (distance_nbits p nd d) (of_nat (distance_scaled p nd d mod 2 ^ distance_nbits p nd d) :: u32))"

definition distance_bits :: "code \<Rightarrow> nat \<Rightarrow> nat \<Rightarrow> nat \<Rightarrow> bool list" where
  "distance_bits code p nd d = codeword code (symbol_index code (distance_symbol p nd d)) @ distance_extra p nd d"

lemma distance_high_at:
  assumes "nd < d" "d \<le> nd + 2 ^ p * (2 ^ 26 - 4)"
  shows "1 \<le> distance_nbits p nd d" "distance_nbits p nd d \<le> 24"
    "distance_high p nd d div 2 + 1 = distance_nbits p nd d"
    "(2 + distance_high p nd d mod 2) * 2 ^ distance_nbits p nd d + distance_scaled p nd d mod 2 ^ distance_nbits p nd d =
      distance_scaled p nd d"
    "distance_high p nd d < 48"
proof -
  let ?y = "distance_scaled p nd d" and ?n = "distance_nbits p nd d"
  have "d - nd - 1 < 2 ^ p * (2 ^ 26 - 4)" using assms by linarith
  then have "(d - nd - 1) div 2 ^ p < 2 ^ 26 - 4" by (simp add: less_mult_imp_div_less mult.commute)
  then have y: "4 \<le> ?y" "?y < 2 ^ 26" by (simp_all add: distance_scaled_def)
  have b: "2 ^ (bit_width ?y - 1) \<le> ?y" "?y < 2 ^ bit_width ?y" using bit_width_bounds [of ?y] y(1) by simp_all
  have "(2 :: nat) ^ 2 < 2 ^ bit_width ?y" using b(2) y(1) by simp
  then have w3: "3 \<le> bit_width ?y" using power_less_imp_less_exp [of "2 :: nat" 2 "bit_width ?y"] by simp
  have "(2 :: nat) ^ (bit_width ?y - 1) < 2 ^ 26" using b(1) y(2) by linarith
  then have w26: "bit_width ?y \<le> 26" using power_less_imp_less_exp [of "2 :: nat" "bit_width ?y - 1" 26] by simp
  show n1: "1 \<le> ?n" and n24: "?n \<le> 24" using w3 w26 by (simp_all add: distance_nbits_def)
  have pow: "bit_width ?y - 1 = Suc ?n" "bit_width ?y = Suc (Suc ?n)" using w3 by (simp_all add: distance_nbits_def)
  have "2 * 2 ^ ?n \<le> ?y" "?y < 4 * 2 ^ ?n" using b unfolding pow(1) using b(2) unfolding pow(2) by simp_all
  then have "2 \<le> ?y div 2 ^ ?n" "?y div 2 ^ ?n < 4" by (simp_all add: less_eq_div_iff_mult_less_eq div_less_iff_less_mult)
  then have q: "?y div 2 ^ ?n = 2 \<or> ?y div 2 ^ ?n = 3" by linarith
  then show "distance_high p nd d div 2 + 1 = ?n" using n1 by (auto simp: distance_high_def Let_def)
  have "distance_high p nd d mod 2 = ?y div 2 ^ ?n - 2" using q by (auto simp: distance_high_def Let_def)
  then have "2 + distance_high p nd d mod 2 = ?y div 2 ^ ?n" using q by auto
  then show "(2 + distance_high p nd d mod 2) * 2 ^ ?n + ?y mod 2 ^ ?n = ?y" by (simp only: div_mult_mod_eq)
  show "distance_high p nd d < 48" using q n24 n1 by (auto simp: distance_high_def Let_def)
qed


subsection \<open>Reading a distance\<close>

text \<open>What a distance does to the state besides the reader: it is counted off its block.\<close>

definition count_distance :: "BrotliState \<Rightarrow> BrotliState" where
  "count_distance s = (let bt = s_block_type_length_state s
     in s\<lparr>s_block_type_length_state := bt\<lparr>bt_block_length := (bt_block_length bt)[2 := bt_block_length bt ! 2 - 1]\<rparr>\<rparr>)"

lemma decrement_distances:
  "2 < length (bt_block_length (s_block_type_length_state s)) \<Longrightarrow> decrement_block_length 2 s = Some (count_distance s)"
  by (simp add: decrement_block_length_def count_distance_def get_def put_def Let_def)

lemma short_code_mask:
  assumes "n < 2 ^ 16"
  shows "(word_of_int (int n) :: u64) AND 0xfffffffffffffff0 = 0 \<longleftrightarrow> n < 16"
proof -
  have u: "unat (of_nat n :: u64) = n" using assms by (simp add: unat_of_nat take_bit_nat_eq_self)
  have "(0xfffffffffffffff0 :: u64) = NOT (mask 4)" by (simp add: mask_eq_exp_minus_1)
  then have "(of_nat n :: u64) AND 0xfffffffffffffff0 = 0 \<longleftrightarrow> take_bit 4 (of_nat n :: u64) = of_nat n"
    by (simp add: take_bit_eq_mask bit_eq_iff bit_simps) blast
  also have "\<dots> \<longleftrightarrow> n mod 16 = n"
    using u take_bit_eq_mod [of 4 n] by (simp add: word_unat_eq_iff unsigned_take_bit_eq)
  also have "\<dots> \<longleftrightarrow> n < 16" by (metis mod_less mod_less_divisor zero_less_numeral)
  finally show ?thesis by simp
qed

text \<open>The arithmetic of the two formulas.\<close>

lemma distance_arith:
  assumes "p \<le> 3" "nd \<le> 120" "nd < d" "d \<le> nd + 2 ^ p * (2 ^ 26 - 4)"
  defines "n \<equiv> distance_nbits p nd d" and "h \<equiv> distance_high p nd d"
    and "e \<equiv> distance_scaled p nd d mod 2 ^ distance_nbits p nd d"
  shows "i32 (shl_i32 ((int h AND 1) + 2) (int n) - 4) + int e = int ((d - nd - 1) div 2 ^ p)"
    and "0 \<le> i32 (shl_i32 ((int h AND 1) + 2) (int n) - 4)"
    and "(int ((d - nd - 1) div 2 ^ p)) * 2 ^ p + int ((d - nd - 1) mod 2 ^ p) + int (16 + nd) = int d + 15"
    and "int d + 15 < 2147483648" "e < 2 ^ n" "n \<le> 24"
proof -
  note hi = distance_high_at [OF assms(3,4), folded n_def h_def e_def]
  have pow: "(2 :: nat) ^ n \<le> 2 ^ 24" using hi(2) by (intro power_increasing) simp_all
  define m where "m = (2 + h mod 2) * 2 ^ n"
  have "m \<le> 3 * 2 ^ 24" unfolding m_def using pow by (intro mult_le_mono) simp_all
  moreover have "(2 :: nat) ^ 1 \<le> 2 ^ n" using hi(1) by (intro power_increasing) simp_all
  then have "2 * 2 \<le> m" unfolding m_def by (intro mult_le_mono) simp_all
  ultimately have m: "4 \<le> m" "m < 2147483648" by simp_all
  have n32: "nat (int n mod 32) = n" using hi(2) by simp
  have "(int h AND 1) + 2 = int (2 + h mod 2)" by (simp add: and_one_eq zmod_int)
  then have "((int h AND 1) + 2) * 2 ^ n = int m" by (simp only: m_def of_nat_mult of_nat_power of_nat_numeral)
  then have sh: "shl_i32 ((int h AND 1) + 2) (int n) = int m"
    unfolding shl_i32_def n32 using m by (simp only: i32_id)
  have off: "i32 (shl_i32 ((int h AND 1) + 2) (int n) - 4) = int m - 4"
    unfolding sh using m by (intro i32_id) linarith+
  show "0 \<le> i32 (shl_i32 ((int h AND 1) + 2) (int n) - 4)" unfolding off using m by linarith
  have "m + e = (d - nd - 1) div 2 ^ p + 4" using hi(4) by (simp add: distance_scaled_def m_def)
  then show "i32 (shl_i32 ((int h AND 1) + 2) (int n) - 4) + int e = int ((d - nd - 1) div 2 ^ p)"
    unfolding off by linarith
  have "(d - nd - 1) div 2 ^ p * 2 ^ p + (d - nd - 1) mod 2 ^ p + (16 + nd) = d + 15"
    using assms(3) unfolding div_mult_mod_eq by linarith
  then have "int ((d - nd - 1) div 2 ^ p * 2 ^ p + (d - nd - 1) mod 2 ^ p + (16 + nd)) = int (d + 15)" by (simp only:)
  then show "(int ((d - nd - 1) div 2 ^ p)) * 2 ^ p + int ((d - nd - 1) mod 2 ^ p) + int (16 + nd) = int d + 15"
    by (simp only: of_nat_add of_nat_mult of_nat_power of_nat_numeral)
  have "(2 :: nat) ^ p \<le> 2 ^ 3" using assms(1) by (intro power_increasing) simp_all
  then have "2 ^ p * (2 ^ 26 - 4) \<le> 2 ^ 3 * (2 ^ 26 - 4 :: nat)" by (intro mult_le_mono) simp_all
  then show "int d + 15 < 2147483648" using assms(2,4) by simp
  show "e < 2 ^ n" by (simp add: e_def n_def)
  show "n \<le> 24" by (rule hi(2))
qed

lemma unat_small_u32: "n < 4294967296 \<Longrightarrow> unat (of_nat n :: u32) = n"
  using unat_of_nat_u32 [of n] by simp

lemma sint_small_u32:
  assumes "n < 2147483648"
  shows "sint (of_nat n :: u32) = int n" "uint (of_nat n :: u32) = int n"
proof -
  have u: "unat (of_nat n :: u32) = n" using assms by (intro unat_small_u32) linarith
  then show "uint (of_nat n :: u32) = int n" by (metis uint_nat)
  then show "sint (of_nat n :: u32) = int n" using assms
    by (simp add: sint_uint signed_take_bit_int_eq_self)
qed

text \<open>The symbol of a distance with extra bits, taken apart.\<close>

lemma distance_symbol_parts:
  assumes "p \<le> 3" "nd < d"
  defines "v \<equiv> distance_symbol p nd d - (16 + nd)"
  shows "distance_symbol p nd d = 16 + nd + v" "v div 2 ^ p = distance_high p nd d" "v mod 2 ^ p = (d - nd - 1) mod 2 ^ p"
    "int v AND (2 ^ p - 1) = int ((d - nd - 1) mod 2 ^ p)" "shr_i32 (int v) (int p) = int (distance_high p nd d)"
proof -
  have v: "v = distance_high p nd d * 2 ^ p + (d - nd - 1) mod 2 ^ p" using assms(2) by (simp add: v_def distance_symbol_def)
  show "distance_symbol p nd d = 16 + nd + v" using assms(2) by (simp add: v distance_symbol_def)
  show q: "v div 2 ^ p = distance_high p nd d" and r: "v mod 2 ^ p = (d - nd - 1) mod 2 ^ p" by (simp_all add: v)
  have "int v AND (2 ^ p - 1) = int v mod 2 ^ p"
    by (simp add: take_bit_eq_mask [symmetric] mask_eq_exp_minus_1 [symmetric] take_bit_eq_mod)
  also have "\<dots> = int (v mod 2 ^ p)" by (simp add: zmod_int)
  finally show "int v AND (2 ^ p - 1) = int ((d - nd - 1) mod 2 ^ p)" unfolding r .
  have "shr_i32 (int v) (int p) = int v div 2 ^ p" using assms(1) by (simp add: shr_i32_def drop_bit_eq_div)
  also have "\<dots> = int (v div 2 ^ p)" by (simp add: zdiv_int)
  finally show "shr_i32 (int v) (int p) = int (distance_high p nd d)" unfolding q .
qed

lemma half_plus_one: "h < 48 \<Longrightarrow> drop_bit 1 (u32_of_i32 (int h)) + 1 = of_nat (h div 2 + 1)"
proof -
  assume h: "h < 48"
  have "unat (drop_bit 1 (of_nat h :: u32)) = h div 2"
    using h unat_small_u32 [of h] by (simp only: unsigned_drop_bit_eq) (simp add: drop_bit_eq_div take_bit_nat_eq_self)
  then have "drop_bit 1 (of_nat h :: u32) = of_nat (h div 2)"
    using h unat_small_u32 [of "h div 2"] by (simp add: word_unat_eq_iff)
  then show ?thesis by simp
qed

lemma extra_value:
  assumes "e < 2 ^ n" "n \<le> 24"
  shows "uint (word_of_bits (take n (bits_of_word n (of_nat e :: u32) @ rest)) :: u32) = int e"
proof -
  have "(2 :: nat) ^ n \<le> 2 ^ 24" using assms(2) by (intro power_increasing) simp_all
  then have e: "e < 2147483648" using assms(1) by simp
  have "word_of_bits (take n (bits_of_word n (of_nat e :: u32) @ rest)) = (take_bit n (of_nat e) :: u32)"
    by (simp add: word_of_bits_of_word)
  moreover have "unat (take_bit n (of_nat e :: u32)) = e"
    using assms(1) e by (simp add: unsigned_take_bit_eq unat_small_u32 take_bit_nat_eq_self)
  ultimately show ?thesis by (metis uint_nat)
qed


text \<open>The code of the distance once its symbol and its extra bits are read.\<close>

lemma distance_without_postfix_at:
  assumes "nd \<le> 120" "nd < d" "d \<le> nd + 2 ^ 0 * (2 ^ 26 - 4)" "uint bits = int (distance_scaled 0 nd d mod 2 ^ distance_nbits 0 nd d)"
  shows "distance_without_postfix (int (distance_high 0 nd d)) (of_nat (distance_nbits 0 nd d)) (of_nat (16 + nd)) bits = int d + 15"
proof -
  note a = distance_arith [OF le0 assms(1-3)]
  have n: "uint (of_nat (distance_nbits 0 nd d) :: u32) = int (distance_nbits 0 nd d)"
    using a(6) by (intro sint_small_u32) linarith
  have nd: "uint (of_nat (16 + nd) :: u32) = int (16 + nd)" using assms(1) by (intro sint_small_u32) linarith
  let ?o = "i32 (shl_i32 ((int (distance_high 0 nd d) AND 1) + 2) (int (distance_nbits 0 nd d)) - 4)"
  have "int (16 + nd) + ?o + int (distance_scaled 0 nd d mod 2 ^ distance_nbits 0 nd d) = int d + 15"
    using a(1) a(3) by simp
  moreover have "2 + (int (distance_high 0 nd d) AND 1) = (int (distance_high 0 nd d) AND 1) + 2" by simp
  ultimately show ?thesis unfolding distance_without_postfix_def n nd assms(4) using a(4)
    by (simp only: i32_id)
qed

lemma distance_with_postfix_at:
  assumes "p \<le> 3" "nd \<le> 120" "nd < d" "d \<le> nd + 2 ^ p * (2 ^ 26 - 4)"
    and "uint bits = int (distance_scaled p nd d mod 2 ^ distance_nbits p nd d)"
  shows "distance_with_postfix (int ((d - nd - 1) mod 2 ^ p)) (int (distance_high p nd d)) (of_nat (distance_nbits p nd d))
    (of_nat p) (of_nat (16 + nd)) bits = int d + 15"
proof -
  note a = distance_arith [OF assms(1-4)]
  have n: "uint (of_nat (distance_nbits p nd d) :: u32) = int (distance_nbits p nd d)"
    using a(6) by (intro sint_small_u32) linarith
  have nd: "uint (of_nat (16 + nd) :: u32) = int (16 + nd)" using assms(2) by (intro sint_small_u32) linarith
  have "p = 0 \<or> p = 1 \<or> p = 2 \<or> p = 3" using assms(1) by linarith
  then have p: "unat ((of_nat p :: u32) AND 63) = p" by (elim disjE) simp_all
  show ?thesis unfolding distance_with_postfix_def Let_def p n nd assms(5) a(1) a(3) using a(4) by (intro i32_id) linarith+
qed

lemma code_symbol_at:
  assumes d: "decodes tree code" and c: "codable code c"
    and at: "br_at br input (codeword code (symbol_index code c) @ rest)"
  shows "\<exists>v. unat v = c \<and> (\<exists>br'. SafeReadSymbol tree br 0 input = Some (True, br', ucast (v :: u16)) \<and> br_at br' input rest) \<and>
    (unat (br_bit_pos br) < 64 \<and> 8 \<le> unat (br_avail_in br) \<longrightarrow>
      (\<exists>br'. ReadSymbol tree br input = Some (ucast v, br') \<and> br_at br' input rest \<and> unat (br_bit_pos br') < 64 \<and>
        unat (br_avail_in br) \<le> unat (br_avail_in br') + 7))"
proof -
  obtain v where v: "symbol_at tree (codeword code (symbol_index code c) @ rest) =
      (v, length (codeword code (symbol_index code c)))" "unat v = c"
    using symbol_at_token [OF d] c unfolding codable_def by blast
  note h = decodes_huffman_table [OF d]
  show ?thesis using v huffman_table.SafeReadSymbol_at [OF h at, of 0] huffman_table.ReadSymbol_at [OF h at]
    by (intro exI [of _ v]) auto
qed

lemma count_distance_br [simp]: "s_br (count_distance s) = s_br s"
  by (simp add: count_distance_def Let_def)

text \<open>After a short code: the code 0 also takes the distance out of the ring, and sets the context.\<close>

definition distance_taken :: "BrotliState \<Rightarrow> nat \<Rightarrow> BrotliState" where
  "distance_taken s c = (if c = 0
     then s\<lparr>s_dist_rb_idx := i32 (s_dist_rb_idx s - 1), s_distance_code := short_distance s 0, s_distance_context := 1\<rparr>
     else s\<lparr>s_distance_code := short_distance s c, s_distance_context := 0\<rparr>)"

lemma ReadDistance_short:
  assumes tree: "get hgroup (unat (s_dist_htree_index s)) = Some tree"
    and ok: "distances_ok s" "2 < length (bt_block_length (s_block_type_length_state s))"
    and sym: "(if \<not> safe then do { (code, br) \<leftarrow> ReadSymbol tree (s_br s) input; Some (True, br, code) }
      else SafeReadSymbol tree (s_br s) 0 input) = Some (True, br1, ucast (v :: u16))"
    and c: "unat v = c" "c < 16"
  shows "ReadDistanceInternal safe s input hgroup = Some (True, count_distance (distance_taken (s\<lparr>s_br := br1\<rparr>) c))"
proof -
  let ?s = "s\<lparr>s_br := br1, s_distance_code := int c, s_distance_context := 0\<rparr>"
  have v: "(ucast v :: u32) = of_nat c" using c unat_small_u32 [of c] by (simp add: word_unat_eq_iff unat_ucast_u16)
  have sv: "sint (ucast v :: u32) = int c" using c(2) unfolding v by (intro sint_small_u32) linarith
  have mask: "(word_of_int (int c) :: u64) AND 0xfffffffffffffff0 = 0" using short_code_mask [of c] c(2) by simp
  have ok': "distances_ok ?s" using ok(1) by (simp add: distances_ok_def)
  have same: "short_distance (s\<lparr>s_br := b, s_distance_code := x, s_distance_context := y\<rparr>) k = short_distance s k"
    "short_distance (s\<lparr>s_br := b\<rparr>) k = short_distance s k" for b x y k
    by (simp_all add: short_distance_def recent_distance_def Let_def)
  have take: "TakeDistanceFromRingBuffer ?s = Some (distance_taken (s\<lparr>s_br := br1\<rparr>) c)"
    using TakeDistance_at [OF ok', of c] c(2) by (simp add: distance_taken_def same)
  have len: "2 < length (bt_block_length (s_block_type_length_state (distance_taken (s\<lparr>s_br := br1\<rparr>) c)))"
    using ok(2) by (simp add: distance_taken_def)
  show ?thesis unfolding ReadDistanceInternal_def tree bind.bind_lunit sym prod.case sv Let_def
    using mask take decrement_distances [OF len] by simp
qed

lemma ReadDistance_long:
  assumes tree: "get hgroup (unat (s_dist_htree_index s)) = Some tree"
    and ok: "distance_params_ok s p nd" "2 < length (bt_block_length (s_block_type_length_state s))"
    and sym: "(if \<not> safe then do { (code, br) \<leftarrow> ReadSymbol tree (s_br s) input; Some (True, br, code) }
      else SafeReadSymbol tree (s_br s) 0 input) = Some (True, br1, ucast (v :: u16))"
    and d: "unat v = distance_symbol p nd d" "nd < d" "d \<le> nd + 2 ^ p * (2 ^ 26 - 4)"
    and safe: "safe \<Longrightarrow> SafeReadBits br1 (of_nat (distance_nbits p nd d)) 0 input = Some (True, bits, br2)"
    and fast: "\<not> safe \<Longrightarrow> BrotliReadBits br1 (of_nat (distance_nbits p nd d)) input = Some (bits, br2)"
    and bits: "uint bits = int (distance_scaled p nd d mod 2 ^ distance_nbits p nd d)"
  shows "ReadDistanceInternal safe s input hgroup =
    Some (True, count_distance (s\<lparr>s_br := br2, s_distance_code := int d, s_distance_context := 0\<rparr>))"
proof -
  let ?c = "distance_symbol p nd d" and ?h = "distance_high p nd d" and ?n = "distance_nbits p nd d"
  have par: "p \<le> 3" "nd \<le> 120" "s_distance_postfix_bits s = of_nat p" "s_distance_postfix_mask s = 2 ^ p - 1"
    "s_num_direct_distance_codes s = of_nat (16 + nd)" using ok(1) by (simp_all add: distance_params_ok_def)
  define w where "w = ?c - (16 + nd)"
  note parts = distance_symbol_parts [OF par(1) d(2), folded w_def]
  have "unat v < 2 ^ LENGTH(16)" by (rule unsigned_less)
  then have c16: "?c < 2 ^ 16" using d(1) by simp
  have v: "(ucast v :: u32) = of_nat ?c" using d(1) c16 unat_small_u32 [of ?c] by (simp add: word_unat_eq_iff unat_ucast_u16)
  have sv: "sint (ucast v :: u32) = int ?c" using c16 unfolding v by (intro sint_small_u32) simp
  have mask: "(word_of_int (int ?c) :: u64) AND 0xfffffffffffffff0 \<noteq> 0" using short_code_mask [OF c16] parts(1) by simp
  have snd: "sint (of_nat (16 + nd) :: u32) = int (16 + nd)" using par(2) by (intro sint_small_u32) linarith
  have distval: "i32 (int ?c - sint (s_num_direct_distance_codes s)) = int w"
    unfolding par(5) snd using parts(1) c16 by simp
  note hi = distance_high_at [OF d(2,3)]
  have nb: "drop_bit 1 (u32_of_i32 (int ?h)) + 1 = of_nat ?n" by (simp only: half_plus_one [OF hi(5)] hi(3))
  have up: "uint (of_nat p :: u32) = int p" using par(1) by (intro sint_small_u32) linarith
  have shr: "shr_i32 (int w) (uint (s_distance_postfix_bits s)) = int ?h" unfolding par(3) up by (rule parts(5))
  have post: "int w AND s_distance_postfix_mask s = int ((d - nd - 1) mod 2 ^ p)" unfolding par(4) by (rule parts(4))
  have fin: "i32 (i32 (int d + 15 - uint NUM_DISTANCE_SHORT_CODES) + 1) = int d"
    using distance_arith(4) [OF par(1,2) d(2,3)] by simp
  let ?s = "s\<lparr>s_br := br2, s_distance_code := int d, s_distance_context := 0\<rparr>"
  have len: "2 < length (bt_block_length (s_block_type_length_state ?s))" using ok(2) by simp
  have same: "s\<lparr>s_distance_context := 0, s_br := br2, s_distance_code := int d\<rparr> = ?s" by simp
  have dec: "decrement_block_length 2 (s\<lparr>s_distance_context := 0, s_br := br2, s_distance_code := int d\<rparr>) = Some (count_distance ?s)"
    unfolding same by (rule decrement_distances [OF len])
  show ?thesis
  proof (cases "\<not> safe \<and> s_distance_postfix_bits s = 0")
    case True
    then have p: "p = 0" using par(1,3) by (metis unat_small_u32 unsigned_0 le_less_trans numeral_less_iff semiring_norm(76) semiring_norm(81))
    have w: "w = ?h" using parts(2) p by simp
    have val: "distance_without_postfix (int ?h) (of_nat ?n) (of_nat (16 + nd)) bits = int d + 15"
      using distance_without_postfix_at [of nd d bits] par(2) d(2,3) bits p by simp
    from True have fast': "BrotliReadBits br1 (of_nat ?n) input = Some (bits, br2)" using fast by simp
    show ?thesis unfolding ReadDistanceInternal_def tree bind.bind_lunit sym prod.case sv Let_def
      using mask distval True fast' w nb val fin dec par(5)
      by simp
  next
    case False
    have val: "distance_with_postfix (int ((d - nd - 1) mod 2 ^ p)) (int ?h) (of_nat ?n) (s_distance_postfix_bits s)
        (s_num_direct_distance_codes s) bits = int d + 15"
      unfolding par(3,5) by (rule distance_with_postfix_at [OF par(1,2) d(2,3) bits])
    show ?thesis
    proof (cases safe)
      case True
      then have "SafeReadBits br1 (of_nat ?n) 0 input = Some (True, bits, br2)" using safe by simp
      then show ?thesis unfolding ReadDistanceInternal_def tree bind.bind_lunit sym prod.case sv Let_def
        using mask distval True nb shr post val fin dec by simp
    next
      case fast': False
      then have "BrotliReadBits br1 (of_nat ?n) input = Some (bits, br2)" "s_distance_postfix_bits s \<noteq> 0" using fast False by simp_all
      then show ?thesis unfolding ReadDistanceInternal_def tree bind.bind_lunit sym prod.case sv Let_def
        using mask distval fast' nb shr post val fin dec by simp
    qed
  qed
qed

lemma ReadDistance_direct:
  assumes tree: "get hgroup (unat (s_dist_htree_index s)) = Some tree"
    and ok: "distance_params_ok s p nd" "2 < length (bt_block_length (s_block_type_length_state s))"
    and sym: "(if \<not> safe then do { (code, br) \<leftarrow> ReadSymbol tree (s_br s) input; Some (True, br, code) }
      else SafeReadSymbol tree (s_br s) 0 input) = Some (True, br1, ucast (v :: u16))"
    and d: "unat v = distance_symbol p nd d" "1 \<le> d" "d \<le> nd"
  shows "ReadDistanceInternal safe s input hgroup =
    Some (True, count_distance (s\<lparr>s_br := br1, s_distance_code := int d, s_distance_context := 0\<rparr>))"
proof -
  let ?c = "15 + d"
  have par: "nd \<le> 120" "s_num_direct_distance_codes s = of_nat (16 + nd)" using ok(1) by (simp_all add: distance_params_ok_def)
  have c: "distance_symbol p nd d = ?c" using d(3) by (simp add: distance_symbol_def)
  have c16: "?c < 2 ^ 16" "16 \<le> ?c" using d par(1) by simp_all
  have v: "(ucast v :: u32) = of_nat ?c" using d(1) c c16 unat_small_u32 [of ?c] by (simp add: word_unat_eq_iff unat_ucast_u16)
  have sv: "sint (ucast v :: u32) = int ?c" using c16 unfolding v by (intro sint_small_u32) simp
  have mask: "(word_of_int (int ?c) :: u64) AND 0xfffffffffffffff0 \<noteq> 0" using short_code_mask [OF c16(1)] c16(2) by simp
  have snd: "sint (of_nat (16 + nd) :: u32) = int (16 + nd)" using par(1) by (intro sint_small_u32) linarith
  have distval: "\<not> 0 \<le> i32 (int ?c - sint (s_num_direct_distance_codes s))"
    unfolding par(2) snd using d par(1) by simp
  have fin: "i32 (i32 (int ?c - uint NUM_DISTANCE_SHORT_CODES) + 1) = int d" using d par(1) by simp
  let ?s = "s\<lparr>s_br := br1, s_distance_code := int d, s_distance_context := 0\<rparr>"
  have len: "2 < length (bt_block_length (s_block_type_length_state ?s))" using ok(2) by simp
  have same: "s\<lparr>s_br := br1, s_distance_context := 0, s_distance_code := int d\<rparr> = ?s" by simp
  have dec: "decrement_block_length 2 (s\<lparr>s_br := br1, s_distance_context := 0, s_distance_code := int d\<rparr>) = Some (count_distance ?s)"
    unfolding same by (rule decrement_distances [OF len])
  show ?thesis unfolding ReadDistanceInternal_def tree bind.bind_lunit sym prod.case sv Let_def
    using mask distval fin dec by simp
qed

lemma ReadDistance_at:
  assumes tree: "get hgroup (unat (s_dist_htree_index s)) = Some tree" and dec: "decodes tree code"
    and ok: "distance_params_ok s p nd" "2 < length (bt_block_length (s_block_type_length_state s))"
    and d: "1 \<le> d" "d \<le> nd + 2 ^ p * (2 ^ 26 - 4)" "codable code (distance_symbol p nd d)"
    and at: "br_at (s_br s) input (distance_bits code p nd d @ rest)"
    and fast: "\<not> safe \<Longrightarrow> unat (br_bit_pos (s_br s)) < 64 \<and> 15 \<le> unat (br_avail_in (s_br s))"
  shows "\<exists>br'. ReadDistanceInternal safe s input hgroup =
      Some (True, count_distance (s\<lparr>s_br := br', s_distance_code := int d, s_distance_context := 0\<rparr>)) \<and> br_at br' input rest"
proof -
  have at': "br_at (s_br s) input (codeword code (symbol_index code (distance_symbol p nd d)) @ (distance_extra p nd d @ rest))"
    using at by (simp add: distance_bits_def)
  obtain v br1 where v: "unat (v :: u16) = distance_symbol p nd d"
    and sym: "(if \<not> safe then do { (code, br) \<leftarrow> ReadSymbol tree (s_br s) input; Some (True, br, code) }
      else SafeReadSymbol tree (s_br s) 0 input) = Some (True, br1, ucast v)"
    and at1: "br_at br1 input (distance_extra p nd d @ rest)"
    and fast1: "\<not> safe \<Longrightarrow> unat (br_bit_pos br1) < 64 \<and> 8 \<le> unat (br_avail_in br1)"
  proof -
    from code_symbol_at [OF dec d(3) at'] obtain v where v: "unat (v :: u16) = distance_symbol p nd d"
      "\<exists>br'. SafeReadSymbol tree (s_br s) 0 input = Some (True, br', ucast v) \<and> br_at br' input (distance_extra p nd d @ rest)"
      "unat (br_bit_pos (s_br s)) < 64 \<and> 8 \<le> unat (br_avail_in (s_br s)) \<longrightarrow>
        (\<exists>br'. ReadSymbol tree (s_br s) input = Some (ucast v, br') \<and> br_at br' input (distance_extra p nd d @ rest) \<and>
          unat (br_bit_pos br') < 64 \<and> unat (br_avail_in (s_br s)) \<le> unat (br_avail_in br') + 7)" by blast
    show ?thesis
    proof (cases safe)
      case True
      from v(2) obtain br1 where "SafeReadSymbol tree (s_br s) 0 input = Some (True, br1, ucast v)"
        "br_at br1 input (distance_extra p nd d @ rest)" by blast
      with True v(1) that [of v br1] show ?thesis by simp
    next
      case False
      with fast v(3) obtain br1 where "ReadSymbol tree (s_br s) input = Some (ucast v, br1)"
        "br_at br1 input (distance_extra p nd d @ rest)" "unat (br_bit_pos br1) < 64"
        "unat (br_avail_in (s_br s)) \<le> unat (br_avail_in br1) + 7" by auto
      with False fast v(1) that [of v br1] show ?thesis by simp
    qed
  qed
  show ?thesis
  proof (cases "d \<le> nd")
    case True
    from ReadDistance_direct [OF tree ok sym v d(1) True] at1 True show ?thesis by (auto simp: distance_extra_def)
  next
    case False
    let ?n = "distance_nbits p nd d" and ?e = "distance_scaled p nd d mod 2 ^ distance_nbits p nd d"
    have nd: "nd < d" using False by simp
    have n24: "?n \<le> 24" by (rule distance_high_at(2) [OF nd d(2)])
    have un: "unat (of_nat ?n :: u32) = ?n" using n24 by (intro unat_small_u32) simp
    have at2: "br_at br1 input (bits_of_word ?n (of_nat ?e :: u32) @ rest)" using at1 False by (simp add: distance_extra_def)
    let ?bits = "word_of_bits (take ?n (bits_of_word ?n (of_nat ?e :: u32) @ rest)) :: u32"
    have val: "uint ?bits = int ?e" using n24 by (intro extra_value) simp_all
    have len: "length (bits_of_word ?n (of_nat ?e :: u32)) = ?n" by simp
    show ?thesis
    proof (cases safe)
      case True
      from SafeReadBits_prefix [OF at2, of "of_nat ?n" 0] un n24 obtain br2 where 2:
        "SafeReadBits br1 (of_nat ?n) 0 input = Some (True, ?bits, br2)" "br_at br2 input rest" by auto
      from ReadDistance_long [OF tree ok sym v nd d(2) 2(1) _ val] True 2(2) show ?thesis by blast
    next
      case False
      with fast1 have f: "unat (br_bit_pos br1) < 64" "8 \<le> unat (br_avail_in br1)" by simp_all
      have "unat (of_nat ?n :: u32) \<le> 32" unfolding un using n24 by simp
      from ReadBits_at [OF at2 f this] obtain br2 where 2:
        "BrotliReadBits br1 (of_nat ?n) input = Some (?bits, br2)" "br_at br2 input rest" unfolding un by auto
      from ReadDistance_long [OF tree ok sym v nd d(2) _ 2(1) val] False 2(2) show ?thesis by blast
    qed
  qed
qed

lemma ReadDistance_short_at:
  assumes tree: "get hgroup (unat (s_dist_htree_index s)) = Some tree" and dec: "decodes tree code"
    and ok: "distances_ok s" "2 < length (bt_block_length (s_block_type_length_state s))"
    and c: "codable code c" "c < 16"
    and at: "br_at (s_br s) input (codeword code (symbol_index code c) @ rest)"
    and fast: "\<not> safe \<Longrightarrow> unat (br_bit_pos (s_br s)) < 64 \<and> 8 \<le> unat (br_avail_in (s_br s))"
  shows "\<exists>br'. ReadDistanceInternal safe s input hgroup = Some (True, count_distance (distance_taken (s\<lparr>s_br := br'\<rparr>) c)) \<and>
    br_at br' input rest"
proof -
  from code_symbol_at [OF dec c(1) at] obtain v where v: "unat (v :: u16) = c"
    "\<exists>br'. SafeReadSymbol tree (s_br s) 0 input = Some (True, br', ucast v) \<and> br_at br' input rest"
    "unat (br_bit_pos (s_br s)) < 64 \<and> 8 \<le> unat (br_avail_in (s_br s)) \<longrightarrow>
      (\<exists>br'. ReadSymbol tree (s_br s) input = Some (ucast v, br') \<and> br_at br' input rest \<and>
        unat (br_bit_pos br') < 64 \<and> unat (br_avail_in (s_br s)) \<le> unat (br_avail_in br') + 7)" by blast
  obtain br1 where "(if \<not> safe then do { (code, br) \<leftarrow> ReadSymbol tree (s_br s) input; Some (True, br, code) }
      else SafeReadSymbol tree (s_br s) 0 input) = Some (True, br1, ucast v)" "br_at br1 input rest"
    using v(2,3) fast by (cases safe) auto
  with ReadDistance_short [OF tree ok _ v(1) c(2)] show ?thesis by blast
qed

lemma ReadDistance_failed:
  assumes tree: "get hgroup (unat (s_dist_htree_index s)) = Some tree" "huffman_table tree"
    and at: "br_at (s_br s) input bs"
    and fail: "ReadDistanceInternal True s input hgroup = Some (False, s')"
  shows "\<exists>d c br'. s' = s\<lparr>s_br := br', s_distance_code := d, s_distance_context := c\<rparr> \<and> br_at br' input bs"
proof -
  let ?sym = "symbol_at tree bs"
  from huffman_table.SafeReadSymbol_at [OF tree(2) at, of 0]
  obtain br1 where 1: "SafeReadSymbol tree (s_br s) 0 input =
      Some (if snd ?sym \<le> length bs then (True, br1, ucast (fst ?sym)) else (False, br1, 0))"
    "br_at br1 input (if snd ?sym \<le> length bs then drop (snd ?sym) bs else bs)" by blast
  show ?thesis
  proof (cases "snd ?sym \<le> length bs")
    case False
    then have "s' = s\<lparr>s_br := br1\<rparr>" using fail tree(1) 1(1) by (simp add: ReadDistanceInternal_def Let_def)
    with 1(2) False show ?thesis
      by (intro exI [of _ "s_distance_code s"] exI [of _ "s_distance_context s"] exI [of _ br1]) simp
  next
    case True
    from fail tree(1) 1(1) True
    have "s' = s\<lparr>s_br := s_br s, s_distance_code := -1, s_distance_context := 0\<rparr>"
      by (simp add: ReadDistanceInternal_def Let_def bind_eq_Some_conv split_beta split: if_splits) (auto split: if_splits)
    with at show ?thesis by blast
  qed
qed

subsection \<open>Properties of distances\<close>

text \<open>C29: Every distance from 1 to the largest one with 24 extra bits is read back from its encoding under the
  parameters of the metablock (postfix bits and direct distances) and any complete canonical code: a direct
  code, or the code of its two leading bits, its number of extra bits and its postfix, followed by the
  extra bits. \<open>ReadDistanceInternal\<close> stores the distance, resets the distance context, counts the
  distance off its block, and consumes nothing behind it: the safe version wherever the input ends,
  the fast one, with its separate formula for no postfix bits, with 15 bytes ahead.\<close>

theorem distance_roundtrip:
  assumes "get hgroup (unat (s_dist_htree_index s)) = Some tree" "decodes tree code"
    and "distance_params_ok s p nd" "2 < length (bt_block_length (s_block_type_length_state s))"
    and "1 \<le> d" "d \<le> nd + 2 ^ p * (2 ^ 26 - 4)" "codable code (distance_symbol p nd d)"
    and "br_at (s_br s) input (distance_bits code p nd d @ rest)"
  shows "(\<exists>br'. ReadDistanceInternal True s input hgroup =
      Some (True, count_distance (s\<lparr>s_br := br', s_distance_code := int d, s_distance_context := 0\<rparr>)) \<and> br_at br' input rest) \<and>
    (unat (br_bit_pos (s_br s)) < 64 \<and> 15 \<le> unat (br_avail_in (s_br s)) \<longrightarrow>
      (\<exists>br'. ReadDistanceInternal False s input hgroup =
        Some (True, count_distance (s\<lparr>s_br := br', s_distance_code := int d, s_distance_context := 0\<rparr>)) \<and> br_at br' input rest))"
  using ReadDistance_at [OF assms, of True] ReadDistance_at [OF assms, of False] by simp

text \<open>The distance 20 without direct distances and postfix bits: symbol 20 and three extra bits.\<close>

definition distance_sample :: BrotliState where
  "distance_sample =
     (BrotliState_new (\<lambda>n. replicate n 0) (\<lambda>n. replicate n 0) (\<lambda>n. replicate n HuffmanCode_default))
       \<lparr>s_br := \<lparr>br_val = 0xE000000000000000, br_bit_pos = 60, br_next_in = 0, br_avail_in = 0\<rparr>,
        s_num_direct_distance_codes := 16\<rparr>"

lemma distance_sample_fields:
  "s_dist_htree_index distance_sample = 0" "s_distance_postfix_bits distance_sample = 0"
  "s_distance_postfix_mask distance_sample = 0" "s_num_direct_distance_codes distance_sample = 16"
  "s_dist_rb distance_sample = [16, 15, 11, 4]" "s_dist_rb_idx distance_sample = 0"
  "bt_block_length (s_block_type_length_state distance_sample) = [0, 0, 0]"
  by (simp_all add: distance_sample_def BrotliState_new_def make_brotli_state_def Let_def numeral_3_eq_3)

theorem distance_roundtrip_witness:
  "\<exists>s'. ReadDistanceInternal True distance_sample [] [simple_huffman_table 1 20 40 0 0] = Some (True, s') \<and>
    s_distance_code s' = 20"
proof -
  have d: "decodes (simple_huffman_table 1 20 40 0 0) [(20, 1), (40, 1)]"
    using simple_huffman_table_decodes [of 1 20 40 0 0] by (simp add: simple_code_def min_def max_def)
  have bs: "stream (s_br distance_sample) [] = [False, True, True, True]"
    by (simp add: distance_sample_def stream_def window_bytes_def acc_bits_def upt_rec bit_iff_odd)
  have y: "distance_scaled 0 0 20 = 23" by (simp add: distance_scaled_def)
  have n: "distance_nbits 0 0 20 = 3" by (simp add: distance_nbits_def y bit_width.simps)
  have sy: "distance_symbol 0 0 20 = 20" by (simp add: distance_symbol_def distance_high_def y n Let_def)
  have "distance_bits [(20, 1), (40, 1)] 0 0 20 @ [] = [False, True, True, True]"
    unfolding distance_bits_def distance_extra_def sy y n
    by (simp add: symbol_index_def codeword_def bits_of_word_def upt_rec bit_iff_odd)
  then have at: "br_at (s_br distance_sample) [] (distance_bits [(20, 1), (40, 1)] 0 0 20 @ [])"
    using bs by (simp add: br_at_def br_ok_def distance_sample_def)
  have "get [simple_huffman_table 1 20 40 0 0] (unat (s_dist_htree_index distance_sample)) = Some (simple_huffman_table 1 20 40 0 0)"
    by (simp add: distance_sample_fields get_def)
  from distance_roundtrip [OF this d _ _ _ _ _ at] show ?thesis
    by (auto simp: distance_params_ok_def distance_sample_fields sy codable_def count_distance_def Let_def)
qed

text \<open>C30: The two packed constants of \<open>TakeDistanceFromRingBuffer\<close> hold the table of the 16 short distance
  codes: \<open>ReadDistanceInternal\<close> reads such a code as one of the last four distances, or as the last
  or the last but one changed by at most three, or as the impossible distance 0x7fffffff if that is
  not positive; the code 0 also steps the ring of distances back and sets the context to 1.\<close>

theorem short_distance_correct:
  assumes "get hgroup (unat (s_dist_htree_index s)) = Some tree" "decodes tree code"
    and "distances_ok s" "2 < length (bt_block_length (s_block_type_length_state s))"
    and "codable code c" "c < 16"
    and "br_at (s_br s) input (codeword code (symbol_index code c) @ rest)"
  shows "(\<exists>br'. ReadDistanceInternal True s input hgroup =
      Some (True, count_distance (distance_taken (s\<lparr>s_br := br'\<rparr>) c)) \<and> br_at br' input rest) \<and>
    (unat (br_bit_pos (s_br s)) < 64 \<and> 8 \<le> unat (br_avail_in (s_br s)) \<longrightarrow>
      (\<exists>br'. ReadDistanceInternal False s input hgroup =
        Some (True, count_distance (distance_taken (s\<lparr>s_br := br'\<rparr>) c)) \<and> br_at br' input rest))"
  using ReadDistance_short_at [OF assms, of True] ReadDistance_short_at [OF assms, of False] by simp

theorem short_distance_correct_witness:
  "\<exists>s'. ReadDistanceInternal True distance_sample [] [simple_huffman_table 1 10 40 0 0] = Some (True, s') \<and>
    s_distance_code s' = 10"
proof -
  have d: "decodes (simple_huffman_table 1 10 40 0 0) [(10, 1), (40, 1)]"
    using simple_huffman_table_decodes [of 1 10 40 0 0] by (simp add: simple_code_def min_def max_def)
  have bs: "stream (s_br distance_sample) [] = [False, True, True, True]"
    by (simp add: distance_sample_def stream_def window_bytes_def acc_bits_def upt_rec bit_iff_odd)
  have "codeword [(10, 1), (40, 1)] (symbol_index [(10 :: u16, 1), (40, 1)] 10) @ [True, True, True] = [False, True, True, True]"
    by (simp add: symbol_index_def codeword_def bits_of_word_def upt_rec)
  then have at: "br_at (s_br distance_sample) []
      (codeword [(10, 1), (40, 1)] (symbol_index [(10, 1), (40, 1)] 10) @ [True, True, True])"
    using bs by (simp add: br_at_def br_ok_def distance_sample_def)
  have "get [simple_huffman_table 1 10 40 0 0] (unat (s_dist_htree_index distance_sample)) = Some (simple_huffman_table 1 10 40 0 0)"
    by (simp add: distance_sample_fields get_def)
  from short_distance_correct [OF this d _ _ _ _ at] show ?thesis
    by (auto simp: distances_ok_def distance_sample_fields codable_def count_distance_def distance_taken_def
        short_distance_def short_distance_codes_def recent_distance_def Let_def)
qed

text \<open>C31: A distance whose bits are not all there yet is undone: \<open>ReadDistanceInternal\<close> reports failure with
  every bit it took given back and the ring of distances and the block lengths as they were; only the
  distance code and its context are changed, which the next attempt sets again.\<close>

theorem distance_interrupted:
  assumes "get hgroup (unat (s_dist_htree_index s)) = Some tree" "decodes tree code" "br_ok (s_br s) input"
    and "ReadDistanceInternal True s input hgroup = Some (False, s')"
  shows "\<exists>d c br'. s' = s\<lparr>s_br := br', s_distance_code := d, s_distance_context := c\<rparr> \<and>
    br_ok br' input \<and> stream br' input = stream (s_br s) input"
proof -
  have "br_at (s_br s) input (stream (s_br s) input)" using assms(3) by (simp add: br_at_def)
  from ReadDistance_failed [OF assms(1) decodes_huffman_table [OF assms(2)] this assms(4)]
  show ?thesis by (auto simp: br_at_def)
qed

theorem distance_interrupted_witness:
  "\<exists>s'. ReadDistanceInternal True (distance_sample\<lparr>s_br :=
      \<lparr>br_val = 0x4000000000000000, br_bit_pos = 62, br_next_in = 0, br_avail_in = 0\<rparr>\<rparr>) []
      [simple_huffman_table 1 10 20 0 0] = Some (False, s') \<and>
    stream (s_br s') [] = [True, False] \<and> s_dist_rb s' = [16, 15, 11, 4]"
proof -
  let ?s = "distance_sample\<lparr>s_br := \<lparr>br_val = 0x4000000000000000, br_bit_pos = 62, br_next_in = 0, br_avail_in = 0\<rparr>\<rparr>"
  let ?t = "simple_huffman_table 1 10 20 0 0"
  have d: "decodes ?t [(10, 1), (20, 1)]"
    using simple_huffman_table_decodes [of 1 10 20 0 0] by (simp add: simple_code_def min_def max_def)
  have bs: "stream (s_br ?s) [] = [True, False]"
    by (simp add: stream_def window_bytes_def acc_bits_def upt_rec bit_iff_odd)
  have ok: "br_ok (s_br ?s) []" by (simp add: br_ok_def)
  have at: "br_at (s_br ?s) [] [True, False]" using bs ok by (simp only: br_at_def)
  have sy: "symbol_at ?t [True, False] = (20, 1)"
    using symbol_at_token [OF d, of 20 "[False]"]
    by (auto simp: symbol_index_def codeword_def bits_of_word_def word_unat_eq_iff bit_iff_odd)
  obtain br1 where 1: "SafeReadSymbol ?t (s_br ?s) 0 [] = Some (True, br1, 20)" "br_at br1 [] [False]"
    using huffman_table.SafeReadSymbol_at [OF decodes_huffman_table [OF d] at, of 0] by (auto simp: sy)
  obtain br2 where 2: "SafeReadBits br1 3 0 [] = Some (False, 0, br2)"
    using SafeReadBits_at [OF 1(2), of 3 0] by (auto simp: SafeReadBits_def)
  have f: "s_dist_htree_index ?s = 0" "s_distance_postfix_bits ?s = 0"
    "s_distance_postfix_mask ?s = 0" "s_num_direct_distance_codes ?s = 16" "s_dist_rb ?s = [16, 15, 11, 4]"
    by (simp_all add: distance_sample_fields)
  have g: "get [?t] (unat (s_dist_htree_index ?s)) = Some ?t" unfolding f by (simp add: get_def)
  have n: "drop_bit 1 (u32_of_i32 (shr_i32 4 0)) + 1 = 3" by (simp add: shr_i32_def drop_bit_eq_div)
  have "\<exists>s'. ReadDistanceInternal True ?s [] [?t] = Some (False, s')"
    unfolding ReadDistanceInternal_def g bind.bind_lunit
    using 1(1) 2 f n by (simp add: Let_def)
  then obtain s' where run: "ReadDistanceInternal True ?s [] [?t] = Some (False, s')" by blast
  from distance_interrupted [OF g d ok run] bs run f(5) show ?thesis by auto
qed

end
