(* ===== verification/Ring_Spec.thy ===== *)
theory Ring_Spec
  imports Commands Huffman_Tables
begin

text \<open>
  The correctness of the ring buffer: what its bytes say about the history of the output, the copy at a
  distance in its fast and its byte by byte form (\<open>copy_from_ring_buffer\<close>, \<open>wrap_copy\<close> and
  \<open>command_post_wrap_copy\<close> of \<open>Commands\<close>), and writing and wrapping (\<open>WriteRingBuffer\<close> and
  \<open>WrapRingBuffer\<close> of \<open>Ring_Buffer\<close>).
\<close>

subsection \<open>The history behind the ring buffer\<close>

text \<open>
  The ring holds the last \<open>n\<close> bytes of the history \<open>h\<close>, the newest one before position \<open>pos\<close>.
\<close>

definition history_window :: "u8 list \<Rightarrow> nat \<Rightarrow> nat \<Rightarrow> nat \<Rightarrow> u8 list \<Rightarrow> bool" where
  "history_window ring m pos n h \<longleftrightarrow> n \<le> length h \<and> n \<le> m \<and> pos \<le> m \<and> m \<le> length ring \<and>
     (\<forall>j. 1 \<le> j \<longrightarrow> j \<le> n \<longrightarrow> ring ! ((pos + m - j) mod m) = h ! (length h - j))"

text \<open>What a copy at a distance means: byte by byte, so it may run into the bytes it has made.\<close>

fun lz_copy :: "nat \<Rightarrow> nat \<Rightarrow> u8 list \<Rightarrow> u8 list" where
  "lz_copy d 0 h = h"
| "lz_copy d (Suc n) h = lz_copy d n (h @ [h ! (length h - d)])"

lemma length_lz_copy [simp]: "length (lz_copy d n h) = length h + n"
  by (induction n arbitrary: h) auto

lemma lz_copy_disjoint:
  "n \<le> d \<Longrightarrow> d \<le> length h \<Longrightarrow> lz_copy d n h = h @ take n (drop (length h - d) h)"
proof (induction n arbitrary: h d)
  case (Suc n)
  have d: "length h - d < length h" using Suc.prems by simp
  have "lz_copy d (Suc n) h = lz_copy d n (h @ [h ! (length h - d)])" by simp
  also have "\<dots> = h @ [h ! (length h - d)] @ take n (drop (Suc (length h - d)) (h @ [h ! (length h - d)]))"
    using Suc.IH [of d "h @ [h ! (length h - d)]"] Suc.prems by (simp add: Suc_diff_le)
  also have "take n (drop (Suc (length h - d)) (h @ [h ! (length h - d)])) = take n (drop (Suc (length h - d)) h)"
    using Suc.prems by simp
  finally show ?case using d by (simp add: Cons_nth_drop_Suc [symmetric])
qed simp

text \<open>
  Writing \<open>k\<close> bytes at the position, and anything into the \<open>c\<close> places behind them, which hold the
  oldest bytes of the ring.
\<close>

lemma history_window_step:
  assumes w: "history_window ring m pos n h" and fits: "pos + k \<le> m" "c + k \<le> m"
    and len: "length ring' = length ring"
    and same: "\<And>p. p < m \<Longrightarrow> p < pos \<or> pos + k + c \<le> p \<Longrightarrow> ring' ! p = ring ! p"
    and new: "\<And>t. t < k \<Longrightarrow> ring' ! (pos + t) = bytes ! t" "length bytes = k"
  shows "history_window ring' m (pos + k) (min (n + k) (m - c)) (h @ bytes)"
  unfolding history_window_def
proof (intro conjI allI impI)
  show "min (n + k) (m - c) \<le> length (h @ bytes)"
    using w new(2) by (simp add: history_window_def min_le_iff_disj)
  show "min (n + k) (m - c) \<le> m" by simp
  show "pos + k \<le> m" by (rule fits(1))
  show "m \<le> length ring'" using w len by (simp add: history_window_def)
next
  fix j assume j: "1 \<le> j" "j \<le> min (n + k) (m - c)"
  show "ring' ! ((pos + k + m - j) mod m) = (h @ bytes) ! (length (h @ bytes) - j)"
  proof (cases "j \<le> k")
    case True
    have lt: "pos + (k - j) < m" using j fits True by linarith
    have "(pos + k + m - j) mod m = (pos + (k - j) + m) mod m" using True by simp
    also have "\<dots> = pos + (k - j)" using lt by simp
    also have "ring' ! (pos + (k - j)) = bytes ! (k - j)" using True j new(1) [of "k - j"] by simp
    finally have "ring' ! ((pos + k + m - j) mod m) = bytes ! (k - j)" .
    moreover have "length (h @ bytes) - j = length h + (k - j)" using True new(2) by simp
    ultimately show ?thesis by (simp only: nth_append_length_plus)
  next
    case False
    then have old: "1 \<le> j - k" "j - k \<le> n" using j by auto
    have "pos + k + m - j = pos + m - (j - k)" using False by linarith
    then have eq: "(pos + k + m - j) mod m = (pos + m - (j - k)) mod m" by simp
    have n: "n \<le> m" "n \<le> length h" using w by (simp_all add: history_window_def)
    have idx: "(pos + m - (j - k)) mod m < pos \<or> pos + k + c \<le> (pos + m - (j - k)) mod m"
    proof (cases "j - k \<le> pos")
      case True
      then have "pos + m - (j - k) = (pos - (j - k)) + m" by simp
      moreover have "pos - (j - k) < m" using True old fits by linarith
      ultimately have "(pos + m - (j - k)) mod m = pos - (j - k)" by (simp only: mod_add_self2 mod_less)
      then show ?thesis using old True by linarith
    next
      case False
      then have "pos + m - (j - k) < m" using old n by linarith
      then have "(pos + m - (j - k)) mod m = pos + m - (j - k)" by simp
      moreover have "j \<le> m - c" using j(2) by simp
      then have "j + c \<le> m" using fits j(1) by linarith
      then have "pos + k + c \<le> pos + m - (j - k)" using False old by linarith
      ultimately show ?thesis by simp
    qed
    have "0 < m" using old n by linarith
    then have "ring' ! ((pos + m - (j - k)) mod m) = ring ! ((pos + m - (j - k)) mod m)"
      using same idx by simp
    also have "\<dots> = h ! (length h - (j - k))"
      using w old unfolding history_window_def by blast
    also have "length h - (j - k) = length (h @ bytes) - j" using False new(2) by simp
    also have "h ! (length (h @ bytes) - j) = (h @ bytes) ! (length (h @ bytes) - j)"
    proof -
      have "length (h @ bytes) - j < length h" using False old n new(2) by simp
      then show ?thesis by (simp add: nth_append)
    qed
    finally show ?thesis unfolding eq .
  qed
qed

lemma history_window_less: "history_window ring m pos n h \<Longrightarrow> n' \<le> n \<Longrightarrow> history_window ring m pos n' h"
  by (simp add: history_window_def)

text \<open>The ring buffer of a state, with the sizes it was allocated with.\<close>

definition ring_ok :: "BrotliState \<Rightarrow> nat \<Rightarrow> bool" where
  "ring_ok s m \<longleftrightarrow> (\<exists>k. m = 2 ^ k \<and> 5 \<le> k \<and> k \<le> 30) \<and> s_ringbuffer_size s = int m \<and>
     s_ringbuffer_mask s = int m - 1 \<and> length (s_ringbuffer s) = m + 66"

lemma ring_ok_bounds: "ring_ok s m \<Longrightarrow> 32 \<le> m \<and> m \<le> 1073741824"
proof -
  assume "ring_ok s m"
  then obtain k where k: "m = 2 ^ k" "5 \<le> k" "k \<le> 30" by (auto simp: ring_ok_def)
  have "(2 :: nat) ^ 5 \<le> 2 ^ k" "(2 :: nat) ^ k \<le> 2 ^ 30" using k by (intro power_increasing; simp)+
  then show ?thesis using k(1) by simp
qed

lemma ring_index:
  assumes "ring_ok s m" "pos \<le> m" "d \<le> m"
  shows "i32 (int pos - int d) AND s_ringbuffer_mask s = int ((pos + m - d) mod m)"
proof -
  obtain k where k: "m = 2 ^ k" using assms(1) by (auto simp: ring_ok_def)
  have "i32 (int pos - int d) = int pos - int d"
    using ring_ok_bounds [OF assms(1)] assms(2,3) by (intro i32_id) linarith+
  then have "i32 (int pos - int d) AND s_ringbuffer_mask s = (int pos - int d) AND mask k"
    using assms(1) k by (simp add: ring_ok_def mask_eq_exp_minus_1)
  also have "\<dots> = (int pos - int d) mod int m"
    by (simp add: take_bit_eq_mask [symmetric] take_bit_eq_mod k)
  also have "\<dots> = (int pos - int d + int m) mod int m" by (simp only: mod_add_self2)
  also have "int pos - int d + int m = int (pos + m - d)" using assms(3) by linarith
  also have "int (pos + m - d) mod int m = int ((pos + m - d) mod m)" by (simp only: zmod_int)
  finally show ?thesis .
qed

lemma ring_index_less: "ring_ok s m \<Longrightarrow> (pos + m - d) mod m < m"
  using ring_ok_bounds [of s m] by simp

text \<open>The byte-by-byte copy, which stops at the end of the ring.\<close>

lemma wrap_copy_at:
  assumes "ring_ok s m" "history_window (s_ringbuffer s) m pos n h" "s_distance_code s = int d" "1 \<le> d" "d \<le> n"
    and "pos < m" "wrap_guard = int (m - pos)" "d \<le> m - c"
  shows "\<exists>ring. wrap_copy wrap_guard (int pos) (int i) s =
      Some (m - pos \<le> i, int (pos + min i (m - pos)), int (i - (m - pos)),
        (if m - pos \<le> i then s\<lparr>s_ringbuffer := ring, s_state := BROTLI_STATE_COMMAND_POST_WRITE_2\<rparr>
         else s\<lparr>s_ringbuffer := ring\<rparr>)) \<and>
    length ring = length (s_ringbuffer s) \<and>
    history_window ring m (pos + min i (m - pos)) (min (n + min i (m - pos)) (m - c)) (lz_copy d (min i (m - pos)) h)"
  using assms
proof (induction i arbitrary: s pos n h wrap_guard)
  case 0
  then show ?case
    by (subst wrap_copy.simps) (auto intro!: exI [of _ "s_ringbuffer s"] elim: history_window_less)
next
  case (Suc i)
  note b = ring_ok_bounds [OF Suc.prems(1)]
  have n: "n \<le> m" "n \<le> length h" "m \<le> length (s_ringbuffer s)" using Suc.prems(2) by (simp_all add: history_window_def)
  define x where "x = h ! (length h - d)"
  let ?ring = "(s_ringbuffer s)[pos := x]" and ?s = "s\<lparr>s_ringbuffer := (s_ringbuffer s)[pos := x]\<rparr>"
  have at: "i32 (int pos - s_distance_code s) AND s_ringbuffer_mask s = int ((pos + m - d) mod m)"
    using ring_index [OF Suc.prems(1), of pos d] Suc.prems(3,5,6) n by simp
  have "s_ringbuffer s ! ((pos + m - d) mod m) = x"
    using Suc.prems(2,4,5) by (simp add: history_window_def x_def)
  moreover have "(pos + m - d) mod m < length (s_ringbuffer s)" using ring_index_less [OF Suc.prems(1), of pos d] n by linarith
  ultimately have read: "get_at (s_ringbuffer s) (int ((pos + m - d) mod m)) = Some x"
    by (simp add: get_at_Some)
  have store: "put_at (s_ringbuffer s) (int pos) x = Some ?ring" using Suc.prems(6) n by (simp add: put_at_Some)
  have w: "history_window ?ring m (pos + 1) (min (n + 1) (m - c)) (h @ [x])"
    by (rule history_window_step [OF Suc.prems(2)]) (use Suc.prems(4,6,8) n in auto)
  have guard: "i32 (wrap_guard - 1) = int (m - (pos + 1))" using Suc.prems(6,7) b by (subst i32_id) auto
  have step: "wrap_copy wrap_guard (int pos) (int (Suc i)) s =
      (if m - (pos + 1) = 0 then Some (True, int (pos + 1), int i, ?s\<lparr>s_state := BROTLI_STATE_COMMAND_POST_WRITE_2\<rparr>)
       else wrap_copy (int (m - (pos + 1))) (int (pos + 1)) (int i) ?s)"
    using at read store guard Suc.prems(6) b
    by (subst wrap_copy.simps) (simp add: Let_def add.commute)
  show ?case
  proof (cases "m - (pos + 1) = 0")
    case True
    then have one: "m - pos = 1" using Suc.prems(6) by simp
    have "wrap_copy wrap_guard (int pos) (int (Suc i)) s =
        Some (True, int (pos + 1), int i, ?s\<lparr>s_state := BROTLI_STATE_COMMAND_POST_WRITE_2\<rparr>)"
      using step True by (simp only: if_True simp_thms)
    moreover have "min (Suc i) (m - pos) = 1" "m - pos \<le> Suc i" using one by simp_all
    moreover have "lz_copy d 1 h = h @ [x]" by (simp add: x_def)
    ultimately show ?thesis using w one by (intro exI [of _ ?ring]) simp
  next
    case False
    have ok: "ring_ok ?s m" using Suc.prems(1) by (simp add: ring_ok_def)
    have w': "history_window (s_ringbuffer ?s) m (pos + 1) (min (n + 1) (m - c)) (h @ [x])" using w by simp
    have d: "s_distance_code ?s = int d" "d \<le> min (n + 1) (m - c)" "pos + 1 < m" using Suc.prems(3,5,8) False by simp_all
    obtain ring where r: "wrap_copy (int (m - (pos + 1))) (int (pos + 1)) (int i) ?s =
        Some (m - (pos + 1) \<le> i, int (pos + 1 + min i (m - (pos + 1))), int (i - (m - (pos + 1))),
          (if m - (pos + 1) \<le> i then ?s\<lparr>s_ringbuffer := ring, s_state := BROTLI_STATE_COMMAND_POST_WRITE_2\<rparr>
           else ?s\<lparr>s_ringbuffer := ring\<rparr>))"
      "length ring = length (s_ringbuffer ?s)"
      "history_window ring m (pos + 1 + min i (m - (pos + 1))) (min (min (n + 1) (m - c) + min i (m - (pos + 1))) (m - c))
        (lz_copy d (min i (m - (pos + 1))) (h @ [x]))"
      using Suc.IH [OF ok w' d(1) Suc.prems(4) d(2,3) refl Suc.prems(8)] by blast
    have k: "min (Suc i) (m - pos) = Suc (min i (m - (pos + 1)))" using False by simp
    have eq: "pos + 1 + min i (m - (pos + 1)) = pos + min (Suc i) (m - pos)"
      "min (min (n + 1) (m - c) + min i (m - (pos + 1))) (m - c) = min (n + min (Suc i) (m - pos)) (m - c)"
      "m - (pos + 1) \<le> i \<longleftrightarrow> m - pos \<le> Suc i" "i - (m - (pos + 1)) = Suc i - (m - pos)"
      unfolding k using False by (simp_all, auto simp: min_def)
    have "lz_copy d (min (Suc i) (m - pos)) h = lz_copy d (min i (m - (pos + 1))) (h @ [x])"
      unfolding k by (simp add: x_def)
    then have copied: "history_window ring m (pos + min (Suc i) (m - pos)) (min (n + min (Suc i) (m - pos)) (m - c))
        (lz_copy d (min (Suc i) (m - pos)) h)" using r(3) unfolding eq by simp
    have "wrap_copy wrap_guard (int pos) (int (Suc i)) s =
        Some (m - pos \<le> Suc i, int (pos + min (Suc i) (m - pos)), int (Suc i - (m - pos)),
          (if m - pos \<le> Suc i then s\<lparr>s_ringbuffer := ring, s_state := BROTLI_STATE_COMMAND_POST_WRITE_2\<rparr>
           else s\<lparr>s_ringbuffer := ring\<rparr>))"
    proof -
      have "wrap_copy wrap_guard (int pos) (int (Suc i)) s = wrap_copy (int (m - (pos + 1))) (int (pos + 1)) (int i) ?s"
        using step False by (simp only: if_False simp_thms)
      then show ?thesis unfolding r(1) eq by simp
    qed
    then show ?thesis using r(2) copied by auto
  qed
qed

subsection \<open>Copies in blocks\<close>

lemma memmove16_at:
  assumes "dst + 16 \<le> length ring" "src + 16 \<le> length ring" "length ring < 2 ^ 32"
  shows "\<exists>ring'. memmove16 ring (of_nat dst) (of_nat src) = Some ring' \<and> length ring' = length ring \<and>
    (\<forall>p < length ring. ring' ! p = (if dst \<le> p \<and> p < dst + 16 then ring ! (src + (p - dst)) else ring ! p))"
proof -
  have u: "unat (of_nat dst :: u32) = dst" "unat (of_nat src :: u32) = src"
    using assms by (intro unat_of_nat_u32; linarith)+
  let ?a = "take 16 (drop src ring)"
  have a: "length ?a = 16" using assms(2) by simp
  have s: "slice ring src (src + 16) = Some ?a" using assms(2) by (simp add: slice_def)
  obtain ring' where r: "overwrite ring dst ?a = Some ring'" using a assms(1) by (simp add: overwrite_def)
  have "\<forall>p < length ring. ring' ! p = (if dst \<le> p \<and> p < dst + 16 then ring ! (src + (p - dst)) else ring ! p)"
    using nth_overwrite [OF r] a assms(2) by auto
  then show ?thesis using length_overwrite [OF r] r s by (simp add: memmove16_def u)
qed

lemma memcpy_within_slice_overwrite:
  assumes "src + n \<le> dst \<and> dst + n \<le> length ring \<or> dst + n \<le> src \<and> src + n \<le> length ring" "0 < n"
  shows "memcpy_within_slice ring dst src n = overwrite ring dst (take n (drop src ring))"
proof (cases "src < dst")
  case True
  with assms have b: "src + n \<le> dst" "dst + n \<le> length ring" by auto
  then have "take n (drop src (take dst ring)) = take n (drop src ring)" by (simp add: drop_take min_def)
  then show ?thesis
    using b True by (simp add: memcpy_within_slice_def slice_def slice_from_def overwrite_def min_absorb1 add.commute)
next
  case False
  with assms have b: "dst + n \<le> src" "src + n \<le> length ring" by auto
  have "drop (dst + n) (take src ring @ drop src ring) = drop (dst + n) (take src ring) @ drop src ring"
    by (subst drop_append) (use b in simp)
  then have "drop (dst + n) (take src ring) @ drop src ring = drop (dst + n) ring" by (simp only: append_take_drop_id)
  then show ?thesis
    using b False by (simp add: memcpy_within_slice_def slice_def slice_from_def overwrite_def min_absorb1)
qed

lemma memcpy_within_slice_at:
  assumes "src + n \<le> dst \<and> dst + n \<le> length ring \<or> dst + n \<le> src \<and> src + n \<le> length ring" "0 < n"
  shows "\<exists>ring'. memcpy_within_slice ring dst src n = Some ring' \<and> length ring' = length ring \<and>
    (\<forall>p < length ring. ring' ! p = (if dst \<le> p \<and> p < dst + n then ring ! (src + (p - dst)) else ring ! p))"
proof -
  let ?a = "take n (drop src ring)"
  have a: "length ?a = n" using assms by auto
  obtain ring' where r: "overwrite ring dst ?a = Some ring'" using a assms by (auto simp: overwrite_def)
  have "\<forall>p < length ring. ring' ! p = (if dst \<le> p \<and> p < dst + n then ring ! (src + (p - dst)) else ring ! p)"
    using nth_overwrite [OF r] a assms by auto
  then show ?thesis using length_overwrite [OF r] memcpy_within_slice_overwrite [OF assms] r by simp
qed

text \<open>The fast copy, in blocks, of bytes that do not overlap their copy and do not reach the end.\<close>

lemma block_copy_at:
  assumes "length ring = m + 66" "m \<le> 1073741824" "0 < i" "pos + i < m" "src + i < m" "src + i \<le> pos \<or> pos + i \<le> src"
  shows "\<exists>ring'. do {
       ring1 \<leftarrow> memmove16 ring (of_nat pos) (of_nat src);
       (if i > 16 then
          if i > 32 then memcpy_within_slice ring1 (pos + 16) (src + 16) (i - 16)
          else memmove16 ring1 (of_nat pos + 16) (of_nat src + 16)
        else Some ring1) } = Some ring' \<and> length ring' = length ring \<and>
    (\<forall>p < length ring. ring' ! p = (if pos \<le> p \<and> p < pos + i then ring ! (src + (p - pos))
       else if pos \<le> p \<and> p < pos + i + 15 then ring' ! p else ring ! p))"
proof -
  have l: "length ring < 2 ^ 32" "pos + 16 \<le> length ring" "src + 16 \<le> length ring" using assms by simp_all
  obtain ring1 where 1: "memmove16 ring (of_nat pos) (of_nat src) = Some ring1" "length ring1 = length ring"
    "\<forall>p < length ring. ring1 ! p = (if pos \<le> p \<and> p < pos + 16 then ring ! (src + (p - pos)) else ring ! p)"
    using memmove16_at [OF l(2,3,1)] by blast
  consider "i \<le> 16" | "16 < i" "i \<le> 32" | "32 < i" by linarith
  then show ?thesis
  proof cases
    case small: 1
    have "ring1 ! p = (if pos \<le> p \<and> p < pos + i then ring ! (src + (p - pos))
       else if pos \<le> p \<and> p < pos + i + 15 then ring1 ! p else ring ! p)" if "p < length ring" for p
      using 1(3) that small assms(3) by auto
    then show ?thesis using small 1(1,2) by (intro exI [of _ ring1]) simp
  next
    case middle: 2
    have l1: "pos + 16 + 16 \<le> length ring1" "src + 16 + 16 \<le> length ring1" "length ring1 < 2 ^ 32"
      using assms l 1(2) by simp_all
    obtain ring2 where 2: "memmove16 ring1 (of_nat (pos + 16)) (of_nat (src + 16)) = Some ring2" "length ring2 = length ring1"
      "\<forall>p < length ring1. ring2 ! p = (if pos + 16 \<le> p \<and> p < pos + 16 + 16 then ring1 ! (src + 16 + (p - (pos + 16))) else ring1 ! p)"
      using memmove16_at [OF l1] by blast
    have "ring2 ! p = (if pos \<le> p \<and> p < pos + i then ring ! (src + (p - pos))
       else if pos \<le> p \<and> p < pos + i + 15 then ring2 ! p else ring ! p)" if p: "p < length ring" for p
    proof (cases "pos + 16 \<le> p \<and> p < pos + i")
      case True
      then have "ring2 ! p = ring1 ! (src + (p - pos))" using 2(3) 1(2) p middle by simp
      also have "\<dots> = ring ! (src + (p - pos))" using 1(3) assms(1,5,6) True by auto
      finally show ?thesis using True by simp
    next
      case False
      then show ?thesis using 2(3) 1(2,3) p middle by auto
    qed
    then show ?thesis using middle 1(1,2) 2(1,2) by (intro exI [of _ ring2]) simp
  next
    case large: 3
    have over: "src + 16 + (i - 16) \<le> pos + 16 \<and> pos + 16 + (i - 16) \<le> length ring1 \<or>
        pos + 16 + (i - 16) \<le> src + 16 \<and> src + 16 + (i - 16) \<le> length ring1"
      using assms large 1(2) by auto
    obtain ring2 where 2: "memcpy_within_slice ring1 (pos + 16) (src + 16) (i - 16) = Some ring2" "length ring2 = length ring1"
      "\<forall>p < length ring1. ring2 ! p = (if pos + 16 \<le> p \<and> p < pos + 16 + (i - 16) then ring1 ! (src + 16 + (p - (pos + 16))) else ring1 ! p)"
      using memcpy_within_slice_at [OF over] large by auto
    have "ring2 ! p = (if pos \<le> p \<and> p < pos + i then ring ! (src + (p - pos))
       else if pos \<le> p \<and> p < pos + i + 15 then ring2 ! p else ring ! p)" if p: "p < length ring" for p
    proof (cases "pos + 16 \<le> p \<and> p < pos + i")
      case True
      then have "ring2 ! p = ring1 ! (src + (p - pos))" using 2(3) 1(2) p large by simp
      also have "\<dots> = ring ! (src + (p - pos))" using 1(3) assms(1,5,6) True by auto
      finally show ?thesis using True by simp
    next
      case False
      then show ?thesis using 2(3) 1(2,3) p large by auto
    qed
    then show ?thesis using large 1(1,2) 2(1,2) by (intro exI [of _ ring2]) simp
  qed
qed

text \<open>What a copy in the ring buffer changes of the state besides the position.\<close>

definition copied :: "BrotliState \<Rightarrow> nat \<Rightarrow> u8 list \<Rightarrow> BrotliState" where
  "copied s i ring = s\<lparr>s_dist_rb := (s_dist_rb s)[nat (s_dist_rb_idx s AND 3) := s_distance_code s],
     s_dist_rb_idx := i32 (s_dist_rb_idx s + 1),
     s_meta_block_remaining_len := i32 (s_meta_block_remaining_len s - int i), s_ringbuffer := ring\<rparr>"

lemma block_source:
  assumes "ring_ok s m" "history_window (s_ringbuffer s) m pos n h" "1 \<le> d" "d \<le> n" "pos + i < m" "t < i"
    and "(pos + m - d) mod m + i < m" "(pos + m - d) mod m + i \<le> pos \<or> pos + i \<le> (pos + m - d) mod m"
  shows "i \<le> d" "s_ringbuffer s ! ((pos + m - d) mod m + t) = h ! (length h - d + t)"
proof -
  have n: "n \<le> m" "n \<le> length h" using assms(2) by (simp_all add: history_window_def)
  have src: "(pos + m - d) mod m = (if d \<le> pos then pos - d else pos + m - d)"
  proof (cases "d \<le> pos")
    case True
    then have "pos + m - d = (pos - d) + m" by simp
    moreover have "pos - d < m" using assms(5) by linarith
    ultimately have "(pos + m - d) mod m = pos - d" by (simp only: mod_add_self2 mod_less)
    then show ?thesis using True by simp
  next
    case False
    then show ?thesis using assms(3,4) n by simp
  qed
  show d: "i \<le> d" using assms(3,5,7,8) src assms(4) n by (auto split: if_splits)
  have "(pos + m - (d - t)) mod m = (pos + m - d) mod m + t"
  proof (cases "d \<le> pos")
    case True
    then have "pos + m - (d - t) = (pos - d + t) + m" using d assms(6) by simp
    moreover have "pos - d + t < m" using assms(5,6) True by linarith
    ultimately show ?thesis using src True by (simp only: mod_add_self2 mod_less if_True)
  next
    case False
    then have "pos + m - (d - t) = pos + m - d + t" using d assms(4,6) n by linarith
    moreover have "(pos + m - d) mod m = pos + m - d" using src False by (simp only: if_False)
    then have "pos + m - d + t < m" using assms(6,7) by linarith
    ultimately show ?thesis using src False by (simp only: mod_less if_False)
  qed
  moreover have "s_ringbuffer s ! ((pos + m - (d - t)) mod m) = h ! (length h - (d - t))"
  proof -
    have "1 \<le> d - t" "d - t \<le> n" using d assms(4,6) by linarith+
    then show ?thesis using assms(2) unfolding history_window_def by blast
  qed
  moreover have "length h - (d - t) = length h - d + t" using d assms(4,6) n by linarith
  ultimately show "s_ringbuffer s ! ((pos + m - d) mod m + t) = h ! (length h - d + t)" by simp
qed

lemma copy_from_ring_buffer_at:
  assumes ok: "ring_ok s m" and w: "history_window (s_ringbuffer s) m pos n h"
    and d: "s_distance_code s = int d" "1 \<le> d" "d \<le> n" "n \<le> m - 16"
    and pos: "pos < m" and i: "1 \<le> i" "i < 2 ^ 30" and rb: "length (s_dist_rb s) = 4"
  shows "\<exists>ring. length ring = length (s_ringbuffer s) \<and>
    (copy_from_ring_buffer (int pos) (int i) s =
       Some (Continue (int pos) (int i) ((copied s i ring)\<lparr>s_state := BROTLI_STATE_COMMAND_POST_WRAP_COPY\<rparr>)) \<and>
     history_window ring m pos n h
   \<or> copy_from_ring_buffer (int pos) (int i) s = Some (after_copy (int (pos + i)) (int i) (copied s i ring)) \<and>
     pos + i < m \<and> history_window ring m (pos + i) (min (n + i) (m - 16)) (lz_copy d i h))"
proof -
  define src where "src = (pos + m - d) mod m"
  let ?ring = "s_ringbuffer s"
  have n: "n \<le> m" "n \<le> length h" using w by (simp_all add: history_window_def)
  have b: "32 \<le> m" "m \<le> 1073741824" using ring_ok_bounds [OF ok] by simp_all
  have len: "length ?ring = m + 66" using ok by (simp add: ring_ok_def)
  have src: "src < m" using b by (simp add: src_def)
  have "0 \<le> s_dist_rb_idx s AND 3" by simp
  moreover have "s_dist_rb_idx s AND 3 = s_dist_rb_idx s mod 4"
    using take_bit_eq_mask [of 2 "s_dist_rb_idx s"] by (simp add: mask_eq_exp_minus_1 take_bit_eq_mod)
  then have "nat (s_dist_rb_idx s AND 3) < 4" by simp
  ultimately have rbs: "put_at (s_dist_rb s) (s_dist_rb_idx s AND 3) (s_distance_code s) =
      Some ((s_dist_rb s)[nat (s_dist_rb_idx s AND 3) := s_distance_code s])"
    using rb by (intro put_at_Some) simp_all
  have "int d = s_distance_code s" using d(1) by simp
  then have srcw: "u32_of_i32 (i32 (int pos - s_distance_code s) AND s_ringbuffer_mask s) = of_nat src"
    using ring_index [OF ok, of pos d] pos d(3) n unfolding src_def by simp
  have u: "unat (of_nat pos :: u32) = pos" "unat (of_nat src :: u32) = src" "unat (of_nat i :: u32) = i"
    "unat (of_nat pos + of_nat i :: u32) = pos + i" "unat (of_nat src + of_nat i :: u32) = src + i"
    "unat (word_of_int (int m) :: u32) = m"
    using unat_of_nat_u32 [of pos] unat_of_nat_u32 [of src] unat_of_nat_u32 [of i] unat_of_nat_u32 [of "pos + i"]
      unat_of_nat_u32 [of "src + i"] unat_of_nat_u32 [of m] pos src i b by simp_all
  obtain ring1 where 1: "memmove16 ?ring (of_nat pos) (of_nat src) = Some ring1" "length ring1 = length ?ring"
    "\<forall>p < length ?ring. ring1 ! p = (if pos \<le> p \<and> p < pos + 16 then ?ring ! (src + (p - pos)) else ?ring ! p)"
    using memmove16_at [of pos ?ring src] len pos src b by auto
  have w1: "history_window ring1 m pos n h"
  proof -
    have "history_window ring1 m (pos + 0) (min (n + 0) (m - 16)) (h @ [])"
      by (rule history_window_step [OF w]) (use pos b 1 len in auto)
    then show ?thesis using d(4) by (auto elim: history_window_less)
  qed
  show ?thesis
  proof (cases "src + i > pos \<and> pos + i > src \<or> pos + i \<ge> m \<or> src + i \<ge> m")
    case True
    then have "copy_from_ring_buffer (int pos) (int i) s =
        Some (Continue (int pos) (int i) ((copied s i ring1)\<lparr>s_state := BROTLI_STATE_COMMAND_POST_WRAP_COPY\<rparr>))"
      using ok rbs srcw 1(1) u
      by (auto simp: copy_from_ring_buffer_def copied_def Let_def word_less_nat_alt word_le_nat_alt ring_ok_def)
    then show ?thesis using 1(2) w1 by blast
  next
    case False
    then have fits: "pos + i < m" "src + i < m" and apart: "src + i \<le> pos \<or> pos + i \<le> src" by auto
    have "0 < i" using i(1) by simp
    from block_copy_at [OF len b(2) this fits apart] obtain ring' where
      c: "do { ring1 \<leftarrow> memmove16 ?ring (of_nat pos) (of_nat src);
         (if i > 16 then
            if i > 32 then memcpy_within_slice ring1 (pos + 16) (src + 16) (i - 16)
            else memmove16 ring1 (of_nat pos + 16) (of_nat src + 16)
          else Some ring1) } = Some ring'" "length ring' = length ?ring"
      "\<forall>p < length ?ring. ring' ! p = (if pos \<le> p \<and> p < pos + i then ?ring ! (src + (p - pos))
         else if pos \<le> p \<and> p < pos + i + 15 then ring' ! p else ?ring ! p)" by blast
    have "copy_from_ring_buffer (int pos) (int i) s = Some (after_copy (int (pos + i)) (int i) (copied s i ring'))"
    proof -
      have "i32 (int pos + int i) = int (pos + i)" using pos i b by (subst i32_id) auto
      moreover have "16 < i \<Longrightarrow> usize_of_i32 (int i - 16) = i - 16" using i by simp
      moreover have "s_ringbuffer_size s = int m" using ok by (simp add: ring_ok_def)
      moreover have "\<not> (pos < src + i \<and> src < pos + i)" "\<not> m \<le> pos + i" "\<not> m \<le> src + i"
        using False by auto
      ultimately show ?thesis
        using rbs srcw c(1) 1(1) u
        by (simp add: copy_from_ring_buffer_def copied_def Let_def word_less_nat_alt word_le_nat_alt split: if_splits) blast+
    qed
    moreover have "history_window ring' m (pos + i) (min (n + i) (m - 16)) (lz_copy d i h)"
    proof -
      have bytes: "?ring ! (src + t) = h ! (length h - d + t)" "i \<le> d" if "t < i" for t
        using block_source [OF ok w d(2,3) fits(1) that] fits(2) apart unfolding src_def by auto
      have id: "i \<le> d" by (rule bytes(2) [OF \<open>0 < i\<close>])
      have "history_window ring' m (pos + i) (min (n + i) (m - 15)) (h @ take i (drop (length h - d) h))"
      proof (rule history_window_step [OF w _ _ c(2)])
        show "pos + i \<le> m" "15 + i \<le> m" using fits id d b by linarith+
        show "length (take i (drop (length h - d) h)) = i" using id d n by simp
        show "ring' ! p = ?ring ! p" if "p < m" "p < pos \<or> pos + i + 15 \<le> p" for p
          using c(3) [THEN spec, of p] that len by (auto split: if_splits)
        show "ring' ! (pos + t) = take i (drop (length h - d) h) ! t" if "t < i" for t
          using c(3) [THEN spec, of "pos + t"] bytes(1) [OF that] that len fits id d n by simp
      qed
      then show ?thesis using lz_copy_disjoint [OF id, of h] d n by (auto elim: history_window_less)
    qed
    ultimately show ?thesis using c(2) fits(1) by blast
  qed
qed

subsection \<open>Writing the output\<close>














lemma post_wrap_copy_at:
  assumes ok: "ring_ok s m" and w: "history_window (s_ringbuffer s) m pos n h"
    and d: "s_distance_code s = int d" "1 \<le> d" "d \<le> n" "n \<le> m - 16" and pos: "pos < m"
  shows "\<exists>ring. command_post_wrap_copy (int pos) (int i) s = Some (if m - pos \<le> i
      then Break BROTLI_DECODER_SUCCESS (int m) (int (i - (m - pos)))
        (s\<lparr>s_ringbuffer := ring, s_state := BROTLI_STATE_COMMAND_POST_WRITE_2\<rparr>)
      else after_copy (int (pos + i)) (- 1) (s\<lparr>s_ringbuffer := ring\<rparr>)) \<and>
    length ring = length (s_ringbuffer s) \<and>
    history_window ring m (pos + min i (m - pos)) (min (n + min i (m - pos)) (m - 16)) (lz_copy d (min i (m - pos)) h)"
proof -
  note b = ring_ok_bounds [OF ok]
  have guard: "i32 (s_ringbuffer_size s - int pos) = int (m - pos)"
    using ok pos b by (subst i32_id) (auto simp: ring_ok_def)
  have dc: "d \<le> m - 16" using d by simp
  from wrap_copy_at [OF ok w d(1,2,3) pos refl dc, of i] obtain ring where r:
    "wrap_copy (int (m - pos)) (int pos) (int i) s =
      Some (m - pos \<le> i, int (pos + min i (m - pos)), int (i - (m - pos)),
        (if m - pos \<le> i then s\<lparr>s_ringbuffer := ring, s_state := BROTLI_STATE_COMMAND_POST_WRITE_2\<rparr>
         else s\<lparr>s_ringbuffer := ring\<rparr>))"
    "length ring = length (s_ringbuffer s)"
    "history_window ring m (pos + min i (m - pos)) (min (n + min i (m - pos)) (m - 16)) (lz_copy d (min i (m - pos)) h)"
    by blast
  have "command_post_wrap_copy (int pos) (int i) s = Some (if m - pos \<le> i
      then Break BROTLI_DECODER_SUCCESS (int m) (int (i - (m - pos)))
        (s\<lparr>s_ringbuffer := ring, s_state := BROTLI_STATE_COMMAND_POST_WRITE_2\<rparr>)
      else after_copy (int (pos + i)) (- 1) (s\<lparr>s_ringbuffer := ring\<rparr>))"
  proof (cases "m - pos \<le> i")
    case True
    then have "pos + min i (m - pos) = m" using pos by simp
    then show ?thesis using r(1) True unfolding command_post_wrap_copy_def guard by simp
  next
    case False
    then have "min i (m - pos) = i" "i - (m - pos) = 0" by simp_all
    then show ?thesis using r(1) False unfolding command_post_wrap_copy_def guard by simp
  qed
  with r(2,3) show ?thesis by blast
qed

lemma copy_at:
  assumes ok: "ring_ok s m" and w: "history_window (s_ringbuffer s) m pos n h"
    and d: "s_distance_code s = int d" "1 \<le> d" "d \<le> n" "n \<le> m - 16"
    and pos: "pos < m" and i: "1 \<le> i" "i < 2 ^ 30" and rb: "length (s_dist_rb s) = 4"
  shows "\<exists>ring ring1. length ring = length (s_ringbuffer s) \<and>
    history_window ring m (pos + min i (m - pos)) (min (n + min i (m - pos)) (m - 16)) (lz_copy d (min i (m - pos)) h) \<and>
    (copy_from_ring_buffer (int pos) (int i) s = Some (after_copy (int (pos + i)) (int i) (copied s i ring)) \<and> pos + i < m \<or>
     copy_from_ring_buffer (int pos) (int i) s =
       Some (Continue (int pos) (int i) ((copied s i ring1)\<lparr>s_state := BROTLI_STATE_COMMAND_POST_WRAP_COPY\<rparr>)) \<and>
     command_post_wrap_copy (int pos) (int i) ((copied s i ring1)\<lparr>s_state := BROTLI_STATE_COMMAND_POST_WRAP_COPY\<rparr>) =
       Some (if m - pos \<le> i
         then Break BROTLI_DECODER_SUCCESS (int m) (int (i - (m - pos)))
           ((copied s i ring)\<lparr>s_state := BROTLI_STATE_COMMAND_POST_WRITE_2\<rparr>)
         else after_copy (int (pos + i)) (- 1) ((copied s i ring)\<lparr>s_state := BROTLI_STATE_COMMAND_POST_WRAP_COPY\<rparr>)))"
proof -
  from copy_from_ring_buffer_at [OF assms] obtain ring1 where len: "length ring1 = length (s_ringbuffer s)"
    and c: "copy_from_ring_buffer (int pos) (int i) s =
       Some (Continue (int pos) (int i) ((copied s i ring1)\<lparr>s_state := BROTLI_STATE_COMMAND_POST_WRAP_COPY\<rparr>)) \<and>
     history_window ring1 m pos n h
   \<or> copy_from_ring_buffer (int pos) (int i) s = Some (after_copy (int (pos + i)) (int i) (copied s i ring1)) \<and>
     pos + i < m \<and> history_window ring1 m (pos + i) (min (n + i) (m - 16)) (lz_copy d i h)" by blast
  from c show ?thesis
  proof (elim disjE conjE)
    assume direct: "copy_from_ring_buffer (int pos) (int i) s = Some (after_copy (int (pos + i)) (int i) (copied s i ring1))"
      "pos + i < m" "history_window ring1 m (pos + i) (min (n + i) (m - 16)) (lz_copy d i h)"
    then have j: "min i (m - pos) = i" by simp
    show ?thesis unfolding j
      by (rule exI [of _ ring1], rule exI [of _ ring1], intro conjI disjI1 len direct)
  next
    let ?s = "(copied s i ring1)\<lparr>s_state := BROTLI_STATE_COMMAND_POST_WRAP_COPY\<rparr>"
    assume slow: "copy_from_ring_buffer (int pos) (int i) s = Some (Continue (int pos) (int i) ?s)"
      "history_window ring1 m pos n h"
    have ok': "ring_ok ?s m" using ok len by (simp add: ring_ok_def copied_def)
    have w': "history_window (s_ringbuffer ?s) m pos n h" using slow(2) by (simp add: copied_def)
    have d': "s_distance_code ?s = int d" using d(1) by (simp add: copied_def)
    from post_wrap_copy_at [OF ok' w' d' d(2-4) pos, of i] obtain ring where r:
      "command_post_wrap_copy (int pos) (int i) ?s = Some (if m - pos \<le> i
        then Break BROTLI_DECODER_SUCCESS (int m) (int (i - (m - pos)))
          (?s\<lparr>s_ringbuffer := ring, s_state := BROTLI_STATE_COMMAND_POST_WRITE_2\<rparr>)
        else after_copy (int (pos + i)) (- 1) (?s\<lparr>s_ringbuffer := ring\<rparr>))"
      "length ring = length (s_ringbuffer ?s)"
      "history_window ring m (pos + min i (m - pos)) (min (n + min i (m - pos)) (m - 16)) (lz_copy d (min i (m - pos)) h)"
      by blast
    have "?s\<lparr>s_ringbuffer := ring\<rparr> = (copied s i ring)\<lparr>s_state := BROTLI_STATE_COMMAND_POST_WRAP_COPY\<rparr>"
      "(copied s i ring)\<lparr>s_state := BROTLI_STATE_COMMAND_POST_WRAP_COPY, s_state := BROTLI_STATE_COMMAND_POST_WRITE_2\<rparr> =
        (copied s i ring)\<lparr>s_state := BROTLI_STATE_COMMAND_POST_WRITE_2\<rparr>"
      by (simp_all add: copied_def)
    note run = r(1) [unfolded this]
    have len': "length ring = length (s_ringbuffer s)" using r(2) len by (simp add: copied_def)
    show ?thesis
      by (rule exI [of _ ring], rule exI [of _ ring1], intro conjI len' r(3), rule disjI2, intro conjI slow(1) run)
  qed
qed






subsection \<open>Properties of the ring buffer\<close>

text \<open>C32: A copy at a distance inside the ring buffer appends to the history of output bytes the bytes that the
  copy means, one by one from that distance back, also when it runs into the bytes it has just made. This
  holds for the fast way of \<open>copy_from_ring_buffer\<close> (a guess of 16 bytes, then one more or a block)
  and for the byte by byte copy of \<open>command_post_wrap_copy\<close> that it falls back to; a copy that reaches
  the end of the ring stops there, with the position, the number of bytes left and the state in which the
  ring is written out. The distance enters the ring of last distances and the length is counted
  off the metablock. The bytes that the guess writes beyond the copy only destroy the oldest 16
  bytes of the ring, which no distance reaches.\<close>

theorem ring_copy_correct:
  assumes "ring_ok s m" "history_window (s_ringbuffer s) m pos n h"
    and "s_distance_code s = int d" "1 \<le> d" "d \<le> n" "n \<le> m - 16"
    and "pos < m" "1 \<le> i" "i < 2 ^ 30" "length (s_dist_rb s) = 4"
  shows "\<exists>ring ring1. length ring = length (s_ringbuffer s) \<and>
    history_window ring m (pos + min i (m - pos)) (min (n + min i (m - pos)) (m - 16)) (lz_copy d (min i (m - pos)) h) \<and>
    (copy_from_ring_buffer (int pos) (int i) s = Some (after_copy (int (pos + i)) (int i) (copied s i ring)) \<and> pos + i < m \<or>
     copy_from_ring_buffer (int pos) (int i) s =
       Some (Continue (int pos) (int i) ((copied s i ring1)\<lparr>s_state := BROTLI_STATE_COMMAND_POST_WRAP_COPY\<rparr>)) \<and>
     command_post_wrap_copy (int pos) (int i) ((copied s i ring1)\<lparr>s_state := BROTLI_STATE_COMMAND_POST_WRAP_COPY\<rparr>) =
       Some (if m - pos \<le> i
         then Break BROTLI_DECODER_SUCCESS (int m) (int (i - (m - pos)))
           ((copied s i ring)\<lparr>s_state := BROTLI_STATE_COMMAND_POST_WRITE_2\<rparr>)
         else after_copy (int (pos + i)) (- 1) ((copied s i ring)\<lparr>s_state := BROTLI_STATE_COMMAND_POST_WRAP_COPY\<rparr>)))"
  by (rule copy_at [OF assms])

text \<open>A ring of 32 bytes with four bytes of history, the last three of them not written yet.\<close>

definition ring_sample :: BrotliState where
  "ring_sample =
     (BrotliState_new (\<lambda>n. replicate n 0) (\<lambda>n. replicate n 0) (\<lambda>n. replicate n HuffmanCode_default))
       \<lparr>s_ringbuffer := [1, 2, 3, 4] @ replicate 94 0, s_ringbuffer_size := 32, s_ringbuffer_mask := 31,
        s_distance_code := 2, s_pos := 4, s_partial_pos_out := 1, s_window_bits := 10\<rparr>"

lemma ring_sample_fields:
  "s_ringbuffer ring_sample = [1, 2, 3, 4] @ replicate 94 0" "s_ringbuffer_size ring_sample = 32"
  "s_ringbuffer_mask ring_sample = 31" "s_distance_code ring_sample = 2" "s_pos ring_sample = 4"
  "s_partial_pos_out ring_sample = 1" "s_window_bits ring_sample = 10" "s_rb_roundtrips ring_sample = 0"
  "s_dist_rb ring_sample = [16, 15, 11, 4]" "s_meta_block_remaining_len ring_sample = 0"
  "\<not> s_should_wrap_ringbuffer ring_sample"
  by (simp_all add: ring_sample_def BrotliState_new_def make_brotli_state_def Let_def)

lemma ring_sample_ok: "ring_ok ring_sample 32"
  by (auto simp: ring_ok_def ring_sample_fields intro: exI [of _ "5 :: nat"])

theorem ring_copy_correct_witness:
  "\<exists>ring ring1. history_window ring 32 9 9 [1, 2, 3, 4, 3, 4, 3, 4, 3] \<and>
    (copy_from_ring_buffer 4 5 ring_sample = Some (after_copy 9 5 (copied ring_sample 5 ring)) \<or>
     command_post_wrap_copy 4 5 ((copied ring_sample 5 ring1)\<lparr>s_state := BROTLI_STATE_COMMAND_POST_WRAP_COPY\<rparr>) =
       Some (after_copy 9 (- 1) ((copied ring_sample 5 ring)\<lparr>s_state := BROTLI_STATE_COMMAND_POST_WRAP_COPY\<rparr>)))"
proof -
  have "history_window (s_ringbuffer ring_sample) 32 4 4 [1, 2, 3, 4]"
  proof -
    have "\<forall>j \<in> set [1..<5]. (([1, 2, 3, 4] @ replicate 94 0) :: u8 list) ! ((4 + 32 - j) mod 32) =
        [1, 2, 3, 4] ! (length [1, 2, 3, 4 :: u8] - j)"
      by (simp add: upt_rec nth_append)
    then have "1 \<le> j \<Longrightarrow> j \<le> 4 \<Longrightarrow> (([1, 2, 3, 4] @ replicate 94 0) :: u8 list) ! ((4 + 32 - j) mod 32) =
        [1, 2, 3, 4] ! (length [1, 2, 3, 4 :: u8] - j)" for j by simp
    then show ?thesis unfolding history_window_def ring_sample_fields by simp
  qed
  moreover have "s_distance_code ring_sample = int 2" by (simp add: ring_sample_fields)
  moreover have "lz_copy 2 5 [1, 2, 3, 4] = [1, 2, 3, 4, 3, 4, 3, 4, (3 :: u8)]"
    by (simp add: numeral_eq_Suc)
  ultimately show ?thesis
    using ring_copy_correct [OF ring_sample_ok, of 4 4 "[1, 2, 3, 4]" 2 5]
    by (auto simp: ring_sample_fields)
qed



end
