(* ===== verification/Stream.thy ===== *)
theory Stream
  imports Commands
begin

text \<open>
  The top of the decoder, \<open>BrotliDecompressStream\<close> of \<open>src/decode.rs\<close>: the state machine that runs
  the handlers of the other theories, one definition per arm of its \<open>match\<close> on the state. An arm
  ends in one of three ways: it falls through to the arm of the new state, it leaves the inner
  loop with a result, or it returns from the function. The outer loop turns a shortage of input
  into a change of the input buffer or into the end of the call.
\<close>

subsection \<open>Constants\<close>

definition kNumLiteralCodes :: u16 where
  [simp]: "kNumLiteralCodes = 256"

definition kNumInsertAndCopyCodes :: u16 where
  [simp]: "kNumInsertAndCopyCodes = 704"

definition kNumBlockLengthCodes :: u32 where
  [simp]: "kNumBlockLengthCodes = 26"

definition BrotliMaxDistanceSymbol :: "u32 \<Rightarrow> u32 \<Rightarrow> u32 option" where
  "BrotliMaxDistanceSymbol ndirect npostfix = do {
     let postfix = shl32 1 npostfix;
     bound \<leftarrow> get [0, 4, 12, 28] (unat npostfix);
     diff \<leftarrow> get [73, 126, 228, 424] (unat npostfix);
     if ndirect < bound then Some (ndirect + diff + postfix)
     else if ndirect > bound + postfix then Some (ndirect + diff)
     else Some (bound + diff + postfix)
   }"

subsection \<open>The variables of one call\<close>

text \<open>
  The in-out arguments, the locals \<open>result\<close>, \<open>saved_buffer\<close> and \<open>local_input\<close>, and the decoder
  state.
\<close>

record StreamCall =
  c_available_in :: nat
  c_input_offset :: nat
  c_out :: Output
  c_result :: BrotliDecoderErrorCode
  c_saved_buffer :: "u8 list"
  c_local_input :: "u8 list"
  c_s :: BrotliState

text \<open>How an arm of the \<open>match\<close> ends.\<close>

datatype stream_flow =
    Fall StreamCall
  | Leave StreamCall
  | ReturnCode BrotliDecoderErrorCode StreamCall

definition leave_with :: "StreamCall \<Rightarrow> BrotliDecoderErrorCode \<Rightarrow> BrotliState \<Rightarrow> stream_flow" where
  "leave_with c e s = Leave (c\<lparr>c_result := e, c_s := s\<rparr>)"

definition leave_in :: "StreamCall \<Rightarrow> BrotliRunningState \<Rightarrow> BrotliState \<Rightarrow> stream_flow" where
  "leave_in c st s = Leave (c\<lparr>c_s := s\<lparr>s_state := st\<rparr>\<rparr>)"

definition fall_to :: "StreamCall \<Rightarrow> BrotliRunningState \<Rightarrow> BrotliState \<Rightarrow> stream_flow" where
  "fall_to c st s = Fall (c\<lparr>c_s := s\<lparr>s_state := st\<rparr>\<rparr>)"

text \<open>
  The pattern \<open>result = ...; match result { SUCCESS => {}, _ => break }\<close> followed by the rest of
  the arm.
\<close>

definition on_success ::
  "StreamCall \<Rightarrow> BrotliDecoderErrorCode \<times> BrotliState \<Rightarrow>
     (StreamCall \<Rightarrow> BrotliState \<Rightarrow> stream_flow option) \<Rightarrow> stream_flow option" where
  "on_success c r rest =
    (let c = c\<lparr>c_result := fst r, c_s := snd r\<rparr>
     in if fst r = BROTLI_DECODER_SUCCESS then rest c (snd r) else Some (Leave c))"

subsection \<open>The header of the stream\<close>

definition do_uninited :: "StreamCall \<Rightarrow> stream_flow option" where
  "do_uninited c = (let s = c_s c in do {
     (ok, br) \<leftarrow> BrotliWarmupBitReader (s_br s) (c_local_input c);
     let s = s\<lparr>s_br := br\<rparr>;
     if \<not> ok then Some (leave_with c BROTLI_DECODER_NEEDS_MORE_INPUT s)
     else do {
       (result, large_window, window_bits, br) \<leftarrow>
         DecodeWindowBits (s_large_window s) (s_window_bits s) (s_br s);
       on_success c (result, s\<lparr>s_large_window := large_window, s_window_bits := window_bits, s_br := br\<rparr>)
         (\<lambda>c s. Some (fall_to c (if s_large_window s then BROTLI_STATE_LARGE_WINDOW_BITS
                                 else BROTLI_STATE_INITIALIZE) s))
     }
   })"

definition do_large_window_bits :: "StreamCall \<Rightarrow> stream_flow option" where
  "do_large_window_bits c = (let s = c_s c in do {
     (ok, window_bits, br) \<leftarrow> BrotliSafeReadBits (s_br s) 6 (s_window_bits s) (c_local_input c);
     let s = s\<lparr>s_window_bits := window_bits, s_br := br\<rparr>;
     if \<not> ok then Some (leave_with c BROTLI_DECODER_NEEDS_MORE_INPUT s)
     else if s_window_bits s < kBrotliLargeMinWbits \<or> s_window_bits s > kBrotliLargeMaxWbits
     then Some (leave_with c BROTLI_DECODER_ERROR_FORMAT_WINDOW_BITS s)
     else Some (fall_to c BROTLI_STATE_INITIALIZE s)
   })"

definition do_initialize :: "StreamCall \<Rightarrow> stream_flow" where
  "do_initialize c =
    (let s = c_s c;
         s = s\<lparr>s_max_backward_distance := i32 (window_size s - sint kBrotliWindowGap)\<rparr>;
         s = s\<lparr>s_max_backward_distance_minus_custom_dict_size :=
                 i32 (s_max_backward_distance s - s_custom_dict_size s)\<rparr>;
         s = s\<lparr>s_block_type_length_state := (s_block_type_length_state s)\<lparr>
                 bt_block_type_trees := s_alloc_hc s (3 * BROTLI_HUFFMAN_MAX_TABLE_SIZE)\<rparr>\<rparr>
     in if length (bt_block_type_trees (s_block_type_length_state s)) = 0
        then leave_with c BROTLI_DECODER_ERROR_ALLOC_BLOCK_TYPE_TREES s
        else
          (let s = s\<lparr>s_block_type_length_state := (s_block_type_length_state s)\<lparr>
                 bt_block_len_trees := s_alloc_hc s (3 * BROTLI_HUFFMAN_MAX_TABLE_SIZE)\<rparr>\<rparr>
           in if length (bt_block_len_trees (s_block_type_length_state s)) = 0
              then leave_with c BROTLI_DECODER_ERROR_ALLOC_BLOCK_TYPE_TREES s
              else fall_to c BROTLI_STATE_METABLOCK_BEGIN s))"

subsection \<open>The header of a metablock\<close>

definition do_metablock_begin :: "StreamCall \<Rightarrow> stream_flow" where
  "do_metablock_begin c =
     fall_to c BROTLI_STATE_METABLOCK_HEADER (BrotliStateMetablockBegin (c_s c))"

definition after_metablock_header :: "StreamCall \<Rightarrow> BrotliState \<Rightarrow> stream_flow option" where
  "after_metablock_header c s = do {
     (ok, s) \<leftarrow>
       (if s_is_metadata s \<noteq> 0 \<or> s_is_uncompressed s \<noteq> 0 then do {
          (ok, br) \<leftarrow> BrotliJumpToByteBoundary (s_br s);
          Some (ok, s\<lparr>s_br := br\<rparr>)
        } else Some (True, s));
     if \<not> ok then Some (leave_with c BROTLI_DECODER_ERROR_FORMAT_PADDING_2 s)
     else if s_is_metadata s \<noteq> 0 then Some (leave_in c BROTLI_STATE_METADATA s)
     else if s_meta_block_remaining_len s = 0 then Some (leave_in c BROTLI_STATE_METABLOCK_DONE s)
     else do {
       (ok, s) \<leftarrow>
         (if length (s_ringbuffer s) = 0 then BrotliAllocateRingBuffer s (c_local_input c)
          else Some (True, s));
       if \<not> ok then Some (leave_with c BROTLI_DECODER_ERROR_ALLOC_RING_BUFFER_2 s)
       else if s_is_uncompressed s \<noteq> 0 then Some (leave_in c BROTLI_STATE_UNCOMPRESSED s)
       else Some (leave_in c BROTLI_STATE_HUFFMAN_CODE_0 (s\<lparr>s_loop_counter := 0\<rparr>))
     }
   }"

definition do_metablock_header :: "StreamCall \<Rightarrow> stream_flow option" where
  "do_metablock_header c = do {
     r \<leftarrow> DecodeMetaBlockLength (c_s c) (c_local_input c);
     on_success c r after_metablock_header
   }"

definition do_uncompressed :: "StreamCall \<Rightarrow> stream_flow option" where
  "do_uncompressed c = do {
     (result, out, s) \<leftarrow> CopyUncompressedBlockToOutput (c_out c) (c_s c) (c_local_input c);
     on_success (c\<lparr>c_out := out\<rparr>) (result, s)
       (\<lambda>c s. Some (leave_in c BROTLI_STATE_METABLOCK_DONE s))
   }"

text \<open>The loop that skips metadata, \<open>n\<close> bytes of it.\<close>

fun skip_metadata :: "nat \<Rightarrow> BrotliState \<Rightarrow> u8 list \<Rightarrow> (BrotliDecoderErrorCode \<times> BrotliState) option" where
  "skip_metadata 0 s input = Some (BROTLI_DECODER_SUCCESS, s)"
| "skip_metadata (Suc n) s input = do {
     (ok, bits, s) \<leftarrow> read_bits s 8 input;
     if \<not> ok then Some (BROTLI_DECODER_NEEDS_MORE_INPUT, s)
     else skip_metadata n (s\<lparr>s_meta_block_remaining_len := s_meta_block_remaining_len s - 1\<rparr>) input
   }"

definition do_metadata :: "StreamCall \<Rightarrow> stream_flow option" where
  "do_metadata c = do {
     r \<leftarrow> skip_metadata (nat (s_meta_block_remaining_len (c_s c))) (c_s c) (c_local_input c);
     on_success c r (\<lambda>c s. Some (leave_in c BROTLI_STATE_METABLOCK_DONE s))
   }"

subsection \<open>The prefix codes of the block types and lengths\<close>

definition do_huffman_code_0 :: "StreamCall \<Rightarrow> stream_flow option" where
  "do_huffman_code_0 c = (let s = c_s c in
     if s_loop_counter s \<ge> 3 then Some (leave_in c BROTLI_STATE_METABLOCK_HEADER_2 s)
     else do {
       let index = usize_of_i32 (s_loop_counter s);
       value \<leftarrow> get (bt_num_block_types (s_block_type_length_state s)) index;
       (result, substate, br, value) \<leftarrow>
         DecodeVarLenUint8 (s_substate_decode_uint8 s) (s_br s) value (c_local_input c);
       num \<leftarrow> put (bt_num_block_types (s_block_type_length_state s)) index value;
       on_success c (result, s\<lparr>s_substate_decode_uint8 := substate, s_br := br,
             s_block_type_length_state := (s_block_type_length_state s)\<lparr>bt_num_block_types := num\<rparr>\<rparr>)
         (\<lambda>c s. do {
            num \<leftarrow> put (bt_num_block_types (s_block_type_length_state s)) index (value + 1);
            let s = s\<lparr>s_block_type_length_state :=
                        (s_block_type_length_state s)\<lparr>bt_num_block_types := num\<rparr>\<rparr>;
            if value + 1 < 2 then Some (Leave (c\<lparr>c_s := s\<lparr>s_loop_counter := i32 (s_loop_counter s + 1)\<rparr>\<rparr>))
            else Some (fall_to c BROTLI_STATE_HUFFMAN_CODE_1 s)
          })
     })"

text \<open>The trees are moved out of the state while they are filled.\<close>

definition do_huffman_code_1 :: "StreamCall \<Rightarrow> stream_flow option" where
  "do_huffman_code_1 c = (let s = c_s c; bt = s_block_type_length_state s in do {
     let tree_offset = unat (u32_of_i32 (s_loop_counter s) * of_nat BROTLI_HUFFMAN_MAX_TABLE_SIZE);
     num \<leftarrow> get (bt_num_block_types bt) (usize_of_i32 (s_loop_counter s));
     let alphabet_size = num + 2;
     (result, table, table_size, s) \<leftarrow>
       ReadHuffmanCode alphabet_size alphabet_size (bt_block_type_trees bt) tree_offset
         (s\<lparr>s_block_type_length_state := bt\<lparr>bt_block_type_trees := []\<rparr>\<rparr>) (c_local_input c);
     on_success c (result, s\<lparr>s_block_type_length_state :=
           (s_block_type_length_state s)\<lparr>bt_block_type_trees := table\<rparr>\<rparr>)
       (\<lambda>c s. Some (fall_to c BROTLI_STATE_HUFFMAN_CODE_2 s))
   })"

definition do_huffman_code_2 :: "StreamCall \<Rightarrow> stream_flow option" where
  "do_huffman_code_2 c = (let s = c_s c; bt = s_block_type_length_state s in do {
     let tree_offset = i32 (s_loop_counter s * int BROTLI_HUFFMAN_MAX_TABLE_SIZE);
     (result, table, table_size, s) \<leftarrow>
       ReadHuffmanCode kNumBlockLengthCodes kNumBlockLengthCodes (bt_block_len_trees bt)
         (usize_of_i32 tree_offset)
         (s\<lparr>s_block_type_length_state := bt\<lparr>bt_block_len_trees := []\<rparr>\<rparr>) (c_local_input c);
     on_success c (result, s\<lparr>s_block_type_length_state :=
           (s_block_type_length_state s)\<lparr>bt_block_len_trees := table\<rparr>\<rparr>)
       (\<lambda>c s. Some (fall_to c BROTLI_STATE_HUFFMAN_CODE_3 s))
   })"

definition do_huffman_code_3 :: "StreamCall \<Rightarrow> stream_flow option" where
  "do_huffman_code_3 c = (let s = c_s c; bt = s_block_type_length_state s in do {
     let tree_offset = i32 (s_loop_counter s * int BROTLI_HUFFMAN_MAX_TABLE_SIZE);
     tree \<leftarrow> slice_from (bt_block_len_trees bt) (usize_of_i32 tree_offset);
     (ind_ret, br) \<leftarrow> SafeReadBlockLengthIndex (bt_substate_read_block_length bt)
       (bt_block_length_index bt) tree (s_br s) (c_local_input c);
     (ok, bt, br, block_length_out) \<leftarrow> SafeReadBlockLengthFromIndex bt br 0 ind_ret (c_local_input c);
     let s = s\<lparr>s_block_type_length_state := bt, s_br := br\<rparr>;
     if \<not> ok then Some (leave_with c BROTLI_DECODER_NEEDS_MORE_INPUT s)
     else do {
       lengths \<leftarrow> put (bt_block_length bt) (usize_of_i32 (s_loop_counter s)) block_length_out;
       Some (leave_in c BROTLI_STATE_HUFFMAN_CODE_0
         (s\<lparr>s_block_type_length_state := bt\<lparr>bt_block_length := lengths\<rparr>,
            s_loop_counter := i32 (s_loop_counter s + 1)\<rparr>))
     }
   })"

subsection \<open>Distance parameters, contexts and tree groups\<close>

definition do_metablock_header_2 :: "StreamCall \<Rightarrow> stream_flow option" where
  "do_metablock_header_2 c = do {
     (ok, bits, s) \<leftarrow> read_bits (c_s c) 6 (c_local_input c);
     if \<not> ok then Some (leave_with c BROTLI_DECODER_NEEDS_MORE_INPUT s)
     else do {
       mask2 \<leftarrow> BitMask 2;
       let s = s\<lparr>s_distance_postfix_bits := bits AND mask2\<rparr>;
       let bits = drop_bit 2 bits;
       let s = s\<lparr>s_num_direct_distance_codes :=
                   NUM_DISTANCE_SHORT_CODES + shl32 bits (s_distance_postfix_bits s)\<rparr>;
       mask \<leftarrow> BitMask (s_distance_postfix_bits s);
       n \<leftarrow> get (bt_num_block_types (s_block_type_length_state s)) 0;
       let s = s\<lparr>s_distance_postfix_mask := sint mask,
                 s_context_modes := s_alloc_u8 s (unat n)\<rparr>;
       if length (s_context_modes s) = 0
       then Some (leave_with c BROTLI_DECODER_ERROR_ALLOC_CONTEXT_MODES s)
       else Some (fall_to c BROTLI_STATE_CONTEXT_MODES (s\<lparr>s_loop_counter := 0\<rparr>))
     }
   }"

definition do_context_modes :: "StreamCall \<Rightarrow> stream_flow option" where
  "do_context_modes c = do {
     r \<leftarrow> ReadContextModes (c_s c) (c_local_input c);
     on_success c r (\<lambda>c s. Some (fall_to c BROTLI_STATE_CONTEXT_MAP_1 s))
   }"

definition do_context_map_1 :: "StreamCall \<Rightarrow> stream_flow option" where
  "do_context_map_1 c = (let s = c_s c in do {
     n \<leftarrow> get (bt_num_block_types (s_block_type_length_state s)) 0;
     r \<leftarrow> DecodeContextMap (push_bit kLiteralContextBits (unat n)) False s (c_local_input c);
     on_success c r (\<lambda>c s. do {
       s \<leftarrow> DetectTrivialLiteralBlockTypes s;
       Some (fall_to c BROTLI_STATE_CONTEXT_MAP_2 s)
     })
   })"

text \<open>The groups of prefix codes of a metablock, allocated once their numbers are known.\<close>

definition init_tree_groups :: "u32 \<Rightarrow> u32 \<Rightarrow> BrotliState \<Rightarrow> BrotliState option" where
  "init_tree_groups num_distance_codes max_distance_symbol s = do {
     let s = s\<lparr>s_literal_hgroup := HuffmanTreeGroup_init (s_literal_hgroup s) (s_alloc_u32 s)
       (s_alloc_hc s) kNumLiteralCodes kNumLiteralCodes (ucast (s_num_literal_htrees s))\<rparr>;
     n \<leftarrow> get (bt_num_block_types (s_block_type_length_state s)) 1;
     let s = s\<lparr>s_insert_copy_hgroup := HuffmanTreeGroup_init (s_insert_copy_hgroup s) (s_alloc_u32 s)
       (s_alloc_hc s) kNumInsertAndCopyCodes kNumInsertAndCopyCodes (ucast n)\<rparr>;
     Some (s\<lparr>s_distance_hgroup := HuffmanTreeGroup_init (s_distance_hgroup s) (s_alloc_u32 s)
       (s_alloc_hc s) (ucast num_distance_codes) (ucast max_distance_symbol)
       (ucast (s_num_dist_htrees s))\<rparr>)
   }"

definition do_context_map_2 :: "StreamCall \<Rightarrow> stream_flow option" where
  "do_context_map_2 c = (let s = c_s c in do {
     let num_direct_codes = s_num_direct_distance_codes s - NUM_DISTANCE_SHORT_CODES;
     let num_distance_codes = BROTLI_DISTANCE_ALPHABET_SIZE (s_distance_postfix_bits s) num_direct_codes
       (if s_large_window s then BROTLI_LARGE_MAX_DISTANCE_BITS else BROTLI_MAX_DISTANCE_BITS);
     max_distance_symbol \<leftarrow>
       (if s_large_window s then BrotliMaxDistanceSymbol num_direct_codes (s_distance_postfix_bits s)
        else Some num_distance_codes);
     n \<leftarrow> get (bt_num_block_types (s_block_type_length_state s)) 2;
     r \<leftarrow> DecodeContextMap (push_bit (nat kDistanceContextBits) (unat n)) True s (c_local_input c);
     on_success c r (\<lambda>c s. do {
       s \<leftarrow> init_tree_groups num_distance_codes max_distance_symbol s;
       if length (hg_codes (s_literal_hgroup s)) = 0 \<or>
          length (hg_codes (s_insert_copy_hgroup s)) = 0 \<or>
          length (hg_codes (s_distance_hgroup s)) = 0
       then Some (ReturnCode BROTLI_DECODER_ERROR_UNREACHABLE (c\<lparr>c_s := s\<rparr>))
       else Some (fall_to c BROTLI_STATE_TREE_GROUP (s\<lparr>s_loop_counter := 0\<rparr>))
     })
   })"

definition do_tree_group :: "StreamCall \<Rightarrow> stream_flow option" where
  "do_tree_group c = do {
     r \<leftarrow> HuffmanTreeGroupDecode (s_loop_counter (c_s c)) (c_s c) (c_local_input c);
     on_success c r (\<lambda>c s. do {
       let s = s\<lparr>s_loop_counter := i32 (s_loop_counter s + 1)\<rparr>;
       if s_loop_counter s \<ge> 3 then do {
         s \<leftarrow> PrepareLiteralDecoding s;
         Some (leave_in c BROTLI_STATE_COMMAND_BEGIN
           (s\<lparr>s_dist_context_map_slice_index := 0, s_htree_command_index := 0\<rparr>))
       } else Some (Leave (c\<lparr>c_s := s\<rparr>))
     })
   }"

subsection \<open>Commands and output\<close>

definition do_commands :: "u8 list \<Rightarrow> StreamCall \<Rightarrow> stream_flow option" where
  "do_commands dict c = do {
     (result, s) \<leftarrow> ProcessCommands dict (c_s c) (c_local_input c);
     (result, s) \<leftarrow>
       (if result = BROTLI_DECODER_NEEDS_MORE_INPUT
        then SafeProcessCommands dict s (c_local_input c) else Some (result, s));
     Some (leave_with c result s)
   }"

text \<open>The state after the ring buffer was written out, by the state that asked for it.\<close>

definition state_after_write :: "BrotliState \<Rightarrow> BrotliRunningState" where
  "state_after_write s = (case s_state s of
     BROTLI_STATE_COMMAND_POST_WRITE_1 \<Rightarrow>
       (if s_meta_block_remaining_len s \<le> 0 then BROTLI_STATE_METABLOCK_DONE
        else BROTLI_STATE_COMMAND_BEGIN)
   | BROTLI_STATE_COMMAND_POST_WRITE_2 \<Rightarrow> BROTLI_STATE_COMMAND_POST_WRAP_COPY
   | _ \<Rightarrow>
       (if s_loop_counter s = 0 then
          if s_meta_block_remaining_len s \<le> 0 then BROTLI_STATE_METABLOCK_DONE
          else BROTLI_STATE_COMMAND_POST_DECODE_LITERALS
        else BROTLI_STATE_COMMAND_INNER))"

definition do_write :: "StreamCall \<Rightarrow> stream_flow option" where
  "do_write c = do {
     (result, written, out, s) \<leftarrow> WriteRingBuffer (c_out c) False (c_s c);
     on_success (c\<lparr>c_out := out\<rparr>) (result, s) (\<lambda>c s. do {
       s \<leftarrow> WrapRingBuffer s;
       let s = (if s_ringbuffer_size s = window_size s
                then s\<lparr>s_max_distance := s_max_backward_distance s\<rparr> else s);
       Some (leave_in c (state_after_write s) s)
     })
   }"

definition do_metablock_done :: "StreamCall \<Rightarrow> stream_flow option" where
  "do_metablock_done c = (let s = c_s c in
     if s_meta_block_remaining_len s < 0
     then Some (leave_with c BROTLI_DECODER_ERROR_FORMAT_BLOCK_LENGTH_2 s)
     else
      (let s = BrotliStateCleanupAfterMetablock s in
       if s_is_last_metablock s = 0 then Some (leave_in c BROTLI_STATE_METABLOCK_BEGIN s)
       else do {
         (ok, br) \<leftarrow> BrotliJumpToByteBoundary (s_br s);
         let s = s\<lparr>s_br := br\<rparr>;
         if \<not> ok then Some (leave_with c BROTLI_DECODER_ERROR_FORMAT_PADDING_2 s)
         else if s_buffer_length s = 0 then do {
           let s = s\<lparr>s_br := BrotliBitReaderUnload (s_br s)\<rparr>;
           Some (fall_to (c\<lparr>c_available_in := unat (br_avail_in (s_br s)),
                            c_input_offset := unat (br_next_in (s_br s))\<rparr>) BROTLI_STATE_DONE s)
         } else Some (fall_to c BROTLI_STATE_DONE s)
       }))"

definition do_done :: "StreamCall \<Rightarrow> stream_flow option" where
  "do_done c =
    (if length (s_ringbuffer (c_s c)) \<noteq> 0 then do {
       (result, written, out, s) \<leftarrow> WriteRingBuffer (c_out c) True (c_s c);
       on_success (c\<lparr>c_out := out\<rparr>) (result, s) (\<lambda>c s. Some (ReturnCode (c_result c) c))
     } else Some (ReturnCode (c_result c) c))"

subsection \<open>The loops\<close>

fun stream_step_in :: "BrotliRunningState \<Rightarrow> u8 list \<Rightarrow> StreamCall \<Rightarrow> stream_flow option" where
  "stream_step_in BROTLI_STATE_UNINITED dict c = do_uninited c"
| "stream_step_in BROTLI_STATE_LARGE_WINDOW_BITS dict c = do_large_window_bits c"
| "stream_step_in BROTLI_STATE_INITIALIZE dict c = Some (do_initialize c)"
| "stream_step_in BROTLI_STATE_METABLOCK_BEGIN dict c = Some (do_metablock_begin c)"
| "stream_step_in BROTLI_STATE_METABLOCK_HEADER dict c = do_metablock_header c"
| "stream_step_in BROTLI_STATE_UNCOMPRESSED dict c = do_uncompressed c"
| "stream_step_in BROTLI_STATE_METADATA dict c = do_metadata c"
| "stream_step_in BROTLI_STATE_HUFFMAN_CODE_0 dict c = do_huffman_code_0 c"
| "stream_step_in BROTLI_STATE_HUFFMAN_CODE_1 dict c = do_huffman_code_1 c"
| "stream_step_in BROTLI_STATE_HUFFMAN_CODE_2 dict c = do_huffman_code_2 c"
| "stream_step_in BROTLI_STATE_HUFFMAN_CODE_3 dict c = do_huffman_code_3 c"
| "stream_step_in BROTLI_STATE_METABLOCK_HEADER_2 dict c = do_metablock_header_2 c"
| "stream_step_in BROTLI_STATE_CONTEXT_MODES dict c = do_context_modes c"
| "stream_step_in BROTLI_STATE_CONTEXT_MAP_1 dict c = do_context_map_1 c"
| "stream_step_in BROTLI_STATE_CONTEXT_MAP_2 dict c = do_context_map_2 c"
| "stream_step_in BROTLI_STATE_TREE_GROUP dict c = do_tree_group c"
| "stream_step_in BROTLI_STATE_COMMAND_BEGIN dict c = do_commands dict c"
| "stream_step_in BROTLI_STATE_COMMAND_INNER dict c = do_commands dict c"
| "stream_step_in BROTLI_STATE_COMMAND_POST_DECODE_LITERALS dict c = do_commands dict c"
| "stream_step_in BROTLI_STATE_COMMAND_POST_WRAP_COPY dict c = do_commands dict c"
| "stream_step_in BROTLI_STATE_COMMAND_INNER_WRITE dict c = do_write c"
| "stream_step_in BROTLI_STATE_COMMAND_POST_WRITE_1 dict c = do_write c"
| "stream_step_in BROTLI_STATE_COMMAND_POST_WRITE_2 dict c = do_write c"
| "stream_step_in BROTLI_STATE_METABLOCK_DONE dict c = do_metablock_done c"
| "stream_step_in BROTLI_STATE_DONE dict c = do_done c"

definition stream_step :: "u8 list \<Rightarrow> StreamCall \<Rightarrow> stream_flow option" where
  "stream_step dict c = stream_step_in (s_state (c_s c)) dict c"

partial_function (option) inner_loop :: "u8 list \<Rightarrow> StreamCall \<Rightarrow> stream_flow option" where
  "inner_loop dict c = do {
     flow \<leftarrow> stream_step dict c;
     case flow of
       Fall c \<Rightarrow> inner_loop dict c
     | Leave c \<Rightarrow> Some (Leave c)
     | ReturnCode e c \<Rightarrow> Some (ReturnCode e c)
   }"

declare inner_loop.simps [code]

text \<open>
  The copy of the unread bytes of the input, fewer than eight, to the internal buffer at the end of
  a call.
\<close>

fun buffer_tail :: "u8 list \<Rightarrow> nat \<Rightarrow> nat \<Rightarrow> BrotliState \<Rightarrow> (nat \<times> BrotliState) option" where
  "buffer_tail xinput input_offset 0 s = Some (input_offset, s)"
| "buffer_tail xinput input_offset (Suc n) s = do {
     b \<leftarrow> get xinput input_offset;
     buffer \<leftarrow> put (s_buffer s) (unat (s_buffer_length s)) b;
     buffer_tail xinput (input_offset + 1) n
       (s\<lparr>s_buffer := buffer, s_buffer_length := s_buffer_length s + 1\<rparr>)
   }"

text \<open>The treatment of \<open>NEEDS_MORE_INPUT\<close>: \<open>Fall\<close> stands for \<open>continue\<close>, \<open>Leave\<close> for \<open>break\<close>.\<close>

definition needs_more_input :: "u8 list \<Rightarrow> StreamCall \<Rightarrow> stream_flow option" where
  "needs_more_input xinput c = do {
     (intermediate_result, out, s) \<leftarrow>
       (if length (s_ringbuffer (c_s c)) \<noteq> 0 then do {
          (r, written, out, s) \<leftarrow> WriteRingBuffer (c_out c) True (c_s c);
          Some (r, out, s)
        } else Some (BROTLI_DECODER_SUCCESS, c_out c, c_s c));
     let c = c\<lparr>c_out := out\<rparr>;
     if is_fatal intermediate_result then Some (leave_with c intermediate_result s)
     else if s_buffer_length s \<noteq> 0 then
       if br_avail_in (s_br s) = 0 then
         Some (Fall (c\<lparr>c_result := BROTLI_DECODER_SUCCESS, c_local_input := xinput,
                       c_s := s\<lparr>s_buffer_length := 0,
                                s_br := (s_br s)\<lparr>br_avail_in := of_nat (c_available_in c),
                                                 br_next_in := of_nat (c_input_offset c)\<rparr>\<rparr>\<rparr>))
       else if c_available_in c \<noteq> 0 then do {
         new_byte \<leftarrow> get xinput (c_input_offset c);
         buffer \<leftarrow> put (s_buffer s) (unat (s_buffer_length s)) new_byte;
         saved_byte \<leftarrow> get (c_saved_buffer c) (unat (s_buffer_length s));
         rassert (saved_byte = new_byte);
         Some (Fall (c\<lparr>c_result := BROTLI_DECODER_SUCCESS,
                       c_input_offset := c_input_offset c + 1, c_available_in := c_available_in c - 1,
                       c_s := s\<lparr>s_buffer := buffer, s_buffer_length := s_buffer_length s + 1,
                                s_br := (s_br s)\<lparr>br_avail_in := s_buffer_length s + 1\<rparr>\<rparr>\<rparr>))
       } else Some (Leave (c\<lparr>c_s := s\<rparr>))
     else do {
       (input_offset, s) \<leftarrow> buffer_tail xinput (unat (br_next_in (s_br s))) (unat (br_avail_in (s_br s))) s;
       Some (Leave (c\<lparr>c_input_offset := input_offset, c_available_in := 0, c_s := s\<rparr>))
     }
   }"

text \<open>The end of a call with an error or with a need for more output.\<close>

definition finish_call :: "StreamCall \<Rightarrow> StreamCall" where
  "finish_call c = (let s = c_s c in
     if s_buffer_length s \<noteq> 0 then c\<lparr>c_s := s\<lparr>s_buffer_length := 0\<rparr>\<rparr>
     else (let br = BrotliBitReaderUnload (s_br s)
           in c\<lparr>c_available_in := unat (br_avail_in br), c_input_offset := unat (br_next_in br),
                c_s := s\<lparr>s_br := br\<rparr>\<rparr>))"

partial_function (option) stream_loop ::
  "u8 list \<Rightarrow> u8 list \<Rightarrow> StreamCall \<Rightarrow> (BrotliDecoderErrorCode \<times> StreamCall) option" where
  "stream_loop dict xinput c =
    (if c_result c = BROTLI_DECODER_SUCCESS then do {
       flow \<leftarrow> inner_loop dict c;
       case flow of
         Fall c \<Rightarrow> None
       | Leave c \<Rightarrow> stream_loop dict xinput c
       | ReturnCode e c \<Rightarrow> Some (e, c)
     } else if c_result c = BROTLI_DECODER_NEEDS_MORE_INPUT then do {
       flow \<leftarrow> needs_more_input xinput c;
       case flow of
         Fall c \<Rightarrow> stream_loop dict xinput c
       | Leave c \<Rightarrow> Some (c_result c, c)
       | ReturnCode e c \<Rightarrow> Some (e, c)
     } else Some (c_result c, finish_call c))"

declare stream_loop.simps [code]

text \<open>The start of a call: read from the caller's input, or from the bytes saved by earlier calls.\<close>

definition start_call :: "nat \<Rightarrow> nat \<Rightarrow> u8 list \<Rightarrow> Output \<Rightarrow> BrotliState \<Rightarrow> StreamCall option" where
  "start_call available_in input_offset xinput out s =
    (let c = \<lparr>c_available_in = available_in, c_input_offset = input_offset, c_out = out,
              c_result = BROTLI_DECODER_SUCCESS, c_saved_buffer = s_buffer s,
              c_local_input = xinput, c_s = s\<rparr>
     in if s_buffer_length s = 0
        then Some (c\<lparr>c_s := s\<lparr>s_br := (s_br s)\<lparr>br_avail_in := of_nat available_in,
                                                br_next_in := of_nat input_offset\<rparr>\<rparr>\<rparr>)
        else do {
          let used = unat (s_buffer_length s);
          let copy_len = min (usize_sub (length (s_buffer s)) used) available_in;
          (saved_buffer, buffer) \<leftarrow>
            (if copy_len > 0 then do {
               bytes \<leftarrow> slice xinput input_offset (copy_len + input_offset);
               saved_buffer \<leftarrow> overwrite (s_buffer s) used bytes;
               buffer \<leftarrow> overwrite (s_buffer s) used bytes;
               Some (saved_buffer, buffer)
             } else Some (s_buffer s, s_buffer s));
          Some (c\<lparr>c_result := BROTLI_DECODER_NEEDS_MORE_INPUT,
                  c_saved_buffer := saved_buffer, c_local_input := saved_buffer,
                  c_s := s\<lparr>s_buffer := buffer, s_br := (s_br s)\<lparr>br_next_in := 0\<rparr>\<rparr>\<rparr>)
        })"

text \<open>\<open>a.checked_add(b)\<close> of two \<open>usize\<close> is at most \<open>len\<close>.\<close>

definition range_in :: "nat \<Rightarrow> nat \<Rightarrow> nat \<Rightarrow> bool" where
  "range_in a b len \<longleftrightarrow> a + b < 18446744073709551616 \<and> a + b \<le> len"

text \<open>
  The result is the \<open>BrotliResult\<close>, the new \<open>available_in\<close> and \<open>input_offset\<close>, the output and the
  state. The static dictionary \<open>dict\<close> is the table of \<open>src/dictionary/mod.rs\<close>.
\<close>

definition BrotliDecompressStream ::
  "u8 list \<Rightarrow> nat \<Rightarrow> nat \<Rightarrow> u8 list \<Rightarrow> Output \<Rightarrow> BrotliState \<Rightarrow>
     (BrotliResult \<times> nat \<times> nat \<times> Output \<times> BrotliState) option" where
  "BrotliDecompressStream dict available_in input_offset xinput out s =
    (let refuse = (let (r, s) = SaveErrorCode s BROTLI_DECODER_ERROR_INVALID_ARGUMENTS
                   in Some (r, available_in, input_offset, out, s));
         output = (case o_output out of Some output \<Rightarrow> output | None \<Rightarrow> [])
     in if is_fatal (s_error_code s) then Some (ResultFailure, available_in, input_offset, out, s)
        else if available_in \<ge> 4294967296 then refuse
        else if input_offset \<ge> 4294967296 then refuse
        else if \<not> range_in input_offset available_in (length xinput) then refuse
        else if \<not> range_in (o_output_offset out) (o_available_out out) (length output) then refuse
        else do {
          c \<leftarrow> start_call available_in input_offset xinput out s;
          (e, c) \<leftarrow> stream_loop dict xinput c;
          let (r, s) = SaveErrorCode (c_s c) e;
          Some (r, c_available_in c, c_input_offset c, c_out c, s)
        })"

end
