(* ===== verification/Spec2Isabelle.thy ===== *)
theory Spec2Isabelle
  imports Bit_Contract Context_Map_Spec Symbol_Spec Dictionary Prefix_Codes Context_Table Transform_Word Header_Spec
    Block_Spec Command_Spec Distance_Spec Ring_Spec Stream
begin

text \<open>
  A model of the Brotli decompressor of this repository.
\<close>

end
